(* ===== verification/Prelude.thy ===== *)
theory Prelude
  imports Complex_Main "HOL-Library.Word"
begin

text \<open>
  Shared vocabulary of the development: the C integer types as words, the collections the
  component proofs draw on, the generic facts on single bits of a register word, and the
  interface of a bank of named cells (a port whose cells are written and read one by one), which
  the GPIO outputs, the GPIO directions and the PWM compare registers all implement.
\<close>

unbundle bit_operations_syntax

section \<open>C integer types\<close>

type_synonym u8 = "8 word"
type_synonym u16 = "16 word"
type_synonym u32 = "32 word"
type_synonym u64 = "64 word"
type_synonym s16 = "16 word"
type_synonym s64 = "64 word"

section \<open>Fact collections\<close>

named_theorems pin_defs \<open>the pin numbers of the board headers\<close>
named_theorems obs_simps \<open>what one operation does to one observation of the machine state\<close>
named_theorems drv_defs \<open>driver operations, unfolded to the SDK calls they make\<close>

section \<open>Bits of a register word\<close>

definition pin_mask :: "u32 \<Rightarrow> u32" where
  "pin_mask g = push_bit (unat g) 1"

lemma bit_pin_mask: "unat g < 32 \<Longrightarrow> bit (pin_mask g) k \<longleftrightarrow> k = unat g"
  by (auto simp: pin_mask_def push_bit_of_1 bit_exp_iff)

lemma unat_less_30: "g < 30 \<Longrightarrow> unat (g :: u32) < 30"
  by (simp add: word_less_nat_alt)

lemma word_chop_upper: "bit (w :: 'a::len word) k \<Longrightarrow> k < LENGTH('a)"
  by (rule bit_imp_le_length)

text \<open>Two words that agree on every bit of their width are equal.\<close>

lemma word_bits_eqI:
  assumes "\<And>k. k < LENGTH('a) \<Longrightarrow> bit v k \<longleftrightarrow> bit w k"
  shows "(v :: 'a::len word) = w"
  using assms by (rule bit_word_eqI)

lemma ucast_up_down [simp]:
  "ucast (ucast (w :: u16) :: u32) = w" "ucast (ucast (b :: u8) :: u16) = b"
  "ucast (ucast (b :: u8) :: u32) = b"
  by (rule word_bits_eqI; simp add: bit_ucast_iff)+

section \<open>A bank of cells\<close>

text \<open>
  A bank is a set of addressable cells of some state: \<open>put\<close> writes one cell, \<open>get\<close> reads one
  back. The two laws are those of an array of independent cells; every fact about a sequence of
  writes follows from them.
\<close>

locale cell_bank =
  fixes valid :: "'c \<Rightarrow> bool"
    and put :: "'c \<Rightarrow> 'v \<Rightarrow> 's \<Rightarrow> 's"
    and get :: "'s \<Rightarrow> 'c \<Rightarrow> 'v"
  assumes get_put_same: "valid c \<Longrightarrow> get (put c v s) c = v"
    and get_put_other: "valid c \<Longrightarrow> valid d \<Longrightarrow> d \<noteq> c \<Longrightarrow> get (put c v s) d = get s d"
begin

lemma get_put:
  "valid c \<Longrightarrow> valid d \<Longrightarrow> get (put c v s) d = (if d = c then v else get s d)"
  by (simp add: get_put_same get_put_other)

text \<open>Writing a list of cells in order: the last write to a cell is the one that is read.\<close>

lemma get_fold_put:
  assumes "\<forall>p \<in> set ws. valid (fst p)" and "valid d"
  shows "get (fold (\<lambda>p. put (fst p) (snd p)) ws s) d
    = (case map_of (rev ws) d of None \<Rightarrow> get s d | Some v \<Rightarrow> v)"
  using assms(1)
proof (induction ws arbitrary: s)
  case Nil
  then show ?case by simp
next
  case (Cons w ws)
  obtain c v where w: "w = (c, v)" by (cases w)
  from Cons.prems w have "valid c" by simp
  with Cons assms(2) w show ?case
    by (auto simp: get_put map_add_def split: option.splits)
qed

text \<open>Writes to different cells commute, as far as any cell can tell.\<close>

lemma put_commute:
  assumes "valid c" and "valid d" and "c \<noteq> d" and "valid e"
  shows "get (put c v (put d w s)) e = get (put d w (put c v s)) e"
  using assms by (simp add: get_put)

end

end
