(* ===== verification/Mcu.thy ===== *)
theory Mcu
  imports Prelude
begin

text \<open>
  The state of the RP2040 as the firmware sees it. The registers are those of the SDK's structs
  (under src/arduino/mbed/targets/TARGET_RASPBERRYPI/TARGET_RP2040/pico-sdk/): the SIO output and
  output-enable words, the eight PWM slices, the ADC control register, the interrupt mask and the
  function each pin is multiplexed to. What the code cannot decide is a parameter, the record
  \<open>board\<close>: the inputs of the outside world (pin levels, clock, ADC samples, UART bytes, I2C
  answers), one value per volatile read, and the SDK functions whose bodies are not under src/
  (gpio.c, adc.c, i2c.c and the cyw43 driver). Calls that only cause output (sleeping, printing,
  sending on the UART, registering the web server's handlers) are recorded in \<open>calls\<close>, in the
  order the code makes them.
\<close>

section \<open>Registers\<close>

datatype gpio_function =
    GPIO_FUNC_XIP | GPIO_FUNC_SPI | GPIO_FUNC_UART | GPIO_FUNC_I2C | GPIO_FUNC_PWM
  | GPIO_FUNC_SIO | GPIO_FUNC_PIO0 | GPIO_FUNC_PIO1 | GPIO_FUNC_GPCK | GPIO_FUNC_USB
  | GPIO_FUNC_NULL

record pwm_slice_hw =
  csr :: u32
  div_reg :: u32
  ctr :: u32
  cc :: u32
  top_reg :: u32

text \<open>The two UARTs and the registers their configuration writes.\<close>

datatype uart_inst = Uart0 | Uart1

record uart_hw =
  uart_cr :: u32
  uart_lcr_h :: u32
  uart_imsc :: u32
  uart_ifls :: u32

text \<open>The arguments of a formatted print, before formatting.\<close>

datatype print_arg = Str_arg string | Int_arg int | Flt_arg rat

datatype call =
    Sleep_us u64
  | Sleep_ms u32
  | Printf string "print_arg list"
  | Putchar char
  | Uart_tx char
  | Uart_init u32
  | I2c_init u32
  | I2c_write u8 "u8 list" bool
  | I2c_read u8 nat bool
  | Stdio_init_all
  | Wl_arch_init
  | Wl_gpio_put u32 bool
  | Wl_enable_sta_mode
  | Wl_connect string string u32
  | Httpd_init
  | Http_set_cgi_handlers "string list"
  | Http_set_ssi_handler "string list"

record mcu =
  gpio_out :: u32
  gpio_oe :: u32
  funcsel :: "u32 \<Rightarrow> gpio_function"
  pads :: "u32 \<Rightarrow> u32"
  slices :: "u32 \<Rightarrow> pwm_slice_hw"
  pwm_inte :: u32
  pwm_intr :: u32
  pwm_intf :: u32
  adc_cs :: u32
  adc_div :: u32
  adc_fcs :: u32
  adc_inte :: u32
  primask :: u32
  uarts :: "uart_inst \<Rightarrow> uart_hw"
  uart_line_feed :: "char option"
  rx_fifo :: string
  reads :: nat
  calls :: "call list"

section \<open>The board: inputs and external code\<close>

text \<open>
  An input stream gives the value of the \<open>n\<close>-th volatile read of the run. What an I2C device
  answers may also depend on everything sent so far, its register pointer for instance.
\<close>

record board =
  gpio_in_at :: "nat \<Rightarrow> u32"
  time_us_at :: "nat \<Rightarrow> u64"
  adc_ready_at :: "nat \<Rightarrow> bool"
  adc_result_at :: "nat \<Rightarrow> u32 \<Rightarrow> u16"
  uart_writable_at :: "nat \<Rightarrow> bool"
  uart_rx_at :: "nat \<Rightarrow> string"
  i2c_write_at :: "nat \<Rightarrow> u8 \<Rightarrow> u8 list \<Rightarrow> int"
  i2c_read_at :: "call list \<Rightarrow> nat \<Rightarrow> u8 \<Rightarrow> nat \<Rightarrow> int \<times> (nat \<Rightarrow> u8)"
  wl_gpio_at :: "nat \<Rightarrow> u32 \<Rightarrow> bool"
  wl_connect_at :: "nat \<Rightarrow> int"
  wl_init_at :: "nat \<Rightarrow> int"
  wl_ip_text :: string
  gpio_init :: "u32 \<Rightarrow> mcu \<Rightarrow> mcu"
  gpio_set_function :: "u32 \<Rightarrow> gpio_function \<Rightarrow> mcu \<Rightarrow> mcu"
  gpio_set_pulls :: "u32 \<Rightarrow> bool \<Rightarrow> bool \<Rightarrow> mcu \<Rightarrow> mcu"
  gpio_set_input_enabled :: "u32 \<Rightarrow> bool \<Rightarrow> mcu \<Rightarrow> mcu"
  adc_init :: "mcu \<Rightarrow> mcu"

text \<open>Every volatile read takes the next value of its input stream.\<close>

definition tick :: "mcu \<Rightarrow> mcu" where
  "tick s = s\<lparr>reads := Suc (reads s)\<rparr>"

definition emit :: "call \<Rightarrow> mcu \<Rightarrow> mcu" where
  "emit c s = s\<lparr>calls := calls s @ [c]\<rparr>"

text \<open>The LED of the wireless module (the board header of the Pico W numbers it 0).\<close>

definition CYW43_WL_GPIO_LED_PIN :: u32 where "CYW43_WL_GPIO_LED_PIN = 0"

text \<open>The newline of the format strings.\<close>

definition NL :: string where "NL = [CHR 0x0A]"

abbreviation sleep_us :: "u64 \<Rightarrow> mcu \<Rightarrow> mcu" where
  "sleep_us us \<equiv> emit (Sleep_us us)"

abbreviation sleep_ms :: "u32 \<Rightarrow> mcu \<Rightarrow> mcu" where
  "sleep_ms ms \<equiv> emit (Sleep_ms ms)"

abbreviation printf :: "string \<Rightarrow> print_arg list \<Rightarrow> mcu \<Rightarrow> mcu" where
  "printf fmt args \<equiv> emit (Printf fmt args)"

lemma tick_frame [obs_simps]:
  "gpio_out (tick s) = gpio_out s" "gpio_oe (tick s) = gpio_oe s"
  "funcsel (tick s) = funcsel s" "pads (tick s) = pads s" "slices (tick s) = slices s"
  "adc_cs (tick s) = adc_cs s" "primask (tick s) = primask s"
  "rx_fifo (tick s) = rx_fifo s" "calls (tick s) = calls s"
  "pwm_inte (tick s) = pwm_inte s" "reads (tick s) = Suc (reads s)"
  by (simp_all add: tick_def)

lemma emit_frame [obs_simps]:
  "gpio_out (emit c s) = gpio_out s" "gpio_oe (emit c s) = gpio_oe s"
  "funcsel (emit c s) = funcsel s" "pads (emit c s) = pads s" "slices (emit c s) = slices s"
  "adc_cs (emit c s) = adc_cs s" "primask (emit c s) = primask s"
  "rx_fifo (emit c s) = rx_fifo s" "reads (emit c s) = reads s"
  "pwm_inte (emit c s) = pwm_inte s" "calls (emit c s) = calls s @ [c]"
  by (simp_all add: emit_def)

section \<open>Polling\<close>

text \<open>
  The SDK's \<open>while (!ready) tight_loop_contents()\<close>: each test is a volatile read. The function
  is partial, \<open>None\<close> is waiting for ever.
\<close>

partial_function (option) poll_until :: "(nat \<Rightarrow> bool) \<Rightarrow> mcu \<Rightarrow> mcu option" where
  "poll_until ready s = (if ready (reads s) then Some (tick s) else poll_until ready (tick s))"

definition first_ready :: "(nat \<Rightarrow> bool) \<Rightarrow> nat \<Rightarrow> nat \<Rightarrow> bool" where
  "first_ready ready i n \<longleftrightarrow> i \<le> n \<and> ready n \<and> (\<forall>m. i \<le> m \<and> m < n \<longrightarrow> \<not> ready m)"

lemma poll_until_first:
  assumes "first_ready ready (reads s) n"
  shows "poll_until ready s = Some (s\<lparr>reads := Suc n\<rparr>)"
  using assms
proof (induction "n - reads s" arbitrary: s)
  case 0
  then have "n = reads s" and "ready n" by (auto simp: first_ready_def)
  then show ?case by (subst poll_until.simps) (simp add: tick_def)
next
  case (Suc k)
  from Suc.prems Suc.hyps(2) have no: "\<not> ready (reads s)"
    and nxt: "first_ready ready (reads (tick s)) n"
    by (auto simp: first_ready_def tick_def)
  have "k = n - reads (tick s)" using Suc.hyps(2) by (simp add: tick_def)
  then have "poll_until ready (tick s) = Some ((tick s)\<lparr>reads := Suc n\<rparr>)"
    using nxt by (rule Suc.hyps(1))
  with no show ?case by (subst poll_until.simps) (simp add: tick_def)
qed

lemma first_ready_exists:
  assumes "ready k" and "i \<le> k"
  shows "\<exists>n. first_ready ready i n"
proof -
  let ?P = "\<lambda>n. i \<le> n \<and> ready n"
  have "?P (LEAST n. ?P n)" using assms by (intro LeastI [of ?P k]) simp
  moreover have "\<not> ready m" if "i \<le> m" and "m < (LEAST n. ?P n)" for m
    using not_less_Least [OF that(2)] that(1) by simp
  ultimately show ?thesis unfolding first_ready_def by blast
qed

lemma poll_until_cong:
  "ready (reads s) \<Longrightarrow> poll_until ready s = Some (tick s)"
  by (subst poll_until.simps) simp

section \<open>Register access (hardware/address\_mapped.h)\<close>

text \<open>
  A write to one of the atomic aliases of a register combines the mask with the register's
  value. The functions take the register's value and return the new one.
\<close>

definition hw_set_bits :: "u32 \<Rightarrow> u32 \<Rightarrow> u32" where
  "hw_set_bits r m = r OR m"

definition hw_clear_bits :: "u32 \<Rightarrow> u32 \<Rightarrow> u32" where
  "hw_clear_bits r m = r AND NOT m"

definition hw_xor_bits :: "u32 \<Rightarrow> u32 \<Rightarrow> u32" where
  "hw_xor_bits r m = r XOR m"

definition hw_write_masked :: "u32 \<Rightarrow> u32 \<Rightarrow> u32 \<Rightarrow> u32" where
  "hw_write_masked r values write_mask = hw_xor_bits r ((r XOR values) AND write_mask)"

lemma bit_hw_set_bits: "bit (hw_set_bits r m) k \<longleftrightarrow> bit r k \<or> bit m k"
  by (simp add: hw_set_bits_def bit_or_iff)

lemma bit_hw_clear_bits: "bit (hw_clear_bits r m) k \<longleftrightarrow> bit r k \<and> \<not> bit m k"
  by (auto simp: hw_clear_bits_def bit_and_iff bit_not_iff dest: word_chop_upper)

lemma bit_hw_write_masked:
  "bit (hw_write_masked r v m) k \<longleftrightarrow> (if bit m k then bit v k else bit r k)"
  by (auto simp: hw_write_masked_def hw_xor_bits_def bit_and_iff bit_xor_iff)

text \<open>The doubly xored form is the plain read-modify-write.\<close>

lemma hw_write_masked_rmw: "hw_write_masked r v m = (r AND NOT m) OR (v AND m)"
  by (rule word_bits_eqI)
    (auto simp: bit_hw_write_masked bit_or_iff bit_and_iff bit_not_iff)

end
