(* ===== verification/Gpio.thy ===== *)
theory Gpio
  imports Mcu
begin

text \<open>
  The pin operations of hardware/gpio.h: output levels and directions through the SIO registers,
  input levels, and the documented behaviour of the pin functions whose bodies are in gpio.c,
  which is not under src/. The output levels and the directions are each interpreted as a bank
  of cells.
\<close>

section \<open>Output levels\<close>

text \<open>Only bits 29 down to 0 of the SIO output and output-enable words exist.\<close>

definition SIO_PIN_BITS :: u32 where
  "SIO_PIN_BITS = 0x3fffffff"

definition gpio_set_mask :: "u32 \<Rightarrow> mcu \<Rightarrow> mcu" where
  "gpio_set_mask m s = s\<lparr>gpio_out := hw_set_bits (gpio_out s) (m AND SIO_PIN_BITS)\<rparr>"

definition gpio_clr_mask :: "u32 \<Rightarrow> mcu \<Rightarrow> mcu" where
  "gpio_clr_mask m s = s\<lparr>gpio_out := hw_clear_bits (gpio_out s) (m AND SIO_PIN_BITS)\<rparr>"

definition gpio_xor_mask :: "u32 \<Rightarrow> mcu \<Rightarrow> mcu" where
  "gpio_xor_mask m s = s\<lparr>gpio_out := hw_xor_bits (gpio_out s) (m AND SIO_PIN_BITS)\<rparr>"

definition gpio_put_masked :: "u32 \<Rightarrow> u32 \<Rightarrow> mcu \<Rightarrow> mcu" where
  "gpio_put_masked m v s = gpio_xor_mask ((gpio_out s XOR v) AND m) s"

definition gpio_put_all :: "u32 \<Rightarrow> mcu \<Rightarrow> mcu" where
  "gpio_put_all v s = s\<lparr>gpio_out := v AND SIO_PIN_BITS\<rparr>"

definition gpio_put :: "u32 \<Rightarrow> bool \<Rightarrow> mcu \<Rightarrow> mcu" where
  "gpio_put gpio v s =
     (let m = pin_mask gpio in if v then gpio_set_mask m s else gpio_clr_mask m s)"

definition gpio_get_out_level :: "mcu \<Rightarrow> u32 \<Rightarrow> bool" where
  "gpio_get_out_level s gpio \<longleftrightarrow> gpio_out s AND pin_mask gpio \<noteq> 0"

section \<open>Directions\<close>

definition gpio_set_dir_out_masked :: "u32 \<Rightarrow> mcu \<Rightarrow> mcu" where
  "gpio_set_dir_out_masked m s = s\<lparr>gpio_oe := hw_set_bits (gpio_oe s) (m AND SIO_PIN_BITS)\<rparr>"

definition gpio_set_dir_in_masked :: "u32 \<Rightarrow> mcu \<Rightarrow> mcu" where
  "gpio_set_dir_in_masked m s = s\<lparr>gpio_oe := hw_clear_bits (gpio_oe s) (m AND SIO_PIN_BITS)\<rparr>"

definition gpio_set_dir_masked :: "u32 \<Rightarrow> u32 \<Rightarrow> mcu \<Rightarrow> mcu" where
  "gpio_set_dir_masked m v s =
     s\<lparr>gpio_oe := hw_xor_bits (gpio_oe s) ((gpio_oe s XOR v) AND m AND SIO_PIN_BITS)\<rparr>"

definition gpio_set_dir_all_bits :: "u32 \<Rightarrow> mcu \<Rightarrow> mcu" where
  "gpio_set_dir_all_bits v s = s\<lparr>gpio_oe := v AND SIO_PIN_BITS\<rparr>"

definition gpio_set_dir :: "u32 \<Rightarrow> bool \<Rightarrow> mcu \<Rightarrow> mcu" where
  "gpio_set_dir gpio out s =
     (let m = pin_mask gpio in
      if out then gpio_set_dir_out_masked m s else gpio_set_dir_in_masked m s)"

definition gpio_is_dir_out :: "mcu \<Rightarrow> u32 \<Rightarrow> bool" where
  "gpio_is_dir_out s gpio \<longleftrightarrow> gpio_oe s AND pin_mask gpio \<noteq> 0"

definition gpio_get_dir :: "mcu \<Rightarrow> u32 \<Rightarrow> u32" where
  "gpio_get_dir s gpio = of_bool (gpio_is_dir_out s gpio)"

abbreviation (input) GPIO_OUT :: bool where "GPIO_OUT \<equiv> True"
abbreviation (input) GPIO_IN :: bool where "GPIO_IN \<equiv> False"

section \<open>Inputs\<close>

definition gpio_get :: "board \<Rightarrow> u32 \<Rightarrow> mcu \<Rightarrow> bool \<times> mcu" where
  "gpio_get B gpio s = (pin_mask gpio AND gpio_in_at B (reads s) \<noteq> 0, tick s)"

definition gpio_get_all :: "board \<Rightarrow> mcu \<Rightarrow> u32 \<times> mcu" where
  "gpio_get_all B s = (gpio_in_at B (reads s), tick s)"

section \<open>Pulls\<close>

definition PUE_BITS :: u32 where "PUE_BITS = 0x8"
definition PDE_BITS :: u32 where "PDE_BITS = 0x4"

definition gpio_pull_up :: "board \<Rightarrow> u32 \<Rightarrow> mcu \<Rightarrow> mcu" where
  "gpio_pull_up B gpio = gpio_set_pulls B gpio True False"

definition gpio_pull_down :: "board \<Rightarrow> u32 \<Rightarrow> mcu \<Rightarrow> mcu" where
  "gpio_pull_down B gpio = gpio_set_pulls B gpio False True"

definition gpio_disable_pulls :: "board \<Rightarrow> u32 \<Rightarrow> mcu \<Rightarrow> mcu" where
  "gpio_disable_pulls B gpio = gpio_set_pulls B gpio False False"

definition gpio_is_pulled_up :: "mcu \<Rightarrow> u32 \<Rightarrow> bool" where
  "gpio_is_pulled_up s gpio \<longleftrightarrow> pads s gpio AND PUE_BITS \<noteq> 0"

definition gpio_is_pulled_down :: "mcu \<Rightarrow> u32 \<Rightarrow> bool" where
  "gpio_is_pulled_down s gpio \<longleftrightarrow> pads s gpio AND PDE_BITS \<noteq> 0"

section \<open>Single bits\<close>

lemma and_pin_mask_nonzero: "w AND pin_mask g \<noteq> 0 \<longleftrightarrow> bit w (unat g)"
  by (simp add: pin_mask_def push_bit_of_1 and_exp_eq_0_iff_not_bit)

lemma pin_mask_and_nonzero: "pin_mask g AND w \<noteq> 0 \<longleftrightarrow> bit w (unat g)"
  using and_pin_mask_nonzero [of w g] by (simp add: and.commute)

lemma bit_SIO_PIN_BITS: "bit SIO_PIN_BITS k \<longleftrightarrow> k < 30"
proof -
  have *: "SIO_PIN_BITS = mask 30" by (simp add: SIO_PIN_BITS_def mask_numeral)
  show ?thesis unfolding * by (auto simp: bit_mask_iff)
qed

lemma bit_masked_pin:
  assumes "g < 30"
  shows "bit (pin_mask g AND SIO_PIN_BITS) k \<longleftrightarrow> k = unat g"
  using unat_less_30 [OF assms]
  by (auto simp: bit_and_iff bit_pin_mask bit_SIO_PIN_BITS)

lemma gpio_get_out_level_bit: "gpio_get_out_level s g \<longleftrightarrow> bit (gpio_out s) (unat g)"
  by (simp add: gpio_get_out_level_def and_pin_mask_nonzero)

lemma gpio_is_dir_out_bit: "gpio_is_dir_out s g \<longleftrightarrow> bit (gpio_oe s) (unat g)"
  by (simp add: gpio_is_dir_out_def and_pin_mask_nonzero)

section \<open>The two banks\<close>

interpretation levels: cell_bank "\<lambda>g. g < 30" gpio_put gpio_get_out_level
proof unfold_locales
  fix c v s
  assume c: "(c :: u32) < 30"
  then show "gpio_get_out_level (gpio_put c v s) c = v"
    by (simp add: gpio_get_out_level_bit gpio_put_def Let_def gpio_set_mask_def gpio_clr_mask_def
        bit_hw_set_bits bit_hw_clear_bits bit_masked_pin)
next
  fix c d v s
  assume "(c :: u32) < 30" and "(d :: u32) < 30" and "d \<noteq> c"
  then show "gpio_get_out_level (gpio_put c v s) d = gpio_get_out_level s d"
    by (simp add: gpio_get_out_level_bit gpio_put_def Let_def gpio_set_mask_def gpio_clr_mask_def
        bit_hw_set_bits bit_hw_clear_bits bit_masked_pin word_unat_eq_iff)
qed

interpretation dirs: cell_bank "\<lambda>g. g < 30" gpio_set_dir gpio_is_dir_out
proof unfold_locales
  fix c v s
  assume c: "(c :: u32) < 30"
  then show "gpio_is_dir_out (gpio_set_dir c v s) c = v"
    by (simp add: gpio_is_dir_out_bit gpio_set_dir_def Let_def gpio_set_dir_out_masked_def
        gpio_set_dir_in_masked_def bit_hw_set_bits bit_hw_clear_bits bit_masked_pin)
next
  fix c d v s
  assume "(c :: u32) < 30" and "(d :: u32) < 30" and "d \<noteq> c"
  then show "gpio_is_dir_out (gpio_set_dir c v s) d = gpio_is_dir_out s d"
    by (simp add: gpio_is_dir_out_bit gpio_set_dir_def Let_def gpio_set_dir_out_masked_def
        gpio_set_dir_in_masked_def bit_hw_set_bits bit_hw_clear_bits bit_masked_pin
        word_unat_eq_iff)
qed

lemmas level_simps = levels.get_put dirs.get_put

declare level_simps [obs_simps]

end
