(* ===== verification/Pwm.thy ===== *)
theory Pwm
  imports Gpio
begin

text \<open>
  The PWM block of hardware/pwm.h: eight slices, each with a counter that wraps at TOP, a clock
  divider and two compare values packed in one register (channel A low, channel B high). A pin
  drives one channel of one slice. The compare values are interpreted as a bank of cells.
\<close>

section \<open>Fields of the slice registers\<close>

definition PWM_CH0_CSR_EN_BITS :: u32 where "PWM_CH0_CSR_EN_BITS = 0x1"
definition PWM_CH0_CSR_PH_CORRECT_BITS :: u32 where "PWM_CH0_CSR_PH_CORRECT_BITS = 0x2"
definition PWM_CH0_CSR_A_INV_BITS :: u32 where "PWM_CH0_CSR_A_INV_BITS = 0x4"
definition PWM_CH0_CSR_B_INV_BITS :: u32 where "PWM_CH0_CSR_B_INV_BITS = 0x8"
definition PWM_CH0_CSR_DIVMODE_BITS :: u32 where "PWM_CH0_CSR_DIVMODE_BITS = 0x30"
definition PWM_CH0_CSR_BITS :: u32 where "PWM_CH0_CSR_BITS = 0xff"
definition PWM_CH0_DIV_BITS :: u32 where "PWM_CH0_DIV_BITS = 0xfff"
definition PWM_CH0_CC_A_BITS :: u32 where "PWM_CH0_CC_A_BITS = 0xffff"
definition PWM_CH0_CC_B_BITS :: u32 where "PWM_CH0_CC_B_BITS = 0xffff0000"

definition bool_to_bit :: "bool \<Rightarrow> u32" where
  "bool_to_bit x = of_bool x"

datatype pwm_clkdiv_mode =
  PWM_DIV_FREE_RUNNING | PWM_DIV_B_HIGH | PWM_DIV_B_RISING | PWM_DIV_B_FALLING

fun clkdiv_mode_value :: "pwm_clkdiv_mode \<Rightarrow> u32" where
  "clkdiv_mode_value PWM_DIV_FREE_RUNNING = 0"
| "clkdiv_mode_value PWM_DIV_B_HIGH = 1"
| "clkdiv_mode_value PWM_DIV_B_RISING = 2"
| "clkdiv_mode_value PWM_DIV_B_FALLING = 3"

section \<open>Configuration objects\<close>

record pwm_config =
  c_csr :: u32
  c_div :: u32
  c_top :: u32

definition pwm_config_set_phase_correct :: "bool \<Rightarrow> pwm_config \<Rightarrow> pwm_config" where
  "pwm_config_set_phase_correct phase_correct c =
     c\<lparr>c_csr := (c_csr c AND NOT PWM_CH0_CSR_PH_CORRECT_BITS)
        OR push_bit 1 (bool_to_bit phase_correct)\<rparr>"

text \<open>The product with 16 is exact in binary32, so the cast truncates the real product.\<close>

definition pwm_config_set_clkdiv :: "rat \<Rightarrow> pwm_config \<Rightarrow> pwm_config" where
  "pwm_config_set_clkdiv d c = c\<lparr>c_div := word_of_int \<lfloor>d * 16\<rfloor>\<rparr>"

definition pwm_config_set_clkdiv_int :: "u32 \<Rightarrow> pwm_config \<Rightarrow> pwm_config" where
  "pwm_config_set_clkdiv_int d c = c\<lparr>c_div := push_bit 4 d\<rparr>"

definition pwm_config_set_clkdiv_mode :: "pwm_clkdiv_mode \<Rightarrow> pwm_config \<Rightarrow> pwm_config" where
  "pwm_config_set_clkdiv_mode m c =
     c\<lparr>c_csr := (c_csr c AND NOT PWM_CH0_CSR_DIVMODE_BITS) OR push_bit 4 (clkdiv_mode_value m)\<rparr>"

definition pwm_config_set_output_polarity :: "bool \<Rightarrow> bool \<Rightarrow> pwm_config \<Rightarrow> pwm_config" where
  "pwm_config_set_output_polarity a b c =
     c\<lparr>c_csr := (c_csr c AND NOT (PWM_CH0_CSR_A_INV_BITS OR PWM_CH0_CSR_B_INV_BITS))
        OR (push_bit 2 (bool_to_bit a) OR push_bit 3 (bool_to_bit b))\<rparr>"

definition pwm_config_set_wrap :: "u16 \<Rightarrow> pwm_config \<Rightarrow> pwm_config" where
  "pwm_config_set_wrap wrap c = c\<lparr>c_top := ucast wrap\<rparr>"

definition pwm_get_default_config :: pwm_config where
  "pwm_get_default_config =
     pwm_config_set_wrap 0xffff
      (pwm_config_set_output_polarity False False
        (pwm_config_set_clkdiv_mode PWM_DIV_FREE_RUNNING
          (pwm_config_set_clkdiv_int 1
            (pwm_config_set_phase_correct False \<lparr>c_csr = 0, c_div = 0, c_top = 0\<rparr>))))"

section \<open>Slice operations\<close>

definition upd_slice :: "u32 \<Rightarrow> (pwm_slice_hw \<Rightarrow> pwm_slice_hw) \<Rightarrow> mcu \<Rightarrow> mcu" where
  "upd_slice n f s = s\<lparr>slices := (slices s)(n := f (slices s n))\<rparr>"

definition pwm_gpio_to_slice_num :: "u32 \<Rightarrow> u32" where
  "pwm_gpio_to_slice_num gpio = drop_bit 1 gpio AND 7"

definition pwm_gpio_to_channel :: "u32 \<Rightarrow> u32" where
  "pwm_gpio_to_channel gpio = gpio AND 1"

definition pwm_init :: "u32 \<Rightarrow> pwm_config \<Rightarrow> bool \<Rightarrow> mcu \<Rightarrow> mcu" where
  "pwm_init slice_num c start =
     upd_slice slice_num (\<lambda>r. r\<lparr>csr := 0, ctr := 0, cc := 0,
       top_reg := c_top c AND 0xffff, div_reg := c_div c AND PWM_CH0_DIV_BITS,
       csr := (c_csr c OR bool_to_bit start) AND PWM_CH0_CSR_BITS\<rparr>)"

definition pwm_set_wrap :: "u32 \<Rightarrow> u16 \<Rightarrow> mcu \<Rightarrow> mcu" where
  "pwm_set_wrap slice_num wrap = upd_slice slice_num (\<lambda>r. r\<lparr>top_reg := ucast wrap\<rparr>)"

definition pwm_set_chan_level :: "u32 \<Rightarrow> u32 \<Rightarrow> u16 \<Rightarrow> mcu \<Rightarrow> mcu" where
  "pwm_set_chan_level slice_num chan level =
     upd_slice slice_num (\<lambda>r. r\<lparr>cc := hw_write_masked (cc r)
       (push_bit (if chan \<noteq> 0 then 16 else 0) (ucast level))
       (if chan \<noteq> 0 then PWM_CH0_CC_B_BITS else PWM_CH0_CC_A_BITS)\<rparr>)"

definition pwm_set_both_levels :: "u32 \<Rightarrow> u16 \<Rightarrow> u16 \<Rightarrow> mcu \<Rightarrow> mcu" where
  "pwm_set_both_levels slice_num level_a level_b =
     upd_slice slice_num (\<lambda>r. r\<lparr>cc := push_bit 16 (ucast level_b) OR ucast level_a\<rparr>)"

definition pwm_set_gpio_level :: "u32 \<Rightarrow> u16 \<Rightarrow> mcu \<Rightarrow> mcu" where
  "pwm_set_gpio_level gpio level =
     pwm_set_chan_level (pwm_gpio_to_slice_num gpio) (pwm_gpio_to_channel gpio) level"

definition pwm_get_counter :: "u32 \<Rightarrow> mcu \<Rightarrow> u16" where
  "pwm_get_counter slice_num s = ucast (ctr (slices s slice_num))"

definition pwm_set_counter :: "u32 \<Rightarrow> u16 \<Rightarrow> mcu \<Rightarrow> mcu" where
  "pwm_set_counter slice_num c = upd_slice slice_num (\<lambda>r. r\<lparr>ctr := ucast c\<rparr>)"

definition pwm_set_clkdiv_int_frac :: "u32 \<Rightarrow> u8 \<Rightarrow> u8 \<Rightarrow> mcu \<Rightarrow> mcu" where
  "pwm_set_clkdiv_int_frac slice_num i f =
     upd_slice slice_num (\<lambda>r. r\<lparr>div_reg :=
       (push_bit 4 (ucast i) OR ucast f) AND PWM_CH0_DIV_BITS\<rparr>)"

definition pwm_set_clkdiv :: "u32 \<Rightarrow> rat \<Rightarrow> mcu \<Rightarrow> mcu" where
  "pwm_set_clkdiv slice_num divider =
     (let i = word_of_int \<lfloor>divider\<rfloor> :: u8;
          f = word_of_int \<lfloor>(divider - of_int (uint i)) * 16\<rfloor> :: u8
      in pwm_set_clkdiv_int_frac slice_num i f)"

definition pwm_set_output_polarity :: "u32 \<Rightarrow> bool \<Rightarrow> bool \<Rightarrow> mcu \<Rightarrow> mcu" where
  "pwm_set_output_polarity slice_num a b =
     upd_slice slice_num (\<lambda>r. r\<lparr>csr := hw_write_masked (csr r)
       (push_bit 2 (bool_to_bit a) OR push_bit 3 (bool_to_bit b))
       (PWM_CH0_CSR_A_INV_BITS OR PWM_CH0_CSR_B_INV_BITS)\<rparr>)"

definition pwm_set_clkdiv_mode :: "u32 \<Rightarrow> pwm_clkdiv_mode \<Rightarrow> mcu \<Rightarrow> mcu" where
  "pwm_set_clkdiv_mode slice_num m =
     upd_slice slice_num (\<lambda>r. r\<lparr>csr := hw_write_masked (csr r)
       (push_bit 4 (clkdiv_mode_value m)) PWM_CH0_CSR_DIVMODE_BITS\<rparr>)"

definition pwm_set_phase_correct :: "u32 \<Rightarrow> bool \<Rightarrow> mcu \<Rightarrow> mcu" where
  "pwm_set_phase_correct slice_num phase_correct =
     upd_slice slice_num (\<lambda>r. r\<lparr>csr := hw_write_masked (csr r)
       (push_bit 1 (bool_to_bit phase_correct)) PWM_CH0_CSR_PH_CORRECT_BITS\<rparr>)"

definition pwm_set_enabled :: "u32 \<Rightarrow> bool \<Rightarrow> mcu \<Rightarrow> mcu" where
  "pwm_set_enabled slice_num enabled =
     upd_slice slice_num (\<lambda>r. r\<lparr>csr := hw_write_masked (csr r)
       (bool_to_bit enabled) PWM_CH0_CSR_EN_BITS\<rparr>)"

text \<open>The EN register aliases the enable bits of all eight slices.\<close>

definition pwm_set_mask_enabled :: "u32 \<Rightarrow> mcu \<Rightarrow> mcu" where
  "pwm_set_mask_enabled m s = s\<lparr>slices := (\<lambda>n. if n < 8
     then (slices s n)\<lparr>csr := hw_write_masked (csr (slices s n))
       (bool_to_bit (bit m (unat n))) PWM_CH0_CSR_EN_BITS\<rparr>
     else slices s n)\<rparr>"

definition pwm_set_irq_enabled :: "u32 \<Rightarrow> bool \<Rightarrow> mcu \<Rightarrow> mcu" where
  "pwm_set_irq_enabled slice_num enabled s =
     (if enabled then s\<lparr>pwm_inte := hw_set_bits (pwm_inte s) (push_bit (unat slice_num) 1)\<rparr>
      else s\<lparr>pwm_inte := hw_clear_bits (pwm_inte s) (push_bit (unat slice_num) 1)\<rparr>)"

definition pwm_set_irq_mask_enabled :: "u32 \<Rightarrow> bool \<Rightarrow> mcu \<Rightarrow> mcu" where
  "pwm_set_irq_mask_enabled m enabled s =
     (if enabled then s\<lparr>pwm_inte := hw_set_bits (pwm_inte s) m\<rparr>
      else s\<lparr>pwm_inte := hw_clear_bits (pwm_inte s) m\<rparr>)"

text \<open>A raw interrupt bit is cleared by writing it.\<close>

definition pwm_clear_irq :: "u32 \<Rightarrow> mcu \<Rightarrow> mcu" where
  "pwm_clear_irq slice_num s =
     s\<lparr>pwm_intr := hw_clear_bits (pwm_intr s) (push_bit (unat slice_num) 1)\<rparr>"

definition pwm_force_irq :: "u32 \<Rightarrow> mcu \<Rightarrow> mcu" where
  "pwm_force_irq slice_num s = s\<lparr>pwm_intf := push_bit (unat slice_num) 1\<rparr>"

definition pwm_get_irq_status_mask :: "mcu \<Rightarrow> u32" where
  "pwm_get_irq_status_mask s = (pwm_intr s AND pwm_inte s) OR pwm_intf s"

definition pwm_get_dreq :: "u32 \<Rightarrow> u32" where
  "pwm_get_dreq slice_num = 24 + slice_num"

section \<open>Observations\<close>

definition pwm_chan_level :: "mcu \<Rightarrow> u32 \<Rightarrow> u32 \<Rightarrow> u16" where
  "pwm_chan_level s n chan =
     (if chan \<noteq> 0 then ucast (drop_bit 16 (cc (slices s n))) else ucast (cc (slices s n)))"

definition pwm_gpio_level :: "mcu \<Rightarrow> u32 \<Rightarrow> u16" where
  "pwm_gpio_level s gpio = pwm_chan_level s (pwm_gpio_to_slice_num gpio) (pwm_gpio_to_channel gpio)"

definition pwm_wrap :: "mcu \<Rightarrow> u32 \<Rightarrow> u16" where
  "pwm_wrap s n = ucast (top_reg (slices s n))"

definition pwm_enabled :: "mcu \<Rightarrow> u32 \<Rightarrow> bool" where
  "pwm_enabled s n \<longleftrightarrow> bit (csr (slices s n)) 0"

definition pwm_clkdiv16 :: "mcu \<Rightarrow> u32 \<Rightarrow> nat" where
  "pwm_clkdiv16 s n = unat (div_reg (slices s n))"

lemma slices_upd_slice [obs_simps]:
  "slices (upd_slice n f s) m = (if m = n then f (slices s n) else slices s m)"
  by (simp add: upd_slice_def)

lemma upd_slice_frame [obs_simps]:
  "gpio_out (upd_slice n f s) = gpio_out s" "gpio_oe (upd_slice n f s) = gpio_oe s"
  "funcsel (upd_slice n f s) = funcsel s" "pads (upd_slice n f s) = pads s"
  "adc_cs (upd_slice n f s) = adc_cs s" "primask (upd_slice n f s) = primask s"
  "rx_fifo (upd_slice n f s) = rx_fifo s" "reads (upd_slice n f s) = reads s"
  "calls (upd_slice n f s) = calls s" "pwm_inte (upd_slice n f s) = pwm_inte s"
  by (simp_all add: upd_slice_def)

lemma bit_CC_BITS:
  "bit PWM_CH0_CC_A_BITS k \<longleftrightarrow> k < 16" "bit PWM_CH0_CC_B_BITS k \<longleftrightarrow> 16 \<le> k \<and> k < 32"
proof -
  have a: "PWM_CH0_CC_A_BITS = mask 16" and b: "PWM_CH0_CC_B_BITS = push_bit 16 (mask 16)"
    by (simp_all add: PWM_CH0_CC_A_BITS_def PWM_CH0_CC_B_BITS_def mask_numeral)
  show "bit PWM_CH0_CC_A_BITS k \<longleftrightarrow> k < 16" unfolding a by (auto simp: bit_mask_iff)
  show "bit PWM_CH0_CC_B_BITS k \<longleftrightarrow> 16 \<le> k \<and> k < 32" unfolding b
    by (auto simp: bit_push_bit_iff bit_mask_iff)
qed

text \<open>Each half of the compare register is written without touching the other.\<close>

lemma cc_halves:
  "ucast (hw_write_masked r (ucast v) PWM_CH0_CC_A_BITS) = (v :: u16)"
  "ucast (drop_bit 16 (hw_write_masked r (push_bit 16 (ucast v)) PWM_CH0_CC_B_BITS)) = (v :: u16)"
  "(ucast (drop_bit 16 (hw_write_masked r (ucast v) PWM_CH0_CC_A_BITS)) :: u16)
     = ucast (drop_bit 16 r)"
  "(ucast (hw_write_masked r (push_bit 16 (ucast v)) PWM_CH0_CC_B_BITS) :: u16) = ucast r"
  by (rule word_bits_eqI; simp add: bit_ucast_iff bit_hw_write_masked bit_CC_BITS bit_drop_bit_eq
      bit_push_bit_iff)+

lemma pwm_chan_level_set:
  "pwm_chan_level (pwm_set_chan_level n c v s) m d
     = (if m = n \<and> (d = 0 \<longleftrightarrow> c = 0) then v else pwm_chan_level s m d)"
  by (simp add: pwm_chan_level_def pwm_set_chan_level_def obs_simps cc_halves)

interpretation chans: cell_bank "\<lambda>p. snd p < 2"
  "\<lambda>p. pwm_set_chan_level (fst p) (snd p)" "\<lambda>s p. pwm_chan_level s (fst p) (snd p)"
proof unfold_locales
  fix c v s
  show "pwm_chan_level (pwm_set_chan_level (fst c) (snd c) v s) (fst c) (snd c) = v"
    by (simp add: pwm_chan_level_set)
next
  fix c d :: "u32 \<times> u32" and v s
  assume "snd c < 2" and "snd d < 2" and "d \<noteq> c"
  then have "\<not> (fst d = fst c \<and> (snd d = 0 \<longleftrightarrow> snd c = 0))"
    by (auto simp: prod_eq_iff word_less_nat_alt unat_eq_zero[symmetric] word_unat_eq_iff)
  then show "pwm_chan_level (pwm_set_chan_level (fst c) (snd c) v s) (fst d) (snd d)
      = pwm_chan_level s (fst d) (snd d)"
    by (auto simp: pwm_chan_level_set)
qed

section \<open>What each operation changes\<close>

lemma pwm_wrap_ops [obs_simps]:
  "pwm_wrap (pwm_set_wrap n w s) m = (if m = n then w else pwm_wrap s m)"
  "pwm_wrap (pwm_set_chan_level n c v s) m = pwm_wrap s m"
  "pwm_wrap (pwm_set_clkdiv n d s) m = pwm_wrap s m"
  "pwm_wrap (pwm_set_enabled n e s) m = pwm_wrap s m"
  by (simp_all add: pwm_wrap_def pwm_set_wrap_def pwm_set_chan_level_def pwm_set_clkdiv_def
      pwm_set_clkdiv_int_frac_def pwm_set_enabled_def Let_def slices_upd_slice)

lemma pwm_enabled_ops [obs_simps]:
  "pwm_enabled (pwm_set_enabled n e s) m = (if m = n then e else pwm_enabled s m)"
  "pwm_enabled (pwm_set_wrap n w s) m = pwm_enabled s m"
  "pwm_enabled (pwm_set_chan_level n c v s) m = pwm_enabled s m"
  "pwm_enabled (pwm_set_clkdiv n d s) m = pwm_enabled s m"
  by (simp_all add: pwm_enabled_def pwm_set_wrap_def pwm_set_chan_level_def pwm_set_clkdiv_def
      pwm_set_clkdiv_int_frac_def pwm_set_enabled_def Let_def slices_upd_slice
      bit_hw_write_masked PWM_CH0_CSR_EN_BITS_def bool_to_bit_def)

lemma pwm_clkdiv16_ops [obs_simps]:
  "pwm_clkdiv16 (pwm_set_enabled n e s) m = pwm_clkdiv16 s m"
  "pwm_clkdiv16 (pwm_set_wrap n w s) m = pwm_clkdiv16 s m"
  "pwm_clkdiv16 (pwm_set_chan_level n c v s) m = pwm_clkdiv16 s m"
  by (simp_all add: pwm_clkdiv16_def pwm_set_wrap_def pwm_set_chan_level_def
      pwm_set_enabled_def slices_upd_slice)

lemma div_field:
  assumes "unat (f :: u8) < 16"
  shows "unat ((push_bit 4 (ucast (i :: u8)) OR ucast f) AND PWM_CH0_DIV_BITS)
    = 16 * unat i + unat f"
proof -
  let ?x = "push_bit 4 (ucast i) :: u32" and ?y = "ucast f :: u32"
  have fb: "\<not> bit f k" if "4 \<le> k" for k
  proof -
    have "f = take_bit 4 f" using assms
      by (simp add: word_unat_eq_iff unsigned_take_bit_eq take_bit_nat_eq_self)
    then have "bit f k \<longleftrightarrow> k < 4 \<and> bit f k" by (metis bit_take_bit_iff)
    with that show ?thesis by simp
  qed
  have "?x AND ?y = 0"
    by (rule bit_word_eqI) (auto simp: bit_and_iff bit_push_bit_iff bit_ucast_iff fb)
  then have or: "?x OR ?y = ?x + ?y" using word_plus_and_or [of ?x ?y] by simp
  have "unat i < 2 ^ LENGTH(8)" by (rule unsigned_less)
  then have i: "unat i < 256" by simp
  have x: "unat ?x = 16 * unat i" using i
    by (simp add: push_bit_eq_mult unat_word_ariths unsigned_ucast_eq take_bit_nat_eq_self)
  have y: "unat ?y = unat f" using assms by (simp add: unsigned_ucast_eq take_bit_nat_eq_self)
  have s: "unat (?x + ?y) = 16 * unat i + unat f"
    using x y i assms by (simp add: unat_word_ariths)
  have m: "(?x + ?y) AND PWM_CH0_DIV_BITS = take_bit 12 (?x + ?y)"
    by (simp add: PWM_CH0_DIV_BITS_def take_bit_eq_mask mask_numeral)
  have "unat (take_bit 12 (?x + ?y)) = take_bit 12 (16 * unat i + unat f)"
    by (simp only: unsigned_take_bit_eq s)
  also have "\<dots> = 16 * unat i + unat f" using i assms by (simp add: take_bit_nat_eq_self)
  finally show ?thesis by (simp only: or m)
qed

lemma floor_div16: fixes d :: rat
  assumes "1 \<le> d" and "d < 256"
  shows "\<lfloor>d\<rfloor> = \<lfloor>d * 16\<rfloor> div 16" "\<lfloor>(d - of_int (\<lfloor>d * 16\<rfloor> div 16)) * 16\<rfloor> = \<lfloor>d * 16\<rfloor> mod 16"
proof -
  define q where "q = \<lfloor>d * 16\<rfloor>"
  have q: "of_int q \<le> d * 16" "d * 16 < of_int q + 1" unfolding q_def by linarith+
  define j r where "j = q div 16" and "r = q mod 16"
  have dm: "q = 16 * j + r" "0 \<le> r" "r < 16" by (simp_all add: j_def r_def)
  have qr: "(of_int q :: rat) = 16 * of_int j + of_int r" by (simp add: dm)
  have "\<lfloor>d\<rfloor> = j" using q qr dm by (intro floor_unique) linarith+
  moreover have "\<lfloor>(d - of_int j) * 16\<rfloor> = r"
    using q qr by (intro floor_unique) (simp_all add: algebra_simps)
  ultimately show "\<lfloor>d\<rfloor> = \<lfloor>d * 16\<rfloor> div 16" "\<lfloor>(d - of_int (\<lfloor>d * 16\<rfloor> div 16)) * 16\<rfloor> = \<lfloor>d * 16\<rfloor> mod 16"
    by (simp_all add: j_def r_def q_def)
qed
text \<open>A divider of \<open>i + f/16\<close> is stored exactly.\<close>

lemma pwm_clkdiv16_set [obs_simps]:
  assumes "1 \<le> d" and "d < 256"
  shows "pwm_clkdiv16 (pwm_set_clkdiv n d s) m
    = (if m = n then nat \<lfloor>d * 16\<rfloor> else pwm_clkdiv16 s m)"
proof -
  define q where "q = \<lfloor>d * 16\<rfloor>"
  have q: "16 \<le> q" "q < 4096" unfolding q_def using assms by linarith+
  let ?i = "word_of_int (q div 16) :: u8" and ?f = "word_of_int (q mod 16) :: u8"
  have ui: "uint ?i = q div 16" and uf: "uint ?f = q mod 16"
    using q by (simp_all add: unsigned_of_int take_bit_int_eq_self)
  then have ni: "int (unat ?i) = q div 16" and nf: "int (unat ?f) = q mod 16"
    by simp_all
  then have "unat ?f < 16" by linarith
  moreover have "16 * unat ?i + unat ?f = nat q"
    using ni nf mult_div_mod_eq [of 16 q] q by linarith
  ultimately have "unat ((push_bit 4 (ucast ?i) OR ucast ?f) AND PWM_CH0_DIV_BITS) = nat q"
    by (simp only: div_field)
  moreover have "pwm_set_clkdiv n d s = pwm_set_clkdiv_int_frac n ?i ?f s"
    using floor_div16 [OF assms] by (simp only: pwm_set_clkdiv_def Let_def ui flip: q_def)
  ultimately show ?thesis
    by (simp add: pwm_clkdiv16_def pwm_set_clkdiv_int_frac_def slices_upd_slice flip: q_def)
qed

lemma pwm_chan_level_ops [obs_simps]:
  "pwm_chan_level (pwm_set_wrap n w s) m c = pwm_chan_level s m c"
  "pwm_chan_level (pwm_set_clkdiv n d s) m c = pwm_chan_level s m c"
  "pwm_chan_level (pwm_set_enabled n e s) m c = pwm_chan_level s m c"
  by (simp_all add: pwm_chan_level_def pwm_set_wrap_def pwm_set_clkdiv_def
      pwm_set_clkdiv_int_frac_def pwm_set_enabled_def Let_def slices_upd_slice)

lemma pwm_gpio_level_ops [obs_simps]:
  "pwm_gpio_level (pwm_set_gpio_level g v s) h
     = (if pwm_gpio_to_slice_num h = pwm_gpio_to_slice_num g
          \<and> (pwm_gpio_to_channel h = 0 \<longleftrightarrow> pwm_gpio_to_channel g = 0)
        then v else pwm_gpio_level s h)"
  "pwm_gpio_level (pwm_set_wrap n w s) h = pwm_gpio_level s h"
  "pwm_gpio_level (pwm_set_clkdiv n d s) h = pwm_gpio_level s h"
  "pwm_gpio_level (pwm_set_enabled n e s) h = pwm_gpio_level s h"
  by (simp_all add: pwm_gpio_level_def pwm_set_gpio_level_def pwm_chan_level_set
      pwm_chan_level_ops)

lemma pwm_gpio_level_frames [obs_simps]:
  "pwm_wrap (pwm_set_gpio_level g v s) m = pwm_wrap s m"
  "pwm_enabled (pwm_set_gpio_level g v s) m = pwm_enabled s m"
  "pwm_clkdiv16 (pwm_set_gpio_level g v s) m = pwm_clkdiv16 s m"
  by (simp_all add: pwm_set_gpio_level_def pwm_wrap_ops pwm_enabled_ops pwm_clkdiv16_ops)

section \<open>Frames\<close>

text \<open>What the pin, PWM and bookkeeping operations leave alone.\<close>

lemma gpio_put_frame [obs_simps]:
  "gpio_oe (gpio_put p v s) = gpio_oe s"
  "funcsel (gpio_put p v s) = funcsel s"
  "pads (gpio_put p v s) = pads s"
  "slices (gpio_put p v s) = slices s"
  "adc_cs (gpio_put p v s) = adc_cs s"
  "primask (gpio_put p v s) = primask s"
  "rx_fifo (gpio_put p v s) = rx_fifo s"
  "reads (gpio_put p v s) = reads s"
  "calls (gpio_put p v s) = calls s"
  "pwm_inte (gpio_put p v s) = pwm_inte s"
  "gpio_is_dir_out (gpio_put p v s) g = gpio_is_dir_out s g"
  "pwm_gpio_level (gpio_put p v s) g = pwm_gpio_level s g"
  "pwm_chan_level (gpio_put p v s) n c = pwm_chan_level s n c"
  "pwm_wrap (gpio_put p v s) n = pwm_wrap s n"
  "pwm_enabled (gpio_put p v s) n = pwm_enabled s n"
  "pwm_clkdiv16 (gpio_put p v s) n = pwm_clkdiv16 s n"
  by (simp_all add: gpio_put_def gpio_set_mask_def gpio_clr_mask_def Let_def
      gpio_is_dir_out_def pwm_gpio_level_def pwm_chan_level_def pwm_wrap_def pwm_enabled_def pwm_clkdiv16_def)

lemma gpio_set_dir_frame [obs_simps]:
  "gpio_out (gpio_set_dir p v s) = gpio_out s"
  "funcsel (gpio_set_dir p v s) = funcsel s"
  "pads (gpio_set_dir p v s) = pads s"
  "slices (gpio_set_dir p v s) = slices s"
  "adc_cs (gpio_set_dir p v s) = adc_cs s"
  "primask (gpio_set_dir p v s) = primask s"
  "rx_fifo (gpio_set_dir p v s) = rx_fifo s"
  "reads (gpio_set_dir p v s) = reads s"
  "calls (gpio_set_dir p v s) = calls s"
  "pwm_inte (gpio_set_dir p v s) = pwm_inte s"
  "gpio_get_out_level (gpio_set_dir p v s) g = gpio_get_out_level s g"
  "pwm_gpio_level (gpio_set_dir p v s) g = pwm_gpio_level s g"
  "pwm_chan_level (gpio_set_dir p v s) n c = pwm_chan_level s n c"
  "pwm_wrap (gpio_set_dir p v s) n = pwm_wrap s n"
  "pwm_enabled (gpio_set_dir p v s) n = pwm_enabled s n"
  "pwm_clkdiv16 (gpio_set_dir p v s) n = pwm_clkdiv16 s n"
  by (simp_all add: gpio_set_dir_def gpio_set_dir_out_masked_def gpio_set_dir_in_masked_def
      Let_def gpio_get_out_level_def pwm_gpio_level_def pwm_chan_level_def pwm_wrap_def pwm_enabled_def
      pwm_clkdiv16_def)

lemma pwm_frame [obs_simps]:
  "gpio_out (pwm_set_wrap p w s) = gpio_out s"
  "gpio_oe (pwm_set_wrap p w s) = gpio_oe s"
  "funcsel (pwm_set_wrap p w s) = funcsel s"
  "pads (pwm_set_wrap p w s) = pads s"
  "adc_cs (pwm_set_wrap p w s) = adc_cs s"
  "primask (pwm_set_wrap p w s) = primask s"
  "rx_fifo (pwm_set_wrap p w s) = rx_fifo s"
  "reads (pwm_set_wrap p w s) = reads s"
  "calls (pwm_set_wrap p w s) = calls s"
  "pwm_inte (pwm_set_wrap p w s) = pwm_inte s"
  "gpio_get_out_level (pwm_set_wrap p w s) g = gpio_get_out_level s g"
  "gpio_is_dir_out (pwm_set_wrap p w s) g = gpio_is_dir_out s g"
  "gpio_out (pwm_set_chan_level p d l s) = gpio_out s"
  "gpio_oe (pwm_set_chan_level p d l s) = gpio_oe s"
  "funcsel (pwm_set_chan_level p d l s) = funcsel s"
  "pads (pwm_set_chan_level p d l s) = pads s"
  "adc_cs (pwm_set_chan_level p d l s) = adc_cs s"
  "primask (pwm_set_chan_level p d l s) = primask s"
  "rx_fifo (pwm_set_chan_level p d l s) = rx_fifo s"
  "reads (pwm_set_chan_level p d l s) = reads s"
  "calls (pwm_set_chan_level p d l s) = calls s"
  "pwm_inte (pwm_set_chan_level p d l s) = pwm_inte s"
  "gpio_get_out_level (pwm_set_chan_level p d l s) g = gpio_get_out_level s g"
  "gpio_is_dir_out (pwm_set_chan_level p d l s) g = gpio_is_dir_out s g"
  "gpio_out (pwm_set_gpio_level p l s) = gpio_out s"
  "gpio_oe (pwm_set_gpio_level p l s) = gpio_oe s"
  "funcsel (pwm_set_gpio_level p l s) = funcsel s"
  "pads (pwm_set_gpio_level p l s) = pads s"
  "adc_cs (pwm_set_gpio_level p l s) = adc_cs s"
  "primask (pwm_set_gpio_level p l s) = primask s"
  "rx_fifo (pwm_set_gpio_level p l s) = rx_fifo s"
  "reads (pwm_set_gpio_level p l s) = reads s"
  "calls (pwm_set_gpio_level p l s) = calls s"
  "pwm_inte (pwm_set_gpio_level p l s) = pwm_inte s"
  "gpio_get_out_level (pwm_set_gpio_level p l s) g = gpio_get_out_level s g"
  "gpio_is_dir_out (pwm_set_gpio_level p l s) g = gpio_is_dir_out s g"
  "gpio_out (pwm_set_clkdiv p r s) = gpio_out s"
  "gpio_oe (pwm_set_clkdiv p r s) = gpio_oe s"
  "funcsel (pwm_set_clkdiv p r s) = funcsel s"
  "pads (pwm_set_clkdiv p r s) = pads s"
  "adc_cs (pwm_set_clkdiv p r s) = adc_cs s"
  "primask (pwm_set_clkdiv p r s) = primask s"
  "rx_fifo (pwm_set_clkdiv p r s) = rx_fifo s"
  "reads (pwm_set_clkdiv p r s) = reads s"
  "calls (pwm_set_clkdiv p r s) = calls s"
  "pwm_inte (pwm_set_clkdiv p r s) = pwm_inte s"
  "gpio_get_out_level (pwm_set_clkdiv p r s) g = gpio_get_out_level s g"
  "gpio_is_dir_out (pwm_set_clkdiv p r s) g = gpio_is_dir_out s g"
  "gpio_out (pwm_set_enabled p e s) = gpio_out s"
  "gpio_oe (pwm_set_enabled p e s) = gpio_oe s"
  "funcsel (pwm_set_enabled p e s) = funcsel s"
  "pads (pwm_set_enabled p e s) = pads s"
  "adc_cs (pwm_set_enabled p e s) = adc_cs s"
  "primask (pwm_set_enabled p e s) = primask s"
  "rx_fifo (pwm_set_enabled p e s) = rx_fifo s"
  "reads (pwm_set_enabled p e s) = reads s"
  "calls (pwm_set_enabled p e s) = calls s"
  "pwm_inte (pwm_set_enabled p e s) = pwm_inte s"
  "gpio_get_out_level (pwm_set_enabled p e s) g = gpio_get_out_level s g"
  "gpio_is_dir_out (pwm_set_enabled p e s) g = gpio_is_dir_out s g"
  by (simp_all add: pwm_set_wrap_def pwm_set_chan_level_def pwm_set_gpio_level_def pwm_set_clkdiv_def
      pwm_set_clkdiv_int_frac_def pwm_set_enabled_def Let_def upd_slice_frame gpio_get_out_level_def
      gpio_is_dir_out_def)

lemma observe_frame [obs_simps]:
  "gpio_get_out_level (tick s) g = gpio_get_out_level s g"
  "gpio_is_dir_out (tick s) g = gpio_is_dir_out s g"
  "pwm_gpio_level (tick s) g = pwm_gpio_level s g"
  "pwm_chan_level (tick s) n c = pwm_chan_level s n c"
  "pwm_wrap (tick s) n = pwm_wrap s n"
  "pwm_enabled (tick s) n = pwm_enabled s n"
  "pwm_clkdiv16 (tick s) n = pwm_clkdiv16 s n"
  "gpio_get_out_level (emit k s) g = gpio_get_out_level s g"
  "gpio_is_dir_out (emit k s) g = gpio_is_dir_out s g"
  "pwm_gpio_level (emit k s) g = pwm_gpio_level s g"
  "pwm_chan_level (emit k s) n c = pwm_chan_level s n c"
  "pwm_wrap (emit k s) n = pwm_wrap s n"
  "pwm_enabled (emit k s) n = pwm_enabled s n"
  "pwm_clkdiv16 (emit k s) n = pwm_clkdiv16 s n"
  by (simp_all add: gpio_get_out_level_def gpio_is_dir_out_def pwm_gpio_level_def pwm_chan_level_def
      pwm_wrap_def pwm_enabled_def pwm_clkdiv16_def tick_frame emit_frame)

end
