(* ===== verification/Sdk_Docs.thy ===== *)
theory Sdk_Docs
  imports Pwm
begin

text \<open>
  The documented behaviour of the SDK functions whose bodies are not under src/, as predicates on
  the board, with what they imply for the observations of the machine state, and a concrete
  board that satisfies them. The wording is that of the comments in hardware/gpio.h.
\<close>

section \<open>Documented behaviour\<close>

text \<open>
  gpio.h: "Initialise a GPIO for (enabled I/O and set func to GPIO\_FUNC\_SIO). Clear the output
  enable (i.e. set to input). Clear any output value."
\<close>

definition gpio_init_doc :: "board \<Rightarrow> bool" where
  "gpio_init_doc B \<longleftrightarrow> (\<forall>g s. g < 30 \<longrightarrow> (\<exists>p. gpio_init B g s
     = s\<lparr>gpio_out := hw_clear_bits (gpio_out s) (pin_mask g AND SIO_PIN_BITS),
         gpio_oe := hw_clear_bits (gpio_oe s) (pin_mask g AND SIO_PIN_BITS),
         funcsel := (funcsel s)(g := GPIO_FUNC_SIO), pads := p\<rparr>))"

text \<open>gpio.h: "Select GPIO function".\<close>

definition gpio_set_function_doc :: "board \<Rightarrow> bool" where
  "gpio_set_function_doc B \<longleftrightarrow> (\<forall>g f s. g < 30 \<longrightarrow> (\<exists>p. gpio_set_function B g f s
     = s\<lparr>funcsel := (funcsel s)(g := f), pads := p\<rparr>))"

text \<open>gpio.h: "Select up and down pulls on specific GPIO".\<close>

definition gpio_set_pulls_doc :: "board \<Rightarrow> bool" where
  "gpio_set_pulls_doc B \<longleftrightarrow> (\<forall>g up down s. g < 30 \<longrightarrow> gpio_set_pulls B g up down s
     = s\<lparr>pads := (pads s)(g := hw_write_masked (pads s g)
         ((if up then PUE_BITS else 0) OR (if down then PDE_BITS else 0))
         (PUE_BITS OR PDE_BITS))\<rparr>)"

text \<open>gpio.h: "Enable GPIO input", a bit of the pin's pad register.\<close>

definition gpio_set_input_enabled_doc :: "board \<Rightarrow> bool" where
  "gpio_set_input_enabled_doc B \<longleftrightarrow> (\<forall>g e s. g < 30 \<longrightarrow>
     (\<exists>p. gpio_set_input_enabled B g e s = s\<lparr>pads := p\<rparr>))"

text \<open>adc.h: "Initialise the ADC HW".\<close>

definition adc_init_doc :: "board \<Rightarrow> bool" where
  "adc_init_doc B \<longleftrightarrow> (\<forall>s. \<exists>cs d fcs e. adc_init B s
     = s\<lparr>adc_cs := cs, adc_div := d, adc_fcs := fcs, adc_inte := e\<rparr>)"

definition sdk_docs :: "board \<Rightarrow> bool" where
  "sdk_docs B \<longleftrightarrow> gpio_init_doc B \<and> gpio_set_function_doc B \<and> gpio_set_pulls_doc B \<and>
     gpio_set_input_enabled_doc B \<and> adc_init_doc B"

section \<open>What it means for the observations\<close>

lemma gpio_init_effect:
  assumes "sdk_docs B" and "g < 30"
  obtains p where "gpio_init B g s
    = s\<lparr>gpio_out := hw_clear_bits (gpio_out s) (pin_mask g AND SIO_PIN_BITS),
        gpio_oe := hw_clear_bits (gpio_oe s) (pin_mask g AND SIO_PIN_BITS),
        funcsel := (funcsel s)(g := GPIO_FUNC_SIO), pads := p\<rparr>"
  using assms by (auto simp: sdk_docs_def gpio_init_doc_def)

lemma gpio_set_function_effect:
  assumes "sdk_docs B" and "g < 30"
  obtains p where "gpio_set_function B g f s = s\<lparr>funcsel := (funcsel s)(g := f), pads := p\<rparr>"
proof -
  have "\<exists>p. gpio_set_function B g f s = s\<lparr>funcsel := (funcsel s)(g := f), pads := p\<rparr>"
    using assms unfolding sdk_docs_def gpio_set_function_doc_def by blast
  then show thesis using that by blast
qed

lemma gpio_init_obs [obs_simps]:
  assumes "sdk_docs B" and "g < 30"
  shows "h < 30 \<Longrightarrow> gpio_get_out_level (gpio_init B g s) h \<longleftrightarrow> h \<noteq> g \<and> gpio_get_out_level s h"
    and "h < 30 \<Longrightarrow> gpio_is_dir_out (gpio_init B g s) h \<longleftrightarrow> h \<noteq> g \<and> gpio_is_dir_out s h"
    and "funcsel (gpio_init B g s) = (funcsel s)(g := GPIO_FUNC_SIO)"
    and "slices (gpio_init B g s) = slices s" and "calls (gpio_init B g s) = calls s"
    and "reads (gpio_init B g s) = reads s" and "adc_cs (gpio_init B g s) = adc_cs s"
  by (rule gpio_init_effect [OF assms, of s];
      auto simp: gpio_get_out_level_bit gpio_is_dir_out_bit bit_hw_clear_bits
        bit_masked_pin [OF assms(2)] word_unat_eq_iff)+

lemma gpio_set_function_obs [obs_simps]:
  assumes "sdk_docs B" and "g < 30"
  shows "funcsel (gpio_set_function B g f s) = (funcsel s)(g := f)"
    and "gpio_get_out_level (gpio_set_function B g f s) h = gpio_get_out_level s h"
    and "gpio_is_dir_out (gpio_set_function B g f s) h = gpio_is_dir_out s h"
    and "slices (gpio_set_function B g f s) = slices s"
    and "calls (gpio_set_function B g f s) = calls s"
    and "reads (gpio_set_function B g f s) = reads s"
    and "adc_cs (gpio_set_function B g f s) = adc_cs s"
  by (rule gpio_set_function_effect [OF assms, of f s];
      simp add: gpio_get_out_level_def gpio_is_dir_out_def)+

text \<open>The observations of the PWM block follow from the slices alone.\<close>

lemma pwm_obs_of_slices:
  assumes "slices s = slices t"
  shows "pwm_gpio_level s h = pwm_gpio_level t h" and "pwm_wrap s n = pwm_wrap t n"
    and "pwm_enabled s n = pwm_enabled t n" and "pwm_clkdiv16 s n = pwm_clkdiv16 t n"
  using assms
  by (simp_all add: pwm_gpio_level_def pwm_chan_level_def pwm_wrap_def pwm_enabled_def
      pwm_clkdiv16_def)

lemma external_pwm_obs [obs_simps]:
  assumes "sdk_docs B" and "g < 30"
  shows "pwm_gpio_level (gpio_init B g s) h = pwm_gpio_level s h"
    and "pwm_wrap (gpio_init B g s) n = pwm_wrap s n"
    and "pwm_enabled (gpio_init B g s) n = pwm_enabled s n"
    and "pwm_clkdiv16 (gpio_init B g s) n = pwm_clkdiv16 s n"
    and "pwm_gpio_level (gpio_set_function B g f s) h = pwm_gpio_level s h"
    and "pwm_wrap (gpio_set_function B g f s) n = pwm_wrap s n"
    and "pwm_enabled (gpio_set_function B g f s) n = pwm_enabled s n"
    and "pwm_clkdiv16 (gpio_set_function B g f s) n = pwm_clkdiv16 s n"
  by (rule pwm_obs_of_slices; simp add: gpio_init_obs gpio_set_function_obs assms)+

lemma adc_init_obs [obs_simps]:
  assumes "sdk_docs B"
  shows "gpio_get_out_level (adc_init B s) h = gpio_get_out_level s h"
    and "gpio_is_dir_out (adc_init B s) h = gpio_is_dir_out s h"
    and "funcsel (adc_init B s) = funcsel s" and "slices (adc_init B s) = slices s"
    and "calls (adc_init B s) = calls s" and "reads (adc_init B s) = reads s"
proof -
  obtain cs d fcs e where "adc_init B s
      = s\<lparr>adc_cs := cs, adc_div := d, adc_fcs := fcs, adc_inte := e\<rparr>"
    using assms unfolding sdk_docs_def adc_init_doc_def by blast
  then show "gpio_get_out_level (adc_init B s) h = gpio_get_out_level s h"
    "gpio_is_dir_out (adc_init B s) h = gpio_is_dir_out s h"
    "funcsel (adc_init B s) = funcsel s" "slices (adc_init B s) = slices s"
    "calls (adc_init B s) = calls s" "reads (adc_init B s) = reads s"
    by (simp_all add: gpio_get_out_level_def gpio_is_dir_out_def)
qed

section \<open>A board that behaves as documented\<close>

text \<open>
  All inputs are low, the clock advances one microsecond per read
  (until it would leave the signed range), the ADC reads 0, no byte ever
  arrives and no device answers on the bus. Witnesses replace the inputs they need.
\<close>

definition ref_board :: board where
  "ref_board = \<lparr>
     gpio_in_at = (\<lambda>_. 0), time_us_at = (\<lambda>n. of_nat (min n 9223372036854775807)),
     adc_ready_at = (\<lambda>_. True), adc_result_at = (\<lambda>_ _. 0),
     uart_writable_at = (\<lambda>_. True), uart_rx_at = (\<lambda>_. []),
     i2c_write_at = (\<lambda>_ _ _. -1), i2c_read_at = (\<lambda>_ _ _ _. (-1, \<lambda>_. 0)),
     wl_gpio_at = (\<lambda>_ _. False), wl_connect_at = (\<lambda>_. 0), wl_init_at = (\<lambda>_. 0),
     wl_ip_text = [],
     gpio_init = (\<lambda>g s. s\<lparr>gpio_out := hw_clear_bits (gpio_out s) (pin_mask g AND SIO_PIN_BITS),
         gpio_oe := hw_clear_bits (gpio_oe s) (pin_mask g AND SIO_PIN_BITS),
         funcsel := (funcsel s)(g := GPIO_FUNC_SIO)\<rparr>),
     gpio_set_function = (\<lambda>g f s. s\<lparr>funcsel := (funcsel s)(g := f)\<rparr>),
     gpio_set_pulls = (\<lambda>g up down s. s\<lparr>pads := (pads s)(g := hw_write_masked (pads s g)
         ((if up then PUE_BITS else 0) OR (if down then PDE_BITS else 0))
         (PUE_BITS OR PDE_BITS))\<rparr>),
     gpio_set_input_enabled = (\<lambda>_ _ s. s),
     adc_init = (\<lambda>s. s\<lparr>adc_cs := 1\<rparr>)\<rparr>"

definition reset_slice :: pwm_slice_hw where
  "reset_slice = \<lparr>csr = 0, div_reg = 0x10, ctr = 0, cc = 0, top_reg = 0xffff\<rparr>"

text \<open>The state after reset, with the reset values of hardware/regs/pwm.h and regs/adc.h.\<close>

definition reset_mcu :: mcu where
  "reset_mcu = \<lparr>gpio_out = 0, gpio_oe = 0, funcsel = (\<lambda>_. GPIO_FUNC_NULL), pads = (\<lambda>_. 0x56),
     slices = (\<lambda>_. reset_slice), pwm_inte = 0, pwm_intr = 0, pwm_intf = 0, adc_cs = 0,
     adc_div = 0, adc_fcs = 0, adc_inte = 0, primask = 0,
     uarts = (\<lambda>_. \<lparr>uart_cr = 0x300, uart_lcr_h = 0, uart_imsc = 0, uart_ifls = 0x12\<rparr>),
     uart_line_feed = None, rx_fifo = [], reads = 0, calls = []\<rparr>"

lemma ref_board_fields [simp]:
  "time_us_at ref_board = (\<lambda>n. of_nat (min n 9223372036854775807))" "gpio_in_at ref_board = (\<lambda>_. 0)"
  "wl_connect_at ref_board = (\<lambda>_. 0)" "wl_init_at ref_board = (\<lambda>_. 0)"
  "i2c_write_at ref_board = (\<lambda>_ _ _. -1)" "i2c_read_at ref_board = (\<lambda>_ _ _ _. (-1, \<lambda>_. 0))"
  "adc_ready_at ref_board = (\<lambda>_. True)" "uart_writable_at ref_board = (\<lambda>_. True)"
  "uart_rx_at ref_board = (\<lambda>_. [])" "adc_result_at ref_board = (\<lambda>_ _. 0)"
  "gpio_init ref_board g s = s\<lparr>gpio_out := hw_clear_bits (gpio_out s) (pin_mask g AND SIO_PIN_BITS),
         gpio_oe := hw_clear_bits (gpio_oe s) (pin_mask g AND SIO_PIN_BITS),
         funcsel := (funcsel s)(g := GPIO_FUNC_SIO)\<rparr>"
  "gpio_set_function ref_board g f s = s\<lparr>funcsel := (funcsel s)(g := f)\<rparr>"
  by (simp_all add: ref_board_def)

lemma pads_same: "\<exists>p. s = s\<lparr>pads := p\<rparr>"
  by (rule exI [of _ "pads s"]) simp

lemma sdk_docs_ref_board [simp]: "sdk_docs ref_board"
  unfolding sdk_docs_def
proof (intro conjI)
  show "gpio_init_doc ref_board" unfolding gpio_init_doc_def
    by (auto intro: pads_same [of "_\<lparr>gpio_out := _, gpio_oe := _, funcsel := _\<rparr>"])
  show "gpio_set_function_doc ref_board" unfolding gpio_set_function_doc_def
    by (auto intro: pads_same [of "_\<lparr>funcsel := _\<rparr>"])
  show "gpio_set_pulls_doc ref_board"
    by (simp add: gpio_set_pulls_doc_def ref_board_def)
  show "gpio_set_input_enabled_doc ref_board" unfolding gpio_set_input_enabled_doc_def
    by (auto simp: ref_board_def intro: pads_same)
  have "adc_init ref_board s = s\<lparr>adc_cs := 1, adc_div := adc_div s, adc_fcs := adc_fcs s,
      adc_inte := adc_inte s\<rparr>" for s
    by (simp add: ref_board_def)
  then show "adc_init_doc ref_board" unfolding adc_init_doc_def by blast
qed

text \<open>The documented behaviour does not depend on the inputs.\<close>

lemma sdk_docs_inputs [simp]:
  "sdk_docs (B\<lparr>gpio_in_at := a\<rparr>) = sdk_docs B" "sdk_docs (B\<lparr>time_us_at := b\<rparr>) = sdk_docs B"
  "sdk_docs (B\<lparr>adc_result_at := c\<rparr>) = sdk_docs B" "sdk_docs (B\<lparr>uart_rx_at := d\<rparr>) = sdk_docs B"
  "sdk_docs (B\<lparr>i2c_write_at := e\<rparr>) = sdk_docs B" "sdk_docs (B\<lparr>i2c_read_at := f\<rparr>) = sdk_docs B"
  "sdk_docs (B\<lparr>wl_gpio_at := h\<rparr>) = sdk_docs B" "sdk_docs (B\<lparr>adc_ready_at := i\<rparr>) = sdk_docs B"
  by (simp_all add: sdk_docs_def gpio_init_doc_def gpio_set_function_doc_def gpio_set_pulls_doc_def
      gpio_set_input_enabled_doc_def adc_init_doc_def)

end
