(* ===== verification/Motor.thy ===== *)
theory Motor
  imports Sdk_Docs
begin

text \<open>
  The motor driver, motor\_driver.c and motor\_driver.h: two H-bridges, each steered by two pins
  and enabled by the duty cycle of one PWM pin. The operations are the code's; what they promise
  is stated over \<open>drive\<close>, the direction and duty of each motor as the bridge sees them.
\<close>

section \<open>Pins\<close>

definition MOTOR1_IN1 :: u32 where [pin_defs]: "MOTOR1_IN1 = 0"
definition MOTOR1_IN2 :: u32 where [pin_defs]: "MOTOR1_IN2 = 1"
definition MOTOR1_EN :: u32 where [pin_defs]: "MOTOR1_EN = 2"
definition MOTOR2_IN3 :: u32 where [pin_defs]: "MOTOR2_IN3 = 12"
definition MOTOR2_IN4 :: u32 where [pin_defs]: "MOTOR2_IN4 = 18"
definition MOTOR2_EN :: u32 where [pin_defs]: "MOTOR2_EN = 27"

section \<open>Operations\<close>

definition setup_pwm :: "board \<Rightarrow> u32 \<Rightarrow> mcu \<Rightarrow> mcu" where
  "setup_pwm B gpio s =
     (let s = gpio_set_function B gpio GPIO_FUNC_PWM s;
          slice_num = pwm_gpio_to_slice_num gpio;
          s = pwm_set_wrap slice_num 255 s;
          s = pwm_set_clkdiv slice_num 4 s
      in pwm_set_enabled slice_num True s)"

definition set_motor_speed :: "u32 \<Rightarrow> u16 \<Rightarrow> mcu \<Rightarrow> mcu" where
  "set_motor_speed gpio speed = pwm_set_gpio_level gpio speed"

definition motor_init :: "board \<Rightarrow> mcu \<Rightarrow> mcu" where
  "motor_init B s =
     (let s = gpio_init B MOTOR1_IN1 s;
          s = gpio_init B MOTOR1_IN2 s;
          s = gpio_init B MOTOR2_IN3 s;
          s = gpio_init B MOTOR2_IN4 s;
          s = gpio_set_dir MOTOR1_IN1 GPIO_OUT s;
          s = gpio_set_dir MOTOR1_IN2 GPIO_OUT s;
          s = gpio_set_dir MOTOR2_IN3 GPIO_OUT s;
          s = gpio_set_dir MOTOR2_IN4 GPIO_OUT s;
          s = setup_pwm B MOTOR1_EN s
      in setup_pwm B MOTOR2_EN s)"

definition move_backward :: "u16 \<Rightarrow> mcu \<Rightarrow> mcu" where
  "move_backward speed s =
     (let s = gpio_put MOTOR1_IN1 True s;
          s = gpio_put MOTOR1_IN2 False s;
          s = gpio_put MOTOR2_IN3 False s;
          s = gpio_put MOTOR2_IN4 True s;
          s = set_motor_speed MOTOR1_EN ((speed div 2) + 15) s
      in set_motor_speed MOTOR2_EN (speed div 2) s)"

definition move_backward_left :: "u16 \<Rightarrow> mcu \<Rightarrow> mcu" where
  "move_backward_left speed s =
     (let s = gpio_put MOTOR1_IN1 True s;
          s = gpio_put MOTOR1_IN2 False s;
          s = gpio_put MOTOR2_IN3 False s;
          s = gpio_put MOTOR2_IN4 True s;
          s = set_motor_speed MOTOR1_EN (speed div 2) s
      in set_motor_speed MOTOR2_EN (speed div 2) s)"

definition move_backward_right :: "u16 \<Rightarrow> mcu \<Rightarrow> mcu" where
  "move_backward_right speed s =
     (let s = gpio_put MOTOR1_IN1 True s;
          s = gpio_put MOTOR1_IN2 False s;
          s = gpio_put MOTOR2_IN3 False s;
          s = gpio_put MOTOR2_IN4 True s;
          s = set_motor_speed MOTOR1_EN (speed div 2) s
      in set_motor_speed MOTOR2_EN (speed div 2) s)"

definition move_forward :: "u16 \<Rightarrow> mcu \<Rightarrow> mcu" where
  "move_forward speed s =
     (let s = gpio_put MOTOR1_IN1 False s;
          s = gpio_put MOTOR1_IN2 True s;
          s = gpio_put MOTOR2_IN3 True s;
          s = gpio_put MOTOR2_IN4 False s;
          s = set_motor_speed MOTOR1_EN ((speed div 2) + 18) s
      in set_motor_speed MOTOR2_EN (speed div 2) s)"

definition move_left :: "u16 \<Rightarrow> mcu \<Rightarrow> mcu" where
  "move_left speed s =
     (let s = gpio_put MOTOR1_IN1 False s;
          s = gpio_put MOTOR1_IN2 True s;
          s = gpio_put MOTOR2_IN3 True s;
          s = gpio_put MOTOR2_IN4 False s;
          s = set_motor_speed MOTOR1_EN ((speed div 2) + 24) s
      in set_motor_speed MOTOR2_EN (speed div 2) s)"

definition move_right :: "u16 \<Rightarrow> mcu \<Rightarrow> mcu" where
  "move_right speed s =
     (let s = gpio_put MOTOR1_IN1 False s;
          s = gpio_put MOTOR1_IN2 True s;
          s = gpio_put MOTOR2_IN3 True s;
          s = gpio_put MOTOR2_IN4 False s;
          s = set_motor_speed MOTOR1_EN ((speed div 2) + 18) s
      in set_motor_speed MOTOR2_EN ((speed div 2) + 6) s)"

definition stop_car :: "mcu \<Rightarrow> mcu" where
  "stop_car s =
     (let s = gpio_put MOTOR1_IN1 False s;
          s = gpio_put MOTOR1_IN2 False s;
          s = gpio_put MOTOR2_IN3 False s;
          s = gpio_put MOTOR2_IN4 False s;
          s = set_motor_speed MOTOR1_EN 0 s
      in set_motor_speed MOTOR2_EN 0 s)"

section \<open>The movements as lists of calls\<close>

text \<open>
  Every movement makes the same six calls with different arguments: four pin levels, then the
  two duty cycles. The list form is what another thread of control can interleave with.
\<close>

datatype motor_call = Put u32 bool | Duty u32 u16

fun run_call :: "motor_call \<Rightarrow> mcu \<Rightarrow> mcu" where
  "run_call (Put g v) s = gpio_put g v s"
| "run_call (Duty g l) s = set_motor_speed g l s"

definition run_calls :: "motor_call list \<Rightarrow> mcu \<Rightarrow> mcu" where
  "run_calls cs s = fold run_call cs s"

definition drive_calls :: "bool \<Rightarrow> bool \<Rightarrow> bool \<Rightarrow> bool \<Rightarrow> u16 \<Rightarrow> u16 \<Rightarrow> motor_call list" where
  "drive_calls a b c d e1 e2 = [Put MOTOR1_IN1 a, Put MOTOR1_IN2 b, Put MOTOR2_IN3 c,
     Put MOTOR2_IN4 d, Duty MOTOR1_EN e1, Duty MOTOR2_EN e2]"

lemma movements_as_calls [drv_defs]:
  "move_backward speed s = run_calls (drive_calls True False False True ((speed div 2) + 15) (speed div 2)) s"
  "move_backward_left speed s = run_calls (drive_calls True False False True (speed div 2) (speed div 2)) s"
  "move_backward_right speed s = run_calls (drive_calls True False False True (speed div 2) (speed div 2)) s"
  "move_forward speed s = run_calls (drive_calls False True True False ((speed div 2) + 18) (speed div 2)) s"
  "move_left speed s = run_calls (drive_calls False True True False ((speed div 2) + 24) (speed div 2)) s"
  "move_right speed s = run_calls (drive_calls False True True False ((speed div 2) + 18) ((speed div 2) + 6)) s"
  "stop_car s = run_calls (drive_calls False False False False 0 0) s"
  by (simp_all add: run_calls_def drive_calls_def Let_def move_forward_def move_left_def
      move_right_def move_backward_def move_backward_left_def move_backward_right_def stop_car_def)

section \<open>What the bridges see\<close>

text \<open>
  Motor 1 turns forwards with IN1 low and IN2 high, motor 2 (mounted the other way round) with
  IN3 high and IN4 low. Both inputs high brakes the motor against the supply.
\<close>

datatype bridge = Coast | Forwards | Backwards | Both_high

fun bridge_of :: "bool \<Rightarrow> bool \<Rightarrow> bridge" where
  "bridge_of False False = Coast"
| "bridge_of True False = Forwards"
| "bridge_of False True = Backwards"
| "bridge_of True True = Both_high"

record drive =
  motor1 :: bridge
  motor2 :: bridge
  duty1 :: u16
  duty2 :: u16

definition drive_of :: "mcu \<Rightarrow> drive" where
  "drive_of s = \<lparr>
     motor1 = bridge_of (gpio_get_out_level s MOTOR1_IN2) (gpio_get_out_level s MOTOR1_IN1),
     motor2 = bridge_of (gpio_get_out_level s MOTOR2_IN3) (gpio_get_out_level s MOTOR2_IN4),
     duty1 = pwm_gpio_level s MOTOR1_EN, duty2 = pwm_gpio_level s MOTOR2_EN\<rparr>"

definition stopped_drive :: drive where
  "stopped_drive = \<lparr>motor1 = Coast, motor2 = Coast, duty1 = 0, duty2 = 0\<rparr>"

lemma drive_of_calls [obs_simps]:
  "drive_of (run_calls (drive_calls a b c d e1 e2) s)
     = \<lparr>motor1 = bridge_of b a, motor2 = bridge_of c d, duty1 = e1, duty2 = e2\<rparr>"
  by (simp add: drive_of_def run_calls_def drive_calls_def set_motor_speed_def obs_simps
      pwm_gpio_to_slice_num_def pwm_gpio_to_channel_def pin_defs)

text \<open>The same calls, cut off after the first \<open>k\<close> of them.\<close>

definition bridge_trace :: "motor_call list \<Rightarrow> mcu \<Rightarrow> (bridge \<times> bridge) list" where
  "bridge_trace cs s = map (\<lambda>k. let d = drive_of (run_calls (take k cs) s) in (motor1 d, motor2 d))
     [0..<Suc (length cs)]"

lemma run_calls_simps [obs_simps]:
  "run_calls [] s = s" "run_calls (c # cs) s = run_calls cs (run_call c s)"
  by (simp_all add: run_calls_def)

lemma bridge_trace_simps [obs_simps]:
  "bridge_trace [] s = [(motor1 (drive_of s), motor2 (drive_of s))]"
  "bridge_trace (c # cs) s
     = (motor1 (drive_of s), motor2 (drive_of s)) # bridge_trace cs (run_call c s)"
  by (simp_all add: bridge_trace_def run_calls_def Let_def upt_conv_Cons del: upt_Suc)
    (simp add: map_Suc_upt [symmetric] del: upt_Suc)

lemma bridge_of_simps [simp]:
  "bridge_of a a = (if a then Both_high else Coast)"
  "bridge_of a b = Forwards \<longleftrightarrow> a \<and> \<not> b" "bridge_of a b = Backwards \<longleftrightarrow> b \<and> \<not> a"
  by (cases a; cases b; simp)+

lemma drive_of_put [obs_simps]:
  "motor1 (drive_of (pwm_set_gpio_level g l s)) = motor1 (drive_of s)"
  "motor2 (drive_of (pwm_set_gpio_level g l s)) = motor2 (drive_of s)"
  "g < 30 \<Longrightarrow> motor1 (drive_of (gpio_put g v s)) = bridge_of
     (if g = MOTOR1_IN2 then v else gpio_get_out_level s MOTOR1_IN2)
     (if g = MOTOR1_IN1 then v else gpio_get_out_level s MOTOR1_IN1)"
  "g < 30 \<Longrightarrow> motor2 (drive_of (gpio_put g v s)) = bridge_of
     (if g = MOTOR2_IN3 then v else gpio_get_out_level s MOTOR2_IN3)
     (if g = MOTOR2_IN4 then v else gpio_get_out_level s MOTOR2_IN4)"
  by (simp_all add: drive_of_def set_motor_speed_def obs_simps pin_defs)

lemma replicate_simps [obs_simps]:
  "replicate 3 x = [x, x, x]" "replicate 4 x = [x, x, x, x]" "replicate 7 x = [x, x, x, x, x, x, x]"
  by (simp_all add: numeral_eq_Suc)

lemma drive_of_frames [obs_simps]:
  "drive_of (tick s) = drive_of s" "drive_of (emit k s) = drive_of s"
  "drive_of (pwm_set_wrap n w s) = drive_of s" "drive_of (pwm_set_enabled n e s) = drive_of s"
  "drive_of (s\<lparr>reads := i\<rparr>) = drive_of s"
  by (simp_all add: drive_of_def obs_simps)
    (simp add: gpio_get_out_level_def pwm_gpio_level_def pwm_chan_level_def)

text \<open>Movements touch the six motor pins only.\<close>

definition motor_pin :: "u32 \<Rightarrow> bool" where
  "motor_pin g \<longleftrightarrow> g \<in> {MOTOR1_IN1, MOTOR1_IN2, MOTOR2_IN3, MOTOR2_IN4}"

lemma drive_calls_frame [obs_simps]:
  "g < 30 \<Longrightarrow> \<not> motor_pin g \<Longrightarrow>
     gpio_get_out_level (run_calls (drive_calls a b c d e1 e2) s) g = gpio_get_out_level s g"
  "g \<in> {4, 6, 7, 8} \<Longrightarrow>
     pwm_gpio_level (run_calls (drive_calls a b c d e1 e2) s) g = pwm_gpio_level s g"
  "pwm_wrap (run_calls (drive_calls a b c d e1 e2) s) n = pwm_wrap s n"
  "pwm_enabled (run_calls (drive_calls a b c d e1 e2) s) n = pwm_enabled s n"
  "pwm_clkdiv16 (run_calls (drive_calls a b c d e1 e2) s) n = pwm_clkdiv16 s n"
  "gpio_oe (run_calls (drive_calls a b c d e1 e2) s) = gpio_oe s"
  "funcsel (run_calls (drive_calls a b c d e1 e2) s) = funcsel s"
  "calls (run_calls (drive_calls a b c d e1 e2) s) = calls s"
  "reads (run_calls (drive_calls a b c d e1 e2) s) = reads s"
  by (auto simp: motor_pin_def drive_calls_def set_motor_speed_def obs_simps
      pwm_gpio_to_slice_num_def pwm_gpio_to_channel_def pin_defs)

section \<open>Initialisation\<close>

definition motors_ready :: "mcu \<Rightarrow> bool" where
  "motors_ready s \<longleftrightarrow>
     (\<forall>g \<in> {MOTOR1_IN1, MOTOR1_IN2, MOTOR2_IN3, MOTOR2_IN4}.
        funcsel s g = GPIO_FUNC_SIO \<and> gpio_is_dir_out s g) \<and>
     (\<forall>g \<in> {MOTOR1_EN, MOTOR2_EN}. let n = pwm_gpio_to_slice_num g in
        funcsel s g = GPIO_FUNC_PWM \<and> pwm_wrap s n = 255 \<and> pwm_clkdiv16 s n = 64 \<and> pwm_enabled s n)"

lemma setup_pwm_obs [obs_simps]:
  assumes "sdk_docs B" and "g < 30"
  shows "funcsel (setup_pwm B g s) = (funcsel s)(g := GPIO_FUNC_PWM)"
    and "h < 30 \<Longrightarrow> gpio_get_out_level (setup_pwm B g s) h = gpio_get_out_level s h"
    and "gpio_is_dir_out (setup_pwm B g s) h = gpio_is_dir_out s h"
    and "pwm_gpio_level (setup_pwm B g s) h = pwm_gpio_level s h"
    and "pwm_wrap (setup_pwm B g s) n
      = (if n = pwm_gpio_to_slice_num g then 255 else pwm_wrap s n)"
    and "pwm_clkdiv16 (setup_pwm B g s) n
      = (if n = pwm_gpio_to_slice_num g then 64 else pwm_clkdiv16 s n)"
    and "pwm_enabled (setup_pwm B g s) n \<longleftrightarrow> n = pwm_gpio_to_slice_num g \<or> pwm_enabled s n"
    and "calls (setup_pwm B g s) = calls s" and "reads (setup_pwm B g s) = reads s"
  using assms by (simp_all add: setup_pwm_def Let_def obs_simps)

section \<open>Properties\<close>

text \<open>
  C16: each movement leaves both bridges in the direction its name says and puts the two duty
  cycles it computes from the speed into the compare registers, whatever was in the registers
  before; the two backward turns drive exactly like each other.
\<close>

theorem movements_drive:
  "drive_of (move_forward speed s)
     = \<lparr>motor1 = Forwards, motor2 = Forwards, duty1 = speed div 2 + 18, duty2 = speed div 2\<rparr>
   \<and> drive_of (move_left speed s)
     = \<lparr>motor1 = Forwards, motor2 = Forwards, duty1 = speed div 2 + 24, duty2 = speed div 2\<rparr>
   \<and> drive_of (move_right speed s)
     = \<lparr>motor1 = Forwards, motor2 = Forwards, duty1 = speed div 2 + 18, duty2 = speed div 2 + 6\<rparr>
   \<and> drive_of (move_backward speed s)
     = \<lparr>motor1 = Backwards, motor2 = Backwards, duty1 = speed div 2 + 15, duty2 = speed div 2\<rparr>
   \<and> drive_of (move_backward_left speed s)
     = \<lparr>motor1 = Backwards, motor2 = Backwards, duty1 = speed div 2, duty2 = speed div 2\<rparr>
   \<and> move_backward_right speed s = move_backward_left speed s
   \<and> drive_of (stop_car s) = stopped_drive"
  by (simp add: drv_defs obs_simps stopped_drive_def)

text \<open>
  For speeds up to 463 no duty cycle of a movement wraps around, and none exceeds the
  counter's wrap value 255, so the bridge's enable pin really gets the fraction asked for.
\<close>

theorem duty_in_range:
  assumes "speed \<le> 463"
  shows "\<forall>d \<in> drive_of ` {move_forward speed s, move_left speed s, move_right speed s,
      move_backward speed s, move_backward_left speed s, move_backward_right speed s}.
    unat (duty1 d) \<in> (\<lambda>k. unat speed div 2 + k) ` {0, 15, 18, 24} \<and> unat (duty1 d) \<le> 255 \<and>
    unat (duty2 d) \<in> (\<lambda>k. unat speed div 2 + k) ` {0, 6} \<and> unat (duty2 d) \<le> 255"
proof -
  have s: "unat speed \<le> 463" using assms by (simp add: word_le_nat_alt)
  have d: "unat (speed div 2) = unat speed div 2" by (simp add: unat_div_distrib)
  have "unat (speed div 2 + 15) = unat speed div 2 + 15" "unat (speed div 2 + 18) = unat speed div 2 + 18"
    "unat (speed div 2 + 24) = unat speed div 2 + 24" "unat (speed div 2 + 6) = unat speed div 2 + 6"
    using s by (simp_all add: unat_word_ariths d)
  moreover have "unat speed div 2 \<le> 231" using s by linarith
  ultimately show ?thesis using d by (simp add: drv_defs obs_simps)
qed

theorem duty_in_range_witness:
  "unat (duty1 (drive_of (move_left 463 reset_mcu))) \<le> 255"
  using duty_in_range [of 463 reset_mcu] by simp

text \<open>
  What the bridges see while a movement is being set up, call by call. Stopping from either
  direction, and repeating a direction, never puts both inputs of a bridge high; a reversal does
  so on one motor for one call (motor 1 from forwards to backwards, motor 2 from backwards to
  forwards), because the pins are written in a fixed order and not through a stop.
\<close>

theorem reversal_brakes_one_motor:
  "let fwd = drive_calls False True True False x y; bwd = drive_calls True False False True x y;
       halt = drive_calls False False False False 0 0 in
    bridge_trace bwd (move_forward speed s) = [(Forwards, Forwards), (Both_high, Forwards),
      (Backwards, Forwards), (Backwards, Coast)] @ replicate 3 (Backwards, Backwards)
    \<and> bridge_trace fwd (move_backward speed s) = [(Backwards, Backwards), (Coast, Backwards),
      (Forwards, Backwards), (Forwards, Both_high)] @ replicate 3 (Forwards, Forwards)
    \<and> bridge_trace fwd (move_left speed s) = replicate 7 (Forwards, Forwards)
    \<and> bridge_trace halt (move_forward speed s) = [(Forwards, Forwards), (Forwards, Forwards),
      (Coast, Forwards)] @ replicate 4 (Coast, Coast)
    \<and> bridge_trace halt (move_backward speed s) = [(Backwards, Backwards), (Coast, Backwards),
      (Coast, Backwards), (Coast, Backwards)] @ replicate 3 (Coast, Coast)"
  by (simp add: drive_calls_def drv_defs obs_simps pin_defs set_motor_speed_def Let_def)

text \<open>
  A movement changes nothing but its own six pins: every other output pin keeps its level,
  the buzzer and the three colours of the LED keep their duty cycles, no PWM slice is
  reconfigured, no pin changes direction or function, and nothing is read or sent.
\<close>

theorem movement_frame:
  assumes "s' \<in> {move_forward speed s, move_left speed s, move_right speed s, stop_car s,
      move_backward speed s, move_backward_left speed s, move_backward_right speed s}"
  shows "(\<forall>g < 30. motor_pin g \<or> gpio_get_out_level s' g = gpio_get_out_level s g)
    \<and> (\<forall>g \<in> {4, 6, 7, 8}. pwm_gpio_level s' g = pwm_gpio_level s g)
    \<and> pwm_wrap s' = pwm_wrap s \<and> pwm_clkdiv16 s' = pwm_clkdiv16 s \<and> pwm_enabled s' = pwm_enabled s
    \<and> gpio_oe s' = gpio_oe s \<and> funcsel s' = funcsel s \<and> calls s' = calls s \<and> reads s' = reads s"
  using assms by (auto simp: drv_defs obs_simps fun_eq_iff)

theorem movement_frame_witness:
  "gpio_get_out_level (stop_car reset_mcu) 15 = gpio_get_out_level reset_mcu 15"
proof -
  have "\<forall>g < 30. motor_pin g \<or>
      gpio_get_out_level (stop_car reset_mcu) g = gpio_get_out_level reset_mcu g"
    using movement_frame [of "stop_car reset_mcu" 0 reset_mcu] by simp
  then show ?thesis by (drule_tac x = 15 in spec) (simp add: motor_pin_def pin_defs)
qed

text \<open>
  On SDK functions that behave as documented, \<open>motor_init\<close> leaves the four bridge pins as low
  outputs, so both motors coast, and the two enable pins on running PWM slices that count to
  255 with a clock divider of 4.
\<close>

theorem motor_init_ready:
  assumes "sdk_docs B"
  shows "motors_ready (motor_init B s)
    \<and> motor1 (drive_of (motor_init B s)) = Coast \<and> motor2 (drive_of (motor_init B s)) = Coast"
  using assms
  by (simp add: motors_ready_def motor_init_def drive_of_def Let_def obs_simps pin_defs
      pwm_gpio_to_slice_num_def)

theorem motor_init_ready_witness: "motors_ready (motor_init ref_board reset_mcu)"
  using motor_init_ready [OF sdk_docs_ref_board] by blast

end
