(* ===== verification/Pico_Time.thy ===== *)
theory Pico_Time
  imports Sdk_Docs
begin

text \<open>
  Timestamps, from pico/types.h, pico/time.h and hardware/timer.h. A timestamp is a 64-bit count
  of microseconds since boot; the millisecond values the drivers compare are 32 bits wide and
  wrap. The clock itself (\<open>time_us_64\<close>, in timer.c) is an input of the board.
\<close>

type_synonym absolute_time_t = u64

section \<open>Operations\<close>

definition to_us_since_boot :: "absolute_time_t \<Rightarrow> u64" where
  "to_us_since_boot t = t"

definition update_us_since_boot :: "u64 \<Rightarrow> absolute_time_t" where
  "update_us_since_boot us_since_boot = us_since_boot"

definition get_absolute_time :: "board \<Rightarrow> mcu \<Rightarrow> absolute_time_t \<times> mcu" where
  "get_absolute_time B s = (update_us_since_boot (time_us_at B (reads s)), tick s)"

definition us_to_ms :: "u64 \<Rightarrow> u32" where
  "us_to_ms us =
     (if drop_bit 32 us \<noteq> 0 then ucast (us div 1000) else (ucast us :: u32) div 1000)"

definition to_ms_since_boot :: "absolute_time_t \<Rightarrow> u32" where
  "to_ms_since_boot t = us_to_ms (to_us_since_boot t)"

definition delayed_by_us :: "absolute_time_t \<Rightarrow> u64 \<Rightarrow> absolute_time_t" where
  "delayed_by_us t us =
     (let base = to_us_since_boot t; delayed = base + us
      in update_us_since_boot (if delayed < base then -1 else delayed))"

definition delayed_by_ms :: "absolute_time_t \<Rightarrow> u32 \<Rightarrow> absolute_time_t" where
  "delayed_by_ms t ms =
     (let base = to_us_since_boot t; delayed = base + ucast ms * 1000
      in update_us_since_boot (if delayed < base then -1 else delayed))"

definition make_timeout_time_us :: "board \<Rightarrow> u64 \<Rightarrow> mcu \<Rightarrow> absolute_time_t \<times> mcu" where
  "make_timeout_time_us B us s =
     (let (now, s) = get_absolute_time B s in (delayed_by_us now us, s))"

definition make_timeout_time_ms :: "board \<Rightarrow> u32 \<Rightarrow> mcu \<Rightarrow> absolute_time_t \<times> mcu" where
  "make_timeout_time_ms B ms s =
     (let (now, s) = get_absolute_time B s in (delayed_by_ms now ms, s))"

definition absolute_time_diff_us :: "absolute_time_t \<Rightarrow> absolute_time_t \<Rightarrow> s64" where
  "absolute_time_diff_us frm to = to_us_since_boot to - to_us_since_boot frm"

definition is_nil_time :: "absolute_time_t \<Rightarrow> bool" where
  "is_nil_time t \<longleftrightarrow> to_us_since_boot t = 0"

text \<open>The two halves of the raw timer are read one after the other.\<close>

definition time_us_32 :: "board \<Rightarrow> mcu \<Rightarrow> u32 \<times> mcu" where
  "time_us_32 B s = (ucast (time_us_at B (reads s)), tick s)"

definition time_reached :: "board \<Rightarrow> absolute_time_t \<Rightarrow> mcu \<Rightarrow> bool \<times> mcu" where
  "time_reached B t s =
     (let target = to_us_since_boot t;
          hi_target = ucast (drop_bit 32 target) :: u32;
          hi = ucast (drop_bit 32 (time_us_at B (reads s))) :: u32; s = tick s
      in if hi \<ge> hi_target
         then (let (lo, s) = time_us_32 B s in (lo \<ge> ucast target \<or> hi \<noteq> hi_target, s))
         else (False, s))"

section \<open>Arithmetic of timestamps\<close>

lemma unat_u64: "unat (w :: u64) < 18446744073709551616"
proof -
  have "unat w < 2 ^ LENGTH(64)" by (rule unsigned_less)
  then show ?thesis by simp
qed

lemma unat_u32: "unat (w :: u32) < 4294967296"
proof -
  have "unat w < 2 ^ LENGTH(32)" by (rule unsigned_less)
  then show ?thesis by simp
qed

lemma unat_ucast_u32: "unat (ucast (w :: u64) :: u32) = unat w mod 4294967296"
  by (simp add: unsigned_ucast_eq take_bit_eq_mod)

lemma unat_ucast_u64: "unat (ucast (w :: u32) :: u64) = unat w"
  using unat_u32 [of w] by (simp add: unsigned_ucast_eq take_bit_eq_mod)

lemma drop_32_eq_0: "drop_bit 32 (w :: u64) = 0 \<longleftrightarrow> unat w < 4294967296"
  by (simp add: word_unat_eq_iff unat_div_distrib div_eq_0_iff drop_bit_eq_div)

text \<open>The 32-bit shortcut computes the same quotient as the 64-bit division.\<close>

lemma us_to_ms_eq: "us_to_ms us = ucast (us div 1000)"
proof (cases "unat us < 4294967296")
  case True
  have "unat (us div 1000) = unat us div 1000" by (simp add: unat_div_distrib)
  with True show ?thesis
    by (simp add: us_to_ms_def drop_32_eq_0 word_unat_eq_iff unat_div_distrib unat_ucast_u32)
qed (simp add: us_to_ms_def drop_32_eq_0)

lemma unat_us_to_ms: "unat (us_to_ms us) = unat us div 1000 mod 4294967296"
  by (simp add: us_to_ms_eq unat_ucast_u32 unat_div_distrib)

text \<open>Delays saturate at the end of time instead of wrapping.\<close>

lemma unat_delayed_by_us:
  "unat (delayed_by_us t us) = min (unat t + unat us) 18446744073709551615"
proof -
  have w: "unat (t + us) = (unat t + unat us) mod 18446744073709551616"
    by (simp add: unat_word_ariths)
  show ?thesis
  proof (cases "unat t + unat us < 18446744073709551616")
    case True
    with w show ?thesis
      by (simp add: delayed_by_us_def update_us_since_boot_def to_us_since_boot_def
          word_less_nat_alt)
  next
    case False
    then have "unat (t + us) = unat t + unat us - 18446744073709551616"
      using w unat_u64 [of t] unat_u64 [of us] by (simp add: mod_if)
    with False have "t + us < t" using unat_u64 [of us] by (simp add: word_less_nat_alt)
    with False show ?thesis
      by (simp add: delayed_by_us_def update_us_since_boot_def to_us_since_boot_def
          unsigned_minus_1_eq_mask mask_eq_exp_minus_1)
  qed
qed

lemma delayed_by_ms_us: "delayed_by_ms t ms = delayed_by_us t (ucast ms * 1000)"
  by (simp add: delayed_by_ms_def delayed_by_us_def)

text \<open>A timestamp is later than another exactly when the signed difference is negative.\<close>

lemma sint_diff:
  assumes "unat a < 9223372036854775808" and "unat b < 9223372036854775808"
  shows "sint (absolute_time_diff_us a b) = int (unat b) - int (unat a)"
proof -
  define d where "d = int (unat b) - int (unat a)"
  have d: "- 9223372036854775808 \<le> d" "d < 9223372036854775808"
    using assms unfolding d_def by linarith+
  have "absolute_time_diff_us a b = word_of_int d"
    by (simp add: absolute_time_diff_us_def to_us_since_boot_def d_def)
  moreover have "signed_take_bit 63 d = d"
    using d by (intro signed_take_bit_int_eq_self) simp_all
  ultimately have "sint (absolute_time_diff_us a b) = d" by (simp add: signed_of_int)
  then show ?thesis by (simp only: d_def)
qed

lemma time_passed:
  assumes "unat a < 9223372036854775808" and "unat b < 9223372036854775808"
  shows "sint (absolute_time_diff_us a b) < 0 \<longleftrightarrow> b < a"
  by (simp only: sint_diff [OF assms] word_less_nat_alt) linarith

text \<open>
  With both halves read at the same instant, \<open>time_reached\<close> is the comparison of the two 64-bit
  values.
\<close>

lemma halves_le:
  "(t :: u64) \<le> now \<longleftrightarrow> (let hi_t = ucast (drop_bit 32 t) :: u32; hi = ucast (drop_bit 32 now) :: u32
     in hi_t \<le> hi \<and> ((ucast t :: u32) \<le> ucast now \<or> hi \<noteq> hi_t))"
proof -
  have hi: "unat (ucast (drop_bit 32 w) :: u32) = unat w div 4294967296" for w :: u64
    using unat_u64 [of w] by (simp add: unat_ucast_u32 unat_div_distrib drop_bit_eq_div)
  have lo: "unat (ucast w :: u32) = unat w mod 4294967296" for w :: u64
    by (rule unat_ucast_u32)
  have hi_eq: "(ucast (drop_bit 32 v) :: u32) = ucast (drop_bit 32 w)
      \<longleftrightarrow> unat v div 4294967296 = unat w div 4294967296" for v w :: u64
    by (simp only: word_unat_eq_iff hi)
  have hi_le: "(ucast (drop_bit 32 v) :: u32) \<le> ucast (drop_bit 32 w)
      \<longleftrightarrow> unat v div 4294967296 \<le> unat w div 4294967296" for v w :: u64
    by (simp only: word_le_nat_alt hi)
  have lo_le: "(ucast v :: u32) \<le> ucast w
      \<longleftrightarrow> unat v mod 4294967296 \<le> unat w mod 4294967296" for v w :: u64
    by (simp only: word_le_nat_alt lo)
  have split: "unat w = unat w div 4294967296 * 4294967296 + unat w mod 4294967296" for w :: u64
    by simp
  have "unat t \<le> unat now \<longleftrightarrow> unat t div 4294967296 \<le> unat now div 4294967296
      \<and> (unat t mod 4294967296 \<le> unat now mod 4294967296
         \<or> unat now div 4294967296 \<noteq> unat t div 4294967296)"
    using split [of t] split [of now] mod_less_divisor [of 4294967296 "unat t"]
      mod_less_divisor [of 4294967296 "unat now"] by linarith
  then show ?thesis
    by (simp only: Let_def hi_eq hi_le lo_le [of t now] word_le_nat_alt [of t now])
qed

lemma time_reached_instant:
  assumes "time_us_at B (Suc (reads s)) = time_us_at B (reads s)"
  shows "fst (time_reached B t s) \<longleftrightarrow> t \<le> time_us_at B (reads s)"
  using assms
  by (auto simp: time_reached_def time_us_32_def to_us_since_boot_def halves_le Let_def obs_simps)

section \<open>A running clock\<close>

text \<open>
  What the code relies on of the timer: it never runs backwards, it does not stand still, and
  it advances by less than a second from one read of the program to the next. The last two are
  only asked for up to \<open>2\<^sup>6\<^sup>2\<close> microseconds, some 146000 years.
\<close>

definition clock_at :: "board \<Rightarrow> nat \<Rightarrow> nat" where
  "clock_at B n = unat (time_us_at B n)"

definition steady_clock :: "board \<Rightarrow> bool" where
  "steady_clock B \<longleftrightarrow>
     (\<forall>n. clock_at B n \<le> clock_at B (Suc n)) \<and>
     (\<forall>n. clock_at B n < 4611686018427387904 \<longrightarrow>
        clock_at B (Suc n) \<le> clock_at B n + 1000000 \<and> (\<exists>m. clock_at B n < clock_at B m))"

lemma steady_mono: "steady_clock B \<Longrightarrow> m \<le> n \<Longrightarrow> clock_at B m \<le> clock_at B n"
  by (rule lift_Suc_mono_le) (simp_all add: steady_clock_def)

lemma steady_step:
  "steady_clock B \<Longrightarrow> clock_at B n < 4611686018427387904 \<Longrightarrow>
     clock_at B (Suc n) \<le> clock_at B n + 1000000"
  by (simp add: steady_clock_def)

lemma steady_progress:
  "steady_clock B \<Longrightarrow> clock_at B n < 4611686018427387904 \<Longrightarrow> \<exists>m. clock_at B n < clock_at B m"
  by (simp add: steady_clock_def)

lemma steady_passes:
  assumes "steady_clock B" and "t < 4611686018427387904"
  shows "\<exists>m. t < clock_at B m"
  using assms(2)
proof (induction t)
  case 0
  show ?case
  proof (cases "clock_at B 0 = 0")
    case True
    with steady_progress [OF assms(1), of 0] show ?thesis by simp
  qed auto
next
  case (Suc t)
  then obtain m where m: "t < clock_at B m" by auto
  show ?case
  proof (cases "Suc t < clock_at B m")
    case False
    with m have "clock_at B m = Suc t" by simp
    with Suc.prems steady_progress [OF assms(1), of m] show ?thesis by simp
  qed auto
qed

text \<open>The reference board's clock is steady.\<close>

lemma steady_ref_board: "steady_clock ref_board"
proof -
  have clock: "clock_at ref_board n = min n 9223372036854775807" for n
    by (simp add: clock_at_def unat_of_nat take_bit_eq_mod)
  have "clock_at ref_board n < clock_at ref_board (Suc n)"
    if "clock_at ref_board n < 4611686018427387904" for n
    using that by (simp add: clock)
  then show ?thesis by (auto simp: steady_clock_def clock)
qed

text \<open>The timeout tests of the drivers, as comparisons of clock values.\<close>

lemma passed_iff:
  assumes "clock_at B n < 9223372036854775808" and "unat timeout < 9223372036854775808"
  shows "sint (absolute_time_diff_us (time_us_at B n) timeout) < 0
    \<longleftrightarrow> unat timeout < clock_at B n"
  using assms time_passed [of "time_us_at B n" timeout]
  by (simp add: clock_at_def word_less_nat_alt)

lemma unat_timeout_us:
  assumes "clock_at B n + unat us < 18446744073709551616"
  shows "unat (delayed_by_us (time_us_at B n) us) = clock_at B n + unat us"
  using assms by (simp add: unat_delayed_by_us clock_at_def)

end
