(* ===== verification/C_Float.thy ===== *)
theory C_Float
  imports Prelude
begin

text \<open>
  The C floating-point types the firmware computes with. A finite binary32 or binary64 value is
  the rational number it denotes; an operation computes the exact rational result and rounds it
  to the nearest representable number, ties to even, as IEEE 754 prescribes. No value of the
  firmware comes near the overflow threshold, so infinities and NaNs are not represented; the
  two zeros are one.
\<close>

section \<open>Rounding to an integer\<close>

definition round_even :: "rat \<Rightarrow> int" where
  "round_even x =
     (let f = \<lfloor>x\<rfloor>; r = x - of_int f
      in if r < 1/2 then f else if 1/2 < r then f + 1 else if even f then f else f + 1)"

lemma round_even_int [simp]: "round_even (of_int n) = n"
  by (simp add: round_even_def)

lemma round_even_bounds: "\<lfloor>x\<rfloor> \<le> round_even x" "round_even x \<le> \<lceil>x\<rceil>"
proof -
  show "\<lfloor>x\<rfloor> \<le> round_even x" by (simp add: round_even_def Let_def)
  show "round_even x \<le> \<lceil>x\<rceil>"
  proof (cases "x = of_int \<lfloor>x\<rfloor>")
    case True
    then show ?thesis by (metis round_even_int ceiling_of_int order_refl)
  next
    case False
    then have "\<lceil>x\<rceil> = \<lfloor>x\<rfloor> + 1" by (metis ceiling_altdef)
    then show ?thesis by (simp add: round_even_def Let_def)
  qed
qed

lemma round_even_error: "\<bar>of_int (round_even x) - x\<bar> \<le> 1/2"
proof -
  have "of_int \<lfloor>x\<rfloor> \<le> x" "x < of_int \<lfloor>x\<rfloor> + 1" by linarith+
  then show ?thesis by (auto simp: round_even_def Let_def abs_if; linarith)
qed

lemma round_even_mono:
  assumes "x \<le> y"
  shows "round_even x \<le> round_even y"
proof (cases "\<lfloor>x\<rfloor> = \<lfloor>y\<rfloor>")
  case True
  with assms show ?thesis by (auto simp: round_even_def Let_def)
next
  case False
  with assms have "\<lfloor>x\<rfloor> < \<lfloor>y\<rfloor>" using floor_mono [OF assms] by simp
  then have "\<lceil>x\<rceil> \<le> \<lfloor>y\<rfloor>" by linarith
  then show ?thesis using round_even_bounds [of x] round_even_bounds [of y] by linarith
qed

lemma round_even_eqI:
  assumes "of_int n - 1/2 < x" and "x < of_int n + 1/2"
  shows "round_even x = n"
proof -
  have "\<bar>of_int (round_even x) - of_int n\<bar> < (1 :: rat)"
    using round_even_error [of x] assms by linarith
  then have "\<bar>round_even x - n\<bar> < 1" by linarith
  then show ?thesis by simp
qed

text \<open>A tie goes to the even neighbour.\<close>

lemma round_even_tieI:
  assumes "x = of_int n + 1/2" and "even n"
  shows "round_even x = n"
proof -
  have "\<lfloor>x\<rfloor> = n" using assms(1) by linarith
  with assms show ?thesis by (simp add: round_even_def Let_def)
qed

lemma round_even_le: "x \<le> of_int n \<Longrightarrow> round_even x \<le> n"
  using round_even_mono [of x "of_int n"] by simp

lemma round_even_ge: "of_int n \<le> x \<Longrightarrow> n \<le> round_even x"
  using round_even_mono [of "of_int n" x] by simp

section \<open>Rounding to a format\<close>

text \<open>The number of binary digits.\<close>

fun bitlen :: "nat \<Rightarrow> nat" where
  "bitlen n = (if n = 0 then 0 else Suc (bitlen (n div 2)))"

declare bitlen.simps [simp del]

lemma bitlen_0 [simp]: "bitlen 0 = 0"
  by (simp add: bitlen.simps)

lemma bitlen_upper: "n < 2 ^ bitlen n"
proof (induction n rule: bitlen.induct)
  case (1 n)
  show ?case
  proof (cases "n = 0")
    case False
    with 1 have "n div 2 < 2 ^ bitlen (n div 2)" by simp
    then have "n < 2 * 2 ^ bitlen (n div 2)" by linarith
    with False show ?thesis by (simp add: bitlen.simps [of n])
  qed simp
qed

lemma bitlen_lower: "0 < n \<Longrightarrow> 2 ^ (bitlen n - 1) \<le> n"
proof (induction n rule: bitlen.induct)
  case (1 n)
  show ?case
  proof (cases "n div 2 = 0")
    case True
    with 1 show ?thesis by (simp add: bitlen.simps [of n])
  next
    case False
    with 1 have IH: "2 ^ (bitlen (n div 2) - 1) \<le> n div 2" by simp
    obtain k where k: "bitlen (n div 2) = Suc k"
      using False by (simp add: bitlen.simps [of "n div 2"])
    with IH have "2 * 2 ^ k \<le> n" by simp
    with False k show ?thesis by (simp add: bitlen.simps [of n])
  qed
qed

lemma bitlen_mono: "m \<le> n \<Longrightarrow> bitlen m \<le> bitlen n"
proof (cases "m = 0")
  case False
  assume "m \<le> n"
  with False bitlen_lower [of m] bitlen_upper [of n] have "2 ^ (bitlen m - 1) < (2 :: nat) ^ bitlen n"
    by linarith
  then show ?thesis by simp
qed simp

lemma bitlen_le: "n < 2 ^ k \<Longrightarrow> bitlen n \<le> k"
proof (cases "n = 0")
  case False
  assume "n < 2 ^ k"
  with False bitlen_lower [of n] have "2 ^ (bitlen n - 1) < (2 :: nat) ^ k" by linarith
  then show ?thesis by simp
qed simp

lemma bitlen_eqI: "2 ^ k \<le> n \<Longrightarrow> n < 2 ^ Suc k \<Longrightarrow> bitlen n = Suc k"
proof -
  assume n: "2 ^ k \<le> n" "n < 2 ^ Suc k"
  then have "0 < n" using order_less_le_trans [of 0 "2 ^ k" n] by simp
  have "2 ^ k < (2 :: nat) ^ bitlen n" using n bitlen_upper [of n] by linarith
  moreover have "2 ^ (bitlen n - 1) < (2 :: nat) ^ Suc k"
    using n bitlen_lower [OF \<open>0 < n\<close>] by linarith
  ultimately have "k < bitlen n" "bitlen n - 1 < Suc k"
    by (simp_all only: power_strict_increasing_iff one_less_numeral_iff semiring_norm)
  then show ?thesis by simp
qed

text \<open>
  \<open>fl p e\<close> rounds to a format with \<open>p\<close> significant bits whose smallest positive number is
  \<open>2 ^ -e\<close>. Scaled by \<open>2 ^ e\<close> the representable numbers are integers; one with more than \<open>p\<close> bits
  keeps the leading \<open>p\<close>.
\<close>

definition fl_pos :: "nat \<Rightarrow> nat \<Rightarrow> rat \<Rightarrow> rat" where
  "fl_pos p e x =
     (let k = bitlen (nat \<lfloor>x * 2 ^ e\<rfloor>) - p
      in of_int (round_even (x * 2 ^ e / 2 ^ k)) * 2 ^ k / 2 ^ e)"

definition fl :: "nat \<Rightarrow> nat \<Rightarrow> rat \<Rightarrow> rat" where
  "fl p e x = (if x < 0 then - fl_pos p e (- x) else fl_pos p e x)"

definition fl32 :: "rat \<Rightarrow> rat" where "fl32 = fl 24 149"
definition fl64 :: "rat \<Rightarrow> rat" where "fl64 = fl 53 1074"

text \<open>The arithmetic operations of the two types.\<close>

definition f_add :: "rat \<Rightarrow> rat \<Rightarrow> rat" where "f_add x y = fl32 (x + y)"
definition f_sub :: "rat \<Rightarrow> rat \<Rightarrow> rat" where "f_sub x y = fl32 (x - y)"
definition f_mul :: "rat \<Rightarrow> rat \<Rightarrow> rat" where "f_mul x y = fl32 (x * y)"
definition f_div :: "rat \<Rightarrow> rat \<Rightarrow> rat" where "f_div x y = fl32 (x / y)"
definition d_mul :: "rat \<Rightarrow> rat \<Rightarrow> rat" where "d_mul x y = fl64 (x * y)"
definition d_div :: "rat \<Rightarrow> rat \<Rightarrow> rat" where "d_div x y = fl64 (x / y)"

section \<open>Rounding keeps the order\<close>

lemma fl_pos_nonneg: "0 \<le> x \<Longrightarrow> 0 \<le> fl_pos p e x"
proof -
  assume "0 \<le> x"
  then have "0 \<le> round_even (x * 2 ^ e / 2 ^ k)" for k by (intro round_even_ge) simp
  then show ?thesis by (simp add: fl_pos_def Let_def)
qed

text \<open>The scaled value lies below the next power of two, and above the last one.\<close>

lemma scaled_bounds:
  assumes "0 \<le> (x :: rat)" and k: "k = bitlen (nat \<lfloor>x\<rfloor>) - p"
  shows "x / 2 ^ k < 2 ^ p" and "0 < k \<Longrightarrow> 0 < p \<Longrightarrow> 2 ^ (p - 1) \<le> x / 2 ^ k"
proof -
  define m where "m = nat \<lfloor>x\<rfloor>"
  have "(of_nat m :: rat) = of_int \<lfloor>x\<rfloor>" using assms(1) unfolding m_def by simp
  then have m: "of_nat m \<le> x" "x < of_nat m + 1" by linarith+
  have "m < 2 ^ (p + k)"
    using bitlen_upper [of m]
    by (rule order_less_le_trans) (use k m_def in \<open>simp add: power_increasing\<close>)
  then have "m + 1 \<le> 2 ^ (p + k)" by simp
  then have "(of_nat (m + 1) :: rat) \<le> of_nat (2 ^ (p + k))" by (simp only: of_nat_le_iff)
  then have "(of_nat m + 1 :: rat) \<le> 2 ^ (p + k)" by simp
  with m have "x < 2 ^ p * 2 ^ k" unfolding power_add by linarith
  then show "x / 2 ^ k < 2 ^ p" by (simp only: pos_divide_less_eq zero_less_power zero_less_numeral)
  assume kp: "0 < k" "0 < p"
  then have "bitlen m = p + k" using k unfolding m_def by simp
  then have "0 < m" using kp by (cases "m = 0") auto
  from bitlen_lower [OF this] \<open>bitlen m = p + k\<close> kp have "2 ^ (p - 1 + k) \<le> m" by simp
  then have "(of_nat (2 ^ (p - 1 + k)) :: rat) \<le> of_nat m" by (simp only: of_nat_le_iff)
  then have "(2 ^ (p - 1 + k) :: rat) \<le> of_nat m" by simp
  with m have "2 ^ (p - 1) * 2 ^ k \<le> x" unfolding power_add by linarith
  then show "2 ^ (p - 1) \<le> x / 2 ^ k"
    by (simp only: pos_le_divide_eq zero_less_power zero_less_numeral)
qed

lemma fl_pos_mono:
  assumes "0 \<le> x" and "x \<le> y" and "0 < p"
  shows "fl_pos p e x \<le> fl_pos p e y"
proof -
  define X Y where XY: "X = x * 2 ^ e" "Y = y * 2 ^ e"
  have X0: "0 \<le> X" and le: "X \<le> Y" and Y0: "0 \<le> Y" using assms by (auto simp: XY)
  define i j where ij: "i = bitlen (nat \<lfloor>X\<rfloor>) - p" "j = bitlen (nat \<lfloor>Y\<rfloor>) - p"
  have "i \<le> j" unfolding ij using le
    by (intro diff_le_mono bitlen_mono nat_mono floor_mono)
  have "(of_int (round_even (X / 2 ^ i)) * 2 ^ i :: rat) \<le> of_int (round_even (Y / 2 ^ j)) * 2 ^ j"
  proof (cases "i = j")
    case True
    have "round_even (X / 2 ^ i) \<le> round_even (Y / 2 ^ i)"
      using le by (intro round_even_mono divide_right_mono) simp_all
    then show ?thesis unfolding True [symmetric] by (intro mult_right_mono) simp_all
  next
    case False
    with \<open>i \<le> j\<close> have "0 < j" and "i + 1 \<le> j" by simp_all
    have "X / 2 ^ i \<le> of_int (2 ^ p)" using scaled_bounds(1) [OF X0 ij(1)] by simp
    then have "round_even (X / 2 ^ i) \<le> 2 ^ p" by (rule round_even_le)
    then have "(of_int (round_even (X / 2 ^ i)) :: rat) \<le> of_int (2 ^ p)" by (simp only: of_int_le_iff)
    then have "(of_int (round_even (X / 2 ^ i)) * 2 ^ i :: rat) \<le> 2 ^ p * 2 ^ i" by simp
    also have "\<dots> = (2 ^ (p - 1) * 2 ^ (i + 1) :: rat)"
      using assms(3) by (cases p) (simp_all add: power_add)
    also have "\<dots> \<le> (2 ^ (p - 1) * 2 ^ j :: rat)"
      using \<open>i + 1 \<le> j\<close> by (intro mult_left_mono power_increasing) simp_all
    also have "\<dots> \<le> of_int (round_even (Y / 2 ^ j)) * 2 ^ j"
    proof -
      have "of_int (2 ^ (p - 1)) \<le> Y / 2 ^ j"
        using scaled_bounds(2) [OF Y0 ij(2) \<open>0 < j\<close> assms(3)] by simp
      then have "2 ^ (p - 1) \<le> round_even (Y / 2 ^ j)" by (rule round_even_ge)
      then have "(of_int (2 ^ (p - 1)) :: rat) \<le> of_int (round_even (Y / 2 ^ j))"
        by (simp only: of_int_le_iff)
      then show ?thesis by simp
    qed
    finally show ?thesis .
  qed
  then show ?thesis unfolding fl_pos_def Let_def XY [symmetric] ij [symmetric]
    by (simp add: divide_right_mono)
qed

lemma fl_mono: "x \<le> y \<Longrightarrow> 0 < p \<Longrightarrow> fl p e x \<le> fl p e y"
  using fl_pos_mono [of x y p e] fl_pos_mono [of "- y" "- x" p e] fl_pos_nonneg [of "- x" p e]
    fl_pos_nonneg [of y p e]
  by (auto simp: fl_def)

lemma fl_pos_0 [simp]: "fl_pos p e 0 = 0"
  using round_even_int [of 0] by (simp add: fl_pos_def)

lemma fl_0 [simp]: "fl p e 0 = 0"
  by (simp add: fl_def)

lemma fl_minus: "fl p e (- x) = - fl p e x"
  by (cases x "0 :: rat" rule: linorder_cases) (auto simp: fl_def)

text \<open>
  A value whose scaled form has exactly \<open>p\<close> bits before the point is rounded there; and an
  integer that fits in \<open>p\<close> bits is exact.
\<close>

lemma fl_pos_norm:
  assumes "0 < p" and "j \<le> e" and "2 ^ (p - 1) \<le> x * 2 ^ j" and "x * 2 ^ j < 2 ^ p"
  shows "fl_pos p e x = of_int (round_even (x * 2 ^ j)) / 2 ^ j"
proof -
  define k where "k = e - j"
  have e: "(2 ^ e :: rat) = 2 ^ j * 2 ^ k" using assms(2) by (simp add: k_def flip: power_add)
  define m where "m = nat \<lfloor>x * 2 ^ e\<rfloor>"
  have p: "(2 :: rat) ^ (p - 1) * 2 ^ k = 2 ^ (p + k - 1)" using assms(1) by (simp flip: power_add)
  have "2 ^ (p - 1) * 2 ^ k \<le> x * 2 ^ j * 2 ^ k"
    by (rule mult_right_mono [OF assms(3)]) simp
  then have "2 ^ (p + k - 1) \<le> x * 2 ^ e" by (simp only: p e mult.assoc)
  then have "2 ^ (p + k - 1) \<le> \<lfloor>x * 2 ^ e\<rfloor>" by (simp add: le_floor_iff)
  then have lo: "2 ^ (p + k - 1) \<le> m" unfolding m_def by (simp add: le_nat_iff)
  have "x * 2 ^ j * 2 ^ k < 2 ^ p * 2 ^ k"
    by (rule mult_strict_right_mono [OF assms(4)]) simp
  then have "x * 2 ^ e < 2 ^ (p + k)" by (simp only: e power_add mult.assoc)
  then have "\<lfloor>x * 2 ^ e\<rfloor> < 2 ^ (p + k)" by (simp add: floor_less_iff)
  then have hi: "m < 2 ^ Suc (p + k - 1)" using assms(1) unfolding m_def
    by (simp add: nat_less_iff)
  have "bitlen m = p + k" using bitlen_eqI [OF lo hi] assms(1) by simp
  then have "bitlen m - p = k" by simp
  then show ?thesis unfolding fl_pos_def Let_def m_def [symmetric] by (simp add: e)
qed

lemma fl_norm:
  assumes "0 < p" and "j \<le> e" and "2 ^ (p - 1) \<le> x * 2 ^ j" and "x * 2 ^ j < 2 ^ p"
  shows "fl p e x = of_int (round_even (x * 2 ^ j)) / 2 ^ j"
proof -
  have "0 \<le> x * 2 ^ j" using assms(3) by (rule order_trans [rotated]) simp
  then have "0 \<le> x" by (metis not_le mult_neg_pos zero_less_power zero_less_numeral)
  then show ?thesis using fl_pos_norm [OF assms] by (simp add: fl_def)
qed

text \<open>Integers and dyadic fractions that fit in the significand are represented exactly.\<close>

lemma fl_exact_pos:
  assumes "0 < p" and "j \<le> e" and "0 \<le> n" and "n < 2 ^ p"
  shows "fl_pos p e (of_int n / 2 ^ j) = of_int n / 2 ^ j"
proof -
  define k where "k = bitlen (nat (n * 2 ^ (e - j))) - p"
  have e: "(2 ^ e :: rat) = 2 ^ (e - j) * 2 ^ j" using assms(2) by (simp flip: power_add)
  have sc: "of_int n / 2 ^ j * 2 ^ e = (of_int (n * 2 ^ (e - j)) :: rat)"
    by (simp add: e)
  have "nat (n * 2 ^ (e - j)) < 2 ^ (p + (e - j))"
    using assms(3,4) by (simp add: nat_less_iff power_add mult_strict_right_mono)
  then have "k \<le> e - j" unfolding k_def by (simp add: bitlen_le le_diff_conv2 le_diff_conv
        add.commute)
  then have d: "(2 :: rat) ^ (e - j) = 2 ^ (e - j - k) * 2 ^ k" by (simp flip: power_add)
  have "of_int (n * 2 ^ (e - j)) / 2 ^ k = (of_int (n * 2 ^ (e - j - k)) :: rat)"
    by (simp add: d)
  then show ?thesis
    unfolding fl_pos_def sc floor_of_int Let_def k_def [symmetric]
    by (simp add: round_even_int del: of_int_mult of_int_power) (simp add: e d)
qed

lemma fl_exact:
  assumes "0 < p" and "j \<le> e" and "\<bar>n\<bar> < 2 ^ p"
  shows "fl p e (of_int n / 2 ^ j) = of_int n / 2 ^ j"
proof (cases "n < 0")
  case True
  then have "of_int n / 2 ^ j < (0 :: rat)" by (simp add: divide_neg_pos)
  with True assms fl_exact_pos [of p j e "- n"] show ?thesis by (simp add: fl_def)
next
  case False
  then have "0 \<le> of_int n / (2 ^ j :: rat)" by simp
  with False assms fl_exact_pos [of p j e n] show ?thesis
    by (simp only: fl_def not_less [symmetric] if_False) simp
qed

lemma fl_int: "0 < p \<Longrightarrow> \<bar>n\<bar> < 2 ^ p \<Longrightarrow> fl p e (of_int n) = of_int n"
  using fl_exact [of p 0 e n] by simp

text \<open>Rounding to a format is accurate to half a unit in the last place.\<close>

lemma fl_norm_error:
  assumes "0 < p" and "j \<le> e" and "2 ^ (p - 1) \<le> x * 2 ^ j" and "x * 2 ^ j < 2 ^ p"
  shows "\<bar>fl p e x - x\<bar> \<le> 1 / 2 ^ Suc j"
proof -
  have "fl p e x - x = (of_int (round_even (x * 2 ^ j)) - x * 2 ^ j) / 2 ^ j"
    by (simp add: fl_norm [OF assms] diff_divide_distrib)
  moreover have "\<bar>of_int (round_even (x * 2 ^ j)) - x * 2 ^ j\<bar> / 2 ^ j \<le> 1 / 2 / 2 ^ j"
    by (intro divide_right_mono round_even_error) simp
  ultimately show ?thesis by (simp add: abs_divide)
qed

section \<open>The constants of the firmware\<close>

lemma fl32_mono: "x \<le> y \<Longrightarrow> fl32 x \<le> fl32 y"
  by (simp add: fl32_def fl_mono)

lemma fl64_mono: "x \<le> y \<Longrightarrow> fl64 x \<le> fl64 y"
  by (simp add: fl64_def fl_mono)

lemma fl32_int: "\<bar>n\<bar> < 16777216 \<Longrightarrow> fl32 (of_int n) = of_int n"
  using fl_int [of 24 n 149] by (simp add: fl32_def)

lemma fl64_int: "\<bar>n\<bar> < 9007199254740992 \<Longrightarrow> fl64 (of_int n) = of_int n"
  using fl_int [of 53 n 1074] by (simp add: fl64_def)

lemma fl32_minus: "fl32 (- x) = - fl32 x"
  by (simp add: fl32_def fl_minus)

text \<open>Evaluation of a normal number: \<open>j\<close> is the number of binary places it keeps.\<close>

lemma fl32_eqI:
  assumes "j \<le> 149" and "8388608 \<le> x * 2 ^ j" and "x * 2 ^ j < 16777216"
    and "of_int n - 1/2 < x * 2 ^ j" and "x * 2 ^ j < of_int n + 1/2"
  shows "fl32 x = of_int n / 2 ^ j"
  using fl_norm [of 24 j 149 x] round_even_eqI [OF assms(4,5)] assms(1-3) by (simp add: fl32_def)

lemma fl64_eqI:
  assumes "j \<le> 1074" and "4503599627370496 \<le> x * 2 ^ j" and "x * 2 ^ j < 9007199254740992"
    and "of_int n - 1/2 < x * 2 ^ j" and "x * 2 ^ j < of_int n + 1/2"
  shows "fl64 x = of_int n / 2 ^ j"
  using fl_norm [of 53 j 1074 x] round_even_eqI [OF assms(4,5)] assms(1-3) by (simp add: fl64_def)

lemma fl64_tieI:
  assumes "j \<le> 1074" and "4503599627370496 \<le> x * 2 ^ j" and "x * 2 ^ j < 9007199254740992"
    and "x * 2 ^ j = of_int n + 1/2" and "even n"
  shows "fl64 x = of_int n / 2 ^ j"
  using fl_norm [of 53 j 1074 x] round_even_tieI [OF assms(4,5)] assms(1-3) by (simp add: fl64_def)

end
