(* ===== verification/Ultrasonic.thy ===== *)
theory Ultrasonic
  imports Pico_Time C_Float
begin

text \<open>
  The distance sensor, ultrasonic.c and ultrasonic.h. A measurement pulses TRIG, waits for the
  ECHO pin to rise and then to fall, each with a timeout of 20 ms, and turns the length of the
  echo into centimetres. The two waiting loops are partial: \<open>None\<close> is a loop that never ends,
  which the last section excludes for a running clock.
\<close>

section \<open>Operations\<close>

definition TRIG_PIN :: u32 where [pin_defs]: "TRIG_PIN = 15"
definition ECHO_PIN :: u32 where [pin_defs]: "ECHO_PIN = 14"

definition ultrasonic_init :: "board \<Rightarrow> mcu \<Rightarrow> mcu" where
  "ultrasonic_init B s =
     (let s = gpio_init B TRIG_PIN s;
          s = gpio_set_dir TRIG_PIN GPIO_OUT s;
          s = gpio_put TRIG_PIN False s;
          s = gpio_init B ECHO_PIN s
      in gpio_set_dir ECHO_PIN GPIO_IN s)"

definition ultrasonic_trigger :: "mcu \<Rightarrow> mcu" where
  "ultrasonic_trigger s =
     (let s = gpio_put TRIG_PIN True s;
          s = sleep_us 10 s
      in gpio_put TRIG_PIN False s)"

text \<open>
  \<open>while (gpio_get(ECHO_PIN) == level)\<close> with the timeout test in its body: \<open>True\<close> when the pin
  left the level, \<open>False\<close> when the timeout passed first.
\<close>

partial_function (option) wait_while_echo ::
  "board \<Rightarrow> bool \<Rightarrow> absolute_time_t \<Rightarrow> mcu \<Rightarrow> (bool \<times> mcu) option" where
  "wait_while_echo B level timeout s =
     (let (echo, s) = gpio_get B ECHO_PIN s in
      if echo = level
      then (let (now, s) = get_absolute_time B s in
            if sint (absolute_time_diff_us now timeout) < 0 then Some (False, s)
            else wait_while_echo B level timeout s)
      else Some (True, s))"

text \<open>\<open>(echo_duration * 0.0343) / 2\<close> in binary64, stored as binary32.\<close>

definition distance_of_echo :: "s64 \<Rightarrow> rat" where
  "distance_of_echo echo_duration =
     fl32 (d_div (d_mul (fl64 (of_int (sint echo_duration))) (fl64 (343 / 10000))) 2)"

definition validate_distance :: "rat \<Rightarrow> rat" where
  "validate_distance distance_cm =
     (if 400 < distance_cm \<or> distance_cm < 2 then -1 else distance_cm)"

definition ultrasonic_get_distance :: "board \<Rightarrow> mcu \<Rightarrow> (rat \<times> mcu) option" where
  "ultrasonic_get_distance B s =
     (let s = ultrasonic_trigger s;
          (timeout, s) = make_timeout_time_us B 20000 s
      in case wait_while_echo B False timeout s of
           None \<Rightarrow> None
         | Some (False, s) \<Rightarrow> Some (-1, s)
         | Some (True, s) \<Rightarrow>
             (let (start_time, s) = get_absolute_time B s;
                  (timeout, s) = make_timeout_time_us B 20000 s
              in case wait_while_echo B True timeout s of
                   None \<Rightarrow> None
                 | Some (False, s) \<Rightarrow> Some (-1, s)
                 | Some (True, s) \<Rightarrow>
                     (let (end_time, s) = get_absolute_time B s;
                          echo_duration = absolute_time_diff_us start_time end_time
                      in Some (validate_distance (distance_of_echo echo_duration), s))))"

text \<open>The test of every caller.\<close>

definition obstacle :: "rat \<Rightarrow> bool" where
  "obstacle distance \<longleftrightarrow> distance < 10"

section \<open>The distance of an echo\<close>

lemma fl64_0343: "fl64 (343 / 10000) = 4943150951001856 / 2 ^ 57"
  by (subst fl64_eqI [of 57 _ 4943150951001856]) simp_all

lemma distance_of_echo_mono: "sint d \<le> sint e \<Longrightarrow> distance_of_echo d \<le> distance_of_echo e"
  unfolding distance_of_echo_def d_mul_def d_div_def fl64_0343
  by (intro fl32_mono fl64_mono divide_right_mono mult_right_mono of_int_le_iff [THEN iffD2]) simp_all

text \<open>Evaluation of one echo length, by the three roundings of the expression.\<close>

lemma distance_of_echoI:
  assumes "sint echo_duration = d" and "\<bar>d\<bar> < 9007199254740992"
    and "fl64 (of_int d * (4943150951001856 / 2 ^ 57)) = m" and "fl64 (m / 2) = q" and "fl32 q = r"
  shows "distance_of_echo echo_duration = r"
  unfolding distance_of_echo_def d_mul_def d_div_def fl64_0343 assms(1) fl64_int [OF assms(2)]
    assms(3-5) ..

lemma distance_points:
  "distance_of_echo 116 = 16688297 / 2 ^ 23" "distance_of_echo 117 = 8416081 / 2 ^ 22"
  "distance_of_echo 583 = 10484135 / 2 ^ 20" "distance_of_echo 584 = 10502118 / 2 ^ 20"
  "distance_of_echo 23323 = 13106854 / 2 ^ 15" "distance_of_echo 23324 = 13107416 / 2 ^ 15"
proof -
  show "distance_of_echo 116 = 16688297 / 2 ^ 23"
    by (rule distance_of_echoI [where d = 116 and m = "8959461098690864 / 2 ^ 51" and q = "8959461098690864 / 2 ^ 52"],
        simp, simp, subst fl64_eqI [of 51 _ 8959461098690864], simp_all,
        subst fl64_eqI [of 52 _ 8959461098690864], simp_all, subst fl32_eqI [of 23 _ 16688297], simp_all)
  show "distance_of_echo 117 = 8416081 / 2 ^ 22"
    by (rule distance_of_echoI [where d = 117 and m = "4518348916150134 / 2 ^ 50" and q = "4518348916150134 / 2 ^ 51"],
        simp, simp, subst fl64_eqI [of 50 _ 4518348916150134], simp_all,
        subst fl64_eqI [of 51 _ 4518348916150134], simp_all, subst fl32_eqI [of 22 _ 8416081], simp_all)
  show "distance_of_echo 583 = 10484135 / 2 ^ 20"
    by (rule distance_of_echoI [where d = 583 and m = "5628626961785316 / 2 ^ 48" and q = "5628626961785316 / 2 ^ 49"],
        simp, simp, subst fl64_tieI [of 48 _ 5628626961785316], simp_all,
        subst fl64_eqI [of 49 _ 5628626961785316], simp_all, subst fl32_eqI [of 20 _ 10484135], simp_all)
  show "distance_of_echo 584 = 10502118 / 2 ^ 20"
    by (rule distance_of_echoI [where d = 584 and m = "5638281553486492 / 2 ^ 48" and q = "5638281553486492 / 2 ^ 49"],
        simp, simp, subst fl64_eqI [of 48 _ 5638281553486492], simp_all,
        subst fl64_eqI [of 49 _ 5638281553486492], simp_all, subst fl32_eqI [of 20 _ 10502118], simp_all)
  show "distance_of_echo 23323 = 13106854 / 2 ^ 15"
    by (rule distance_of_echoI [where d = 23323 and m = "7036688820203631 / 2 ^ 43" and q = "7036688820203631 / 2 ^ 44"],
        simp, simp, subst fl64_eqI [of 43 _ 7036688820203631], simp_all,
        subst fl64_eqI [of 44 _ 7036688820203631], simp_all, subst fl32_eqI [of 15 _ 13106854], simp_all)
  show "distance_of_echo 23324 = 13107416 / 2 ^ 15"
    by (rule distance_of_echoI [where d = 23324 and m = "7036990526194293 / 2 ^ 43" and q = "7036990526194293 / 2 ^ 44"],
        simp, simp, subst fl64_eqI [of 43 _ 7036990526194293], simp_all,
        subst fl64_eqI [of 44 _ 7036990526194293], simp_all, subst fl32_eqI [of 15 _ 13107416], simp_all)
qed

text \<open>In whole microseconds, the thresholds of the code are these.\<close>

lemma distance_thresholds:
  "distance_of_echo d < 2 \<longleftrightarrow> sint d \<le> 116"
  "distance_of_echo d < 10 \<longleftrightarrow> sint d \<le> 583"
  "400 < distance_of_echo d \<longleftrightarrow> 23323 < sint d"
proof -
  have "sint d \<le> 116 \<Longrightarrow> distance_of_echo d < 2"
    using distance_of_echo_mono [of d 116] by (simp add: distance_points)
  moreover have "117 \<le> sint d \<Longrightarrow> 2 \<le> distance_of_echo d"
    using distance_of_echo_mono [of 117 d] by (simp add: distance_points)
  ultimately show "distance_of_echo d < 2 \<longleftrightarrow> sint d \<le> 116" by linarith
  have "sint d \<le> 583 \<Longrightarrow> distance_of_echo d < 10"
    using distance_of_echo_mono [of d 583] by (simp add: distance_points)
  moreover have "584 \<le> sint d \<Longrightarrow> 10 \<le> distance_of_echo d"
    using distance_of_echo_mono [of 584 d] by (simp add: distance_points)
  ultimately show "distance_of_echo d < 10 \<longleftrightarrow> sint d \<le> 583" by linarith
  have "sint d \<le> 23323 \<Longrightarrow> distance_of_echo d \<le> 400"
    using distance_of_echo_mono [of d 23323] by (simp add: distance_points)
  moreover have "23324 \<le> sint d \<Longrightarrow> 400 < distance_of_echo d"
    using distance_of_echo_mono [of 23324 d] by (simp add: distance_points)
  ultimately show "400 < distance_of_echo d \<longleftrightarrow> 23323 < sint d" by linarith
qed

lemma validate_distance_range: "validate_distance r = -1 \<or> 2 \<le> validate_distance r \<and> validate_distance r \<le> 400"
  by (auto simp: validate_distance_def)

section \<open>The waiting loops\<close>

definition echo_at :: "board \<Rightarrow> nat \<Rightarrow> bool" where
  "echo_at B n \<longleftrightarrow> pin_mask ECHO_PIN AND gpio_in_at B n \<noteq> 0"

lemma wait_while_echo_unfold:
  "wait_while_echo B level timeout s =
     (if echo_at B (reads s) \<noteq> level then Some (True, s\<lparr>reads := Suc (reads s)\<rparr>)
      else if sint (absolute_time_diff_us (time_us_at B (Suc (reads s))) timeout) < 0
      then Some (False, s\<lparr>reads := Suc (Suc (reads s))\<rparr>)
      else wait_while_echo B level timeout (s\<lparr>reads := Suc (Suc (reads s))\<rparr>))"
  by (subst wait_while_echo.simps)
    (simp add: gpio_get_def echo_at_def get_absolute_time_def update_us_since_boot_def tick_def)

text \<open>Polling \<open>j\<close> times before the level changes, or before the timeout passes.\<close>

lemma wait_polls_change:
  assumes "\<forall>i<j. echo_at B (reads s + 2 * i) = level"
    and "echo_at B (reads s + 2 * j) \<noteq> level"
    and "\<forall>i<j. \<not> sint (absolute_time_diff_us (time_us_at B (reads s + 2 * i + 1)) timeout) < 0"
  shows "wait_while_echo B level timeout s = Some (True, s\<lparr>reads := reads s + 2 * j + 1\<rparr>)"
  using assms
proof (induction j arbitrary: s)
  case 0
  then show ?case by (subst wait_while_echo_unfold) simp
next
  case (Suc j)
  let ?s = "s\<lparr>reads := Suc (Suc (reads s))\<rparr>"
  have step: "P i" if "\<forall>i<Suc j. P i" and "i < Suc j" for P :: "nat \<Rightarrow> bool" and i
    using that by blast
  have "wait_while_echo B level timeout ?s = Some (True, ?s\<lparr>reads := reads ?s + 2 * j + 1\<rparr>)"
  proof (rule Suc.IH)
    show "\<forall>i<j. echo_at B (reads ?s + 2 * i) = level"
      using step [OF Suc.prems(1), of "Suc _"] by simp
    show "echo_at B (reads ?s + 2 * j) \<noteq> level" using Suc.prems(2) by simp
    show "\<forall>i<j. \<not> sint (absolute_time_diff_us (time_us_at B (reads ?s + 2 * i + 1)) timeout) < 0"
      using step [OF Suc.prems(3), of "Suc _"] by simp
  qed
  moreover have "echo_at B (reads s) = level"
    and "\<not> sint (absolute_time_diff_us (time_us_at B (Suc (reads s))) timeout) < 0"
    using step [OF Suc.prems(1), of 0] step [OF Suc.prems(3), of 0] by simp_all
  ultimately show ?case by (subst wait_while_echo_unfold) simp
qed

lemma wait_polls_timeout:
  assumes "\<forall>i\<le>j. echo_at B (reads s + 2 * i) = level"
    and "\<forall>i<j. \<not> sint (absolute_time_diff_us (time_us_at B (reads s + 2 * i + 1)) timeout) < 0"
    and "sint (absolute_time_diff_us (time_us_at B (reads s + 2 * j + 1)) timeout) < 0"
  shows "wait_while_echo B level timeout s = Some (False, s\<lparr>reads := reads s + 2 * j + 2\<rparr>)"
  using assms
proof (induction j arbitrary: s)
  case 0
  then show ?case by (subst wait_while_echo_unfold) simp
next
  case (Suc j)
  let ?s = "s\<lparr>reads := Suc (Suc (reads s))\<rparr>"
  have "wait_while_echo B level timeout ?s = Some (False, ?s\<lparr>reads := reads ?s + 2 * j + 2\<rparr>)"
  proof (rule Suc.IH)
    show "\<forall>i\<le>j. echo_at B (reads ?s + 2 * i) = level"
    proof (intro allI impI)
      fix i assume "i \<le> j"
      with Suc.prems(1) [THEN spec, of "Suc i"] show "echo_at B (reads ?s + 2 * i) = level" by simp
    qed
    show "\<forall>i<j. \<not> sint (absolute_time_diff_us (time_us_at B (reads ?s + 2 * i + 1)) timeout) < 0"
    proof (intro allI impI)
      fix i assume "i < j"
      with Suc.prems(2) [THEN spec, of "Suc i"]
      show "\<not> sint (absolute_time_diff_us (time_us_at B (reads ?s + 2 * i + 1)) timeout) < 0" by simp
    qed
    show "sint (absolute_time_diff_us (time_us_at B (reads ?s + 2 * j + 1)) timeout) < 0"
      using Suc.prems(3) by simp
  qed
  moreover have "echo_at B (reads s) = level"
    using Suc.prems(1) [THEN spec, of 0] by simp
  moreover have "\<not> sint (absolute_time_diff_us (time_us_at B (Suc (reads s))) timeout) < 0"
    using Suc.prems(2) [THEN spec, of 0] by simp
  ultimately show ?case by (subst wait_while_echo_unfold) simp
qed

text \<open>With a steady clock the loop ends, at most a second or two after the timeout.\<close>

lemma wait_returns:
  assumes clock: "steady_clock B" and t: "unat timeout < 4611686018424387904"
    and start: "clock_at B (reads s) \<le> unat timeout + 1000000"
  shows "\<exists>b k. wait_while_echo B level timeout s = Some (b, s\<lparr>reads := k\<rparr>)
    \<and> clock_at B k \<le> unat timeout + 3000000"
proof -
  from t obtain m where m: "unat timeout < clock_at B m"
    using steady_passes [OF clock, of "unat timeout"] by auto
  from start show ?thesis
  proof (induction "m - reads s" arbitrary: s rule: less_induct)
    case less
    let ?n = "reads s" and ?s = "s\<lparr>reads := Suc (Suc (reads s))\<rparr>"
    have n1: "clock_at B (Suc ?n) \<le> unat timeout + 2000000"
      using steady_step [OF clock, of ?n] less.prems t by simp
    have n2: "clock_at B (Suc (Suc ?n)) \<le> clock_at B (Suc ?n) + 1000000"
      using steady_step [OF clock, of "Suc ?n"] n1 t by simp
    have passed: "sint (absolute_time_diff_us (time_us_at B (Suc ?n)) timeout) < 0
        \<longleftrightarrow> unat timeout < clock_at B (Suc ?n)"
      using n1 t by (intro passed_iff) simp_all
    consider (change) "echo_at B ?n \<noteq> level"
      | (late) "echo_at B ?n = level" "unat timeout < clock_at B (Suc ?n)"
      | (again) "echo_at B ?n = level" "clock_at B (Suc ?n) \<le> unat timeout" by linarith
    then show ?case
    proof cases
      case change
      then have "wait_while_echo B level timeout s = Some (True, s\<lparr>reads := Suc ?n\<rparr>)"
        by (subst wait_while_echo_unfold) simp
      then show ?thesis using n1 by auto
    next
      case late
      then have "wait_while_echo B level timeout s = Some (False, s\<lparr>reads := Suc (Suc ?n)\<rparr>)"
        using passed by (subst wait_while_echo_unfold) simp
      then show ?thesis using n1 n2 by auto
    next
      case again
      have "Suc ?n < m" using again(2) m steady_mono [OF clock, of m "Suc ?n"] by linarith
      then have "m - reads ?s < m - ?n" by simp
      moreover have "clock_at B (reads ?s) \<le> unat timeout + 1000000" using n2 again(2) by simp
      ultimately have "\<exists>b k. wait_while_echo B level timeout ?s = Some (b, ?s\<lparr>reads := k\<rparr>)
          \<and> clock_at B k \<le> unat timeout + 3000000"
        by (rule less.hyps)
      moreover have "wait_while_echo B level timeout s = wait_while_echo B level timeout ?s"
        using again passed by (subst wait_while_echo_unfold) simp
      ultimately show ?thesis by simp
    qed
  qed
qed

text \<open>Whatever the inputs, the loop only reads.\<close>

lemma wait_only_reads:
  assumes "wait_while_echo B level timeout s = Some r"
  shows "\<exists>k. snd r = s\<lparr>reads := k\<rparr>"
proof (rule wait_while_echo.raw_induct
    [where P = "\<lambda>B level timeout s r. \<exists>k. snd r = s\<lparr>reads := k\<rparr>", OF _ assms])
  fix wait :: "board \<Rightarrow> bool \<Rightarrow> absolute_time_t \<Rightarrow> mcu \<Rightarrow> (bool \<times> mcu) option"
    and B :: board and level :: bool and timeout s r
  assume IH: "\<And>B level timeout s r. wait B level timeout s = Some r \<Longrightarrow> \<exists>k. snd r = s\<lparr>reads := k\<rparr>"
  assume body: "(let (echo, s) = gpio_get B ECHO_PIN s in
      if echo = level
      then (let (now, s) = get_absolute_time B s in
            if sint (absolute_time_diff_us now timeout) < 0 then Some (False, s)
            else wait B level timeout s)
      else Some (True, s)) = Some r"
  have rec: "\<exists>k. snd r = s\<lparr>reads := k\<rparr>"
    if "wait B level timeout (s\<lparr>reads := i\<rparr>) = Some r" for i
    using IH [OF that] by simp
  show "\<exists>k. snd r = s\<lparr>reads := k\<rparr>" using body rec
    by (auto simp: gpio_get_def get_absolute_time_def tick_def split: if_splits)
qed

section \<open>A measurement\<close>

lemma ultrasonic_trigger_frame [obs_simps]:
  "reads (ultrasonic_trigger s) = reads s" "gpio_oe (ultrasonic_trigger s) = gpio_oe s"
  "slices (ultrasonic_trigger s) = slices s" "funcsel (ultrasonic_trigger s) = funcsel s"
  "calls (ultrasonic_trigger s) = calls s @ [Sleep_us 10]"
  by (simp_all add: ultrasonic_trigger_def obs_simps)

text \<open>The pulse leaves TRIG low and every other output as it was.\<close>

lemma ultrasonic_trigger_level [obs_simps]:
  "g < 30 \<Longrightarrow> gpio_get_out_level (ultrasonic_trigger s) g
     = (g \<noteq> TRIG_PIN \<and> gpio_get_out_level s g)"
  by (simp add: ultrasonic_trigger_def obs_simps TRIG_PIN_def)

lemma ultrasonic_get_distance_unfold:
  "ultrasonic_get_distance B s =
     (let s0 = ultrasonic_trigger s;
          timeout = delayed_by_us (time_us_at B (reads s)) 20000
      in case wait_while_echo B False timeout (s0\<lparr>reads := Suc (reads s)\<rparr>) of
           None \<Rightarrow> None
         | Some (False, s1) \<Rightarrow> Some (-1, s1)
         | Some (True, s1) \<Rightarrow>
             (let start_time = time_us_at B (reads s1);
                  timeout = delayed_by_us (time_us_at B (Suc (reads s1))) 20000
              in case wait_while_echo B True timeout (s1\<lparr>reads := Suc (Suc (reads s1))\<rparr>) of
                   None \<Rightarrow> None
                 | Some (False, s2) \<Rightarrow> Some (-1, s2)
                 | Some (True, s2) \<Rightarrow>
                     Some (validate_distance (distance_of_echo
                         (absolute_time_diff_us start_time (time_us_at B (reads s2)))),
                       s2\<lparr>reads := Suc (reads s2)\<rparr>)))"
  by (simp add: ultrasonic_get_distance_def make_timeout_time_us_def get_absolute_time_def Let_def
      update_us_since_boot_def tick_def obs_simps case_prod_beta
      cong: option.case_cong prod.case_cong bool.case_cong)

text \<open>A measurement that returns has pulsed TRIG and read inputs, nothing else.\<close>

lemma distance_only_reads:
  assumes "ultrasonic_get_distance B s = Some (r, s')"
  shows "\<exists>k. s' = (ultrasonic_trigger s)\<lparr>reads := k\<rparr>"
  using assms
  by (auto simp: ultrasonic_get_distance_unfold Let_def split: option.splits bool.splits
      dest!: wait_only_reads) (rule exI, rule refl)+

lemma distance_returns_aux:
  assumes clock: "steady_clock B" and t: "clock_at B (reads s) < 2305843009213693952"
  shows "\<exists>r k. ultrasonic_get_distance B s = Some (r, (ultrasonic_trigger s)\<lparr>reads := k\<rparr>)
    \<and> (r = -1 \<or> 2 \<le> r \<and> r \<le> 400) \<and> clock_at B k \<le> clock_at B (reads s) + 10000000"
proof -
  let ?n = "reads s"
  let ?t1 = "delayed_by_us (time_us_at B ?n) 20000"
  let ?s1 = "(ultrasonic_trigger s)\<lparr>reads := Suc ?n\<rparr>"
  have t1: "unat ?t1 = clock_at B ?n + 20000"
    using unat_timeout_us [of B ?n 20000] t by simp
  have "clock_at B (reads ?s1) \<le> unat ?t1 + 1000000"
    using steady_step [OF clock, of ?n] t t1 by simp
  then obtain b k where w1: "wait_while_echo B False ?t1 ?s1 = Some (b, ?s1\<lparr>reads := k\<rparr>)"
    and k: "clock_at B k \<le> clock_at B ?n + 3020000"
    using wait_returns [OF clock, of ?t1 ?s1 False] t t1 by auto
  have k1: "clock_at B (Suc k) \<le> clock_at B k + 1000000"
    using steady_step [OF clock, of k] k t by simp
  have k2: "clock_at B (Suc (Suc k)) \<le> clock_at B (Suc k) + 1000000"
    using steady_step [OF clock, of "Suc k"] k k1 t by simp
  let ?t2 = "delayed_by_us (time_us_at B (Suc k)) 20000"
  let ?s2 = "(ultrasonic_trigger s)\<lparr>reads := Suc (Suc k)\<rparr>"
  have t2: "unat ?t2 = clock_at B (Suc k) + 20000"
    using unat_timeout_us [of B "Suc k" 20000] k k1 t by simp
  have "\<exists>b l. wait_while_echo B True ?t2 ?s2 = Some (b, ?s2\<lparr>reads := l\<rparr>)
      \<and> clock_at B l \<le> unat ?t2 + 3000000"
    using k k1 k2 t t2 by (intro wait_returns clock) simp_all
  then obtain c l where w2: "wait_while_echo B True ?t2 ?s2 = Some (c, ?s2\<lparr>reads := l\<rparr>)"
    and l: "clock_at B l \<le> clock_at B ?n + 8040000"
    using k k1 t2 by auto
  have l1: "clock_at B (Suc l) \<le> clock_at B l + 1000000"
    using steady_step [OF clock, of l] l t by simp
  show ?thesis
  proof (cases "b \<and> c")
    case True
    with w1 w2 have eq: "ultrasonic_get_distance B s = Some (validate_distance (distance_of_echo
        (absolute_time_diff_us (time_us_at B k) (time_us_at B l))), (ultrasonic_trigger s)\<lparr>reads := Suc l\<rparr>)"
      by (simp add: ultrasonic_get_distance_unfold obs_simps)
    have "clock_at B (Suc l) \<le> clock_at B ?n + 10000000" using l l1 by simp
    with eq validate_distance_range show ?thesis by blast
  next
    case False
    with w1 w2 have "ultrasonic_get_distance B s
        = Some (-1, (ultrasonic_trigger s)\<lparr>reads := if b then l else k\<rparr>)"
      by (simp add: ultrasonic_get_distance_unfold obs_simps)
    moreover have "clock_at B (if b then l else k) \<le> clock_at B ?n + 10000000" using k l by simp
    ultimately show ?thesis by blast
  qed
qed

text \<open>
  A measurement that sees an echo: the pin is polled \<open>j\<close> times low, then high, then \<open>k\<close> times
  high, then low, and no poll comes later than the timeouts. The volatile reads are numbered
  from \<open>n\<close>.
\<close>

definition echo_run :: "board \<Rightarrow> nat \<Rightarrow> nat \<Rightarrow> nat \<Rightarrow> bool" where
  "echo_run B n j k \<longleftrightarrow>
     (\<forall>i<j. \<not> echo_at B (n + 1 + 2 * i)) \<and> echo_at B (n + 1 + 2 * j) \<and>
     (\<forall>i<k. echo_at B (n + 4 + 2 * j + 2 * i)) \<and> \<not> echo_at B (n + 4 + 2 * j + 2 * k) \<and>
     (\<forall>i<j. clock_at B (n + 2 + 2 * i) \<le> clock_at B n + 20000) \<and>
     (\<forall>i<k. clock_at B (n + 5 + 2 * j + 2 * i) \<le> clock_at B (n + 3 + 2 * j) + 20000)"

text \<open>The echo's length, between the reads that stamp its two ends.\<close>

definition echo_length :: "board \<Rightarrow> nat \<Rightarrow> nat \<Rightarrow> nat \<Rightarrow> int" where
  "echo_length B n j k =
     int (clock_at B (n + 5 + 2 * j + 2 * k)) - int (clock_at B (n + 2 + 2 * j))"

lemma echo_run_distance:
  assumes run: "echo_run B (reads s) j k"
    and clock: "\<forall>n. clock_at B n < 4611686018427387904"
  shows "\<exists>d. sint d = echo_length B (reads s) j k \<and> ultrasonic_get_distance B s =
    Some (validate_distance (distance_of_echo d),
      (ultrasonic_trigger s)\<lparr>reads := reads s + 6 + 2 * j + 2 * k\<rparr>)"
proof -
  let ?n = "reads s"
  have c: "clock_at B i < 9223372036854775808" "clock_at B i + 20000 < 9223372036854775808" for i
    using clock [THEN spec, of i] by simp_all
  have t: "unat (delayed_by_us (time_us_at B i) 20000) = clock_at B i + 20000" for i
    using unat_timeout_us [of B i 20000] c(2) [of i] by simp
  have passed: "sint (absolute_time_diff_us (time_us_at B i)
      (delayed_by_us (time_us_at B l) 20000)) < 0 \<longleftrightarrow> clock_at B l + 20000 < clock_at B i" for i l
    using passed_iff [of B i "delayed_by_us (time_us_at B l) 20000"] c t by simp
  let ?s1 = "(ultrasonic_trigger s)\<lparr>reads := Suc ?n\<rparr>"
  have "wait_while_echo B False (delayed_by_us (time_us_at B ?n) 20000) ?s1
      = Some (True, ?s1\<lparr>reads := reads ?s1 + 2 * j + 1\<rparr>)"
    using run by (intro wait_polls_change) (simp_all add: echo_run_def passed not_less)
  moreover
  let ?s2 = "(ultrasonic_trigger s)\<lparr>reads := ?n + 4 + 2 * j\<rparr>"
  have "wait_while_echo B True (delayed_by_us (time_us_at B (?n + 3 + 2 * j)) 20000) ?s2
      = Some (True, ?s2\<lparr>reads := reads ?s2 + 2 * k + 1\<rparr>)"
    using run by (intro wait_polls_change) (simp_all add: echo_run_def passed not_less ac_simps)
  moreover
  have "sint (absolute_time_diff_us (time_us_at B (?n + 2 + 2 * j))
      (time_us_at B (?n + 5 + 2 * j + 2 * k))) = echo_length B ?n j k"
    using c by (subst sint_diff) (simp_all add: clock_at_def echo_length_def)
  ultimately show ?thesis
    by (auto simp: ultrasonic_get_distance_unfold obs_simps numeral_eq_Suc)
qed

lemma obstacle_of_echo:
  assumes "echo_run B (reads s) j k" and "\<forall>n. clock_at B n < 4611686018427387904"
  shows "\<exists>r s'. ultrasonic_get_distance B s = Some (r, s') \<and>
    (obstacle r \<longleftrightarrow> echo_length B (reads s) j k < 584 \<or> 23323 < echo_length B (reads s) j k)"
proof -
  obtain d where d: "sint d = echo_length B (reads s) j k" and r: "ultrasonic_get_distance B s =
      Some (validate_distance (distance_of_echo d),
        (ultrasonic_trigger s)\<lparr>reads := reads s + 6 + 2 * j + 2 * k\<rparr>)"
    using echo_run_distance [OF assms] by blast
  have "obstacle (validate_distance (distance_of_echo d)) \<longleftrightarrow> sint d < 584 \<or> 23323 < sint d"
    using distance_thresholds [of d] by (auto simp: obstacle_def validate_distance_def)
  with r d show ?thesis by auto
qed

lemma obstacle_of_silence:
  assumes "\<forall>i\<le>j. \<not> echo_at B (reads s + 1 + 2 * i)"
    and "\<forall>i<j. clock_at B (reads s + 2 + 2 * i) \<le> clock_at B (reads s) + 20000"
    and "clock_at B (reads s) + 20000 < clock_at B (reads s + 2 + 2 * j)"
    and "clock_at B (reads s + 2 + 2 * j) < 4611686018427387904"
  shows "ultrasonic_get_distance B s =
      Some (-1, (ultrasonic_trigger s)\<lparr>reads := reads s + 3 + 2 * j\<rparr>) \<and> obstacle (-1)"
proof -
  let ?n = "reads s" and ?t = "delayed_by_us (time_us_at B (reads s)) 20000"
  let ?s = "(ultrasonic_trigger s)\<lparr>reads := Suc ?n\<rparr>"
  have t: "unat ?t = clock_at B ?n + 20000"
    using unat_timeout_us [of B ?n 20000] assms(3,4) by simp
  have "sint (absolute_time_diff_us (time_us_at B (?n + 2 + 2 * i)) ?t) < 0
      \<longleftrightarrow> clock_at B ?n + 20000 < clock_at B (?n + 2 + 2 * i)" if "i \<le> j" for i
  proof -
    from that consider "i = j" | "i < j" by linarith
    then have "clock_at B (?n + 2 + 2 * i) < 9223372036854775808"
      using assms(2) [THEN spec, of i] assms(3,4) by cases auto
    then show ?thesis using assms(3,4) t by (subst passed_iff) simp_all
  qed
  then have "wait_while_echo B False ?t ?s = Some (False, ?s\<lparr>reads := reads ?s + 2 * j + 2\<rparr>)"
    using assms(1-3) by (intro wait_polls_timeout) (simp_all add: not_less)
  then show ?thesis
    by (simp add: ultrasonic_get_distance_unfold obs_simps obstacle_def numeral_eq_Suc)
qed

text \<open>Two concrete inputs: an echo of seven milliseconds, and no echo.\<close>

definition echo_board :: board where
  "echo_board = ref_board\<lparr>time_us_at := \<lambda>n. of_nat (min n 100 * 1000),
     gpio_in_at := \<lambda>n. if n = 3 \<or> n = 6 \<or> n = 8 then 0x4000 else 0\<rparr>"

lemma clock_echo_board: "clock_at echo_board n = min n 100 * 1000"
proof -
  have "min n 100 \<le> 100" by simp
  moreover have "unat (word_of_nat m * 1000 :: u64) = m * 1000" if "m \<le> 100" for m
    using that by (simp add: unat_word_ariths unat_of_nat take_bit_eq_mod)
  ultimately show ?thesis by (simp only: clock_at_def echo_board_def) simp
qed

lemma echo_at_echo_board: "echo_at echo_board n \<longleftrightarrow> n = 3 \<or> n = 6 \<or> n = 8"
  by (simp add: echo_at_def echo_board_def pin_mask_def ECHO_PIN_def)

lemma echo_decides_obstacle_aux:
  "\<exists>r s'. ultrasonic_get_distance echo_board reset_mcu = Some (r, s') \<and> \<not> obstacle r"
proof -
  have run: "echo_run echo_board (reads reset_mcu) 1 2"
    by (simp add: echo_run_def echo_at_echo_board clock_echo_board reset_mcu_def less_2_cases_iff)
  have clock: "\<forall>n. clock_at echo_board n < 4611686018427387904"
    by (simp add: clock_echo_board min_def)
  show ?thesis using obstacle_of_echo [OF run clock]
    by (simp add: echo_length_def clock_echo_board reset_mcu_def)
qed

lemma silence_aux:
  "ultrasonic_get_distance (echo_board\<lparr>gpio_in_at := \<lambda>_. 0\<rparr>) reset_mcu =
      Some (-1, (ultrasonic_trigger reset_mcu)\<lparr>reads := 23\<rparr>) \<and> obstacle (-1)"
proof -
  have c: "clock_at (echo_board\<lparr>gpio_in_at := \<lambda>_. 0\<rparr>) n = min n 100 * 1000" for n
    using clock_echo_board [of n] by (simp add: clock_at_def)
  have e: "\<not> echo_at (echo_board\<lparr>gpio_in_at := \<lambda>_. 0\<rparr>) n" for n by (simp add: echo_at_def)
  show ?thesis
    using obstacle_of_silence [of 10 "echo_board\<lparr>gpio_in_at := \<lambda>_. 0\<rparr>" reset_mcu]
    by (simp add: c e) (simp add: reset_mcu_def)
qed

section \<open>Properties\<close>

text \<open>
  C15: with a steady clock a measurement always returns, from any state of the pins and whatever
  the sensor answers; its result is -1 or a distance between 2 and 400 cm, and it changes
  nothing but what the TRIG pulse does and the number of reads.
\<close>

theorem distance_returns:
  assumes "steady_clock B" and "clock_at B (reads s) < 2305843009213693952"
  shows "\<exists>r k. ultrasonic_get_distance B s = Some (r, (ultrasonic_trigger s)\<lparr>reads := k\<rparr>)
    \<and> (r = -1 \<or> 2 \<le> r \<and> r \<le> 400)"
  using distance_returns_aux [OF assms] by blast

theorem distance_returns_witness:
  "\<exists>r k. ultrasonic_get_distance ref_board reset_mcu
       = Some (r, (ultrasonic_trigger reset_mcu)\<lparr>reads := k\<rparr>) \<and> (r = -1 \<or> 2 \<le> r \<and> r \<le> 400)"
  by (rule distance_returns [OF steady_ref_board]) (simp add: clock_at_def reset_mcu_def)

text \<open>
  C14: when the sensor answers with an echo inside both timeouts, the callers' test for an
  obstacle is decided by the length of the echo in whole microseconds: below 584 (10 cm), and
  also above 23323, where the distance is out of range and the -1 returned for it passes for
  a distance below 10.
\<close>

theorem echo_decides_obstacle:
  assumes "echo_run B (reads s) j k" and "\<forall>n. clock_at B n < 4611686018427387904"
  shows "\<exists>r s'. ultrasonic_get_distance B s = Some (r, s') \<and>
    (obstacle r \<longleftrightarrow> echo_length B (reads s) j k < 584 \<or> 23323 < echo_length B (reads s) j k)"
  using assms by (rule obstacle_of_echo)

theorem echo_decides_obstacle_witness:
  "\<exists>r s'. ultrasonic_get_distance echo_board reset_mcu = Some (r, s') \<and> (obstacle r \<longleftrightarrow> False)"
proof -
  have run: "echo_run echo_board (reads reset_mcu) 1 2"
    by (simp add: echo_run_def echo_at_echo_board clock_echo_board reset_mcu_def less_2_cases_iff)
  have clock: "\<forall>n. clock_at echo_board n < 4611686018427387904"
    by (simp add: clock_echo_board min_def)
  show ?thesis using echo_decides_obstacle [OF run clock]
    by (simp add: echo_length_def clock_echo_board reset_mcu_def)
qed

text \<open>
  When no echo starts (the pin stays low until a poll finds the 20 ms passed) the result is
  -1, which every caller takes for an obstacle.
\<close>

theorem silence_is_obstacle:
  assumes "\<forall>i\<le>j. \<not> echo_at B (reads s + 1 + 2 * i)"
    and "\<forall>i<j. clock_at B (reads s + 2 + 2 * i) \<le> clock_at B (reads s) + 20000"
    and "clock_at B (reads s) + 20000 < clock_at B (reads s + 2 + 2 * j)"
    and "clock_at B (reads s + 2 + 2 * j) < 4611686018427387904"
  shows "ultrasonic_get_distance B s =
      Some (-1, (ultrasonic_trigger s)\<lparr>reads := reads s + 3 + 2 * j\<rparr>) \<and> obstacle (-1)"
  using assms by (rule obstacle_of_silence)

theorem silence_is_obstacle_witness:
  "ultrasonic_get_distance (echo_board\<lparr>gpio_in_at := \<lambda>_. 0\<rparr>) reset_mcu =
      Some (-1, (ultrasonic_trigger reset_mcu)\<lparr>reads := 23\<rparr>) \<and> obstacle (-1)"
proof -
  have c: "clock_at (echo_board\<lparr>gpio_in_at := \<lambda>_. 0\<rparr>) n = min n 100 * 1000" for n
    using clock_echo_board [of n] by (simp add: clock_at_def)
  have e: "\<not> echo_at (echo_board\<lparr>gpio_in_at := \<lambda>_. 0\<rparr>) n" for n by (simp add: echo_at_def)
  show ?thesis
    using silence_is_obstacle [of 10 "echo_board\<lparr>gpio_in_at := \<lambda>_. 0\<rparr>" reset_mcu]
    by (simp add: c e) (simp add: reset_mcu_def)
qed

end
