(* ===== verification/Car_State.thy ===== *)
theory Car_State
  imports Motor Ultrasonic
begin

text \<open>
  The state of the car's program: the machine state together with the file-scope variables of
  buzzer.c, led.c and cgi.h. A driver call that only touches registers is lifted with \<open>on_hw\<close>.
\<close>

record car =
  hw :: mcu
  slice_num_buzzer :: u32
  slice_num_red :: u32
  slice_num_green :: u32
  slice_num_blue :: u32
  is_moving_forward :: bool
  is_moving_left :: bool
  is_moving_right :: bool
  is_moving_backward :: bool

definition on_hw :: "(mcu \<Rightarrow> mcu) \<Rightarrow> car \<Rightarrow> car" where
  "on_hw f c = c\<lparr>hw := f (hw c)\<rparr>"

lemma on_hw_simps [simp]:
  "hw (on_hw f c) = f (hw c)" "slice_num_buzzer (on_hw f c) = slice_num_buzzer c"
  "slice_num_red (on_hw f c) = slice_num_red c" "slice_num_green (on_hw f c) = slice_num_green c"
  "slice_num_blue (on_hw f c) = slice_num_blue c"
  "is_moving_forward (on_hw f c) = is_moving_forward c"
  "is_moving_left (on_hw f c) = is_moving_left c"
  "is_moving_right (on_hw f c) = is_moving_right c"
  "is_moving_backward (on_hw f c) = is_moving_backward c"
  by (simp_all add: on_hw_def)

text \<open>Static variables start at zero.\<close>

definition reset_car :: car where
  "reset_car = \<lparr>hw = reset_mcu, slice_num_buzzer = 0, slice_num_red = 0, slice_num_green = 0,
     slice_num_blue = 0, is_moving_forward = False, is_moving_left = False,
     is_moving_right = False, is_moving_backward = False\<rparr>"

section \<open>The PWM pins of the board\<close>

text \<open>
  The six pins the drivers put on PWM have pairwise different compare registers, so a write to
  one duty cycle leaves the other five: on these pins \<open>pwm_set_gpio_level\<close> is a bank of
  independent cells, although the pins share slices.
\<close>

definition pwm_pin :: "u32 \<Rightarrow> bool" where
  "pwm_pin g \<longleftrightarrow> g \<in> {2, 27, 4, 6, 7, 8}"

interpretation duties: cell_bank pwm_pin pwm_set_gpio_level pwm_gpio_level
proof unfold_locales
  fix c v s assume "pwm_pin c"
  then show "pwm_gpio_level (pwm_set_gpio_level c v s) c = v" by (simp add: obs_simps)
next
  fix c d v s assume "pwm_pin c" "pwm_pin d" "d \<noteq> c"
  then show "pwm_gpio_level (pwm_set_gpio_level c v s) d = pwm_gpio_level s d"
    by (auto simp: pwm_pin_def obs_simps pwm_gpio_to_slice_num_def pwm_gpio_to_channel_def)
qed

lemma pwm_pins [simp]:
  "pwm_pin 2" "pwm_pin 27" "pwm_pin 4" "pwm_pin 6" "pwm_pin 7" "pwm_pin 8"
  by (simp_all add: pwm_pin_def)

text \<open>The motors are driven by their pins alone.\<close>

lemma drive_of_frame:
  assumes "\<forall>g \<in> {0, 1, 12, 18}. gpio_get_out_level s g = gpio_get_out_level t g"
    and "pwm_gpio_level s 2 = pwm_gpio_level t 2" "pwm_gpio_level s 27 = pwm_gpio_level t 27"
  shows "drive_of s = drive_of t"
  using assms by (simp add: drive_of_def pin_defs)

end
