(* ===== verification/Led.thy ===== *)
theory Led
  imports Car_State
begin

text \<open>The RGB LED, led.c and led.h: three PWM pins, one duty cycle per colour.\<close>

definition GPIO_PIN_RED :: u32 where [pin_defs]: "GPIO_PIN_RED = 6"
definition GPIO_PIN_GREEN :: u32 where [pin_defs]: "GPIO_PIN_GREEN = 7"
definition GPIO_PIN_BLUE :: u32 where [pin_defs]: "GPIO_PIN_BLUE = 8"

section \<open>Operations\<close>

definition rgb_led_init :: "board \<Rightarrow> car \<Rightarrow> car" where
  "rgb_led_init B c =
     (let c = on_hw (gpio_set_function B GPIO_PIN_RED GPIO_FUNC_PWM) c;
          c = on_hw (gpio_set_function B GPIO_PIN_GREEN GPIO_FUNC_PWM) c;
          c = on_hw (gpio_set_function B GPIO_PIN_BLUE GPIO_FUNC_PWM) c;
          c = c\<lparr>slice_num_red := pwm_gpio_to_slice_num GPIO_PIN_RED\<rparr>;
          c = c\<lparr>slice_num_green := pwm_gpio_to_slice_num GPIO_PIN_GREEN\<rparr>;
          c = c\<lparr>slice_num_blue := pwm_gpio_to_slice_num GPIO_PIN_BLUE\<rparr>;
          c = on_hw (pwm_set_clkdiv (slice_num_red c) 4) c;
          c = on_hw (pwm_set_clkdiv (slice_num_green c) 4) c;
          c = on_hw (pwm_set_clkdiv (slice_num_blue c) 4) c;
          c = on_hw (pwm_set_wrap (slice_num_red c) 255) c;
          c = on_hw (pwm_set_wrap (slice_num_green c) 255) c;
          c = on_hw (pwm_set_wrap (slice_num_blue c) 255) c;
          c = on_hw (pwm_set_gpio_level GPIO_PIN_RED 0) c;
          c = on_hw (pwm_set_gpio_level GPIO_PIN_GREEN 0) c;
          c = on_hw (pwm_set_gpio_level GPIO_PIN_BLUE 0) c;
          c = on_hw (pwm_set_enabled (slice_num_red c) True) c;
          c = on_hw (pwm_set_enabled (slice_num_green c) True) c
      in on_hw (pwm_set_enabled (slice_num_blue c) True) c)"

text \<open>The range test compares the promoted byte with 255.\<close>

definition set_rgb_color :: "u8 \<Rightarrow> u8 \<Rightarrow> u8 \<Rightarrow> mcu \<Rightarrow> mcu" where
  "set_rgb_color red green blue s =
     (let red = (if 255 < uint red then 255 else red);
          green = (if 255 < uint green then 255 else green);
          blue = (if 255 < uint blue then 255 else blue);
          s = pwm_set_gpio_level GPIO_PIN_RED (ucast red) s;
          s = pwm_set_gpio_level GPIO_PIN_GREEN (ucast green) s
      in pwm_set_gpio_level GPIO_PIN_BLUE (ucast blue) s)"

definition test_rgb_led :: "mcu \<Rightarrow> mcu" where
  "test_rgb_led s =
     (let s = set_rgb_color 255 0 0 s; s = sleep_ms 1000 s;
          s = set_rgb_color 0 255 0 s; s = sleep_ms 1000 s;
          s = set_rgb_color 0 0 255 s; s = sleep_ms 1000 s;
          s = set_rgb_color 255 255 0 s; s = sleep_ms 1000 s;
          s = set_rgb_color 255 0 255 s; s = sleep_ms 1000 s;
          s = set_rgb_color 0 255 255 s; s = sleep_ms 1000 s;
          s = set_rgb_color 255 255 255 s
      in sleep_ms 1000 s)"

section \<open>The colour shown\<close>

definition led_color :: "mcu \<Rightarrow> u16 \<times> u16 \<times> u16" where
  "led_color s = (pwm_gpio_level s GPIO_PIN_RED, pwm_gpio_level s GPIO_PIN_GREEN,
     pwm_gpio_level s GPIO_PIN_BLUE)"

text \<open>No byte exceeds 255, so the range test never changes a colour.\<close>

lemma byte_in_range: "(if 255 < uint b then 255 else b) = (b :: u8)"
proof -
  have "uint b < 2 ^ LENGTH(8)" by (rule unsigned_less)
  then show ?thesis by simp
qed

lemma unat_take_8 [simp]: "take_bit 16 (unat (b :: u8)) = unat b"
proof -
  have "unat b < 2 ^ LENGTH(8)" by (rule unsigned_less)
  then show ?thesis by (simp add: take_bit_nat_eq_self)
qed

lemma set_rgb_color_eq:
  "set_rgb_color red green blue s = pwm_set_gpio_level GPIO_PIN_BLUE (ucast blue)
     (pwm_set_gpio_level GPIO_PIN_GREEN (ucast green) (pwm_set_gpio_level GPIO_PIN_RED (ucast red) s))"
  by (simp only: set_rgb_color_def byte_in_range Let_def)

lemma led_color_set [obs_simps]:
  "led_color (set_rgb_color red green blue s) = (ucast red, ucast green, ucast blue)"
  by (simp add: set_rgb_color_eq led_color_def duties.get_put pin_defs)

lemma set_rgb_color_level [obs_simps]:
  "pwm_pin g \<Longrightarrow> g \<notin> {6, 7, 8} \<Longrightarrow>
     pwm_gpio_level (set_rgb_color red green blue s) g = pwm_gpio_level s g"
  by (simp add: set_rgb_color_eq duties.get_put pin_defs)

lemma set_rgb_color_frame [obs_simps]:
  "gpio_get_out_level (set_rgb_color red green blue s) h = gpio_get_out_level s h"
  "gpio_is_dir_out (set_rgb_color red green blue s) h = gpio_is_dir_out s h"
  "funcsel (set_rgb_color red green blue s) = funcsel s"
  "pwm_wrap (set_rgb_color red green blue s) n = pwm_wrap s n"
  "pwm_enabled (set_rgb_color red green blue s) n = pwm_enabled s n"
  "pwm_clkdiv16 (set_rgb_color red green blue s) n = pwm_clkdiv16 s n"
  "calls (set_rgb_color red green blue s) = calls s"
  "reads (set_rgb_color red green blue s) = reads s"
  by (simp_all only: set_rgb_color_eq obs_simps)

lemma set_rgb_color_drive [obs_simps]: "drive_of (set_rgb_color red green blue s) = drive_of s"
  by (rule drive_of_frame) (simp_all add: set_rgb_color_frame set_rgb_color_level)

section \<open>Properties\<close>

text \<open>
  \<open>set_rgb_color\<close> shows exactly the three bytes it is given (no byte is cut by its range
  test), each within the wrap value 255, and it leaves the motors' drive, the buzzer's duty
  cycle and all pin levels alone.
\<close>

theorem set_rgb_color_shows:
  "led_color (set_rgb_color red green blue s) = (ucast red, ucast green, ucast blue)
   \<and> unat (pwm_gpio_level (set_rgb_color red green blue s) GPIO_PIN_RED) = unat red
   \<and> drive_of (set_rgb_color red green blue s) = drive_of s
   \<and> pwm_gpio_level (set_rgb_color red green blue s) 4 = pwm_gpio_level s 4
   \<and> gpio_get_out_level (set_rgb_color red green blue s) = gpio_get_out_level s"
proof -
  have "pwm_gpio_level (set_rgb_color red green blue s) GPIO_PIN_RED = ucast red"
    using led_color_set [of red green blue s] by (simp add: led_color_def)
  then show ?thesis
    by (simp add: led_color_set set_rgb_color_drive set_rgb_color_level set_rgb_color_frame
        fun_eq_iff unsigned_ucast_eq unat_take_8)
qed

text \<open>
  On documented SDK functions \<open>rgb_led_init\<close> puts the three pins on PWM, with both their
  slices enabled, counting to 255 with a divider of 4, and the LED dark.
\<close>

theorem rgb_led_init_ready:
  assumes "sdk_docs B"
  shows "let s = hw (rgb_led_init B c) in led_color s = (0, 0, 0) \<and>
    (\<forall>g \<in> {GPIO_PIN_RED, GPIO_PIN_GREEN, GPIO_PIN_BLUE}. funcsel s g = GPIO_FUNC_PWM \<and>
       pwm_wrap s (pwm_gpio_to_slice_num g) = 255 \<and>
       pwm_clkdiv16 s (pwm_gpio_to_slice_num g) = 64 \<and> pwm_enabled s (pwm_gpio_to_slice_num g))"
  using assms
  by (simp add: rgb_led_init_def Let_def led_color_def obs_simps pin_defs
      pwm_gpio_to_slice_num_def pwm_gpio_to_channel_def)

theorem rgb_led_init_ready_witness:
  "led_color (hw (rgb_led_init ref_board reset_car)) = (0, 0, 0)"
  using rgb_led_init_ready [OF sdk_docs_ref_board, of reset_car] by (simp only: Let_def)

end
