(* ===== verification/Buzzer.thy ===== *)
theory Buzzer
  imports Car_State
begin

text \<open>
  The buzzer, buzzer.c and buzzer.h: a tone is the counter period of the buzzer's PWM slice, its
  volume the duty cycle of the pin. \<open>buzzer_sound\<close> divides by its argument; \<open>None\<close> is the
  undefined behaviour of a division by zero.
\<close>

definition GPIO_PIN_BUZZER :: u32 where [pin_defs]: "GPIO_PIN_BUZZER = 4"

section \<open>Operations\<close>

definition buzzer_init :: "board \<Rightarrow> car \<Rightarrow> car" where
  "buzzer_init B c =
     (let c = on_hw (gpio_set_function B GPIO_PIN_BUZZER GPIO_FUNC_PWM) c;
          c = c\<lparr>slice_num_buzzer := pwm_gpio_to_slice_num GPIO_PIN_BUZZER\<rparr>;
          c = on_hw (pwm_set_clkdiv (slice_num_buzzer c) 4) c;
          c = on_hw (pwm_set_wrap (slice_num_buzzer c) 1000) c;
          c = on_hw (pwm_set_gpio_level GPIO_PIN_BUZZER 0) c
      in on_hw (pwm_set_enabled (slice_num_buzzer c) True) c)"

definition buzzer_on :: "mcu \<Rightarrow> mcu" where
  "buzzer_on = pwm_set_gpio_level GPIO_PIN_BUZZER 500"

definition buzzer_off :: "mcu \<Rightarrow> mcu" where
  "buzzer_off = pwm_set_gpio_level GPIO_PIN_BUZZER 0"

text \<open>The 32-bit quotient is passed as the 16-bit arguments of the PWM functions.\<close>

definition buzzer_sound :: "u32 \<Rightarrow> u32 \<Rightarrow> car \<Rightarrow> car option" where
  "buzzer_sound frequency duration_ms c =
     (if frequency = 0 then None
      else let wrap_value = 125000000 div frequency;
               c = on_hw (pwm_set_wrap (slice_num_buzzer c) (ucast wrap_value)) c;
               c = on_hw (pwm_set_gpio_level GPIO_PIN_BUZZER (ucast (wrap_value div 2))) c;
               c = on_hw (sleep_ms duration_ms) c
           in Some (on_hw buzzer_off c))"

section \<open>Effects\<close>

lemma buzzer_level_frame:
  "pwm_gpio_level (pwm_set_gpio_level GPIO_PIN_BUZZER v s) GPIO_PIN_BUZZER = v"
  "drive_of (pwm_set_gpio_level GPIO_PIN_BUZZER v s) = drive_of s"
  "pwm_pin g \<Longrightarrow> g \<noteq> 4 \<Longrightarrow>
     pwm_gpio_level (pwm_set_gpio_level GPIO_PIN_BUZZER v s) g = pwm_gpio_level s g"
  by (simp_all add: drive_of_def duties.get_put pin_defs pwm_gpio_level_frames gpio_put_frame
      observe_frame pwm_frame)

lemma buzzer_off_obs [obs_simps]:
  "pwm_gpio_level (buzzer_off s) GPIO_PIN_BUZZER = 0" "drive_of (buzzer_off s) = drive_of s"
  "pwm_pin g \<Longrightarrow> g \<noteq> 4 \<Longrightarrow> pwm_gpio_level (buzzer_off s) g = pwm_gpio_level s g"
  "gpio_get_out_level (buzzer_off s) h = gpio_get_out_level s h"
  "calls (buzzer_off s) = calls s" "reads (buzzer_off s) = reads s"
  "pwm_wrap (buzzer_off s) n = pwm_wrap s n"
  by (simp_all add: buzzer_off_def buzzer_level_frame obs_simps
      del: pwm_gpio_level_ops)

lemma buzzer_on_obs [obs_simps]:
  "pwm_gpio_level (buzzer_on s) GPIO_PIN_BUZZER = 500" "drive_of (buzzer_on s) = drive_of s"
  "pwm_pin g \<Longrightarrow> g \<noteq> 4 \<Longrightarrow> pwm_gpio_level (buzzer_on s) g = pwm_gpio_level s g"
  "gpio_get_out_level (buzzer_on s) h = gpio_get_out_level s h"
  "calls (buzzer_on s) = calls s" "reads (buzzer_on s) = reads s"
  "pwm_wrap (buzzer_on s) n = pwm_wrap s n"
  by (simp_all add: buzzer_on_def buzzer_level_frame obs_simps
      del: pwm_gpio_level_ops)

text \<open>The tone of a slice: the clock divided by its divider and by the length of its count.\<close>

definition tone_hz :: "mcu \<Rightarrow> u32 \<Rightarrow> rat" where
  "tone_hz s n = 125000000 * 16 / (of_nat (pwm_clkdiv16 s n) * of_nat (unat (pwm_wrap s n) + 1))"

text \<open>The state of the buzzer while it sounds, before the sleep.\<close>

lemma buzzer_sound_eq:
  assumes "frequency \<noteq> 0"
  shows "buzzer_sound frequency duration_ms c = Some (on_hw buzzer_off (on_hw (sleep_ms duration_ms)
    (on_hw (pwm_set_gpio_level GPIO_PIN_BUZZER (ucast (125000000 div frequency div 2)))
      (on_hw (pwm_set_wrap (slice_num_buzzer c) (ucast (125000000 div frequency))) c))))"
  using assms by (simp add: buzzer_sound_def Let_def)

lemma buzzer_sound_obs:
  assumes "buzzer_sound frequency duration_ms c = Some c'"
  shows "drive_of (hw c') = drive_of (hw c)"
    and "pwm_gpio_level (hw c') GPIO_PIN_BUZZER = 0"
    and "pwm_pin g \<Longrightarrow> g \<noteq> 4 \<Longrightarrow> pwm_gpio_level (hw c') g = pwm_gpio_level (hw c) g"
    and "gpio_get_out_level (hw c') h = gpio_get_out_level (hw c) h"
    and "calls (hw c') = calls (hw c) @ [Sleep_ms duration_ms]" and "reads (hw c') = reads (hw c)"
    and "is_moving_forward c' = is_moving_forward c" and "is_moving_left c' = is_moving_left c"
    and "is_moving_right c' = is_moving_right c" and "is_moving_backward c' = is_moving_backward c"
    and "slice_num_buzzer c' = slice_num_buzzer c"
proof -
  have "frequency \<noteq> 0" using assms by (auto simp: buzzer_sound_def)
  then have c': "c' = on_hw buzzer_off (on_hw (sleep_ms duration_ms)
    (on_hw (pwm_set_gpio_level GPIO_PIN_BUZZER (ucast (125000000 div frequency div 2)))
      (on_hw (pwm_set_wrap (slice_num_buzzer c) (ucast (125000000 div frequency))) c)))"
    using assms by (simp add: buzzer_sound_eq)
  show "pwm_pin g \<Longrightarrow> g \<noteq> 4 \<Longrightarrow> pwm_gpio_level (hw c') g = pwm_gpio_level (hw c) g"
    by (simp add: c' buzzer_off_obs buzzer_level_frame obs_simps del: pwm_gpio_level_ops(1))
  show "drive_of (hw c') = drive_of (hw c)"
    by (simp add: c' buzzer_off_obs buzzer_level_frame drive_of_frames)
qed (use assms in \<open>auto simp: buzzer_sound_def Let_def obs_simps split: if_splits\<close>)

section \<open>Properties\<close>

text \<open>
  C27: with the divider of \<open>buzzer_init\<close>, a sound of a frequency of 1908 Hz or more counts
  to \<open>125000000 div frequency\<close> at half duty without overflow; because the clock is also
  divided by 4, the tone is below a quarter of the frequency asked for. The call sleeps for the
  duration and ends with the buzzer silent.
\<close>

theorem buzzer_sound_tone:
  assumes "1908 \<le> frequency"
    and "pwm_clkdiv16 (hw c) (slice_num_buzzer c) = 64"
  shows "\<exists>s. buzzer_sound frequency duration_ms c
        = Some (c\<lparr>hw := buzzer_off (sleep_ms duration_ms s)\<rparr>)
    \<and> unat (pwm_wrap s (slice_num_buzzer c)) = 125000000 div unat frequency
    \<and> unat (pwm_gpio_level s GPIO_PIN_BUZZER) = 125000000 div unat frequency div 2
    \<and> 4 * tone_hz s (slice_num_buzzer c) < of_nat (unat frequency)"
proof -
  define n where "n = slice_num_buzzer c"
  define w where "w = 125000000 div unat frequency"
  define s where "s = pwm_set_gpio_level GPIO_PIN_BUZZER (ucast (125000000 div frequency div 2))
    (pwm_set_wrap n (ucast (125000000 div frequency)) (hw c))"
  have f: "1908 \<le> unat frequency" using assms(1) by (simp add: word_le_nat_alt)
  have "w \<le> 125000000 div 1908" unfolding w_def by (rule div_le_mono2) (use f in simp_all)
  then have w: "w < 65536" by simp
  have "unat (125000000 div frequency) = w" by (simp add: unat_div_distrib w_def)
  then have wrap: "unat (pwm_wrap s n) = w"
    and level: "unat (pwm_gpio_level s GPIO_PIN_BUZZER) = w div 2"
    using w by (simp_all add: s_def obs_simps unat_div_distrib unsigned_ucast_eq take_bit_nat_eq_self)
  have div: "pwm_clkdiv16 s n = 64" using assms(2) by (simp add: s_def n_def obs_simps)
  have "125000000 < unat frequency * (w + 1)"
    using dividend_less_times_div [of "unat frequency" 125000000] f by (simp add: w_def)
  then have "of_nat 125000000 < (of_nat (unat frequency * (w + 1)) :: rat)"
    by (rule of_nat_less_iff [THEN iffD2])
  then have rat: "(125000000 :: rat) < of_nat (unat frequency) * of_nat (w + 1)"
    by (simp only: of_nat_mult of_nat_numeral)
  have "4 * tone_hz s n = 125000000 / of_nat (w + 1)"
    by (simp add: tone_hz_def div wrap del: of_nat_Suc of_nat_add)
  also have "\<dots> < of_nat (unat frequency)"
    using rat by (simp add: pos_divide_less_eq del: of_nat_Suc of_nat_add)
  finally have "4 * tone_hz s n < of_nat (unat frequency)" .
  moreover have "frequency \<noteq> 0" using f by auto
  then have "buzzer_sound frequency duration_ms c
      = Some (c\<lparr>hw := buzzer_off (sleep_ms duration_ms s)\<rparr>)"
    by (simp add: buzzer_sound_eq s_def n_def on_hw_def)
  ultimately show ?thesis using wrap level unfolding n_def w_def by blast
qed

theorem buzzer_sound_tone_witness:
  "\<exists>s. buzzer_sound 10000 1000 (buzzer_init ref_board reset_car)
       = Some ((buzzer_init ref_board reset_car)\<lparr>hw := buzzer_off (sleep_ms 1000 s)\<rparr>)
    \<and> 4 * tone_hz s (slice_num_buzzer (buzzer_init ref_board reset_car)) < 10000"
  using buzzer_sound_tone [of 10000 "buzzer_init ref_board reset_car" 1000]
  by (auto simp: buzzer_init_def Let_def obs_simps)

text \<open>
  Below 1908 Hz the count does not fit the 16-bit wrap register: what is stored is the
  count modulo \<open>2\<^sup>1\<^sup>6\<close>, and a frequency of zero is undefined behaviour.
\<close>

theorem buzzer_sound_truncates:
  "buzzer_sound 0 duration_ms c = None \<and>
   (frequency \<noteq> 0 \<longrightarrow> (\<exists>c'. buzzer_sound frequency duration_ms c = Some c' \<and>
      unat (pwm_wrap (hw c') (slice_num_buzzer c)) = 125000000 div unat frequency mod 65536))"
  by (simp add: buzzer_sound_def Let_def obs_simps unsigned_ucast_eq take_bit_eq_mod unat_div_distrib)

theorem buzzer_sound_truncates_witness:
  "\<exists>c'. buzzer_sound 1000 1 reset_car = Some c' \<and> unat (pwm_wrap (hw c') 0) = 59464"
  using buzzer_sound_truncates [of 1 reset_car 1000] by (simp add: reset_car_def)

text \<open>
  \<open>buzzer_on\<close> writes the fixed level 500, which is half of the wrap value of
  \<open>buzzer_init\<close>; after a warning tone of 25 kHz, which leaves its own wrap value in the slice, the
  same call gives a tenth.
\<close>

theorem buzzer_on_duty:
  assumes "sdk_docs B" and "buzzer_sound 25000 duration_ms (buzzer_init B c) = Some c'"
  shows "pwm_wrap (hw (buzzer_init B c)) (slice_num_buzzer (buzzer_init B c)) = 1000
    \<and> pwm_gpio_level (buzzer_on (hw (buzzer_init B c))) GPIO_PIN_BUZZER = 500
    \<and> pwm_wrap (hw c') (slice_num_buzzer c') = 5000
    \<and> pwm_gpio_level (buzzer_on (hw c')) GPIO_PIN_BUZZER = 500"
  using assms
  by (auto simp: buzzer_sound_def buzzer_init_def Let_def obs_simps)

theorem buzzer_on_duty_witness:
  "\<exists>c'. buzzer_sound 25000 500 (buzzer_init ref_board reset_car) = Some c'
     \<and> pwm_wrap (hw c') (slice_num_buzzer c') = 5000"
proof -
  obtain c' where "buzzer_sound 25000 500 (buzzer_init ref_board reset_car) = Some c'"
    by (simp add: buzzer_sound_def Let_def)
  with buzzer_on_duty [OF sdk_docs_ref_board this] show ?thesis by blast
qed

end
