(* ===== verification/Cgi.thy ===== *)
theory Cgi
  imports Led Buzzer
begin

text \<open>
  The command interface, cgi.h. The web server calls \<open>cgi_led_handler\<close> with the parameters of a
  request; the handler drives the LEDs, the buzzer and the motors and keeps four flags that the
  main loop reads. A parameter is its name and its value, both C strings; a value may be NULL,
  which is \<open>None\<close>. The handler's result is \<open>None\<close> when the code's behaviour is undefined (a NULL
  value compared, a division by zero) or a measurement never ends.
\<close>

section \<open>Operations\<close>

abbreviation cyw43_arch_gpio_put :: "u32 \<Rightarrow> bool \<Rightarrow> mcu \<Rightarrow> mcu" where
  "cyw43_arch_gpio_put pin v \<equiv> emit (Wl_gpio_put pin v)"

definition cgi_led :: "string \<Rightarrow> car \<Rightarrow> car" where
  "cgi_led v c =
     (if v = ''0'' then on_hw (cyw43_arch_gpio_put CYW43_WL_GPIO_LED_PIN False) c
      else if v = ''1'' then on_hw (cyw43_arch_gpio_put CYW43_WL_GPIO_LED_PIN True) c
      else c)"

definition cgi_motor :: "board \<Rightarrow> string \<Rightarrow> car \<Rightarrow> car option" where
  "cgi_motor B v c =
     (let speed = 250; c = c\<lparr>is_moving_forward := True\<rparr> in
      if v = ''forward'' then
        (case ultrasonic_get_distance B (hw c) of
           None \<Rightarrow> None
         | Some (distance, s) \<Rightarrow>
             (let c = c\<lparr>hw := s\<rparr> in
              if obstacle distance then
                (let c = c\<lparr>is_moving_forward := False\<rparr>;
                     c = c\<lparr>is_moving_left := False\<rparr>;
                     c = c\<lparr>is_moving_right := False\<rparr>;
                     c = c\<lparr>is_moving_backward := False\<rparr>;
                     c = on_hw stop_car c;
                     c = on_hw (set_rgb_color 0 0 255) c
                 in buzzer_sound 25000 500 c)
              else
                (let c = c\<lparr>is_moving_forward := True\<rparr>;
                     c = c\<lparr>is_moving_left := False\<rparr>;
                     c = c\<lparr>is_moving_right := False\<rparr>;
                     c = c\<lparr>is_moving_backward := False\<rparr>;
                     c = on_hw (move_forward speed) c;
                     c = on_hw (set_rgb_color 0 255 0) c
                 in Some (on_hw buzzer_off c))))
      else if v = ''backward'' then
        (let c = c\<lparr>is_moving_forward := False\<rparr>;
             c = c\<lparr>is_moving_left := False\<rparr>;
             c = c\<lparr>is_moving_right := False\<rparr>;
             c = c\<lparr>is_moving_backward := True\<rparr>;
             c = on_hw (set_rgb_color 255 0 0) c;
             c = on_hw (move_backward speed) c
         in buzzer_sound 10000 1000 c)
      else if v = ''left'' then
        (let c = c\<lparr>is_moving_forward := True\<rparr>;
             c = c\<lparr>is_moving_left := True\<rparr>;
             c = c\<lparr>is_moving_right := False\<rparr>;
             c = c\<lparr>is_moving_backward := False\<rparr>;
             c = on_hw (set_rgb_color 0 255 0) c;
             c = on_hw (move_left speed) c
         in Some (on_hw buzzer_off c))
      else if v = ''right'' then
        (let c = c\<lparr>is_moving_forward := True\<rparr>;
             c = c\<lparr>is_moving_right := True\<rparr>;
             c = c\<lparr>is_moving_left := False\<rparr>;
             c = c\<lparr>is_moving_backward := False\<rparr>;
             c = on_hw (move_right speed) c;
             c = on_hw buzzer_off c
         in Some (on_hw (set_rgb_color 0 255 0) c))
      else if v = ''stop'' then
        (let c = c\<lparr>is_moving_forward := False\<rparr>;
             c = c\<lparr>is_moving_left := False\<rparr>;
             c = c\<lparr>is_moving_right := False\<rparr>;
             c = c\<lparr>is_moving_backward := False\<rparr>;
             c = on_hw (set_rgb_color 0 0 255) c
         in Some (on_hw stop_car c))
      else Some c)"

definition cgi_buzzer :: "string \<Rightarrow> car \<Rightarrow> car" where
  "cgi_buzzer v c =
     (if v = ''on'' then on_hw buzzer_on c
      else if v = ''off'' then on_hw buzzer_off c
      else c)"

definition cgi_rgbled :: "string \<Rightarrow> car \<Rightarrow> car" where
  "cgi_rgbled v c =
     (if v = ''red'' then on_hw (set_rgb_color 0 0 255) c
      else if v = ''green'' then on_hw (set_rgb_color 0 255 0) c
      else if v = ''blue'' then on_hw (set_rgb_color 255 0 0) c
      else if v = ''off'' then on_hw (set_rgb_color 0 0 0) c
      else c)"

text \<open>One round of the loop over the parameters, then the loop.\<close>

definition cgi_param :: "board \<Rightarrow> string \<times> string option \<Rightarrow> car \<Rightarrow> car option" where
  "cgi_param B p c =
     (let (pcParam, pcValue) = p in
      if pcParam = ''led'' then map_option (\<lambda>v. cgi_led v c) pcValue
      else if pcParam = ''motor'' then Option.bind pcValue (\<lambda>v. cgi_motor B v c)
      else if pcParam = ''buzzer'' then map_option (\<lambda>v. cgi_buzzer v c) pcValue
      else if pcParam = ''rgbled'' then map_option (\<lambda>v. cgi_rgbled v c) pcValue
      else Some c)"

fun cgi_params :: "board \<Rightarrow> (string \<times> string option) list \<Rightarrow> car \<Rightarrow> car option" where
  "cgi_params B [] c = Some c"
| "cgi_params B (p # ps) c =
     (case cgi_param B p c of None \<Rightarrow> None | Some c \<Rightarrow> cgi_params B ps c)"

definition cgi_led_handler ::
  "board \<Rightarrow> int \<Rightarrow> (string \<times> string option) list \<Rightarrow> car \<Rightarrow> (string \<times> car) option" where
  "cgi_led_handler B iIndex params c =
     map_option (\<lambda>c. (''/index.shtml'', c)) (cgi_params B params c)"

definition cgi_handlers :: "string list" where
  "cgi_handlers = [''/led.cgi'']"

definition cgi_init :: "board \<Rightarrow> car \<Rightarrow> car" where
  "cgi_init B c =
     (let c = on_hw (motor_init B) c;
          c = buzzer_init B c;
          c = rgb_led_init B c;
          c = on_hw (ultrasonic_init B) c
      in on_hw (emit (Http_set_cgi_handlers cgi_handlers)) c)"

section \<open>The commands as modes of the car\<close>

text \<open>
  What the interface promises: the car is in one of five modes, a command moves it to another,
  and the motors do what the mode says. The flags encode the mode.
\<close>

datatype mode = Stopped | Going_forward | Going_left | Going_right | Going_backward

definition mode_of :: "car \<Rightarrow> mode" where
  "mode_of c =
     (if is_moving_forward c
      then if is_moving_left c then Going_left
           else if is_moving_right c then Going_right else Going_forward
      else if is_moving_backward c then Going_backward else Stopped)"

fun drive_for :: "mode \<Rightarrow> drive" where
  "drive_for Stopped = stopped_drive"
| "drive_for Going_forward = \<lparr>motor1 = Forwards, motor2 = Forwards, duty1 = 143, duty2 = 125\<rparr>"
| "drive_for Going_left = \<lparr>motor1 = Forwards, motor2 = Forwards, duty1 = 149, duty2 = 125\<rparr>"
| "drive_for Going_right = \<lparr>motor1 = Forwards, motor2 = Forwards, duty1 = 143, duty2 = 131\<rparr>"
| "drive_for Going_backward = \<lparr>motor1 = Backwards, motor2 = Backwards, duty1 = 140, duty2 = 125\<rparr>"

definition drive_agrees :: "car \<Rightarrow> bool" where
  "drive_agrees c \<longleftrightarrow> drive_of (hw c) = drive_for (mode_of c)"

text \<open>The commands of the page's motor buttons, and the mode each leads to.\<close>

datatype command = Cmd_forward | Cmd_backward | Cmd_left | Cmd_right | Cmd_stop

fun command_value :: "command \<Rightarrow> string" where
  "command_value Cmd_forward = ''forward''"
| "command_value Cmd_backward = ''backward''"
| "command_value Cmd_left = ''left''"
| "command_value Cmd_right = ''right''"
| "command_value Cmd_stop = ''stop''"

fun mode_after :: "command \<Rightarrow> bool \<Rightarrow> mode" where
  "mode_after Cmd_forward blocked = (if blocked then Stopped else Going_forward)"
| "mode_after Cmd_backward blocked = Going_backward"
| "mode_after Cmd_left blocked = Going_left"
| "mode_after Cmd_right blocked = Going_right"
| "mode_after Cmd_stop blocked = Stopped"

text \<open>The colour and the warning sleep of a mode's entry.\<close>

fun color_for :: "mode \<Rightarrow> u16 \<times> u16 \<times> u16" where
  "color_for Stopped = (0, 0, 255)"
| "color_for Going_backward = (255, 0, 0)"
| "color_for _ = (0, 255, 0)"

section \<open>Effects\<close>

lemma movement_pwm_pins [obs_simps]:
  "g \<in> {4, 6, 7, 8} \<Longrightarrow> pwm_gpio_level (move_forward v s) g = pwm_gpio_level s g"
  "g \<in> {4, 6, 7, 8} \<Longrightarrow> pwm_gpio_level (move_left v s) g = pwm_gpio_level s g"
  "g \<in> {4, 6, 7, 8} \<Longrightarrow> pwm_gpio_level (move_right v s) g = pwm_gpio_level s g"
  "g \<in> {4, 6, 7, 8} \<Longrightarrow> pwm_gpio_level (move_backward v s) g = pwm_gpio_level s g"
  "g \<in> {4, 6, 7, 8} \<Longrightarrow> pwm_gpio_level (stop_car s) g = pwm_gpio_level s g"
  by (simp_all only: drv_defs drive_calls_frame)

lemma led_color_frames [obs_simps]:
  "led_color (move_forward v s) = led_color s" "led_color (move_left v s) = led_color s"
  "led_color (move_right v s) = led_color s" "led_color (move_backward v s) = led_color s"
  "led_color (stop_car s) = led_color s" "led_color (buzzer_off s) = led_color s"
  "led_color (buzzer_on s) = led_color s" "led_color (emit k s) = led_color s"
  by (simp_all add: led_color_def pin_defs movement_pwm_pins buzzer_off_obs buzzer_on_obs
      observe_frame)

lemma drive_after [obs_simps]:
  "drive_of (move_forward 250 s) = drive_for Going_forward"
  "drive_of (move_left 250 s) = drive_for Going_left"
  "drive_of (move_right 250 s) = drive_for Going_right"
  "drive_of (move_backward 250 s) = drive_for Going_backward"
  "drive_of (stop_car s) = drive_for Stopped"
  by (simp_all add: drv_defs obs_simps stopped_drive_def)

lemma trigger_drive [obs_simps]:
  "drive_of ((ultrasonic_trigger s)\<lparr>reads := k\<rparr>) = drive_of s"
  "pwm_gpio_level ((ultrasonic_trigger s)\<lparr>reads := k\<rparr>) g = pwm_gpio_level s g"
proof -
  show level: "pwm_gpio_level ((ultrasonic_trigger s)\<lparr>reads := k\<rparr>) g = pwm_gpio_level s g" for g
    by (rule pwm_obs_of_slices) (simp add: ultrasonic_trigger_frame)
  have "gpio_get_out_level ((ultrasonic_trigger s)\<lparr>reads := k\<rparr>) h = gpio_get_out_level s h"
    if "h \<in> {0, 1, 12, 18}" for h
  proof -
    have "gpio_get_out_level ((ultrasonic_trigger s)\<lparr>reads := k\<rparr>) h
        = gpio_get_out_level (ultrasonic_trigger s) h"
      by (simp add: gpio_get_out_level_def)
    with that show ?thesis by (auto simp: ultrasonic_trigger_level TRIG_PIN_def)
  qed
  then show "drive_of ((ultrasonic_trigger s)\<lparr>reads := k\<rparr>) = drive_of s"
    by (intro drive_of_frame) (simp_all add: level)
qed

lemma distance_drive:
  "ultrasonic_get_distance B s = Some (r, s') \<Longrightarrow> drive_of s' = drive_of s"
  by (drule distance_only_reads) (auto simp: trigger_drive)

text \<open>The sound of 25 kHz or 10 kHz never divides by zero.\<close>

lemma buzzer_sound_some: "frequency \<noteq> 0 \<Longrightarrow> \<exists>c'. buzzer_sound frequency d c = Some c'"
  by (simp add: buzzer_sound_eq)

lemma buzzer_sound_color:
  "buzzer_sound frequency d c = Some c' \<Longrightarrow> led_color (hw c') = led_color (hw c)"
  by (simp add: led_color_def pin_defs buzzer_sound_obs)

lemma buzzer_sound_mode:
  "buzzer_sound frequency d c = Some c' \<Longrightarrow> mode_of c' = mode_of c"
  by (simp add: mode_of_def buzzer_sound_obs)

text \<open>What each button does, on every branch.\<close>

definition blocked :: "board \<Rightarrow> mcu \<Rightarrow> bool" where
  "blocked B s \<longleftrightarrow> (case ultrasonic_get_distance B s of None \<Rightarrow> False | Some (d, _) \<Rightarrow> obstacle d)"

definition with_flags :: "bool \<Rightarrow> bool \<Rightarrow> bool \<Rightarrow> bool \<Rightarrow> car \<Rightarrow> car" where
  "with_flags f l r b c = c\<lparr>is_moving_forward := f, is_moving_left := l, is_moving_right := r,
     is_moving_backward := b\<rparr>"

lemma with_flags_simps [simp]:
  "hw (with_flags f l r b c) = hw c" "is_moving_forward (with_flags f l r b c) = f"
  "is_moving_left (with_flags f l r b c) = l" "is_moving_right (with_flags f l r b c) = r"
  "is_moving_backward (with_flags f l r b c) = b"
  by (simp_all add: with_flags_def)

lemma mode_of_simps:
  "mode_of (on_hw g c) = mode_of c" "mode_of (c\<lparr>hw := s\<rparr>) = mode_of c"
  "mode_of (with_flags f l r b c) = (if f then if l then Going_left else if r then Going_right
     else Going_forward else if b then Going_backward else Stopped)"
  by (simp_all add: mode_of_def)

lemma motor_backward: "cgi_motor B ''backward'' c = buzzer_sound 10000 1000
    (on_hw (move_backward 250) (on_hw (set_rgb_color 255 0 0) (with_flags False False False True c)))"
  by (simp add: cgi_motor_def Let_def with_flags_def)

lemma motor_left: "cgi_motor B ''left'' c = Some (on_hw buzzer_off (on_hw (move_left 250)
    (on_hw (set_rgb_color 0 255 0) (with_flags True True False False c))))"
  by (simp add: cgi_motor_def Let_def with_flags_def)

lemma motor_right: "cgi_motor B ''right'' c = Some (on_hw (set_rgb_color 0 255 0) (on_hw buzzer_off
    (on_hw (move_right 250) (with_flags True False True False c))))"
  by (simp add: cgi_motor_def Let_def with_flags_def)

lemma motor_stop: "cgi_motor B ''stop'' c = Some (on_hw stop_car (on_hw (set_rgb_color 0 0 255)
    (with_flags False False False False c)))"
  by (simp add: cgi_motor_def Let_def with_flags_def)

lemma motor_forward: "cgi_motor B ''forward'' c =
   (case ultrasonic_get_distance B (hw c) of None \<Rightarrow> None
    | Some (d, s) \<Rightarrow> if obstacle d
       then buzzer_sound 25000 500 (on_hw (set_rgb_color 0 0 255) (on_hw stop_car
              (with_flags False False False False (c\<lparr>hw := s\<rparr>))))
       else Some (on_hw buzzer_off (on_hw (set_rgb_color 0 255 0) (on_hw (move_forward 250)
              (with_flags True False False False (c\<lparr>hw := s\<rparr>))))))"
  by (simp add: cgi_motor_def Let_def with_flags_def split: option.split)

lemma motor_other: "v \<notin> command_value ` {Cmd_forward, Cmd_backward, Cmd_left, Cmd_right, Cmd_stop} \<Longrightarrow>
    cgi_motor B v c = Some (c\<lparr>is_moving_forward := True\<rparr>)"
  by (simp add: cgi_motor_def)

lemmas motor_cases = motor_forward motor_backward motor_left motor_right motor_stop

lemmas entry_simps = mode_of_simps buzzer_sound_mode buzzer_sound_obs(1,2,3) buzzer_sound_color
  led_color_set led_color_frames drive_after set_rgb_color_drive buzzer_off_obs(1-3)
  set_rgb_color_level movement_pwm_pins

lemma command_mode:
  "cgi_motor B (command_value cmd) c = Some c' \<Longrightarrow> mode_of c' = mode_after cmd (blocked B (hw c))"
  by (cases cmd) (auto simp: motor_cases blocked_def entry_simps split: option.splits if_splits)

lemma command_drive:
  "cgi_motor B (command_value cmd) c = Some c' \<Longrightarrow> drive_of (hw c') = drive_for (mode_of c')"
  by (cases cmd) (auto simp: motor_cases entry_simps split: option.splits if_splits)

lemma command_color:
  "cgi_motor B (command_value cmd) c = Some c' \<Longrightarrow> led_color (hw c') = color_for (mode_of c')"
  by (cases cmd) (auto simp: motor_cases entry_simps split: option.splits if_splits)

lemma buzzer_pin: "pwm_pin GPIO_PIN_BUZZER" "GPIO_PIN_BUZZER \<notin> {6, 7, 8}"
  by (simp_all add: GPIO_PIN_BUZZER_def)

lemma command_silent:
  "cgi_motor B (command_value cmd) c = Some c' \<Longrightarrow> cmd \<noteq> Cmd_stop \<Longrightarrow>
     pwm_gpio_level (hw c') GPIO_PIN_BUZZER = 0"
  by (cases cmd) (auto simp: motor_cases entry_simps
      set_rgb_color_level [OF buzzer_pin] split: option.splits if_splits)

text \<open>Every value of every parameter is handled, once the measurement returns.\<close>

lemma cgi_motor_total:
  assumes "ultrasonic_get_distance B (hw c) \<noteq> None"
  shows "\<exists>c'. cgi_motor B v c = Some c'"
proof -
  obtain d s where d: "ultrasonic_get_distance B (hw c) = Some (d, s)" using assms by auto
  have "\<exists>c'. cgi_motor B ''forward'' c = Some c'"
    using d by (simp add: motor_forward buzzer_sound_some)
  moreover have "\<exists>c'. cgi_motor B ''backward'' c = Some c'"
    by (simp add: motor_backward buzzer_sound_some)
  ultimately show ?thesis
    by (cases "v \<in> command_value ` {Cmd_forward, Cmd_backward, Cmd_left, Cmd_right, Cmd_stop}")
      (auto simp: motor_other motor_left motor_right motor_stop)
qed

text \<open>The flags never ask for two turns at once, nor for a turn while backing up.\<close>

definition flags_ok :: "car \<Rightarrow> bool" where
  "flags_ok c \<longleftrightarrow> \<not> (is_moving_left c \<and> is_moving_right c) \<and>
     (is_moving_left c \<or> is_moving_right c \<longrightarrow> \<not> is_moving_backward c)"

lemma flags_ok_simps:
  "flags_ok (on_hw g c) = flags_ok c" "flags_ok (c\<lparr>hw := s\<rparr>) = flags_ok c"
  "flags_ok (c\<lparr>is_moving_forward := f\<rparr>) = flags_ok c"
  "flags_ok (with_flags f l r b c) \<longleftrightarrow> \<not> (l \<and> r) \<and> (l \<or> r \<longrightarrow> \<not> b)"
  "buzzer_sound frequency d c = Some c' \<Longrightarrow> flags_ok c' = flags_ok c"
  by (simp_all add: flags_ok_def buzzer_sound_obs)

lemma cgi_motor_flags:
  assumes "cgi_motor B v c = Some c'" and "flags_ok c"
  shows "flags_ok c'"
proof (cases "v \<in> command_value ` {Cmd_forward, Cmd_backward, Cmd_left, Cmd_right, Cmd_stop}")
  case True
  with assms show ?thesis
    by (auto simp: motor_cases flags_ok_simps split: option.splits if_splits)
next
  case False
  with assms show ?thesis by (auto simp: motor_other flags_ok_simps)
qed

text \<open>The other parameters leave motors and flags alone.\<close>

definition steers_nothing :: "(mcu \<Rightarrow> mcu) \<Rightarrow> bool" where
  "steers_nothing f \<longleftrightarrow>
     (\<forall>s. drive_of (f s) = drive_of s \<and> gpio_get_out_level (f s) = gpio_get_out_level s)"

lemma steers_nothing [simp]:
  "steers_nothing (emit k)" "steers_nothing (set_rgb_color r g b)" "steers_nothing buzzer_on"
  "steers_nothing buzzer_off" "steers_nothing (\<lambda>s. s)"
  by (simp_all add: steers_nothing_def drive_of_frames set_rgb_color_drive set_rgb_color_frame
      buzzer_off_obs buzzer_on_obs observe_frame fun_eq_iff)

lemma other_params:
  assumes "p \<noteq> ''motor''" and "cgi_param B (p, v) c = Some c'"
  shows "\<exists>f. c' = on_hw f c \<and> steers_nothing f"
proof -
  have id: "c = on_hw (\<lambda>s. s) c" by (simp add: on_hw_def)
  have led: "\<exists>f. cgi_led v c = on_hw f c \<and> steers_nothing f" for v
    unfolding cgi_led_def using id steers_nothing by metis
  have buz: "\<exists>f. cgi_buzzer v c = on_hw f c \<and> steers_nothing f" for v
    unfolding cgi_buzzer_def using id steers_nothing by metis
  have rgb: "\<exists>f. cgi_rgbled v c = on_hw f c \<and> steers_nothing f" for v
    unfolding cgi_rgbled_def using id steers_nothing by metis
  consider "p = ''led''" | "p = ''buzzer''" | "p = ''rgbled''"
    | "p \<noteq> ''led''" "p \<noteq> ''buzzer''" "p \<noteq> ''rgbled''" by blast
  then show ?thesis
  proof cases
    case 1 with assms led show ?thesis by (auto simp: cgi_param_def)
  next
    case 2 with assms buz show ?thesis by (auto simp: cgi_param_def)
  next
    case 3 with assms rgb show ?thesis by (auto simp: cgi_param_def)
  next
    case 4
    with assms have "c' = c" by (simp add: cgi_param_def)
    with id show ?thesis using steers_nothing(5) by blast
  qed
qed

lemma other_params_frame:
  assumes "cgi_param B (p, v) c = Some c'" and "p \<noteq> ''motor''"
  shows "drive_of (hw c') = drive_of (hw c)" and "mode_of c' = mode_of c"
    and "flags_ok c' = flags_ok c" and "gpio_get_out_level (hw c') = gpio_get_out_level (hw c)"
  using other_params [OF assms(2,1)]
  by (auto simp: steers_nothing_def mode_of_simps flags_ok_simps)

lemma cgi_param_flags:
  assumes "cgi_param B p c = Some c'" and "flags_ok c"
  shows "flags_ok c'"
proof (cases "fst p = ''motor''")
  case True
  with assms show ?thesis
    by (cases p) (auto simp: cgi_param_def cgi_motor_flags bind_eq_Some_conv)
next
  case False
  with assms other_params_frame(3) [of B "fst p" "snd p" c c'] show ?thesis by simp
qed

text \<open>How far the clock gets: only the measurement of \<open>forward\<close> reads anything.\<close>

lemma movement_reads [obs_simps]:
  "reads (move_forward v s) = reads s" "reads (move_left v s) = reads s"
  "reads (move_right v s) = reads s" "reads (move_backward v s) = reads s"
  "reads (stop_car s) = reads s"
  by (simp_all add: drv_defs obs_simps)

lemmas reads_simps = movement_reads buzzer_sound_obs(6) buzzer_off_obs(6) buzzer_on_obs(6)
  set_rgb_color_frame(8) emit_frame

lemma cgi_motor_reads:
  assumes "cgi_motor B v c = Some c'"
  shows "reads (hw c') = (if v = ''forward'' then reads (snd (the (ultrasonic_get_distance B (hw c))))
    else reads (hw c))"
proof (cases "v \<in> command_value ` {Cmd_forward, Cmd_backward, Cmd_left, Cmd_right, Cmd_stop}")
  case True
  with assms show ?thesis
    by (auto simp: motor_cases reads_simps split: option.splits if_splits)
next
  case False
  with assms show ?thesis by (auto simp: motor_other)
qed

lemma other_params_reads:
  assumes "p \<noteq> ''motor''"
  shows "\<exists>c'. cgi_param B (p, Some v) c = Some c' \<and> reads (hw c') = reads (hw c)"
  using assms
  by (auto simp: cgi_param_def cgi_led_def cgi_buzzer_def cgi_rgbled_def reads_simps)

lemma cgi_param_returns:
  assumes "steady_clock B" and "clock_at B (reads (hw c)) < 2305843009213693952" and "snd p \<noteq> None"
  shows "\<exists>c'. cgi_param B p c = Some c'
    \<and> clock_at B (reads (hw c')) \<le> clock_at B (reads (hw c)) + 10000000"
proof (cases "fst p = ''motor''")
  case True
  with assms(3) obtain v where p: "p = (''motor'', Some v)" by (cases p) auto
  obtain r k where m: "ultrasonic_get_distance B (hw c)
      = Some (r, (ultrasonic_trigger (hw c))\<lparr>reads := k\<rparr>)"
    and k: "clock_at B k \<le> clock_at B (reads (hw c)) + 10000000"
    using distance_returns_aux [OF assms(1,2)] by blast
  then obtain c' where c': "cgi_motor B v c = Some c'" using cgi_motor_total by blast
  have "clock_at B (reads (hw c')) \<le> clock_at B (reads (hw c)) + 10000000"
    using cgi_motor_reads [OF c'] m k by (auto split: if_splits)
  with c' show ?thesis by (simp add: p cgi_param_def)
next
  case False
  with assms(3) obtain q v where "p = (q, Some v)" and "q \<noteq> ''motor''" by (cases p) auto
  with other_params_reads [of q B v c] show ?thesis by auto
qed

lemma cgi_params_return:
  assumes "steady_clock B" and "\<forall>p \<in> set ps. snd p \<noteq> None"
    and "clock_at B (reads (hw c)) + 10000000 * length ps < 2305843009213693952"
  shows "\<exists>c'. cgi_params B ps c = Some c'"
  using assms(2,3)
proof (induction ps arbitrary: c)
  case (Cons p ps)
  then obtain c' where c': "cgi_param B p c = Some c'"
    and k: "clock_at B (reads (hw c')) \<le> clock_at B (reads (hw c)) + 10000000"
    using cgi_param_returns [OF assms(1), of c p] by auto
  have "\<exists>d. cgi_params B ps c' = Some d"
    using Cons.prems k by (intro Cons.IH) simp_all
  with c' show ?case by simp
qed simp

text \<open>An invariant of single parameters is one of whole requests.\<close>

lemma cgi_params_invariant:
  assumes "cgi_params B ps c = Some c'" and "P c"
    and "\<And>p c c'. p \<in> set ps \<Longrightarrow> cgi_param B p c = Some c' \<Longrightarrow> P c \<Longrightarrow> P c'"
  shows "P c'"
  using assms
proof (induction ps arbitrary: c)
  case (Cons p ps)
  from Cons.prems(1) obtain d where d: "cgi_param B p c = Some d" "cgi_params B ps d = Some c'"
    by (auto split: option.splits)
  have "P d" using Cons.prems(3) [OF _ d(1) Cons.prems(2)] by simp
  then show ?case using Cons.prems(3) by (intro Cons.IH [OF d(2)]) auto
qed simp

section \<open>Properties\<close>

text \<open>
  C2: each motor button refines the abstract mode change: after the handler the flags encode the
  mode the command leads to (forward only when the measurement the handler makes finds no
  obstacle, otherwise stopped), the motors drive exactly as that mode says, the LED shows its
  colour and, but for the stop button, the buzzer is silent.
\<close>

theorem command_refines_mode:
  assumes "cgi_led_handler B iIndex [(''motor'', Some (command_value cmd))] c = Some (page, c')"
  shows "page = ''/index.shtml'' \<and> mode_of c' = mode_after cmd (blocked B (hw c))
    \<and> drive_of (hw c') = drive_for (mode_of c') \<and> led_color (hw c') = color_for (mode_of c')
    \<and> (cmd \<noteq> Cmd_stop \<longrightarrow> pwm_gpio_level (hw c') GPIO_PIN_BUZZER = 0)"
proof -
  have m: "page = ''/index.shtml''" "cgi_motor B (command_value cmd) c = Some c'"
    using assms by (auto simp: cgi_led_handler_def cgi_param_def split: option.splits)
  show ?thesis
    using m command_mode [OF m(2)] command_drive [OF m(2)] command_color [OF m(2)]
      command_silent [OF m(2)] by blast
qed

theorem command_refines_mode_witness:
  "\<exists>c'. cgi_led_handler ref_board 0 [(''motor'', Some ''left'')] reset_car = Some (''/index.shtml'', c')
     \<and> mode_of c' = Going_left \<and> drive_agrees c'"
proof -
  obtain c' where c': "cgi_led_handler ref_board 0 [(''motor'', Some (command_value Cmd_left))] reset_car
      = Some (''/index.shtml'', c')"
    by (simp add: cgi_led_handler_def cgi_param_def motor_left)
  with command_refines_mode [OF c'] show ?thesis by (simp add: drive_agrees_def)
qed



text \<open>
  A request whose first parameter has no value (a NULL pointer where the handler compares
  strings) has undefined behaviour, for each of the four parameters the handler knows; an
  unknown parameter is skipped, with or without a value.
\<close>

theorem null_value_undefined:
  "cgi_led_handler B iIndex ((p, None) # ps) c =
     (if p \<in> {''led'', ''motor'', ''buzzer'', ''rgbled''} then None else cgi_led_handler B iIndex ps c)"
  by (simp add: cgi_led_handler_def cgi_param_def)

text \<open>
  No request, whatever its parameters and values, makes the flags contradict each other:
  never left and right at once, and no turn flag together with backward.
\<close>

theorem handler_keeps_flags:
  assumes "cgi_led_handler B iIndex params c = Some (page, c')" and "flags_ok c"
  shows "flags_ok c'"
proof -
  have "cgi_params B params c = Some c'" using assms(1) by (auto simp: cgi_led_handler_def)
  then show ?thesis using assms(2) by (rule cgi_params_invariant) (rule cgi_param_flags)
qed

theorem handler_keeps_flags_witness:
  "\<exists>c'. cgi_led_handler ref_board 0 [(''motor'', Some ''spin'')] reset_car = Some (''/index.shtml'', c')
     \<and> flags_ok c'"
proof -
  obtain c' where c': "cgi_led_handler ref_board 0 [(''motor'', Some ''spin'')] reset_car
      = Some (''/index.shtml'', c')"
    by (simp add: cgi_led_handler_def cgi_param_def motor_other)
  with handler_keeps_flags [OF c'] show ?thesis by (auto simp: flags_ok_def reset_car_def)
qed

text \<open>
  As long as the motor values of requests are those of the buttons, the motors always do
  what the flags say: whatever else a request contains, it keeps the agreement.
\<close>

theorem handler_keeps_agreement:
  assumes "cgi_led_handler B iIndex params c = Some (page, c')"
    and "\<forall>v. (''motor'', Some v) \<in> set params \<longrightarrow> (\<exists>cmd. v = command_value cmd)"
    and "drive_agrees c"
  shows "drive_agrees c'"
proof -
  have "cgi_params B params c = Some c'" using assms(1) by (auto simp: cgi_led_handler_def)
  then show ?thesis using assms(3)
  proof (rule cgi_params_invariant)
    fix p c c'
    assume p: "p \<in> set params" and step: "cgi_param B p c = Some c'" and agrees: "drive_agrees c"
    show "drive_agrees c'"
    proof (cases "fst p = ''motor''")
      case True
      with step obtain v where v: "p = (''motor'', Some v)" "cgi_motor B v c = Some c'"
        by (cases p) (auto simp: cgi_param_def bind_eq_Some_conv)
      with p assms(2) obtain cmd where "v = command_value cmd" by blast
      with v(2) have "cgi_motor B (command_value cmd) c = Some c'" by simp
      from command_drive [OF this] show ?thesis by (simp add: drive_agrees_def)
    next
      case False
      with step other_params_frame [of B "fst p" "snd p" c c'] agrees show ?thesis
        by (simp add: drive_agrees_def)
    qed
  qed
qed

theorem handler_keeps_agreement_witness:
  "\<exists>c'. cgi_led_handler ref_board 0 [(''rgbled'', Some ''red''), (''motor'', Some ''stop'')]
      (on_hw stop_car reset_car) = Some (''/index.shtml'', c') \<and> drive_agrees c'"
proof -
  obtain c' where c': "cgi_led_handler ref_board 0 [(''rgbled'', Some ''red''), (''motor'', Some ''stop'')]
      (on_hw stop_car reset_car) = Some (''/index.shtml'', c')"
    by (simp add: cgi_led_handler_def cgi_param_def motor_stop)
  have "\<exists>cmd. ''stop'' = command_value cmd" by (rule exI [of _ Cmd_stop]) simp
  moreover have "drive_agrees (on_hw stop_car reset_car)"
    by (simp add: drive_agrees_def mode_of_simps drive_after) (simp add: mode_of_def reset_car_def)
  ultimately show ?thesis using handler_keeps_agreement [OF c'] c' by auto
qed

end
