(* ===== verification/Adc.thy ===== *)
theory Adc
  imports Sdk_Docs C_Float
begin

text \<open>
  The analogue-digital converter, the inline operations of hardware/adc.h. A conversion waits
  for the converter's ready bit, which is an input of the board; \<open>None\<close> is a converter that
  never becomes ready.
\<close>

section \<open>Fields of the control registers (regs/adc.h)\<close>

definition ADC_CS_RROBIN_BITS :: u32 where "ADC_CS_RROBIN_BITS = 0x001f0000"
definition ADC_CS_RROBIN_LSB :: nat where "ADC_CS_RROBIN_LSB = 16"
definition ADC_CS_AINSEL_BITS :: u32 where "ADC_CS_AINSEL_BITS = 0x00007000"
definition ADC_CS_AINSEL_LSB :: nat where "ADC_CS_AINSEL_LSB = 12"
definition ADC_CS_START_MANY_BITS :: u32 where "ADC_CS_START_MANY_BITS = 0x00000008"
definition ADC_CS_START_ONCE_BITS :: u32 where "ADC_CS_START_ONCE_BITS = 0x00000004"
definition ADC_CS_TS_EN_BITS :: u32 where "ADC_CS_TS_EN_BITS = 0x00000002"
definition ADC_CS_EN_BITS :: u32 where "ADC_CS_EN_BITS = 0x00000001"
definition ADC_FCS_THRESH_BITS :: u32 where "ADC_FCS_THRESH_BITS = 0x0f000000"
definition ADC_FCS_LEVEL_BITS :: u32 where "ADC_FCS_LEVEL_BITS = 0x000f0000"
definition ADC_FCS_EMPTY_BITS :: u32 where "ADC_FCS_EMPTY_BITS = 0x00000100"
definition ADC_FCS_DREQ_EN_BITS :: u32 where "ADC_FCS_DREQ_EN_BITS = 0x00000008"
definition ADC_FCS_ERR_BITS :: u32 where "ADC_FCS_ERR_BITS = 0x00000004"
definition ADC_FCS_SHIFT_BITS :: u32 where "ADC_FCS_SHIFT_BITS = 0x00000002"
definition ADC_FCS_EN_BITS :: u32 where "ADC_FCS_EN_BITS = 0x00000001"

lemmas adc_fields = ADC_CS_RROBIN_BITS_def ADC_CS_RROBIN_LSB_def ADC_CS_AINSEL_BITS_def
  ADC_CS_AINSEL_LSB_def ADC_CS_START_MANY_BITS_def ADC_CS_START_ONCE_BITS_def
  ADC_CS_TS_EN_BITS_def ADC_CS_EN_BITS_def

section \<open>Operations\<close>

definition adc_gpio_init :: "board \<Rightarrow> u32 \<Rightarrow> mcu \<Rightarrow> mcu" where
  "adc_gpio_init B gpio s =
     (let s = gpio_set_function B gpio GPIO_FUNC_NULL s;
          s = gpio_disable_pulls B gpio s
      in gpio_set_input_enabled B gpio False s)"

definition adc_select_input :: "u32 \<Rightarrow> mcu \<Rightarrow> mcu" where
  "adc_select_input input s =
     s\<lparr>adc_cs := hw_write_masked (adc_cs s) (push_bit ADC_CS_AINSEL_LSB input) ADC_CS_AINSEL_BITS\<rparr>"

definition adc_get_selected_input :: "mcu \<Rightarrow> u32" where
  "adc_get_selected_input s = drop_bit ADC_CS_AINSEL_LSB (adc_cs s AND ADC_CS_AINSEL_BITS)"

definition adc_set_round_robin :: "u32 \<Rightarrow> mcu \<Rightarrow> mcu" where
  "adc_set_round_robin input_mask s =
     s\<lparr>adc_cs := hw_write_masked (adc_cs s) (push_bit ADC_CS_RROBIN_LSB input_mask) ADC_CS_RROBIN_BITS\<rparr>"

definition adc_set_temp_sensor_enabled :: "bool \<Rightarrow> mcu \<Rightarrow> mcu" where
  "adc_set_temp_sensor_enabled enable s =
     (if enable then s\<lparr>adc_cs := hw_set_bits (adc_cs s) ADC_CS_TS_EN_BITS\<rparr>
      else s\<lparr>adc_cs := hw_clear_bits (adc_cs s) ADC_CS_TS_EN_BITS\<rparr>)"

text \<open>
  The start bit clears itself when the conversion is done (its access is "SC"). The result is
  the sample of the input selected at the time.
\<close>

definition adc_read :: "board \<Rightarrow> mcu \<Rightarrow> (u16 \<times> mcu) option" where
  "adc_read B s =
     (let s = s\<lparr>adc_cs := hw_set_bits (adc_cs s) ADC_CS_START_ONCE_BITS\<rparr>
      in case poll_until (adc_ready_at B) s of
           None \<Rightarrow> None
         | Some s \<Rightarrow>
             (let s = s\<lparr>adc_cs := hw_clear_bits (adc_cs s) ADC_CS_START_ONCE_BITS\<rparr>
              in Some (adc_result_at B (reads s) (adc_get_selected_input s), tick s)))"

definition adc_run :: "bool \<Rightarrow> mcu \<Rightarrow> mcu" where
  "adc_run run s =
     (if run then s\<lparr>adc_cs := hw_set_bits (adc_cs s) ADC_CS_START_MANY_BITS\<rparr>
      else s\<lparr>adc_cs := hw_clear_bits (adc_cs s) ADC_CS_START_MANY_BITS\<rparr>)"

text \<open>The divider is a binary32 value; the conversion to \<open>uint32_t\<close> truncates.\<close>

definition adc_set_clkdiv :: "rat \<Rightarrow> mcu \<Rightarrow> mcu" where
  "adc_set_clkdiv clkdiv s = s\<lparr>adc_div := word_of_int \<lfloor>f_mul clkdiv 256\<rfloor>\<rparr>"

definition adc_fifo_setup :: "bool \<Rightarrow> bool \<Rightarrow> u16 \<Rightarrow> bool \<Rightarrow> bool \<Rightarrow> mcu \<Rightarrow> mcu" where
  "adc_fifo_setup en dreq_en dreq_thresh err_in_fifo byte_shift s =
     s\<lparr>adc_fcs := hw_write_masked (adc_fcs s)
        (push_bit 0 (bool_to_bit en) OR push_bit 3 (bool_to_bit dreq_en) OR
         push_bit 24 (ucast dreq_thresh) OR push_bit 2 (bool_to_bit err_in_fifo) OR
         push_bit 1 (bool_to_bit byte_shift))
        (ADC_FCS_EN_BITS OR ADC_FCS_DREQ_EN_BITS OR ADC_FCS_THRESH_BITS OR ADC_FCS_ERR_BITS OR
         ADC_FCS_SHIFT_BITS)\<rparr>"

definition adc_irq_set_enabled :: "bool \<Rightarrow> mcu \<Rightarrow> mcu" where
  "adc_irq_set_enabled enabled s = s\<lparr>adc_inte := of_bool enabled\<rparr>"

section \<open>The input multiplexer\<close>

lemma bit_AINSEL: "bit ADC_CS_AINSEL_BITS k \<longleftrightarrow> 12 \<le> k \<and> k < 15"
proof -
  have eq: "ADC_CS_AINSEL_BITS = push_bit 12 (mask 3)"
    by (simp add: ADC_CS_AINSEL_BITS_def mask_eq_exp_minus_1 push_bit_eq_mult)
  show ?thesis by (auto simp: eq bit_push_bit_iff bit_mask_iff)
qed

lemma bit_flags:
  "bit ADC_CS_TS_EN_BITS k \<longleftrightarrow> k = 1" "bit ADC_CS_START_ONCE_BITS k \<longleftrightarrow> k = 2"
  "bit ADC_CS_START_MANY_BITS k \<longleftrightarrow> k = 3"
  using bit_exp_iff [of 1 k, where 'a = "32 word"] bit_exp_iff [of 2 k, where 'a = "32 word"]
    bit_exp_iff [of 3 k, where 'a = "32 word"]
  by (auto simp: adc_fields)

lemma bit_selected: "bit (adc_get_selected_input s) k \<longleftrightarrow> k < 3 \<and> bit (adc_cs s) (k + 12)"
  by (auto simp: adc_get_selected_input_def ADC_CS_AINSEL_LSB_def bit_drop_bit_eq bit_and_iff
      bit_AINSEL ac_simps)

lemma selected_cong:
  assumes "\<And>k. 12 \<le> k \<Longrightarrow> k < 15 \<Longrightarrow> bit (adc_cs s) k = bit (adc_cs t) k"
  shows "adc_get_selected_input s = adc_get_selected_input t"
  by (rule word_bits_eqI) (auto simp: bit_selected assms)

lemma adc_select_selected:
  assumes "input < 8"
  shows "adc_get_selected_input (adc_select_input input s) = input"
proof (rule word_bits_eqI)
  fix k assume "k < LENGTH(32)"
  have "take_bit 3 input = input" using assms
    by (simp add: word_less_nat_alt word_unat_eq_iff unsigned_take_bit_eq take_bit_nat_eq_self)
  then have "bit input k \<longleftrightarrow> k < 3 \<and> bit input k" by (metis bit_take_bit_iff)
  then show "bit (adc_get_selected_input (adc_select_input input s)) k = bit input k"
    by (auto simp: bit_selected adc_select_input_def bit_hw_write_masked bit_AINSEL
        bit_push_bit_iff ADC_CS_AINSEL_LSB_def)
qed

lemma adc_select_frame [obs_simps]:
  "adc_get_selected_input (adc_set_temp_sensor_enabled e s) = adc_get_selected_input s"
  "adc_get_selected_input (adc_run e s) = adc_get_selected_input s"
  "adc_get_selected_input (tick s) = adc_get_selected_input s"
  "adc_get_selected_input (emit c s) = adc_get_selected_input s"
  "adc_get_selected_input (s\<lparr>reads := n\<rparr>) = adc_get_selected_input s"
  by (rule selected_cong; auto simp: adc_set_temp_sensor_enabled_def adc_run_def bit_hw_set_bits
      bit_hw_clear_bits bit_flags tick_def emit_def)+

text \<open>
  A conversion returns as soon as the converter is ready, with a sample of the selected input,
  and restores the start bit.
\<close>

lemma adc_read_first:
  assumes "first_ready (adc_ready_at B) (reads s) n"
  shows "adc_read B s = Some (adc_result_at B (Suc n) (adc_get_selected_input s),
    s\<lparr>adc_cs := hw_clear_bits (adc_cs s) ADC_CS_START_ONCE_BITS, reads := Suc (Suc n)\<rparr>)"
proof -
  let ?s = "s\<lparr>adc_cs := hw_set_bits (adc_cs s) ADC_CS_START_ONCE_BITS\<rparr>"
  have "poll_until (adc_ready_at B) ?s = Some (?s\<lparr>reads := Suc n\<rparr>)"
    using assms by (intro poll_until_first) simp
  moreover have "hw_clear_bits (hw_set_bits (adc_cs s) ADC_CS_START_ONCE_BITS) ADC_CS_START_ONCE_BITS
      = hw_clear_bits (adc_cs s) ADC_CS_START_ONCE_BITS"
    by (rule word_bits_eqI) (auto simp: bit_hw_clear_bits bit_hw_set_bits)
  moreover have "adc_get_selected_input
      (s\<lparr>reads := i, adc_cs := hw_clear_bits (adc_cs s) ADC_CS_START_ONCE_BITS\<rparr>)
      = adc_get_selected_input s" for i
    by (rule selected_cong) (auto simp: bit_hw_clear_bits bit_flags)
  ultimately show ?thesis by (simp add: adc_read_def tick_def)
qed

end
