(* ===== verification/C_String.thy ===== *)
theory C_String
  imports C_Float "HOL-Library.Sublist"
begin

text \<open>
  The C library functions on strings that the firmware calls: decimal and hexadecimal
  conversions of \<open>printf\<close>, \<open>snprintf\<close> into a buffer of limited size, \<open>strcmp\<close> and \<open>strstr\<close>. A
  string is the list of its characters before the terminating NUL.
\<close>

section \<open>Numbers\<close>

definition digit :: "nat \<Rightarrow> char" where
  "digit d = ''0123456789'' ! d"

fun decimal :: "nat \<Rightarrow> string" where
  "decimal n = (if n < 10 then [digit n] else decimal (n div 10) @ [digit (n mod 10)])"

declare decimal.simps [simp del]

text \<open>\<open>%d\<close>.\<close>

definition fmt_d :: "int \<Rightarrow> string" where
  "fmt_d i = (if i < 0 then ''-'' else []) @ decimal (nat \<bar>i\<bar>)"

text \<open>Exactly \<open>k\<close> digits, with leading zeros.\<close>

fun padded :: "nat \<Rightarrow> nat \<Rightarrow> string" where
  "padded 0 n = []"
| "padded (Suc k) n = padded k (n div 10) @ [digit (n mod 10)]"

text \<open>\<open>%f\<close>: the exact value, rounded to six places.\<close>

definition fmt_f :: "rat \<Rightarrow> string" where
  "fmt_f r =
     (let n = nat (round_even (\<bar>r\<bar> * 1000000))
      in (if r < 0 then ''-'' else []) @ decimal (n div 1000000) @ ''.'' @ padded 6 (n mod 1000000))"

lemma length_padded [simp]: "length (padded k n) = k"
  by (induction k arbitrary: n) simp_all

lemma length_decimal_le: "n < 10 ^ k \<Longrightarrow> 0 < k \<Longrightarrow> length (decimal n) \<le> k"
proof (induction k arbitrary: n)
  case (Suc k)
  show ?case
  proof (cases "n < 10")
    case False
    then have "k \<noteq> 0" using Suc.prems(1) by (cases k) auto
    moreover have "n div 10 < 10 ^ k" using Suc.prems(1) by (simp add: div_less_iff_less_mult mult.commute)
    ultimately have "length (decimal (n div 10)) \<le> k" using Suc.IH by simp
    with False show ?thesis by (subst decimal.simps) simp
  qed (simp add: decimal.simps)
qed simp

section \<open>Reading a number back\<close>

definition digit_value :: "char \<Rightarrow> nat" where
  "digit_value c = of_char c - 48"

definition read_decimal :: "string \<Rightarrow> nat" where
  "read_decimal cs = foldl (\<lambda>n c. 10 * n + digit_value c) 0 cs"

lemma digit_value_digit [simp]: "d < 10 \<Longrightarrow> digit_value (digit d) = d"
proof -
  have "\<forall>d \<in> set [0..<10]. digit_value (digit d) = d"
    by (simp add: upt_rec digit_def digit_value_def)
  then show "d < 10 \<Longrightarrow> digit_value (digit d) = d" by simp
qed

text \<open>The two conversions lose nothing.\<close>

lemma read_decimal_decimal: "read_decimal (decimal n) = n"
proof (induction n rule: decimal.induct)
  case (1 n)
  then show ?case
    by (subst decimal.simps) (simp add: read_decimal_def)
qed

lemma read_decimal_padded: "n < 10 ^ k \<Longrightarrow> read_decimal (padded k n) = n"
proof (induction k arbitrary: n)
  case (Suc k)
  then have "n div 10 < 10 ^ k" by (simp add: div_less_iff_less_mult mult.commute)
  with Suc.IH show ?case by (simp add: read_decimal_def)
qed (simp add: read_decimal_def)

section \<open>Buffers\<close>

text \<open>
  \<open>snprintf\<close> stores what fits before a terminating NUL and returns the length of the whole text;
  with size zero it stores nothing.
\<close>

definition snprintf_text :: "string \<Rightarrow> nat \<Rightarrow> string \<Rightarrow> string" where
  "snprintf_text old cap txt = (if cap = 0 then old else take (cap - 1) txt)"

lemma snprintf_fits: "length txt < cap \<Longrightarrow> snprintf_text old cap txt = txt"
  by (simp add: snprintf_text_def)

lemma snprintf_bounded: "0 < cap \<Longrightarrow> length (snprintf_text old cap txt) < cap"
  by (simp add: snprintf_text_def)

text \<open>The C string held by a buffer ends at its first NUL.\<close>

definition NUL :: char where "NUL = CHR 0x00"

definition c_str :: "string \<Rightarrow> string" where
  "c_str buf = takeWhile (\<lambda>c. c \<noteq> NUL) buf"

lemma c_str_id: "NUL \<notin> set buf \<Longrightarrow> c_str buf = buf"
  by (auto simp: c_str_def intro: takeWhile_eq_all_conv [THEN iffD2])

text \<open>\<open>strstr(haystack, needle) != NULL\<close>.\<close>

definition strstr_found :: "string \<Rightarrow> string \<Rightarrow> bool" where
  "strstr_found haystack needle \<longleftrightarrow> (\<exists>i \<le> length haystack. take (length needle) (drop i haystack) = needle)"

lemma strstr_found_sublist: "strstr_found haystack needle \<longleftrightarrow> sublist needle haystack"
proof
  assume "strstr_found haystack needle"
  then obtain i where "take (length needle) (drop i haystack) = needle"
    by (auto simp: strstr_found_def)
  then have "haystack = take i haystack @ needle @ drop (length needle) (drop i haystack)"
    by (metis append_take_drop_id)
  then show "sublist needle haystack" unfolding sublist_def by blast
next
  assume "sublist needle haystack"
  then obtain ps ss where "haystack = ps @ needle @ ss" by (auto simp: sublist_def)
  then show "strstr_found haystack needle"
    unfolding strstr_found_def by (intro exI [of _ "length ps"]) simp
qed

end
