(* ===== verification/Ssi.thy ===== *)
theory Ssi
  imports Adc C_String
begin

text \<open>
  The server-side includes, ssi.h: the tags of the page and the handler that replaces one tag
  by text. The handler's result is the length it returns, the text in the insert buffer and the
  machine state; \<open>None\<close> is a conversion that never ends.
\<close>

section \<open>Operations\<close>

definition ssi_tags :: "string list" where
  "ssi_tags = [''volt'', ''temp'', ''led'']"

text \<open>\<open>adc_read() * 3.3f / (1 << 12)\<close> and \<open>27.0f - (voltage - 0.706f) / 0.001721f\<close>.\<close>

definition voltage_of :: "u16 \<Rightarrow> rat" where
  "voltage_of sample = f_div (f_mul (fl32 (of_nat (unat sample))) (fl32 (33 / 10))) 4096"

definition temp_of :: "rat \<Rightarrow> rat" where
  "temp_of voltage = f_sub 27 (f_div (f_sub voltage (fl32 (706 / 1000))) (fl32 (1721 / 1000000)))"

definition cyw43_arch_gpio_get :: "board \<Rightarrow> u32 \<Rightarrow> mcu \<Rightarrow> bool \<times> mcu" where
  "cyw43_arch_gpio_get B wl_gpio s = (wl_gpio_at B (reads s) wl_gpio, tick s)"

definition ssi_handler :: "board \<Rightarrow> int \<Rightarrow> string \<Rightarrow> nat \<Rightarrow> mcu \<Rightarrow> (u16 \<times> string \<times> mcu) option" where
  "ssi_handler B iIndex pcInsert iInsertLen s =
     (let insert_text = (\<lambda>txt s. Some (of_nat (length txt), snprintf_text pcInsert iInsertLen txt, s))
      in if iIndex = 0 then
           (case adc_read B s of None \<Rightarrow> None
            | Some (sample, s) \<Rightarrow>
                (let voltage = voltage_of sample in insert_text (fmt_f voltage) s))
         else if iIndex = 1 then
           (case adc_read B s of None \<Rightarrow> None
            | Some (sample, s) \<Rightarrow>
                (let voltage = voltage_of sample; tempC = temp_of voltage
                 in insert_text (fmt_f tempC) s))
         else if iIndex = 2 then
           (let (led_status, s) = cyw43_arch_gpio_get B CYW43_WL_GPIO_LED_PIN s
            in if led_status = True then insert_text ''ON'' s else insert_text ''OFF'' s)
         else Some (0, pcInsert, s))"

definition ssi_init :: "board \<Rightarrow> mcu \<Rightarrow> mcu" where
  "ssi_init B s =
     (let s = adc_init B s;
          s = adc_set_temp_sensor_enabled True s;
          s = adc_select_input 4 s
      in emit (Http_set_ssi_handler ssi_tags) s)"

section \<open>The voltage and the temperature\<close>

lemma fl32_3_3: "fl32 (33 / 10) = 13841203 / 2 ^ 22"
  by (subst fl32_eqI [of 22 _ 13841203]) simp_all

lemma fl32_0_706: "fl32 (706 / 1000) = 11844714 / 2 ^ 24"
  by (subst fl32_eqI [of 24 _ 11844714]) simp_all

lemma fl32_0_001721: "fl32 (1721 / 1000000) = 14783277 / 2 ^ 33"
  by (subst fl32_eqI [of 33 _ 14783277]) simp_all

lemma fl32_nonneg: "0 \<le> x \<Longrightarrow> 0 \<le> fl32 x"
  using fl32_mono [of 0 x] by (simp add: fl32_def)

text \<open>Rounding keeps a value between two integers that binary32 represents.\<close>

lemma fl32_between:
  assumes "of_int a \<le> x" and "x \<le> of_int b" and "\<bar>a\<bar> < 16777216" and "\<bar>b\<bar> < 16777216"
  shows "of_int a \<le> fl32 x" and "fl32 x \<le> of_int b"
  using fl32_mono [OF assms(1)] fl32_mono [OF assms(2)] fl32_int [OF assms(3)] fl32_int [OF assms(4)]
  by simp_all

lemma voltage_mono: "unat a \<le> unat b \<Longrightarrow> voltage_of a \<le> voltage_of b"
  unfolding voltage_of_def f_div_def f_mul_def fl32_3_3
  by (intro fl32_mono divide_right_mono mult_right_mono of_nat_mono) simp_all

lemma voltage_range:
  assumes "unat sample < 4096"
  shows "0 \<le> voltage_of sample" and "voltage_of sample \<le> 13841203 / 2 ^ 22"
proof -
  show "0 \<le> voltage_of sample"
    unfolding voltage_of_def f_div_def f_mul_def fl32_3_3
    by (intro fl32_nonneg divide_nonneg_nonneg mult_nonneg_nonneg of_nat_0_le_iff) simp_all
  let ?x = "fl32 (of_nat (unat sample))"
  have c: "fl32 (13841203 / 2 ^ 22) = 13841203 / 2 ^ 22" "fl32 (13841203 / 1024) = 13841203 / 1024"
    using fl_exact [of 24 22 149 13841203] fl_exact [of 24 10 149 13841203]
    by (simp_all add: fl32_def)
  have "of_int 0 \<le> (of_nat (unat sample) :: rat)" by (simp only: of_int_0 of_nat_0_le_iff)
  moreover have "(of_nat (unat sample) :: rat) \<le> of_int 4096"
  proof -
    have "of_nat (unat sample) \<le> (of_nat 4096 :: rat)" using assms by (simp only: of_nat_le_iff)
    then show ?thesis by simp
  qed
  ultimately have "?x \<le> of_int 4096" by (rule fl32_between) simp_all
  then have "?x * (13841203 / 2 ^ 22) \<le> 4096 * (13841203 / 2 ^ 22)"
    by (intro mult_right_mono) simp_all
  also have "\<dots> = 13841203 / 1024" by simp
  finally have "f_mul ?x (13841203 / 2 ^ 22) \<le> 13841203 / 1024"
    unfolding f_mul_def by (subst c(2) [symmetric]) (rule fl32_mono)
  then have "f_mul ?x (13841203 / 2 ^ 22) / 4096 \<le> 13841203 / 2 ^ 22"
    by (simp add: pos_divide_le_eq)
  then show "voltage_of sample \<le> 13841203 / 2 ^ 22"
    unfolding voltage_of_def f_div_def fl32_3_3 by (subst c(1) [symmetric]) (rule fl32_mono)
qed

lemma temp_antimono: "v \<le> w \<Longrightarrow> temp_of w \<le> temp_of v"
  unfolding temp_of_def f_div_def f_sub_def fl32_0_706 fl32_0_001721
  by (intro fl32_mono diff_left_mono divide_right_mono diff_right_mono) simp_all

lemma temp_range:
  assumes "0 \<le> v" and "v \<le> 33 / 10"
  shows "- 1800 \<le> temp_of v" and "temp_of v \<le> 700"
proof -
  let ?d = "f_sub v (fl32 (706 / 1000))"
  have d: "of_int (- 1) \<le> ?d" "?d \<le> of_int 3"
    unfolding f_sub_def fl32_0_706
    by (rule fl32_between [where a = "- 1" and b = 3]; use assms in simp)+
  have "of_int (- 600) \<le> ?d / fl32 (1721 / 1000000)" "?d / fl32 (1721 / 1000000) \<le> of_int 1800"
    using d unfolding fl32_0_001721 by (simp_all add: pos_le_divide_eq pos_divide_le_eq)
  then have q: "of_int (- 600) \<le> f_div ?d (fl32 (1721 / 1000000))"
    "f_div ?d (fl32 (1721 / 1000000)) \<le> of_int 1800"
    unfolding f_div_def by (rule fl32_between [where a = "- 600" and b = 1800]; simp)+
  have "of_int (- 1800) \<le> temp_of v" "temp_of v \<le> of_int 700"
    unfolding temp_of_def f_sub_def [of 27]
    by (rule fl32_between [where a = "- 1800" and b = 700]; use q in simp)+
  then show "- 1800 \<le> temp_of v" and "temp_of v \<le> 700" by simp_all
qed

text \<open>The text of a value below 2000 in size has at most twelve characters.\<close>

lemma length_fmt_f:
  assumes "\<bar>r\<bar> \<le> 1800"
  shows "length (fmt_f r) \<le> 12" and "0 \<le> r \<Longrightarrow> r < 9 \<Longrightarrow> length (fmt_f r) = 8"
proof -
  define n where "n = nat (round_even (\<bar>r\<bar> * 1000000))"
  have "\<bar>r\<bar> * 1000000 \<le> of_int 1800000000" using assms by simp
  then have "round_even (\<bar>r\<bar> * 1000000) \<le> 1800000000" by (rule round_even_le)
  then have "n \<le> 1800000000" unfolding n_def by simp
  then have "n div 1000000 \<le> 1800000000 div 1000000" by (rule div_le_mono)
  then have "n div 1000000 < 10 ^ 4" by simp
  then have "length (decimal (n div 1000000)) \<le> 4" by (rule length_decimal_le) simp
  then show "length (fmt_f r) \<le> 12" by (simp add: fmt_f_def Let_def flip: n_def)
  show "length (fmt_f r) = 8" if "0 \<le> r" and "r < 9"
  proof -
    have "\<bar>r\<bar> * 1000000 \<le> of_int 9000000" using that by simp
    then have "round_even (\<bar>r\<bar> * 1000000) \<le> 9000000" by (rule round_even_le)
    then have "n \<le> 9000000" unfolding n_def by simp
    then have "n div 1000000 \<le> 9000000 div 1000000" by (rule div_le_mono)
    then have "n div 1000000 < 10" by simp
    moreover have "fmt_f r = decimal (n div 1000000) @ ''.'' @ padded 6 (n mod 1000000)"
      using that(1) by (simp only: fmt_f_def Let_def n_def) simp
    ultimately show ?thesis by (simp add: decimal.simps [of "n div 1000000"])
  qed
qed

text \<open>What the first two tags insert for a 12-bit sample.\<close>

lemma sensor_text_lengths:
  assumes "unat sample < 4096"
  shows "length (fmt_f (voltage_of sample)) = 8" and "length (fmt_f (temp_of (voltage_of sample))) \<le> 12"
proof -
  note v = voltage_range [OF assms]
  show "length (fmt_f (voltage_of sample)) = 8" using v by (intro length_fmt_f) simp_all
  have "- 1800 \<le> temp_of (voltage_of sample)" "temp_of (voltage_of sample) \<le> 700"
    using v by (intro temp_range; simp)+
  then show "length (fmt_f (temp_of (voltage_of sample))) \<le> 12" by (intro length_fmt_f) simp
qed

section \<open>Properties\<close>

text \<open>
  C26: the text a tag is replaced by. With a converter that becomes ready and delivers 12-bit
  samples, tag 0 is the voltage and tag 1 the temperature computed from one fresh sample of the
  selected input, tag 2 the state of the LED; a buffer of 13 bytes is enough for each of them, so
  nothing is cut off and the returned length is that of the stored text; any other index inserts
  nothing.
\<close>

theorem ssi_handler_inserts:
  assumes "first_ready (adc_ready_at B) (reads s) n"
    and "sample = adc_result_at B (Suc n) (adc_get_selected_input s)" and "unat sample < 4096"
    and "13 \<le> iInsertLen"
  shows "(\<exists>s'. ssi_handler B 0 pcInsert iInsertLen s = Some (8, fmt_f (voltage_of sample), s'))
    \<and> (\<exists>s' len. ssi_handler B 1 pcInsert iInsertLen s
          = Some (len, fmt_f (temp_of (voltage_of sample)), s')
        \<and> unat len = length (fmt_f (temp_of (voltage_of sample))) \<and> unat len \<le> 12)
    \<and> ssi_handler B 2 pcInsert iInsertLen s =
        (if wl_gpio_at B (reads s) CYW43_WL_GPIO_LED_PIN then Some (2, ''ON'', tick s)
         else Some (3, ''OFF'', tick s))
    \<and> (iIndex \<notin> {0, 1, 2} \<longrightarrow> ssi_handler B iIndex pcInsert iInsertLen s = Some (0, pcInsert, s))"
proof -
  note lv = sensor_text_lengths(1) [OF assms(3)] and lt = sensor_text_lengths(2) [OF assms(3)]
  obtain t where read: "adc_read B s = Some (sample, t)"
    using adc_read_first [OF assms(1)] assms(2) by blast
  have "\<exists>s'. ssi_handler B 0 pcInsert iInsertLen s = Some (8, fmt_f (voltage_of sample), s')"
    using lv assms(4) by (simp add: ssi_handler_def read snprintf_fits)
  moreover
  have "unat (of_nat (length (fmt_f (temp_of (voltage_of sample)))) :: u16)
      = length (fmt_f (temp_of (voltage_of sample)))"
    using lt by (simp add: unat_of_nat take_bit_nat_eq_self)
  then have "\<exists>s' len. ssi_handler B 1 pcInsert iInsertLen s
        = Some (len, fmt_f (temp_of (voltage_of sample)), s')
      \<and> unat len = length (fmt_f (temp_of (voltage_of sample))) \<and> unat len \<le> 12"
    using lt assms(4) by (auto simp: ssi_handler_def read snprintf_fits Let_def)
  ultimately show ?thesis
    using assms(4) by (simp add: ssi_handler_def cyw43_arch_gpio_get_def snprintf_fits)
qed

theorem ssi_handler_inserts_witness:
  "\<exists>s'. ssi_handler ref_board 0 [] 192 reset_mcu = Some (8, fmt_f (voltage_of 0), s')"
  using ssi_handler_inserts [of ref_board reset_mcu 0 0 192 "[]" 3]
  by (simp add: first_ready_def ref_board_def reset_mcu_def)

text \<open>
  For 12-bit samples the voltage lies between 0 and 3.3 V and grows with the sample, and the
  temperature falls as the sample grows.
\<close>

theorem sensor_conversion_monotone:
  assumes "unat a \<le> unat b" and "unat b < 4096"
  shows "0 \<le> voltage_of a \<and> voltage_of a \<le> voltage_of b \<and> voltage_of b < 33 / 10
    \<and> temp_of (voltage_of b) \<le> temp_of (voltage_of a)"
  using assms voltage_mono [OF assms(1)] voltage_range(1) [of a] voltage_range(2) [OF assms(2)]
    temp_antimono [of "voltage_of a" "voltage_of b"] by simp

theorem sensor_conversion_monotone_witness:
  "voltage_of 100 \<le> voltage_of 200 \<and> temp_of (voltage_of 200) \<le> temp_of (voltage_of 100)"
  using sensor_conversion_monotone [of 100 200] by simp

text \<open>
  After \<open>ssi_init\<close> the converter samples input 4, the temperature sensor, whatever it was
  set to before, with the sensor powered; so the voltage tag shows the sensor's voltage too. The
  three tags are registered in the order of the handler's cases.
\<close>

theorem ssi_init_selects_sensor:
  "adc_get_selected_input (ssi_init B s) = 4 \<and> bit (adc_cs (ssi_init B s)) 1
   \<and> calls (ssi_init B s) = calls (adc_init B s) @ [Http_set_ssi_handler [''volt'', ''temp'', ''led'']]"
proof -
  have "bit (adc_cs (ssi_init B s)) 1"
    by (simp add: ssi_init_def Let_def emit_def adc_select_input_def bit_hw_write_masked bit_AINSEL
        adc_set_temp_sensor_enabled_def bit_hw_set_bits bit_flags)
  moreover have "calls (ssi_init B s)
      = calls (adc_init B s) @ [Http_set_ssi_handler [''volt'', ''temp'', ''led'']]"
    by (simp add: ssi_init_def Let_def emit_def ssi_tags_def adc_select_input_def
        adc_set_temp_sensor_enabled_def)
  moreover have "adc_get_selected_input (ssi_init B s) = 4"
    by (simp add: ssi_init_def Let_def adc_select_frame adc_select_selected)
  ultimately show ?thesis by blast
qed

end
