(* ===== verification/Car_Main.thy ===== *)
theory Car_Main
  imports Cgi Ssi
begin

text \<open>
  The car's main program, the live \<open>main\<close> of main.c: start-up, the loop that watches for
  obstacles, and the interleaving of the loop with the command handler. The web server runs from
  interrupts (the project links pico\_cyw43\_arch\_lwip\_threadsafe\_background), so a whole
  request is handled between two steps of the loop. The endless loop is given by its body; \<open>None\<close>
  stands for a wait that never ends.
\<close>

section \<open>Start-up\<close>

definition WIFI_SSID :: string where "WIFI_SSID = ''Youssef Home ET''"
definition WIFI_PASSWORD :: string where "WIFI_PASSWORD = ''Qatar2024''"

text \<open>The loop around \<open>cyw43_arch_wifi_connect_timeout_ms\<close>, which returns 0 when connected.\<close>

definition cyw43_arch_wifi_connect_timeout_ms ::
  "board \<Rightarrow> string \<Rightarrow> string \<Rightarrow> u32 \<Rightarrow> mcu \<Rightarrow> int \<times> mcu" where
  "cyw43_arch_wifi_connect_timeout_ms B ssid pw timeout s =
     (wl_connect_at B (reads s), tick (emit (Wl_connect ssid pw timeout) s))"

partial_function (option) connect_loop :: "board \<Rightarrow> mcu \<Rightarrow> mcu option" where
  "connect_loop B s =
     (let (err, s) = cyw43_arch_wifi_connect_timeout_ms B WIFI_SSID WIFI_PASSWORD 10000 s in
      if err \<noteq> 0
      then (let s = printf (''Failed to connect to Wi-Fi. Retrying...'' @ NL) [] s;
                s = sleep_ms 1000 s
            in connect_loop B s)
      else Some s)"

text \<open>\<open>Inl\<close> is the exit code of a failed start, \<open>Inr\<close> the state in which the loop starts.\<close>

definition car_startup :: "board \<Rightarrow> car \<Rightarrow> (int + car) option" where
  "car_startup B c =
     (let c = on_hw (emit Stdio_init_all) c;
          c = on_hw (sleep_ms 10000) c;
          c = on_hw (printf (''Standard I/O initialized.'' @ NL) []) c;
          err = wl_init_at B (reads (hw c));
          c = on_hw (\<lambda>s. tick (emit Wl_arch_init s)) c
      in if err \<noteq> 0 then Some (Inl (-1))
         else
           (let c = on_hw (printf (''Wi-Fi module initialized.'' @ NL) []) c;
                c = on_hw (emit Wl_enable_sta_mode) c;
                c = on_hw (printf (''Wi-Fi station mode enabled.'' @ NL) []) c
            in case connect_loop B (hw c) of
                 None \<Rightarrow> None
               | Some s \<Rightarrow>
                   (let c = c\<lparr>hw := s\<rparr>;
                        c = on_hw (printf (''Connected to Wi-Fi.'' @ NL) []) c;
                        c = on_hw (printf (''IP Address: %s'' @ NL) [Str_arg (wl_ip_text B)]) c;
                        c = on_hw (emit Httpd_init) c;
                        c = on_hw (printf (''Http server initialized'' @ NL) []) c;
                        c = on_hw (ssi_init B) c;
                        c = on_hw (printf (''SSI Handler initialized'' @ NL) []) c;
                        c = cgi_init B c;
                        c = on_hw (printf (''CGI Handler initialized'' @ NL) []) c
                    in Some (Inr c))))"

section \<open>The loop\<close>

definition main_loop_body :: "board \<Rightarrow> car \<Rightarrow> car option" where
  "main_loop_body B c =
     (case ultrasonic_get_distance B (hw c) of
        None \<Rightarrow> None
      | Some (distance, s) \<Rightarrow>
          (let c = c\<lparr>hw := s\<rparr>
           in map_option (on_hw (sleep_ms 100))
             (if is_moving_forward c then
                if obstacle distance then
                  (let c = on_hw stop_car c;
                       c = on_hw (set_rgb_color 0 0 255) c
                   in map_option (\<lambda>c. c\<lparr>is_moving_forward := False\<rparr>) (buzzer_sound 25000 500 c))
                else if is_moving_left c then
                  (let c = on_hw (move_left 250) c in Some (on_hw (set_rgb_color 0 255 0) c))
                else if is_moving_right c then
                  (let c = on_hw (move_right 250) c in Some (on_hw (set_rgb_color 0 255 0) c))
                else
                  (let c = on_hw (move_forward 250) c in Some (on_hw (set_rgb_color 0 255 0) c))
              else Some c)))"

section \<open>The loop in steps\<close>

text \<open>
  Where an interrupt can come between: after the measurement, after each test of a flag, and
  between any two calls of a branch. The calls of a movement are the six writes of its list.
\<close>

datatype action = Run motor_call | Rgb u8 u8 u8 | Sound u32 u32 | Clear_forward | Pause u32

fun run_action :: "action \<Rightarrow> car \<Rightarrow> car option" where
  "run_action (Run m) c = Some (on_hw (run_call m) c)"
| "run_action (Rgb r g b) c = Some (on_hw (set_rgb_color r g b) c)"
| "run_action (Sound f d) c = buzzer_sound f d c"
| "run_action Clear_forward c = Some (c\<lparr>is_moving_forward := False\<rparr>)"
| "run_action (Pause ms) c = Some (on_hw (sleep_ms ms) c)"

datatype main_pc =
    Measure | Test_forward rat | Test_distance rat | Test_left | Test_right | Doing "action list"

definition stop_actions :: "action list" where
  "stop_actions = map Run (drive_calls False False False False 0 0)
     @ [Rgb 0 0 255, Sound 25000 500, Clear_forward, Pause 100]"

definition left_actions :: "action list" where
  "left_actions = map Run (drive_calls False True True False (250 div 2 + 24) (250 div 2))
     @ [Rgb 0 255 0, Pause 100]"

definition right_actions :: "action list" where
  "right_actions = map Run (drive_calls False True True False (250 div 2 + 18) (250 div 2 + 6))
     @ [Rgb 0 255 0, Pause 100]"

definition forward_actions :: "action list" where
  "forward_actions = map Run (drive_calls False True True False (250 div 2 + 18) (250 div 2))
     @ [Rgb 0 255 0, Pause 100]"

fun main_step :: "board \<Rightarrow> main_pc \<times> car \<Rightarrow> (main_pc \<times> car) option" where
  "main_step B (Measure, c) = map_option (\<lambda>(d, s). (Test_forward d, c\<lparr>hw := s\<rparr>))
     (ultrasonic_get_distance B (hw c))"
| "main_step B (Test_forward d, c) =
     Some (if is_moving_forward c then Test_distance d else Doing [Pause 100], c)"
| "main_step B (Test_distance d, c) = Some (if obstacle d then Doing stop_actions else Test_left, c)"
| "main_step B (Test_left, c) = Some (if is_moving_left c then Doing left_actions else Test_right, c)"
| "main_step B (Test_right, c) =
     Some (if is_moving_right c then Doing right_actions else Doing forward_actions, c)"
| "main_step B (Doing [], c) = Some (Measure, c)"
| "main_step B (Doing (a # as), c) = map_option (\<lambda>c. (Doing as, c)) (run_action a c)"

text \<open>The program: the loop goes on, or a request is handled in between.\<close>

inductive car_step :: "board \<Rightarrow> main_pc \<times> car \<Rightarrow> main_pc \<times> car \<Rightarrow> bool" for B where
  loop: "main_step B x = Some y \<Longrightarrow> car_step B x y"
| request: "cgi_led_handler B 0 params c = Some (page, c') \<Longrightarrow> car_step B (pc, c) (pc, c')"

inductive_cases car_stepE: "car_step B x y"

section \<open>Uninterrupted, the steps are the body\<close>

fun run_actions :: "action list \<Rightarrow> car \<Rightarrow> car option" where
  "run_actions [] c = Some c"
| "run_actions (a # as) c = (case run_action a c of None \<Rightarrow> None | Some c \<Rightarrow> run_actions as c)"

abbreviation loop_steps :: "board \<Rightarrow> main_pc \<times> car \<Rightarrow> main_pc \<times> car \<Rightarrow> bool" where
  "loop_steps B \<equiv> (\<lambda>x y. main_step B x = Some y)\<^sup>*\<^sup>*"

lemma loop_steps_first: "main_step B x = Some y \<Longrightarrow> loop_steps B y z \<Longrightarrow> loop_steps B x z"
  by (rule converse_rtranclp_into_rtranclp)

lemma loop_steps_car_steps: "loop_steps B x y \<Longrightarrow> (car_step B)\<^sup>*\<^sup>* x y"
  by (induction rule: rtranclp_induct) (auto intro: car_step.loop rtranclp.rtrancl_into_rtrancl)

lemma actions_steps: "run_actions as c = Some c' \<Longrightarrow> loop_steps B (Doing as, c) (Measure, c')"
proof (induction as arbitrary: c)
  case Nil
  then show ?case by (auto intro: loop_steps_first)
next
  case (Cons a as)
  then obtain d where "run_action a c = Some d" "run_actions as d = Some c'"
    by (auto split: option.splits)
  with Cons.IH show ?case by (auto intro: loop_steps_first)
qed

lemma partial_steps:
  "run_actions as c = Some c' \<Longrightarrow> loop_steps B (Doing (as @ bs), c) (Doing bs, c')"
proof (induction as arbitrary: c)
  case (Cons a as)
  then obtain d where "run_action a c = Some d" "run_actions as d = Some c'"
    by (auto split: option.splits)
  with Cons.IH show ?case by (auto intro: loop_steps_first)
qed simp

lemma on_hw_run_calls:
  "run_actions (map Run ms @ as) c = run_actions as (on_hw (run_calls ms) c)"
  by (induction ms arbitrary: c) (simp_all add: run_calls_def on_hw_def)

lemma branch_actions:
  "run_actions forward_actions c = Some (on_hw (sleep_ms 100) (on_hw (set_rgb_color 0 255 0)
     (on_hw (move_forward 250) c)))"
  "run_actions left_actions c = Some (on_hw (sleep_ms 100) (on_hw (set_rgb_color 0 255 0)
     (on_hw (move_left 250) c)))"
  "run_actions right_actions c = Some (on_hw (sleep_ms 100) (on_hw (set_rgb_color 0 255 0)
     (on_hw (move_right 250) c)))"
  "run_actions stop_actions c = map_option (\<lambda>c. on_hw (sleep_ms 100) (c\<lparr>is_moving_forward := False\<rparr>))
     (buzzer_sound 25000 500 (on_hw (set_rgb_color 0 0 255) (on_hw stop_car c)))"
  by (simp_all add: forward_actions_def left_actions_def right_actions_def stop_actions_def
      on_hw_run_calls on_hw_def drv_defs option.map_comp split: option.split)

text \<open>The calls the tests select.\<close>

definition branch :: "rat \<Rightarrow> car \<Rightarrow> action list" where
  "branch d c = (if is_moving_forward c
     then if obstacle d then stop_actions
          else if is_moving_left c then left_actions
          else if is_moving_right c then right_actions else forward_actions
     else [Pause 100])"

lemma loop_steps_last: "main_step B x = Some y \<Longrightarrow> loop_steps B x y"
  by (rule r_into_rtranclp)

lemma branch_steps: "loop_steps B (Test_forward d, c) (Doing (branch d c), c)"
proof -
  have right: "loop_steps B (Test_right, c) (Doing (if is_moving_right c then right_actions
      else forward_actions), c)"
    by (rule loop_steps_last) simp
  have left: "loop_steps B (Test_left, c) (Doing (if is_moving_left c then left_actions
      else if is_moving_right c then right_actions else forward_actions), c)"
  proof (cases "is_moving_left c")
    case True
    then show ?thesis by (intro loop_steps_last) simp
  next
    case False
    then have "main_step B (Test_left, c) = Some (Test_right, c)" by simp
    from loop_steps_first [OF this right] False show ?thesis by simp
  qed
  show ?thesis
  proof (cases "is_moving_forward c")
    case True
    then have 1: "main_step B (Test_forward d, c) = Some (Test_distance d, c)" by simp
    show ?thesis
    proof (cases "obstacle d")
      case True
      then have "main_step B (Test_distance d, c) = Some (Doing stop_actions, c)" by simp
      from loop_steps_first [OF 1 loop_steps_last [OF this]] True \<open>is_moving_forward c\<close>
      show ?thesis by (simp add: branch_def)
    next
      case False
      then have "main_step B (Test_distance d, c) = Some (Test_left, c)" by simp
      from loop_steps_first [OF 1 loop_steps_first [OF this left]] False True
      show ?thesis by (simp add: branch_def)
    qed
  next
    case False
    then show ?thesis by (intro loop_steps_last) (simp add: branch_def)
  qed
qed

lemma branch_body:
  assumes "ultrasonic_get_distance B (hw c) = Some (d, s)"
  shows "main_loop_body B c = run_actions (branch d (c\<lparr>hw := s\<rparr>)) (c\<lparr>hw := s\<rparr>)"
proof -
  consider "\<not> is_moving_forward c" | "is_moving_forward c" "obstacle d"
    | "is_moving_forward c" "\<not> obstacle d" by blast
  then show ?thesis
    by cases (simp_all add: main_loop_body_def branch_def branch_actions assms Let_def
        option.map_comp comp_def)
qed

lemma body_steps:
  assumes "main_loop_body B c = Some c'"
  shows "loop_steps B (Measure, c) (Measure, c')"
proof -
  from assms obtain d s where m: "ultrasonic_get_distance B (hw c) = Some (d, s)"
    by (auto simp: main_loop_body_def split: option.splits)
  then have "main_step B (Measure, c) = Some (Test_forward d, c\<lparr>hw := s\<rparr>)" by simp
  then have "loop_steps B (Measure, c) (Doing (branch d (c\<lparr>hw := s\<rparr>)), c\<lparr>hw := s\<rparr>)"
    by (rule loop_steps_first [OF _ branch_steps])
  moreover have "loop_steps B (Doing (branch d (c\<lparr>hw := s\<rparr>)), c\<lparr>hw := s\<rparr>) (Measure, c')"
    using assms by (intro actions_steps) (simp add: branch_body [OF m])
  ultimately show ?thesis by (rule rtranclp_trans)
qed

section \<open>What the body does\<close>

lemma body_cases:
  assumes "main_loop_body B c = Some c'"
  obtains (idle) "\<not> is_moving_forward c" "drive_of (hw c') = drive_of (hw c)" "mode_of c' = mode_of c"
      "is_moving_forward c' = is_moving_forward c" "is_moving_backward c' = is_moving_backward c"
    | (stopped) "is_moving_forward c" "blocked B (hw c)" "drive_of (hw c') = drive_for Stopped"
      "\<not> is_moving_forward c'" "is_moving_backward c' = is_moving_backward c"
      "led_color (hw c') = (0, 0, 255)" "pwm_gpio_level (hw c') GPIO_PIN_BUZZER = 0"
    | (driving) "is_moving_forward c" "\<not> blocked B (hw c)" "drive_of (hw c') = drive_for (mode_of c)"
      "mode_of c' = mode_of c" "is_moving_forward c'" "is_moving_backward c' = is_moving_backward c"
      "led_color (hw c') = (0, 255, 0)"
proof -
  from assms obtain d s where m: "ultrasonic_get_distance B (hw c) = Some (d, s)"
    by (auto simp: main_loop_body_def split: option.splits)
  note s = distance_drive [OF m]
  consider "\<not> is_moving_forward c" | "is_moving_forward c" "obstacle d"
    | "is_moving_forward c" "\<not> obstacle d" by blast
  then show thesis
  proof cases
    case 1
    then show thesis using assms m s
      by (intro idle) (auto simp: main_loop_body_def mode_of_simps observe_frame drive_of_frames)
  next
    case 2
    then have "c' \<in> set_option (map_option (\<lambda>c. on_hw (sleep_ms 100) (c\<lparr>is_moving_forward := False\<rparr>))
        (buzzer_sound 25000 500 (on_hw (set_rgb_color 0 0 255) (on_hw stop_car (c\<lparr>hw := s\<rparr>)))))"
      using assms m by (simp add: main_loop_body_def Let_def option.map_comp comp_def)
    then obtain e where e: "buzzer_sound 25000 500
          (on_hw (set_rgb_color 0 0 255) (on_hw stop_car (c\<lparr>hw := s\<rparr>))) = Some e"
      and c': "c' = on_hw (sleep_ms 100) (e\<lparr>is_moving_forward := False\<rparr>)" by auto
    show thesis using 2 m
      by (intro stopped) (simp_all add: c' blocked_def buzzer_sound_obs [OF e]
          buzzer_sound_color [OF e] led_color_frames led_color_set drive_of_frames
          set_rgb_color_drive drive_after observe_frame)
  next
    case 3
    define g where "g = (if is_moving_left c then move_left 250
      else if is_moving_right c then move_right 250 else move_forward 250)"
    have c': "c' = on_hw (sleep_ms 100) (on_hw (set_rgb_color 0 255 0) (on_hw g (c\<lparr>hw := s\<rparr>)))"
      using 3 assms m by (simp add: main_loop_body_def Let_def g_def split: if_splits)
    have "drive_of (g s) = drive_for (mode_of c)"
      using 3 by (simp add: g_def mode_of_def drive_after)
    then show thesis using 3 m
      by (intro driving) (simp_all add: c' blocked_def mode_of_simps led_color_frames led_color_set
          drive_of_frames set_rgb_color_drive)
  qed
qed

lemma body_returns:
  assumes "steady_clock B" and "clock_at B (reads (hw c)) < 2305843009213693952"
  shows "\<exists>c'. main_loop_body B c = Some c'"
proof -
  obtain d s where m: "ultrasonic_get_distance B (hw c) = Some (d, s)"
    using distance_returns_aux [OF assms] by blast
  have "\<exists>c'. run_actions (branch d (c\<lparr>hw := s\<rparr>)) (c\<lparr>hw := s\<rparr>) = Some c'"
    by (simp add: branch_def branch_actions buzzer_sound_some)
  then show ?thesis by (simp add: branch_body [OF m])
qed

section \<open>What start-up leaves\<close>

text \<open>The connection is retried until the first attempt that returns 0.\<close>

lemma connect_loop_first:
  assumes "first_ready (\<lambda>i. wl_connect_at B i = 0) (reads s) n"
  shows "\<exists>cs. connect_loop B s = Some (s\<lparr>reads := Suc n, calls := calls s @ cs\<rparr>)
    \<and> length cs = 3 * (n - reads s) + 1"
  using assms
proof (induction "n - reads s" arbitrary: s)
  case 0
  then have "n = reads s" and "wl_connect_at B n = 0" by (auto simp: first_ready_def)
  then have "connect_loop B s = Some (s\<lparr>reads := Suc n,
      calls := calls s @ [Wl_connect WIFI_SSID WIFI_PASSWORD 10000]\<rparr>)"
    by (subst connect_loop.simps)
      (simp add: cyw43_arch_wifi_connect_timeout_ms_def tick_def emit_def)
  with \<open>n = reads s\<close> show ?case by (intro exI conjI) auto
next
  case (Suc k)
  define t where "t = s\<lparr>reads := Suc (reads s), calls := calls s @ [Wl_connect WIFI_SSID WIFI_PASSWORD 10000,
    Printf (''Failed to connect to Wi-Fi. Retrying...'' @ NL) [], Sleep_ms 1000]\<rparr>"
  from Suc.prems Suc.hyps(2) have no: "wl_connect_at B (reads s) \<noteq> 0"
    and nxt: "first_ready (\<lambda>i. wl_connect_at B i = 0) (reads t) n"
    by (auto simp: first_ready_def t_def)
  have k: "k = n - reads t" using Suc.hyps(2) by (simp add: t_def)
  from Suc.hyps(1) [OF k nxt] obtain cs where
    "connect_loop B t = Some (t\<lparr>reads := Suc n, calls := calls t @ cs\<rparr>)" "length cs = 3 * (n - reads t) + 1"
    by blast
  moreover have "connect_loop B s = connect_loop B t" using no
    by (subst connect_loop.simps)
      (simp add: cyw43_arch_wifi_connect_timeout_ms_def tick_def emit_def t_def)
  ultimately show ?case using Suc.hyps(2) by (auto simp: t_def)
qed

lemma ultrasonic_init_obs [obs_simps]:
  assumes "sdk_docs B"
  shows "h < 30 \<Longrightarrow> gpio_get_out_level (ultrasonic_init B s) h \<longleftrightarrow>
      h \<noteq> TRIG_PIN \<and> h \<noteq> ECHO_PIN \<and> gpio_get_out_level s h"
    and "h < 30 \<Longrightarrow> gpio_is_dir_out (ultrasonic_init B s) h \<longleftrightarrow>
      h = TRIG_PIN \<or> h \<noteq> ECHO_PIN \<and> gpio_is_dir_out s h"
    and "funcsel (ultrasonic_init B s)
      = (funcsel s)(TRIG_PIN := GPIO_FUNC_SIO, ECHO_PIN := GPIO_FUNC_SIO)"
    and "pwm_gpio_level (ultrasonic_init B s) g = pwm_gpio_level s g"
    and "pwm_wrap (ultrasonic_init B s) n = pwm_wrap s n"
    and "pwm_enabled (ultrasonic_init B s) n = pwm_enabled s n"
    and "pwm_clkdiv16 (ultrasonic_init B s) n = pwm_clkdiv16 s n"
  using assms
  by (auto simp: ultrasonic_init_def Let_def obs_simps TRIG_PIN_def ECHO_PIN_def)

definition sensor_ready :: "mcu \<Rightarrow> bool" where
  "sensor_ready s \<longleftrightarrow> gpio_is_dir_out s TRIG_PIN \<and> \<not> gpio_get_out_level s TRIG_PIN \<and>
     \<not> gpio_is_dir_out s ECHO_PIN \<and> funcsel s TRIG_PIN = GPIO_FUNC_SIO \<and>
     funcsel s ECHO_PIN = GPIO_FUNC_SIO"

lemma sensor_ready_init: "sdk_docs B \<Longrightarrow> sensor_ready (ultrasonic_init B s)"
  by (simp add: sensor_ready_def ultrasonic_init_obs TRIG_PIN_def ECHO_PIN_def)

text \<open>Later initialisations do not disturb the motors'.\<close>

lemma motors_ready_cong:
  assumes "\<forall>g \<in> {0, 1, 12, 18, 2, 27}. funcsel s g = funcsel t g"
    and "\<forall>g \<in> {0, 1, 12, 18}. gpio_is_dir_out s g = gpio_is_dir_out t g"
    and "\<forall>n \<in> {1, 5}. pwm_wrap s n = pwm_wrap t n \<and> pwm_clkdiv16 s n = pwm_clkdiv16 t n
      \<and> pwm_enabled s n = pwm_enabled t n"
  shows "motors_ready s = motors_ready t"
  using assms by (simp add: motors_ready_def pin_defs pwm_gpio_to_slice_num_def)

lemma buzzer_init_obs [obs_simps]:
  assumes "sdk_docs B"
  shows "gpio_get_out_level (hw (buzzer_init B c)) h = gpio_get_out_level (hw c) h"
    and "gpio_is_dir_out (hw (buzzer_init B c)) h = gpio_is_dir_out (hw c) h"
    and "funcsel (hw (buzzer_init B c)) = (funcsel (hw c))(GPIO_PIN_BUZZER := GPIO_FUNC_PWM)"
    and "pwm_wrap (hw (buzzer_init B c)) n = (if n = 2 then 1000 else pwm_wrap (hw c) n)"
    and "pwm_clkdiv16 (hw (buzzer_init B c)) n = (if n = 2 then 64 else pwm_clkdiv16 (hw c) n)"
    and "pwm_enabled (hw (buzzer_init B c)) n \<longleftrightarrow> n = 2 \<or> pwm_enabled (hw c) n"
    and "slice_num_buzzer (buzzer_init B c) = 2"
    and "mode_of (buzzer_init B c) = mode_of c"
    and "pwm_gpio_level (hw (buzzer_init B c)) GPIO_PIN_BUZZER = 0"
  using assms
  by (simp_all add: buzzer_init_def Let_def obs_simps pin_defs pwm_gpio_to_slice_num_def mode_of_def)

lemma rgb_led_init_obs [obs_simps]:
  assumes "sdk_docs B"
  shows "gpio_get_out_level (hw (rgb_led_init B c)) h = gpio_get_out_level (hw c) h"
    and "gpio_is_dir_out (hw (rgb_led_init B c)) h = gpio_is_dir_out (hw c) h"
    and "funcsel (hw (rgb_led_init B c)) = (funcsel (hw c))(GPIO_PIN_RED := GPIO_FUNC_PWM,
      GPIO_PIN_GREEN := GPIO_FUNC_PWM, GPIO_PIN_BLUE := GPIO_FUNC_PWM)"
    and "pwm_wrap (hw (rgb_led_init B c)) n = (if n = 3 \<or> n = 4 then 255 else pwm_wrap (hw c) n)"
    and "pwm_clkdiv16 (hw (rgb_led_init B c)) n = (if n = 3 \<or> n = 4 then 64 else pwm_clkdiv16 (hw c) n)"
    and "pwm_enabled (hw (rgb_led_init B c)) n \<longleftrightarrow> n = 3 \<or> n = 4 \<or> pwm_enabled (hw c) n"
    and "slice_num_buzzer (rgb_led_init B c) = slice_num_buzzer c"
    and "mode_of (rgb_led_init B c) = mode_of c"
  using assms
  by (auto simp: rgb_led_init_def Let_def obs_simps pin_defs pwm_gpio_to_slice_num_def mode_of_def)

lemma cgi_init_motors:
  assumes "sdk_docs B"
  shows "motors_ready (hw (cgi_init B c))"
    and "g \<in> {0, 1, 12, 18} \<Longrightarrow> \<not> gpio_get_out_level (hw (cgi_init B c)) g"
proof -
  have m: "motors_ready (motor_init B s)" for s using assms
    by (simp add: motors_ready_def motor_init_def Let_def obs_simps pin_defs pwm_gpio_to_slice_num_def)
  let ?s = "hw (cgi_init B c)" and ?m = "motor_init B (hw c)"
  have "motors_ready ?s = motors_ready ?m"
    by (rule motors_ready_cong)
      (use assms in \<open>simp_all add: cgi_init_def Let_def ultrasonic_init_obs rgb_led_init_obs
        buzzer_init_obs emit_frame observe_frame TRIG_PIN_def ECHO_PIN_def pin_defs\<close>)
  with m show "motors_ready ?s" by simp
  have lvl: "\<not> gpio_get_out_level (motor_init B s) g" if "g \<in> {0, 1, 12, 18}" for g s
    using assms that by (auto simp: motor_init_def Let_def obs_simps pin_defs)
  show "\<not> gpio_get_out_level ?s g" if "g \<in> {0, 1, 12, 18}"
    using assms that lvl [OF that] by (auto simp: cgi_init_def Let_def ultrasonic_init_obs
        rgb_led_init_obs buzzer_init_obs observe_frame)
qed

lemma cgi_init_rest:
  assumes "sdk_docs B"
  shows "sensor_ready (hw (cgi_init B c))" and "slice_num_buzzer (cgi_init B c) = 2"
    and "pwm_clkdiv16 (hw (cgi_init B c)) 2 = 64" and "pwm_wrap (hw (cgi_init B c)) 2 = 1000"
    and "mode_of (cgi_init B c) = mode_of c"
    and "Http_set_cgi_handlers [''/led.cgi''] \<in> set (calls (hw (cgi_init B c)))"
  using assms sensor_ready_init [OF assms]
  by (simp_all add: cgi_init_def Let_def ultrasonic_init_obs rgb_led_init_obs buzzer_init_obs
      observe_frame mode_of_simps sensor_ready_def emit_frame cgi_handlers_def)

lemma startup_some:
  assumes "wl_init_at B (reads (hw c)) = 0"
    and "first_ready (\<lambda>i. wl_connect_at B i = 0) (Suc (reads (hw c))) n"
  shows "\<exists>d. car_startup B c = Some (Inr (on_hw (printf (''CGI Handler initialized'' @ NL) [])
      (cgi_init B d))) \<and> mode_of d = mode_of c
      \<and> (sdk_docs B \<longrightarrow> slices (hw d) = slices (hw c))"
proof -
  define d where "d = on_hw (printf (''Wi-Fi station mode enabled.'' @ NL) [])
    (on_hw (emit Wl_enable_sta_mode) (on_hw (printf (''Wi-Fi module initialized.'' @ NL) [])
      (on_hw (\<lambda>s. tick (emit Wl_arch_init s))
        (on_hw (printf (''Standard I/O initialized.'' @ NL) [])
          (on_hw (sleep_ms 10000) (on_hw (emit Stdio_init_all) c))))))"
  have r: "reads (hw d) = Suc (reads (hw c))" by (simp add: d_def emit_frame tick_frame)
  have mode: "mode_of d = mode_of c" by (simp add: d_def mode_of_simps)
  obtain cs where cs: "connect_loop B (hw d)
      = Some ((hw d)\<lparr>reads := Suc n, calls := calls (hw d) @ cs\<rparr>)"
    using connect_loop_first [of B "hw d" n] assms(2) r by auto
  define f where "f = (\<lambda>s. on_hw (printf (''SSI Handler initialized'' @ NL) []) (on_hw (ssi_init B)
    (on_hw (printf (''Http server initialized'' @ NL) []) (on_hw (emit Httpd_init)
      (on_hw (printf (''IP Address: %s'' @ NL) [Str_arg (wl_ip_text B)])
        (on_hw (printf (''Connected to Wi-Fi.'' @ NL) []) (d\<lparr>hw := s\<rparr>)))))))"
  have "car_startup B c = (case connect_loop B (hw d) of None \<Rightarrow> None
    | Some s \<Rightarrow> Some (Inr (on_hw (printf (''CGI Handler initialized'' @ NL) []) (cgi_init B (f s)))))"
    unfolding car_startup_def Let_def d_def f_def
    by (simp only: on_hw_simps emit_frame assms(1) simp_thms if_False)
  with cs have "car_startup B c = Some (Inr (on_hw (printf (''CGI Handler initialized'' @ NL) [])
      (cgi_init B (f ((hw d)\<lparr>reads := Suc n, calls := calls (hw d) @ cs\<rparr>)))))"
    by (simp only: option.case)
  moreover have "mode_of (f s) = mode_of c" for s by (simp only: f_def mode_of_simps mode)
  moreover have "slices (hw (f s)) = slices s" if "sdk_docs B" for s
    using that by (simp add: f_def emit_frame ssi_init_def Let_def adc_init_obs
        adc_select_input_def adc_set_temp_sensor_enabled_def)
  moreover have "slices (hw d) = slices (hw c)" by (simp add: d_def emit_frame tick_frame)
  ultimately show ?thesis by fastforce
qed

text \<open>Initialising does not set the motors' duty cycles.\<close>

lemma cgi_init_duties:
  assumes "sdk_docs B" and "g \<in> {2, 27}"
  shows "pwm_gpio_level (hw (cgi_init B c)) g = pwm_gpio_level (hw c) g"
  using assms by (auto simp: cgi_init_def Let_def motor_init_def setup_pwm_def buzzer_init_def
      rgb_led_init_def ultrasonic_init_def obs_simps emit_frame observe_frame pin_defs
      pwm_gpio_to_slice_num_def)

section \<open>Requests between two rounds of the loop\<close>

definition known_commands :: "(string \<times> string option) list \<Rightarrow> bool" where
  "known_commands params \<longleftrightarrow>
     (\<forall>v. (''motor'', Some v) \<in> set params \<longrightarrow> v \<in> range command_value)"

inductive car_run :: "board \<Rightarrow> car \<Rightarrow> car \<Rightarrow> bool" for B c0 where
  start: "car_run B c0 c0"
| body: "car_run B c0 c \<Longrightarrow> main_loop_body B c = Some c' \<Longrightarrow> car_run B c0 c'"
| command: "car_run B c0 c \<Longrightarrow> cgi_led_handler B i params c = Some (page, c') \<Longrightarrow>
    known_commands params \<Longrightarrow> car_run B c0 c'"

definition car_ok :: "car \<Rightarrow> bool" where
  "car_ok c \<longleftrightarrow> drive_agrees c \<and> \<not> (is_moving_forward c \<and> is_moving_backward c)"

lemma command_one_way:
  "cgi_motor B (command_value cmd) c = Some c' \<Longrightarrow> \<not> (is_moving_forward c' \<and> is_moving_backward c')"
  by (cases cmd) (auto simp: motor_cases buzzer_sound_obs split: option.splits if_splits)

lemma command_car_ok:
  "cgi_motor B (command_value cmd) c = Some c' \<Longrightarrow> car_ok c'"
  unfolding car_ok_def drive_agrees_def using command_drive command_one_way by blast

lemma other_params_car_ok:
  assumes "cgi_param B (p, v) c = Some c'" and "p \<noteq> ''motor''" and "car_ok c"
  shows "car_ok c'"
  using other_params [OF assms(2,1)] assms(3)
  by (auto simp: car_ok_def drive_agrees_def steers_nothing_def mode_of_simps)

lemma param_car_ok:
  assumes "cgi_param B p c = Some c'" and "car_ok c" and "p \<in> set params" and "known_commands params"
  shows "car_ok c'"
proof (cases "fst p = ''motor''")
  case True
  with assms(1) obtain v where v: "p = (''motor'', Some v)" "cgi_motor B v c = Some c'"
    by (cases p) (auto simp: cgi_param_def bind_eq_Some_conv)
  with assms(3,4) obtain cmd where "v = command_value cmd" by (auto simp: known_commands_def)
  with v(2) show ?thesis by (simp add: command_car_ok)
next
  case False
  with assms(1,2) other_params_car_ok [of B "fst p" "snd p" c c'] show ?thesis by simp
qed

lemma handler_car_ok:
  assumes "cgi_led_handler B i params c = Some (page, c')" and "known_commands params" and "car_ok c"
  shows "car_ok c'"
proof -
  have "cgi_params B params c = Some c'" using assms(1) by (auto simp: cgi_led_handler_def)
  then show ?thesis using assms(3)
    by (rule cgi_params_invariant) (rule param_car_ok [OF _ _ _ assms(2)])
qed

lemma body_car_ok:
  assumes "main_loop_body B c = Some c'" and "car_ok c"
  shows "car_ok c'"
  using assms(1)
proof (cases rule: body_cases)
  case idle
  with assms(2) show ?thesis by (simp add: car_ok_def drive_agrees_def)
next
  case stopped
  with assms(2) show ?thesis by (simp add: car_ok_def drive_agrees_def mode_of_def)
next
  case driving
  with assms(2) show ?thesis by (simp add: car_ok_def drive_agrees_def)
qed

section \<open>Properties\<close>

text \<open>
  C1: one round of the loop. It never starts or steers a car whose forward flag is off; with the
  flag on and an obstacle measured it stops the motors, clears the flag, shows the warning
  colour and ends silent; with the flag on and the way free it drives what the flags say. With a
  steady clock it always returns.
\<close>

theorem loop_round:
  assumes "steady_clock B" and "clock_at B (reads (hw c)) < 2305843009213693952"
  shows "\<exists>c'. main_loop_body B c = Some c' \<and>
    (if \<not> is_moving_forward c then drive_of (hw c') = drive_of (hw c) \<and> mode_of c' = mode_of c
     else if blocked B (hw c)
     then drive_of (hw c') = stopped_drive \<and> \<not> is_moving_forward c' \<and>
       led_color (hw c') = (0, 0, 255) \<and> pwm_gpio_level (hw c') GPIO_PIN_BUZZER = 0
     else drive_of (hw c') = drive_for (mode_of c) \<and> mode_of c' = mode_of c \<and>
       led_color (hw c') = (0, 255, 0))"
proof -
  obtain c' where c': "main_loop_body B c = Some c'" using body_returns [OF assms] by blast
  have "if \<not> is_moving_forward c then drive_of (hw c') = drive_of (hw c) \<and> mode_of c' = mode_of c
     else if blocked B (hw c)
     then drive_of (hw c') = stopped_drive \<and> \<not> is_moving_forward c' \<and>
       led_color (hw c') = (0, 0, 255) \<and> pwm_gpio_level (hw c') GPIO_PIN_BUZZER = 0
     else drive_of (hw c') = drive_for (mode_of c) \<and> mode_of c' = mode_of c \<and>
       led_color (hw c') = (0, 255, 0)"
    by (cases rule: body_cases [OF c']) simp_all
  with c' show ?thesis by blast
qed

theorem loop_round_witness:
  "\<exists>c'. main_loop_body ref_board (reset_car\<lparr>is_moving_forward := True\<rparr>) = Some c' \<and>
     (if blocked ref_board reset_mcu then drive_of (hw c') = stopped_drive
      else drive_of (hw c') = drive_for Going_forward)"
  using loop_round [OF steady_ref_board, of "reset_car\<lparr>is_moving_forward := True\<rparr>"]
  by (auto simp: clock_at_def reset_car_def reset_mcu_def mode_of_def)



text \<open>
  C3: if requests come only between two rounds of the loop and their motor values are the
  buttons', then after any number of rounds and requests the motors do what the flags say, and
  the flags never say forward and backward at once.
\<close>

theorem motors_follow_flags:
  assumes "car_run B c0 c" and "car_ok c0"
  shows "drive_of (hw c) = drive_for (mode_of c) \<and> \<not> (is_moving_forward c \<and> is_moving_backward c)"
proof -
  from assms have "car_ok c"
    by (induction rule: car_run.induct) (auto intro: body_car_ok handler_car_ok)
  then show ?thesis by (simp add: car_ok_def drive_agrees_def)
qed

lemma stopped_car_ok: "car_ok (on_hw stop_car reset_car)"
  by (simp add: car_ok_def drive_agrees_def mode_of_simps drive_after)
    (simp add: mode_of_def reset_car_def)

theorem motors_follow_flags_witness:
  "\<exists>c. car_run ref_board (on_hw stop_car reset_car) c \<and> drive_of (hw c) = drive_for Going_left"
proof -
  let ?c = "on_hw stop_car reset_car"
  obtain c' where m: "cgi_motor ref_board (command_value Cmd_left) ?c = Some c'"
    by (simp add: motor_left)
  then have h: "cgi_led_handler ref_board 0 [(''motor'', Some (command_value Cmd_left))] ?c
      = Some (''/index.shtml'', c')"
    by (simp add: cgi_led_handler_def cgi_param_def)
  have "known_commands [(''motor'', Some (command_value Cmd_left))]"
    by (simp add: known_commands_def del: command_value.simps)
  with h have run: "car_run ref_board ?c c'" by (rule car_run.command [OF car_run.start])
  have "mode_of c' = Going_left" using command_mode [OF m] by simp
  with motors_follow_flags [OF run stopped_car_ok] run show ?thesis by auto
qed


lemma echo_board_distance:
  "\<exists>d s. ultrasonic_get_distance echo_board reset_mcu = Some (d, s) \<and> \<not> obstacle d"
  using echo_decides_obstacle_aux by blast


text \<open>
  C19: a command can escape the obstacle watch. When the loop has found an obstacle and sounds its
  warning, a left request handled before the loop clears the forward flag sets the car driving,
  and the flag is then cleared under it: the motors drive left while the flags say stopped.
\<close>

theorem command_can_escape_watch:
  assumes "ultrasonic_get_distance B (hw c) = Some (d, s)" and "obstacle d"
    and "is_moving_forward c"
  shows "\<exists>c'. (car_step B)\<^sup>*\<^sup>* (Measure, c) (Measure, c') \<and> mode_of c' = Stopped
    \<and> drive_of (hw c') = drive_for Going_left"
proof -
  let ?c = "c\<lparr>hw := s\<rparr>"
  let ?rest = "[Clear_forward, Pause 100]"
  have "main_step B (Measure, c) = Some (Test_forward d, ?c)" using assms(1) by simp
  from loop_steps_first [OF this branch_steps] assms(2,3)
  have 1: "loop_steps B (Measure, c) (Doing stop_actions, ?c)" by (simp add: branch_def)
  obtain e where e: "run_actions (map Run (drive_calls False False False False 0 0)
      @ [Rgb 0 0 255, Sound 25000 500]) ?c = Some e"
    by (simp add: on_hw_run_calls buzzer_sound_eq)
  have 2: "loop_steps B (Doing stop_actions, ?c) (Doing ?rest, e)"
    using partial_steps [OF e, of B ?rest] by (simp add: stop_actions_def)
  obtain f where f: "cgi_motor B (command_value Cmd_left) e = Some f" by (simp add: motor_left)
  then have "cgi_led_handler B 0 [(''motor'', Some (command_value Cmd_left))] e
      = Some (''/index.shtml'', f)"
    by (simp add: cgi_led_handler_def cgi_param_def)
  then have 3: "car_step B (Doing ?rest, e) (Doing ?rest, f)" by (rule car_step.request)
  define c' where "c' = on_hw (sleep_ms 100) (f\<lparr>is_moving_forward := False\<rparr>)"
  have 4: "loop_steps B (Doing ?rest, f) (Measure, c')"
    by (rule actions_steps) (simp add: c'_def)
  have "mode_of f = Going_left" using command_mode [OF f] by simp
  then have "drive_of (hw c') = drive_for Going_left"
    using command_drive [OF f] by (simp add: c'_def drive_of_frames)
  moreover have "mode_of c' = Stopped"
    using f by (auto simp: c'_def motor_left mode_of_def)
  moreover have "(car_step B)\<^sup>*\<^sup>* (Measure, c) (Doing ?rest, e)"
    by (rule loop_steps_car_steps [OF rtranclp_trans [OF 1 2]])
  moreover have "(car_step B)\<^sup>*\<^sup>* (Doing ?rest, f) (Measure, c')"
    by (rule loop_steps_car_steps [OF 4])
  ultimately show ?thesis using 3
    by (meson converse_rtranclp_into_rtranclp rtranclp_trans)
qed

lemma silent_board_distance:
  "ultrasonic_get_distance (echo_board\<lparr>gpio_in_at := \<lambda>_. 0\<rparr>) reset_mcu
     = Some (-1, (ultrasonic_trigger reset_mcu)\<lparr>reads := 23\<rparr>)"
  using silence_aux by blast

theorem command_can_escape_watch_witness:
  "\<exists>c'. (car_step (echo_board\<lparr>gpio_in_at := \<lambda>_. 0\<rparr>))\<^sup>*\<^sup>*
      (Measure, reset_car\<lparr>is_moving_forward := True\<rparr>) (Measure, c')
     \<and> mode_of c' = Stopped \<and> drive_of (hw c') = drive_for Going_left"
proof (rule command_can_escape_watch)
  show "obstacle (-1)" by (simp add: obstacle_def)
  show "is_moving_forward (reset_car\<lparr>is_moving_forward := True\<rparr>)" by simp
qed (use silent_board_distance in \<open>simp add: reset_car_def\<close>)

text \<open>
  A motor value that is none of the buttons' changes no pin, but it sets the forward flag, so
  a stopped car drives forward in the next round that finds the way free.
\<close>

theorem unknown_command_drives:
  assumes "v \<notin> range command_value" and "mode_of c = Stopped" and "\<not> is_moving_left c"
    and "\<not> is_moving_right c"
  shows "\<exists>c'. cgi_led_handler B iIndex [(''motor'', Some v)] c = Some (''/index.shtml'', c')
    \<and> hw c' = hw c
    \<and> (\<forall>c''. \<not> blocked B (hw c) \<and> main_loop_body B c' = Some c'' \<longrightarrow>
          drive_of (hw c'') = drive_for Going_forward)"
proof -
  let ?c = "c\<lparr>is_moving_forward := True\<rparr>"
  have "v \<notin> command_value ` S" for S using assms(1) by blast
  then have "cgi_motor B v c = Some ?c" by (rule motor_other)
  then have h: "cgi_led_handler B iIndex [(''motor'', Some v)] c = Some (''/index.shtml'', ?c)"
    by (simp add: cgi_led_handler_def cgi_param_def)
  have "drive_of (hw c'') = drive_for Going_forward"
    if "\<not> blocked B (hw c)" and "main_loop_body B ?c = Some c''" for c''
    using that(1) assms(3,4) by (cases rule: body_cases [OF that(2)]) (auto simp: mode_of_def)
  with h show ?thesis by auto
qed

theorem unknown_command_drives_witness:
  "\<exists>c'. cgi_led_handler ref_board 0 [(''motor'', Some ''spin'')] reset_car = Some (''/index.shtml'', c')
     \<and> hw c' = hw reset_car"
proof -
  have "''spin'' \<noteq> command_value cmd" for cmd by (cases cmd) simp_all
  then have "''spin'' \<notin> range command_value" by blast
  from unknown_command_drives [OF this, of reset_car ref_board 0] show ?thesis
    by (auto simp: reset_car_def mode_of_def)
qed



end
