(* ===== verification/Uart.thy ===== *)
theory Uart
  imports Sdk_Docs C_String
begin

text \<open>
  The UART, the inline operations of hardware/uart.h. Configuration writes the registers of an
  instance; the data operations are those of \<open>uart0\<close>, the only instance the firmware sends and
  receives on. Received bytes wait in \<open>rx_fifo\<close>: whenever the code reads the flag register, the
  bytes that arrived since the last read of it are appended. Waiting for a byte or for room is
  partial.
\<close>

section \<open>Fields (regs/uart.h)\<close>

definition UART_UARTCR_CTSEN_BITS :: u32 where "UART_UARTCR_CTSEN_BITS = 0x00008000"
definition UART_UARTCR_RTSEN_BITS :: u32 where "UART_UARTCR_RTSEN_BITS = 0x00004000"
definition UART_UARTCR_UARTEN_BITS :: u32 where "UART_UARTCR_UARTEN_BITS = 0x00000001"
definition UART_UARTLCR_H_WLEN_BITS :: u32 where "UART_UARTLCR_H_WLEN_BITS = 0x00000060"
definition UART_UARTLCR_H_FEN_BITS :: u32 where "UART_UARTLCR_H_FEN_BITS = 0x00000010"
definition UART_UARTLCR_H_STP2_BITS :: u32 where "UART_UARTLCR_H_STP2_BITS = 0x00000008"
definition UART_UARTLCR_H_EPS_BITS :: u32 where "UART_UARTLCR_H_EPS_BITS = 0x00000004"
definition UART_UARTLCR_H_PEN_BITS :: u32 where "UART_UARTLCR_H_PEN_BITS = 0x00000002"
definition UART_UARTLCR_H_BRK_BITS :: u32 where "UART_UARTLCR_H_BRK_BITS = 0x00000001"
definition UART_UARTIFLS_RXIFLSEL_BITS :: u32 where "UART_UARTIFLS_RXIFLSEL_BITS = 0x00000038"
definition UART_UARTIFLS_TXIFLSEL_BITS :: u32 where "UART_UARTIFLS_TXIFLSEL_BITS = 0x00000007"

datatype uart_parity_t = UART_PARITY_NONE | UART_PARITY_EVEN | UART_PARITY_ODD

section \<open>Configuration\<close>

definition uart_get_index :: "uart_inst \<Rightarrow> u32" where
  "uart_get_index uart = (if uart = Uart1 then 1 else 0)"

definition uart_get_instance :: "u32 \<Rightarrow> uart_inst" where
  "uart_get_instance instance_num = (if instance_num \<noteq> 0 then Uart1 else Uart0)"

definition upd_uart :: "uart_inst \<Rightarrow> (uart_hw \<Rightarrow> uart_hw) \<Rightarrow> mcu \<Rightarrow> mcu" where
  "upd_uart uart f s = s\<lparr>uarts := (uarts s)(uart := f (uarts s uart))\<rparr>"

definition uart_set_hw_flow :: "uart_inst \<Rightarrow> bool \<Rightarrow> bool \<Rightarrow> mcu \<Rightarrow> mcu" where
  "uart_set_hw_flow uart cts rts = upd_uart uart (\<lambda>h. h\<lparr>uart_cr := hw_write_masked (uart_cr h)
     (push_bit 15 (bool_to_bit cts) OR push_bit 14 (bool_to_bit rts))
     (UART_UARTCR_RTSEN_BITS OR UART_UARTCR_CTSEN_BITS)\<rparr>)"

definition uart_set_format :: "uart_inst \<Rightarrow> u32 \<Rightarrow> u32 \<Rightarrow> uart_parity_t \<Rightarrow> mcu \<Rightarrow> mcu" where
  "uart_set_format uart data_bits stop_bits parity = upd_uart uart (\<lambda>h. h\<lparr>uart_lcr_h :=
     hw_write_masked (uart_lcr_h h)
       (push_bit 5 (data_bits - 5) OR push_bit 3 (stop_bits - 1) OR
        push_bit 1 (bool_to_bit (parity \<noteq> UART_PARITY_NONE)) OR
        push_bit 2 (bool_to_bit (parity = UART_PARITY_EVEN)))
       (UART_UARTLCR_H_WLEN_BITS OR UART_UARTLCR_H_STP2_BITS OR UART_UARTLCR_H_PEN_BITS OR
        UART_UARTLCR_H_EPS_BITS)\<rparr>)"

definition uart_set_irq_enables :: "uart_inst \<Rightarrow> bool \<Rightarrow> bool \<Rightarrow> mcu \<Rightarrow> mcu" where
  "uart_set_irq_enables uart rx_has_data tx_needs_data s =
     (let s = upd_uart uart (\<lambda>h. h\<lparr>uart_imsc := push_bit 5 (bool_to_bit tx_needs_data) OR
            push_bit 4 (bool_to_bit rx_has_data) OR push_bit 6 (bool_to_bit rx_has_data)\<rparr>) s;
          s = (if rx_has_data then upd_uart uart (\<lambda>h. h\<lparr>uart_ifls :=
                 hw_write_masked (uart_ifls h) 0 UART_UARTIFLS_RXIFLSEL_BITS\<rparr>) s else s)
      in if tx_needs_data then upd_uart uart (\<lambda>h. h\<lparr>uart_ifls :=
           hw_write_masked (uart_ifls h) 0 UART_UARTIFLS_TXIFLSEL_BITS\<rparr>) s else s)"

definition uart_is_enabled :: "uart_inst \<Rightarrow> mcu \<Rightarrow> bool" where
  "uart_is_enabled uart s \<longleftrightarrow> uart_cr (uarts s uart) AND UART_UARTCR_UARTEN_BITS \<noteq> 0"

definition uart_set_fifo_enabled :: "uart_inst \<Rightarrow> bool \<Rightarrow> mcu \<Rightarrow> mcu" where
  "uart_set_fifo_enabled uart enabled = upd_uart uart (\<lambda>h. h\<lparr>uart_lcr_h :=
     hw_write_masked (uart_lcr_h h) (push_bit 4 (bool_to_bit enabled)) UART_UARTLCR_H_FEN_BITS\<rparr>)"

definition uart_set_break :: "uart_inst \<Rightarrow> bool \<Rightarrow> mcu \<Rightarrow> mcu" where
  "uart_set_break uart en =
     (if en then upd_uart uart (\<lambda>h. h\<lparr>uart_lcr_h := hw_set_bits (uart_lcr_h h) UART_UARTLCR_H_BRK_BITS\<rparr>)
      else upd_uart uart (\<lambda>h. h\<lparr>uart_lcr_h := hw_clear_bits (uart_lcr_h h) UART_UARTLCR_H_BRK_BITS\<rparr>))"

definition uart_get_dreq :: "uart_inst \<Rightarrow> bool \<Rightarrow> u32" where
  "uart_get_dreq uart is_tx = 0x14 + uart_get_index uart * 2 + of_bool (\<not> is_tx)"

section \<open>Receiving\<close>

definition uart_is_readable :: "board \<Rightarrow> mcu \<Rightarrow> bool \<times> mcu" where
  "uart_is_readable B s =
     (let s = tick (s\<lparr>rx_fifo := rx_fifo s @ uart_rx_at B (reads s)\<rparr>) in (rx_fifo s \<noteq> [], s))"

partial_function (option) wait_readable :: "board \<Rightarrow> mcu \<Rightarrow> mcu option" where
  "wait_readable B s =
     (let (readable, s) = uart_is_readable B s in if readable then Some s else wait_readable B s)"

text \<open>Reading the data register takes the oldest byte.\<close>

fun uart_read_blocking :: "board \<Rightarrow> nat \<Rightarrow> mcu \<Rightarrow> (string \<times> mcu) option" where
  "uart_read_blocking B 0 s = Some ([], s)"
| "uart_read_blocking B (Suc len) s =
     (case wait_readable B s of
        None \<Rightarrow> None
      | Some s \<Rightarrow>
          (let c = hd (rx_fifo s); s = s\<lparr>rx_fifo := tl (rx_fifo s)\<rparr>
           in map_option (\<lambda>(cs, s). (c # cs, s)) (uart_read_blocking B len s)))"

definition uart_getc :: "board \<Rightarrow> mcu \<Rightarrow> (char \<times> mcu) option" where
  "uart_getc B s = map_option (\<lambda>(cs, s). (hd cs, s)) (uart_read_blocking B 1 s)"

section \<open>Sending\<close>

fun uart_write_blocking :: "board \<Rightarrow> string \<Rightarrow> mcu \<Rightarrow> mcu option" where
  "uart_write_blocking B [] s = Some s"
| "uart_write_blocking B (c # src) s =
     (case poll_until (uart_writable_at B) s of
        None \<Rightarrow> None
      | Some s \<Rightarrow> uart_write_blocking B src (emit (Uart_tx c) s))"

definition uart_putc_raw :: "board \<Rightarrow> char \<Rightarrow> mcu \<Rightarrow> mcu option" where
  "uart_putc_raw B c s = uart_write_blocking B [c] s"

definition CR :: char where "CR = CHR 0x0D"

text \<open>
  \<open>uart_char_to_line_feed\<close> is set up in uart.c; it holds a character, or a value outside the
  range of \<open>char\<close>, which is \<open>None\<close>.
\<close>

definition uart_putc :: "board \<Rightarrow> char \<Rightarrow> mcu \<Rightarrow> mcu option" where
  "uart_putc B c s =
     (if uart_line_feed s = Some c
      then Option.bind (uart_putc_raw B CR s) (uart_putc_raw B c)
      else uart_putc_raw B c s)"

fun puts_loop :: "board \<Rightarrow> bool \<Rightarrow> string \<Rightarrow> mcu \<Rightarrow> mcu option" where
  "puts_loop B last_was_cr [] s = Some s"
| "puts_loop B last_was_cr (c # cs) s =
     (case (if last_was_cr then uart_putc_raw B c s else uart_putc B c s) of
        None \<Rightarrow> None
      | Some s \<Rightarrow> puts_loop B (c = CR) cs s)"

definition uart_puts :: "board \<Rightarrow> string \<Rightarrow> mcu \<Rightarrow> mcu option" where
  "uart_puts B str s = puts_loop B False str s"

section \<open>Receiving a byte that is there\<close>

lemma wait_readable_ready:
  "rx_fifo s \<noteq> [] \<Longrightarrow> wait_readable B s
     = Some (s\<lparr>rx_fifo := rx_fifo s @ uart_rx_at B (reads s), reads := Suc (reads s)\<rparr>)"
  by (subst wait_readable.simps) (simp add: uart_is_readable_def tick_def Let_def)

lemma uart_getc_ready:
  "rx_fifo s \<noteq> [] \<Longrightarrow> uart_getc B s = Some (hd (rx_fifo s),
     s\<lparr>rx_fifo := tl (rx_fifo s) @ uart_rx_at B (reads s), reads := Suc (reads s)\<rparr>)"
  by (simp add: uart_getc_def wait_readable_ready)

section \<open>Sending\<close>

definition drains :: "board \<Rightarrow> bool" where
  "drains B \<longleftrightarrow> (\<forall>n. \<exists>m\<ge>n. uart_writable_at B m)"

lemma write_sends:
  assumes "drains B"
  shows "\<exists>k. uart_write_blocking B src s
    = Some (s\<lparr>reads := k, calls := calls s @ map Uart_tx src\<rparr>)"
proof (induction src arbitrary: s)
  case Nil
  show ?case by (rule exI [of _ "reads s"]) simp
next
  case (Cons c src)
  obtain m where "reads s \<le> m" "uart_writable_at B m" using assms by (auto simp: drains_def)
  then obtain n where "first_ready (uart_writable_at B) (reads s) n"
    using first_ready_exists by blast
  then have p: "poll_until (uart_writable_at B) s = Some (s\<lparr>reads := Suc n\<rparr>)"
    by (rule poll_until_first)
  obtain k where "uart_write_blocking B src (emit (Uart_tx c) (s\<lparr>reads := Suc n\<rparr>))
      = Some ((emit (Uart_tx c) (s\<lparr>reads := Suc n\<rparr>))\<lparr>reads := k,
          calls := calls (emit (Uart_tx c) (s\<lparr>reads := Suc n\<rparr>)) @ map Uart_tx src\<rparr>)"
    using Cons.IH by blast
  with p show ?case by (intro exI [of _ k]) (simp add: emit_def)
qed

lemma putc_raw_sends:
  "drains B \<Longrightarrow> \<exists>k. uart_putc_raw B c s = Some (s\<lparr>reads := k, calls := calls s @ [Uart_tx c]\<rparr>)"
  using write_sends [of B "[c]" s] by (simp add: uart_putc_raw_def)

lemma putc_sends:
  assumes "drains B"
  shows "\<exists>k. uart_putc B c s = Some (s\<lparr>reads := k, calls := calls s @
    map Uart_tx (if uart_line_feed s = Some c then [CR, c] else [c])\<rparr>)"
proof (cases "uart_line_feed s = Some c")
  case True
  obtain k where k: "uart_putc_raw B CR s = Some (s\<lparr>reads := k, calls := calls s @ [Uart_tx CR]\<rparr>)"
    using putc_raw_sends [OF assms] by blast
  obtain l where "uart_putc_raw B c (s\<lparr>reads := k, calls := calls s @ [Uart_tx CR]\<rparr>)
      = Some (s\<lparr>reads := l, calls := calls s @ [Uart_tx CR, Uart_tx c]\<rparr>)"
    using putc_raw_sends [OF assms, of c "s\<lparr>reads := k, calls := calls s @ [Uart_tx CR]\<rparr>"] by auto
  with True k show ?thesis by (simp add: uart_putc_def) blast
next
  case False
  with putc_raw_sends [OF assms] show ?thesis by (simp add: uart_putc_def)
qed

text \<open>What goes out for a string: a carriage return before each line feed that has none.\<close>

fun translated :: "char option \<Rightarrow> bool \<Rightarrow> string \<Rightarrow> string" where
  "translated lf last_was_cr [] = []"
| "translated lf last_was_cr (c # cs) =
     (if \<not> last_was_cr \<and> lf = Some c then [CR, c] else [c]) @ translated lf (c = CR) cs"

lemma translated_none: "translated None b cs = cs"
  by (induction cs arbitrary: b) simp_all

lemma puts_loop_sends:
  assumes "drains B"
  shows "\<exists>k. puts_loop B b cs s = Some (s\<lparr>reads := k,
    calls := calls s @ map Uart_tx (translated (uart_line_feed s) b cs)\<rparr>)"
proof (induction cs arbitrary: b s)
  case Nil
  show ?case by (rule exI [of _ "reads s"]) simp
next
  case (Cons c cs)
  define out where "out = (if \<not> b \<and> uart_line_feed s = Some c then [CR, c] else [c])"
  obtain k where k: "(if b then uart_putc_raw B c s else uart_putc B c s)
      = Some (s\<lparr>reads := k, calls := calls s @ map Uart_tx out\<rparr>)"
    using putc_raw_sends [OF assms, of c s] putc_sends [OF assms, of c s]
    by (cases b) (auto simp: out_def)
  obtain l where "puts_loop B (c = CR) cs (s\<lparr>reads := k, calls := calls s @ map Uart_tx out\<rparr>)
      = Some ((s\<lparr>reads := k, calls := calls s @ map Uart_tx out\<rparr>)\<lparr>reads := l,
         calls := (calls s @ map Uart_tx out) @ map Uart_tx (translated (uart_line_feed s) (c = CR) cs)\<rparr>)"
    using Cons.IH [of "c = CR" "s\<lparr>reads := k, calls := calls s @ map Uart_tx out\<rparr>"] by auto
  with k show ?case by (intro exI [of _ l]) (simp add: out_def)
qed

section \<open>Settings\<close>

lemma upd_uart_simps [simp]:
  "uarts (upd_uart u f s) v = (if v = u then f (uarts s u) else uarts s v)"
  "rx_fifo (upd_uart u f s) = rx_fifo s" "calls (upd_uart u f s) = calls s"
  "gpio_out (upd_uart u f s) = gpio_out s"
  by (simp_all add: upd_uart_def)

lemma enabled_bit: "uart_is_enabled u s \<longleftrightarrow> bit (uart_cr (uarts s u)) 0"
  using and_exp_eq_0_iff_not_bit [of "uart_cr (uarts s u)" 0]
  by (simp add: uart_is_enabled_def UART_UARTCR_UARTEN_BITS_def)

lemma flow_bits: "\<not> bit (UART_UARTCR_RTSEN_BITS OR UART_UARTCR_CTSEN_BITS) 0"
  by (simp add: UART_UARTCR_RTSEN_BITS_def UART_UARTCR_CTSEN_BITS_def)

section \<open>Properties\<close>

text \<open>
  \<open>uart_puts\<close> sends the whole string and nothing else, on a transmitter that drains again and
  again: unchanged when no line feed character is set, otherwise with one carriage return before
  every such character that does not already follow one.
\<close>

theorem puts_sends:
  assumes "drains B"
  shows "(\<exists>k. uart_puts B str s = Some (s\<lparr>reads := k,
      calls := calls s @ map Uart_tx (translated (uart_line_feed s) False str)\<rparr>))
    \<and> translated None False str = str"
  using puts_loop_sends [OF assms] by (simp add: uart_puts_def translated_none)

theorem puts_sends_witness:
  "\<exists>k. uart_puts ref_board ''AT'' reset_mcu
     = Some (reset_mcu\<lparr>reads := k, calls := [Uart_tx (CHR ''A''), Uart_tx (CHR ''T'')]\<rparr>)"
proof -
  have "drains ref_board" by (auto simp: drains_def)
  from puts_sends [OF this, of "''AT''" reset_mcu] show ?thesis by (simp add: reset_mcu_def)
qed

text \<open>
  The format, flow control, FIFO and break settings of an instance change only the fields
  they are for; the other instance and the enable bit stay as they were.
\<close>

theorem uart_settings_frame:
  assumes "s' \<in> {uart_set_format u d st p s, uart_set_hw_flow u cts rts s,
      uart_set_fifo_enabled u e s, uart_set_break u e s, uart_set_irq_enables u rx tx s}"
  shows "(\<forall>v. v \<noteq> u \<longrightarrow> uarts s' v = uarts s v) \<and> uart_is_enabled v s' = uart_is_enabled v s
    \<and> rx_fifo s' = rx_fifo s \<and> calls s' = calls s \<and> gpio_out s' = gpio_out s"
  using assms
  by (auto simp: uart_set_format_def uart_set_hw_flow_def uart_set_fifo_enabled_def
      uart_set_break_def uart_set_irq_enables_def Let_def enabled_bit bit_hw_write_masked flow_bits
      split: if_splits)

theorem uart_settings_frame_witness:
  "uart_is_enabled Uart0 (uart_set_hw_flow Uart0 True True reset_mcu) = uart_is_enabled Uart0 reset_mcu"
  using uart_settings_frame [of "uart_set_hw_flow Uart0 True True reset_mcu" Uart0 0 0
      UART_PARITY_NONE reset_mcu True True True True True Uart0] by simp

end
