(* ===== verification/Wifi.thy ===== *)
theory Wifi
  imports Uart Pico_Time
begin

text \<open>
  The wireless module of the glasses, wifi\_module.c and wifi\_module.h: an ESP-01S driven by AT
  commands over the UART. A command waits for an expected answer with a timeout; the answer is
  looked for in a buffer of 512 bytes. Waiting for the UART and flushing it are partial.
\<close>

section \<open>Constants\<close>

definition WIFI_SSID :: string where "WIFI_SSID = ''TP-Link_696E''"
definition WIFI_PASSWORD :: string where "WIFI_PASSWORD = ''28923412''"
definition BAUD_RATE :: u32 where "BAUD_RATE = 115200"
definition UART_TX_PIN :: u32 where "UART_TX_PIN = 0"
definition UART_RX_PIN :: u32 where "UART_RX_PIN = 1"
definition ESP_RST_PIN :: u32 where "ESP_RST_PIN = 16"

section \<open>Set-up\<close>

definition init_uart :: "board \<Rightarrow> mcu \<Rightarrow> mcu" where
  "init_uart B s =
     (let s = emit (Uart_init BAUD_RATE) s;
          s = gpio_set_function B UART_TX_PIN GPIO_FUNC_UART s
      in gpio_set_function B UART_RX_PIN GPIO_FUNC_UART s)"

definition init_esp_reset :: "board \<Rightarrow> mcu \<Rightarrow> mcu" where
  "init_esp_reset B s =
     (let s = gpio_init B ESP_RST_PIN s;
          s = gpio_set_dir ESP_RST_PIN GPIO_OUT s
      in gpio_put ESP_RST_PIN True s)"

definition hardware_reset_esp :: "mcu \<Rightarrow> mcu" where
  "hardware_reset_esp s =
     (let s = gpio_put ESP_RST_PIN False s;
          s = sleep_ms 100 s;
          s = gpio_put ESP_RST_PIN True s
      in sleep_ms 5000 s)"

partial_function (option) flush_uart_input :: "board \<Rightarrow> mcu \<Rightarrow> mcu option" where
  "flush_uart_input B s =
     (let (readable, s) = uart_is_readable B s in
      if readable
      then (case uart_getc B s of None \<Rightarrow> None | Some (c, s) \<Rightarrow> flush_uart_input B s)
      else Some s)"

section \<open>Waiting for an answer\<close>

text \<open>
  The loop of \<open>wait_for_response\<close>. \<open>buffer\<close> is the content of the array below \<open>pos\<close>; the test
  \<open>pos < sizeof(buffer) - 1\<close> keeps room for the terminating NUL.
\<close>

partial_function (option) response_loop ::
  "board \<Rightarrow> string \<Rightarrow> u32 \<Rightarrow> u32 \<Rightarrow> string \<Rightarrow> mcu \<Rightarrow> (bool \<times> mcu) option" where
  "response_loop B expected timeout_ms start buffer s =
     (let (now, s) = get_absolute_time B s in
      if to_ms_since_boot now - start < timeout_ms
      then
        (let (readable, s) = uart_is_readable B s in
         if readable
         then (case uart_getc B s of
                 None \<Rightarrow> None
               | Some (c, s) \<Rightarrow>
                   (let s = emit (Putchar c) s;
                        buffer = (if length buffer < 512 - 1 then buffer @ [c] else buffer)
                    in if strstr_found (c_str buffer) expected
                       then Some (True, printf (NL @ ''Found response: %s'' @ NL) [Str_arg expected] s)
                       else response_loop B expected timeout_ms start buffer (sleep_ms 1 s)))
         else response_loop B expected timeout_ms start buffer (sleep_ms 1 s))
      else
        (let s = printf (NL @ ''Timeout waiting for: %s'' @ NL) [Str_arg expected] s;
             s = printf (''Final buffer: %s'' @ NL) [Str_arg (c_str buffer)] s
         in Some (False, s)))"

definition wait_for_response :: "board \<Rightarrow> string \<Rightarrow> u32 \<Rightarrow> mcu \<Rightarrow> (bool \<times> mcu) option" where
  "wait_for_response B expected timeout_ms s =
     (let (now, s) = get_absolute_time B s;
          start = to_ms_since_boot now
      in response_loop B expected timeout_ms start [] s)"

definition send_at_command :: "board \<Rightarrow> string \<Rightarrow> string \<Rightarrow> mcu \<Rightarrow> mcu option" where
  "send_at_command B command expected_response s =
     (case flush_uart_input B s of None \<Rightarrow> None | Some s \<Rightarrow>
       (let s = printf (NL @ ''Sending: %s'' @ NL) [Str_arg command] s in
        case uart_puts B command s of None \<Rightarrow> None | Some s \<Rightarrow>
        case uart_puts B [CHR 0x0D, CHR 0x0A] s of None \<Rightarrow> None | Some s \<Rightarrow>
        case wait_for_response B expected_response 5000 s of None \<Rightarrow> None | Some (ok, s) \<Rightarrow>
          Some (if \<not> ok
                then printf (''Failed to get expected response for: %s'' @ NL) [Str_arg command] s
                else s)))"

section \<open>Connecting\<close>

fun at_retries :: "board \<Rightarrow> nat \<Rightarrow> mcu \<Rightarrow> mcu option" where
  "at_retries B 0 s = Some s"
| "at_retries B (Suc i) s =
     (case send_at_command B ''AT'' ''OK'' s of
        None \<Rightarrow> None
      | Some s \<Rightarrow> at_retries B i (sleep_ms 500 s))"

text \<open>\<open>"AT+CWJAP=\"%s\",\"%s\""\<close> with both arguments, cut to the buffer of 100 bytes.\<close>

definition QUOTE :: char where "QUOTE = CHR 0x22"

definition wifi_cmd :: string where
  "wifi_cmd = snprintf_text [] 100
     (''AT+CWJAP='' @ [QUOTE] @ WIFI_SSID @ [QUOTE, CHR '','', QUOTE] @ WIFI_PASSWORD @ [QUOTE])"

partial_function (option) got_ip_loop :: "board \<Rightarrow> u32 \<Rightarrow> mcu \<Rightarrow> (bool \<times> mcu) option" where
  "got_ip_loop B start s =
     (let (now, s) = get_absolute_time B s in
      if to_ms_since_boot now - start < 30000
      then (case wait_for_response B ''WIFI GOT IP'' 1000 s of
              None \<Rightarrow> None
            | Some (found, s) \<Rightarrow> if found then Some (True, s) else got_ip_loop B start s)
      else Some (False, s))"

definition connect_to_wifi :: "board \<Rightarrow> mcu \<Rightarrow> (bool \<times> mcu) option" where
  "connect_to_wifi B s =
     (let s = printf (''Initializing ESP-01S...'' @ NL) [] s;
          s = hardware_reset_esp s;
          s = sleep_ms 3000 s
      in case at_retries B 3 s of None \<Rightarrow> None | Some s \<Rightarrow>
         case send_at_command B ''AT+CWMODE=1'' ''OK'' s of None \<Rightarrow> None | Some s \<Rightarrow>
         (let s = sleep_ms 1000 s;
              s = printf (''Attempting WiFi connection...'' @ NL) [] s
          in case uart_puts B wifi_cmd s of None \<Rightarrow> None | Some s \<Rightarrow>
             case uart_puts B [CHR 0x0D, CHR 0x0A] s of None \<Rightarrow> None | Some s \<Rightarrow>
             (let (now, s) = get_absolute_time B s;
                  start = to_ms_since_boot now
              in got_ip_loop B start s)))"

section \<open>The record of calls only grows\<close>

definition extends :: "mcu \<Rightarrow> mcu \<Rightarrow> bool" where
  "extends s s' \<longleftrightarrow> (\<exists>cs. calls s' = calls s @ cs)"

lemma extends_refl [simp]: "extends s s"
  by (simp add: extends_def)

lemma extends_trans [trans]: "extends s t \<Longrightarrow> extends t u \<Longrightarrow> extends s u"
  by (auto simp: extends_def)

lemma extends_same: "calls s' = calls s \<Longrightarrow> extends s s'"
  by (simp add: extends_def)

lemma extends_emit: "extends s t \<Longrightarrow> extends s (emit k t)"
  by (auto simp: extends_def emit_def)

lemma poll_until_calls: "poll_until ready s = Some s' \<Longrightarrow> calls s' = calls s"
proof (rule poll_until.raw_induct [where P = "\<lambda>ready s s'. calls s' = calls s"], goal_cases)
  case (1 f ready s s')
  from 1(3) show ?case
    using 1(2) [of ready "tick s" s'] by (auto simp: tick_frame split: if_splits)
qed

lemma write_extends: "uart_write_blocking B src s = Some s' \<Longrightarrow> extends s s'"
proof (induction src arbitrary: s)
  case (Cons c src)
  then obtain t where t: "poll_until (uart_writable_at B) s = Some t"
    "uart_write_blocking B src (emit (Uart_tx c) t) = Some s'" by (auto split: option.splits)
  have "extends s (emit (Uart_tx c) t)"
    by (intro extends_emit extends_same poll_until_calls [OF t(1)])
  with Cons.IH [OF t(2)] show ?case by (rule extends_trans [rotated])
qed simp

lemma putc_extends: "uart_putc B c s = Some s' \<Longrightarrow> extends s s'"
  by (auto simp: uart_putc_def uart_putc_raw_def bind_eq_Some_conv split: if_splits
      dest: write_extends extends_trans simp del: uart_write_blocking.simps)

lemma puts_extends: "uart_puts B str s = Some s' \<Longrightarrow> extends s s'"
proof -
  have "puts_loop B b str s = Some s' \<Longrightarrow> extends s s'" for b
  proof (induction str arbitrary: b s)
    case (Cons c cs)
    then obtain t where t: "(if b then uart_putc_raw B c s else uart_putc B c s) = Some t"
      "puts_loop B (c = CR) cs t = Some s'" by (auto split: option.splits)
    have "extends s t" using t(1) putc_extends write_extends
      by (cases b) (auto simp: uart_putc_raw_def simp del: uart_write_blocking.simps)
    with Cons.IH [OF t(2)] show ?case by (rule extends_trans [rotated])
  qed simp
  then show "uart_puts B str s = Some s' \<Longrightarrow> extends s s'" by (simp add: uart_puts_def)
qed

lemma readable_calls: "calls (snd (uart_is_readable B s)) = calls s"
  by (simp add: uart_is_readable_def tick_def Let_def)

lemma getc_after_readable:
  assumes "uart_is_readable B s = (True, t)"
  shows "\<exists>c u. uart_getc B t = Some (c, u) \<and> calls u = calls s \<and> reads u = Suc (Suc (reads s))"
proof -
  have "rx_fifo t \<noteq> []" "calls t = calls s" "reads t = Suc (reads s)"
    using assms by (auto simp: uart_is_readable_def tick_def Let_def)
  then show ?thesis by (simp add: uart_getc_ready)
qed

lemma flush_calls: "flush_uart_input B s = Some s' \<Longrightarrow> calls s' = calls s"
proof (rule flush_uart_input.raw_induct [where P = "\<lambda>B s s'. calls s' = calls s"], goal_cases)
  case (1 f B s s')
  obtain r t where rt: "uart_is_readable B s = (r, t)" by fastforce
  have t: "calls t = calls s" using readable_calls [of B s] by (simp add: rt)
  show ?case
  proof (cases r)
    case True
    with rt have "uart_is_readable B s = (True, t)" by simp
    from getc_after_readable [OF this] obtain c u
      where u: "uart_getc B t = Some (c, u)" "calls u = calls s" by blast
    with 1(3) True rt have "f B u = Some s'" by simp
    from 1(2) [OF this] u show ?thesis by simp
  next
    case False
    with 1(3) rt t show ?thesis by simp
  qed
qed

section \<open>What a found answer means\<close>

text \<open>The bytes received, as echoed to the console.\<close>

fun echoed :: "call list \<Rightarrow> string" where
  "echoed [] = []"
| "echoed (Putchar c # cs) = c # echoed cs"
| "echoed (_ # cs) = echoed cs"

lemma echoed_append: "echoed (cs @ ds) = echoed cs @ echoed ds"
  by (induction cs rule: echoed.induct) simp_all

definition found_in :: "string \<Rightarrow> string \<Rightarrow> mcu \<Rightarrow> bool \<times> mcu \<Rightarrow> bool" where
  "found_in expected buffer s r \<longleftrightarrow> (\<exists>cs. calls (snd r) = calls s @ cs
     \<and> (fst r \<longrightarrow> strstr_found (c_str (take 511 (buffer @ echoed cs))) expected))"

lemma response_loop_found:
  assumes "response_loop B expected timeout_ms start buffer s = Some r" and "length buffer \<le> 511"
  shows "found_in expected buffer s r"
proof -
  have "length buffer \<le> 511 \<longrightarrow> found_in expected buffer s r"
  proof (rule response_loop.raw_induct [where
      P = "\<lambda>B expected timeout_ms start buffer s r. length buffer \<le> 511 \<longrightarrow> found_in expected buffer s r",
      OF _ assms(1)], intro impI, goal_cases)
    case (1 f B expected timeout_ms start buffer s r)
    obtain rd t where rt: "uart_is_readable B (tick s) = (rd, t)" by fastforce
    have t: "calls t = calls s" using readable_calls [of B "tick s"] by (simp add: rt tick_frame)
    note body = 1(2) [unfolded get_absolute_time_def update_us_since_boot_def prod.case Let_def]
    let ?now = "to_ms_since_boot (time_us_at B (reads s)) - start < timeout_ms"
    consider (late) "\<not> ?now" | (quiet) "?now" "\<not> rd" | (byte) "?now" rd by blast
    then show ?case
    proof cases
      case late
      with body show ?thesis by (auto simp: found_in_def emit_def tick_def)
    next
      case quiet
      with body rt have "f B expected timeout_ms start buffer (sleep_ms 1 t) = Some r" by simp
      with 1(1,3) have "found_in expected buffer (sleep_ms 1 t) r" by blast
      then show ?thesis using t by (auto simp: found_in_def emit_def)
    next
      case byte
      with rt have "uart_is_readable B (tick s) = (True, t)" by simp
      from getc_after_readable [OF this] obtain c u
        where u: "uart_getc B t = Some (c, u)" "calls u = calls s" by (auto simp: tick_frame)
      define buffer' where "buffer' = (if length buffer < 511 then buffer @ [c] else buffer)"
      have b: "buffer' = take 511 (buffer @ [c])" "length buffer' \<le> 511"
        using 1(3) by (auto simp: buffer'_def)
      have grow: "take 511 (buffer' @ e) = take 511 (buffer @ c # e)" for e
        using 1(3) by (cases "length buffer < 511") (auto simp: buffer'_def)
      show ?thesis
      proof (cases "strstr_found (c_str buffer') expected")
        case True
        with body byte rt u have "r = (True, printf (NL @ ''Found response: %s'' @ NL) [Str_arg expected]
            (emit (Putchar c) u))" by (simp flip: buffer'_def)
        with u True b show ?thesis by (auto simp: found_in_def emit_def)
      next
        case False
        with body byte rt u
        have "f B expected timeout_ms start buffer' (sleep_ms 1 (emit (Putchar c) u)) = Some r"
          by (simp flip: buffer'_def)
        with 1(1) b(2) have "found_in expected buffer' (sleep_ms 1 (emit (Putchar c) u)) r" by blast
        then show ?thesis using u by (auto simp: found_in_def emit_def grow simp del: take_append)
      qed
    qed
  qed
  with assms(2) show ?thesis by blast
qed

lemma wait_found:
  assumes "wait_for_response B expected timeout_ms s = Some r"
  shows "found_in expected [] s r"
proof -
  have "response_loop B expected timeout_ms (to_ms_since_boot (time_us_at B (reads s))) [] (tick s) = Some r"
    using assms by (simp add: wait_for_response_def get_absolute_time_def update_us_since_boot_def)
  then have "found_in expected [] (tick s) r" by (rule response_loop_found) simp
  then show ?thesis by (simp add: found_in_def tick_frame)
qed

lemma found_sublist:
  assumes "strstr_found (c_str (take 511 bytes)) expected"
  shows "sublist expected (take 511 bytes)"
proof -
  have "prefix (c_str (take 511 bytes)) (take 511 bytes)"
    unfolding c_str_def by (rule prefixI [OF takeWhile_dropWhile_id [symmetric]])
  with assms show ?thesis
    by (auto simp: strstr_found_sublist dest: prefix_imp_sublist sublist_order.order_trans)
qed

lemma wait_extends: "wait_for_response B expected timeout_ms s = Some (ok, s') \<Longrightarrow> extends s s'"
  using wait_found by (fastforce simp: found_in_def extends_def)

lemma send_extends: "send_at_command B command expected s = Some s' \<Longrightarrow> extends s s'"
proof -
  assume send: "send_at_command B command expected s = Some s'"
  obtain s1 where 1: "flush_uart_input B s = Some s1"
    using send by (auto simp: send_at_command_def split: option.splits)
  let ?s1 = "printf (NL @ ''Sending: %s'' @ NL) [Str_arg command] s1"
  obtain s2 where 2: "uart_puts B command ?s1 = Some s2"
    using send 1 by (auto simp: send_at_command_def split: option.splits)
  obtain s3 where 3: "uart_puts B [CHR 0x0D, CHR 0x0A] s2 = Some s3"
    using send 1 2 by (auto simp: send_at_command_def split: option.splits)
  obtain ok s4 where 4: "wait_for_response B expected 5000 s3 = Some (ok, s4)"
    using send 1 2 3 by (auto simp: send_at_command_def split: option.splits)
  have "extends s ?s1" by (intro extends_emit extends_same flush_calls [OF 1])
  also have "extends ?s1 s2" by (rule puts_extends [OF 2])
  also have "extends s2 s3" by (rule puts_extends [OF 3])
  also have "extends s3 s4" by (rule wait_extends [OF 4])
  finally have "extends s s4" .
  moreover have "s' = (if \<not> ok then printf (''Failed to get expected response for: %s'' @ NL)
      [Str_arg command] s4 else s4)"
    using send 1 2 3 4 by (simp add: send_at_command_def)
  ultimately show "extends s s'" by (simp add: extends_emit)
qed

lemma retries_extends: "at_retries B n s = Some s' \<Longrightarrow> extends s s'"
proof (induction n arbitrary: s)
  case (Suc n)
  then obtain t where t: "send_at_command B ''AT'' ''OK'' s = Some t"
    "at_retries B n (sleep_ms 500 t) = Some s'" by (auto split: option.splits)
  have "extends s (sleep_ms 500 t)" by (intro extends_emit send_extends [OF t(1)])
  with Suc.IH [OF t(2)] show ?case by (rule extends_trans [rotated])
qed simp

text \<open>The bytes received since a state, and a text seen among them.\<close>

definition saw :: "string \<Rightarrow> mcu \<Rightarrow> mcu \<Rightarrow> bool" where
  "saw txt s s' \<longleftrightarrow> (\<exists>cs. calls s' = calls s @ cs \<and> sublist txt (echoed cs))"

lemma saw_after: "extends s t \<Longrightarrow> saw txt t u \<Longrightarrow> saw txt s u"
  by (auto simp: extends_def saw_def echoed_append intro: sublist_order.order_trans [OF _ suffix_imp_sublist [OF suffixI]])

lemma wait_saw: "wait_for_response B expected timeout_ms s = Some (True, s') \<Longrightarrow> saw expected s s'"
proof -
  assume "wait_for_response B expected timeout_ms s = Some (True, s')"
  from wait_found [OF this] obtain cs where "calls s' = calls s @ cs"
    and "sublist expected (take 511 (echoed cs))"
    by (auto simp: found_in_def dest: found_sublist)
  moreover have "sublist (take 511 (echoed cs)) (echoed cs)" by simp
  ultimately show ?thesis unfolding saw_def using sublist_order.order_trans by blast
qed

lemma got_ip_saw:
  assumes "got_ip_loop B start s = Some r"
  shows "fst r \<longrightarrow> saw ''WIFI GOT IP'' s (snd r)"
proof (rule got_ip_loop.raw_induct [where P = "\<lambda>B start s r. fst r \<longrightarrow> saw ''WIFI GOT IP'' s (snd r)",
    OF _ assms], goal_cases)
  case (1 f B start s r)
  note body = 1(2) [unfolded get_absolute_time_def update_us_since_boot_def prod.case Let_def]
  show ?case
  proof (cases "to_ms_since_boot (time_us_at B (reads s)) - start < 30000")
    case True
    with body obtain found t where w: "wait_for_response B ''WIFI GOT IP'' 1000 (tick s) = Some (found, t)"
      by (auto split: option.splits)
    show ?thesis
    proof (cases found)
      case True
      with w have "saw ''WIFI GOT IP'' (tick s) t" by (intro wait_saw) simp
      then have "saw ''WIFI GOT IP'' s t" by (simp add: saw_def tick_frame)
      moreover have "r = (True, t)" using body w \<open>_ < 30000\<close> True by simp
      ultimately show ?thesis by simp
    next
      case False
      with body w \<open>_ < 30000\<close> have "f B start t = Some r" by simp
      from 1(1) [OF this] have "fst r \<longrightarrow> saw ''WIFI GOT IP'' t (snd r)" .
      moreover have "extends s t" using wait_extends [OF w] by (simp add: extends_def tick_frame)
      ultimately show ?thesis using saw_after by blast
    qed
  next
    case False
    with body show ?thesis by auto
  qed
qed

section \<open>The timeout\<close>

text \<open>The 32-bit difference of two millisecond clocks, for times less than 49 days apart.\<close>

lemma ms_elapsed:
  assumes "unat a \<le> unat b" and "unat b - unat a < 4000000000000"
  shows "unat (to_ms_since_boot b - to_ms_since_boot a) = unat b div 1000 - unat a div 1000"
proof -
  define m n where "m = unat b div 1000" and "n = unat a div 1000"
  have le: "n \<le> m" unfolding m_def n_def by (rule div_le_mono [OF assms(1)])
  have "m \<le> (unat a + 4000000000000) div 1000"
    unfolding m_def by (rule div_le_mono) (use assms in linarith)
  then have d: "m - n < 4294967296" unfolding n_def by simp
  have "to_ms_since_boot b = of_nat m" "to_ms_since_boot a = of_nat n"
    by (simp_all add: m_def n_def to_ms_since_boot_def to_us_since_boot_def word_unat_eq_iff
        unat_us_to_ms unat_of_nat take_bit_eq_mod)
  then have "to_ms_since_boot b - to_ms_since_boot a = of_nat (m - n)"
    using le by (simp add: of_nat_diff)
  then show ?thesis using d by (simp add: unat_of_nat take_bit_nat_eq_self m_def n_def)
qed

lemma response_loop_returns:
  assumes clock: "steady_clock B" and small: "unat timeout_ms \<le> 1000000" "unat a < 2305843009213693952"
    and later: "unat a \<le> clock_at B (reads s)"
    and near: "clock_at B (reads s) \<le> unat a + 1000 * unat timeout_ms + 5000000"
  shows "\<exists>r. response_loop B expected timeout_ms (to_ms_since_boot a) buffer s = Some r"
proof -
  define limit where "limit = unat a + 1000 * unat timeout_ms + 1000"
  have "limit < 4611686018427387904" using small by (simp add: limit_def)
  then obtain m where m: "limit < clock_at B m" using steady_passes [OF clock] by blast
  from later near show ?thesis
  proof (induction "m - reads s" arbitrary: s buffer rule: less_induct)
    case less
    let ?n = "reads s"
    have el: "unat (to_ms_since_boot (time_us_at B ?n) - to_ms_since_boot a)
        = clock_at B ?n div 1000 - unat a div 1000"
      using less.prems small by (subst ms_elapsed) (simp_all add: clock_at_def)
    show ?case
    proof (cases "clock_at B ?n \<le> limit")
      case False
      then have "unat timeout_ms \<le> clock_at B ?n div 1000 - unat a div 1000"
        by (simp add: limit_def)
      then have "\<not> to_ms_since_boot (time_us_at B ?n) - to_ms_since_boot a < timeout_ms"
        using el by (simp add: word_less_nat_alt)
      then show ?thesis
        by (subst response_loop.simps) (auto simp: get_absolute_time_def update_us_since_boot_def)
    next
      case True
      then have nm: "?n < m" using m steady_mono [OF clock, of m ?n] by linarith
      have s1: "clock_at B (Suc ?n) \<le> clock_at B ?n + 1000000"
        using steady_step [OF clock, of ?n] True small by (simp add: limit_def)
      have s2: "clock_at B (Suc (Suc ?n)) \<le> clock_at B (Suc ?n) + 1000000"
        using steady_step [OF clock, of "Suc ?n"] s1 True small by (simp add: limit_def)
      have s3: "clock_at B (Suc (Suc (Suc ?n))) \<le> clock_at B (Suc (Suc ?n)) + 1000000"
        using steady_step [OF clock, of "Suc (Suc ?n)"] s1 s2 True small by (simp add: limit_def)
      have again: "\<exists>r. response_loop B expected timeout_ms (to_ms_since_boot a) buf t = Some r"
        if "reads t = Suc (Suc ?n) \<or> reads t = Suc (Suc (Suc ?n))" for t buf
      proof (rule less.hyps)
        show "m - reads t < m - ?n" using that nm by linarith
        have "clock_at B ?n \<le> clock_at B (reads t)"
          using that by (intro steady_mono [OF clock]) linarith
        then show "unat a \<le> clock_at B (reads t)" using less.prems(1) by linarith
        show "clock_at B (reads t) \<le> unat a + 1000 * unat timeout_ms + 5000000"
          using that s1 s2 s3 True by (auto simp: limit_def)
      qed
      obtain rd t where rt: "uart_is_readable B (tick s) = (rd, t)" by fastforce
      have t: "reads t = Suc (Suc ?n)"
        using rt by (auto simp: uart_is_readable_def tick_def Let_def)
      show ?thesis
      proof (cases rd)
        case False
        with rt again [of "sleep_ms 1 t" buffer] t show ?thesis
          by (subst response_loop.simps)
            (auto simp add: get_absolute_time_def update_us_since_boot_def Let_def emit_frame)
      next
        case True
        with rt have "uart_is_readable B (tick s) = (True, t)" by simp
        from getc_after_readable [OF this] obtain c u
          where u: "uart_getc B t = Some (c, u)" "reads u = Suc (Suc (Suc ?n))"
          by (auto simp: tick_frame)
        with True rt again [of "sleep_ms 1 (emit (Putchar c) u)"] show ?thesis
          by (subst response_loop.simps)
            (auto simp add: get_absolute_time_def update_us_since_boot_def Let_def emit_frame)
      qed
    qed
  qed
qed

lemma wait_returns_aux:
  assumes "steady_clock B" and "unat timeout_ms \<le> 1000000"
    and "clock_at B (reads s) < 2305843009213693952"
  shows "\<exists>r. wait_for_response B expected timeout_ms s = Some r"
proof -
  have "clock_at B (Suc (reads s)) \<le> clock_at B (reads s) + 1000000"
    using steady_step [OF assms(1), of "reads s"] assms(3) by simp
  moreover have "clock_at B (reads s) \<le> clock_at B (Suc (reads s))"
    by (rule steady_mono [OF assms(1)]) simp
  ultimately have "\<exists>r. response_loop B expected timeout_ms (to_ms_since_boot (time_us_at B (reads s))) []
      (tick s) = Some r"
    using assms by (intro response_loop_returns) (simp_all add: tick_frame clock_at_def)
  then show ?thesis
    by (simp add: wait_for_response_def get_absolute_time_def update_us_since_boot_def)
qed

section \<open>An answer that arrives in time\<close>

text \<open>
  The bytes of the answer wait in the receive buffer, no others follow, and the clock does not
  reach the timeout: the loop takes them one by one and finds the answer with the last.
\<close>

lemma short_not_found: "length b < length e \<Longrightarrow> NUL \<notin> set b \<Longrightarrow> \<not> strstr_found (c_str b) e"
  by (auto simp: c_str_id strstr_found_sublist dest: sublist_length_le)

lemma response_loop_consumes:
  assumes "expected = buffer @ rx_fifo s" and "rx_fifo s \<noteq> []" and "NUL \<notin> set expected"
    and "length expected \<le> 511" and "\<forall>n \<ge> reads s. uart_rx_at B n = []"
    and "\<forall>n \<ge> reads s. to_ms_since_boot (time_us_at B n) - start < timeout_ms"
  shows "\<exists>s'. response_loop B expected timeout_ms start buffer s = Some (True, s')"
  using assms
proof (induction "rx_fifo s" arbitrary: s buffer)
  case (Cons c cs)
  let ?t = "(tick s)\<lparr>rx_fifo := c # cs, reads := Suc (Suc (reads s))\<rparr>"
  let ?u = "(tick s)\<lparr>rx_fifo := cs, reads := Suc (Suc (Suc (reads s)))\<rparr>"
  have rx: "uart_rx_at B (Suc (reads s)) = []" "uart_rx_at B (Suc (Suc (reads s))) = []"
    using Cons.prems(5) by simp_all
  have rt: "uart_is_readable B (tick s) = (True, ?t)"
    using Cons.hyps(2) rx by (simp add: uart_is_readable_def tick_def Let_def flip: Cons.hyps(2))
  have u: "uart_getc B ?t = Some (c, ?u)"
    using rx by (simp add: uart_getc_ready)
  have len: "length buffer < 511"
    using Cons.prems(1,4) by (simp flip: Cons.hyps(2))
  have now: "to_ms_since_boot (time_us_at B (reads s)) - start < timeout_ms"
    using Cons.prems(6) by simp
  have step: "response_loop B expected timeout_ms start buffer s =
      (if strstr_found (c_str (buffer @ [c])) expected
       then Some (True, printf (NL @ ''Found response: %s'' @ NL) [Str_arg expected] (emit (Putchar c) ?u))
       else response_loop B expected timeout_ms start (buffer @ [c]) (sleep_ms 1 (emit (Putchar c) ?u)))"
    using rt u len now
    by (subst response_loop.simps) (simp add: get_absolute_time_def update_us_since_boot_def Let_def)
  show ?case
  proof (cases "cs = []")
    case True
    then have e: "expected = buffer @ [c]" using Cons.prems(1) by (simp flip: Cons.hyps(2))
    have "strstr_found (c_str (buffer @ [c])) expected"
      using Cons.prems(3) by (simp add: e c_str_id strstr_found_sublist)
    with step show ?thesis by simp
  next
    case False
    let ?v = "sleep_ms 1 (emit (Putchar c) ?u)"
    have "\<exists>s'. response_loop B expected timeout_ms start (buffer @ [c]) ?v = Some (True, s')"
    proof (rule Cons.hyps(1))
      show "cs = rx_fifo ?v" by (simp add: emit_frame)
      show "expected = (buffer @ [c]) @ rx_fifo ?v"
        using Cons.prems(1) by (simp add: emit_frame flip: Cons.hyps(2))
    qed (use False Cons.prems in \<open>simp_all add: emit_frame\<close>)
    moreover have "\<not> strstr_found (c_str (buffer @ [c])) expected"
      using False Cons.prems(1,3)
      by (intro short_not_found) (auto simp flip: Cons.hyps(2))
    ultimately show ?thesis using step by simp
  qed
qed simp

section \<open>Properties\<close>

text \<open>
  Waiting for an answer always ends: with a steady clock and a timeout of at most a thousand
  seconds \<open>wait_for_response\<close> returns, whatever bytes arrive, although the elapsed time is computed
  with 32-bit milliseconds that wrap.
\<close>

theorem response_wait_ends:
  assumes "steady_clock B" and "unat timeout_ms \<le> 1000000"
    and "clock_at B (reads s) < 2305843009213693952"
  shows "\<exists>found s'. wait_for_response B expected timeout_ms s = Some (found, s')"
  using wait_returns_aux [OF assms] by simp

theorem response_wait_ends_witness:
  "\<exists>found s'. wait_for_response ref_board ''OK'' 5000 reset_mcu = Some (found, s')"
  by (rule response_wait_ends [OF steady_ref_board]) (simp_all add: clock_at_def reset_mcu_def)

text \<open>
  C24: a found answer was received: if \<open>wait_for_response\<close> returns true, the expected text occurs
  among the first 511 bytes received during the call. An answer that only comes after 511 other
  bytes is therefore never found, since the full buffer drops every further byte.
\<close>

theorem response_within_buffer:
  assumes "wait_for_response B expected timeout_ms s = Some (True, s')"
  shows "\<exists>cs. calls s' = calls s @ cs \<and> sublist expected (take 511 (echoed cs))"
  using wait_found [OF assms] by (auto simp: found_in_def dest: found_sublist)

text \<open>A board on which three bytes arrive at once.\<close>

definition talking_board :: board where
  "talking_board = ref_board\<lparr>uart_rx_at := \<lambda>n. if n = 2 then ''OK!'' else []\<rparr>"

lemma talking_board_found: "\<exists>s'. wait_for_response talking_board ''OK'' 5000 reset_mcu = Some (True, s')"
proof -
  have found: "\<not> strstr_found (c_str ''O'') ''OK''" "strstr_found (c_str ''OK'') ''OK''"
    by (simp_all add: strstr_found_sublist c_str_def NUL_def sublist_code)
  show ?thesis
    unfolding wait_for_response_def
    by (simp add: get_absolute_time_def response_loop.simps [of _ _ _ _ "[]"]
        response_loop.simps [of _ _ _ _ "''O''"] uart_is_readable_def uart_getc_ready Let_def
        tick_def emit_def found talking_board_def reset_mcu_def update_us_since_boot_def
        to_ms_since_boot_def to_us_since_boot_def us_to_ms_def)
qed

theorem response_within_buffer_witness:
  "\<exists>s' cs. wait_for_response talking_board ''OK'' 5000 reset_mcu = Some (True, s')
     \<and> calls s' = calls reset_mcu @ cs \<and> sublist ''OK'' (take 511 (echoed cs))"
proof -
  obtain s' where w: "wait_for_response talking_board ''OK'' 5000 reset_mcu = Some (True, s')"
    using talking_board_found by blast
  from response_within_buffer [OF w] w show ?thesis by blast
qed

text \<open>
  \<open>connect_to_wifi\<close> reports success only if the module sent "WIFI GOT IP" during the call; the
  answers to the commands before it decide nothing.
\<close>

theorem connected_means_got_ip:
  assumes "connect_to_wifi B s = Some (True, s')"
  shows "\<exists>cs. calls s' = calls s @ cs \<and> sublist ''WIFI GOT IP'' (echoed cs)"
proof -
  let ?s0 = "sleep_ms 3000 (hardware_reset_esp (printf (''Initializing ESP-01S...'' @ NL) [] s))"
  obtain s1 where 1: "at_retries B 3 ?s0 = Some s1"
    using assms by (auto simp: connect_to_wifi_def Let_def split: option.splits)
  obtain s2 where 2: "send_at_command B ''AT+CWMODE=1'' ''OK'' s1 = Some s2"
    using assms 1 by (auto simp: connect_to_wifi_def Let_def split: option.splits)
  let ?s2 = "printf (''Attempting WiFi connection...'' @ NL) [] (sleep_ms 1000 s2)"
  obtain s3 where 3: "uart_puts B wifi_cmd ?s2 = Some s3"
    using assms 1 2 by (auto simp: connect_to_wifi_def Let_def split: option.splits)
  obtain s4 where 4: "uart_puts B [CHR 0x0D, CHR 0x0A] s3 = Some s4"
    using assms 1 2 3 by (auto simp: connect_to_wifi_def Let_def split: option.splits)
  have 5: "got_ip_loop B (to_ms_since_boot (time_us_at B (reads s4))) (tick s4) = Some (True, s')"
    using assms 1 2 3 4
    by (simp add: connect_to_wifi_def Let_def get_absolute_time_def update_us_since_boot_def)
  have "extends s ?s0"
    by (simp add: extends_def hardware_reset_esp_def Let_def emit_frame gpio_put_frame)
  also have "extends ?s0 s1" by (rule retries_extends [OF 1])
  also have "extends s1 ?s2" by (intro extends_emit send_extends [OF 2])
  also have "extends ?s2 s3" by (rule puts_extends [OF 3])
  also have "extends s3 s4" by (rule puts_extends [OF 4])
  finally have "extends s s4" .
  then have "extends s (tick s4)" by (simp add: extends_def tick_frame)
  moreover have "saw ''WIFI GOT IP'' (tick s4) s'" using got_ip_saw [OF 5] by simp
  ultimately show ?thesis using saw_after unfolding saw_def by blast
qed

text \<open>
  An answer that is there is found: if, when the wait starts, exactly the expected text (at
  most 511 bytes, none of them NUL) waits in the receive buffer, no more bytes come and the clock
  does not reach the timeout, \<open>wait_for_response\<close> returns true.
\<close>

theorem answer_is_found:
  assumes "rx_fifo s = expected" and "expected \<noteq> []" and "NUL \<notin> set expected"
    and "length expected \<le> 511" and "\<forall>n \<ge> reads s. uart_rx_at B n = []"
    and "\<forall>n \<ge> reads s. to_ms_since_boot (time_us_at B n)
      - to_ms_since_boot (time_us_at B (reads s)) < timeout_ms"
  shows "\<exists>s'. wait_for_response B expected timeout_ms s = Some (True, s')"
  using assms response_loop_consumes [of expected "[]" "tick s" B
      "to_ms_since_boot (time_us_at B (reads s))" timeout_ms]
  by (simp add: wait_for_response_def get_absolute_time_def update_us_since_boot_def tick_frame)

theorem answer_is_found_witness:
  "\<exists>s'. wait_for_response (ref_board\<lparr>time_us_at := \<lambda>_. 7\<rparr>) ''OK'' 5000 (reset_mcu\<lparr>rx_fifo := ''OK''\<rparr>)
     = Some (True, s')"
  by (rule answer_is_found) (simp_all add: NUL_def)

end
