(* ===== verification/Gyroscope.thy ===== *)
theory Gyroscope
  imports Sdk_Docs C_Float
begin

text \<open>
  The gyroscope of the glasses, gyroscope.c and gyroscope.h: the sensor's registers over I2C, the
  conversion to degrees per second, the calibration, and the state machine that turns rotations
  into steering. The I2C transfers are the board's: what they return is an input, the bytes they
  send are recorded.
\<close>

section \<open>Data\<close>

definition WHO_AM_I :: u8 where "WHO_AM_I = 0x0F"
definition CTRL1_XL :: u8 where "CTRL1_XL = 0x10"
definition CTRL2_G :: u8 where "CTRL2_G = 0x11"
definition OUTX_L_G :: u8 where "OUTX_L_G = 0x22"
definition OUTX_H_G :: u8 where "OUTX_H_G = 0x23"
definition OUTY_L_G :: u8 where "OUTY_L_G = 0x24"
definition OUTY_H_G :: u8 where "OUTY_H_G = 0x25"
definition OUTZ_L_G :: u8 where "OUTZ_L_G = 0x26"
definition OUTZ_H_G :: u8 where "OUTZ_H_G = 0x27"
definition LSM6DSL_ADDR :: u8 where "LSM6DSL_ADDR = 0x6A"
definition EPSILON :: rat where "EPSILON = fl32 (5 / 100)"

record LSM6DSL_Config =
  i2c_port :: nat
  device_address :: u8

datatype OrientationState = STATE_CENTER | STATE_LEFT | STATE_RIGHT | STATE_INIT | STATE_ERROR

fun state_number :: "OrientationState \<Rightarrow> int" where
  "state_number STATE_CENTER = 0"
| "state_number STATE_LEFT = 1"
| "state_number STATE_RIGHT = 2"
| "state_number STATE_INIT = 3"
| "state_number STATE_ERROR = 4"

text \<open>The machine state with the file's two static variables.\<close>

record gyro =
  ghw :: mcu
  gyroZ_offset :: rat
  currentState :: OrientationState

definition on_ghw :: "(mcu \<Rightarrow> mcu) \<Rightarrow> gyro \<Rightarrow> gyro" where
  "on_ghw f g = g\<lparr>ghw := f (ghw g)\<rparr>"

section \<open>Registers\<close>

definition i2c_write_blocking :: "board \<Rightarrow> u8 \<Rightarrow> u8 list \<Rightarrow> bool \<Rightarrow> mcu \<Rightarrow> int \<times> mcu" where
  "i2c_write_blocking B addr src nostop s =
     (i2c_write_at B (reads s) addr src, tick (emit (I2c_write addr src nostop) s))"

definition i2c_read_blocking :: "board \<Rightarrow> u8 \<Rightarrow> nat \<Rightarrow> bool \<Rightarrow> mcu \<Rightarrow> (int \<times> (nat \<Rightarrow> u8)) \<times> mcu" where
  "i2c_read_blocking B addr len nostop s =
     (i2c_read_at B (calls s) (reads s) addr len, tick (emit (I2c_read addr len nostop) s))"

definition lsm6dsl_read_register :: "board \<Rightarrow> LSM6DSL_Config \<Rightarrow> u8 \<Rightarrow> mcu \<Rightarrow> u8 \<times> mcu" where
  "lsm6dsl_read_register B config reg s =
     (let (n, s) = i2c_write_blocking B (device_address config) [reg] True s
      in if n \<noteq> 1 then (0xFF, s)
         else (let ((m, data), s) = i2c_read_blocking B (device_address config) 1 False s
               in if m \<noteq> 1 then (0xFF, s) else (data 0, s)))"

definition lsm6dsl_write_register :: "board \<Rightarrow> LSM6DSL_Config \<Rightarrow> u8 \<Rightarrow> u8 \<Rightarrow> mcu \<Rightarrow> bool \<times> mcu" where
  "lsm6dsl_write_register B config reg value s =
     (let (n, s) = i2c_write_blocking B (device_address config) [reg, value] False s in (n = 2, s))"

definition lsm6dsl_init :: "board \<Rightarrow> LSM6DSL_Config \<Rightarrow> mcu \<Rightarrow> bool \<times> mcu" where
  "lsm6dsl_init B config s =
     (let s = printf (''Reading WHO_AM_I register...'' @ NL) [] s;
          (who_am_i, s) = lsm6dsl_read_register B config WHO_AM_I s;
          s = printf (''WHO_AM_I value: 0x%02X'' @ NL) [Int_arg (uint who_am_i)] s
      in if who_am_i \<noteq> 0x6C then (False, printf (''Error: LSM6DSL not detected.'' @ NL) [] s)
         else
           (let s = printf (''WHO_AM_I verified. Configuring sensor...'' @ NL) [] s;
                (ok, s) = lsm6dsl_write_register B config CTRL1_XL 0x40 s
            in if \<not> ok then (False, printf (''Failed to configure CTRL1_XL.'' @ NL) [] s)
               else
                 (let (ok, s) = lsm6dsl_write_register B config CTRL2_G 0x40 s
                  in if \<not> ok then (False, printf (''Failed to configure CTRL2_G.'' @ NL) [] s)
                     else (True, printf (''LSM6DSL initialized successfully.'' @ NL) [] s))))"

text \<open>\<open>(int16_t)((xh << 8) | xl)\<close>.\<close>

definition int16_of :: "u8 \<Rightarrow> u8 \<Rightarrow> s16" where
  "int16_of h l = push_bit 8 (ucast h) OR ucast l"

text \<open>The result is the returned truth value with the three values stored.\<close>

definition lsm6dsl_read_gyro ::
  "board \<Rightarrow> LSM6DSL_Config \<Rightarrow> mcu \<Rightarrow> (bool \<times> s16 \<times> s16 \<times> s16) \<times> mcu" where
  "lsm6dsl_read_gyro B config s =
     (let (xl, s) = lsm6dsl_read_register B config OUTX_L_G s;
          (xh, s) = lsm6dsl_read_register B config OUTX_H_G s;
          (yl, s) = lsm6dsl_read_register B config OUTY_L_G s;
          (yh, s) = lsm6dsl_read_register B config OUTY_H_G s;
          (zl, s) = lsm6dsl_read_register B config OUTZ_L_G s;
          (zh, s) = lsm6dsl_read_register B config OUTZ_H_G s
      in ((True, int16_of xh xl, int16_of yh yl, int16_of zh zl), s))"

section \<open>Angular rates\<close>

definition lsm6dsl_convert_gyro_to_dps :: "s16 \<Rightarrow> rat" where
  "lsm6dsl_convert_gyro_to_dps raw = f_mul (fl32 (of_int (sint raw))) (fl32 (875 / 100000))"

definition gyroscope_isUp1 :: "rat \<Rightarrow> rat \<Rightarrow> rat \<Rightarrow> bool" where
  "gyroscope_isUp1 x y z \<longleftrightarrow> \<bar>x\<bar> < EPSILON \<and> \<bar>y\<bar> < EPSILON \<and> 0 < z"

definition gyroscope_isDown1 :: "rat \<Rightarrow> rat \<Rightarrow> rat \<Rightarrow> bool" where
  "gyroscope_isDown1 x y z \<longleftrightarrow> \<bar>x\<bar> < EPSILON \<and> \<bar>y\<bar> < EPSILON \<and> z < 0"

definition gyroscope_isLeft1 :: "rat \<Rightarrow> rat \<Rightarrow> rat \<Rightarrow> bool" where
  "gyroscope_isLeft1 x y z \<longleftrightarrow> \<bar>z\<bar> < EPSILON \<and> x < 0 \<and> \<bar>y\<bar> < EPSILON"

definition gyroscope_isRight1 :: "rat \<Rightarrow> rat \<Rightarrow> rat \<Rightarrow> bool" where
  "gyroscope_isRight1 x y z \<longleftrightarrow> \<bar>z\<bar> < EPSILON \<and> 0 < x \<and> \<bar>y\<bar> < EPSILON"

section \<open>Calibration\<close>

fun calibration_loop :: "board \<Rightarrow> LSM6DSL_Config \<Rightarrow> nat \<Rightarrow> rat \<Rightarrow> mcu \<Rightarrow> rat \<times> mcu" where
  "calibration_loop B config 0 sumZ s = (sumZ, s)"
| "calibration_loop B config (Suc i) sumZ s =
     (let ((ok, rawX, rawY, rawZ), s) = lsm6dsl_read_gyro B config s;
          sumZ = (if ok then f_add sumZ (lsm6dsl_convert_gyro_to_dps rawZ) else sumZ);
          s = sleep_ms 10 s
      in calibration_loop B config i sumZ s)"

definition calibrateGyroscope :: "board \<Rightarrow> LSM6DSL_Config \<Rightarrow> gyro \<Rightarrow> gyro" where
  "calibrateGyroscope B config g =
     (let g = on_ghw (printf (''Calibrating gyroscope...'' @ NL) []) g;
          samples = 100;
          (sumZ, s) = calibration_loop B config samples 0 (ghw g);
          g = g\<lparr>ghw := s, gyroZ_offset := f_div sumZ (of_nat samples)\<rparr>
      in on_ghw (printf (''Calibration complete. Gyro Z-offset: %.2f dps'' @ NL) [Flt_arg (gyroZ_offset g)]) g)"

section \<open>Steering\<close>

definition DEAD_ZONE :: rat where "DEAD_ZONE = fl32 (1 / 10)"
definition TURN_THRESHOLD :: rat where "TURN_THRESHOLD = 15"

definition processGyroscopeData :: "board \<Rightarrow> LSM6DSL_Config \<Rightarrow> gyro \<Rightarrow> OrientationState \<times> gyro" where
  "processGyroscopeData B config g =
     (let ((ok, rawX, rawY, rawZ), s) = lsm6dsl_read_gyro B config (ghw g);
          g = g\<lparr>ghw := s\<rparr>;
          g = (if ok then
                 (let dpsX = lsm6dsl_convert_gyro_to_dps rawX;
                      dpsY = lsm6dsl_convert_gyro_to_dps rawY;
                      dpsZ = lsm6dsl_convert_gyro_to_dps rawZ;
                      dpsX = f_sub dpsX (gyroZ_offset g);
                      dpsX = (if \<bar>dpsX\<bar> < DEAD_ZONE then 0 else dpsX)
                  in case currentState g of
                       STATE_CENTER \<Rightarrow>
                         if dpsX < - TURN_THRESHOLD
                         then on_ghw (printf (''Action: Go Right'' @ NL) []) (g\<lparr>currentState := STATE_RIGHT\<rparr>)
                         else if dpsX > TURN_THRESHOLD
                         then on_ghw (printf (''Action: Go Left'' @ NL) []) (g\<lparr>currentState := STATE_LEFT\<rparr>)
                         else g
                     | STATE_RIGHT \<Rightarrow>
                         if dpsX > TURN_THRESHOLD
                         then on_ghw (printf (''Action: Center'' @ NL) []) (g\<lparr>currentState := STATE_CENTER\<rparr>)
                         else g
                     | STATE_LEFT \<Rightarrow>
                         if dpsX < - TURN_THRESHOLD
                         then on_ghw (printf (''Action: Center'' @ NL) []) (g\<lparr>currentState := STATE_CENTER\<rparr>)
                         else g
                     | _ \<Rightarrow>
                         (on_ghw (printf (''Unexpected state. Resetting to center.'' @ NL) []) g)
                            \<lparr>currentState := STATE_CENTER\<rparr>)
               else on_ghw (printf (''Failed to read gyroscope data.'' @ NL) []) (g\<lparr>currentState := STATE_ERROR\<rparr>));
          g = on_ghw (printf (''Returned State: %d'' @ NL) [Int_arg (state_number (currentState g))]) g
      in (currentState g, g))"

section \<open>The value of a register\<close>

text \<open>A failed transfer reads as \<open>0xFF\<close>; only the transfers' outcome decides the value.\<close>

definition register_value :: "board \<Rightarrow> LSM6DSL_Config \<Rightarrow> u8 \<Rightarrow> mcu \<Rightarrow> u8" where
  "register_value B config reg s =
     (let a = device_address config;
          r = i2c_read_at B (calls s @ [I2c_write a [reg] True]) (Suc (reads s)) a 1
      in if i2c_write_at B (reads s) a [reg] \<noteq> 1 then 0xFF
         else if fst r \<noteq> 1 then 0xFF else snd r 0)"

lemma read_register_value:
  "fst (lsm6dsl_read_register B config reg s) = register_value B config reg s"
  by (simp add: lsm6dsl_read_register_def register_value_def i2c_write_blocking_def
      i2c_read_blocking_def emit_frame tick_frame case_prod_beta Let_def)

lemma read_register_reads:
  "register_value B config reg s \<noteq> 0xFF \<Longrightarrow>
     reads (snd (lsm6dsl_read_register B config reg s)) = reads s + 2"
  by (auto simp: lsm6dsl_read_register_def register_value_def i2c_write_blocking_def
      i2c_read_blocking_def emit_frame tick_frame case_prod_beta Let_def split: if_splits)

text \<open>Two bytes make a two's complement value.\<close>

lemma unat_int16_of: "unat (int16_of h l) = 256 * unat h + unat l"
proof -
  have h: "unat h < 256" and l: "unat l < 256"
    using unsigned_less [of h, where 'a = nat] unsigned_less [of l, where 'a = nat] by simp_all
  let ?x = "push_bit 8 (ucast h) :: u16" and ?y = "ucast l :: u16"
  have "?x AND ?y = 0"
  proof (rule bit_word_eqI)
    fix k assume "k < LENGTH(16)"
    show "bit (?x AND ?y) k \<longleftrightarrow> bit (0 :: u16) k"
      using bit_imp_le_length [of l k] by (auto simp: bit_and_iff bit_push_bit_iff bit_ucast_iff)
  qed
  then have "?x OR ?y = ?x + ?y" using word_plus_and_or [of ?x ?y] by simp
  moreover have "unat ?x = 256 * unat h" "unat ?y = unat l"
    using h l by (simp_all add: push_bit_eq_mult unat_word_ariths unsigned_ucast_eq take_bit_nat_eq_self)
  ultimately show ?thesis using h l by (simp add: int16_of_def unat_word_ariths)
qed

section \<open>The thresholds in raw units\<close>

lemma fl32_00875: "fl32 (875 / 100000) = 9395241 / 2 ^ 30"
  by (subst fl32_eqI [of 30 _ 9395241]) simp_all

lemma sint16: "- 32768 \<le> sint (raw :: s16)" "sint (raw :: s16) < 32768"
  using sint_ge [of raw] sint_lt [of raw] by simp_all

lemma dps_eq: "lsm6dsl_convert_gyro_to_dps raw = fl32 (of_int (sint raw) * (9395241 / 2 ^ 30))"
proof -
  have "\<bar>sint raw\<bar> < 16777216" using sint16 [of raw] by linarith
  then show ?thesis
    by (simp only: lsm6dsl_convert_gyro_to_dps_def f_mul_def fl32_int fl32_00875)
qed

lemma dps_mono: "sint a \<le> sint b \<Longrightarrow> lsm6dsl_convert_gyro_to_dps a \<le> lsm6dsl_convert_gyro_to_dps b"
  unfolding dps_eq by (intro fl32_mono mult_right_mono of_int_le_iff [THEN iffD2]) simp_all

lemma dps_points:
  "fl32 (1714 * (9395241 / 2 ^ 30)) = 15726019 / 2 ^ 20"
  "fl32 (1715 * (9395241 / 2 ^ 30)) = 15735194 / 2 ^ 20"
  by (subst fl32_eqI [of 20 _ 15726019], simp_all, subst fl32_eqI [of 20 _ 15735194], simp_all)

lemma points_again:
  "fl32 (15726019 / 2 ^ 20) = 15726019 / 2 ^ 20" "fl32 (15735194 / 2 ^ 20) = 15735194 / 2 ^ 20"
  using fl_exact [of 24 20 149 15726019] fl_exact [of 24 20 149 15735194] by (simp_all add: fl32_def)

text \<open>Without an offset, a rate is beyond the threshold exactly from 1715 raw units on.\<close>

lemma f_sub_0: "f_sub x 0 = fl32 x"
  by (simp add: f_sub_def)

lemma above_threshold:
  "15 < f_sub (lsm6dsl_convert_gyro_to_dps raw) 0 \<longleftrightarrow> 1714 < sint raw"
proof
  assume "1714 < sint raw"
  then have "of_int 1715 \<le> (of_int (sint raw) :: rat)" by (simp only: of_int_le_iff)
  then have "1715 * (9395241 / 2 ^ 30) \<le> of_int (sint raw) * (9395241 / 2 ^ 30 :: rat)"
    by (intro mult_right_mono) simp_all
  from fl32_mono [OF fl32_mono [OF this]] show "15 < f_sub (lsm6dsl_convert_gyro_to_dps raw) 0"
    unfolding dps_points points_again f_sub_0 dps_eq by (rule less_le_trans [rotated]) simp
next
  assume above: "15 < f_sub (lsm6dsl_convert_gyro_to_dps raw) 0"
  show "1714 < sint raw"
  proof (rule ccontr)
    assume "\<not> 1714 < sint raw"
    then have "(of_int (sint raw) :: rat) \<le> of_int 1714" by (simp only: of_int_le_iff)
    then have "of_int (sint raw) * (9395241 / 2 ^ 30 :: rat) \<le> 1714 * (9395241 / 2 ^ 30)"
      by (intro mult_right_mono) simp_all
    from fl32_mono [OF fl32_mono [OF this]] above show False
      unfolding dps_points points_again f_sub_0 dps_eq by simp
  qed
qed

lemma below_threshold:
  "f_sub (lsm6dsl_convert_gyro_to_dps raw) 0 < -15 \<longleftrightarrow> sint raw < -1714"
proof
  assume "sint raw < -1714"
  then have "of_int 1715 \<le> (of_int (- sint raw) :: rat)" by (simp only: of_int_le_iff)
  then have "1715 * (9395241 / 2 ^ 30) \<le> - (of_int (sint raw) * (9395241 / 2 ^ 30 :: rat))"
    by simp
  from fl32_mono [OF fl32_mono [OF this]]
  have "15735194 / 2 ^ 20 \<le> - f_sub (lsm6dsl_convert_gyro_to_dps raw) 0"
    unfolding dps_points points_again f_sub_0 dps_eq fl32_minus .
  then show "f_sub (lsm6dsl_convert_gyro_to_dps raw) 0 < -15" by simp
next
  assume below: "f_sub (lsm6dsl_convert_gyro_to_dps raw) 0 < -15"
  show "sint raw < -1714"
  proof (rule ccontr)
    assume "\<not> sint raw < -1714"
    then have "(of_int (- sint raw) :: rat) \<le> of_int 1714" by (simp only: of_int_le_iff)
    then have "- (of_int (sint raw) * (9395241 / 2 ^ 30 :: rat)) \<le> 1714 * (9395241 / 2 ^ 30)"
      by simp
    from fl32_mono [OF fl32_mono [OF this]]
    have "- f_sub (lsm6dsl_convert_gyro_to_dps raw) 0 \<le> 15726019 / 2 ^ 20"
      unfolding dps_points points_again f_sub_0 dps_eq fl32_minus .
    with below show False by simp
  qed
qed

section \<open>The state machine\<close>

text \<open>The transition by the corrected rate; the dead zone below 0.1 cannot change it.\<close>

fun turn_next :: "OrientationState \<Rightarrow> rat \<Rightarrow> OrientationState" where
  "turn_next STATE_CENTER r = (if r < -15 then STATE_RIGHT else if 15 < r then STATE_LEFT else STATE_CENTER)"
| "turn_next STATE_RIGHT r = (if 15 < r then STATE_CENTER else STATE_RIGHT)"
| "turn_next STATE_LEFT r = (if r < -15 then STATE_CENTER else STATE_LEFT)"
| "turn_next _ r = STATE_CENTER"

text \<open>The X reading a call of \<open>processGyroscopeData\<close> uses.\<close>

definition x_reading :: "board \<Rightarrow> LSM6DSL_Config \<Rightarrow> mcu \<Rightarrow> s16" where
  "x_reading B config s = fst (snd (fst (lsm6dsl_read_gyro B config s)))"

lemma dead_zone_small: "DEAD_ZONE \<le> 1"
  using fl32_mono [of "1/10" 1] fl32_int [of 1] by (simp add: DEAD_ZONE_def)

lemma process_next:
  assumes "processGyroscopeData B config g = (st, g')"
  shows "st = turn_next (currentState g)
      (f_sub (lsm6dsl_convert_gyro_to_dps (x_reading B config (ghw g))) (gyroZ_offset g))"
    and "currentState g' = st" and "gyroZ_offset g' = gyroZ_offset g"
proof -
  define r where "r = f_sub (lsm6dsl_convert_gyro_to_dps (x_reading B config (ghw g))) (gyroZ_offset g)"
  define r' where "r' = (if \<bar>r\<bar> < DEAD_ZONE then 0 else r)"
  have r': "15 < r' \<longleftrightarrow> 15 < r" "r' < -15 \<longleftrightarrow> r < -15"
    using dead_zone_small by (auto simp: r'_def)
  obtain x y z s where rd: "lsm6dsl_read_gyro B config (ghw g) = ((True, x, y, z), s)"
    by (simp add: lsm6dsl_read_gyro_def case_prod_beta Let_def)
  then have r: "r = f_sub (lsm6dsl_convert_gyro_to_dps x) (gyroZ_offset g)"
    by (simp add: r_def x_reading_def)
  have "fst (processGyroscopeData B config g) = turn_next (currentState g) r'"
    by (cases "currentState g") (simp_all add: processGyroscopeData_def rd on_ghw_def
        TURN_THRESHOLD_def Let_def r'_def abs_less_iff flip: r)
  moreover have "currentState (snd (processGyroscopeData B config g)) = fst (processGyroscopeData B config g)"
    by (simp add: processGyroscopeData_def rd on_ghw_def Let_def)
  moreover have "gyroZ_offset (snd (processGyroscopeData B config g)) = gyroZ_offset g"
    by (cases "currentState g") (simp_all add: processGyroscopeData_def rd on_ghw_def Let_def)
  moreover have "turn_next st r' = turn_next st r" for st
    using r' by (cases st) simp_all
  ultimately show "st = turn_next (currentState g)
      (f_sub (lsm6dsl_convert_gyro_to_dps (x_reading B config (ghw g))) (gyroZ_offset g))"
    and "currentState g' = st" and "gyroZ_offset g' = gyroZ_offset g"
    using assms by (simp_all add: r_def)
qed

text \<open>Calibration looks at Z only.\<close>

definition z_reading :: "board \<Rightarrow> LSM6DSL_Config \<Rightarrow> mcu \<Rightarrow> s16" where
  "z_reading B config s = snd (snd (snd (fst (lsm6dsl_read_gyro B config s))))"

lemma dps_0 [simp]: "lsm6dsl_convert_gyro_to_dps 0 = 0"
  by (simp add: lsm6dsl_convert_gyro_to_dps_def f_mul_def fl32_def)

text \<open>A sensor that answers every read with the content of its registers.\<close>

definition answers :: "board \<Rightarrow> LSM6DSL_Config \<Rightarrow> (u8 \<Rightarrow> u8) \<Rightarrow> bool" where
  "answers B config regs \<longleftrightarrow> (\<forall>reg s. register_value B config reg s = regs reg)"

lemma readings:
  assumes "answers B config regs"
  shows "x_reading B config s = int16_of (regs OUTX_H_G) (regs OUTX_L_G)"
    and "z_reading B config s = int16_of (regs OUTZ_H_G) (regs OUTZ_L_G)"
  using assms by (simp_all add: x_reading_def z_reading_def lsm6dsl_read_gyro_def case_prod_beta
      Let_def read_register_value answers_def)

lemma calibration_loop_zero:
  assumes "\<forall>s. z_reading B config s = 0"
  shows "fst (calibration_loop B config n 0 s) = 0"
proof (induction n arbitrary: s)
  case (Suc n)
  obtain x y z t where rd: "lsm6dsl_read_gyro B config s = ((True, x, y, z), t)"
    by (simp add: lsm6dsl_read_gyro_def case_prod_beta Let_def)
  have "z = 0" using assms [THEN spec, of s] by (simp add: z_reading_def rd)
  moreover have "f_add 0 0 = 0" by (simp add: f_add_def fl32_def)
  ultimately show ?case using Suc.IH by (simp add: rd)
qed simp

lemma calibration_zero:
  assumes "\<forall>s. z_reading B config s = 0"
  shows "gyroZ_offset (calibrateGyroscope B config g) = 0"
  using calibration_loop_zero [OF assms]
  by (simp add: calibrateGyroscope_def on_ghw_def Let_def case_prod_beta f_div_def fl32_def)

lemma calibration_state: "currentState (calibrateGyroscope B config g) = currentState g"
  by (simp add: calibrateGyroscope_def on_ghw_def Let_def case_prod_beta)

text \<open>A board whose device keeps a register pointer, the last byte written to it.\<close>

fun pointer :: "call list \<Rightarrow> u8" where
  "pointer [] = 0"
| "pointer (I2c_write _ (b # _) _ # _) = b"
| "pointer (_ # cs) = pointer cs"

definition sensor_board :: "(u8 \<Rightarrow> u8) \<Rightarrow> board" where
  "sensor_board regs = ref_board\<lparr>i2c_write_at := (\<lambda>_ _ bs. int (length bs)),
     i2c_read_at := (\<lambda>h _ _ len. (int len, \<lambda>_. regs (pointer (rev h))))\<rparr>"

lemma sensor_board_answers: "answers (sensor_board regs) config regs"
  by (simp add: answers_def register_value_def sensor_board_def)

section \<open>Properties\<close>

text \<open>
  C25: steering in the sensor's own units. With a zero offset a call of
  \<open>processGyroscopeData\<close> turns on raw X readings beyond 1714 in size and on no smaller ones:
  from the centre to the left above and to the right below, and back to the centre on the
  opposite rotation; so left and right are never adjacent.
\<close>

theorem steering_table:
  assumes "processGyroscopeData B config g = (st, g')" and "gyroZ_offset g = 0"
  shows "st = currentState g' \<and> (let x = sint (x_reading B config (ghw g)) in st =
    (case currentState g of
       STATE_CENTER \<Rightarrow> if x < -1714 then STATE_RIGHT else if 1714 < x then STATE_LEFT else STATE_CENTER
     | STATE_RIGHT \<Rightarrow> if 1714 < x then STATE_CENTER else STATE_RIGHT
     | STATE_LEFT \<Rightarrow> if x < -1714 then STATE_CENTER else STATE_LEFT
     | _ \<Rightarrow> STATE_CENTER))"
  using process_next [OF assms(1)] assms(2) above_threshold [of "x_reading B config (ghw g)"]
    below_threshold [of "x_reading B config (ghw g)"]
  by (cases "currentState g") (simp_all add: Let_def)

definition reset_gyro :: gyro where
  "reset_gyro = \<lparr>ghw = reset_mcu, gyroZ_offset = 0, currentState = STATE_CENTER\<rparr>"

definition ref_config :: LSM6DSL_Config where
  "ref_config = \<lparr>i2c_port = 0, device_address = LSM6DSL_ADDR\<rparr>"

theorem steering_table_witness:
  "\<exists>st g'. processGyroscopeData ref_board ref_config reset_gyro = (st, g') \<and> st = STATE_CENTER"
proof -
  obtain st g' where p: "processGyroscopeData ref_board ref_config reset_gyro = (st, g')" by fastforce
  have "x_reading ref_board ref_config (ghw reset_gyro) = -1"
    by (simp add: x_reading_def lsm6dsl_read_gyro_def read_register_value case_prod_beta Let_def
        register_value_def int16_of_def)
  then have "currentState g' = STATE_CENTER \<and> st = currentState g'"
    using steering_table [OF p] by (auto simp: reset_gyro_def Let_def)
  with p show ?thesis by blast
qed

text \<open>
  The error state is never entered. Whatever the bus answers, failed transfers included, the
  result is the centre, left or right, because a reading always reports success; when every
  transfer fails the readings are -1 and the state, with a zero offset, stays what it was.
\<close>

theorem error_state_unreachable:
  "fst (processGyroscopeData B config g) \<in> {STATE_CENTER, STATE_LEFT, STATE_RIGHT}
   \<and> fst (fst (lsm6dsl_read_gyro B config s)) = True
   \<and> ((\<forall>n bs. i2c_write_at B n (device_address config) bs \<noteq> 1) \<and> gyroZ_offset g = 0
        \<and> currentState g \<in> {STATE_CENTER, STATE_LEFT, STATE_RIGHT}
      \<longrightarrow> fst (processGyroscopeData B config g) = currentState g)"
proof -
  obtain st g' where p: "processGyroscopeData B config g = (st, g')" by fastforce
  have "fst (fst (lsm6dsl_read_gyro B config s)) = True"
    by (simp add: lsm6dsl_read_gyro_def case_prod_beta Let_def)
  moreover have "turn_next s r \<in> {STATE_CENTER, STATE_LEFT, STATE_RIGHT}" for s r
    by (cases s) simp_all
  moreover have "x_reading B config s = -1"
    if "\<forall>n bs. i2c_write_at B n (device_address config) bs \<noteq> 1" for s
    using that by (simp add: x_reading_def lsm6dsl_read_gyro_def read_register_value case_prod_beta
        Let_def register_value_def int16_of_def)
  moreover have "turn_next s (f_sub (lsm6dsl_convert_gyro_to_dps (-1)) 0) = s"
    if "s \<in> {STATE_CENTER, STATE_LEFT, STATE_RIGHT}" for s
    using that above_threshold [of "-1"] below_threshold [of "-1"] by auto
  ultimately show ?thesis using process_next [OF p] p by auto
qed

theorem error_state_unreachable_witness:
  "fst (processGyroscopeData ref_board ref_config reset_gyro) = STATE_CENTER"
  using error_state_unreachable [of ref_board ref_config reset_gyro reset_mcu]
  by (simp add: reset_gyro_def)

text \<open>
  \<open>lsm6dsl_init\<close> succeeds exactly when the identity register reads \<open>0x6C\<close> and both
  configuration writes are acknowledged with two bytes.
\<close>

theorem init_succeeds_iff:
  "let t = printf (''Reading WHO_AM_I register...'' @ NL) [] s in
   fst (lsm6dsl_init B config s) \<longleftrightarrow>
     register_value B config WHO_AM_I t = 0x6C \<and>
     i2c_write_at B (reads s + 2) (device_address config) [CTRL1_XL, 0x40] = 2 \<and>
     i2c_write_at B (reads s + 3) (device_address config) [CTRL2_G, 0x40] = 2"
proof -
  define t where "t = printf (''Reading WHO_AM_I register...'' @ NL) [] s"
  obtain v u where rd: "lsm6dsl_read_register B config WHO_AM_I t = (v, u)" by fastforce
  have r: "reads t = reads s" by (simp add: t_def emit_frame)
  have v: "v = register_value B config WHO_AM_I t"
    using read_register_value [of B config WHO_AM_I t] by (simp add: rd)
  have u: "reads u = reads s + 2" if "v = 0x6C"
    using read_register_reads [of B config WHO_AM_I t] that by (simp add: rd r flip: v)
  have "fst (lsm6dsl_init B config s) \<longleftrightarrow> v = 0x6C \<and>
     i2c_write_at B (reads u) (device_address config) [CTRL1_XL, 0x40] = 2 \<and>
     i2c_write_at B (Suc (reads u)) (device_address config) [CTRL2_G, 0x40] = 2"
    unfolding lsm6dsl_init_def Let_def t_def [symmetric] rd
    by (simp add: lsm6dsl_write_register_def i2c_write_blocking_def emit_frame tick_frame)
  moreover have "reads u = reads s + 2 \<Longrightarrow> Suc (reads u) = reads s + 3" by simp
  ultimately show ?thesis unfolding Let_def t_def [symmetric] v [symmetric] using u by metis
qed

text \<open>
  The calibration corrects the wrong axis. It averages the Z readings, but the offset is
  subtracted from X: with Z at rest at zero the offset is zero, so a constant X error of 1715
  units or more turns the glasses' state from the centre without any movement.
\<close>

theorem calibration_ignores_x:
  assumes "answers B config regs" and "int16_of (regs OUTZ_H_G) (regs OUTZ_L_G) = 0"
    and "1715 \<le> sint (int16_of (regs OUTX_H_G) (regs OUTX_L_G))" and "currentState g = STATE_CENTER"
  shows "gyroZ_offset (calibrateGyroscope B config g) = 0
    \<and> fst (processGyroscopeData B config (calibrateGyroscope B config g)) = STATE_LEFT"
proof -
  let ?g = "calibrateGyroscope B config g"
  have o: "gyroZ_offset ?g = 0"
    using readings(2) [OF assms(1)] assms(2) by (intro calibration_zero) simp
  obtain st g' where p: "processGyroscopeData B config ?g = (st, g')" by fastforce
  have "1714 < sint (x_reading B config (ghw ?g))"
    using assms(3) by (simp add: readings(1) [OF assms(1)])
  then have above: "15 < f_sub (lsm6dsl_convert_gyro_to_dps (x_reading B config (ghw ?g))) 0"
    by (simp only: above_threshold)
  have "st = turn_next STATE_CENTER
      (f_sub (lsm6dsl_convert_gyro_to_dps (x_reading B config (ghw ?g))) 0)"
    using process_next(1) [OF p] by (simp only: o assms(4) calibration_state)
  with above o p show ?thesis by simp
qed

theorem calibration_ignores_x_witness:
  "let B = sensor_board (\<lambda>r. if r = OUTX_H_G then 7 else 0); g = calibrateGyroscope B ref_config reset_gyro
   in gyroZ_offset g = 0 \<and> fst (processGyroscopeData B ref_config g) = STATE_LEFT"
  unfolding Let_def
  by (rule calibration_ignores_x [OF sensor_board_answers])
    (simp_all add: int16_of_def OUTX_H_G_def OUTX_L_G_def OUTZ_H_G_def OUTZ_L_G_def reset_gyro_def)

text \<open>
  A reading is assembled from the sensor's six registers, each axis the two's complement
  value of its high and low byte.
\<close>

theorem reading_assembled:
  assumes "answers B config regs"
  shows "fst (lsm6dsl_read_gyro B config s) = (True, int16_of (regs OUTX_H_G) (regs OUTX_L_G),
      int16_of (regs OUTY_H_G) (regs OUTY_L_G), int16_of (regs OUTZ_H_G) (regs OUTZ_L_G))
    \<and> unat (int16_of h l) = 256 * unat h + unat l
    \<and> sint (int16_of h l) = (if unat h < 128 then 256 * int (unat h) + int (unat l)
        else 256 * int (unat h) + int (unat l) - 65536)"
proof -
  have u: "uint (int16_of h l) = 256 * int (unat h) + int (unat l)"
    using unat_int16_of [of h l] by (simp only: uint_nat)
  have b: "unat h < 256" "unat l < 256"
    using unsigned_less [of h, where 'a = nat] unsigned_less [of l, where 'a = nat] by simp_all
  have "sint (int16_of h l) = (if unat h < 128 then 256 * int (unat h) + int (unat l)
        else 256 * int (unat h) + int (unat l) - 65536)"
  proof -
    have "sint (int16_of h l) = (256 * int (unat h) + int (unat l) + 32768) mod 65536 - 32768"
      by (simp only: sint_uint u signed_take_bit_eq_take_bit_shift take_bit_eq_mod) simp
    moreover have "(256 * int (unat h) + int (unat l) + 32768) mod 65536
        = (if unat h < 128 then 256 * int (unat h) + int (unat l) + 32768
           else 256 * int (unat h) + int (unat l) - 32768)"
    proof (cases "unat h < 128")
      case True
      then have "256 * int (unat h) + int (unat l) + 32768 < 65536" using b by linarith
      from mod_pos_pos_trivial [OF _ this] True show ?thesis by simp
    next
      case False
      define a where "a = 256 * int (unat h) + int (unat l) - 32768"
      have "0 \<le> a" "a < 65536" using b False unfolding a_def by linarith+
      then have "(a + 65536) mod 65536 = a" by simp
      with False show ?thesis by (simp add: a_def ac_simps)
    qed
    ultimately show ?thesis by simp
  qed
  then show ?thesis using assms
    by (simp add: lsm6dsl_read_gyro_def case_prod_beta Let_def read_register_value answers_def
        unat_int16_of)
qed

theorem reading_assembled_witness:
  "fst (lsm6dsl_read_gyro (sensor_board (\<lambda>r. if r = OUTX_H_G then 0xFF else if r = OUTY_L_G then 3 else 0))
     ref_config reset_mcu) = (True, - 256, 3, 0)"
  using reading_assembled [OF sensor_board_answers, of
      "\<lambda>r. if r = OUTX_H_G then 0xFF else if r = OUTY_L_G then 3 else 0" ref_config reset_mcu 0 0]
  by (simp add: int16_of_def OUTX_H_G_def OUTX_L_G_def OUTY_H_G_def OUTY_L_G_def OUTZ_H_G_def
      OUTZ_L_G_def)

end
