(* ===== verification/Eye.thy ===== *)
theory Eye
  imports Adc
begin

text \<open>The blink sensor of the glasses, eye.c and eye.h: an analogue input and a threshold.\<close>

definition EYE_SENSOR_PIN :: u32 where "EYE_SENSOR_PIN = 27"
definition EYE_BLINK_THRESHOLD :: nat where "EYE_BLINK_THRESHOLD = 4095"

definition eye_init :: "board \<Rightarrow> mcu \<Rightarrow> mcu" where
  "eye_init B s =
     (let s = adc_init B s;
          s = adc_gpio_init B EYE_SENSOR_PIN s
      in adc_select_input 1 s)"

definition eye_read_sensor :: "board \<Rightarrow> mcu \<Rightarrow> (u16 \<times> mcu) option" where
  "eye_read_sensor B s = adc_read B s"

definition eye_detect_blink :: "u16 \<Rightarrow> bool" where
  "eye_detect_blink sensor_value = (if unat sensor_value < EYE_BLINK_THRESHOLD then True else False)"

section \<open>Properties\<close>

text \<open>
  The blink sensor end to end. After \<open>eye_init\<close> a reading samples input 1, which is the
  sensor's pin 27 (the inputs 0 to 3 are the pins 26 to 29), and with the threshold at the top of
  the 12-bit range every sample but the largest is a blink.
\<close>

theorem eye_blink_unless_saturated:
  assumes "first_ready (adc_ready_at B) (reads (eye_init B s)) n" and "unat (adc_result_at B (Suc n) 1) < 4096"
  shows "\<exists>v t. eye_read_sensor B (eye_init B s) = Some (v, t) \<and> v = adc_result_at B (Suc n) 1
    \<and> EYE_SENSOR_PIN = 26 + adc_get_selected_input (eye_init B s)
    \<and> (eye_detect_blink v \<longleftrightarrow> unat v \<noteq> 4095)"
proof -
  have sel: "adc_get_selected_input (eye_init B s) = 1"
    by (simp add: eye_init_def Let_def adc_select_selected)
  show ?thesis
    using adc_read_first [OF assms(1)] assms(2)
    by (auto simp: eye_read_sensor_def sel eye_detect_blink_def EYE_BLINK_THRESHOLD_def EYE_SENSOR_PIN_def)
qed

theorem eye_blink_unless_saturated_witness:
  "\<exists>v t. eye_read_sensor ref_board (eye_init ref_board reset_mcu) = Some (v, t) \<and> eye_detect_blink v"
  using eye_blink_unless_saturated
    [of ref_board reset_mcu "reads (eye_init ref_board reset_mcu)"]
  by (auto simp: first_ready_def)

end
