(* ===== verification/Ir_Sensor.thy ===== *)
theory Ir_Sensor
  imports Sdk_Docs
begin

text \<open>The infrared sensor of the glasses, ir\_sensor.c and ir\_sensor.h: one input pin, active low.\<close>

definition IR_SENSOR_PIN :: u32 where "IR_SENSOR_PIN = 15"

definition ir_sensor_init :: "board \<Rightarrow> mcu \<Rightarrow> mcu" where
  "ir_sensor_init B s =
     (let s = gpio_init B IR_SENSOR_PIN s;
          s = gpio_set_dir IR_SENSOR_PIN GPIO_IN s
      in gpio_pull_up B IR_SENSOR_PIN s)"

definition ir_sensor_detected :: "board \<Rightarrow> mcu \<Rightarrow> bool \<times> mcu" where
  "ir_sensor_detected B s = (let (level, s) = gpio_get B IR_SENSOR_PIN s in (\<not> level, s))"

section \<open>Pulls\<close>

lemma and_pull_bits:
  "w AND PUE_BITS \<noteq> 0 \<longleftrightarrow> bit w 3" "w AND PDE_BITS \<noteq> 0 \<longleftrightarrow> bit w 2"
  using and_exp_eq_0_iff_not_bit [of w 3] and_exp_eq_0_iff_not_bit [of w 2]
  by (simp_all add: PUE_BITS_def PDE_BITS_def)

lemma bit_pull_bits: "bit PUE_BITS k \<longleftrightarrow> k = 3" "bit PDE_BITS k \<longleftrightarrow> k = 2"
  using bit_exp_iff [of 3 k, where 'a = "32 word"] bit_exp_iff [of 2 k, where 'a = "32 word"]
  by (auto simp: PUE_BITS_def PDE_BITS_def)

lemma pulls_written:
  "hw_write_masked w PUE_BITS (PUE_BITS OR PDE_BITS) AND PUE_BITS \<noteq> 0"
  "hw_write_masked w PUE_BITS (PUE_BITS OR PDE_BITS) AND PDE_BITS = 0"
proof -
  show "hw_write_masked w PUE_BITS (PUE_BITS OR PDE_BITS) AND PUE_BITS \<noteq> 0"
    by (simp add: and_pull_bits bit_hw_write_masked bit_or_iff bit_pull_bits)
  have "\<not> bit (hw_write_masked w PUE_BITS (PUE_BITS OR PDE_BITS)) 2"
    by (simp add: bit_hw_write_masked bit_or_iff bit_pull_bits)
  then show "hw_write_masked w PUE_BITS (PUE_BITS OR PDE_BITS) AND PDE_BITS = 0"
    using and_pull_bits(2) by blast
qed

section \<open>Properties\<close>

text \<open>
  After \<open>ir_sensor_init\<close> on documented SDK functions the pin is an SIO input, pulled up and
  not down; the other pins keep direction and function.
\<close>

theorem ir_sensor_init_ready:
  assumes "sdk_docs B"
  shows "let t = ir_sensor_init B s in funcsel t = (funcsel s)(IR_SENSOR_PIN := GPIO_FUNC_SIO)
    \<and> \<not> gpio_is_dir_out t IR_SENSOR_PIN \<and> gpio_is_pulled_up t IR_SENSOR_PIN
    \<and> \<not> gpio_is_pulled_down t IR_SENSOR_PIN
    \<and> (\<forall>g < 30. g \<noteq> IR_SENSOR_PIN \<longrightarrow> gpio_is_dir_out t g = gpio_is_dir_out s g)"
proof -
  define u where "u = gpio_set_dir IR_SENSOR_PIN GPIO_IN (gpio_init B IR_SENSOR_PIN s)"
  have t: "ir_sensor_init B s = u\<lparr>pads := (pads u)(IR_SENSOR_PIN :=
      hw_write_masked (pads u IR_SENSOR_PIN) PUE_BITS (PUE_BITS OR PDE_BITS))\<rparr>"
    using assms by (simp add: ir_sensor_init_def u_def Let_def gpio_pull_up_def sdk_docs_def
        gpio_set_pulls_doc_def IR_SENSOR_PIN_def)
  have dir: "gpio_is_dir_out (u\<lparr>pads := p\<rparr>) g = gpio_is_dir_out u g" for p g
    by (simp add: gpio_is_dir_out_def)
  have pin: "IR_SENSOR_PIN < 30" by (simp add: IR_SENSOR_PIN_def)
  have u: "funcsel u = (funcsel s)(IR_SENSOR_PIN := GPIO_FUNC_SIO)"
    "g < 30 \<Longrightarrow> gpio_is_dir_out u g \<longleftrightarrow> g \<noteq> IR_SENSOR_PIN \<and> gpio_is_dir_out s g" for g
    using assms pin by (auto simp: u_def obs_simps)
  show ?thesis using u pin
    by (simp add: Let_def t dir gpio_is_pulled_up_def gpio_is_pulled_down_def pulls_written)
qed

theorem ir_sensor_init_ready_witness:
  "gpio_is_pulled_up (ir_sensor_init ref_board reset_mcu) IR_SENSOR_PIN"
  using ir_sensor_init_ready [OF sdk_docs_ref_board, of reset_mcu] by (simp only: Let_def)

end
