(* ===== verification/Web_Page.thy ===== *)
theory Web_Page
  imports Cgi Ssi
begin

text \<open>
  The page the car serves, htmldata.c: one file of the server's file system, a byte array that
  holds the file's name, the HTTP header and the page. The theory says what a reader of the page
  finds in it, the targets of its links and the names of its server-side includes, and relates
  both to the tables of cgi.h and ssi.h. The rows of the arrays are the rows of the source.
\<close>

section \<open>The file\<close>

definition data_index_shtml_1 :: "u8 list" where
  "data_index_shtml_1 =
  [0x2f, 0x69, 0x6e, 0x64, 0x65, 0x78, 0x2e, 0x73, 0x68, 0x74, 0x6d, 0x6c, 0,
   0x48, 0x54, 0x54, 0x50, 0x2f, 0x31, 0x2e, 0x30, 0x20, 0x32,
   0x30, 0x30, 0x20, 0x4f, 0x4b, 0x0d, 0x0a, 0x53, 0x65, 0x72,
   0x76, 0x65, 0x72, 0x3a, 0x20, 0x6c, 0x77, 0x49, 0x50, 0x2f,
   0x70, 0x72, 0x65, 0x2d, 0x30, 0x2e, 0x36, 0x20, 0x28, 0x68,
   0x74, 0x74, 0x70, 0x3a, 0x2f, 0x2f, 0x77, 0x77, 0x77, 0x2e,
   0x73, 0x69, 0x63, 0x73, 0x2e, 0x73, 0x65, 0x2f, 0x7e, 0x61,
   0x64, 0x61, 0x6d, 0x2f, 0x6c, 0x77, 0x69, 0x70, 0x2f, 0x29,
   0x0d, 0x0a, 0x43, 0x6f, 0x6e, 0x74, 0x65, 0x6e, 0x74, 0x2d,
   0x74, 0x79, 0x70, 0x65, 0x3a, 0x20, 0x74, 0x65, 0x78, 0x74,
   0x2f, 0x68, 0x74, 0x6d, 0x6c, 0x0d, 0x0a, 0x0d, 0x0a,
   0x3c, 0x21, 0x44, 0x4f, 0x43, 0x54, 0x59, 0x50, 0x45, 0x20,
   0x68, 0x74, 0x6d, 0x6c, 0x3e, 0x0d, 0x0a, 0x3c, 0x68, 0x74,
   0x6d, 0x6c, 0x3e, 0x0d, 0x0a, 0x3c, 0x68, 0x65, 0x61, 0x64,
   0x3e, 0x20, 0x0d, 0x0a, 0x20, 0x20, 0x20, 0x20, 0x3c, 0x74,
   0x69, 0x74, 0x6c, 0x65, 0x3e, 0x53, 0x6d, 0x61, 0x72, 0x74,
   0x20, 0x43, 0x61, 0x72, 0x20, 0x43, 0x6f, 0x6e, 0x74, 0x72,
   0x6f, 0x6c, 0x20, 0x50, 0x61, 0x6e, 0x65, 0x6c, 0x3c, 0x2f,
   0x74, 0x69, 0x74, 0x6c, 0x65, 0x3e, 0x0d, 0x0a, 0x20, 0x20,
   0x20, 0x20, 0x3c, 0x6d, 0x65, 0x74, 0x61, 0x20, 0x6e, 0x61,
   0x6d, 0x65, 0x3d, 0x22, 0x76, 0x69, 0x65, 0x77, 0x70, 0x6f,
   0x72, 0x74, 0x22, 0x20, 0x63, 0x6f, 0x6e, 0x74, 0x65, 0x6e,
   0x74, 0x3d, 0x22, 0x77, 0x69, 0x64, 0x74, 0x68, 0x3d, 0x64,
   0x65, 0x76, 0x69, 0x63, 0x65, 0x2d, 0x77, 0x69, 0x64, 0x74,
   0x68, 0x2c, 0x20, 0x69, 0x6e, 0x69, 0x74, 0x69, 0x61, 0x6c,
   0x2d, 0x73, 0x63, 0x61, 0x6c, 0x65, 0x3d, 0x31, 0x2e, 0x30,
   0x22, 0x3e, 0x0d, 0x0a, 0x20, 0x20, 0x20, 0x20, 0x3c, 0x73,
   0x74, 0x79, 0x6c, 0x65, 0x3e, 0x0d, 0x0a, 0x20, 0x20, 0x20,
   0x20, 0x20, 0x20, 0x20, 0x20, 0x2a, 0x20, 0x7b, 0x0d, 0x0a,
   0x20, 0x20, 0x20, 0x20, 0x20, 0x20, 0x20, 0x20, 0x20, 0x20,
   0x20, 0x20, 0x6d, 0x61, 0x72, 0x67, 0x69, 0x6e, 0x3a, 0x20,
   0x30, 0x3b, 0x0d, 0x0a, 0x20, 0x20, 0x20, 0x20, 0x20, 0x20,
   0x20, 0x20, 0x20, 0x20, 0x20, 0x20, 0x70, 0x61, 0x64, 0x64,
   0x69, 0x6e, 0x67, 0x3a, 0x20, 0x30, 0x3b, 0x0d, 0x0a, 0x20,
   0x20, 0x20, 0x20, 0x20, 0x20, 0x20, 0x20, 0x20, 0x20, 0x20,
   0x20, 0x62, 0x6f, 0x78, 0x2d, 0x73, 0x69, 0x7a, 0x69, 0x6e,
   0x67, 0x3a, 0x20, 0x62, 0x6f, 0x72, 0x64, 0x65, 0x72, 0x2d,
   0x62, 0x6f, 0x78, 0x3b, 0x0d, 0x0a, 0x20, 0x20, 0x20, 0x20,
   0x20, 0x20, 0x20, 0x20, 0x20, 0x20, 0x20, 0x20, 0x66, 0x6f,
   0x6e, 0x74, 0x2d, 0x66, 0x61, 0x6d, 0x69, 0x6c, 0x79, 0x3a,
   0x20, 0x27, 0x53, 0x65, 0x67, 0x6f, 0x65, 0x20, 0x55, 0x49,
   0x27, 0x2c, 0x20, 0x54, 0x61, 0x68, 0x6f, 0x6d, 0x61, 0x2c,
   0x20, 0x47, 0x65, 0x6e, 0x65, 0x76, 0x61, 0x2c, 0x20, 0x56,
   0x65, 0x72, 0x64, 0x61, 0x6e, 0x61, 0x2c, 0x20, 0x73, 0x61,
   0x6e, 0x73, 0x2d, 0x73, 0x65, 0x72, 0x69, 0x66, 0x3b, 0x0d,
   0x0a, 0x20, 0x20, 0x20, 0x20, 0x20, 0x20, 0x20, 0x20, 0x7d,
   0x0d, 0x0a, 0x0d, 0x0a, 0x20, 0x20, 0x20, 0x20, 0x20, 0x20,
   0x20, 0x20, 0x62, 0x6f, 0x64, 0x79, 0x20, 0x7b, 0x0d, 0x0a,
   0x20, 0x20, 0x20, 0x20, 0x20, 0x20, 0x20, 0x20, 0x20, 0x20,
   0x20, 0x20, 0x62, 0x61, 0x63, 0x6b, 0x67, 0x72, 0x6f, 0x75,
   0x6e, 0x64, 0x3a, 0x20, 0x6c, 0x69, 0x6e, 0x65, 0x61, 0x72,
   0x2d, 0x67, 0x72, 0x61, 0x64, 0x69, 0x65, 0x6e, 0x74, 0x28,
   0x31, 0x33, 0x35, 0x64, 0x65, 0x67, 0x2c, 0x20, 0x23, 0x66,
   0x35, 0x66, 0x37, 0x66, 0x61, 0x20, 0x30, 0x25, 0x2c, 0x20,
   0x23, 0x63, 0x33, 0x63, 0x66, 0x65, 0x32, 0x20, 0x31, 0x30,
   0x30, 0x25, 0x29, 0x3b, 0x0d, 0x0a, 0x20, 0x20, 0x20, 0x20,
   0x20, 0x20, 0x20, 0x20, 0x20, 0x20, 0x20, 0x20, 0x6d, 0x69,
   0x6e, 0x2d, 0x68, 0x65, 0x69, 0x67, 0x68, 0x74, 0x3a, 0x20,
   0x31, 0x30, 0x30, 0x76, 0x68, 0x3b, 0x0d, 0x0a, 0x20, 0x20,
   0x20, 0x20, 0x20, 0x20, 0x20, 0x20, 0x20, 0x20, 0x20, 0x20,
   0x70, 0x61, 0x64, 0x64, 0x69, 0x6e, 0x67, 0x3a, 0x20, 0x32,
   0x30, 0x70, 0x78, 0x3b, 0x0d, 0x0a, 0x20, 0x20, 0x20, 0x20,
   0x20, 0x20, 0x20, 0x20, 0x7d, 0x0d, 0x0a, 0x0d, 0x0a, 0x20,
   0x20, 0x20, 0x20, 0x20, 0x20, 0x20, 0x20, 0x2e, 0x63, 0x6f,
   0x6e, 0x74, 0x61, 0x69, 0x6e, 0x65, 0x72, 0x20, 0x7b, 0x0d,
   0x0a, 0x20, 0x20, 0x20, 0x20, 0x20, 0x20, 0x20, 0x20, 0x20,
   0x20, 0x20, 0x20, 0x6d, 0x61, 0x78, 0x2d, 0x77, 0x69, 0x64,
   0x74, 0x68, 0x3a, 0x20, 0x38, 0x30, 0x30, 0x70, 0x78, 0x3b,
   0x0d, 0x0a, 0x20, 0x20, 0x20, 0x20, 0x20, 0x20, 0x20, 0x20,
   0x20, 0x20, 0x20, 0x20, 0x6d, 0x61, 0x72, 0x67, 0x69, 0x6e,
   0x3a, 0x20, 0x30, 0x20, 0x61, 0x75, 0x74, 0x6f, 0x3b, 0x0d,
   0x0a, 0x20, 0x20, 0x20, 0x20, 0x20, 0x20, 0x20, 0x20, 0x20,
   0x20, 0x20, 0x20, 0x62, 0x61, 0x63, 0x6b, 0x67, 0x72, 0x6f,
   0x75, 0x6e, 0x64, 0x3a, 0x20, 0x72, 0x67, 0x62, 0x61, 0x28,
   0x32, 0x35, 0x35, 0x2c, 0x20, 0x32, 0x35, 0x35, 0x2c, 0x20,
   0x32, 0x35, 0x35, 0x2c, 0x20, 0x30, 0x2e, 0x39, 0x35, 0x29,
   0x3b, 0x0d, 0x0a, 0x20, 0x20, 0x20, 0x20, 0x20, 0x20, 0x20,
   0x20, 0x20, 0x20, 0x20, 0x20, 0x62, 0x6f, 0x72, 0x64, 0x65,
   0x72, 0x2d, 0x72, 0x61, 0x64, 0x69, 0x75, 0x73, 0x3a, 0x20,
   0x32, 0x30, 0x70, 0x78, 0x3b, 0x0d, 0x0a, 0x20, 0x20, 0x20,
   0x20, 0x20, 0x20, 0x20, 0x20, 0x20, 0x20, 0x20, 0x20, 0x70,
   0x61, 0x64, 0x64, 0x69, 0x6e, 0x67, 0x3a, 0x20, 0x33, 0x30,
   0x70, 0x78, 0x3b, 0x0d, 0x0a, 0x20, 0x20, 0x20, 0x20, 0x20,
   0x20, 0x20, 0x20, 0x20, 0x20, 0x20, 0x20, 0x62, 0x6f, 0x78,
   0x2d, 0x73, 0x68, 0x61, 0x64, 0x6f, 0x77, 0x3a, 0x20, 0x30,
   0x20, 0x31, 0x30, 0x70, 0x78, 0x20, 0x33, 0x30, 0x70, 0x78,
   0x20, 0x72, 0x67, 0x62, 0x61, 0x28, 0x30, 0x2c, 0x30, 0x2c,
   0x30, 0x2c, 0x30, 0x2e, 0x31, 0x29, 0x3b, 0x0d, 0x0a, 0x20,
   0x20, 0x20, 0x20, 0x20, 0x20, 0x20, 0x20, 0x7d, 0x0d, 0x0a,
   0x0d, 0x0a, 0x20, 0x20, 0x20, 0x20, 0x20, 0x20, 0x20, 0x20,
   0x68, 0x31, 0x20, 0x7b, 0x0d, 0x0a, 0x20, 0x20, 0x20, 0x20,
   0x20, 0x20, 0x20, 0x20, 0x20, 0x20, 0x20, 0x20, 0x74, 0x65,
   0x78, 0x74, 0x2d, 0x61, 0x6c, 0x69, 0x67, 0x6e, 0x3a, 0x20,
   0x63, 0x65, 0x6e, 0x74, 0x65, 0x72, 0x3b, 0x0d, 0x0a, 0x20,
   0x20, 0x20, 0x20, 0x20, 0x20, 0x20, 0x20, 0x20, 0x20, 0x20,
   0x20, 0x63, 0x6f, 0x6c, 0x6f, 0x72, 0x3a, 0x20, 0x23, 0x32,
   0x63, 0x33, 0x65, 0x35, 0x30, 0x3b, 0x0d, 0x0a, 0x20, 0x20,
   0x20, 0x20, 0x20, 0x20, 0x20, 0x20, 0x20, 0x20, 0x20, 0x20,
   0x6d, 0x61, 0x72, 0x67, 0x69, 0x6e, 0x2d, 0x62, 0x6f, 0x74,
   0x74, 0x6f, 0x6d, 0x3a, 0x20, 0x33, 0x30, 0x70, 0x78, 0x3b,
   0x0d, 0x0a, 0x20, 0x20, 0x20, 0x20, 0x20, 0x20, 0x20, 0x20,
   0x20, 0x20, 0x20, 0x20, 0x66, 0x6f, 0x6e, 0x74, 0x2d, 0x73,
   0x69, 0x7a, 0x65, 0x3a, 0x20, 0x32, 0x2e, 0x35, 0x65, 0x6d,
   0x3b, 0x0d, 0x0a, 0x20, 0x20, 0x20, 0x20, 0x20, 0x20, 0x20,
   0x20, 0x20, 0x20, 0x20, 0x20, 0x74, 0x65, 0x78, 0x74, 0x2d,
   0x73, 0x68, 0x61, 0x64, 0x6f, 0x77, 0x3a, 0x20, 0x32, 0x70,
   0x78, 0x20, 0x32, 0x70, 0x78, 0x20, 0x34, 0x70, 0x78, 0x20,
   0x72, 0x67, 0x62, 0x61, 0x28, 0x30, 0x2c, 0x30, 0x2c, 0x30,
   0x2c, 0x30, 0x2e, 0x31, 0x29, 0x3b, 0x0d, 0x0a, 0x20, 0x20,
   0x20, 0x20, 0x20, 0x20, 0x20, 0x20, 0x7d, 0x0d, 0x0a, 0x0d,
   0x0a, 0x20, 0x20, 0x20, 0x20, 0x20, 0x20, 0x20, 0x20, 0x68,
   0x32, 0x20, 0x7b, 0x0d, 0x0a, 0x20, 0x20, 0x20, 0x20, 0x20,
   0x20, 0x20, 0x20, 0x20, 0x20, 0x20, 0x20, 0x63, 0x6f, 0x6c,
   0x6f, 0x72, 0x3a, 0x20, 0x23, 0x33, 0x34, 0x34, 0x39, 0x35,
   0x65, 0x3b, 0x0d, 0x0a, 0x20, 0x20, 0x20, 0x20, 0x20, 0x20,
   0x20, 0x20, 0x20, 0x20, 0x20, 0x20, 0x6d, 0x61, 0x72, 0x67,
   0x69, 0x6e, 0x3a, 0x20, 0x32, 0x35, 0x70, 0x78, 0x20, 0x30,
   0x20, 0x31, 0x35, 0x70, 0x78, 0x3b, 0x0d, 0x0a, 0x20, 0x20,
   0x20, 0x20, 0x20, 0x20, 0x20, 0x20, 0x20, 0x20, 0x20, 0x20,
   0x66, 0x6f, 0x6e, 0x74, 0x2d, 0x73, 0x69, 0x7a, 0x65, 0x3a,
   0x20, 0x31, 0x2e, 0x38, 0x65, 0x6d, 0x3b, 0x0d, 0x0a, 0x20,
   0x20, 0x20, 0x20, 0x20, 0x20, 0x20, 0x20, 0x20, 0x20, 0x20,
   0x20, 0x74, 0x65, 0x78, 0x74, 0x2d, 0x61, 0x6c, 0x69, 0x67]"

definition data_index_shtml_2 :: "u8 list" where
  "data_index_shtml_2 =
  [0x6e, 0x3a, 0x20, 0x63, 0x65, 0x6e, 0x74, 0x65, 0x72, 0x3b,
   0x0d, 0x0a, 0x20, 0x20, 0x20, 0x20, 0x20, 0x20, 0x20, 0x20,
   0x7d, 0x0d, 0x0a, 0x0d, 0x0a, 0x20, 0x20, 0x20, 0x20, 0x20,
   0x20, 0x20, 0x20, 0x2e, 0x73, 0x74, 0x61, 0x74, 0x75, 0x73,
   0x2d, 0x70, 0x61, 0x6e, 0x65, 0x6c, 0x20, 0x7b, 0x0d, 0x0a,
   0x20, 0x20, 0x20, 0x20, 0x20, 0x20, 0x20, 0x20, 0x20, 0x20,
   0x20, 0x20, 0x62, 0x61, 0x63, 0x6b, 0x67, 0x72, 0x6f, 0x75,
   0x6e, 0x64, 0x3a, 0x20, 0x23, 0x66, 0x66, 0x66, 0x3b, 0x0d,
   0x0a, 0x20, 0x20, 0x20, 0x20, 0x20, 0x20, 0x20, 0x20, 0x20,
   0x20, 0x20, 0x20, 0x70, 0x61, 0x64, 0x64, 0x69, 0x6e, 0x67,
   0x3a, 0x20, 0x32, 0x30, 0x70, 0x78, 0x3b, 0x0d, 0x0a, 0x20,
   0x20, 0x20, 0x20, 0x20, 0x20, 0x20, 0x20, 0x20, 0x20, 0x20,
   0x20, 0x62, 0x6f, 0x72, 0x64, 0x65, 0x72, 0x2d, 0x72, 0x61,
   0x64, 0x69, 0x75, 0x73, 0x3a, 0x20, 0x31, 0x35, 0x70, 0x78,
   0x3b, 0x0d, 0x0a, 0x20, 0x20, 0x20, 0x20, 0x20, 0x20, 0x20,
   0x20, 0x20, 0x20, 0x20, 0x20, 0x62, 0x6f, 0x78, 0x2d, 0x73,
   0x68, 0x61, 0x64, 0x6f, 0x77, 0x3a, 0x20, 0x30, 0x20, 0x35,
   0x70, 0x78, 0x20, 0x31, 0x35, 0x70, 0x78, 0x20, 0x72, 0x67,
   0x62, 0x61, 0x28, 0x30, 0x2c, 0x30, 0x2c, 0x30, 0x2c, 0x30,
   0x2e, 0x30, 0x35, 0x29, 0x3b, 0x0d, 0x0a, 0x20, 0x20, 0x20,
   0x20, 0x20, 0x20, 0x20, 0x20, 0x20, 0x20, 0x20, 0x20, 0x6d,
   0x61, 0x72, 0x67, 0x69, 0x6e, 0x3a, 0x20, 0x32, 0x30, 0x70,
   0x78, 0x20, 0x30, 0x3b, 0x0d, 0x0a, 0x20, 0x20, 0x20, 0x20,
   0x20, 0x20, 0x20, 0x20, 0x7d, 0x0d, 0x0a, 0x0d, 0x0a, 0x20,
   0x20, 0x20, 0x20, 0x20, 0x20, 0x20, 0x20, 0x2e, 0x73, 0x74,
   0x61, 0x74, 0x75, 0x73, 0x2d, 0x70, 0x61, 0x6e, 0x65, 0x6c,
   0x20, 0x70, 0x20, 0x7b, 0x0d, 0x0a, 0x20, 0x20, 0x20, 0x20,
   0x20, 0x20, 0x20, 0x20, 0x20, 0x20, 0x20, 0x20, 0x66, 0x6f,
   0x6e, 0x74, 0x2d, 0x73, 0x69, 0x7a, 0x65, 0x3a, 0x20, 0x31,
   0x2e, 0x32, 0x65, 0x6d, 0x3b, 0x0d, 0x0a, 0x20, 0x20, 0x20,
   0x20, 0x20, 0x20, 0x20, 0x20, 0x20, 0x20, 0x20, 0x20, 0x6d,
   0x61, 0x72, 0x67, 0x69, 0x6e, 0x3a, 0x20, 0x31, 0x35, 0x70,
   0x78, 0x20, 0x30, 0x3b, 0x0d, 0x0a, 0x20, 0x20, 0x20, 0x20,
   0x20, 0x20, 0x20, 0x20, 0x20, 0x20, 0x20, 0x20, 0x63, 0x6f,
   0x6c, 0x6f, 0x72, 0x3a, 0x20, 0x23, 0x32, 0x63, 0x33, 0x65,
   0x35, 0x30, 0x3b, 0x0d, 0x0a, 0x20, 0x20, 0x20, 0x20, 0x20,
   0x20, 0x20, 0x20, 0x20, 0x20, 0x20, 0x20, 0x64, 0x69, 0x73,
   0x70, 0x6c, 0x61, 0x79, 0x3a, 0x20, 0x66, 0x6c, 0x65, 0x78,
   0x3b, 0x0d, 0x0a, 0x20, 0x20, 0x20, 0x20, 0x20, 0x20, 0x20,
   0x20, 0x20, 0x20, 0x20, 0x20, 0x6a, 0x75, 0x73, 0x74, 0x69,
   0x66, 0x79, 0x2d, 0x63, 0x6f, 0x6e, 0x74, 0x65, 0x6e, 0x74,
   0x3a, 0x20, 0x73, 0x70, 0x61, 0x63, 0x65, 0x2d, 0x62, 0x65,
   0x74, 0x77, 0x65, 0x65, 0x6e, 0x3b, 0x0d, 0x0a, 0x20, 0x20,
   0x20, 0x20, 0x20, 0x20, 0x20, 0x20, 0x20, 0x20, 0x20, 0x20,
   0x70, 0x61, 0x64, 0x64, 0x69, 0x6e, 0x67, 0x3a, 0x20, 0x31,
   0x30, 0x70, 0x78, 0x3b, 0x0d, 0x0a, 0x20, 0x20, 0x20, 0x20,
   0x20, 0x20, 0x20, 0x20, 0x20, 0x20, 0x20, 0x20, 0x62, 0x61,
   0x63, 0x6b, 0x67, 0x72, 0x6f, 0x75, 0x6e, 0x64, 0x3a, 0x20,
   0x23, 0x66, 0x38, 0x66, 0x39, 0x66, 0x61, 0x3b, 0x0d, 0x0a,
   0x20, 0x20, 0x20, 0x20, 0x20, 0x20, 0x20, 0x20, 0x20, 0x20,
   0x20, 0x20, 0x62, 0x6f, 0x72, 0x64, 0x65, 0x72, 0x2d, 0x72,
   0x61, 0x64, 0x69, 0x75, 0x73, 0x3a, 0x20, 0x38, 0x70, 0x78,
   0x3b, 0x0d, 0x0a, 0x20, 0x20, 0x20, 0x20, 0x20, 0x20, 0x20,
   0x20, 0x7d, 0x0d, 0x0a, 0x0d, 0x0a, 0x20, 0x20, 0x20, 0x20,
   0x20, 0x20, 0x20, 0x20, 0x2e, 0x63, 0x6f, 0x6e, 0x74, 0x72,
   0x6f, 0x6c, 0x2d, 0x70, 0x61, 0x6e, 0x65, 0x6c, 0x20, 0x7b,
   0x0d, 0x0a, 0x20, 0x20, 0x20, 0x20, 0x20, 0x20, 0x20, 0x20,
   0x20, 0x20, 0x20, 0x20, 0x64, 0x69, 0x73, 0x70, 0x6c, 0x61,
   0x79, 0x3a, 0x20, 0x67, 0x72, 0x69, 0x64, 0x3b, 0x0d, 0x0a,
   0x20, 0x20, 0x20, 0x20, 0x20, 0x20, 0x20, 0x20, 0x20, 0x20,
   0x20, 0x20, 0x67, 0x72, 0x69, 0x64, 0x2d, 0x74, 0x65, 0x6d,
   0x70, 0x6c, 0x61, 0x74, 0x65, 0x2d, 0x63, 0x6f, 0x6c, 0x75,
   0x6d, 0x6e, 0x73, 0x3a, 0x20, 0x72, 0x65, 0x70, 0x65, 0x61,
   0x74, 0x28, 0x33, 0x2c, 0x20, 0x31, 0x66, 0x72, 0x29, 0x3b,
   0x0d, 0x0a, 0x20, 0x20, 0x20, 0x20, 0x20, 0x20, 0x20, 0x20,
   0x20, 0x20, 0x20, 0x20, 0x67, 0x61, 0x70, 0x3a, 0x20, 0x31,
   0x35, 0x70, 0x78, 0x3b, 0x0d, 0x0a, 0x20, 0x20, 0x20, 0x20,
   0x20, 0x20, 0x20, 0x20, 0x20, 0x20, 0x20, 0x20, 0x6d, 0x61,
   0x78, 0x2d, 0x77, 0x69, 0x64, 0x74, 0x68, 0x3a, 0x20, 0x33,
   0x35, 0x30, 0x70, 0x78, 0x3b, 0x0d, 0x0a, 0x20, 0x20, 0x20,
   0x20, 0x20, 0x20, 0x20, 0x20, 0x20, 0x20, 0x20, 0x20, 0x6d,
   0x61, 0x72, 0x67, 0x69, 0x6e, 0x3a, 0x20, 0x32, 0x30, 0x70,
   0x78, 0x20, 0x61, 0x75, 0x74, 0x6f, 0x3b, 0x0d, 0x0a, 0x20,
   0x20, 0x20, 0x20, 0x20, 0x20, 0x20, 0x20, 0x7d, 0x0d, 0x0a,
   0x0d, 0x0a, 0x20, 0x20, 0x20, 0x20, 0x20, 0x20, 0x20, 0x20,
   0x2e, 0x62, 0x75, 0x74, 0x74, 0x6f, 0x6e, 0x2d, 0x67, 0x72,
   0x6f, 0x75, 0x70, 0x20, 0x7b, 0x0d, 0x0a, 0x20, 0x20, 0x20,
   0x20, 0x20, 0x20, 0x20, 0x20, 0x20, 0x20, 0x20, 0x20, 0x64,
   0x69, 0x73, 0x70, 0x6c, 0x61, 0x79, 0x3a, 0x20, 0x66, 0x6c,
   0x65, 0x78, 0x3b, 0x0d, 0x0a, 0x20, 0x20, 0x20, 0x20, 0x20,
   0x20, 0x20, 0x20, 0x20, 0x20, 0x20, 0x20, 0x67, 0x61, 0x70,
   0x3a, 0x20, 0x31, 0x35, 0x70, 0x78, 0x3b, 0x0d, 0x0a, 0x20,
   0x20, 0x20, 0x20, 0x20, 0x20, 0x20, 0x20, 0x20, 0x20, 0x20,
   0x20, 0x6a, 0x75, 0x73, 0x74, 0x69, 0x66, 0x79, 0x2d, 0x63,
   0x6f, 0x6e, 0x74, 0x65, 0x6e, 0x74, 0x3a, 0x20, 0x63, 0x65,
   0x6e, 0x74, 0x65, 0x72, 0x3b, 0x0d, 0x0a, 0x20, 0x20, 0x20,
   0x20, 0x20, 0x20, 0x20, 0x20, 0x20, 0x20, 0x20, 0x20, 0x66,
   0x6c, 0x65, 0x78, 0x2d, 0x77, 0x72, 0x61, 0x70, 0x3a, 0x20,
   0x77, 0x72, 0x61, 0x70, 0x3b, 0x0d, 0x0a, 0x20, 0x20, 0x20,
   0x20, 0x20, 0x20, 0x20, 0x20, 0x20, 0x20, 0x20, 0x20, 0x6d,
   0x61, 0x72, 0x67, 0x69, 0x6e, 0x3a, 0x20, 0x32, 0x30, 0x70,
   0x78, 0x20, 0x30, 0x3b, 0x0d, 0x0a, 0x20, 0x20, 0x20, 0x20,
   0x20, 0x20, 0x20, 0x20, 0x7d, 0x0d, 0x0a, 0x0d, 0x0a, 0x20,
   0x20, 0x20, 0x20, 0x20, 0x20, 0x20, 0x20, 0x62, 0x75, 0x74,
   0x74, 0x6f, 0x6e, 0x20, 0x7b, 0x0d, 0x0a, 0x20, 0x20, 0x20,
   0x20, 0x20, 0x20, 0x20, 0x20, 0x20, 0x20, 0x20, 0x20, 0x62,
   0x6f, 0x72, 0x64, 0x65, 0x72, 0x3a, 0x20, 0x6e, 0x6f, 0x6e,
   0x65, 0x3b, 0x0d, 0x0a, 0x20, 0x20, 0x20, 0x20, 0x20, 0x20,
   0x20, 0x20, 0x20, 0x20, 0x20, 0x20, 0x62, 0x6f, 0x72, 0x64,
   0x65, 0x72, 0x2d, 0x72, 0x61, 0x64, 0x69, 0x75, 0x73, 0x3a,
   0x20, 0x31, 0x32, 0x70, 0x78, 0x3b, 0x0d, 0x0a, 0x20, 0x20,
   0x20, 0x20, 0x20, 0x20, 0x20, 0x20, 0x20, 0x20, 0x20, 0x20,
   0x70, 0x61, 0x64, 0x64, 0x69, 0x6e, 0x67, 0x3a, 0x20, 0x31,
   0x35, 0x70, 0x78, 0x20, 0x32, 0x35, 0x70, 0x78, 0x3b, 0x0d,
   0x0a, 0x20, 0x20, 0x20, 0x20, 0x20, 0x20, 0x20, 0x20, 0x20,
   0x20, 0x20, 0x20, 0x66, 0x6f, 0x6e, 0x74, 0x2d, 0x73, 0x69,
   0x7a, 0x65, 0x3a, 0x20, 0x31, 0x2e, 0x31, 0x65, 0x6d, 0x3b,
   0x0d, 0x0a, 0x20, 0x20, 0x20, 0x20, 0x20, 0x20, 0x20, 0x20,
   0x20, 0x20, 0x20, 0x20, 0x63, 0x75, 0x72, 0x73, 0x6f, 0x72,
   0x3a, 0x20, 0x70, 0x6f, 0x69, 0x6e, 0x74, 0x65, 0x72, 0x3b,
   0x0d, 0x0a, 0x20, 0x20, 0x20, 0x20, 0x20, 0x20, 0x20, 0x20,
   0x20, 0x20, 0x20, 0x20, 0x74, 0x72, 0x61, 0x6e, 0x73, 0x69,
   0x74, 0x69, 0x6f, 0x6e, 0x3a, 0x20, 0x61, 0x6c, 0x6c, 0x20,
   0x30, 0x2e, 0x33, 0x73, 0x20, 0x65, 0x61, 0x73, 0x65, 0x3b,
   0x0d, 0x0a, 0x20, 0x20, 0x20, 0x20, 0x20, 0x20, 0x20, 0x20,
   0x20, 0x20, 0x20, 0x20, 0x62, 0x61, 0x63, 0x6b, 0x67, 0x72,
   0x6f, 0x75, 0x6e, 0x64, 0x3a, 0x20, 0x23, 0x33, 0x34, 0x39,
   0x38, 0x64, 0x62, 0x3b, 0x0d, 0x0a, 0x20, 0x20, 0x20, 0x20,
   0x20, 0x20, 0x20, 0x20, 0x20, 0x20, 0x20, 0x20, 0x63, 0x6f,
   0x6c, 0x6f, 0x72, 0x3a, 0x20, 0x77, 0x68, 0x69, 0x74, 0x65,
   0x3b, 0x0d, 0x0a, 0x20, 0x20, 0x20, 0x20, 0x20, 0x20, 0x20,
   0x20, 0x20, 0x20, 0x20, 0x20, 0x62, 0x6f, 0x78, 0x2d, 0x73,
   0x68, 0x61, 0x64, 0x6f, 0x77, 0x3a, 0x20, 0x30, 0x20, 0x34]"

definition data_index_shtml_3 :: "u8 list" where
  "data_index_shtml_3 =
  [0x70, 0x78, 0x20, 0x31, 0x35, 0x70, 0x78, 0x20, 0x72, 0x67,
   0x62, 0x61, 0x28, 0x30, 0x2c, 0x30, 0x2c, 0x30, 0x2c, 0x30,
   0x2e, 0x31, 0x29, 0x3b, 0x0d, 0x0a, 0x20, 0x20, 0x20, 0x20,
   0x20, 0x20, 0x20, 0x20, 0x7d, 0x0d, 0x0a, 0x0d, 0x0a, 0x20,
   0x20, 0x20, 0x20, 0x20, 0x20, 0x20, 0x20, 0x62, 0x75, 0x74,
   0x74, 0x6f, 0x6e, 0x3a, 0x68, 0x6f, 0x76, 0x65, 0x72, 0x20,
   0x7b, 0x0d, 0x0a, 0x20, 0x20, 0x20, 0x20, 0x20, 0x20, 0x20,
   0x20, 0x20, 0x20, 0x20, 0x20, 0x74, 0x72, 0x61, 0x6e, 0x73,
   0x66, 0x6f, 0x72, 0x6d, 0x3a, 0x20, 0x74, 0x72, 0x61, 0x6e,
   0x73, 0x6c, 0x61, 0x74, 0x65, 0x59, 0x28, 0x2d, 0x32, 0x70,
   0x78, 0x29, 0x3b, 0x0d, 0x0a, 0x20, 0x20, 0x20, 0x20, 0x20,
   0x20, 0x20, 0x20, 0x20, 0x20, 0x20, 0x20, 0x62, 0x6f, 0x78,
   0x2d, 0x73, 0x68, 0x61, 0x64, 0x6f, 0x77, 0x3a, 0x20, 0x30,
   0x20, 0x36, 0x70, 0x78, 0x20, 0x32, 0x30, 0x70, 0x78, 0x20,
   0x72, 0x67, 0x62, 0x61, 0x28, 0x30, 0x2c, 0x30, 0x2c, 0x30,
   0x2c, 0x30, 0x2e, 0x31, 0x35, 0x29, 0x3b, 0x0d, 0x0a, 0x20,
   0x20, 0x20, 0x20, 0x20, 0x20, 0x20, 0x20, 0x7d, 0x0d, 0x0a,
   0x0d, 0x0a, 0x20, 0x20, 0x20, 0x20, 0x20, 0x20, 0x20, 0x20,
   0x2e, 0x72, 0x67, 0x62, 0x2d, 0x62, 0x75, 0x74, 0x74, 0x6f,
   0x6e, 0x20, 0x7b, 0x0d, 0x0a, 0x20, 0x20, 0x20, 0x20, 0x20,
   0x20, 0x20, 0x20, 0x20, 0x20, 0x20, 0x20, 0x77, 0x69, 0x64,
   0x74, 0x68, 0x3a, 0x20, 0x31, 0x30, 0x30, 0x70, 0x78, 0x3b,
   0x0d, 0x0a, 0x20, 0x20, 0x20, 0x20, 0x20, 0x20, 0x20, 0x20,
   0x20, 0x20, 0x20, 0x20, 0x68, 0x65, 0x69, 0x67, 0x68, 0x74,
   0x3a, 0x20, 0x35, 0x30, 0x70, 0x78, 0x3b, 0x0d, 0x0a, 0x20,
   0x20, 0x20, 0x20, 0x20, 0x20, 0x20, 0x20, 0x20, 0x20, 0x20,
   0x20, 0x66, 0x6f, 0x6e, 0x74, 0x2d, 0x77, 0x65, 0x69, 0x67,
   0x68, 0x74, 0x3a, 0x20, 0x62, 0x6f, 0x6c, 0x64, 0x3b, 0x0d,
   0x0a, 0x20, 0x20, 0x20, 0x20, 0x20, 0x20, 0x20, 0x20, 0x20,
   0x20, 0x20, 0x20, 0x74, 0x65, 0x78, 0x74, 0x2d, 0x73, 0x68,
   0x61, 0x64, 0x6f, 0x77, 0x3a, 0x20, 0x31, 0x70, 0x78, 0x20,
   0x31, 0x70, 0x78, 0x20, 0x32, 0x70, 0x78, 0x20, 0x72, 0x67,
   0x62, 0x61, 0x28, 0x30, 0x2c, 0x30, 0x2c, 0x30, 0x2c, 0x30,
   0x2e, 0x33, 0x29, 0x3b, 0x0d, 0x0a, 0x20, 0x20, 0x20, 0x20,
   0x20, 0x20, 0x20, 0x20, 0x7d, 0x0d, 0x0a, 0x0d, 0x0a, 0x20,
   0x20, 0x20, 0x20, 0x20, 0x20, 0x20, 0x20, 0x2e, 0x72, 0x67,
   0x62, 0x2d, 0x72, 0x65, 0x64, 0x20, 0x7b, 0x20, 0x62, 0x61,
   0x63, 0x6b, 0x67, 0x72, 0x6f, 0x75, 0x6e, 0x64, 0x3a, 0x20,
   0x23, 0x66, 0x66, 0x34, 0x37, 0x35, 0x37, 0x7d, 0x0d, 0x0a,
   0x20, 0x20, 0x20, 0x20, 0x20, 0x20, 0x20, 0x20, 0x2e, 0x72,
   0x67, 0x62, 0x2d, 0x67, 0x72, 0x65, 0x65, 0x6e, 0x20, 0x7b,
   0x20, 0x62, 0x61, 0x63, 0x6b, 0x67, 0x72, 0x6f, 0x75, 0x6e,
   0x64, 0x3a, 0x20, 0x20, 0x23, 0x32, 0x65, 0x64, 0x35, 0x37,
   0x33, 0x20, 0x7d, 0x0d, 0x0a, 0x20, 0x20, 0x20, 0x20, 0x20,
   0x20, 0x20, 0x20, 0x2e, 0x72, 0x67, 0x62, 0x2d, 0x62, 0x6c,
   0x75, 0x65, 0x20, 0x7b, 0x20, 0x62, 0x61, 0x63, 0x6b, 0x67,
   0x72, 0x6f, 0x75, 0x6e, 0x64, 0x3a, 0x20, 0x20, 0x23, 0x31,
   0x65, 0x39, 0x30, 0x66, 0x66, 0x20, 0x7d, 0x0d, 0x0a, 0x0d,
   0x0a, 0x20, 0x20, 0x20, 0x20, 0x20, 0x20, 0x20, 0x20, 0x2e,
   0x6d, 0x6f, 0x74, 0x6f, 0x72, 0x2d, 0x62, 0x74, 0x6e, 0x20,
   0x7b, 0x0d, 0x0a, 0x20, 0x20, 0x20, 0x20, 0x20, 0x20, 0x20,
   0x20, 0x20, 0x20, 0x20, 0x20, 0x77, 0x69, 0x64, 0x74, 0x68,
   0x3a, 0x20, 0x36, 0x30, 0x70, 0x78, 0x3b, 0x0d, 0x0a, 0x20,
   0x20, 0x20, 0x20, 0x20, 0x20, 0x20, 0x20, 0x20, 0x20, 0x20,
   0x20, 0x68, 0x65, 0x69, 0x67, 0x68, 0x74, 0x3a, 0x20, 0x36,
   0x30, 0x70, 0x78, 0x3b, 0x0d, 0x0a, 0x20, 0x20, 0x20, 0x20,
   0x20, 0x20, 0x20, 0x20, 0x20, 0x20, 0x20, 0x20, 0x62, 0x6f,
   0x72, 0x64, 0x65, 0x72, 0x2d, 0x72, 0x61, 0x64, 0x69, 0x75,
   0x73, 0x3a, 0x20, 0x35, 0x30, 0x25, 0x3b, 0x0d, 0x0a, 0x20,
   0x20, 0x20, 0x20, 0x20, 0x20, 0x20, 0x20, 0x20, 0x20, 0x20,
   0x20, 0x66, 0x6f, 0x6e, 0x74, 0x2d, 0x73, 0x69, 0x7a, 0x65,
   0x3a, 0x20, 0x32, 0x34, 0x70, 0x78, 0x3b, 0x0d, 0x0a, 0x20,
   0x20, 0x20, 0x20, 0x20, 0x20, 0x20, 0x20, 0x20, 0x20, 0x20,
   0x20, 0x70, 0x61, 0x64, 0x64, 0x69, 0x6e, 0x67, 0x3a, 0x20,
   0x30, 0x3b, 0x0d, 0x0a, 0x20, 0x20, 0x20, 0x20, 0x20, 0x20,
   0x20, 0x20, 0x20, 0x20, 0x20, 0x20, 0x64, 0x69, 0x73, 0x70,
   0x6c, 0x61, 0x79, 0x3a, 0x20, 0x66, 0x6c, 0x65, 0x78, 0x3b,
   0x0d, 0x0a, 0x20, 0x20, 0x20, 0x20, 0x20, 0x20, 0x20, 0x20,
   0x20, 0x20, 0x20, 0x20, 0x61, 0x6c, 0x69, 0x67, 0x6e, 0x2d,
   0x69, 0x74, 0x65, 0x6d, 0x73, 0x3a, 0x20, 0x63, 0x65, 0x6e,
   0x74, 0x65, 0x72, 0x3b, 0x0d, 0x0a, 0x20, 0x20, 0x20, 0x20,
   0x20, 0x20, 0x20, 0x20, 0x20, 0x20, 0x20, 0x20, 0x6a, 0x75,
   0x73, 0x74, 0x69, 0x66, 0x79, 0x2d, 0x63, 0x6f, 0x6e, 0x74,
   0x65, 0x6e, 0x74, 0x3a, 0x20, 0x63, 0x65, 0x6e, 0x74, 0x65,
   0x72, 0x3b, 0x0d, 0x0a, 0x20, 0x20, 0x20, 0x20, 0x20, 0x20,
   0x20, 0x20, 0x20, 0x20, 0x20, 0x20, 0x62, 0x61, 0x63, 0x6b,
   0x67, 0x72, 0x6f, 0x75, 0x6e, 0x64, 0x3a, 0x20, 0x6c, 0x69,
   0x6e, 0x65, 0x61, 0x72, 0x2d, 0x67, 0x72, 0x61, 0x64, 0x69,
   0x65, 0x6e, 0x74, 0x28, 0x31, 0x34, 0x35, 0x64, 0x65, 0x67,
   0x2c, 0x20, 0x23, 0x33, 0x34, 0x39, 0x38, 0x64, 0x62, 0x2c,
   0x20, 0x23, 0x32, 0x39, 0x38, 0x30, 0x62, 0x39, 0x29, 0x3b,
   0x0d, 0x0a, 0x20, 0x20, 0x20, 0x20, 0x20, 0x20, 0x20, 0x20,
   0x7d, 0x0d, 0x0a, 0x0d, 0x0a, 0x20, 0x20, 0x20, 0x20, 0x20,
   0x20, 0x20, 0x20, 0x2e, 0x73, 0x74, 0x6f, 0x70, 0x2d, 0x62,
   0x74, 0x6e, 0x20, 0x7b, 0x0d, 0x0a, 0x20, 0x20, 0x20, 0x20,
   0x20, 0x20, 0x20, 0x20, 0x20, 0x20, 0x20, 0x20, 0x62, 0x61,
   0x63, 0x6b, 0x67, 0x72, 0x6f, 0x75, 0x6e, 0x64, 0x3a, 0x20,
   0x6c, 0x69, 0x6e, 0x65, 0x61, 0x72, 0x2d, 0x67, 0x72, 0x61,
   0x64, 0x69, 0x65, 0x6e, 0x74, 0x28, 0x31, 0x34, 0x35, 0x64,
   0x65, 0x67, 0x2c, 0x20, 0x23, 0x65, 0x37, 0x34, 0x63, 0x33,
   0x63, 0x2c, 0x20, 0x23, 0x63, 0x30, 0x33, 0x39, 0x32, 0x62,
   0x29, 0x3b, 0x0d, 0x0a, 0x20, 0x20, 0x20, 0x20, 0x20, 0x20,
   0x20, 0x20, 0x7d, 0x0d, 0x0a, 0x0d, 0x0a, 0x20, 0x20, 0x20,
   0x20, 0x20, 0x20, 0x20, 0x20, 0x2e, 0x72, 0x65, 0x66, 0x72,
   0x65, 0x73, 0x68, 0x2d, 0x6c, 0x69, 0x6e, 0x6b, 0x20, 0x7b,
   0x0d, 0x0a, 0x20, 0x20, 0x20, 0x20, 0x20, 0x20, 0x20, 0x20,
   0x20, 0x20, 0x20, 0x20, 0x64, 0x69, 0x73, 0x70, 0x6c, 0x61,
   0x79, 0x3a, 0x20, 0x62, 0x6c, 0x6f, 0x63, 0x6b, 0x3b, 0x0d,
   0x0a, 0x20, 0x20, 0x20, 0x20, 0x20, 0x20, 0x20, 0x20, 0x20,
   0x20, 0x20, 0x20, 0x74, 0x65, 0x78, 0x74, 0x2d, 0x61, 0x6c,
   0x69, 0x67, 0x6e, 0x3a, 0x20, 0x63, 0x65, 0x6e, 0x74, 0x65,
   0x72, 0x3b, 0x0d, 0x0a, 0x20, 0x20, 0x20, 0x20, 0x20, 0x20,
   0x20, 0x20, 0x20, 0x20, 0x20, 0x20, 0x6d, 0x61, 0x72, 0x67,
   0x69, 0x6e, 0x3a, 0x20, 0x32, 0x30, 0x70, 0x78, 0x20, 0x30,
   0x3b, 0x0d, 0x0a, 0x20, 0x20, 0x20, 0x20, 0x20, 0x20, 0x20,
   0x20, 0x20, 0x20, 0x20, 0x20, 0x63, 0x6f, 0x6c, 0x6f, 0x72,
   0x3a, 0x20, 0x23, 0x33, 0x34, 0x39, 0x38, 0x64, 0x62, 0x3b,
   0x0d, 0x0a, 0x20, 0x20, 0x20, 0x20, 0x20, 0x20, 0x20, 0x20,
   0x20, 0x20, 0x20, 0x20, 0x74, 0x65, 0x78, 0x74, 0x2d, 0x64,
   0x65, 0x63, 0x6f, 0x72, 0x61, 0x74, 0x69, 0x6f, 0x6e, 0x3a,
   0x20, 0x6e, 0x6f, 0x6e, 0x65, 0x3b, 0x0d, 0x0a, 0x20, 0x20,
   0x20, 0x20, 0x20, 0x20, 0x20, 0x20, 0x20, 0x20, 0x20, 0x20,
   0x66, 0x6f, 0x6e, 0x74, 0x2d, 0x73, 0x69, 0x7a, 0x65, 0x3a,
   0x20, 0x31, 0x2e, 0x31, 0x65, 0x6d, 0x3b, 0x0d, 0x0a, 0x20,
   0x20, 0x20, 0x20, 0x20, 0x20, 0x20, 0x20, 0x20, 0x20, 0x20,
   0x20, 0x74, 0x72, 0x61, 0x6e, 0x73, 0x69, 0x74, 0x69, 0x6f,
   0x6e, 0x3a, 0x20, 0x61, 0x6c, 0x6c, 0x20, 0x30, 0x2e, 0x33,
   0x73, 0x20, 0x65, 0x61, 0x73, 0x65, 0x3b, 0x0d, 0x0a, 0x20,
   0x20, 0x20, 0x20, 0x20, 0x20, 0x20, 0x20, 0x7d, 0x0d, 0x0a,
   0x0d, 0x0a, 0x20, 0x20, 0x20, 0x20, 0x20, 0x20, 0x20, 0x20,
   0x2e, 0x72, 0x65, 0x66, 0x72, 0x65, 0x73, 0x68, 0x2d, 0x6c,
   0x69, 0x6e, 0x6b, 0x3a, 0x68, 0x6f, 0x76, 0x65, 0x72, 0x20,
   0x7b, 0x0d, 0x0a, 0x20, 0x20, 0x20, 0x20, 0x20, 0x20, 0x20]"

definition data_index_shtml_4 :: "u8 list" where
  "data_index_shtml_4 =
  [0x20, 0x20, 0x20, 0x20, 0x20, 0x63, 0x6f, 0x6c, 0x6f, 0x72,
   0x3a, 0x20, 0x23, 0x32, 0x39, 0x38, 0x30, 0x62, 0x39, 0x3b,
   0x0d, 0x0a, 0x20, 0x20, 0x20, 0x20, 0x20, 0x20, 0x20, 0x20,
   0x20, 0x20, 0x20, 0x20, 0x74, 0x72, 0x61, 0x6e, 0x73, 0x66,
   0x6f, 0x72, 0x6d, 0x3a, 0x20, 0x73, 0x63, 0x61, 0x6c, 0x65,
   0x28, 0x31, 0x2e, 0x30, 0x35, 0x29, 0x3b, 0x0d, 0x0a, 0x20,
   0x20, 0x20, 0x20, 0x20, 0x20, 0x20, 0x20, 0x7d, 0x0d, 0x0a,
   0x0d, 0x0a, 0x20, 0x20, 0x20, 0x20, 0x20, 0x20, 0x20, 0x20,
   0x40, 0x6d, 0x65, 0x64, 0x69, 0x61, 0x20, 0x28, 0x6d, 0x61,
   0x78, 0x2d, 0x77, 0x69, 0x64, 0x74, 0x68, 0x3a, 0x20, 0x34,
   0x38, 0x30, 0x70, 0x78, 0x29, 0x20, 0x7b, 0x0d, 0x0a, 0x20,
   0x20, 0x20, 0x20, 0x20, 0x20, 0x20, 0x20, 0x20, 0x20, 0x20,
   0x20, 0x2e, 0x63, 0x6f, 0x6e, 0x74, 0x61, 0x69, 0x6e, 0x65,
   0x72, 0x20, 0x7b, 0x0d, 0x0a, 0x20, 0x20, 0x20, 0x20, 0x20,
   0x20, 0x20, 0x20, 0x20, 0x20, 0x20, 0x20, 0x20, 0x20, 0x20,
   0x20, 0x70, 0x61, 0x64, 0x64, 0x69, 0x6e, 0x67, 0x3a, 0x20,
   0x31, 0x35, 0x70, 0x78, 0x3b, 0x0d, 0x0a, 0x20, 0x20, 0x20,
   0x20, 0x20, 0x20, 0x20, 0x20, 0x20, 0x20, 0x20, 0x20, 0x7d,
   0x0d, 0x0a, 0x20, 0x20, 0x20, 0x20, 0x20, 0x20, 0x20, 0x20,
   0x20, 0x20, 0x20, 0x20, 0x62, 0x75, 0x74, 0x74, 0x6f, 0x6e,
   0x20, 0x7b, 0x0d, 0x0a, 0x20, 0x20, 0x20, 0x20, 0x20, 0x20,
   0x20, 0x20, 0x20, 0x20, 0x20, 0x20, 0x20, 0x20, 0x20, 0x20,
   0x70, 0x61, 0x64, 0x64, 0x69, 0x6e, 0x67, 0x3a, 0x20, 0x31,
   0x32, 0x70, 0x78, 0x20, 0x32, 0x30, 0x70, 0x78, 0x3b, 0x0d,
   0x0a, 0x20, 0x20, 0x20, 0x20, 0x20, 0x20, 0x20, 0x20, 0x20,
   0x20, 0x20, 0x20, 0x7d, 0x0d, 0x0a, 0x20, 0x20, 0x20, 0x20,
   0x20, 0x20, 0x20, 0x20, 0x20, 0x20, 0x20, 0x20, 0x2e, 0x6d,
   0x6f, 0x74, 0x6f, 0x72, 0x2d, 0x62, 0x74, 0x6e, 0x20, 0x7b,
   0x0d, 0x0a, 0x20, 0x20, 0x20, 0x20, 0x20, 0x20, 0x20, 0x20,
   0x20, 0x20, 0x20, 0x20, 0x20, 0x20, 0x20, 0x20, 0x77, 0x69,
   0x64, 0x74, 0x68, 0x3a, 0x20, 0x35, 0x30, 0x70, 0x78, 0x3b,
   0x0d, 0x0a, 0x20, 0x20, 0x20, 0x20, 0x20, 0x20, 0x20, 0x20,
   0x20, 0x20, 0x20, 0x20, 0x20, 0x20, 0x20, 0x20, 0x68, 0x65,
   0x69, 0x67, 0x68, 0x74, 0x3a, 0x20, 0x35, 0x30, 0x70, 0x78,
   0x3b, 0x0d, 0x0a, 0x20, 0x20, 0x20, 0x20, 0x20, 0x20, 0x20,
   0x20, 0x20, 0x20, 0x20, 0x20, 0x7d, 0x0d, 0x0a, 0x20, 0x20,
   0x20, 0x20, 0x20, 0x20, 0x20, 0x20, 0x7d, 0x0d, 0x0a, 0x20,
   0x20, 0x20, 0x20, 0x3c, 0x2f, 0x73, 0x74, 0x79, 0x6c, 0x65,
   0x3e, 0x0d, 0x0a, 0x3c, 0x2f, 0x68, 0x65, 0x61, 0x64, 0x3e,
   0x0d, 0x0a, 0x3c, 0x62, 0x6f, 0x64, 0x79, 0x3e, 0x0d, 0x0a,
   0x20, 0x20, 0x20, 0x20, 0x3c, 0x64, 0x69, 0x76, 0x20, 0x63,
   0x6c, 0x61, 0x73, 0x73, 0x3d, 0x22, 0x63, 0x6f, 0x6e, 0x74,
   0x61, 0x69, 0x6e, 0x65, 0x72, 0x22, 0x3e, 0x0d, 0x0a, 0x20,
   0x20, 0x20, 0x20, 0x20, 0x20, 0x20, 0x20, 0x3c, 0x68, 0x31,
   0x3e, 0x53, 0x6d, 0x61, 0x72, 0x74, 0x20, 0x43, 0x61, 0x72,
   0x20, 0x43, 0x6f, 0x6e, 0x74, 0x72, 0x6f, 0x6c, 0x20, 0x50,
   0x61, 0x6e, 0x65, 0x6c, 0x3c, 0x2f, 0x68, 0x31, 0x3e, 0x0d,
   0x0a, 0x20, 0x20, 0x20, 0x20, 0x20, 0x20, 0x20, 0x20, 0x0d,
   0x0a, 0x20, 0x20, 0x20, 0x20, 0x20, 0x20, 0x20, 0x20, 0x3c,
   0x64, 0x69, 0x76, 0x20, 0x63, 0x6c, 0x61, 0x73, 0x73, 0x3d,
   0x22, 0x73, 0x74, 0x61, 0x74, 0x75, 0x73, 0x2d, 0x70, 0x61,
   0x6e, 0x65, 0x6c, 0x22, 0x3e, 0x0d, 0x0a, 0x20, 0x20, 0x20,
   0x20, 0x20, 0x20, 0x20, 0x20, 0x20, 0x20, 0x20, 0x20, 0x3c,
   0x68, 0x32, 0x3e, 0x53, 0x79, 0x73, 0x74, 0x65, 0x6d, 0x20,
   0x53, 0x74, 0x61, 0x74, 0x75, 0x73, 0x3c, 0x2f, 0x68, 0x32,
   0x3e, 0x0d, 0x0a, 0x20, 0x20, 0x20, 0x20, 0x20, 0x20, 0x20,
   0x20, 0x20, 0x20, 0x20, 0x20, 0x3c, 0x70, 0x3e, 0x56, 0x6f,
   0x6c, 0x74, 0x61, 0x67, 0x65, 0x3a, 0x20, 0x3c, 0x73, 0x70,
   0x61, 0x6e, 0x3e, 0x3c, 0x21, 0x2d, 0x2d, 0x23, 0x76, 0x6f,
   0x6c, 0x74, 0x2d, 0x2d, 0x3e, 0x20, 0x56, 0x3c, 0x2f, 0x73,
   0x70, 0x61, 0x6e, 0x3e, 0x3c, 0x2f, 0x70, 0x3e, 0x0d, 0x0a,
   0x20, 0x20, 0x20, 0x20, 0x20, 0x20, 0x20, 0x20, 0x20, 0x20,
   0x20, 0x20, 0x3c, 0x70, 0x3e, 0x54, 0x65, 0x6d, 0x70, 0x65,
   0x72, 0x61, 0x74, 0x75, 0x72, 0x65, 0x3a, 0x20, 0x3c, 0x73,
   0x70, 0x61, 0x6e, 0x3e, 0x3c, 0x21, 0x2d, 0x2d, 0x23, 0x74,
   0x65, 0x6d, 0x70, 0x2d, 0x2d, 0x3e, 0x20, 0x43, 0x3c, 0x2f,
   0x73, 0x70, 0x61, 0x6e, 0x3e, 0x3c, 0x2f, 0x70, 0x3e, 0x0d,
   0x0a, 0x20, 0x20, 0x20, 0x20, 0x20, 0x20, 0x20, 0x20, 0x20,
   0x20, 0x20, 0x20, 0x3c, 0x70, 0x3e, 0x4c, 0x45, 0x44, 0x20,
   0x53, 0x74, 0x61, 0x74, 0x75, 0x73, 0x3a, 0x20, 0x3c, 0x73,
   0x70, 0x61, 0x6e, 0x3e, 0x3c, 0x21, 0x2d, 0x2d, 0x23, 0x6c,
   0x65, 0x64, 0x2d, 0x2d, 0x3e, 0x20, 0x56, 0x3c, 0x2f, 0x73,
   0x70, 0x61, 0x6e, 0x3e, 0x3c, 0x2f, 0x70, 0x3e, 0x0d, 0x0a,
   0x20, 0x20, 0x20, 0x20, 0x20, 0x20, 0x20, 0x20, 0x3c, 0x2f,
   0x64, 0x69, 0x76, 0x3e, 0x0d, 0x0a, 0x0d, 0x0a, 0x20, 0x20,
   0x20, 0x20, 0x20, 0x20, 0x20, 0x20, 0x3c, 0x68, 0x32, 0x3e,
   0x4c, 0x45, 0x44, 0x20, 0x43, 0x6f, 0x6e, 0x74, 0x72, 0x6f,
   0x6c, 0x3c, 0x2f, 0x68, 0x32, 0x3e, 0x0d, 0x0a, 0x20, 0x20,
   0x20, 0x20, 0x20, 0x20, 0x20, 0x20, 0x3c, 0x64, 0x69, 0x76,
   0x20, 0x63, 0x6c, 0x61, 0x73, 0x73, 0x3d, 0x22, 0x62, 0x75,
   0x74, 0x74, 0x6f, 0x6e, 0x2d, 0x67, 0x72, 0x6f, 0x75, 0x70,
   0x22, 0x3e, 0x0d, 0x0a, 0x20, 0x20, 0x20, 0x20, 0x20, 0x20,
   0x20, 0x20, 0x20, 0x20, 0x20, 0x20, 0x3c, 0x61, 0x20, 0x68,
   0x72, 0x65, 0x66, 0x3d, 0x22, 0x2f, 0x6c, 0x65, 0x64, 0x2e,
   0x63, 0x67, 0x69, 0x3f, 0x6c, 0x65, 0x64, 0x3d, 0x31, 0x22,
   0x3e, 0x3c, 0x62, 0x75, 0x74, 0x74, 0x6f, 0x6e, 0x3e, 0x4c,
   0x45, 0x44, 0x20, 0x4f, 0x4e, 0x3c, 0x2f, 0x62, 0x75, 0x74,
   0x74, 0x6f, 0x6e, 0x3e, 0x3c, 0x2f, 0x61, 0x3e, 0x0d, 0x0a,
   0x20, 0x20, 0x20, 0x20, 0x20, 0x20, 0x20, 0x20, 0x20, 0x20,
   0x20, 0x20, 0x3c, 0x61, 0x20, 0x68, 0x72, 0x65, 0x66, 0x3d,
   0x22, 0x2f, 0x6c, 0x65, 0x64, 0x2e, 0x63, 0x67, 0x69, 0x3f,
   0x6c, 0x65, 0x64, 0x3d, 0x30, 0x22, 0x3e, 0x3c, 0x62, 0x75,
   0x74, 0x74, 0x6f, 0x6e, 0x3e, 0x4c, 0x45, 0x44, 0x20, 0x4f,
   0x46, 0x46, 0x3c, 0x2f, 0x62, 0x75, 0x74, 0x74, 0x6f, 0x6e,
   0x3e, 0x3c, 0x2f, 0x61, 0x3e, 0x0d, 0x0a, 0x20, 0x20, 0x20,
   0x20, 0x20, 0x20, 0x20, 0x20, 0x3c, 0x2f, 0x64, 0x69, 0x76,
   0x3e, 0x0d, 0x0a, 0x0d, 0x0a, 0x20, 0x20, 0x20, 0x20, 0x20,
   0x20, 0x20, 0x20, 0x3c, 0x68, 0x32, 0x3e, 0x42, 0x75, 0x7a,
   0x7a, 0x65, 0x72, 0x20, 0x43, 0x6f, 0x6e, 0x74, 0x72, 0x6f,
   0x6c, 0x3c, 0x2f, 0x68, 0x32, 0x3e, 0x0d, 0x0a, 0x20, 0x20,
   0x20, 0x20, 0x20, 0x20, 0x20, 0x20, 0x3c, 0x64, 0x69, 0x76,
   0x20, 0x63, 0x6c, 0x61, 0x73, 0x73, 0x3d, 0x22, 0x62, 0x75,
   0x74, 0x74, 0x6f, 0x6e, 0x2d, 0x67, 0x72, 0x6f, 0x75, 0x70,
   0x22, 0x3e, 0x0d, 0x0a, 0x20, 0x20, 0x20, 0x20, 0x20, 0x20,
   0x20, 0x20, 0x20, 0x20, 0x20, 0x20, 0x3c, 0x61, 0x20, 0x68,
   0x72, 0x65, 0x66, 0x3d, 0x22, 0x2f, 0x6c, 0x65, 0x64, 0x2e,
   0x63, 0x67, 0x69, 0x3f, 0x62, 0x75, 0x7a, 0x7a, 0x65, 0x72,
   0x3d, 0x6f, 0x6e, 0x22, 0x3e, 0x3c, 0x62, 0x75, 0x74, 0x74,
   0x6f, 0x6e, 0x3e, 0x42, 0x75, 0x7a, 0x7a, 0x65, 0x72, 0x20,
   0x4f, 0x4e, 0x3c, 0x2f, 0x62, 0x75, 0x74, 0x74, 0x6f, 0x6e,
   0x3e, 0x3c, 0x2f, 0x61, 0x3e, 0x0d, 0x0a, 0x20, 0x20, 0x20,
   0x20, 0x20, 0x20, 0x20, 0x20, 0x20, 0x20, 0x20, 0x20, 0x3c,
   0x61, 0x20, 0x68, 0x72, 0x65, 0x66, 0x3d, 0x22, 0x2f, 0x6c,
   0x65, 0x64, 0x2e, 0x63, 0x67, 0x69, 0x3f, 0x62, 0x75, 0x7a,
   0x7a, 0x65, 0x72, 0x3d, 0x6f, 0x66, 0x66, 0x22, 0x3e, 0x3c,
   0x62, 0x75, 0x74, 0x74, 0x6f, 0x6e, 0x3e, 0x42, 0x75, 0x7a,
   0x7a, 0x65, 0x72, 0x20, 0x4f, 0x46, 0x46, 0x3c, 0x2f, 0x62,
   0x75, 0x74, 0x74, 0x6f, 0x6e, 0x3e, 0x3c, 0x2f, 0x61, 0x3e,
   0x0d, 0x0a, 0x20, 0x20, 0x20, 0x20, 0x20, 0x20, 0x20, 0x20,
   0x3c, 0x2f, 0x64, 0x69, 0x76, 0x3e, 0x0d, 0x0a, 0x0d, 0x0a,
   0x20, 0x20, 0x20, 0x20, 0x20, 0x20, 0x20, 0x20, 0x3c, 0x68,
   0x32, 0x3e, 0x52, 0x47, 0x42, 0x20, 0x4c, 0x45, 0x44, 0x20,
   0x43, 0x6f, 0x6e, 0x74, 0x72, 0x6f, 0x6c, 0x3c, 0x2f, 0x68]"

definition data_index_shtml_5 :: "u8 list" where
  "data_index_shtml_5 =
  [0x32, 0x3e, 0x0d, 0x0a, 0x20, 0x20, 0x20, 0x20, 0x20, 0x20,
   0x20, 0x20, 0x3c, 0x64, 0x69, 0x76, 0x20, 0x63, 0x6c, 0x61,
   0x73, 0x73, 0x3d, 0x22, 0x62, 0x75, 0x74, 0x74, 0x6f, 0x6e,
   0x2d, 0x67, 0x72, 0x6f, 0x75, 0x70, 0x22, 0x3e, 0x0d, 0x0a,
   0x20, 0x20, 0x20, 0x20, 0x20, 0x20, 0x20, 0x20, 0x20, 0x20,
   0x20, 0x20, 0x3c, 0x61, 0x20, 0x68, 0x72, 0x65, 0x66, 0x3d,
   0x22, 0x2f, 0x6c, 0x65, 0x64, 0x2e, 0x63, 0x67, 0x69, 0x3f,
   0x72, 0x67, 0x62, 0x6c, 0x65, 0x64, 0x3d, 0x72, 0x65, 0x64,
   0x22, 0x3e, 0x3c, 0x62, 0x75, 0x74, 0x74, 0x6f, 0x6e, 0x20,
   0x63, 0x6c, 0x61, 0x73, 0x73, 0x3d, 0x22, 0x72, 0x67, 0x62,
   0x2d, 0x62, 0x75, 0x74, 0x74, 0x6f, 0x6e, 0x20, 0x72, 0x67,
   0x62, 0x2d, 0x72, 0x65, 0x64, 0x22, 0x3e, 0x52, 0x65, 0x64,
   0x3c, 0x2f, 0x62, 0x75, 0x74, 0x74, 0x6f, 0x6e, 0x3e, 0x3c,
   0x2f, 0x61, 0x3e, 0x0d, 0x0a, 0x20, 0x20, 0x20, 0x20, 0x20,
   0x20, 0x20, 0x20, 0x20, 0x20, 0x20, 0x20, 0x3c, 0x61, 0x20,
   0x68, 0x72, 0x65, 0x66, 0x3d, 0x22, 0x2f, 0x6c, 0x65, 0x64,
   0x2e, 0x63, 0x67, 0x69, 0x3f, 0x72, 0x67, 0x62, 0x6c, 0x65,
   0x64, 0x3d, 0x67, 0x72, 0x65, 0x65, 0x6e, 0x22, 0x3e, 0x3c,
   0x62, 0x75, 0x74, 0x74, 0x6f, 0x6e, 0x20, 0x63, 0x6c, 0x61,
   0x73, 0x73, 0x3d, 0x22, 0x72, 0x67, 0x62, 0x2d, 0x62, 0x75,
   0x74, 0x74, 0x6f, 0x6e, 0x20, 0x72, 0x67, 0x62, 0x2d, 0x67,
   0x72, 0x65, 0x65, 0x6e, 0x22, 0x3e, 0x47, 0x72, 0x65, 0x65,
   0x6e, 0x3c, 0x2f, 0x62, 0x75, 0x74, 0x74, 0x6f, 0x6e, 0x3e,
   0x3c, 0x2f, 0x61, 0x3e, 0x0d, 0x0a, 0x20, 0x20, 0x20, 0x20,
   0x20, 0x20, 0x20, 0x20, 0x20, 0x20, 0x20, 0x20, 0x3c, 0x61,
   0x20, 0x68, 0x72, 0x65, 0x66, 0x3d, 0x22, 0x2f, 0x6c, 0x65,
   0x64, 0x2e, 0x63, 0x67, 0x69, 0x3f, 0x72, 0x67, 0x62, 0x6c,
   0x65, 0x64, 0x3d, 0x62, 0x6c, 0x75, 0x65, 0x22, 0x3e, 0x3c,
   0x62, 0x75, 0x74, 0x74, 0x6f, 0x6e, 0x20, 0x63, 0x6c, 0x61,
   0x73, 0x73, 0x3d, 0x22, 0x72, 0x67, 0x62, 0x2d, 0x62, 0x75,
   0x74, 0x74, 0x6f, 0x6e, 0x20, 0x72, 0x67, 0x62, 0x2d, 0x62,
   0x6c, 0x75, 0x65, 0x22, 0x3e, 0x42, 0x6c, 0x75, 0x65, 0x3c,
   0x2f, 0x62, 0x75, 0x74, 0x74, 0x6f, 0x6e, 0x3e, 0x3c, 0x2f,
   0x61, 0x3e, 0x0d, 0x0a, 0x20, 0x20, 0x20, 0x20, 0x20, 0x20,
   0x20, 0x20, 0x20, 0x20, 0x20, 0x20, 0x3c, 0x61, 0x20, 0x68,
   0x72, 0x65, 0x66, 0x3d, 0x22, 0x2f, 0x6c, 0x65, 0x64, 0x2e,
   0x63, 0x67, 0x69, 0x3f, 0x72, 0x67, 0x62, 0x6c, 0x65, 0x64,
   0x3d, 0x6f, 0x66, 0x66, 0x22, 0x3e, 0x3c, 0x62, 0x75, 0x74,
   0x74, 0x6f, 0x6e, 0x3e, 0x4f, 0x66, 0x66, 0x3c, 0x2f, 0x62,
   0x75, 0x74, 0x74, 0x6f, 0x6e, 0x3e, 0x3c, 0x2f, 0x61, 0x3e,
   0x0d, 0x0a, 0x20, 0x20, 0x20, 0x20, 0x20, 0x20, 0x20, 0x20,
   0x3c, 0x2f, 0x64, 0x69, 0x76, 0x3e, 0x0d, 0x0a, 0x0d, 0x0a,
   0x20, 0x20, 0x20, 0x20, 0x20, 0x20, 0x20, 0x20, 0x3c, 0x68,
   0x32, 0x3e, 0x4d, 0x6f, 0x74, 0x6f, 0x72, 0x20, 0x43, 0x6f,
   0x6e, 0x74, 0x72, 0x6f, 0x6c, 0x3c, 0x2f, 0x68, 0x32, 0x3e,
   0x0d, 0x0a, 0x20, 0x20, 0x20, 0x20, 0x20, 0x20, 0x20, 0x20,
   0x3c, 0x64, 0x69, 0x76, 0x20, 0x63, 0x6c, 0x61, 0x73, 0x73,
   0x3d, 0x22, 0x63, 0x6f, 0x6e, 0x74, 0x72, 0x6f, 0x6c, 0x2d,
   0x70, 0x61, 0x6e, 0x65, 0x6c, 0x22, 0x3e, 0x0d, 0x0a, 0x20,
   0x20, 0x20, 0x20, 0x20, 0x20, 0x20, 0x20, 0x20, 0x20, 0x20,
   0x20, 0x3c, 0x64, 0x69, 0x76, 0x3e, 0x3c, 0x2f, 0x64, 0x69,
   0x76, 0x3e, 0x0d, 0x0a, 0x20, 0x20, 0x20, 0x20, 0x20, 0x20,
   0x20, 0x20, 0x20, 0x20, 0x20, 0x20, 0x3c, 0x61, 0x20, 0x68,
   0x72, 0x65, 0x66, 0x3d, 0x22, 0x2f, 0x6c, 0x65, 0x64, 0x2e,
   0x63, 0x67, 0x69, 0x3f, 0x6d, 0x6f, 0x74, 0x6f, 0x72, 0x3d,
   0x66, 0x6f, 0x72, 0x77, 0x61, 0x72, 0x64, 0x22, 0x20, 0x63,
   0x6c, 0x61, 0x73, 0x73, 0x3d, 0x22, 0x63, 0x65, 0x6e, 0x74,
   0x65, 0x72, 0x2d, 0x62, 0x74, 0x6e, 0x22, 0x3e, 0x3c, 0x62,
   0x75, 0x74, 0x74, 0x6f, 0x6e, 0x20, 0x63, 0x6c, 0x61, 0x73,
   0x73, 0x3d, 0x22, 0x6d, 0x6f, 0x74, 0x6f, 0x72, 0x2d, 0x62,
   0x74, 0x6e, 0x22, 0x3e, 0x5e, 0x3c, 0x2f, 0x62, 0x75, 0x74,
   0x74, 0x6f, 0x6e, 0x3e, 0x3c, 0x2f, 0x61, 0x3e, 0x0d, 0x0a,
   0x20, 0x20, 0x20, 0x20, 0x20, 0x20, 0x20, 0x20, 0x20, 0x20,
   0x20, 0x20, 0x3c, 0x64, 0x69, 0x76, 0x3e, 0x3c, 0x2f, 0x64,
   0x69, 0x76, 0x3e, 0x0d, 0x0a, 0x20, 0x20, 0x20, 0x20, 0x20,
   0x20, 0x20, 0x20, 0x20, 0x20, 0x20, 0x20, 0x3c, 0x61, 0x20,
   0x68, 0x72, 0x65, 0x66, 0x3d, 0x22, 0x2f, 0x6c, 0x65, 0x64,
   0x2e, 0x63, 0x67, 0x69, 0x3f, 0x6d, 0x6f, 0x74, 0x6f, 0x72,
   0x3d, 0x6c, 0x65, 0x66, 0x74, 0x22, 0x3e, 0x3c, 0x62, 0x75,
   0x74, 0x74, 0x6f, 0x6e, 0x20, 0x63, 0x6c, 0x61, 0x73, 0x73,
   0x3d, 0x22, 0x6d, 0x6f, 0x74, 0x6f, 0x72, 0x2d, 0x62, 0x74,
   0x6e, 0x22, 0x3e, 0x3c, 0x3c, 0x3c, 0x2f, 0x62, 0x75, 0x74,
   0x74, 0x6f, 0x6e, 0x3e, 0x3c, 0x2f, 0x61, 0x3e, 0x0d, 0x0a,
   0x20, 0x20, 0x20, 0x20, 0x20, 0x20, 0x20, 0x20, 0x20, 0x20,
   0x20, 0x20, 0x3c, 0x61, 0x20, 0x68, 0x72, 0x65, 0x66, 0x3d,
   0x22, 0x2f, 0x6c, 0x65, 0x64, 0x2e, 0x63, 0x67, 0x69, 0x3f,
   0x6d, 0x6f, 0x74, 0x6f, 0x72, 0x3d, 0x73, 0x74, 0x6f, 0x70,
   0x22, 0x3e, 0x3c, 0x62, 0x75, 0x74, 0x74, 0x6f, 0x6e, 0x20,
   0x63, 0x6c, 0x61, 0x73, 0x73, 0x3d, 0x22, 0x6d, 0x6f, 0x74,
   0x6f, 0x72, 0x2d, 0x62, 0x74, 0x6e, 0x20, 0x73, 0x74, 0x6f,
   0x70, 0x2d, 0x62, 0x74, 0x6e, 0x22, 0x3e, 0x5f, 0x3c, 0x2f,
   0x62, 0x75, 0x74, 0x74, 0x6f, 0x6e, 0x3e, 0x3c, 0x2f, 0x61,
   0x3e, 0x0d, 0x0a, 0x20, 0x20, 0x20, 0x20, 0x20, 0x20, 0x20,
   0x20, 0x20, 0x20, 0x20, 0x20, 0x3c, 0x61, 0x20, 0x68, 0x72,
   0x65, 0x66, 0x3d, 0x22, 0x2f, 0x6c, 0x65, 0x64, 0x2e, 0x63,
   0x67, 0x69, 0x3f, 0x6d, 0x6f, 0x74, 0x6f, 0x72, 0x3d, 0x72,
   0x69, 0x67, 0x68, 0x74, 0x22, 0x3e, 0x3c, 0x62, 0x75, 0x74,
   0x74, 0x6f, 0x6e, 0x20, 0x63, 0x6c, 0x61, 0x73, 0x73, 0x3d,
   0x22, 0x6d, 0x6f, 0x74, 0x6f, 0x72, 0x2d, 0x62, 0x74, 0x6e,
   0x22, 0x3e, 0x3e, 0x3e, 0x3c, 0x2f, 0x62, 0x75, 0x74, 0x74,
   0x6f, 0x6e, 0x3e, 0x3c, 0x2f, 0x61, 0x3e, 0x0d, 0x0a, 0x20,
   0x20, 0x20, 0x20, 0x20, 0x20, 0x20, 0x20, 0x20, 0x20, 0x20,
   0x20, 0x3c, 0x64, 0x69, 0x76, 0x3e, 0x3c, 0x2f, 0x64, 0x69,
   0x76, 0x3e, 0x0d, 0x0a, 0x20, 0x20, 0x20, 0x20, 0x20, 0x20,
   0x20, 0x20, 0x20, 0x20, 0x20, 0x20, 0x3c, 0x61, 0x20, 0x68,
   0x72, 0x65, 0x66, 0x3d, 0x22, 0x2f, 0x6c, 0x65, 0x64, 0x2e,
   0x63, 0x67, 0x69, 0x3f, 0x6d, 0x6f, 0x74, 0x6f, 0x72, 0x3d,
   0x62, 0x61, 0x63, 0x6b, 0x77, 0x61, 0x72, 0x64, 0x22, 0x20,
   0x63, 0x6c, 0x61, 0x73, 0x73, 0x3d, 0x22, 0x63, 0x65, 0x6e,
   0x74, 0x65, 0x72, 0x2d, 0x62, 0x74, 0x6e, 0x22, 0x3e, 0x3c,
   0x62, 0x75, 0x74, 0x74, 0x6f, 0x6e, 0x20, 0x63, 0x6c, 0x61,
   0x73, 0x73, 0x3d, 0x22, 0x6d, 0x6f, 0x74, 0x6f, 0x72, 0x2d,
   0x62, 0x74, 0x6e, 0x22, 0x3e, 0x56, 0x3c, 0x2f, 0x62, 0x75,
   0x74, 0x74, 0x6f, 0x6e, 0x3e, 0x3c, 0x2f, 0x61, 0x3e, 0x0d,
   0x0a, 0x20, 0x20, 0x20, 0x20, 0x20, 0x20, 0x20, 0x20, 0x20,
   0x20, 0x20, 0x20, 0x3c, 0x64, 0x69, 0x76, 0x3e, 0x3c, 0x2f,
   0x64, 0x69, 0x76, 0x3e, 0x0d, 0x0a, 0x20, 0x20, 0x20, 0x20,
   0x20, 0x20, 0x20, 0x20, 0x3c, 0x2f, 0x64, 0x69, 0x76, 0x3e,
   0x0d, 0x0a, 0x0d, 0x0a, 0x20, 0x20, 0x20, 0x20, 0x20, 0x20,
   0x20, 0x20, 0x3c, 0x61, 0x20, 0x68, 0x72, 0x65, 0x66, 0x3d,
   0x22, 0x2f, 0x69, 0x6e, 0x64, 0x65, 0x78, 0x2e, 0x73, 0x68,
   0x74, 0x6d, 0x6c, 0x22, 0x20, 0x63, 0x6c, 0x61, 0x73, 0x73,
   0x3d, 0x22, 0x72, 0x65, 0x66, 0x72, 0x65, 0x73, 0x68, 0x2d,
   0x6c, 0x69, 0x6e, 0x6b, 0x22, 0x3e, 0xe2, 0x86, 0xbb, 0x20,
   0x52, 0x65, 0x66, 0x72, 0x65, 0x73, 0x68, 0x20, 0x53, 0x74,
   0x61, 0x74, 0x75, 0x73, 0x3c, 0x2f, 0x61, 0x3e, 0x0d, 0x0a,
   0x20, 0x20, 0x20, 0x20, 0x3c, 0x2f, 0x64, 0x69, 0x76, 0x3e,
   0x0d, 0x0a, 0x3c, 0x2f, 0x62, 0x6f, 0x64, 0x79, 0x3e, 0x0d,
   0x0a, 0x3c, 0x2f, 0x68, 0x74, 0x6d, 0x6c, 0x3e]"

definition data_index_shtml :: "u8 list" where
  "data_index_shtml = data_index_shtml_1 @ data_index_shtml_2 @ data_index_shtml_3
     @ data_index_shtml_4 @ data_index_shtml_5"

text \<open>
  An entry of the file system, \<open>struct fsdata_file\<close> of the server: the pointers into the array
  are the offsets into it.
\<close>

definition FS_FILE_FLAGS_HEADER_INCLUDED :: u8 where "FS_FILE_FLAGS_HEADER_INCLUDED = 0x01"
definition FS_FILE_FLAGS_HEADER_PERSISTENT :: u8 where "FS_FILE_FLAGS_HEADER_PERSISTENT = 0x02"

record fsdata_file =
  fs_next :: "nat option"
  fs_name :: nat
  fs_data :: nat
  fs_len :: nat
  fs_flags :: u8

definition file_index_shtml :: fsdata_file where
  "file_index_shtml = \<lparr>fs_next = None, fs_name = 0, fs_data = 0 + 13,
     fs_len = length data_index_shtml - 13,
     fs_flags = FS_FILE_FLAGS_HEADER_INCLUDED OR FS_FILE_FLAGS_HEADER_PERSISTENT\<rparr>"

text \<open>The C string a name pointer points to, and the bytes of a data pointer.\<close>

definition fs_name_of :: "fsdata_file \<Rightarrow> u8 list" where
  "fs_name_of f = takeWhile (\<lambda>b. b \<noteq> 0) (drop (fs_name f) data_index_shtml)"

definition fs_content :: "fsdata_file \<Rightarrow> u8 list" where
  "fs_content f = take (fs_len f) (drop (fs_data f) data_index_shtml)"

definition bytes_of :: "string \<Rightarrow> u8 list" where
  "bytes_of s = map of_char s"

section \<open>Marked words of a text\<close>

text \<open>
  The words of a text that stand between an pat mark and a closing byte, in their order:
  \<open>marked\<close> says it by prefixes, \<open>scan\<close> finds them in one pass over the bytes with a counter of
  the matched part of the mark. The two agree when the first byte of the mark does not occur in
  the rest of it.
\<close>

function marked :: "u8 list \<Rightarrow> u8 \<Rightarrow> u8 list \<Rightarrow> u8 list list" where
  "marked pat close [] = []"
| "marked pat close (b # bs) =
     (if pat \<noteq> [] \<and> take (length pat) (b # bs) = pat
      then let rest = drop (length pat) (b # bs); after = dropWhile (\<lambda>c. c \<noteq> close) rest
           in if after = [] then [] else takeWhile (\<lambda>c. c \<noteq> close) rest # marked pat close (tl after)
      else marked pat close bs)"
  by pat_completeness auto
termination
proof (relation "measure (\<lambda>(_, _, bs). length bs)")
  fix pat :: "u8 list" and close b :: u8 and bs x xa
  assume "pat \<noteq> [] \<and> take (length pat) (b # bs) = pat"
    and "x = drop (length pat) (b # bs)" and "xa = dropWhile (\<lambda>c. c \<noteq> close) x" and "xa \<noteq> []"
  moreover from this(3) have "length xa \<le> length x" by (simp only: length_dropWhile_le)
  ultimately show "((pat, close, tl xa), pat, close, b # bs)
      \<in> measure (\<lambda>(_, _, bs). length bs)"
    by (cases xa) auto
qed simp_all

type_synonym scanner = "nat \<times> u8 list option \<times> u8 list list"

fun scan_step :: "u8 list \<Rightarrow> u8 \<Rightarrow> u8 \<Rightarrow> scanner \<Rightarrow> scanner" where
  "scan_step pat close b (k, Some w, found) =
     (if b = close then (0, None, rev w # found) else (k, Some (b # w), found))"
| "scan_step pat close b (k, None, found) =
     (let k = (if b = pat ! k then Suc k else if b = hd pat then 1 else 0)
      in if k = length pat then (0, Some [], found) else (k, None, found))"

definition scan :: "u8 list \<Rightarrow> u8 \<Rightarrow> u8 list \<Rightarrow> u8 list list" where
  "scan pat close bs = rev (snd (snd (fold (scan_step pat close) bs (0, None, []))))"

locale mark =
  fixes pat :: "u8 list" and close :: u8
  assumes mark_long: "1 < length pat" and mark_once: "hd pat \<notin> set (tl pat)"
begin

lemma pat_Cons: "pat = hd pat # tl pat" "pat \<noteq> []"
  using mark_long by (cases pat; simp)+

lemma marked_skip:
  assumes "hd pat \<notin> set ys"
  shows "marked pat close (ys @ zs) = marked pat close zs"
  using assms
proof (induction ys)
  case (Cons y ys)
  then have "take (length pat) (y # ys @ zs) \<noteq> pat"
    using mark_long by (cases pat) auto
  with Cons show ?case by simp
qed simp

lemma marked_mismatch:
  assumes "k < length pat" and "b \<noteq> pat ! k"
  shows "marked pat close (take k pat @ b # bs)
    = marked pat close ((if b = hd pat then [b] else []) @ bs)"
proof (cases k)
  case 0
  with assms pat_Cons(2) have "b \<noteq> hd pat" by (simp add: hd_conv_nth)
  then have "hd pat \<notin> set [b]" by auto
  from marked_skip [OF this, of bs] 0 \<open>b \<noteq> hd pat\<close> show ?thesis by (simp del: marked.simps)
next
  case (Suc j)
  let ?l = "take k pat @ b # bs"
  have "take (length pat) ?l ! k = b" using assms(1) by (simp add: nth_append)
  then have no: "take (length pat) ?l \<noteq> pat" using assms(2) by metis
  have l: "?l = hd pat # take j (tl pat) @ b # bs"
    using Suc pat_Cons(1) by (metis append_Cons take_Suc_Cons)
  have "marked pat close ?l = marked pat close (take j (tl pat) @ b # bs)"
    using no unfolding l by simp
  also have "\<dots> = marked pat close (b # bs)"
    using mark_once by (intro marked_skip) (meson in_set_takeD)
  also have "\<dots> = marked pat close ((if b = hd pat then [b] else []) @ bs)"
    using marked_skip [of "[b]" bs] by (simp del: marked.simps)
  finally show ?thesis .
qed

lemma scan_collect:
  "fold (scan_step pat close) bs (k, Some w, found) =
     (if close \<in> set bs
      then fold (scan_step pat close) (tl (dropWhile (\<lambda>c. c \<noteq> close) bs))
             (0, None, (rev w @ takeWhile (\<lambda>c. c \<noteq> close) bs) # found)
      else (k, Some (rev bs @ w), found))"
  by (induction bs arbitrary: w) auto

lemma scan_marked_at:
  assumes "k < length pat"
  shows "rev (snd (snd (fold (scan_step pat close) bs (k, None, found))))
    = rev found @ marked pat close (take k pat @ bs)"
  using assms
proof (induction "length bs" arbitrary: bs k found rule: less_induct)
  case less
  show ?case
  proof (cases bs)
    case Nil
    have "marked pat close (take k pat) = []"
    proof (cases k)
      case (Suc j)
      have "take k pat = hd pat # take j (tl pat)"
        using Suc pat_Cons(1) by (metis take_Suc_Cons)
      moreover have "take (length pat) (take k pat) \<noteq> pat"
        using less.prems by (metis length_take min.absorb4 min.strict_order_iff nat_neq_iff take_all_iff linorder_not_le)
      ultimately have "marked pat close (take k pat)
          = marked pat close (take j (tl pat) @ [])" by simp
      also have "\<dots> = marked pat close []"
        using mark_once by (intro marked_skip) (meson in_set_takeD)
      finally show ?thesis by simp
    qed simp
    with Nil show ?thesis by simp
  next
    case (Cons b bs')
    show ?thesis
    proof (cases "b = pat ! k")
      case False
      have one: "1 \<noteq> length pat" "1 < length pat" using mark_long by simp_all
      have t1: "take 1 pat = [hd pat]" using pat_Cons by (metis One_nat_def take0 take_Suc)
      show ?thesis
        using False less.hyps [of bs' 1 found] less.hyps [of bs' 0 found] one t1 Cons
          marked_mismatch [OF less.prems False, of bs']
        by auto
    next
      case True
      have tk: "take k pat @ [b] = take (Suc k) pat"
        using less.prems True by (simp add: take_Suc_conv_app_nth)
      show ?thesis
      proof (cases "Suc k = length pat")
        case False
        then have "Suc k < length pat" using less.prems by simp
        from less.hyps [OF _ this, of bs' found] True False Cons tk
        show ?thesis by (simp flip: tk)
      next
        case whole: True
        have op: "take k pat @ b # bs' = pat @ bs'" using tk whole by simp
        have u: "marked pat close (pat @ bs') = (let after = dropWhile (\<lambda>c. c \<noteq> close) bs' in
            if after = [] then [] else takeWhile (\<lambda>c. c \<noteq> close) bs' # marked pat close (tl after))"
        proof -
          obtain h t where p: "pat = h # t" using pat_Cons by blast
          show ?thesis unfolding p by (simp add: Let_def)
        qed
        have step: "fold (scan_step pat close) (b # bs') (k, None, found)
            = fold (scan_step pat close) bs' (0, Some [], found)"
          using True whole by simp
        show ?thesis
        proof (cases "close \<in> set bs'")
          case False
          then have "dropWhile (\<lambda>c. c \<noteq> close) bs' = []" by (auto simp: dropWhile_eq_Nil_conv)
          with False show ?thesis unfolding Cons step op u scan_collect by simp
        next
          case in_rest: True
          let ?after = "dropWhile (\<lambda>c. c \<noteq> close) bs'"
          have ne: "?after \<noteq> []" using in_rest by (auto simp: dropWhile_eq_Nil_conv)
          have "length (tl ?after) < length bs"
            using Cons length_dropWhile_le [of "\<lambda>c. c \<noteq> close" bs'] by (simp add: less_Suc_eq_le)
          from less.hyps [OF this, of 0] pat_Cons(2) in_rest ne show ?thesis
            unfolding Cons step op u scan_collect by (simp add: Let_def)
        qed
      qed
    qed
  qed
qed

lemma scan_is_marked: "scan pat close bs = marked pat close bs"
  using scan_marked_at [of 0 bs "[]"] pat_Cons(2) by (simp add: scan_def)

end

section \<open>What the page holds\<close>

definition HREF :: "u8 list" where "HREF = [0x68, 0x72, 0x65, 0x66, 0x3d, 0x22]"
definition TAG_LEAD_IN :: "u8 list" where "TAG_LEAD_IN = [0x3c, 0x21, 0x2d, 0x2d, 0x23]"

interpretation href: mark HREF "0x22"
  by unfold_locales (simp_all add: HREF_def)

interpretation ssi_tag: mark TAG_LEAD_IN "0x2d"
  by unfold_locales (simp_all add: TAG_LEAD_IN_def)

lemma href_block_1:
  "fold (scan_step HREF 0x22) (drop 13 data_index_shtml_1) (0, None, found)
    = (0, None, found)"
  by (simp add: data_index_shtml_1_def HREF_def bytes_of_def)

lemma href_block_2:
  "fold (scan_step HREF 0x22) data_index_shtml_2 (0, None, found)
    = (0, None, found)"
  by (simp add: data_index_shtml_2_def HREF_def bytes_of_def)

lemma href_block_3:
  "fold (scan_step HREF 0x22) data_index_shtml_3 (0, None, found)
    = (0, None, found)"
  by (simp add: data_index_shtml_3_def HREF_def bytes_of_def)

lemma href_block_4:
  "fold (scan_step HREF 0x22) data_index_shtml_4 (0, None, found)
    = (1, None, bytes_of ''/led.cgi?buzzer=off'' # bytes_of ''/led.cgi?buzzer=on'' # bytes_of ''/led.cgi?led=0'' # bytes_of ''/led.cgi?led=1'' # found)"
  by (simp add: data_index_shtml_4_def HREF_def bytes_of_def)

lemma href_block_5:
  "fold (scan_step HREF 0x22) data_index_shtml_5 (1, None, found)
    = (0, None, bytes_of ''/index.shtml'' # bytes_of ''/led.cgi?motor=backward'' # bytes_of ''/led.cgi?motor=right'' # bytes_of ''/led.cgi?motor=stop'' # bytes_of ''/led.cgi?motor=left'' # bytes_of ''/led.cgi?motor=forward'' # bytes_of ''/led.cgi?rgbled=off'' # bytes_of ''/led.cgi?rgbled=blue'' # bytes_of ''/led.cgi?rgbled=green'' # bytes_of ''/led.cgi?rgbled=red'' # found)"
  by (simp add: data_index_shtml_5_def HREF_def bytes_of_def)

lemma tag_block_1:
  "fold (scan_step TAG_LEAD_IN 0x2d) (drop 13 data_index_shtml_1) (0, None, found)
    = (0, None, found)"
  by (simp add: data_index_shtml_1_def TAG_LEAD_IN_def bytes_of_def)

lemma tag_block_2:
  "fold (scan_step TAG_LEAD_IN 0x2d) data_index_shtml_2 (0, None, found)
    = (0, None, found)"
  by (simp add: data_index_shtml_2_def TAG_LEAD_IN_def bytes_of_def)

lemma tag_block_3:
  "fold (scan_step TAG_LEAD_IN 0x2d) data_index_shtml_3 (0, None, found)
    = (0, None, found)"
  by (simp add: data_index_shtml_3_def TAG_LEAD_IN_def bytes_of_def)

lemma tag_block_4:
  "fold (scan_step TAG_LEAD_IN 0x2d) data_index_shtml_4 (0, None, found)
    = (0, None, bytes_of ''led'' # bytes_of ''temp'' # bytes_of ''volt'' # found)"
  by (simp add: data_index_shtml_4_def TAG_LEAD_IN_def bytes_of_def)

lemma tag_block_5:
  "fold (scan_step TAG_LEAD_IN 0x2d) data_index_shtml_5 (0, None, found)
    = (0, None, found)"
  by (simp add: data_index_shtml_5_def TAG_LEAD_IN_def bytes_of_def)

lemma data_index_shtml_lengths:
  "length data_index_shtml_1 = 1232" "length data_index_shtml_2 = 1230"
  "length data_index_shtml_3 = 1230" "length data_index_shtml_4 = 1230"
  "length data_index_shtml_5 = 1188"
  by (simp_all add: data_index_shtml_1_def data_index_shtml_2_def data_index_shtml_3_def
      data_index_shtml_4_def data_index_shtml_5_def)

lemma page_content: "fs_content file_index_shtml = drop 13 data_index_shtml_1
    @ data_index_shtml_2 @ data_index_shtml_3 @ data_index_shtml_4 @ data_index_shtml_5"
  by (simp add: fs_content_def file_index_shtml_def data_index_shtml_def data_index_shtml_lengths)

lemma page_name: "fs_name_of file_index_shtml = bytes_of ''/index.shtml''"
  by (simp add: fs_name_of_def file_index_shtml_def data_index_shtml_def data_index_shtml_1_def
      bytes_of_def)

lemma page_links: "marked HREF 0x22 (fs_content file_index_shtml) = map bytes_of
    [''/led.cgi?led=1'', ''/led.cgi?led=0'', ''/led.cgi?buzzer=on'', ''/led.cgi?buzzer=off'',
     ''/led.cgi?rgbled=red'', ''/led.cgi?rgbled=green'', ''/led.cgi?rgbled=blue'',
     ''/led.cgi?rgbled=off'', ''/led.cgi?motor=forward'', ''/led.cgi?motor=left'',
     ''/led.cgi?motor=stop'', ''/led.cgi?motor=right'', ''/led.cgi?motor=backward'', ''/index.shtml'']"
  unfolding href.scan_is_marked [symmetric] scan_def page_content
  by (simp only: fold_append o_apply href_block_1 href_block_2 href_block_3 href_block_4 href_block_5)
    simp

lemma page_tags: "marked TAG_LEAD_IN 0x2d (fs_content file_index_shtml)
    = map bytes_of [''volt'', ''temp'', ''led'']"
  unfolding ssi_tag.scan_is_marked [symmetric] scan_def page_content
  by (simp only: fold_append o_apply tag_block_1 tag_block_2 tag_block_3 tag_block_4 tag_block_5)
    simp

text \<open>
  The page's controls as parameters and values, in the order of the page, and the colour each
  LED button is to show (as the pins are named: the page's red is the pin called blue).
\<close>

definition page_controls :: "(string \<times> string) list" where
  "page_controls = [(''led'', ''1''), (''led'', ''0''), (''buzzer'', ''on''), (''buzzer'', ''off''),
     (''rgbled'', ''red''), (''rgbled'', ''green''), (''rgbled'', ''blue''), (''rgbled'', ''off''),
     (''motor'', ''forward''), (''motor'', ''left''), (''motor'', ''stop''), (''motor'', ''right''),
     (''motor'', ''backward'')]"

fun button_color :: "string \<Rightarrow> u16 \<times> u16 \<times> u16" where
  "button_color v = (if v = ''red'' then (0, 0, 255) else if v = ''green'' then (0, 255, 0)
     else if v = ''blue'' then (255, 0, 0) else (0, 0, 0))"

lemma motor_control: "(''motor'', v) \<in> set page_controls \<Longrightarrow> \<exists>cmd. v = command_value cmd"
proof -
  assume "(''motor'', v) \<in> set page_controls"
  then have "v = ''forward'' \<or> v = ''left'' \<or> v = ''stop'' \<or> v = ''right'' \<or> v = ''backward''"
    by (simp add: page_controls_def)
  then have "v \<in> command_value ` {Cmd_forward, Cmd_left, Cmd_stop, Cmd_right, Cmd_backward}" by simp
  then show ?thesis by blast
qed

lemma other_control:
  assumes "(p, v) \<in> set page_controls" and "p \<noteq> ''motor''"
  shows "\<exists>c'. cgi_param B (p, Some v) c = Some c' \<and> mode_of c' = mode_of c
    \<and> drive_of (hw c') = drive_of (hw c) \<and> (p = ''rgbled'' \<longrightarrow> led_color (hw c') = button_color v)"
proof -
  obtain c' where c': "cgi_param B (p, Some v) c = Some c'"
    using other_params_reads [OF assms(2), of B v c] by blast
  moreover have "p = ''rgbled'' \<longrightarrow> led_color (hw c') = button_color v"
  proof
    assume p: "p = ''rgbled''"
    then have "v = ''red'' \<or> v = ''green'' \<or> v = ''blue'' \<or> v = ''off''"
      using assms(1) by (simp add: page_controls_def)
    moreover have "c' = cgi_rgbled v c" using c' p by (simp add: cgi_param_def)
    ultimately show "led_color (hw c') = button_color v"
      by (elim disjE) (simp_all add: cgi_rgbled_def led_color_set)
  qed
  ultimately show ?thesis using other_params_frame [OF c' assms(2)] by blast
qed

section \<open>Properties\<close>

text \<open>
  C28: the page, the command handler and the tag table fit together. The links of the page are
  the handler's path with exactly one parameter and value each, one link per control and every
  command of the motor among them, and one link to the page itself; the tags of the page are the
  SSI tags, in the order of the table; the file is stored under the name the handler answers
  with, and its bytes start with an HTTP header.
\<close>

theorem page_fits_handlers:
  "marked HREF 0x22 (fs_content file_index_shtml)
     = map (\<lambda>(p, v). bytes_of (hd cgi_handlers @ ''?'' @ p @ ''='' @ v)) page_controls
       @ [bytes_of ''/index.shtml'']
   \<and> map snd (filter (\<lambda>(p, v). p = ''motor'') page_controls)
     = map command_value [Cmd_forward, Cmd_left, Cmd_stop, Cmd_right, Cmd_backward]
   \<and> marked TAG_LEAD_IN 0x2d (fs_content file_index_shtml) = map bytes_of ssi_tags
   \<and> fs_name_of file_index_shtml = bytes_of ''/index.shtml''
   \<and> take 15 (fs_content file_index_shtml) = bytes_of ''HTTP/1.0 200 OK''
   \<and> fs_len file_index_shtml = 6097"
proof (intro conjI)
  show "fs_name_of file_index_shtml = bytes_of ''/index.shtml''" by (rule page_name)
  show "take 15 (fs_content file_index_shtml) = bytes_of ''HTTP/1.0 200 OK''"
    unfolding page_content by (simp add: data_index_shtml_1_def bytes_of_def)
  show "fs_len file_index_shtml = 6097"
    by (simp add: file_index_shtml_def data_index_shtml_def data_index_shtml_lengths)
qed (simp_all add: page_links page_tags page_controls_def cgi_handlers_def ssi_tags_def)



end
