(* ===== verification/Glasses_Main.thy ===== *)
theory Glasses_Main
  imports Wifi Gyroscope Eye Ir_Sensor Web_Page
begin

text \<open>
  The main program of the glasses, the first part of main.c (lines 1 to 166). The file holds both
  programs and the one that is not being built is commented out; in the commit it is this one. It
  connects to the network, then reads the blink sensor, the gyroscope and the infrared sensor in a
  loop and asks the car's web server for the page that drives accordingly.
\<close>

section \<open>Requests\<close>

definition I2C_SDA :: u32 where "I2C_SDA = 12"
definition I2C_SCL :: u32 where "I2C_SCL = 13"
definition I2C_BAUD :: u32 where "I2C_BAUD = 400000"

definition setup_i2c :: "board \<Rightarrow> mcu \<Rightarrow> mcu" where
  "setup_i2c B s =
     (let s = emit (I2c_init I2C_BAUD) s;
          s = gpio_set_function B I2C_SDA GPIO_FUNC_I2C s;
          s = gpio_set_function B I2C_SCL GPIO_FUNC_I2C s;
          s = gpio_pull_up B I2C_SDA s
      in gpio_pull_up B I2C_SCL s)"

definition CRLF :: string where "CRLF = [CHR 0x0D, CHR 0x0A]"

definition HOST :: string where "HOST = ''192.168.0.122''"

definition connect_text :: string where
  "connect_text = ''AT+CIPSTART='' @ [QUOTE] @ ''TCP'' @ [QUOTE, CHR '','', QUOTE] @ HOST @ [QUOTE] @ '',80''"

definition request_text :: "string \<Rightarrow> string" where
  "request_text path = ''GET '' @ path @ '' HTTP/1.1'' @ CRLF @ ''Host: '' @ HOST @ CRLF
     @ ''Connection: close'' @ CRLF @ CRLF"

definition request_format :: string where
  "request_format = ''Sending HTTP request...'' @ NL @ ''%s'' @ NL"

text \<open>
  The buffers are written with \<open>snprintf\<close>; \<open>len\<close> is the length of the whole text, also when the
  buffer is too small for it.
\<close>

definition send_http_request :: "board \<Rightarrow> string \<Rightarrow> mcu \<Rightarrow> mcu option" where
  "send_http_request B path s =
     (case send_at_command B ''AT+CIPCLOSE'' ''OK'' s of None \<Rightarrow> None | Some s \<Rightarrow>
      (let s = sleep_ms 1000 s;
           s = printf (NL @ ''Attempting TCP connection...'' @ NL) [] s;
           connect_cmd = snprintf_text [] 100 connect_text
       in case uart_puts B connect_cmd s of None \<Rightarrow> None | Some s \<Rightarrow>
          case uart_puts B CRLF s of None \<Rightarrow> None | Some s \<Rightarrow>
          case wait_for_response B ''CONNECT'' 5000 s of None \<Rightarrow> None | Some (ok, s) \<Rightarrow>
          if \<not> ok then Some (printf (''Failed to establish TCP connection'' @ NL) [] s)
          else
            (let http_request = snprintf_text [] 256 (request_text path);
                 len = length (request_text path);
                 send_cmd = snprintf_text [] 32 (''AT+CIPSEND='' @ fmt_d (int len))
             in case send_at_command B send_cmd ''>'' s of None \<Rightarrow> None | Some s \<Rightarrow>
                (let s = sleep_ms 100 s;
                     s = printf request_format [Str_arg http_request] s
                 in case uart_puts B http_request s of None \<Rightarrow> None | Some s \<Rightarrow>
                    case wait_for_response B ''SEND OK'' 5000 s of None \<Rightarrow> None | Some (ok, s) \<Rightarrow>
                    (let s = (if \<not> ok then printf (''Failed to send HTTP request'' @ NL) [] s else s)
                     in case wait_for_response B ''CLOSED'' 5000 s of
                          None \<Rightarrow> None
                        | Some (_, s) \<Rightarrow> Some s)))))"

section \<open>Connecting\<close>

text \<open>
  \<open>while (!connect_to_wifi() && retry_count < 3)\<close>, for any function in the place of
  \<open>connect_to_wifi\<close>. The result is the final \<open>retry_count\<close>.
\<close>

function connect_retry :: "(mcu \<Rightarrow> (bool \<times> mcu) option) \<Rightarrow> nat \<Rightarrow> mcu \<Rightarrow> (nat \<times> mcu) option" where
  "connect_retry connect retry_count s =
     (case connect s of
        None \<Rightarrow> None
      | Some (ok, s) \<Rightarrow>
          if \<not> ok \<and> retry_count < 3
          then connect_retry connect (retry_count + 1)
                 (sleep_ms 5000 (printf (''Retrying WiFi connection (%d/3)...'' @ NL)
                    [Int_arg (int retry_count + 1)] s))
          else Some (retry_count, s))"
  by pat_completeness auto
termination by (relation "measure (\<lambda>(_, n, _). 3 - n)") auto

declare connect_retry.simps [simp del]

text \<open>\<open>False\<close>: the program gives up and returns -1.\<close>

definition wifi_up :: "(mcu \<Rightarrow> (bool \<times> mcu) option) \<Rightarrow> mcu \<Rightarrow> (bool \<times> mcu) option" where
  "wifi_up connect s =
     (case connect_retry connect 0 s of
        None \<Rightarrow> None
      | Some (retry_count, s) \<Rightarrow>
          if retry_count \<ge> 3 then Some (False, printf (''Failed to connect to WiFi'' @ NL) [] s)
          else Some (True, s))"

definition gyro_config :: LSM6DSL_Config where
  "gyro_config = \<lparr>i2c_port = 0, device_address = LSM6DSL_ADDR\<rparr>"

text \<open>Everything before the loop; \<open>Inl\<close> is the value the program returns.\<close>

definition glasses_startup :: "board \<Rightarrow> gyro \<Rightarrow> (int + gyro) option" where
  "glasses_startup B g =
     (let g = on_ghw (emit Stdio_init_all) g;
          g = on_ghw (sleep_ms 5000) g;
          g = on_ghw (setup_i2c B) g;
          g = on_ghw (sleep_ms 500) g;
          (ok, s) = lsm6dsl_init B gyro_config (ghw g);
          g = g\<lparr>ghw := s\<rparr>
      in if \<not> ok then Some (Inl (-1))
         else
           (let g = calibrateGyroscope B gyro_config g;
                g = on_ghw (printf (''Gyroscope initialized'' @ NL) []) g;
                g = on_ghw (init_uart B) g;
                g = on_ghw (eye_init B) g;
                g = on_ghw (ir_sensor_init B) g;
                g = on_ghw (init_esp_reset B) g;
                g = on_ghw (printf (''Starting WiFi connection...'' @ NL) []) g
            in case wifi_up (connect_to_wifi B) (ghw g) of
                 None \<Rightarrow> None
               | Some (True, s) \<Rightarrow> Some (Inr (g\<lparr>ghw := s\<rparr>))
               | Some (False, s) \<Rightarrow> Some (Inl (-1))))"

section \<open>One round of the loop\<close>

text \<open>The \<open>switch\<close> on the steering state: what it prints and asks for.\<close>

fun steering_request :: "OrientationState \<Rightarrow> (string \<times> string) option" where
  "steering_request STATE_LEFT = Some (''Left turn detected'' @ NL, ''/led.cgi?motor=left'')"
| "steering_request STATE_RIGHT = Some (''Right turn detected'' @ NL, ''/led.cgi?motor=right'')"
| "steering_request STATE_CENTER = Some (''Center position'' @ NL, ''/led.cgi?motor=forward'')"
| "steering_request STATE_ERROR = Some (''Gyroscope error'' @ NL, ''/led.cgi?motor=stop'')"
| "steering_request STATE_INIT = None"

definition glasses_round ::
  "board \<Rightarrow> LSM6DSL_Config \<Rightarrow> bool \<times> gyro \<Rightarrow> (bool \<times> gyro) option" where
  "glasses_round B config p =
     (let (isIR, g) = p in
      case eye_read_sensor B (ghw g) of None \<Rightarrow> None | Some (sensor_value, s) \<Rightarrow>
      (let s = printf (''WiFi connected. Sending HTTP request to set LED color to red.'' @ NL) [] s;
           (state, g) = processGyroscopeData B config (g\<lparr>ghw := s\<rparr>);
           s = ghw g
       in map_option (\<lambda>(isIR, s). (isIR, g\<lparr>ghw := s\<rparr>))
         (if eye_detect_blink sensor_value
          then map_option (Pair isIR)
                 (send_http_request B ''/led.cgi?motor=stop'' (printf ''in first if'' [] s))
          else
            (let (detected, s) = ir_sensor_detected B s in
             if detected \<and> \<not> isIR
             then
               (let s = printf ''in first else'' [] s;
                    (detected, s) = ir_sensor_detected B s;
                    isIR = (if detected then True else isIR)
                in case (case steering_request state of
                           None \<Rightarrow> Some s
                         | Some (msg, path) \<Rightarrow> send_http_request B path (printf msg [] s)) of
                     None \<Rightarrow> None
                   | Some s \<Rightarrow>
                       (let (detected, s) = ir_sensor_detected B s;
                            isIR = (if detected then True else isIR)
                        in Some (isIR, s)))
             else
               (case send_http_request B ''/led.cgi?motor=backward'' s of
                  None \<Rightarrow> None
                | Some s \<Rightarrow>
                    (let (detected, s) = ir_sensor_detected B s;
                         isIR = (if detected then False else isIR)
                     in Some (isIR, s)))))))"

section \<open>The requests of a run\<close>

text \<open>The requests sent, as the program prints each just before sending it.\<close>

fun requests :: "call list \<Rightarrow> string list" where
  "requests (Printf f [Str_arg t] # cs) = (if f = request_format then [t] else []) @ requests cs"
| "requests (_ # cs) = requests cs"
| "requests [] = []"

lemma requests_append [simp]: "requests (cs @ ds) = requests cs @ requests ds"
  by (induction cs rule: requests.induct) simp_all

definition sent :: "mcu \<Rightarrow> string list" where
  "sent s = requests (calls s)"

lemma sent_emit [simp]: "sent (emit k s) = sent s @ requests [k]"
  by (simp add: sent_def emit_def)

lemma sent_calls: "calls s' = calls s \<Longrightarrow> sent s' = sent s"
  by (simp add: sent_def)

lemma sent_tick [simp]: "sent (tick s) = sent s"
  by (simp add: sent_def tick_frame)

lemma write_sent: "uart_write_blocking B src s = Some s' \<Longrightarrow> sent s' = sent s"
proof (induction src arbitrary: s)
  case (Cons c src)
  then obtain t where t: "poll_until (uart_writable_at B) s = Some t"
    "uart_write_blocking B src (emit (Uart_tx c) t) = Some s'" by (auto split: option.splits)
  from Cons.IH [OF t(2)] sent_calls [OF poll_until_calls [OF t(1)]] show ?case by simp
qed simp

lemma putc_sent: "uart_putc B c s = Some s' \<Longrightarrow> sent s' = sent s"
  by (auto simp: uart_putc_def uart_putc_raw_def bind_eq_Some_conv split: if_splits
      dest!: write_sent simp del: uart_write_blocking.simps)

lemma puts_sent: "uart_puts B str s = Some s' \<Longrightarrow> sent s' = sent s"
proof -
  have "puts_loop B b str s = Some s' \<Longrightarrow> sent s' = sent s" for b
  proof (induction str arbitrary: b s)
    case (Cons c cs)
    then obtain t where t: "(if b then uart_putc_raw B c s else uart_putc B c s) = Some t"
      "puts_loop B (c = CR) cs t = Some s'" by (auto split: option.splits)
    have "sent t = sent s" using t(1) putc_sent write_sent
      by (cases b) (auto simp: uart_putc_raw_def simp del: uart_write_blocking.simps)
    with Cons.IH [OF t(2)] show ?case by simp
  qed simp
  then show "uart_puts B str s = Some s' \<Longrightarrow> sent s' = sent s" by (simp add: uart_puts_def)
qed

lemma other_formats [simp]:
  "NL @ xs \<noteq> request_format" "c \<noteq> CHR ''S'' \<Longrightarrow> c # xs \<noteq> request_format"
  by (simp_all add: request_format_def NL_def)

lemma response_loop_sent:
  "response_loop B expected timeout_ms start buffer s = Some r \<Longrightarrow> sent (snd r) = sent s"
proof (rule response_loop.raw_induct [where
      P = "\<lambda>B expected timeout_ms start buffer s r. sent (snd r) = sent s"], goal_cases)
  case (1 f B expected timeout_ms start buffer s r)
  obtain rd t where rt: "uart_is_readable B (tick s) = (rd, t)" by fastforce
  have t: "calls t = calls s" using readable_calls [of B "tick s"] by (simp add: rt tick_frame)
  note body = 1(3) [unfolded get_absolute_time_def update_us_since_boot_def prod.case Let_def]
  let ?now = "to_ms_since_boot (time_us_at B (reads s)) - start < timeout_ms"
  consider (late) "\<not> ?now" | (quiet) "?now" "\<not> rd" | (byte) "?now" rd by blast
  then show ?case
  proof cases
    case late
    with body show ?thesis by auto
  next
    case quiet
    with body rt have "f B expected timeout_ms start buffer (sleep_ms 1 t) = Some r" by simp
    from 1(2) [OF this] sent_calls [OF t] show ?thesis by simp
  next
    case byte
    with rt have "uart_is_readable B (tick s) = (True, t)" by simp
    from getc_after_readable [OF this] obtain c u
      where u: "uart_getc B t = Some (c, u)" "calls u = calls s" by (auto simp: tick_frame)
    define buffer' where "buffer' = (if length buffer < 511 then buffer @ [c] else buffer)"
    show ?thesis
    proof (cases "strstr_found (c_str buffer') expected")
      case True
      with body byte rt u have "r = (True, printf (NL @ ''Found response: %s'' @ NL) [Str_arg expected]
          (emit (Putchar c) u))" by (simp flip: buffer'_def)
      with sent_calls [OF u(2)] show ?thesis by simp
    next
      case False
      with body byte rt u
      have "f B expected timeout_ms start buffer' (sleep_ms 1 (emit (Putchar c) u)) = Some r"
        by (simp flip: buffer'_def)
      from 1(2) [OF this] sent_calls [OF u(2)] show ?thesis by simp
    qed
  qed
qed

lemma wait_sent: "wait_for_response B expected timeout_ms s = Some (ok, s') \<Longrightarrow> sent s' = sent s"
  using response_loop_sent [of B expected timeout_ms _ "[]" "tick s" "(ok, s')"]
  by (simp add: wait_for_response_def get_absolute_time_def update_us_since_boot_def)

lemma send_at_sent:
  assumes "send_at_command B command expected s = Some s'"
  shows "sent s' = sent s"
proof -
  obtain s1 where 1: "flush_uart_input B s = Some s1"
    using assms by (auto simp: send_at_command_def split: option.splits)
  let ?s1 = "printf (NL @ ''Sending: %s'' @ NL) [Str_arg command] s1"
  obtain s2 where 2: "uart_puts B command ?s1 = Some s2"
    using assms 1 by (auto simp: send_at_command_def split: option.splits)
  obtain s3 where 3: "uart_puts B [CHR 0x0D, CHR 0x0A] s2 = Some s3"
    using assms 1 2 by (auto simp: send_at_command_def split: option.splits)
  obtain ok s4 where 4: "wait_for_response B expected 5000 s3 = Some (ok, s4)"
    using assms 1 2 3 by (auto simp: send_at_command_def split: option.splits)
  have "sent s4 = sent s"
    using sent_calls [OF flush_calls [OF 1]] puts_sent [OF 2] puts_sent [OF 3] wait_sent [OF 4]
    by simp
  moreover have "s' = (if \<not> ok then printf (''Failed to get expected response for: %s'' @ NL)
      [Str_arg command] s4 else s4)"
    using assms 1 2 3 4 by (simp add: send_at_command_def)
  ultimately show ?thesis by simp
qed

text \<open>A request is sent once, or not at all when no connection was made, which is then the last message.\<close>

definition gave_up :: "mcu \<Rightarrow> bool" where
  "gave_up s \<longleftrightarrow> calls s \<noteq> [] \<and> last (calls s) = Printf (''Failed to establish TCP connection'' @ NL) []"

definition http_get :: "string \<Rightarrow> string" where
  "http_get path = snprintf_text [] 256 (request_text path)"

lemma gave_up_emit [simp]:
  "gave_up (emit k s) \<longleftrightarrow> k = Printf (''Failed to establish TCP connection'' @ NL) []"
  by (simp add: gave_up_def emit_def)

lemma request_sent:
  assumes "send_http_request B path s = Some s'"
  shows "sent s' = sent s \<and> gave_up s' \<or> sent s' = sent s @ [http_get path]"
proof -
  obtain s1 where 1: "send_at_command B ''AT+CIPCLOSE'' ''OK'' s = Some s1"
    using assms by (auto simp: send_http_request_def split: option.splits)
  let ?s1 = "printf (NL @ ''Attempting TCP connection...'' @ NL) [] (sleep_ms 1000 s1)"
  obtain s2 where 2: "uart_puts B (snprintf_text [] 100 connect_text) ?s1 = Some s2"
    using assms 1 by (auto simp: send_http_request_def Let_def split: option.splits)
  obtain s3 where 3: "uart_puts B CRLF s2 = Some s3"
    using assms 1 2 by (auto simp: send_http_request_def Let_def split: option.splits)
  obtain ok s4 where 4: "wait_for_response B ''CONNECT'' 5000 s3 = Some (ok, s4)"
    using assms 1 2 3 by (auto simp: send_http_request_def Let_def split: option.splits)
  have s4: "sent s4 = sent s"
    using send_at_sent [OF 1] puts_sent [OF 2] puts_sent [OF 3] wait_sent [OF 4] by simp
  note body = assms [unfolded send_http_request_def, simplified 1 2 3 4 Let_def option.case prod.case]
  show ?thesis
  proof (cases ok)
    case False
    with body s4 show ?thesis by auto
  next
    case True
    note body = body [simplified True not_True_eq_False if_False]
    let ?len = "length (request_text path)"
    obtain s5 where 5: "send_at_command B (snprintf_text [] 32 (''AT+CIPSEND='' @ fmt_d (int ?len)))
        ''>'' s4 = Some s5"
      using body by (auto split: option.splits)
    obtain s6 where 6: "uart_puts B (http_get path)
        (printf request_format [Str_arg (http_get path)] (sleep_ms 100 s5)) = Some s6"
      using body 5 by (auto simp: http_get_def split: option.splits)
    obtain ok7 s7 where 7: "wait_for_response B ''SEND OK'' 5000 s6 = Some (ok7, s7)"
      using body 5 6 by (auto simp: http_get_def split: option.splits)
    have "sent s7 = sent s @ [http_get path]"
      using s4 send_at_sent [OF 5] puts_sent [OF 6] wait_sent [OF 7] by simp
    moreover have "sent s' = sent s7"
      using body 5 6 7 by (auto simp: http_get_def dest!: wait_sent split: option.splits if_splits)
    ultimately show ?thesis by simp
  qed
qed

section \<open>What a round asks for\<close>

text \<open>
  The command a round decides on: a blink stops the car; a first detection of the infrared sensor
  takes the gyroscope's direction; everything else goes backward.
\<close>

fun steering_command :: "OrientationState \<Rightarrow> command option" where
  "steering_command STATE_LEFT = Some Cmd_left"
| "steering_command STATE_RIGHT = Some Cmd_right"
| "steering_command STATE_CENTER = Some Cmd_forward"
| "steering_command STATE_ERROR = Some Cmd_stop"
| "steering_command STATE_INIT = None"

definition glasses_command :: "bool \<Rightarrow> bool \<Rightarrow> bool \<Rightarrow> OrientationState \<Rightarrow> command option" where
  "glasses_command blink detected isIR state =
     (if blink then Some Cmd_stop
      else if detected \<and> \<not> isIR then steering_command state
      else Some Cmd_backward)"

definition command_path :: "command \<Rightarrow> string" where
  "command_path cmd = ''/led.cgi?motor='' @ command_value cmd"

lemma command_path_eq:
  "command_path Cmd_stop = ''/led.cgi?motor=stop''" "command_path Cmd_left = ''/led.cgi?motor=left''"
  "command_path Cmd_right = ''/led.cgi?motor=right''"
  "command_path Cmd_forward = ''/led.cgi?motor=forward''"
  "command_path Cmd_backward = ''/led.cgi?motor=backward''"
  by (simp_all add: command_path_def)

lemma steering_request_path:
  "steering_request state = Some (msg, path) \<Longrightarrow> \<exists>cmd. steering_command state = Some cmd \<and> path = command_path cmd"
  by (cases state) (auto simp: command_path_eq)

lemma command_path_link: "bytes_of (command_path cmd) \<in> set (marked HREF 0x22 (fs_content file_index_shtml))"
  unfolding page_links by (cases cmd) (simp_all add: command_path_eq)

text \<open>The request fits its buffer.\<close>

lemma http_get_command: "http_get (command_path cmd) = request_text (command_path cmd)"
  unfolding http_get_def
  by (rule snprintf_fits, cases cmd) (simp_all add: request_text_def command_path_eq CRLF_def HOST_def)

lemma read_register_sent: "sent (snd (lsm6dsl_read_register B config reg s)) = sent s"
  by (simp add: lsm6dsl_read_register_def i2c_write_blocking_def i2c_read_blocking_def
      case_prod_beta Let_def)

lemma read_gyro_sent: "sent (snd (lsm6dsl_read_gyro B config s)) = sent s"
  by (simp add: lsm6dsl_read_gyro_def case_prod_beta Let_def read_register_sent)

lemma process_sent: "sent (ghw (snd (processGyroscopeData B config g))) = sent (ghw g)"
  by (simp add: processGyroscopeData_def case_prod_beta Let_def on_ghw_def read_gyro_sent
      split: OrientationState.split)

lemma eye_sent: "eye_read_sensor B s = Some (v, t) \<Longrightarrow> sent t = sent s"
  by (auto simp: eye_read_sensor_def adc_read_def Let_def sent_def tick_frame
      dest!: poll_until_calls split: option.splits)

lemma ir_sent [simp]: "sent (snd (ir_sensor_detected B s)) = sent s"
  by (simp add: ir_sensor_detected_def gpio_get_def case_prod_beta Let_def)

lemma ir_calls [simp]: "calls (snd (ir_sensor_detected B s)) = calls s"
  by (simp add: ir_sensor_detected_def gpio_get_def case_prod_beta Let_def tick_frame)

lemma gave_up_calls: "calls s' = calls s \<Longrightarrow> gave_up s' = gave_up s"
  by (simp add: gave_up_def)

lemma sent_or_not:
  assumes "send_http_request B (command_path cmd) s = Some s'" and "sent s = sent s0"
  shows "sent s' = sent s0 \<and> gave_up s' \<or> sent s' = sent s0 @ [request_text (command_path cmd)]"
  using request_sent [OF assms(1)] assms(2) by (simp add: http_get_command)

section \<open>The requests of a round\<close>

text \<open>The requests of a round, whichever way it goes.\<close>

lemma round_asks:
  assumes "glasses_round B config (isIR, g) = Some (isIR', g')"
    and "eye_read_sensor B (ghw g) = Some (v, s)"
    and "processGyroscopeData B config (g\<lparr>ghw := printf (''WiFi connected. ''
          @ ''Sending HTTP request to set LED color to red.'' @ NL) [] s\<rparr>) = (state, g1)"
    and "detected = fst (ir_sensor_detected B (ghw g1))"
  shows "sent (ghw g') = sent (ghw g)
        \<and> (glasses_command (eye_detect_blink v) detected isIR state = None \<or> gave_up (ghw g'))
    \<or> (\<exists>cmd. glasses_command (eye_detect_blink v) detected isIR state = Some cmd
        \<and> sent (ghw g') = sent (ghw g) @ [request_text (command_path cmd)])"
proof -
  let ?detect = "ir_sensor_detected B (ghw g1)"
  have s1: "sent (ghw g1) = sent (ghw g)"
    using process_sent [of B config "g\<lparr>ghw := printf (''WiFi connected. ''
          @ ''Sending HTTP request to set LED color to red.'' @ NL) [] s\<rparr>"]
      eye_sent [OF assms(2)] assms(3) by simp
  show ?thesis
  proof (cases "eye_detect_blink v")
    case True
    with assms obtain t where "send_http_request B (command_path Cmd_stop)
        (printf ''in first if'' [] (ghw g1)) = Some t" "ghw g' = t"
      by (auto simp: glasses_round_def Let_def command_path_eq)
    with True sent_or_not [OF this(1), of "ghw g"] s1 show ?thesis
      by (auto simp: glasses_command_def)
  next
    case no_blink: False
    show ?thesis
    proof (cases "detected \<and> \<not> isIR")
      case False
      with no_blink assms obtain t where "send_http_request B (command_path Cmd_backward) (snd ?detect) = Some t"
        "calls (ghw g') = calls t"
        by (auto simp: glasses_round_def Let_def command_path_eq case_prod_beta split: option.splits)
      with False no_blink sent_or_not [OF this(1), of "ghw g"] s1 sent_calls [OF this(2)]
        gave_up_calls [OF this(2)] show ?thesis
        by (auto simp: glasses_command_def)
    next
      case True
      let ?d2 = "ir_sensor_detected B (printf ''in first else'' [] (snd ?detect))"
      have d2: "sent (snd ?d2) = sent (ghw g)" using s1 by simp
      show ?thesis
      proof (cases "steering_request state")
        case None
        with True no_blink assms d2 have "sent (ghw g') = sent (ghw g)"
          by (auto simp: glasses_round_def Let_def case_prod_beta)
        moreover have "steering_command state = None" using None by (cases state) auto
        ultimately show ?thesis using True no_blink by (simp add: glasses_command_def)
      next
        case (Some mp)
        then obtain msg path cmd where mp: "mp = (msg, path)" "steering_command state = Some cmd"
          "path = command_path cmd" using steering_request_path by (cases mp) blast
        with True no_blink Some assms obtain t
          where t: "send_http_request B (command_path cmd) (printf msg [] (snd ?d2)) = Some t"
          "calls (ghw g') = calls t"
          by (auto simp: glasses_round_def Let_def case_prod_beta split: option.splits)
        with True no_blink mp(2) sent_or_not [OF t(1), of "ghw g"] d2 sent_calls [OF t(2)]
          gave_up_calls [OF t(2)] show ?thesis
          by (auto simp: glasses_command_def)
      qed
    qed
  qed
qed

section \<open>Properties\<close>


text \<open>
  C32: connecting makes up to four attempts but accepts only the first three: when the first three
  fail the program gives up, even if the fourth succeeded.
\<close>

theorem fourth_attempt_is_lost:
  assumes "connect s0 = Some (False, s1)"
    and "connect (sleep_ms 5000 (printf (''Retrying WiFi connection (%d/3)...'' @ NL) [Int_arg 1] s1))
      = Some (False, s2)"
    and "connect (sleep_ms 5000 (printf (''Retrying WiFi connection (%d/3)...'' @ NL) [Int_arg 2] s2))
      = Some (False, s3)"
    and "connect (sleep_ms 5000 (printf (''Retrying WiFi connection (%d/3)...'' @ NL) [Int_arg 3] s3))
      = Some (found, s4)"
  shows "wifi_up connect s0 = Some (False, printf (''Failed to connect to WiFi'' @ NL) [] s4)"
proof -
  let ?again = "\<lambda>i s. sleep_ms 5000 (printf (''Retrying WiFi connection (%d/3)...'' @ NL) [Int_arg i] s)"
  have 3: "connect_retry connect 3 (?again 3 s3) = Some (3, s4)"
    using assms(4) by (subst connect_retry.simps) simp
  have 2: "connect_retry connect 2 (?again 2 s2) = Some (3, s4)"
    using assms(3) 3 by (subst connect_retry.simps) simp
  have 1: "connect_retry connect 1 (?again 1 s1) = Some (3, s4)"
    using assms(2) 2 by (subst connect_retry.simps) (simp add: numeral_2_eq_2)
  have "connect_retry connect 0 s0 = Some (3, s4)"
    using assms(1) 1 by (subst connect_retry.simps) simp
  then show ?thesis by (simp add: wifi_up_def)
qed

theorem fourth_attempt_is_lost_witness:
  "\<exists>t. wifi_up (\<lambda>s. Some (reads s = 3, tick s)) reset_mcu = Some (False, t)"
proof -
  let ?connect = "\<lambda>s. Some (reads s = 3, tick s)"
  let ?again = "\<lambda>i s. sleep_ms 5000 (printf (''Retrying WiFi connection (%d/3)...'' @ NL) [Int_arg i] s)"
  define s1 where "s1 = tick reset_mcu"
  define s2 where "s2 = tick (?again 1 s1)"
  define s3 where "s3 = tick (?again 2 s2)"
  have r: "reads s1 = 1" "reads s2 = 2" "reads s3 = 3"
    by (simp_all add: s1_def s2_def s3_def tick_frame emit_frame reset_mcu_def)
  have "reads reset_mcu = 0" by (simp add: reset_mcu_def)
  then have 1: "?connect reset_mcu = Some (False, s1)" by (simp add: s1_def)
  have 2: "?connect (?again 1 s1) = Some (False, s2)" using r(1) by (simp add: s2_def emit_frame)
  have 3: "?connect (?again 2 s2) = Some (False, s3)" using r(2) by (simp add: s3_def emit_frame)
  have 4: "?connect (?again 3 s3) = Some (True, tick (?again 3 s3))" using r(3) by (simp add: emit_frame)
  from fourth_attempt_is_lost [of ?connect, OF 1 2 3 4] show ?thesis by blast
qed

end
