(* ===== verification/Both_Boards.thy ===== *)
theory Both_Boards
  imports Car_Main Glasses_Main
begin

text \<open>
  The two boards together: what the glasses send is what the car's web server receives. The server
  between them is not part of the sources; it is the parameter \<open>serve\<close>, a function from the bytes
  of a request to a path and the parameters of its query, of which the documented splitting of a
  request line is assumed (\<open>httpd_documented\<close>).
\<close>

section \<open>The web server between the boards\<close>

type_synonym http_server = "string \<Rightarrow> (string \<times> (string \<times> string option) list) option"

text \<open>A word of a request line without a character that has a meaning there.\<close>

definition url_word :: "string \<Rightarrow> bool" where
  "url_word w \<longleftrightarrow> w \<noteq> [] \<and> list_all (\<lambda>c. c \<notin> set ('' ?&='' @ CRLF)) w"

text \<open>
  The CGI interface of the server: the part of the address before the question mark selects the
  handler, and the handler gets the parameters behind it with their values.
\<close>

definition httpd_documented :: "http_server \<Rightarrow> bool" where
  "httpd_documented serve \<longleftrightarrow> (\<forall>path p v rest. url_word path \<longrightarrow> url_word p \<longrightarrow> url_word v \<longrightarrow>
     serve (''GET '' @ path @ ''?'' @ p @ ''='' @ v @ '' HTTP/1.1'' @ CRLF @ rest)
       = Some (path, [(p, Some v)]))"

text \<open>The server calls the handler registered for the path, the only one; other paths are files.\<close>

definition serve_request :: "http_server \<Rightarrow> board \<Rightarrow> string \<Rightarrow> car \<Rightarrow> car option" where
  "serve_request serve B request c =
     (case serve request of
        None \<Rightarrow> Some c
      | Some (path, params) \<Rightarrow>
          if path \<in> set cgi_handlers then map_option snd (cgi_led_handler B 0 params c) else Some c)"

fun serve_all :: "http_server \<Rightarrow> board \<Rightarrow> string list \<Rightarrow> car \<Rightarrow> car option" where
  "serve_all serve B [] c = Some c"
| "serve_all serve B (r # rs) c = Option.bind (serve_request serve B r c) (serve_all serve B rs)"

section \<open>One step of the two boards\<close>

text \<open>The requests of a round, and the command its sensor readings stand for.\<close>

definition new_requests :: "gyro \<Rightarrow> gyro \<Rightarrow> string list" where
  "new_requests g g' = drop (length (sent (ghw g))) (sent (ghw g'))"

definition round_command :: "board \<Rightarrow> LSM6DSL_Config \<Rightarrow> bool \<times> gyro \<Rightarrow> command option" where
  "round_command B config p =
     (let (isIR, g) = p in
      case eye_read_sensor B (ghw g) of None \<Rightarrow> None | Some (v, s) \<Rightarrow>
      (let s = printf (''WiFi connected. Sending HTTP request to set LED color to red.'' @ NL) [] s;
           (state, g1) = processGyroscopeData B config (g\<lparr>ghw := s\<rparr>)
       in glasses_command (eye_detect_blink v) (fst (ir_sensor_detected B (ghw g1))) isIR state))"

text \<open>
  The glasses make a round, and the requests of the round reach the car or are lost in the network;
  or the car makes a round of its own loop.
\<close>

type_synonym boards = "(bool \<times> gyro) \<times> car"

inductive boards_step :: "http_server \<Rightarrow> board \<Rightarrow> board \<Rightarrow> boards \<Rightarrow> boards \<Rightarrow> bool"
  for serve Bg Bc where
  received: "glasses_round Bg gyro_config (isIR, g) = Some (isIR', g') \<Longrightarrow>
    serve_all serve Bc (new_requests g g') c = Some c' \<Longrightarrow>
    boards_step serve Bg Bc ((isIR, g), c) ((isIR', g'), c')"
| lost: "glasses_round Bg gyro_config (isIR, g) = Some (isIR', g') \<Longrightarrow>
    boards_step serve Bg Bc ((isIR, g), c) ((isIR', g'), c)"
| car_round: "main_loop_body Bc c = Some c' \<Longrightarrow>
    boards_step serve Bg Bc (p, c) (p, c')"

inductive_cases boards_stepE: "boards_step serve Bg Bc x y"

section \<open>A request arrives as the command it was sent for\<close>

lemma url_words [simp]:
  "url_word ''/led.cgi''" "url_word ''motor''" "url_word (command_value cmd)"
  by (cases cmd; simp add: url_word_def CRLF_def)+

lemma served_command:
  assumes "httpd_documented serve"
  shows "serve (request_text (command_path cmd)) = Some (''/led.cgi'', [(''motor'', Some (command_value cmd))])"
proof -
  have "request_text (command_path cmd) = ''GET '' @ ''/led.cgi'' @ ''?'' @ ''motor'' @ ''=''
      @ command_value cmd @ '' HTTP/1.1'' @ CRLF
      @ (''Host: '' @ HOST @ CRLF @ ''Connection: close'' @ CRLF @ CRLF)"
    by (simp add: request_text_def command_path_def)
  then show ?thesis using assms unfolding httpd_documented_def
    by (simp only: url_words simp_thms)
qed

lemma serve_command:
  assumes "httpd_documented serve"
  shows "serve_request serve B (request_text (command_path cmd)) c = cgi_motor B (command_value cmd) c"
  by (simp add: serve_request_def served_command [OF assms] cgi_handlers_def cgi_led_handler_def
      cgi_param_def map_option_case split: option.split)

lemma round_sends:
  assumes "glasses_round B config (isIR, g) = Some (isIR', g')"
  shows "new_requests g g' = []
    \<or> (\<exists>cmd. round_command B config (isIR, g) = Some cmd
         \<and> new_requests g g' = [request_text (command_path cmd)])"
proof -
  obtain v s where eye: "eye_read_sensor B (ghw g) = Some (v, s)"
    using assms by (auto simp: glasses_round_def split: option.splits)
  obtain state g1 where p: "processGyroscopeData B config (g\<lparr>ghw := printf (''WiFi connected. ''
      @ ''Sending HTTP request to set LED color to red.'' @ NL) [] s\<rparr>) = (state, g1)" by fastforce
  have "round_command B config (isIR, g)
      = glasses_command (eye_detect_blink v) (fst (ir_sensor_detected B (ghw g1))) isIR state"
    using eye p by (simp add: round_command_def)
  with round_asks [OF assms eye p refl] show ?thesis by (auto simp: new_requests_def)
qed

lemma round_served:
  assumes "httpd_documented serve"
    and "glasses_round Bg config (isIR, g) = Some (isIR', g')"
    and "serve_all serve Bc (new_requests g g') c = Some c'"
  shows "c' = c \<or> (\<exists>cmd. round_command Bg config (isIR, g) = Some cmd
    \<and> cgi_motor Bc (command_value cmd) c = Some c')"
  using round_sends [OF assms(2)] assms(3) by (auto simp: serve_command [OF assms(1)] bind_eq_Some_conv)

section \<open>A board whose wireless module answers\<close>

text \<open>
  The module answers every command with the awaited word, one read of the flags after the wait has
  begun, and says nothing else; the clock stands still, so nothing times out.
\<close>

definition module_answers :: "(nat \<times> string) list" where
  "module_answers = [(24, ''OK''), (69, ''CONNECT''), (107, ''>''), (187, ''SEND OK''), (209, ''CLOSED'')]"

definition answer_board :: board where
  "answer_board = ref_board\<lparr>time_us_at := \<lambda>_. 7,
     uart_rx_at := \<lambda>n. case map_of module_answers n of None \<Rightarrow> [] | Some t \<Rightarrow> t\<rparr>"

lemma answer_board_simps [simp]:
  "time_us_at answer_board n = 7" "uart_writable_at answer_board = (\<lambda>_. True)"
  "uart_rx_at answer_board n = (case map_of module_answers n of None \<Rightarrow> [] | Some t \<Rightarrow> t)"
  "adc_ready_at answer_board = (\<lambda>_. True)" "adc_result_at answer_board = (\<lambda>_ _. 0)"
  by (simp_all add: answer_board_def)

text \<open>Nothing waits in the receive buffer and \<open>k\<close> reads have been made.\<close>

definition quiet_at :: "nat \<Rightarrow> mcu \<Rightarrow> bool" where
  "quiet_at k s \<longleftrightarrow> rx_fifo s = [] \<and> reads s = k \<and> uart_line_feed s = None"

lemma quiet_emit [simp]: "quiet_at k (emit c s) = quiet_at k s"
  by (simp add: quiet_at_def emit_def)

lemma quiet_puts:
  assumes "quiet_at k s"
  shows "\<exists>t. uart_puts answer_board str s = Some t \<and> quiet_at (k + length str) t"
proof -
  have "\<exists>t. puts_loop answer_board b str s = Some t \<and> quiet_at (k + length str) t"
    if "quiet_at k s" for b k s
    using that
  proof (induction str arbitrary: b k s)
    case (Cons c cs)
    have p: "poll_until (\<lambda>_. True) s = Some (tick s)" by (subst poll_until.simps) simp
    have "(if b then uart_putc_raw answer_board c s else uart_putc answer_board c s)
        = Some (emit (Uart_tx c) (tick s))"
      using Cons.prems p by (simp add: uart_putc_def uart_putc_raw_def quiet_at_def)
    moreover have "quiet_at (Suc k) (emit (Uart_tx c) (tick s))"
      using Cons.prems by (simp add: quiet_at_def tick_def emit_def)
    ultimately show ?case using Cons.IH by fastforce
  qed simp
  with assms show ?thesis by (simp add: uart_puts_def)
qed

lemma board_now [simp]:
  "get_absolute_time answer_board s = (7, tick s)" "to_ms_since_boot 7 = 0"
  by (simp_all add: get_absolute_time_def update_us_since_boot_def to_ms_since_boot_def us_to_ms_def
      to_us_since_boot_def)

text \<open>The answer arrives with the first look at the flags and is taken byte by byte.\<close>

lemma taken_loop:
  assumes "pending = rx_fifo s @ uart_rx_at answer_board (Suc (reads s))" and "pending \<noteq> []"
    and "expected = buffer @ pending" and "NUL \<notin> set expected" and "length expected \<le> 511"
    and "\<forall>n \<in> {reads s + 2..<reads s + 3 * length pending}. uart_rx_at answer_board n = []"
    and "0 < timeout_ms" and "uart_line_feed s = None"
  shows "\<exists>t. response_loop answer_board expected timeout_ms 0 buffer s = Some (True, t)
    \<and> quiet_at (reads s + 3 * length pending) t"
  using assms
proof (induction pending arbitrary: s buffer)
  case (Cons c cs)
  let ?t = "s\<lparr>rx_fifo := c # cs, reads := Suc (Suc (reads s))\<rparr>"
  let ?u = "s\<lparr>rx_fifo := cs, reads := Suc (Suc (Suc (reads s)))\<rparr>"
  let ?v = "sleep_ms 1 (emit (Putchar c) ?u)"
  have "uart_rx_at answer_board (Suc (Suc (reads s))) = []"
    using Cons.prems(6) by (simp del: answer_board_simps)
  then have u: "uart_getc answer_board ?t = Some (c, ?u)"
    by (simp add: uart_getc_ready del: answer_board_simps)
  have rt: "uart_is_readable answer_board (tick s) = (True, ?t)"
    using Cons.prems(1) [symmetric]
    by (cases "rx_fifo s") (simp_all add: uart_is_readable_def tick_def Let_def del: answer_board_simps)
  have len: "length buffer < 511" using Cons.prems(3,5) by simp
  have step: "response_loop answer_board expected timeout_ms 0 buffer s =
      (if strstr_found (c_str (buffer @ [c])) expected
       then Some (True, printf (NL @ ''Found response: %s'' @ NL) [Str_arg expected] (emit (Putchar c) ?u))
       else response_loop answer_board expected timeout_ms 0 (buffer @ [c]) ?v)"
    using rt u len Cons.prems(7)
    by (subst response_loop.simps) (simp add: Let_def)
  show ?case
  proof (cases "cs = []")
    case True
    then have "strstr_found (c_str (buffer @ [c])) expected"
      using Cons.prems(3,4) by (simp add: c_str_id strstr_found_sublist)
    moreover have "quiet_at (reads s + 3) ?u"
      using True Cons.prems(8) by (simp add: quiet_at_def)
    ultimately show ?thesis using step True by simp
  next
    case False
    have r: "reads ?v = reads s + 3" "rx_fifo ?v = cs" by (simp_all add: emit_frame)
    have "\<exists>t. response_loop answer_board expected timeout_ms 0 (buffer @ [c]) ?v = Some (True, t)
        \<and> quiet_at (reads ?v + 3 * length cs) t"
    proof (rule Cons.IH)
      show "cs = rx_fifo ?v @ uart_rx_at answer_board (Suc (reads ?v))"
        using Cons.prems(6) False unfolding r by (cases cs) (simp_all del: answer_board_simps)
      show "\<forall>n \<in> {reads ?v + 2..<reads ?v + 3 * length cs}. uart_rx_at answer_board n = []"
        using Cons.prems(6) unfolding r by (simp del: answer_board_simps)
      show "uart_line_feed ?v = None" using Cons.prems(8) by (simp add: emit_def)
    qed (use False Cons.prems(3-5,7) in simp_all)
    moreover have "\<not> strstr_found (c_str (buffer @ [c])) expected"
      using False Cons.prems(3,4) by (intro short_not_found) auto
    ultimately show ?thesis using step unfolding r by (simp add: algebra_simps)
  qed
qed simp

lemma quiet_wait:
  assumes "quiet_at k s" and "map_of module_answers (k + 2) = Some expected" and "expected \<noteq> []"
    and "\<forall>n \<in> {k + 3..k + 3 * length expected}. map_of module_answers n = None"
    and "NUL \<notin> set expected" and "length expected \<le> 511" and "0 < timeout_ms"
  shows "\<exists>t. wait_for_response answer_board expected timeout_ms s = Some (True, t)
    \<and> quiet_at (k + 1 + 3 * length expected) t"
proof -
  have r: "reads (tick s) = k + 1" "rx_fifo (tick s) = []" "uart_line_feed (tick s) = None"
    using assms(1) by (simp_all add: quiet_at_def tick_def)
  have "\<exists>t. response_loop answer_board expected timeout_ms 0 [] (tick s) = Some (True, t)
      \<and> quiet_at (reads (tick s) + 3 * length expected) t"
    by (rule taken_loop) (use assms r in \<open>auto\<close>)
  then show ?thesis unfolding r by (simp add: wait_for_response_def)
qed

lemma quiet_send_at:
  assumes "quiet_at k s" and "map_of module_answers k = None"
    and "map_of module_answers (k + length command + 5) = Some expected" and "expected \<noteq> []"
    and "\<forall>n \<in> {k + length command + 6..k + length command + 3 + 3 * length expected}.
      map_of module_answers n = None"
    and "NUL \<notin> set expected" and "length expected \<le> 511"
  shows "\<exists>t. send_at_command answer_board command expected s = Some t
    \<and> quiet_at (k + length command + 4 + 3 * length expected) t"
proof -
  have flush: "flush_uart_input answer_board s = Some (tick s)"
    using assms(1,2) by (subst flush_uart_input.simps)
      (simp add: uart_is_readable_def quiet_at_def Let_def tick_def)
  have "quiet_at (k + 1) (printf (NL @ ''Sending: %s'' @ NL) [Str_arg command] (tick s))"
    unfolding quiet_emit using assms(1) by (simp add: quiet_at_def tick_def)
  then obtain t where t: "uart_puts answer_board command
      (printf (NL @ ''Sending: %s'' @ NL) [Str_arg command] (tick s)) = Some t"
    "quiet_at (k + 1 + length command) t"
    using quiet_puts by blast
  obtain u where u: "uart_puts answer_board [CHR 0x0D, CHR 0x0A] t = Some u"
    "quiet_at (k + 1 + length command + 2) u"
    using quiet_puts [OF t(2), of "[CHR 0x0D, CHR 0x0A]"] by auto
  have "\<exists>w. wait_for_response answer_board expected 5000 u = Some (True, w)
      \<and> quiet_at (k + 1 + length command + 2 + 1 + 3 * length expected) w"
  proof (rule quiet_wait [OF u(2)])
    have "k + 1 + length command + 2 + 2 = k + length command + 5" by simp
    with assms(3) show "map_of module_answers (k + 1 + length command + 2 + 2) = Some expected"
      by metis
    show "\<forall>n \<in> {k + 1 + length command + 2 + 3..k + 1 + length command + 2 + 3 * length expected}.
        map_of module_answers n = None"
      using assms(5) by (simp add: ac_simps)
  qed (use assms in simp_all)
  then obtain w where w: "wait_for_response answer_board expected 5000 u = Some (True, w)"
    "quiet_at (k + 1 + length command + 2 + 1 + 3 * length expected) w" by blast
  have "send_at_command answer_board command expected s = Some w"
    using flush t(1) u(1) w(1) by (simp add: send_at_command_def)
  moreover have "k + length command + 4 + 3 * length expected
      = k + 1 + length command + 2 + 1 + 3 * length expected" by simp
  ultimately show ?thesis using w(2) by metis
qed

lemma answer_eye: "\<exists>s. eye_read_sensor answer_board (ghw reset_gyro) = Some (0, s) \<and> quiet_at 2 s"
  by (simp add: eye_read_sensor_def adc_read_def Let_def reset_gyro_def reset_mcu_def
      poll_until.simps [of "\<lambda>_. True"] quiet_at_def tick_def)

lemma quiet_gyro:
  assumes "quiet_at k (ghw g)"
  shows "quiet_at (k + 6) (ghw (snd (processGyroscopeData answer_board config g)))"
proof -
  have reg: "quiet_at (k + 1) (snd (lsm6dsl_read_register answer_board config reg s))" if "quiet_at k s" for k s reg
    using that by (auto simp: lsm6dsl_read_register_def i2c_write_blocking_def i2c_read_blocking_def
        case_prod_beta Let_def quiet_at_def emit_def tick_def answer_board_def)
  let ?r = "\<lambda>reg s. snd (lsm6dsl_read_register answer_board config reg s)"
  have "quiet_at (k + 1 + 1 + 1 + 1 + 1 + 1) (?r OUTZ_H_G (?r OUTZ_L_G (?r OUTY_H_G (?r OUTY_L_G
      (?r OUTX_H_G (?r OUTX_L_G (ghw g)))))))"
    by (intro reg assms)
  moreover have "k + 1 + 1 + 1 + 1 + 1 + 1 = k + 6" by simp
  ultimately have "quiet_at (k + 6) (?r OUTZ_H_G (?r OUTZ_L_G (?r OUTY_H_G (?r OUTY_L_G
      (?r OUTX_H_G (?r OUTX_L_G (ghw g)))))))" by metis
  then show ?thesis
    by (simp add: processGyroscopeData_def lsm6dsl_read_gyro_def case_prod_beta Let_def on_ghw_def
        split: OrientationState.split)
qed

lemma stop_request_texts: "length connect_text = 36" "length (request_text (command_path Cmd_stop)) = 76"
  "snprintf_text [] 100 connect_text = connect_text"
  "snprintf_text [] 256 (request_text (command_path Cmd_stop)) = request_text (command_path Cmd_stop)"
  "fmt_d 76 = ''76''"
proof -
  show 1: "length connect_text = 36" and 2: "length (request_text (command_path Cmd_stop)) = 76"
    by (simp_all add: connect_text_def request_text_def command_path_def HOST_def CRLF_def)
  show "snprintf_text [] 100 connect_text = connect_text"
    and "snprintf_text [] 256 (request_text (command_path Cmd_stop)) = request_text (command_path Cmd_stop)"
    by (intro snprintf_fits; simp add: 1 2)+
  show "fmt_d 76 = ''76''"
    by code_simp
qed

lemma stop_sent:
  assumes "quiet_at 8 s"
  shows "\<exists>t. send_http_request answer_board (command_path Cmd_stop) s = Some t
    \<and> sent t = sent s @ [request_text (command_path Cmd_stop)]"
proof -
  obtain s1 where 1: "send_at_command answer_board ''AT+CIPCLOSE'' ''OK'' s = Some s1" "quiet_at 29 s1"
    using quiet_send_at [OF assms, of "''AT+CIPCLOSE''" "''OK''"]
    by (auto simp: module_answers_def NUL_def)
  let ?s1 = "printf (NL @ ''Attempting TCP connection...'' @ NL) [] (sleep_ms 1000 s1)"
  obtain s2 where 2: "uart_puts answer_board connect_text ?s1 = Some s2" "quiet_at 65 s2"
    using quiet_puts [of 29 ?s1 connect_text] 1(2) by (auto simp: stop_request_texts)
  obtain s3 where 3: "uart_puts answer_board CRLF s2 = Some s3" "quiet_at 67 s3"
    using quiet_puts [OF 2(2), of CRLF] by (auto simp: CRLF_def)
  obtain s4 where 4: "wait_for_response answer_board ''CONNECT'' 5000 s3 = Some (True, s4)" "quiet_at 89 s4"
    using quiet_wait [OF 3(2), of "''CONNECT''" 5000] by (auto simp: module_answers_def NUL_def)
  obtain s5 where 5: "send_at_command answer_board ''AT+CIPSEND=76'' ''>'' s4 = Some s5" "quiet_at 109 s5"
    using quiet_send_at [OF 4(2), of "''AT+CIPSEND=76''" "''>''"] by (auto simp: module_answers_def NUL_def)
  let ?r = "request_text (command_path Cmd_stop)"
  let ?s5 = "printf request_format [Str_arg ?r] (sleep_ms 100 s5)"
  obtain s6 where 6: "uart_puts answer_board ?r ?s5 = Some s6" "quiet_at 185 s6"
    using quiet_puts [of 109 ?s5 ?r] 5(2) by (auto simp: stop_request_texts)
  obtain s7 where 7: "wait_for_response answer_board ''SEND OK'' 5000 s6 = Some (True, s7)" "quiet_at 207 s7"
    using quiet_wait [OF 6(2), of "''SEND OK''" 5000] by (auto simp: module_answers_def NUL_def)
  obtain s8 where 8: "wait_for_response answer_board ''CLOSED'' 5000 s7 = Some (True, s8)"
    using quiet_wait [OF 7(2), of "''CLOSED''" 5000] by (auto simp: module_answers_def NUL_def)
  have "send_http_request answer_board (command_path Cmd_stop) s = Some s8"
    unfolding send_http_request_def
    using 1 2 3 4 5 6 7 8 by (simp add: stop_request_texts snprintf_fits Let_def)
  moreover have "sent s8 = sent s @ [?r]"
    using send_at_sent [OF 1(1)] puts_sent [OF 2(1)] puts_sent [OF 3(1)] wait_sent [OF 4(1)]
      send_at_sent [OF 5(1)] puts_sent [OF 6(1)] wait_sent [OF 7(1)] wait_sent [OF 8] by simp
  ultimately show ?thesis by blast
qed

lemma zero_blinks: "eye_detect_blink 0"
  by (simp add: eye_detect_blink_def EYE_BLINK_THRESHOLD_def)

lemma answer_round_parts:
  obtains s state g1 t where "eye_read_sensor answer_board (ghw reset_gyro) = Some (0, s)"
    and "processGyroscopeData answer_board gyro_config (reset_gyro\<lparr>ghw := printf (''WiFi connected. ''
      @ ''Sending HTTP request to set LED color to red.'' @ NL) [] s\<rparr>) = (state, g1)"
    and "glasses_round answer_board gyro_config (False, reset_gyro) = Some (False, g1\<lparr>ghw := t\<rparr>)"
    and "sent t = sent (ghw reset_gyro) @ [request_text (command_path Cmd_stop)]"
proof -
  obtain s where s: "eye_read_sensor answer_board (ghw reset_gyro) = Some (0, s)" "quiet_at 2 s"
    using answer_eye by blast
  let ?g = "reset_gyro\<lparr>ghw := printf (''WiFi connected. ''
      @ ''Sending HTTP request to set LED color to red.'' @ NL) [] s\<rparr>"
  obtain state g1 where p: "processGyroscopeData answer_board gyro_config ?g = (state, g1)" by fastforce
  have "quiet_at 2 (ghw ?g)" using s(2) by simp
  from quiet_gyro [OF this, of gyro_config] p have q: "quiet_at 8 (ghw g1)" by simp
  have sent1: "sent (ghw g1) = sent (ghw reset_gyro)"
    using process_sent [of answer_board gyro_config ?g] eye_sent [OF s(1)] p by simp
  from q have "quiet_at 8 (printf ''in first if'' [] (ghw g1))" by simp
  from stop_sent [OF this] obtain t where t: "send_http_request answer_board (command_path Cmd_stop)
      (printf ''in first if'' [] (ghw g1)) = Some t"
    "sent t = sent (ghw reset_gyro) @ [request_text (command_path Cmd_stop)]"
    using sent1 by auto
  have "glasses_round answer_board gyro_config (False, reset_gyro) = Some (False, g1\<lparr>ghw := t\<rparr>)"
    using s(1) p zero_blinks t(1) by (simp add: glasses_round_def command_path_eq Let_def)
  then show thesis using that [OF s(1) p _ t(2)] by blast
qed

lemma answer_round:
  obtains g' where "glasses_round answer_board gyro_config (False, reset_gyro) = Some (False, g')"
    and "new_requests reset_gyro g' = [request_text (command_path Cmd_stop)]"
    and "round_command answer_board gyro_config (False, reset_gyro) = Some Cmd_stop"
proof -
  obtain s state g1 t where parts: "eye_read_sensor answer_board (ghw reset_gyro) = Some (0, s)"
    "processGyroscopeData answer_board gyro_config (reset_gyro\<lparr>ghw := printf (''WiFi connected. ''
      @ ''Sending HTTP request to set LED color to red.'' @ NL) [] s\<rparr>) = (state, g1)"
    "glasses_round answer_board gyro_config (False, reset_gyro) = Some (False, g1\<lparr>ghw := t\<rparr>)"
    "sent t = sent (ghw reset_gyro) @ [request_text (command_path Cmd_stop)]"
    by (rule answer_round_parts)
  then have "round_command answer_board gyro_config (False, reset_gyro) = Some Cmd_stop"
    using zero_blinks by (simp add: round_command_def glasses_command_def)
  with parts that show thesis by (simp add: new_requests_def)
qed

text \<open>A server that splits a request line as documented.\<close>

definition ref_server :: http_server where
  "ref_server request =
     (let address = takeWhile (\<lambda>c. c \<noteq> CHR '' '') (drop 4 request);
          path = takeWhile (\<lambda>c. c \<noteq> CHR ''?'') address;
          query = drop (length path + 1) address;
          p = takeWhile (\<lambda>c. c \<noteq> CHR ''='') query
      in Some (path, [(p, Some (drop (length p + 1) query))]))"

lemma ref_server_documented: "httpd_documented ref_server"
proof -
  have cut: "takeWhile (\<lambda>c. c \<noteq> x) (w @ x # rest) = w" if "x \<in> set '' ?=''" "url_word w" for x w rest
  proof -
    have "\<forall>c \<in> set w. c \<noteq> x" using that by (auto simp: url_word_def list_all_iff)
    then show ?thesis by (simp add: takeWhile_tail)
  qed
  show ?thesis unfolding httpd_documented_def
  proof (intro allI impI)
    fix path p v rest :: string
    assume w: "url_word path" "url_word p" "url_word v"
    let ?addr = "path @ ''?'' @ p @ ''='' @ v"
    have "\<forall>c \<in> set ?addr. c \<noteq> CHR '' ''" using w by (auto simp: url_word_def list_all_iff)
    then have "takeWhile (\<lambda>c. c \<noteq> CHR '' '') (?addr @ CHR '' '' # tl '' HTTP/1.1'' @ CRLF @ rest) = ?addr"
      by (subst takeWhile_append2) auto
    moreover have "takeWhile (\<lambda>c. c \<noteq> CHR ''?'') ?addr = path"
      using cut [of "CHR ''?''" path] w by simp
    moreover have "takeWhile (\<lambda>c. c \<noteq> CHR ''='') (p @ ''='' @ v) = p"
      using cut [of "CHR ''=''" p] w by simp
    ultimately show "ref_server (''GET '' @ path @ ''?'' @ p @ ''='' @ v @ '' HTTP/1.1'' @ CRLF @ rest)
        = Some (path, [(p, Some v)])"
      by (simp add: ref_server_def Let_def)
  qed
qed

section \<open>A car after start-up\<close>

lemma startup_car_ok:
  assumes "sdk_docs B" and "first_ready (\<lambda>i. wl_connect_at B i = 0) (Suc (reads (hw reset_car))) n"
    and "car_startup B reset_car = Some (Inr c)"
  shows "car_ok c"
proof -
  have "wl_init_at B (reads (hw reset_car)) = 0"
    using assms(3) by (auto simp: car_startup_def Let_def emit_frame split: if_splits)
  from startup_some [OF this assms(2)] assms(1,3) obtain d
    where c: "c = on_hw (printf (''CGI Handler initialized'' @ NL) []) (cgi_init B d)"
      and d: "mode_of d = mode_of reset_car" "slices (hw d) = slices (hw reset_car)" by auto
  have reset: "pwm_gpio_level (hw reset_car) g = 0" if "g \<in> {2, 27}" for g
    using that by (auto simp: pwm_gpio_level_def pwm_chan_level_def reset_car_def reset_mcu_def
        reset_slice_def)
  have mode: "mode_of c = Stopped"
    using cgi_init_rest(5) [OF assms(1), of d] d(1)
    by (simp add: c mode_of_simps) (simp add: mode_of_def reset_car_def)
  have "pwm_gpio_level (hw c) g = 0" if "g \<in> {2, 27}" for g
    using cgi_init_duties [OF assms(1) that, of d] pwm_obs_of_slices(1) [OF d(2), of g] reset [OF that]
    by (simp add: c observe_frame)
  with cgi_init_motors(2) [OF assms(1), of _ d] have "drive_of (hw c) = stopped_drive"
    by (simp add: c drive_of_def observe_frame pin_defs stopped_drive_def)
  with mode show ?thesis by (simp add: car_ok_def drive_agrees_def) (simp add: mode_of_def split: if_splits)
qed

section \<open>Properties\<close>





text \<open>
  C5: the two boards together. From the start-up of the car on, through any sequence of rounds of
  the glasses, with their requests served or lost, and rounds of the car's loop, the motors do what
  the car's flags say and the flags never say forward and backward at once.
\<close>

theorem boards_keep_agreement:
  assumes "httpd_documented serve" and "sdk_docs Bc"
    and "first_ready (\<lambda>i. wl_connect_at Bc i = 0) (Suc (reads (hw reset_car))) n"
    and "car_startup Bc reset_car = Some (Inr c)"
    and "(boards_step serve Bg Bc)\<^sup>*\<^sup>* (p, c) (p', c')"
  shows "drive_of (hw c') = drive_for (mode_of c') \<and> \<not> (is_moving_forward c' \<and> is_moving_backward c')"
proof -
  have step: "car_ok (snd y)" if "boards_step serve Bg Bc x y" "car_ok (snd x)" for x y
    using that(1)
  proof (cases rule: boards_step.cases)
    case (received isIR g isIR' g' c c')
    with round_served [OF assms(1) received(3,4)] that(2) show ?thesis
      by (auto intro: command_car_ok)
  qed (use that(2) in \<open>auto intro: body_car_ok\<close>)
  have "car_ok (snd y)" if "(boards_step serve Bg Bc)\<^sup>*\<^sup>* (p, c) y" for y
    using that startup_car_ok [OF assms(2-4)]
    by (induction rule: rtranclp_induct) (auto intro: step)
  from this [OF assms(5)] show ?thesis by (simp add: car_ok_def drive_agrees_def)
qed

theorem boards_keep_agreement_witness:
  "\<exists>c g' c'. (boards_step ref_server answer_board ref_board)\<^sup>*\<^sup>* ((False, reset_gyro), c) ((False, g'), c')
    \<and> car_startup ref_board reset_car = Some (Inr c) \<and> g' \<noteq> reset_gyro
    \<and> drive_of (hw c') = drive_for (mode_of c')"
proof -
  have ready: "first_ready (\<lambda>i. wl_connect_at ref_board i = 0) (Suc (reads (hw reset_car))) 1"
    by (simp add: first_ready_def reset_car_def reset_mcu_def)
  moreover have "wl_init_at ref_board (reads (hw reset_car)) = 0" by simp
  ultimately obtain c where c: "car_startup ref_board reset_car = Some (Inr c)"
    using startup_some by blast
  obtain g' where g': "glasses_round answer_board gyro_config (False, reset_gyro) = Some (False, g')"
    "new_requests reset_gyro g' = [request_text (command_path Cmd_stop)]"
    using answer_round by blast
  obtain c' where c': "serve_all ref_server ref_board (new_requests reset_gyro g') c = Some c'"
    by (simp add: g'(2) serve_command [OF ref_server_documented] motor_stop)
  have run: "(boards_step ref_server answer_board ref_board)\<^sup>*\<^sup>* ((False, reset_gyro), c) ((False, g'), c')"
    using boards_step.received [OF g'(1) c'] by blast
  moreover have "g' \<noteq> reset_gyro" using g'(2) by (auto simp: new_requests_def)
  ultimately show ?thesis
    using c boards_keep_agreement [OF ref_server_documented sdk_docs_ref_board ready c run] by blast
qed


end
