(* ===== verification/Glasses_Ends.thy ===== *)
theory Glasses_Ends
  imports Glasses_Main
begin

text \<open>
  The program of the glasses never hangs: no loop of main.c and wifi\_module.c keeps waiting,
  whatever the wireless module, the gyroscope and the infrared sensor answer. The clock of this
  theory counts without end and passes the 64-bit microseconds of the timer and the 32-bit
  milliseconds of \<open>to_ms_since_boot\<close> any number of times, so no bound on the running time is assumed.
\<close>

section \<open>A clock that runs for ever\<close>

text \<open>
  The microseconds that have really passed. The timer shows them modulo \<open>2\<^sup>6\<^sup>4\<close>. Between two
  volatile reads at most twenty seconds pass; the longest sleep of the program without a read, on
  the way to another attempt to connect, takes 13.1 seconds.
\<close>

definition true_time :: "board \<Rightarrow> (nat \<Rightarrow> nat) \<Rightarrow> bool" where
  "true_time B t \<longleftrightarrow> (\<forall>n. time_us_at B n = of_nat (t n))
     \<and> (\<forall>n. t n \<le> t (Suc n) \<and> t (Suc n) \<le> t n + 20000000) \<and> (\<forall>x. \<exists>n. x < t n)"

definition running_clock :: "board \<Rightarrow> bool" where
  "running_clock B \<longleftrightarrow> (\<exists>t. true_time B t)"

lemma true_time_steps:
  assumes "true_time B t"
  shows "t n \<le> t (Suc n)" and "t (Suc n) \<le> t n + 20000000"
  using assms by (simp_all add: true_time_def)

text \<open>The milliseconds shown in the \<open>K\<close>-th period of the timer.\<close>

lemma ms_shown:
  assumes "K * 18446744073709551616 \<le> x" and "x < (K + 1) * 18446744073709551616"
  shows "to_ms_since_boot (of_nat x) = of_nat ((x - K * 18446744073709551616) div 1000)"
proof -
  define y where "y = x - K * 18446744073709551616"
  have x: "x = y + K * 18446744073709551616" and "y < 18446744073709551616"
    using assms by (simp_all add: y_def)
  then have "x mod 18446744073709551616 = y" by simp
  then have "unat (of_nat x :: u64) = y" by (simp add: unat_of_nat take_bit_eq_mod)
  then show ?thesis
    by (simp add: to_ms_since_boot_def to_us_since_boot_def word_unat_eq_iff unat_us_to_ms
        unat_of_nat take_bit_eq_mod flip: y_def)
qed

lemma ms_after:
  assumes "unat start \<le> M" and "M < unat start + 4294967296"
  shows "unat (of_nat M - start :: u32) = M - unat start"
proof -
  have small: "M - unat start < 4294967296" using assms by linarith
  have "of_nat M - start = of_nat M - of_nat (unat start)" by simp
  also have "\<dots> = of_nat (M - unat start)" by (rule of_nat_diff [OF assms(1), symmetric])
  finally have "unat (of_nat M - start) = unat (of_nat (M - unat start) :: u32)" by simp
  also have "\<dots> = M - unat start"
    using small by (simp only: unat_of_nat take_bit_eq_mod) simp
  finally show ?thesis .
qed

text \<open>Every look at the clock in the 200 seconds from \<open>\<tau>\<close> on finds the timeout over.\<close>

definition over :: "board \<Rightarrow> (nat \<Rightarrow> nat) \<Rightarrow> u32 \<Rightarrow> u32 \<Rightarrow> nat \<Rightarrow> bool" where
  "over B t start timeout_ms \<tau> \<longleftrightarrow> (\<forall>n. \<tau> \<le> t n \<and> t n \<le> \<tau> + 200000000
     \<longrightarrow> \<not> to_ms_since_boot (time_us_at B n) - start < timeout_ms)"

text \<open>In every round of the milliseconds the timeout is over once, whatever the start.\<close>

lemma over_in_period:
  assumes "true_time B t" and "unat timeout_ms \<le> 1000000" and "p \<le> 1000"
  shows "over B t start timeout_ms
    (K * 18446744073709551616 + 1000 * (unat start + unat timeout_ms + p * 4294967296))"
  unfolding over_def
proof (intro allI impI)
  fix n
  let ?\<tau> = "K * 18446744073709551616 + 1000 * (unat start + unat timeout_ms + p * 4294967296)"
  assume "?\<tau> \<le> t n \<and> t n \<le> ?\<tau> + 200000000"
  then have n: "?\<tau> \<le> t n" "t n \<le> ?\<tau> + 200000000" by blast+
  have start: "unat start < 4294967296" by (rule unat_u32)
  define y where "y = t n - K * 18446744073709551616"
  have y: "t n = y + K * 18446744073709551616" using n(1) by (simp add: y_def)
  define M where "M = y div 1000"
  have "1000 * (unat start + unat timeout_ms + p * 4294967296) div 1000 \<le> M"
    unfolding M_def by (rule div_le_mono) (use n y in linarith)
  then have lo: "unat start + unat timeout_ms + p * 4294967296 \<le> M" by simp
  have "M \<le> (1000 * (unat start + unat timeout_ms + p * 4294967296 + 200000)) div 1000"
    unfolding M_def by (rule div_le_mono) (use n(2) y in \<open>simp add: algebra_simps\<close>)
  then have hi: "M - p * 4294967296 < unat start + 4294967296" using assms(2) by simp
  have "of_nat M = (of_nat (M - p * 4294967296) + of_nat (p * 4294967296) :: u32)"
    using lo by (simp only: flip: of_nat_add) simp
  moreover have "(of_nat (p * 4294967296) :: u32) = 0"
    by (simp only: word_unat_eq_iff unat_of_nat take_bit_eq_mod unat_0) simp
  ultimately have "(of_nat M :: u32) = of_nat (M - p * 4294967296)" by (simp only: add_0_right)
  moreover have "to_ms_since_boot (time_us_at B n) = of_nat M"
    using assms n start ms_shown [of K "t n"] by (simp add: true_time_def M_def y_def)
  ultimately show "\<not> to_ms_since_boot (time_us_at B n) - start < timeout_ms"
    using ms_after [OF _ hi] lo by (simp add: word_less_nat_alt)
qed

text \<open>Away from the end of a period the timeout is over when its time has passed.\<close>

lemma over_after:
  assumes "true_time B t" and "unat timeout_ms \<le> 1000000" and "K * 18446744073709551616 \<le> t k"
    and "t k + 1000000000000 < (K + 1) * 18446744073709551616"
  shows "over B t (to_ms_since_boot (time_us_at B k)) timeout_ms (t k + 1000 * unat timeout_ms + 1000)"
  unfolding over_def
proof (intro allI impI)
  fix n
  assume "t k + 1000 * unat timeout_ms + 1000 \<le> t n
    \<and> t n \<le> t k + 1000 * unat timeout_ms + 1000 + 200000000"
  then have n: "t k + 1000 * unat timeout_ms + 1000 \<le> t n"
    "t n \<le> t k + 1000 * unat timeout_ms + 1000 + 200000000" by blast+
  define y x where "y = t n - K * 18446744073709551616" and "x = t k - K * 18446744073709551616"
  have y: "t n = y + K * 18446744073709551616" and x: "t k = x + K * 18446744073709551616"
    using n(1) assms(3) by (simp_all add: y_def x_def)
  define M N where "M = y div 1000" and "N = x div 1000"
  have "to_ms_since_boot (time_us_at B n) = of_nat M"
    using assms n ms_shown [of K "t n"] by (simp add: true_time_def M_def y_def)
  moreover have "to_ms_since_boot (time_us_at B k) = of_nat N"
    using assms ms_shown [of K "t k"] by (simp add: true_time_def N_def x_def)
  moreover have "(x + (unat timeout_ms + 1) * 1000) div 1000 \<le> M"
    unfolding M_def by (rule div_le_mono) (use n y x in \<open>simp add: algebra_simps\<close>)
  then have lo: "N + unat timeout_ms < M" by (simp add: N_def)
  have "M \<le> (x + (unat timeout_ms + 200001) * 1000) div 1000"
    unfolding M_def by (rule div_le_mono) (use n y x in \<open>simp add: algebra_simps\<close>)
  then have "M - N < 4294967296" using assms(2) by (simp add: N_def)
  ultimately show "\<not> to_ms_since_boot (time_us_at B n) - to_ms_since_boot (time_us_at B k) < timeout_ms"
    using lo by (simp add: word_less_nat_alt unat_of_nat take_bit_nat_eq_self flip: of_nat_diff)
qed

section \<open>Waiting for an answer\<close>

lemma response_by:
  assumes clock: "true_time B t" and over: "over B t start timeout_ms \<tau>"
    and "t (reads s) \<le> \<tau> + 60000000"
  shows "\<exists>ok s'. response_loop B expected timeout_ms start buffer s = Some (ok, s')
    \<and> t (reads s') \<le> \<tau> + 80000000 \<and> reads s < reads s'"
proof -
  obtain m where m: "\<tau> < t m" using clock unfolding true_time_def by blast
  have mono: "mono t" using true_time_steps(1) [OF clock] by (simp add: mono_iff_le_Suc)
  from assms(3) show ?thesis
  proof (induction "m - reads s" arbitrary: s buffer rule: less_induct)
    case less
    let ?n = "reads s"
    note steps = true_time_steps(2) [OF clock, of ?n] true_time_steps(2) [OF clock, of "Suc ?n"]
      true_time_steps(2) [OF clock, of "Suc (Suc ?n)"]
    let ?go = "to_ms_since_boot (time_us_at B ?n) - start < timeout_ms"
    show ?case
    proof (cases "?go")
      case False
      with less.prems steps show ?thesis
        by (subst response_loop.simps)
          (auto simp: get_absolute_time_def update_us_since_boot_def Let_def emit_frame tick_frame)
    next
      case True
      have early: "t ?n < \<tau>"
      proof (rule ccontr)
        assume "\<not> t ?n < \<tau>"
        then have "\<tau> \<le> t ?n \<and> t ?n \<le> \<tau> + 200000000" using less.prems by simp
        with over True show False unfolding over_def by blast
      qed
      then have nm: "?n < m" using m mono by (metis linorder_not_le monoD order.strict_trans nat_less_le)
      have again: "\<exists>ok s'. response_loop B expected timeout_ms start buf u = Some (ok, s')
          \<and> t (reads s') \<le> \<tau> + 80000000 \<and> ?n < reads s'"
        if "reads u = Suc (Suc ?n) \<or> reads u = Suc (Suc (Suc ?n))" for u buf
      proof -
        have "t (reads u) \<le> \<tau> + 60000000" using that early steps by auto
        moreover have "m - reads u < m - ?n" using that nm by linarith
        ultimately show ?thesis using less.hyps [of u buf] that by fastforce
      qed
      obtain rd u where rd: "uart_is_readable B (tick s) = (rd, u)" by fastforce
      have u: "reads u = Suc (Suc ?n)"
        using rd by (auto simp: uart_is_readable_def tick_def Let_def)
      show ?thesis
      proof (cases rd)
        case False
        with rd \<open>?go\<close> again [of "sleep_ms 1 u" buffer] u show ?thesis
          by (subst response_loop.simps)
            (simp add: get_absolute_time_def update_us_since_boot_def Let_def emit_frame)
      next
        case True
        with rd have "uart_is_readable B (tick s) = (True, u)" by simp
        from getc_after_readable [OF this] obtain c v
          where v: "uart_getc B u = Some (c, v)" "reads v = Suc (Suc (Suc ?n))"
          by (auto simp: tick_frame)
        define buffer' where "buffer' = (if length buffer < 511 then buffer @ [c] else buffer)"
        have "response_loop B expected timeout_ms start buffer s =
            (if strstr_found (c_str buffer') expected
             then Some (True, printf (NL @ ''Found response: %s'' @ NL) [Str_arg expected]
               (emit (Putchar c) v))
             else response_loop B expected timeout_ms start buffer' (sleep_ms 1 (emit (Putchar c) v)))"
          using True rd v \<open>?go\<close>
          by (subst response_loop.simps)
            (simp add: get_absolute_time_def update_us_since_boot_def Let_def flip: buffer'_def)
        with again [of "sleep_ms 1 (emit (Putchar c) v)" buffer'] early steps v show ?thesis
          by (cases "strstr_found (c_str buffer') expected") (auto simp: emit_frame)
      qed
    qed
  qed
qed

text \<open>A wait ends by the time its timeout is over, in the period of its start or in the next one.\<close>

lemma wait_by:
  assumes "true_time B t" and "over B t (to_ms_since_boot (time_us_at B (reads s))) timeout_ms \<tau>"
    and "t (Suc (reads s)) \<le> \<tau> + 60000000"
  shows "\<exists>ok s'. wait_for_response B expected timeout_ms s = Some (ok, s')
    \<and> t (reads s') \<le> \<tau> + 80000000 \<and> reads s < reads s'"
  using response_by [OF assms(1,2), of "tick s" expected "[]"] assms(3)
  by (auto simp: wait_for_response_def get_absolute_time_def update_us_since_boot_def tick_frame)

lemma wait_next_period:
  assumes "true_time B t" and "unat timeout_ms \<le> 1000000" and "t (reads s) < K * 18446744073709551616"
  shows "\<exists>ok s'. wait_for_response B expected timeout_ms s = Some (ok, s')
    \<and> t (reads s') < K * 18446744073709551616 + 5000000000000 \<and> reads s < reads s'"
proof -
  let ?start = "to_ms_since_boot (time_us_at B (reads s))"
  have "unat ?start < 4294967296" by (rule unat_u32)
  with wait_by [OF assms(1) over_in_period [OF assms(1,2), of 0 ?start K], of expected]
    true_time_steps(2) [OF assms(1), of "reads s"] assms(2,3)
  show ?thesis by fastforce
qed

lemma wait_same_period:
  assumes "true_time B t" and "unat timeout_ms \<le> 1000000" and "K * 18446744073709551616 \<le> t (reads s)"
    and "t (reads s) + 1000000000000 < (K + 1) * 18446744073709551616"
  shows "\<exists>ok s'. wait_for_response B expected timeout_ms s = Some (ok, s')
    \<and> t (reads s') \<le> t (reads s) + 1000 * unat timeout_ms + 80001000 \<and> reads s < reads s'"
  using wait_by [OF assms(1) over_after [OF assms(1-4)], of expected]
    true_time_steps(2) [OF assms(1), of "reads s"] by fastforce

lemma wait_ends:
  assumes "running_clock B" and "unat timeout_ms \<le> 1000000"
  shows "\<exists>ok s'. wait_for_response B expected timeout_ms s = Some (ok, s')"
proof -
  obtain t where t: "true_time B t" using assms(1) by (auto simp: running_clock_def)
  have "t (reads s) < (t (reads s) + 1) * 18446744073709551616" by simp
  from wait_next_period [OF t assms(2) this] show ?thesis by blast
qed

section \<open>Emptying the receive buffer\<close>

text \<open>
  What the code relies on of the module: in the long run it sends fewer bytes than half the reads
  of the program, so that a reader that takes one byte with every two reads catches up with it.
\<close>

definition arrivals :: "board \<Rightarrow> nat \<Rightarrow> nat \<Rightarrow> nat" where
  "arrivals B n k = length (concat (map (uart_rx_at B) [n..<n + k]))"

definition catches_up :: "board \<Rightarrow> bool" where
  "catches_up B \<longleftrightarrow> (\<forall>n backlog. \<exists>k. 2 * (backlog + arrivals B n k) < k)"

lemma arrivals_0 [simp]: "arrivals B n 0 = 0"
  by (simp add: arrivals_def)

lemma arrivals_Suc: "arrivals B n (Suc k) = length (uart_rx_at B n) + arrivals B (Suc n) k"
  by (simp add: arrivals_def upt_conv_Cons del: upt_Suc)

lemma flush_within:
  "2 * (length (rx_fifo s) + arrivals B (reads s) k) < k \<Longrightarrow> \<exists>s'. flush_uart_input B s = Some s'"
proof (induction k arbitrary: s rule: less_induct)
  case (less k)
  obtain rd u where rd: "uart_is_readable B s = (rd, u)" by fastforce
  then have u: "rd \<longleftrightarrow> rx_fifo u \<noteq> []" "rx_fifo u = rx_fifo s @ uart_rx_at B (reads s)"
    "reads u = Suc (reads s)"
    by (auto simp: uart_is_readable_def tick_def Let_def)
  show ?case
  proof (cases rd)
    case False
    with rd show ?thesis by (subst flush_uart_input.simps) simp
  next
    case True
    let ?v = "u\<lparr>rx_fifo := tl (rx_fifo u) @ uart_rx_at B (reads u), reads := Suc (reads u)\<rparr>"
    have v: "uart_getc B u = Some (hd (rx_fifo u), ?v)"
      using u(1) True by (simp add: uart_getc_ready)
    obtain j where k: "k = Suc (Suc j)"
    proof (cases k)
      case (Suc i)
      with less.prems u(1,2) True that show thesis by (cases i) (auto simp: arrivals_Suc)
    qed (use less.prems in simp)
    obtain l where l: "length (rx_fifo s) + length (uart_rx_at B (reads s)) = Suc l"
      using True u(1,2) by (metis Suc_pred length_append length_greater_0_conv)
    then have "length (tl (rx_fifo u)) = l" using u(2) by simp
    moreover have "2 * (Suc l + length (uart_rx_at B (Suc (reads s)))
        + arrivals B (Suc (Suc (reads s))) j) < Suc (Suc j)"
      using less.prems unfolding k by (simp add: arrivals_Suc flip: l)
    ultimately have "2 * (length (rx_fifo ?v) + arrivals B (reads ?v) j) < j"
      by (simp add: u(3))
    then have "\<exists>s'. flush_uart_input B ?v = Some s'" using less.IH [of j ?v] k by simp
    with rd v True show ?thesis by (subst flush_uart_input.simps) simp
  qed
qed

lemma flush_ends: "catches_up B \<Longrightarrow> \<exists>s'. flush_uart_input B s = Some s'"
  using flush_within unfolding catches_up_def by blast

section \<open>A board that keeps working\<close>

text \<open>The clock runs, the UART drains, a conversion gets ready and the program catches up with the module.\<close>

definition lively :: "board \<Rightarrow> bool" where
  "lively B \<longleftrightarrow> running_clock B \<and> drains B \<and> (\<forall>n. \<exists>m \<ge> n. adc_ready_at B m) \<and> catches_up B"

lemma lively_wait:
  "lively B \<Longrightarrow> unat timeout_ms \<le> 1000000 \<Longrightarrow> \<exists>ok s'. wait_for_response B expected timeout_ms s = Some (ok, s')"
  by (simp add: lively_def wait_ends)

lemma lively_puts: "lively B \<Longrightarrow> \<exists>s'. uart_puts B str s = Some s'"
  using puts_loop_sends [of B False str s] by (auto simp: lively_def uart_puts_def)

lemma lively_send:
  assumes "lively B"
  shows "\<exists>s'. send_at_command B command expected s = Some s'"
proof -
  obtain t where "flush_uart_input B s = Some t" using flush_ends assms unfolding lively_def by blast
  moreover obtain u where "uart_puts B command
      (printf (NL @ ''Sending: %s'' @ NL) [Str_arg command] t) = Some u"
    using lively_puts [OF assms] by blast
  moreover obtain v where "uart_puts B [CHR 0x0D, CHR 0x0A] u = Some v"
    using lively_puts [OF assms] by blast
  moreover obtain ok w where "wait_for_response B expected 5000 v = Some (ok, w)"
    using lively_wait [OF assms, of 5000 expected v] by auto
  ultimately show ?thesis by (simp add: send_at_command_def)
qed

lemma lively_request:
  assumes "lively B"
  shows "\<exists>s'. send_http_request B path s = Some s'"
proof -
  note puts = lively_puts [OF assms] and send = lively_send [OF assms]
  have wait: "\<exists>ok s'. wait_for_response B expected 5000 s = Some (ok, s')" for expected s
    using lively_wait [OF assms, of 5000] by simp
  obtain s1 where 1: "send_at_command B ''AT+CIPCLOSE'' ''OK'' s = Some s1" using send by blast
  obtain s2 where 2: "uart_puts B (snprintf_text [] 100 connect_text)
      (printf (NL @ ''Attempting TCP connection...'' @ NL) [] (sleep_ms 1000 s1)) = Some s2"
    using puts by blast
  obtain s3 where 3: "uart_puts B CRLF s2 = Some s3" using puts by blast
  obtain ok s4 where 4: "wait_for_response B ''CONNECT'' 5000 s3 = Some (ok, s4)" using wait by blast
  obtain s5 where 5: "send_at_command B (snprintf_text [] 32 (''AT+CIPSEND=''
      @ fmt_d (int (length (request_text path))))) ''>'' s4 = Some s5"
    using send by blast
  obtain s6 where 6: "uart_puts B (snprintf_text [] 256 (request_text path))
      (printf request_format [Str_arg (snprintf_text [] 256 (request_text path))] (sleep_ms 100 s5)) = Some s6"
    using puts by blast
  obtain ok7 s7 where 7: "wait_for_response B ''SEND OK'' 5000 s6 = Some (ok7, s7)" using wait by blast
  obtain ok8 s8 where 8: "wait_for_response B ''CLOSED'' 5000
      (if \<not> ok7 then printf (''Failed to send HTTP request'' @ NL) [] s7 else s7) = Some (ok8, s8)"
    using wait by blast
  show ?thesis
    using 1 2 3 4 5 6 7 8 by (simp add: send_http_request_def Let_def)
qed

section \<open>Connecting\<close>

text \<open>
  The loop that waits for the address tests its timeout between waits. It is over two rounds of the
  milliseconds after the next period of the timer has begun, at the latest: a wait that began in
  the period before has ended by then, and the other waits are short.
\<close>

lemma got_ip_ends:
  assumes "running_clock B"
  shows "\<exists>found s'. got_ip_loop B start s = Some (found, s')"
proof -
  obtain t where t: "true_time B t" using assms by (auto simp: running_clock_def)
  define K where "K = t (reads s) + 1"
  define \<tau> where "\<tau> = K * 18446744073709551616 + 1000 * (unat start + unat (30000 :: u32) + 2 * 4294967296)"
  have over: "over B t start 30000 \<tau>" unfolding \<tau>_def by (rule over_in_period [OF t]) simp_all
  have \<tau>: "K * 18446744073709551616 + 8000000000000 \<le> \<tau>"
    "\<tau> + 2000000000000 < (K + 1) * 18446744073709551616"
    using unat_u32 [of start] by (simp_all add: \<tau>_def)
  obtain m where m: "\<tau> < t m" using t unfolding true_time_def by blast
  have mono: "mono t" using true_time_steps(1) [OF t] by (simp add: mono_iff_le_Suc)
  have "t (reads s) \<le> \<tau> + 200000000" by (simp add: \<tau>_def K_def)
  then show ?thesis
  proof (induction "m - reads s" arbitrary: s rule: less_induct)
    case less
    let ?go = "to_ms_since_boot (time_us_at B (reads s)) - start < 30000"
    show ?case
    proof (cases "?go")
      case False
      then show ?thesis
        by (subst got_ip_loop.simps) (auto simp: get_absolute_time_def update_us_since_boot_def)
    next
      case True
      have early: "t (reads s) < \<tau>"
        using over True less.prems unfolding over_def by (meson linorder_not_less)
      then have n: "reads s < m" using m mono by (metis linorder_not_le monoD order.strict_trans nat_less_le)
      have now: "t (Suc (reads s)) \<le> t (reads s) + 20000000" by (rule true_time_steps(2) [OF t])
      have "\<exists>ok s'. wait_for_response B ''WIFI GOT IP'' 1000 (tick s) = Some (ok, s')
          \<and> t (reads s') \<le> \<tau> + 200000000 \<and> reads s < reads s'"
      proof (cases "t (Suc (reads s)) < K * 18446744073709551616")
        case True
        with wait_next_period [OF t, of 1000 "tick s" K "''WIFI GOT IP''"] \<tau>(1) show ?thesis
          by (fastforce simp: tick_frame)
      next
        case False
        with wait_same_period [OF t, of 1000 K "tick s" "''WIFI GOT IP''"] \<tau>(2) early now show ?thesis
          by (fastforce simp: tick_frame)
      qed
      then obtain ok s' where w: "wait_for_response B ''WIFI GOT IP'' 1000 (tick s) = Some (ok, s')"
        and s': "t (reads s') \<le> \<tau> + 200000000" "reads s < reads s'" by blast
      have "m - reads s' < m - reads s" using n s'(2) by linarith
      from less.hyps [OF this s'(1)] w True show ?thesis
        by (subst got_ip_loop.simps) (auto simp: get_absolute_time_def update_us_since_boot_def)
    qed
  qed
qed

lemma lively_connect:
  assumes "lively B"
  shows "\<exists>ok s'. connect_to_wifi B s = Some (ok, s')"
proof -
  have at: "\<exists>s'. at_retries B i s = Some s'" for i s
    using lively_send [OF assms] by (induction i arbitrary: s) (simp, metis at_retries.simps(2) option.simps(5))
  let ?s0 = "sleep_ms 3000 (hardware_reset_esp (printf (''Initializing ESP-01S...'' @ NL) [] s))"
  obtain s1 where "at_retries B 3 ?s0 = Some s1" using at by blast
  moreover obtain s2 where "send_at_command B ''AT+CWMODE=1'' ''OK'' s1 = Some s2"
    using lively_send [OF assms] by blast
  moreover obtain s3 where "uart_puts B wifi_cmd
      (printf (''Attempting WiFi connection...'' @ NL) [] (sleep_ms 1000 s2)) = Some s3"
    using lively_puts [OF assms] by blast
  moreover obtain s4 where "uart_puts B [CHR 0x0D, CHR 0x0A] s3 = Some s4"
    using lively_puts [OF assms] by blast
  moreover obtain found s5 where "got_ip_loop B (to_ms_since_boot (time_us_at B (reads s4))) (tick s4)
      = Some (found, s5)"
    using got_ip_ends assms unfolding lively_def by blast
  ultimately show ?thesis
    by (simp add: connect_to_wifi_def Let_def get_absolute_time_def update_us_since_boot_def)
qed

lemma connect_retry_ends:
  "\<forall>s. \<exists>ok s'. connect s = Some (ok, s') \<Longrightarrow> \<exists>n s'. connect_retry connect retry_count s = Some (n, s')"
proof (induction connect retry_count s rule: connect_retry.induct)
  case (1 connect retry_count s)
  then obtain ok t where "connect s = Some (ok, t)" by blast
  with 1 show ?case by (subst connect_retry.simps) auto
qed

lemma lively_wifi_up:
  assumes "lively B"
  shows "\<exists>ok s'. wifi_up (connect_to_wifi B) s = Some (ok, s')"
proof -
  obtain n t where "connect_retry (connect_to_wifi B) 0 s = Some (n, t)"
    using connect_retry_ends lively_connect [OF assms] by blast
  then show ?thesis by (auto simp: wifi_up_def)
qed

section \<open>The program\<close>

lemma startup_outcome:
  assumes "\<exists>ok s'. w = Some (ok, s')"
  shows "\<exists>r. (case w of None \<Rightarrow> None | Some (True, s) \<Rightarrow> Some (Inr (f s)) | Some (False, s) \<Rightarrow> Some (Inl (-1)))
      = Some r \<and> (\<forall>e. r = Inl e \<longrightarrow> e = (-1 :: int))"
  using assms by (auto split: bool.split)

lemma startup_ends:
  assumes "lively B"
  shows "\<exists>r. glasses_startup B g = Some r \<and> (\<forall>e. r = Inl e \<longrightarrow> e = -1)"
proof -
  obtain ok s where i: "lsm6dsl_init B gyro_config (ghw (on_ghw (sleep_ms 500) (on_ghw (setup_i2c B)
      (on_ghw (sleep_ms 5000) (on_ghw (emit Stdio_init_all) g))))) = (ok, s)" by fastforce
  show ?thesis
  proof (cases ok)
    case True
    show ?thesis
      unfolding glasses_startup_def Let_def i prod.case eqTrueI [OF True] not_True_eq_False if_False
      by (rule startup_outcome [OF lively_wifi_up [OF assms]])
  next
    case False
    then show ?thesis by (simp add: glasses_startup_def Let_def i)
  qed
qed

lemma lively_eye:
  assumes "lively B"
  shows "\<exists>v s'. eye_read_sensor B s = Some (v, s')"
proof -
  obtain m where "reads s \<le> m" "adc_ready_at B m" using assms unfolding lively_def by blast
  then obtain n where "first_ready (adc_ready_at B) (reads s) n" using first_ready_exists by blast
  from adc_read_first [OF this] show ?thesis by (simp add: eye_read_sensor_def)
qed

lemma round_ends:
  assumes "lively B"
  shows "\<exists>q. glasses_round B config p = Some q"
proof (cases p)
  case (Pair isIR g)
  note request = lively_request [OF assms]
  obtain v s where eye: "eye_read_sensor B (ghw g) = Some (v, s)" using lively_eye [OF assms] by blast
  obtain state g1 where p: "processGyroscopeData B config 
      (g\<lparr>ghw := printf (''WiFi connected. Sending HTTP request to set LED color to red.'' @ NL) [] s\<rparr>)
      = (state, g1)" by fastforce
  have steer_ends: "\<exists>s'. (case steering_request state of None \<Rightarrow> Some s
      | Some (msg, path) \<Rightarrow> send_http_request B path (printf msg [] s)) = Some s'" for s
    using request by (auto split: option.split)
  note open_round = glasses_round_def Pair Let_def prod.case eye option.case p
  let ?ir = "\<lambda>s. snd (ir_sensor_detected B s)"
  consider (blink) "eye_detect_blink v"
    | (turn) "\<not> eye_detect_blink v" "fst (ir_sensor_detected B (ghw g1)) \<and> \<not> isIR"
    | (reverse) "\<not> eye_detect_blink v" "\<not> (fst (ir_sensor_detected B (ghw g1)) \<and> \<not> isIR)" by blast
  then show ?thesis
  proof cases
    case blink
    obtain s' where "send_http_request B ''/led.cgi?motor=stop'' (printf ''in first if'' [] (ghw g1)) = Some s'"
      using request by blast
    with blink show ?thesis unfolding open_round by (simp add: case_prod_beta)
  next
    case turn
    from steer_ends obtain s' where "(case steering_request state of
        None \<Rightarrow> Some (?ir (printf ''in first else'' [] (?ir (ghw g1))))
      | Some (msg, path) \<Rightarrow> send_http_request B path (printf msg []
          (?ir (printf ''in first else'' [] (?ir (ghw g1)))))) = Some s'" by blast
    with turn show ?thesis unfolding open_round by (simp add: case_prod_beta)
  next
    case reverse
    obtain s' where "send_http_request B ''/led.cgi?motor=backward'' (?ir (ghw g1)) = Some s'"
      using request by blast
    with reverse show ?thesis unfolding open_round by (auto simp: case_prod_beta)
  qed
qed

text \<open>The first \<open>n\<close> rounds of the \<open>while (1)\<close> loop of main.\<close>

fun glasses_loop :: "board \<Rightarrow> LSM6DSL_Config \<Rightarrow> nat \<Rightarrow> bool \<times> gyro \<Rightarrow> (bool \<times> gyro) option" where
  "glasses_loop B config 0 p = Some p"
| "glasses_loop B config (Suc n) p = Option.bind (glasses_round B config p) (glasses_loop B config n)"

lemma loop_goes_on: "lively B \<Longrightarrow> \<exists>q. glasses_loop B config n p = Some q"
proof (induction n arbitrary: p)
  case (Suc n)
  obtain q where "glasses_round B config p = Some q" using round_ends Suc.prems by blast
  with Suc show ?case by simp
qed simp

section \<open>Properties\<close>

text \<open>
  C21: the program of the glasses never hangs. If the clock runs (through any number of wrap-arounds
  of its 64-bit microseconds and 32-bit milliseconds), the UART drains, a conversion of the ADC gets
  ready and the module does not for ever send faster than the program reads, then the start-up
  returns, with -1 or into the loop, and every round of the loop returns, whatever the module, the
  bus and the infrared sensor answer.
\<close>

theorem glasses_never_hang:
  assumes "running_clock B" and "drains B" and "\<forall>n. \<exists>m \<ge> n. adc_ready_at B m" and "catches_up B"
  shows "(\<exists>r. glasses_startup B g = Some r \<and> (\<forall>e. r = Inl e \<longrightarrow> e = -1))
    \<and> (\<forall>n p. \<exists>q. glasses_loop B gyro_config n p = Some q)"
proof -
  have "lively B" using assms by (simp add: lively_def)
  from startup_ends [OF this, of g] loop_goes_on [OF this] show ?thesis by auto
qed

text \<open>
  A module that babbles at every read of the first thousand and with every fourth read from
  then on, and a clock of one second per read.
\<close>

definition babbling_board :: board where
  "babbling_board = ref_board\<lparr>time_us_at := \<lambda>n. of_nat (1000000 * n),
     uart_rx_at := \<lambda>n. if n < 1000 \<or> n mod 4 = 0 then ''x'' else []\<rparr>"

lemma babbling_arrivals:
  "arrivals babbling_board n k + min n 1000 + (n + 3) div 4 \<le> 1000 + (n + k + 3) div 4"
proof (induction k arbitrary: n)
  case (Suc k)
  have "length (uart_rx_at babbling_board n) + min n 1000 + (n + 3) div 4 \<le> min (Suc n) 1000 + (Suc n + 3) div 4"
  proof -
    have "(n + 4) div 4 = (n + 3) div 4 + (if n mod 4 = 0 then 1 else 0)" by presburger
    moreover have "min (Suc n) 1000 = min n 1000 + (if n < 1000 then 1 else 0)" by simp
    moreover have "length (uart_rx_at babbling_board n) \<le> (if n < 1000 then 1 else 0)
        + (if n mod 4 = 0 then 1 else 0)"
      by (simp add: babbling_board_def)
    moreover have "Suc n + 3 = n + 4" by simp
    ultimately show ?thesis by simp
  qed
  with Suc.IH [of "Suc n"] show ?case by (simp add: arrivals_Suc)
qed simp

lemma babbling_catches_up: "catches_up babbling_board"
  unfolding catches_up_def
proof (intro allI)
  fix n b :: nat
  define k where "k = 4 * b + n + 5000"
  define q where "q = (n + k + 3) div 4"
  have "4 * q \<le> n + k + 3" by (simp add: q_def)
  moreover have "arrivals babbling_board n k \<le> 1000 + q"
    using babbling_arrivals [of n k] by (simp add: q_def)
  ultimately have "2 * (b + arrivals babbling_board n k) < k" by (simp add: k_def)
  then show "\<exists>k. 2 * (b + arrivals babbling_board n k) < k" ..
qed

theorem glasses_never_hang_witness:
  "\<exists>q. glasses_loop babbling_board gyro_config 1000 (False, reset_gyro) = Some q"
proof -
  have "true_time babbling_board (\<lambda>n. 1000000 * n)"
    unfolding true_time_def
  proof (intro conjI allI)
    show "\<exists>n. x < 1000000 * n" for x :: nat by (rule exI [of _ "Suc x"]) simp
  qed (simp_all add: babbling_board_def)
  then have "running_clock babbling_board" by (auto simp: running_clock_def)
  moreover have "drains babbling_board" by (auto simp: drains_def babbling_board_def)
  moreover note babbling_catches_up
  ultimately show ?thesis
    using glasses_never_hang [of babbling_board reset_gyro] by (auto simp: babbling_board_def)
qed

end
