(* ===== verification/Pio_Instructions.thy ===== *)
theory Pio_Instructions
  imports Prelude
begin

text \<open>
  The instruction encoder of the programmable I/O blocks, hardware/pio\_instructions.h: sixteen-bit
  instructions with three bits of opcode, three and five bits of arguments, and five bits that a
  delay and the side set share. The checks of parameters are off by default; here they are the
  hypotheses. The instruction set itself, with its decoding, is the specification.
\<close>

section \<open>Opcodes and operands\<close>

datatype pio_instr_bits =
    pio_instr_bits_jmp | pio_instr_bits_wait | pio_instr_bits_in | pio_instr_bits_out
  | pio_instr_bits_push | pio_instr_bits_pull | pio_instr_bits_mov | pio_instr_bits_irq
  | pio_instr_bits_set

fun instr_bits :: "pio_instr_bits \<Rightarrow> u32" where
  "instr_bits pio_instr_bits_jmp = 0x0000"
| "instr_bits pio_instr_bits_wait = 0x2000"
| "instr_bits pio_instr_bits_in = 0x4000"
| "instr_bits pio_instr_bits_out = 0x6000"
| "instr_bits pio_instr_bits_push = 0x8000"
| "instr_bits pio_instr_bits_pull = 0x8080"
| "instr_bits pio_instr_bits_mov = 0xa000"
| "instr_bits pio_instr_bits_irq = 0xc000"
| "instr_bits pio_instr_bits_set = 0xe000"

text \<open>
  Five flags mark the operands an instruction cannot have; a build with \<open>NDEBUG\<close> leaves them out.
\<close>

definition PIO_INVALID_IN_SRC :: "bool \<Rightarrow> u32" where
  "PIO_INVALID_IN_SRC ndebug = (if \<not> ndebug then 0x08 else 0)"
definition PIO_INVALID_OUT_DEST :: "bool \<Rightarrow> u32" where
  "PIO_INVALID_OUT_DEST ndebug = (if \<not> ndebug then 0x10 else 0)"
definition PIO_INVALID_SET_DEST :: "bool \<Rightarrow> u32" where
  "PIO_INVALID_SET_DEST ndebug = (if \<not> ndebug then 0x20 else 0)"
definition PIO_INVALID_MOV_SRC :: "bool \<Rightarrow> u32" where
  "PIO_INVALID_MOV_SRC ndebug = (if \<not> ndebug then 0x40 else 0)"
definition PIO_INVALID_MOV_DEST :: "bool \<Rightarrow> u32" where
  "PIO_INVALID_MOV_DEST ndebug = (if \<not> ndebug then 0x80 else 0)"

lemmas pio_invalid_defs = PIO_INVALID_IN_SRC_def PIO_INVALID_OUT_DEST_def PIO_INVALID_SET_DEST_def
  PIO_INVALID_MOV_SRC_def PIO_INVALID_MOV_DEST_def

datatype pio_src_dest =
    pio_pins | pio_x | pio_y | pio_null | pio_pindirs | pio_exec_mov | pio_status | pio_pc
  | pio_isr | pio_osr | pio_exec_out

fun src_dest :: "bool \<Rightarrow> pio_src_dest \<Rightarrow> u32" where
  "src_dest nd pio_pins = 0"
| "src_dest nd pio_x = 1"
| "src_dest nd pio_y = 2"
| "src_dest nd pio_null = 3 OR PIO_INVALID_SET_DEST nd OR PIO_INVALID_MOV_DEST nd"
| "src_dest nd pio_pindirs =
     4 OR PIO_INVALID_IN_SRC nd OR PIO_INVALID_MOV_SRC nd OR PIO_INVALID_MOV_DEST nd"
| "src_dest nd pio_exec_mov =
     4 OR PIO_INVALID_IN_SRC nd OR PIO_INVALID_OUT_DEST nd OR PIO_INVALID_SET_DEST nd OR PIO_INVALID_MOV_SRC nd"
| "src_dest nd pio_status =
     5 OR PIO_INVALID_IN_SRC nd OR PIO_INVALID_OUT_DEST nd OR PIO_INVALID_SET_DEST nd OR PIO_INVALID_MOV_DEST nd"
| "src_dest nd pio_pc = 5 OR PIO_INVALID_IN_SRC nd OR PIO_INVALID_SET_DEST nd OR PIO_INVALID_MOV_SRC nd"
| "src_dest nd pio_isr = 6 OR PIO_INVALID_SET_DEST nd"
| "src_dest nd pio_osr = 7 OR PIO_INVALID_OUT_DEST nd OR PIO_INVALID_SET_DEST nd"
| "src_dest nd pio_exec_out =
     7 OR PIO_INVALID_IN_SRC nd OR PIO_INVALID_SET_DEST nd OR PIO_INVALID_MOV_SRC nd OR PIO_INVALID_MOV_DEST nd"

section \<open>Encoding\<close>

definition pio_major_instr_bits :: "u32 \<Rightarrow> u32" where
  "pio_major_instr_bits instr = instr AND 0xe000"

definition pio_encode_instr_and_args :: "pio_instr_bits \<Rightarrow> u32 \<Rightarrow> u32 \<Rightarrow> u32" where
  "pio_encode_instr_and_args bits arg1 arg2 =
     instr_bits bits OR push_bit 5 arg1 OR (arg2 AND 0x1f)"

definition pio_encode_instr_and_src_dest ::
  "bool \<Rightarrow> pio_instr_bits \<Rightarrow> pio_src_dest \<Rightarrow> u32 \<Rightarrow> u32" where
  "pio_encode_instr_and_src_dest nd bits dest v =
     pio_encode_instr_and_args bits (src_dest nd dest AND 7) v"

definition pio_encode_delay :: "u32 \<Rightarrow> u32" where
  "pio_encode_delay cycles = push_bit 8 cycles"

definition pio_encode_sideset :: "u32 \<Rightarrow> u32 \<Rightarrow> u32" where
  "pio_encode_sideset sideset_bit_count v = push_bit (unat (13 - sideset_bit_count)) v"

definition pio_encode_sideset_opt :: "u32 \<Rightarrow> u32 \<Rightarrow> u32" where
  "pio_encode_sideset_opt sideset_bit_count v =
     0x1000 OR push_bit (unat (12 - sideset_bit_count)) v"

definition pio_encode_jmp :: "u32 \<Rightarrow> u32" where
  "pio_encode_jmp addr = pio_encode_instr_and_args pio_instr_bits_jmp 0 addr"

definition pio_encode_jmp_not_x :: "u32 \<Rightarrow> u32" where
  "pio_encode_jmp_not_x addr = pio_encode_instr_and_args pio_instr_bits_jmp 1 addr"

definition pio_encode_jmp_x_dec :: "u32 \<Rightarrow> u32" where
  "pio_encode_jmp_x_dec addr = pio_encode_instr_and_args pio_instr_bits_jmp 2 addr"

definition pio_encode_jmp_not_y :: "u32 \<Rightarrow> u32" where
  "pio_encode_jmp_not_y addr = pio_encode_instr_and_args pio_instr_bits_jmp 3 addr"

definition pio_encode_jmp_y_dec :: "u32 \<Rightarrow> u32" where
  "pio_encode_jmp_y_dec addr = pio_encode_instr_and_args pio_instr_bits_jmp 4 addr"

definition pio_encode_jmp_x_ne_y :: "u32 \<Rightarrow> u32" where
  "pio_encode_jmp_x_ne_y addr = pio_encode_instr_and_args pio_instr_bits_jmp 5 addr"

definition pio_encode_jmp_pin :: "u32 \<Rightarrow> u32" where
  "pio_encode_jmp_pin addr = pio_encode_instr_and_args pio_instr_bits_jmp 6 addr"

definition pio_encode_jmp_not_osre :: "u32 \<Rightarrow> u32" where
  "pio_encode_jmp_not_osre addr = pio_encode_instr_and_args pio_instr_bits_jmp 7 addr"

definition pio_encode_irq :: "bool \<Rightarrow> u32 \<Rightarrow> u32" where
  "pio_encode_irq relative irq = (if relative then 0x10 else 0x0) OR irq"

definition pio_encode_wait_gpio :: "bool \<Rightarrow> u32 \<Rightarrow> u32" where
  "pio_encode_wait_gpio polarity gpio =
     pio_encode_instr_and_args pio_instr_bits_wait (0 OR (if polarity then 4 else 0)) gpio"

definition pio_encode_wait_pin :: "bool \<Rightarrow> u32 \<Rightarrow> u32" where
  "pio_encode_wait_pin polarity pin =
     pio_encode_instr_and_args pio_instr_bits_wait (1 OR (if polarity then 4 else 0)) pin"

definition pio_encode_wait_irq :: "bool \<Rightarrow> bool \<Rightarrow> u32 \<Rightarrow> u32" where
  "pio_encode_wait_irq polarity relative irq =
     pio_encode_instr_and_args pio_instr_bits_wait (2 OR (if polarity then 4 else 0))
       (pio_encode_irq relative irq)"

definition pio_encode_in :: "bool \<Rightarrow> pio_src_dest \<Rightarrow> u32 \<Rightarrow> u32" where
  "pio_encode_in nd src count = pio_encode_instr_and_src_dest nd pio_instr_bits_in src count"

definition pio_encode_out :: "bool \<Rightarrow> pio_src_dest \<Rightarrow> u32 \<Rightarrow> u32" where
  "pio_encode_out nd dest count = pio_encode_instr_and_src_dest nd pio_instr_bits_out dest count"

definition pio_encode_push :: "bool \<Rightarrow> bool \<Rightarrow> u32" where
  "pio_encode_push if_full block = pio_encode_instr_and_args pio_instr_bits_push
     ((if if_full then 2 else 0) OR (if block then 1 else 0)) 0"

definition pio_encode_pull :: "bool \<Rightarrow> bool \<Rightarrow> u32" where
  "pio_encode_pull if_empty block = pio_encode_instr_and_args pio_instr_bits_pull
     ((if if_empty then 2 else 0) OR (if block then 1 else 0)) 0"

definition pio_encode_mov :: "bool \<Rightarrow> pio_src_dest \<Rightarrow> pio_src_dest \<Rightarrow> u32" where
  "pio_encode_mov nd dest src =
     pio_encode_instr_and_src_dest nd pio_instr_bits_mov dest (src_dest nd src AND 7)"

definition pio_encode_mov_not :: "bool \<Rightarrow> pio_src_dest \<Rightarrow> pio_src_dest \<Rightarrow> u32" where
  "pio_encode_mov_not nd dest src =
     pio_encode_instr_and_src_dest nd pio_instr_bits_mov dest (push_bit 3 1 OR (src_dest nd src AND 7))"

definition pio_encode_mov_reverse :: "bool \<Rightarrow> pio_src_dest \<Rightarrow> pio_src_dest \<Rightarrow> u32" where
  "pio_encode_mov_reverse nd dest src =
     pio_encode_instr_and_src_dest nd pio_instr_bits_mov dest (push_bit 3 2 OR (src_dest nd src AND 7))"

definition pio_encode_irq_set :: "bool \<Rightarrow> u32 \<Rightarrow> u32" where
  "pio_encode_irq_set relative irq =
     pio_encode_instr_and_args pio_instr_bits_irq 0 (pio_encode_irq relative irq)"

definition pio_encode_irq_wait :: "bool \<Rightarrow> u32 \<Rightarrow> u32" where
  "pio_encode_irq_wait relative irq =
     pio_encode_instr_and_args pio_instr_bits_irq 1 (pio_encode_irq relative irq)"

definition pio_encode_irq_clear :: "bool \<Rightarrow> u32 \<Rightarrow> u32" where
  "pio_encode_irq_clear relative irq =
     pio_encode_instr_and_args pio_instr_bits_irq 2 (pio_encode_irq relative irq)"

definition pio_encode_set :: "bool \<Rightarrow> pio_src_dest \<Rightarrow> u32 \<Rightarrow> u32" where
  "pio_encode_set nd dest v = pio_encode_instr_and_src_dest nd pio_instr_bits_set dest v"

definition pio_encode_nop :: "bool \<Rightarrow> u32" where
  "pio_encode_nop nd = pio_encode_mov nd pio_y pio_y"

section \<open>The instruction set\<close>

datatype jump_condition = Always | Not_x | X_dec | Not_y | Y_dec | X_ne_y | Pin_high | Not_osre
datatype mov_operation = Plain | Invert | Reverse
datatype irq_operation = Irq_set | Irq_wait | Irq_clear

datatype instruction =
    Jmp jump_condition u32
  | Wait_gpio bool u32
  | Wait_pin bool u32
  | Wait_irq bool bool u32
  | In pio_src_dest u32
  | Out pio_src_dest u32
  | Push bool bool
  | Pull bool bool
  | Mov pio_src_dest mov_operation pio_src_dest
  | Irq irq_operation bool u32
  | Set pio_src_dest u32

text \<open>The encoding of an instruction: the function of the header that is for it.\<close>

fun encode_jmp :: "jump_condition \<Rightarrow> u32 \<Rightarrow> u32" where
  "encode_jmp Always = pio_encode_jmp"
| "encode_jmp Not_x = pio_encode_jmp_not_x"
| "encode_jmp X_dec = pio_encode_jmp_x_dec"
| "encode_jmp Not_y = pio_encode_jmp_not_y"
| "encode_jmp Y_dec = pio_encode_jmp_y_dec"
| "encode_jmp X_ne_y = pio_encode_jmp_x_ne_y"
| "encode_jmp Pin_high = pio_encode_jmp_pin"
| "encode_jmp Not_osre = pio_encode_jmp_not_osre"

fun encode :: "bool \<Rightarrow> instruction \<Rightarrow> u32" where
  "encode nd (Jmp c addr) = encode_jmp c addr"
| "encode nd (Wait_gpio p gpio) = pio_encode_wait_gpio p gpio"
| "encode nd (Wait_pin p pin) = pio_encode_wait_pin p pin"
| "encode nd (Wait_irq p rel irq) = pio_encode_wait_irq p rel irq"
| "encode nd (In src count) = pio_encode_in nd src count"
| "encode nd (Out dest count) = pio_encode_out nd dest count"
| "encode nd (Push if_full block) = pio_encode_push if_full block"
| "encode nd (Pull if_empty block) = pio_encode_pull if_empty block"
| "encode nd (Mov dest Plain src) = pio_encode_mov nd dest src"
| "encode nd (Mov dest Invert src) = pio_encode_mov_not nd dest src"
| "encode nd (Mov dest Reverse src) = pio_encode_mov_reverse nd dest src"
| "encode nd (Irq Irq_set rel irq) = pio_encode_irq_set rel irq"
| "encode nd (Irq Irq_wait rel irq) = pio_encode_irq_wait rel irq"
| "encode nd (Irq Irq_clear rel irq) = pio_encode_irq_clear rel irq"
| "encode nd (Set dest v) = pio_encode_set nd dest v"

text \<open>The parameters the header's assertions allow.\<close>

definition operand_ok :: "(bool \<Rightarrow> u32) \<Rightarrow> pio_src_dest \<Rightarrow> bool" where
  "operand_ok invalid p \<longleftrightarrow> src_dest False p AND invalid False = 0"

fun valid_instruction :: "instruction \<Rightarrow> bool" where
  "valid_instruction (Jmp c addr) \<longleftrightarrow> addr \<le> 31"
| "valid_instruction (Wait_gpio p gpio) \<longleftrightarrow> gpio \<le> 31"
| "valid_instruction (Wait_pin p pin) \<longleftrightarrow> pin \<le> 31"
| "valid_instruction (Wait_irq p rel irq) \<longleftrightarrow> irq \<le> 7"
| "valid_instruction (In src count) \<longleftrightarrow> operand_ok PIO_INVALID_IN_SRC src \<and> count \<noteq> 0 \<and> count \<le> 32"
| "valid_instruction (Out dest count) \<longleftrightarrow> operand_ok PIO_INVALID_OUT_DEST dest \<and> count \<noteq> 0 \<and> count \<le> 32"
| "valid_instruction (Push if_full block) \<longleftrightarrow> True"
| "valid_instruction (Pull if_empty block) \<longleftrightarrow> True"
| "valid_instruction (Mov dest operation src) \<longleftrightarrow>
     operand_ok PIO_INVALID_MOV_DEST dest \<and> operand_ok PIO_INVALID_MOV_SRC src"
| "valid_instruction (Irq operation rel irq) \<longleftrightarrow> irq \<le> 7"
| "valid_instruction (Set dest v) \<longleftrightarrow> operand_ok PIO_INVALID_SET_DEST dest \<and> v \<le> 31"

section \<open>Decoding\<close>

text \<open>
  What the state machine makes of an instruction word: the opcode, its two arguments, the field
  shared by delay and side set.
\<close>

definition opcode :: "u32 \<Rightarrow> nat" where "opcode w = unat (drop_bit 13 w AND 7)"
definition arg1_of :: "u32 \<Rightarrow> u32" where "arg1_of w = drop_bit 5 w AND 7"
definition arg2_of :: "u32 \<Rightarrow> u32" where "arg2_of w = w AND 0x1f"
definition delay_of :: "u32 \<Rightarrow> u32" where "delay_of w = drop_bit 8 w AND 0x1f"

definition in_sources :: "pio_src_dest option list" where
  "in_sources = [Some pio_pins, Some pio_x, Some pio_y, Some pio_null, None, None, Some pio_isr, Some pio_osr]"
definition out_destinations :: "pio_src_dest option list" where
  "out_destinations = [Some pio_pins, Some pio_x, Some pio_y, Some pio_null, Some pio_pindirs, Some pio_pc,
     Some pio_isr, Some pio_exec_out]"
definition mov_destinations :: "pio_src_dest option list" where
  "mov_destinations = [Some pio_pins, Some pio_x, Some pio_y, None, Some pio_exec_mov, Some pio_pc,
     Some pio_isr, Some pio_osr]"
definition mov_sources :: "pio_src_dest option list" where
  "mov_sources = [Some pio_pins, Some pio_x, Some pio_y, Some pio_null, None, Some pio_status,
     Some pio_isr, Some pio_osr]"
definition set_destinations :: "pio_src_dest option list" where
  "set_destinations = [Some pio_pins, Some pio_x, Some pio_y, None, Some pio_pindirs, None, None, None]"

definition count_of :: "u32 \<Rightarrow> u32" where
  "count_of w = (if arg2_of w = 0 then 32 else arg2_of w)"

definition decode_wait :: "u32 \<Rightarrow> instruction option" where
  "decode_wait w =
     (let p = bit (arg1_of w) 2; s = arg1_of w AND 3; a = arg2_of w
      in if s = 0 then Some (Wait_gpio p a) else if s = 1 then Some (Wait_pin p a)
         else if s = 2 \<and> \<not> bit a 3 then Some (Wait_irq p (bit a 4) (a AND 7)) else None)"

definition decode_mov :: "u32 \<Rightarrow> instruction option" where
  "decode_mov w =
     (let operation = drop_bit 3 (arg2_of w)
      in case (mov_destinations ! unat (arg1_of w), mov_sources ! unat (arg2_of w AND 7)) of
           (Some d, Some s) \<Rightarrow> if operation = 0 then Some (Mov d Plain s)
             else if operation = 1 then Some (Mov d Invert s)
             else if operation = 2 then Some (Mov d Reverse s) else None
         | _ \<Rightarrow> None)"

definition decode_irq :: "u32 \<Rightarrow> instruction option" where
  "decode_irq w =
     (let a = arg2_of w; rel = bit a 4; irq = a AND 7
      in if bit a 3 then None
         else if arg1_of w = 0 then Some (Irq Irq_set rel irq)
         else if arg1_of w = 1 then Some (Irq Irq_wait rel irq)
         else if arg1_of w = 2 then Some (Irq Irq_clear rel irq) else None)"

definition decode_push_pull :: "u32 \<Rightarrow> instruction option" where
  "decode_push_pull w =
     (if arg2_of w \<noteq> 0 then None
      else if bit (arg1_of w) 2 then Some (Pull (bit (arg1_of w) 1) (bit (arg1_of w) 0))
      else Some (Push (bit (arg1_of w) 1) (bit (arg1_of w) 0)))"

definition decode :: "u32 \<Rightarrow> instruction option" where
  "decode w = [
     Some (Jmp ([Always, Not_x, X_dec, Not_y, Y_dec, X_ne_y, Pin_high, Not_osre] ! unat (arg1_of w)) (arg2_of w)),
     decode_wait w,
     map_option (\<lambda>s. In s (count_of w)) (in_sources ! unat (arg1_of w)),
     map_option (\<lambda>d. Out d (count_of w)) (out_destinations ! unat (arg1_of w)),
     decode_push_pull w,
     decode_mov w,
     decode_irq w,
     map_option (\<lambda>d. Set d (arg2_of w)) (set_destinations ! unat (arg1_of w))] ! opcode w"


section \<open>The fields of an encoded instruction\<close>

lemma less_bit: "unat w < 2 ^ n \<Longrightarrow> bit w k \<Longrightarrow> k < n"
proof (rule ccontr)
  assume "unat w < 2 ^ n" "bit w k" "\<not> k < n"
  then have "bit (drop_bit n (unat w)) (k - n)" by (simp add: bit_drop_bit_eq bit_unsigned_iff)
  with \<open>unat w < 2 ^ n\<close> show False by (simp add: drop_bit_eq_div)
qed

lemma bit_7: "bit (7 :: int) k \<longleftrightarrow> k < 3" and bit_31: "bit (31 :: int) k \<longleftrightarrow> k < 5"
  using bit_mask_iff [where 'a = int, of 3 k] bit_mask_iff [where 'a = int, of 5 k]
  by (auto simp: mask_eq_exp_minus_1)

lemma bit_128: "bit (128 :: int) k \<longleftrightarrow> k = 7" and bit_4: "bit (4 :: int) k \<longleftrightarrow> k = 2"
  using bit_push_bit_iff [of 7 "1 :: int" k] bit_push_bit_iff [of 2 "1 :: int" k] by (auto simp: bit_1_iff)

lemma bit_instr_bits:
  "bit (instr_bits b) k \<longleftrightarrow> 13 \<le> k \<and> bit (drop_bit 13 (instr_bits b)) (k - 13) \<or> b = pio_instr_bits_pull \<and> k = 7"
proof (cases "13 \<le> k")
  case True
  then show ?thesis by (auto simp: bit_drop_bit_eq)
next
  case False
  have "instr_bits b AND mask 13 = (if b = pio_instr_bits_pull then 128 else 0)"
    by (cases b) (simp_all add: mask_eq_exp_minus_1)
  then have "bit (instr_bits b AND mask 13) k = bit (if b = pio_instr_bits_pull then 128 else 0 :: u32) k" by simp
  with False show ?thesis by (auto simp: bit_and_iff bit_mask_iff bit_128)
qed

text \<open>One instruction word, with everything that is combined in it.\<close>

definition word_of_fields :: "pio_instr_bits \<Rightarrow> u32 \<Rightarrow> u32 \<Rightarrow> u32 \<Rightarrow> u32" where
  "word_of_fields b a v x = pio_encode_instr_and_args b a v OR push_bit 8 x"

lemma bit_word_of_fields:
  assumes "unat a < 2 ^ 3" and "unat x < 2 ^ 5" and "k < 32"
  shows "bit (word_of_fields b a v x) k \<longleftrightarrow>
    (if k < 5 then bit v k
     else if k < 8 then bit a (k - 5) \<or> b = pio_instr_bits_pull \<and> k = 7
     else if k < 13 then bit x (k - 8)
     else bit (drop_bit 13 (instr_bits b)) (k - 13))"
  using less_bit [OF assms(1), of "k - 5"] less_bit [OF assms(2), of "k - 8"] assms(3)
  by (auto simp: word_of_fields_def pio_encode_instr_and_args_def bit_or_iff bit_and_iff
      bit_push_bit_iff bit_instr_bits bit_31)

lemma fields_of_word:
  assumes "unat a < 2 ^ 3" and "unat x < 2 ^ 5"
  shows "opcode (word_of_fields b a v x) = unat (drop_bit 13 (instr_bits b))"
    and "arg1_of (word_of_fields b a v x) = (if b = pio_instr_bits_pull then 4 OR a else a)"
    and "arg2_of (word_of_fields b a v x) = v AND 31"
    and "delay_of (word_of_fields b a v x) = x"
proof -
  note bw = bit_word_of_fields [OF assms]
  have "drop_bit 13 (word_of_fields b a v x) AND 7 = drop_bit 13 (instr_bits b) AND 7"
    by (rule word_bits_eqI) (auto simp: bit_and_iff bit_drop_bit_eq bw bit_7)
  then show "opcode (word_of_fields b a v x) = unat (drop_bit 13 (instr_bits b))"
    unfolding opcode_def by (cases b) simp_all
  show "arg1_of (word_of_fields b a v x) = (if b = pio_instr_bits_pull then 4 OR a else a)"
  proof (rule word_bits_eqI)
    fix k assume "k < LENGTH(32)"
    show "bit (arg1_of (word_of_fields b a v x)) k = bit (if b = pio_instr_bits_pull then 4 OR a else a) k"
      using less_bit [OF assms(1), of k]
      by (cases "k < 3") (auto simp: arg1_of_def bit_and_iff bit_or_iff bit_drop_bit_eq bw bit_7 bit_4)
  qed
  show "arg2_of (word_of_fields b a v x) = v AND 31"
    by (rule word_bits_eqI) (auto simp: arg2_of_def bit_and_iff bw bit_31)
  show "delay_of (word_of_fields b a v x) = x"
  proof (rule word_bits_eqI)
    fix k assume "k < LENGTH(32)"
    show "bit (delay_of (word_of_fields b a v x)) k = bit x k"
      using less_bit [OF assms(2), of k]
      by (cases "k < 5") (auto simp: delay_of_def bit_and_iff bit_drop_bit_eq bw bit_31)
  qed
qed


section \<open>Decoding an encoded instruction\<close>

lemma and_31: "v \<le> 31 \<Longrightarrow> v AND 31 = (v :: u32)"
proof -
  assume "v \<le> 31"
  then have "unat v < 2 ^ 5" by (simp add: word_le_nat_alt)
  then show "v AND 31 = v" using less_bit [of v 5]
    by (intro word_bits_eqI) (auto simp: bit_and_iff bit_31)
qed

lemma src_dest_7: "src_dest nd p AND 7 = src_dest True p"
  by (cases p; cases nd) (simp_all add: pio_invalid_defs)

lemma decode_fields:
  assumes "unat a < 2 ^ 3" and "unat x < 2 ^ 5"
  shows "decode (word_of_fields pio_instr_bits_jmp a v x) =
      Some (Jmp ([Always, Not_x, X_dec, Not_y, Y_dec, X_ne_y, Pin_high, Not_osre] ! unat a) (v AND 31))"
    and "decode (word_of_fields pio_instr_bits_in a v x) =
      map_option (\<lambda>s. In s (if v AND 31 = 0 then 32 else v AND 31)) (in_sources ! unat a)"
    and "decode (word_of_fields pio_instr_bits_out a v x) =
      map_option (\<lambda>s. Out s (if v AND 31 = 0 then 32 else v AND 31)) (out_destinations ! unat a)"
    and "decode (word_of_fields pio_instr_bits_set a v x) =
      map_option (\<lambda>s. Set s (v AND 31)) (set_destinations ! unat a)"
  by (simp_all add: decode_def fields_of_word [OF assms] count_of_def)


lemma irq_fields:
  assumes "irq \<le> 7"
  shows "bit (pio_encode_irq rel irq AND 31) 4 = rel" and "\<not> bit (pio_encode_irq rel irq AND 31) 3"
    and "(pio_encode_irq rel irq AND 31) AND 7 = irq" and "pio_encode_irq rel irq AND 7 = irq"
proof -
  have "unat irq < 2 ^ 3" using assms by (simp add: word_le_nat_alt)
  note irq = less_bit [OF this]
  have bits: "bit (pio_encode_irq rel irq) k \<longleftrightarrow> rel \<and> k = 4 \<or> bit irq k" for k
    using bit_push_bit_iff [of 4 "1 :: int" k]
    by (auto simp: pio_encode_irq_def bit_or_iff bit_1_iff)
  show "bit (pio_encode_irq rel irq AND 31) 4 = rel" "\<not> bit (pio_encode_irq rel irq AND 31) 3"
    using irq [of 4] irq [of 3] by (auto simp: bit_and_iff bits bit_31)
  show "(pio_encode_irq rel irq AND 31) AND 7 = irq" "pio_encode_irq rel irq AND 7 = irq"
    by (rule word_bits_eqI; use irq in \<open>fastforce simp: bit_and_iff bits bit_31 bit_7\<close>)+
qed

lemma count_and_31:
  assumes "count \<noteq> 0" and "count \<le> (32 :: u32)"
  shows "(if count AND 31 = 0 then 32 else count AND 31) = count"
proof (cases "count = 32")
  case False
  then have "unat count \<noteq> 32" using unsigned_word_eqI [of count 32] by auto
  with assms(2) have "count \<le> 31" by (simp add: word_le_nat_alt)
  with assms(1) and_31 [of count] show ?thesis by simp
qed simp

lemma decode_encode:
  assumes "valid_instruction i" and "unat x < 2 ^ 5"
  shows "decode (encode nd i OR push_bit 8 x) = Some i \<and> delay_of (encode nd i OR push_bit 8 x) = x"
proof (cases i)
  case (Jmp c addr)
  then have "addr AND 31 = addr" using assms(1) and_31 by simp
  with assms(2) Jmp show ?thesis
    by (cases c) (simp_all add: pio_encode_jmp_def pio_encode_jmp_not_x_def pio_encode_jmp_x_dec_def
        pio_encode_jmp_not_y_def pio_encode_jmp_y_dec_def pio_encode_jmp_x_ne_y_def pio_encode_jmp_pin_def
        pio_encode_jmp_not_osre_def word_of_fields_def [symmetric] decode_fields fields_of_word)
next
  case (In src count)
  then have "(if count AND 31 = 0 then 32 else count AND 31) = count" using assms(1) count_and_31 by simp
  with assms In show ?thesis
    by (cases src) (simp_all add: pio_encode_in_def pio_encode_instr_and_src_dest_def src_dest_7 
        operand_ok_def pio_invalid_defs
        word_of_fields_def [symmetric] decode_fields fields_of_word in_sources_def)
next
  case (Out dest count)
  then have "(if count AND 31 = 0 then 32 else count AND 31) = count" using assms(1) count_and_31 by simp
  with assms Out show ?thesis
    by (cases dest) (simp_all add: pio_encode_out_def pio_encode_instr_and_src_dest_def src_dest_7 
        operand_ok_def pio_invalid_defs
        word_of_fields_def [symmetric] decode_fields fields_of_word out_destinations_def)
next
  case (Set dest v)
  then have "v AND 31 = v" using assms(1) and_31 by simp
  with assms Set show ?thesis
    by (cases dest) (simp_all add: pio_encode_set_def pio_encode_instr_and_src_dest_def src_dest_7 
        operand_ok_def pio_invalid_defs
        word_of_fields_def [symmetric] decode_fields fields_of_word set_destinations_def)
next
  case (Push if_full block)
  with assms(2) show ?thesis
    by (cases if_full; cases block) (simp_all add: pio_encode_push_def
        word_of_fields_def [symmetric] decode_def decode_push_pull_def fields_of_word)
next
  case (Pull if_empty block)
  with assms(2) show ?thesis
    by (cases if_empty; cases block) (simp_all add: pio_encode_pull_def
        word_of_fields_def [symmetric] decode_def decode_push_pull_def fields_of_word)
next
  case (Mov dest operation src)
  with assms show ?thesis
    by (cases dest; cases src; cases operation) (simp_all add: pio_encode_mov_def pio_encode_mov_not_def
        pio_encode_mov_reverse_def pio_encode_instr_and_src_dest_def src_dest_7 operand_ok_def
        pio_invalid_defs
        word_of_fields_def [symmetric] decode_def decode_mov_def fields_of_word mov_sources_def
        mov_destinations_def)
next
  case (Irq operation rel irq)
  with assms irq_fields [of irq rel] show ?thesis
    by (cases operation) (simp_all add: pio_encode_irq_set_def pio_encode_irq_wait_def
        pio_encode_irq_clear_def word_of_fields_def [symmetric] decode_def decode_irq_def fields_of_word
        Let_def)
next
  case (Wait_gpio p gpio)
  with assms and_31 [of gpio] show ?thesis
    by (cases p) (simp_all add: pio_encode_wait_gpio_def word_of_fields_def [symmetric] decode_def
        decode_wait_def fields_of_word Let_def)
next
  case (Wait_pin p pin)
  with assms and_31 [of pin] show ?thesis
    by (cases p) (simp_all add: pio_encode_wait_pin_def word_of_fields_def [symmetric] decode_def
        decode_wait_def fields_of_word Let_def)
next
  case (Wait_irq p rel irq)
  with assms irq_fields [of irq rel] show ?thesis
    by (cases p) (simp_all add: pio_encode_wait_irq_def word_of_fields_def [symmetric] decode_def
        decode_wait_def fields_of_word Let_def)
qed


section \<open>Properties\<close>

text \<open>The side set takes the upper bits of the shared field, the delay the rest.\<close>

lemma bits_less: "(\<And>k. bit x k \<Longrightarrow> k < n) \<Longrightarrow> unat (x :: u32) < 2 ^ n"
proof -
  assume "\<And>k. bit x k \<Longrightarrow> k < n"
  then have "take_bit n x = x" by (intro word_bits_eqI) (auto simp: bit_take_bit_iff)
  then have "unat x = take_bit n (unat x)" by (metis unsigned_take_bit_eq)
  then show "unat x < 2 ^ n" by (metis take_bit_nat_less_exp)
qed

lemma shared_field:
  assumes "unat s \<le> 5" and "unat v < 2 ^ unat s" and "unat d < 2 ^ (5 - unat s)"
  obtains x where "unat x < 2 ^ 5" and "pio_encode_sideset s v OR pio_encode_delay d = push_bit 8 x"
    and "drop_bit (5 - unat s) x = v" and "take_bit (5 - unat s) x = d"
proof (rule that)
  let ?n = "5 - unat s" and ?x = "push_bit (5 - unat s) v OR d"
  note v = less_bit [OF assms(2)] and d = less_bit [OF assms(3)]
  have "s \<le> 13" using assms(1) by (simp add: word_le_nat_alt)
  then have "unat (13 - s) = 8 + ?n" using assms(1) by (simp add: unat_sub)
  then show "pio_encode_sideset s v OR pio_encode_delay d = push_bit 8 ?x"
    by (simp add: pio_encode_sideset_def pio_encode_delay_def push_bit_or)
  show "unat ?x < 2 ^ 5"
    by (rule bits_less) (use v d assms(1) in \<open>fastforce simp: bit_or_iff bit_push_bit_iff\<close>)
  show "drop_bit ?n ?x = v"
    by (rule word_bits_eqI) (use d v assms(1) in \<open>force simp: bit_drop_bit_eq bit_or_iff bit_push_bit_iff\<close>)
  show "take_bit ?n ?x = d"
    by (rule word_bits_eqI) (use d in \<open>auto simp: bit_take_bit_iff bit_or_iff bit_push_bit_iff\<close>)
qed

text \<open>
  C40: every instruction whose parameters the header allows decodes to itself, with its side set
  and its delay, in builds with and without the operand flags: the encodings of two different
  instructions differ, and side set and delay share five bits without overlapping.
\<close>

theorem pio_encoding_decodes:
  assumes "valid_instruction i" and "unat s \<le> 5" and "unat v < 2 ^ unat s" and "unat d < 2 ^ (5 - unat s)"
  shows "let w = encode nd i OR (pio_encode_sideset s v OR pio_encode_delay d)
    in decode w = Some i \<and> drop_bit (5 - unat s) (delay_of w) = v \<and> take_bit (5 - unat s) (delay_of w) = d"
proof -
  obtain x where "unat x < 2 ^ 5" "pio_encode_sideset s v OR pio_encode_delay d = push_bit 8 x"
    "drop_bit (5 - unat s) x = v" "take_bit (5 - unat s) x = d" using shared_field [OF assms(2-4)] .
  with decode_encode [OF assms(1), of x nd] show ?thesis by (simp add: Let_def)
qed

theorem pio_encoding_decodes_witness:
  "decode (pio_encode_out True pio_pins 32 OR (pio_encode_sideset 2 3 OR pio_encode_delay 5))
    = Some (Out pio_pins 32)"
  using pio_encoding_decodes [of "Out pio_pins 32" 2 3 5 True]
  by (simp add: operand_ok_def Let_def)

end
