(* ===== verification/Regs.thy ===== *)
theory Regs
  imports Mcu
begin

text \<open>
  The register descriptions of the SDK, hardware/regs/*.h: every register of a peripheral with its
  offset, its bits and its reset value, and every field with its place in the register. The
  theory defines the form of a description, what makes one consistent, and how a field is read and
  written. The descriptions themselves are in the theories of the peripherals.
\<close>

section \<open>Descriptions\<close>

text \<open>
  How software may use a field, as the headers abbreviate it: read-write, read-only, write-only,
  write-to-clear, self-clearing, and the three kinds that go to a FIFO.
\<close>

datatype access = RW | RO | WO | WC | SC | RF | WF | RWF

text \<open>\<open>None\<close> is the reset value written \<open>"-"\<close> in the headers: undefined.\<close>

record reg_field =
  f_name :: string
  f_reset :: "u32 option"
  f_bits :: u32
  f_msb :: nat
  f_lsb :: nat
  f_access :: access
  f_values :: "(string \<times> u32) list"

record hw_reg =
  r_offset :: u32
  r_bits :: u32
  r_reset :: "u32 option"
  r_fields :: "reg_field list"

definition field :: "string \<Rightarrow> u32 option \<Rightarrow> u32 \<Rightarrow> nat \<Rightarrow> nat \<Rightarrow> access \<Rightarrow> reg_field" where
  "field n r b m l a = \<lparr>f_name = n, f_reset = r, f_bits = b, f_msb = m, f_lsb = l, f_access = a,
     f_values = []\<rparr>"

definition enum_field ::
  "string \<Rightarrow> u32 option \<Rightarrow> u32 \<Rightarrow> nat \<Rightarrow> nat \<Rightarrow> access \<Rightarrow> (string \<times> u32) list \<Rightarrow> reg_field" where
  "enum_field n r b m l a vs = (field n r b m l a)\<lparr>f_values := vs\<rparr>"

definition hw_register :: "u32 \<Rightarrow> u32 \<Rightarrow> u32 option \<Rightarrow> reg_field list \<Rightarrow> hw_reg" where
  "hw_register off b r fs = \<lparr>r_offset = off, r_bits = b, r_reset = r, r_fields = fs\<rparr>"

section \<open>Consistency\<close>

definition f_width :: "reg_field \<Rightarrow> nat" where
  "f_width f = Suc (f_msb f) - f_lsb f"

definition fits :: "nat \<Rightarrow> u32 \<Rightarrow> bool" where
  "fits w v \<longleftrightarrow> unat v < 2 ^ w"

definition field_ok :: "reg_field \<Rightarrow> bool" where
  "field_ok f \<longleftrightarrow> f_lsb f \<le> f_msb f \<and> f_msb f < 32
     \<and> f_bits f = push_bit (f_lsb f) (mask (f_width f))
     \<and> (case f_reset f of None \<Rightarrow> True | Some v \<Rightarrow> fits (f_width f) v)
     \<and> list_all (\<lambda>v. fits (f_width f) (snd v)) (f_values f)"

text \<open>The fields stand in the register from high to low and do not overlap.\<close>

fun descending :: "reg_field list \<Rightarrow> bool" where
  "descending (f # g # fs) \<longleftrightarrow> f_msb g < f_lsb f \<and> descending (g # fs)"
| "descending _ \<longleftrightarrow> True"

definition reset_bits :: "reg_field \<Rightarrow> u32" where
  "reset_bits f = (case f_reset f of None \<Rightarrow> 0 | Some v \<Rightarrow> push_bit (f_lsb f) v)"

definition reg_ok :: "hw_reg \<Rightarrow> bool" where
  "reg_ok r \<longleftrightarrow> list_all field_ok (r_fields r) \<and> descending (r_fields r)
     \<and> r_bits r = fold (\<lambda>f w. w OR f_bits f) (r_fields r) 0
     \<and> r_offset r AND 3 = 0
     \<and> (case r_reset r of None \<Rightarrow> list_ex (\<lambda>f. f_reset f = None) (r_fields r)
        | Some v \<Rightarrow> v AND r_bits r = fold (\<lambda>f w. w OR reset_bits f) (r_fields r) 0)"

lemmas reg_ok_simps = reg_ok_def field_ok_def reset_bits_def f_width_def fits_def hw_register_def
  field_def enum_field_def mask_eq_exp_minus_1

text \<open>Finding a field by its name.\<close>

definition the_field :: "hw_reg \<Rightarrow> string \<Rightarrow> reg_field" where
  "the_field r n = hd (filter (\<lambda>f. f_name f = n) (r_fields r))"

section \<open>Reading and writing a field\<close>

definition get_field :: "reg_field \<Rightarrow> u32 \<Rightarrow> u32" where
  "get_field f w = drop_bit (f_lsb f) (w AND f_bits f)"

definition set_field :: "reg_field \<Rightarrow> u32 \<Rightarrow> u32 \<Rightarrow> u32" where
  "set_field f v w = hw_write_masked w (push_bit (f_lsb f) v) (f_bits f)"

text \<open>A field by its name.\<close>

definition reg_bits :: "hw_reg \<Rightarrow> string \<Rightarrow> u32" where
  "reg_bits r n = f_bits (the_field r n)"

definition reg_lsb :: "hw_reg \<Rightarrow> string \<Rightarrow> nat" where
  "reg_lsb r n = f_lsb (the_field r n)"

definition put_named :: "hw_reg \<Rightarrow> string \<Rightarrow> u32 \<Rightarrow> u32 \<Rightarrow> u32" where
  "put_named r n v w = set_field (the_field r n) v w"

definition get_named :: "hw_reg \<Rightarrow> string \<Rightarrow> u32 \<Rightarrow> u32" where
  "get_named r n w = get_field (the_field r n) w"

lemma bit_f_bits:
  assumes "field_ok f"
  shows "bit (f_bits f) k \<longleftrightarrow> f_lsb f \<le> k \<and> k \<le> f_msb f"
  using assms by (auto simp: field_ok_def f_width_def bit_push_bit_iff bit_mask_iff)

lemma fits_bit:
  assumes "fits w v" and "bit v k"
  shows "k < w"
proof (rule ccontr)
  assume "\<not> k < w"
  then have "bit (unat v) k = bit (drop_bit w (unat v)) (k - w)" by (simp add: bit_drop_bit_eq)
  moreover have "drop_bit w (unat v) = 0" using assms(1) by (simp add: fits_def drop_bit_eq_div)
  moreover have "bit (unat v) k" using assms(2) by (simp add: bit_unsigned_iff)
  ultimately show False by simp
qed

lemma descending_disjoint:
  assumes "descending fs" and "f \<in> set fs" and "g \<in> set fs" and "f \<noteq> g"
    and "list_all field_ok fs"
  shows "f_msb g < f_lsb f \<or> f_msb f < f_lsb g"
proof -
  have low: "f_msb g < f_lsb f" if "descending (f # fs)" "g \<in> set fs" "list_all field_ok fs" for f g fs
    using that
  proof (induction fs arbitrary: f)
    case (Cons h fs)
    show ?case
    proof (cases "g = h")
      case False
      then have "f_msb g < f_lsb h" using Cons by simp
      also have "f_lsb h \<le> f_msb h" using Cons.prems(3) by (simp add: field_ok_def)
      also have "f_msb h < f_lsb f" using Cons.prems(1) by simp
      finally show ?thesis .
    qed (use Cons.prems in simp)
  qed simp
  show ?thesis using assms
  proof (induction fs)
    case (Cons h fs)
    from Cons.prems have "descending fs" by (cases fs) auto
    with Cons low [of h fs] show ?case by auto
  qed simp
qed

text \<open>
  What a consistent description promises of its fields: a value written to a field is read back,
  and the other fields keep theirs.
\<close>

locale described_register =
  fixes r :: hw_reg
  assumes described: "reg_ok r"
begin

lemma fields_ok: "f \<in> set (r_fields r) \<Longrightarrow> field_ok f"
  using described by (auto simp: reg_ok_def list_all_iff)

lemma write_read:
  assumes "f \<in> set (r_fields r)" and "fits (f_width f) v"
  shows "get_field f (set_field f v w) = v"
proof (rule word_bits_eqI)
  fix k assume "k < LENGTH(32)"
  note f = fields_ok [OF assms(1)]
  have "f_msb f < 32" "f_lsb f \<le> f_msb f" using f by (simp_all add: field_ok_def)
  then show "bit (get_field f (set_field f v w)) k = bit v k"
    using fits_bit [OF assms(2), of k]
    by (auto simp: get_field_def set_field_def bit_drop_bit_eq bit_and_iff bit_hw_write_masked
        bit_f_bits [OF f] bit_push_bit_iff f_width_def)
qed

lemma write_frame:
  assumes "f \<in> set (r_fields r)" and "g \<in> set (r_fields r)" and "f \<noteq> g"
  shows "get_field g (set_field f v w) = get_field g w"
proof (rule word_bits_eqI)
  fix k assume "k < LENGTH(32)"
  note f = fields_ok [OF assms(1)] and g = fields_ok [OF assms(2)]
  have "f_msb g < f_lsb f \<or> f_msb f < f_lsb g"
    using described assms by (intro descending_disjoint) (auto simp: reg_ok_def)
  then show "bit (get_field g (set_field f v w)) k = bit (get_field g w) k"
    by (auto simp: get_field_def set_field_def bit_drop_bit_eq bit_and_iff bit_hw_write_masked
        bit_f_bits [OF f] bit_f_bits [OF g])
qed

text \<open>Writing a field touches no bit outside the register's described bits.\<close>

lemma field_in_register:
  assumes "f \<in> set (r_fields r)" and "bit (f_bits f) k"
  shows "bit (r_bits r) k"
proof -
  have "bit (fold (\<lambda>f w. w OR f_bits f) fs w) k \<longleftrightarrow> bit w k \<or> (\<exists>f \<in> set fs. bit (f_bits f) k)" for fs w
    by (induction fs arbitrary: w) (auto simp: bit_or_iff)
  with assms described show ?thesis by (auto simp: reg_ok_def)
qed

lemma write_outside:
  assumes "f \<in> set (r_fields r)"
  shows "set_field f v w AND NOT (r_bits r) = w AND NOT (r_bits r)"
proof (rule word_bits_eqI)
  fix k assume "k < LENGTH(32)"
  then show "bit (set_field f v w AND NOT (r_bits r)) k = bit (w AND NOT (r_bits r)) k"
    using field_in_register [OF assms, of k]
    by (auto simp: set_field_def bit_and_iff bit_not_iff bit_hw_write_masked)
qed

text \<open>Named fields: the mask and the position are the header's \<open>_BITS\<close> and \<open>_LSB\<close> macros.\<close>

lemma named_in:
  assumes "n \<in> set (map f_name (r_fields r))"
  shows "the_field r n \<in> set (r_fields r)" and "f_name (the_field r n) = n"
proof -
  have "filter (\<lambda>f. f_name f = n) (r_fields r) \<noteq> []" using assms by (auto simp: filter_empty_conv)
  then have "the_field r n \<in> set (filter (\<lambda>f. f_name f = n) (r_fields r))"
    unfolding the_field_def by (rule hd_in_set)
  then show "the_field r n \<in> set (r_fields r)" "f_name (the_field r n) = n" by simp_all
qed

lemma get_put:
  assumes "n \<in> set (map f_name (r_fields r))" and "fits (f_width (the_field r n)) v"
  shows "get_named r n (put_named r n v w) = v"
  using write_read [OF named_in(1) [OF assms(1)] assms(2)] by (simp add: get_named_def put_named_def)

lemma get_put_other:
  assumes "n \<in> set (map f_name (r_fields r))" and "m \<in> set (map f_name (r_fields r))" and "n \<noteq> m"
  shows "get_named r m (put_named r n v w) = get_named r m w"
proof -
  have "the_field r n \<noteq> the_field r m"
    using named_in(2) [OF assms(1)] named_in(2) [OF assms(2)] assms(3) by metis
  then show ?thesis
    using write_frame [OF named_in(1) [OF assms(1)] named_in(1) [OF assms(2)]]
    by (simp add: get_named_def put_named_def)
qed

lemma value_bit:
  assumes "n \<in> set (map f_name (r_fields r))" and "fits (f_width (the_field r n)) v"
    and "bit (push_bit (reg_lsb r n) v) k"
  shows "bit (reg_bits r n) k"
proof -
  note f = fields_ok [OF named_in(1) [OF assms(1)]]
  have "f_lsb (the_field r n) \<le> f_msb (the_field r n)" using f by (simp add: field_ok_def)
  then show ?thesis using assms(3) fits_bit [OF assms(2), of "k - f_lsb (the_field r n)"]
    by (auto simp: reg_lsb_def reg_bits_def bit_push_bit_iff bit_f_bits [OF f] f_width_def)
qed

lemma masks_disjoint:
  assumes "n \<in> set (map f_name (r_fields r))" and "m \<in> set (map f_name (r_fields r))" and "n \<noteq> m"
    and "bit (reg_bits r n) k"
  shows "\<not> bit (reg_bits r m) k"
proof -
  note n = named_in [OF assms(1)] and m = named_in [OF assms(2)]
  have "the_field r n \<noteq> the_field r m" using n(2) m(2) assms(3) by metis
  then have "f_msb (the_field r m) < f_lsb (the_field r n) \<or> f_msb (the_field r n) < f_lsb (the_field r m)"
    using described n(1) m(1) by (intro descending_disjoint) (auto simp: reg_ok_def)
  with assms(4) show ?thesis
    by (auto simp: reg_bits_def bit_f_bits [OF fields_ok [OF n(1)]] bit_f_bits [OF fields_ok [OF m(1)]])
qed

text \<open>A value cut to the mask.\<close>

lemma masked_value:
  assumes "n \<in> set (map f_name (r_fields r))"
  shows "push_bit (reg_lsb r n) v AND reg_bits r n = push_bit (reg_lsb r n) (take_bit (f_width (the_field r n)) v)"
    and "fits (f_width (the_field r n)) (take_bit (f_width (the_field r n)) v)"
proof -
  have "f_bits (the_field r n) = push_bit (f_lsb (the_field r n)) (mask (f_width (the_field r n)))"
    using fields_ok [OF named_in(1) [OF assms]] by (simp add: field_ok_def)
  then show "push_bit (reg_lsb r n) v AND reg_bits r n
      = push_bit (reg_lsb r n) (take_bit (f_width (the_field r n)) v)"
    by (simp only: reg_bits_def reg_lsb_def take_bit_eq_mask push_bit_and)
  show "fits (f_width (the_field r n)) (take_bit (f_width (the_field r n)) v)"
    unfolding fits_def unsigned_take_bit_eq by (rule take_bit_nat_less_exp)
qed

text \<open>Clearing the masks of up to three fields and putting new values there writes these fields.\<close>

lemma replace_named:
  assumes "n \<in> set (map f_name (r_fields r))" and "fits (f_width (the_field r n)) v"
  shows "(w AND NOT (reg_bits r n)) OR push_bit (reg_lsb r n) v = put_named r n v w"
  by (rule word_bits_eqI) (use value_bit [OF assms] in \<open>auto simp: put_named_def set_field_def
      bit_hw_write_masked bit_or_iff bit_and_iff bit_not_iff reg_bits_def reg_lsb_def\<close>)

lemma put_flag:
  assumes "n \<in> set (map f_name (r_fields r))" and "f_width (the_field r n) = 1"
  shows "(if b then w OR reg_bits r n else w AND NOT (reg_bits r n)) = put_named r n (of_bool b) w"
proof -
  have "reg_bits r n = push_bit (reg_lsb r n) 1"
    using fields_ok [OF named_in(1) [OF assms(1)]] assms(2)
    by (simp add: field_ok_def reg_bits_def reg_lsb_def mask_eq_exp_minus_1)
  moreover have "w OR reg_bits r n = (w AND NOT (reg_bits r n)) OR reg_bits r n"
    by (rule word_bits_eqI) (auto simp: bit_or_iff bit_and_iff bit_not_iff)
  ultimately show ?thesis
    using replace_named [OF assms(1), of 1 w] replace_named [OF assms(1), of 0 w] assms(2)
    by (auto simp: fits_def)
qed

lemma replace_named_two:
  assumes "n \<in> set (map f_name (r_fields r))" and "fits (f_width (the_field r n)) v"
    and "m \<in> set (map f_name (r_fields r))" and "fits (f_width (the_field r m)) u" and "n \<noteq> m"
  shows "(w AND NOT (reg_bits r n OR reg_bits r m)) OR (push_bit (reg_lsb r n) v OR push_bit (reg_lsb r m) u)
    = put_named r m u (put_named r n v w)"
proof -
  have "(w AND NOT (reg_bits r n OR reg_bits r m)) OR (push_bit (reg_lsb r n) v OR push_bit (reg_lsb r m) u)
    = (((w AND NOT (reg_bits r n)) OR push_bit (reg_lsb r n) v) AND NOT (reg_bits r m)) OR push_bit (reg_lsb r m) u"
    by (rule word_bits_eqI) (use value_bit [OF assms(1,2)] masks_disjoint [OF assms(1,3,5)] in
        \<open>auto simp: bit_or_iff bit_and_iff bit_not_iff\<close>)
  then show ?thesis unfolding replace_named [OF assms(1,2)] replace_named [OF assms(3,4)] .
qed

lemma replace_named_three:
  assumes "n \<in> set (map f_name (r_fields r))" and "fits (f_width (the_field r n)) v"
    and "m \<in> set (map f_name (r_fields r))" and "fits (f_width (the_field r m)) u"
    and "l \<in> set (map f_name (r_fields r))" and "fits (f_width (the_field r l)) t"
    and "distinct [n, m, l]"
  shows "(w AND NOT (reg_bits r n OR reg_bits r m OR reg_bits r l))
      OR (push_bit (reg_lsb r n) v OR push_bit (reg_lsb r m) u OR push_bit (reg_lsb r l) t)
    = put_named r l t (put_named r m u (put_named r n v w))"
proof -
  have d: "n \<noteq> m" "n \<noteq> l" "m \<noteq> l" using assms(7) by auto
  have "(w AND NOT (reg_bits r n OR reg_bits r m OR reg_bits r l))
      OR (push_bit (reg_lsb r n) v OR push_bit (reg_lsb r m) u OR push_bit (reg_lsb r l) t)
    = (((w AND NOT (reg_bits r n OR reg_bits r m)) OR (push_bit (reg_lsb r n) v OR push_bit (reg_lsb r m) u))
        AND NOT (reg_bits r l)) OR push_bit (reg_lsb r l) t"
    by (rule word_bits_eqI) (use value_bit [OF assms(1,2)] value_bit [OF assms(3,4)]
        masks_disjoint [OF assms(1,5) d(2)] masks_disjoint [OF assms(3,5) d(3)] in
        \<open>auto simp: bit_or_iff bit_and_iff bit_not_iff\<close>)
  then show ?thesis
    unfolding replace_named_two [OF assms(1-4) d(1)] replace_named [OF assms(5,6)] .
qed

end

end
