(* ===== verification/Regs_Pio.thy ===== *)
theory Regs_Pio
  imports Regs
begin

text \<open>
  The registers of the PIO, hardware/regs/pio.h, in the order of the header. Of the
  four state machines, which are alike, the first stands for all; the instruction memory is left out.
\<close>

definition PIO_CTRL :: hw_reg where
  "PIO_CTRL = hw_register 0x00000000 0x00000fff (Some 0x00000000)
    [field ''CLKDIV_RESTART'' (Some 0x0) 0x00000f00 11 8 SC,
     field ''SM_RESTART'' (Some 0x0) 0x000000f0 7 4 SC,
     field ''SM_ENABLE'' (Some 0x0) 0x0000000f 3 0 RW]"

definition PIO_FSTAT :: hw_reg where
  "PIO_FSTAT = hw_register 0x00000004 0x0f0f0f0f (Some 0x0f000f00)
    [field ''TXEMPTY'' (Some 0xf) 0x0f000000 27 24 RO,
     field ''TXFULL'' (Some 0x0) 0x000f0000 19 16 RO,
     field ''RXEMPTY'' (Some 0xf) 0x00000f00 11 8 RO,
     field ''RXFULL'' (Some 0x0) 0x0000000f 3 0 RO]"

definition PIO_FDEBUG :: hw_reg where
  "PIO_FDEBUG = hw_register 0x00000008 0x0f0f0f0f (Some 0x00000000)
    [field ''TXSTALL'' (Some 0x0) 0x0f000000 27 24 WC,
     field ''TXOVER'' (Some 0x0) 0x000f0000 19 16 WC,
     field ''RXUNDER'' (Some 0x0) 0x00000f00 11 8 WC,
     field ''RXSTALL'' (Some 0x0) 0x0000000f 3 0 WC]"

definition PIO_FLEVEL :: hw_reg where
  "PIO_FLEVEL = hw_register 0x0000000c 0xffffffff (Some 0x00000000)
    [field ''RX3'' (Some 0x0) 0xf0000000 31 28 RO,
     field ''TX3'' (Some 0x0) 0x0f000000 27 24 RO,
     field ''RX2'' (Some 0x0) 0x00f00000 23 20 RO,
     field ''TX2'' (Some 0x0) 0x000f0000 19 16 RO,
     field ''RX1'' (Some 0x0) 0x0000f000 15 12 RO,
     field ''TX1'' (Some 0x0) 0x00000f00 11 8 RO,
     field ''RX0'' (Some 0x0) 0x000000f0 7 4 RO,
     field ''TX0'' (Some 0x0) 0x0000000f 3 0 RO]"

definition PIO_TXF0 :: hw_reg where
  "PIO_TXF0 = hw_register 0x00000010 0xffffffff (Some 0x00000000)
    [field ''PIO_TXF0'' (Some 0x00000000) 0xffffffff 31 0 WF]"

definition PIO_TXF1 :: hw_reg where
  "PIO_TXF1 = hw_register 0x00000014 0xffffffff (Some 0x00000000)
    [field ''PIO_TXF1'' (Some 0x00000000) 0xffffffff 31 0 WF]"

definition PIO_TXF2 :: hw_reg where
  "PIO_TXF2 = hw_register 0x00000018 0xffffffff (Some 0x00000000)
    [field ''PIO_TXF2'' (Some 0x00000000) 0xffffffff 31 0 WF]"

definition PIO_TXF3 :: hw_reg where
  "PIO_TXF3 = hw_register 0x0000001c 0xffffffff (Some 0x00000000)
    [field ''PIO_TXF3'' (Some 0x00000000) 0xffffffff 31 0 WF]"

definition PIO_RXF0 :: hw_reg where
  "PIO_RXF0 = hw_register 0x00000020 0xffffffff None
    [field ''PIO_RXF0'' None 0xffffffff 31 0 RF]"

definition PIO_RXF1 :: hw_reg where
  "PIO_RXF1 = hw_register 0x00000024 0xffffffff None
    [field ''PIO_RXF1'' None 0xffffffff 31 0 RF]"

definition PIO_RXF2 :: hw_reg where
  "PIO_RXF2 = hw_register 0x00000028 0xffffffff None
    [field ''PIO_RXF2'' None 0xffffffff 31 0 RF]"

definition PIO_RXF3 :: hw_reg where
  "PIO_RXF3 = hw_register 0x0000002c 0xffffffff None
    [field ''PIO_RXF3'' None 0xffffffff 31 0 RF]"

definition PIO_IRQ :: hw_reg where
  "PIO_IRQ = hw_register 0x00000030 0x000000ff (Some 0x00000000)
    [field ''PIO_IRQ'' (Some 0x00000000) 0x000000ff 7 0 WC]"

definition PIO_IRQ_FORCE :: hw_reg where
  "PIO_IRQ_FORCE = hw_register 0x00000034 0x000000ff (Some 0x00000000)
    [field ''PIO_IRQ_FORCE'' (Some 0x00000000) 0x000000ff 7 0 WF]"

definition PIO_INPUT_SYNC_BYPASS :: hw_reg where
  "PIO_INPUT_SYNC_BYPASS = hw_register 0x00000038 0xffffffff (Some 0x00000000)
    [field ''PIO_INPUT_SYNC_BYPASS'' (Some 0x00000000) 0xffffffff 31 0 RW]"

definition PIO_DBG_PADOUT :: hw_reg where
  "PIO_DBG_PADOUT = hw_register 0x0000003c 0xffffffff (Some 0x00000000)
    [field ''PIO_DBG_PADOUT'' (Some 0x00000000) 0xffffffff 31 0 RO]"

definition PIO_DBG_PADOE :: hw_reg where
  "PIO_DBG_PADOE = hw_register 0x00000040 0xffffffff (Some 0x00000000)
    [field ''PIO_DBG_PADOE'' (Some 0x00000000) 0xffffffff 31 0 RO]"

definition PIO_DBG_CFGINFO :: hw_reg where
  "PIO_DBG_CFGINFO = hw_register 0x00000044 0x003f0f3f (Some 0x00000000)
    [field ''IMEM_SIZE'' None 0x003f0000 21 16 RO,
     field ''SM_COUNT'' None 0x00000f00 11 8 RO,
     field ''FIFO_DEPTH'' None 0x0000003f 5 0 RO]"

definition PIO_SM0_CLKDIV :: hw_reg where
  "PIO_SM0_CLKDIV = hw_register 0x000000c8 0xffffff00 (Some 0x00010000)
    [field ''INT'' (Some 0x0001) 0xffff0000 31 16 RW,
     field ''FRAC'' (Some 0x00) 0x0000ff00 15 8 RW]"

definition PIO_SM0_EXECCTRL :: hw_reg where
  "PIO_SM0_EXECCTRL = hw_register 0x000000cc 0xffffff9f (Some 0x0001f000)
    [field ''EXEC_STALLED'' (Some 0x0) 0x80000000 31 31 RO,
     field ''SIDE_EN'' (Some 0x0) 0x40000000 30 30 RW,
     field ''SIDE_PINDIR'' (Some 0x0) 0x20000000 29 29 RW,
     field ''JMP_PIN'' (Some 0x00) 0x1f000000 28 24 RW,
     field ''OUT_EN_SEL'' (Some 0x00) 0x00f80000 23 19 RW,
     field ''INLINE_OUT_EN'' (Some 0x0) 0x00040000 18 18 RW,
     field ''OUT_STICKY'' (Some 0x0) 0x00020000 17 17 RW,
     field ''WRAP_TOP'' (Some 0x1f) 0x0001f000 16 12 RW,
     field ''WRAP_BOTTOM'' (Some 0x00) 0x00000f80 11 7 RW,
     enum_field ''STATUS_SEL'' (Some 0x0) 0x00000010 4 4 RW
        [(''TXLEVEL'', 0x0), (''RXLEVEL'', 0x1)],
     field ''STATUS_N'' (Some 0x0) 0x0000000f 3 0 RW]"

definition PIO_SM0_SHIFTCTRL :: hw_reg where
  "PIO_SM0_SHIFTCTRL = hw_register 0x000000d0 0xffff0000 (Some 0x000c0000)
    [field ''FJOIN_RX'' (Some 0x0) 0x80000000 31 31 RW,
     field ''FJOIN_TX'' (Some 0x0) 0x40000000 30 30 RW,
     field ''PULL_THRESH'' (Some 0x00) 0x3e000000 29 25 RW,
     field ''PUSH_THRESH'' (Some 0x00) 0x01f00000 24 20 RW,
     field ''OUT_SHIFTDIR'' (Some 0x1) 0x00080000 19 19 RW,
     field ''IN_SHIFTDIR'' (Some 0x1) 0x00040000 18 18 RW,
     field ''AUTOPULL'' (Some 0x0) 0x00020000 17 17 RW,
     field ''AUTOPUSH'' (Some 0x0) 0x00010000 16 16 RW]"

definition PIO_SM0_ADDR :: hw_reg where
  "PIO_SM0_ADDR = hw_register 0x000000d4 0x0000001f (Some 0x00000000)
    [field ''PIO_SM0_ADDR'' (Some 0x00000000) 0x0000001f 4 0 RO]"

definition PIO_SM0_INSTR :: hw_reg where
  "PIO_SM0_INSTR = hw_register 0x000000d8 0x0000ffff None
    [field ''PIO_SM0_INSTR'' None 0x0000ffff 15 0 RW]"

definition PIO_SM0_PINCTRL :: hw_reg where
  "PIO_SM0_PINCTRL = hw_register 0x000000dc 0xffffffff (Some 0x14000000)
    [field ''SIDESET_COUNT'' (Some 0x0) 0xe0000000 31 29 RW,
     field ''SET_COUNT'' (Some 0x5) 0x1c000000 28 26 RW,
     field ''OUT_COUNT'' (Some 0x00) 0x03f00000 25 20 RW,
     field ''IN_BASE'' (Some 0x00) 0x000f8000 19 15 RW,
     field ''SIDESET_BASE'' (Some 0x00) 0x00007c00 14 10 RW,
     field ''SET_BASE'' (Some 0x00) 0x000003e0 9 5 RW,
     field ''OUT_BASE'' (Some 0x00) 0x0000001f 4 0 RW]"

definition PIO_INTR :: hw_reg where
  "PIO_INTR = hw_register 0x00000128 0x00000fff (Some 0x00000000)
    [field ''SM3'' (Some 0x0) 0x00000800 11 11 RO,
     field ''SM2'' (Some 0x0) 0x00000400 10 10 RO,
     field ''SM1'' (Some 0x0) 0x00000200 9 9 RO,
     field ''SM0'' (Some 0x0) 0x00000100 8 8 RO,
     field ''SM3_TXNFULL'' (Some 0x0) 0x00000080 7 7 RO,
     field ''SM2_TXNFULL'' (Some 0x0) 0x00000040 6 6 RO,
     field ''SM1_TXNFULL'' (Some 0x0) 0x00000020 5 5 RO,
     field ''SM0_TXNFULL'' (Some 0x0) 0x00000010 4 4 RO,
     field ''SM3_RXNEMPTY'' (Some 0x0) 0x00000008 3 3 RO,
     field ''SM2_RXNEMPTY'' (Some 0x0) 0x00000004 2 2 RO,
     field ''SM1_RXNEMPTY'' (Some 0x0) 0x00000002 1 1 RO,
     field ''SM0_RXNEMPTY'' (Some 0x0) 0x00000001 0 0 RO]"

definition PIO_IRQ0_INTE :: hw_reg where
  "PIO_IRQ0_INTE = hw_register 0x0000012c 0x00000fff (Some 0x00000000)
    [field ''SM3'' (Some 0x0) 0x00000800 11 11 RW,
     field ''SM2'' (Some 0x0) 0x00000400 10 10 RW,
     field ''SM1'' (Some 0x0) 0x00000200 9 9 RW,
     field ''SM0'' (Some 0x0) 0x00000100 8 8 RW,
     field ''SM3_TXNFULL'' (Some 0x0) 0x00000080 7 7 RW,
     field ''SM2_TXNFULL'' (Some 0x0) 0x00000040 6 6 RW,
     field ''SM1_TXNFULL'' (Some 0x0) 0x00000020 5 5 RW,
     field ''SM0_TXNFULL'' (Some 0x0) 0x00000010 4 4 RW,
     field ''SM3_RXNEMPTY'' (Some 0x0) 0x00000008 3 3 RW,
     field ''SM2_RXNEMPTY'' (Some 0x0) 0x00000004 2 2 RW,
     field ''SM1_RXNEMPTY'' (Some 0x0) 0x00000002 1 1 RW,
     field ''SM0_RXNEMPTY'' (Some 0x0) 0x00000001 0 0 RW]"

definition PIO_IRQ0_INTF :: hw_reg where
  "PIO_IRQ0_INTF = hw_register 0x00000130 0x00000fff (Some 0x00000000)
    [field ''SM3'' (Some 0x0) 0x00000800 11 11 RW,
     field ''SM2'' (Some 0x0) 0x00000400 10 10 RW,
     field ''SM1'' (Some 0x0) 0x00000200 9 9 RW,
     field ''SM0'' (Some 0x0) 0x00000100 8 8 RW,
     field ''SM3_TXNFULL'' (Some 0x0) 0x00000080 7 7 RW,
     field ''SM2_TXNFULL'' (Some 0x0) 0x00000040 6 6 RW,
     field ''SM1_TXNFULL'' (Some 0x0) 0x00000020 5 5 RW,
     field ''SM0_TXNFULL'' (Some 0x0) 0x00000010 4 4 RW,
     field ''SM3_RXNEMPTY'' (Some 0x0) 0x00000008 3 3 RW,
     field ''SM2_RXNEMPTY'' (Some 0x0) 0x00000004 2 2 RW,
     field ''SM1_RXNEMPTY'' (Some 0x0) 0x00000002 1 1 RW,
     field ''SM0_RXNEMPTY'' (Some 0x0) 0x00000001 0 0 RW]"

definition PIO_IRQ0_INTS :: hw_reg where
  "PIO_IRQ0_INTS = hw_register 0x00000134 0x00000fff (Some 0x00000000)
    [field ''SM3'' (Some 0x0) 0x00000800 11 11 RO,
     field ''SM2'' (Some 0x0) 0x00000400 10 10 RO,
     field ''SM1'' (Some 0x0) 0x00000200 9 9 RO,
     field ''SM0'' (Some 0x0) 0x00000100 8 8 RO,
     field ''SM3_TXNFULL'' (Some 0x0) 0x00000080 7 7 RO,
     field ''SM2_TXNFULL'' (Some 0x0) 0x00000040 6 6 RO,
     field ''SM1_TXNFULL'' (Some 0x0) 0x00000020 5 5 RO,
     field ''SM0_TXNFULL'' (Some 0x0) 0x00000010 4 4 RO,
     field ''SM3_RXNEMPTY'' (Some 0x0) 0x00000008 3 3 RO,
     field ''SM2_RXNEMPTY'' (Some 0x0) 0x00000004 2 2 RO,
     field ''SM1_RXNEMPTY'' (Some 0x0) 0x00000002 1 1 RO,
     field ''SM0_RXNEMPTY'' (Some 0x0) 0x00000001 0 0 RO]"

definition PIO_IRQ1_INTE :: hw_reg where
  "PIO_IRQ1_INTE = hw_register 0x00000138 0x00000fff (Some 0x00000000)
    [field ''SM3'' (Some 0x0) 0x00000800 11 11 RW,
     field ''SM2'' (Some 0x0) 0x00000400 10 10 RW,
     field ''SM1'' (Some 0x0) 0x00000200 9 9 RW,
     field ''SM0'' (Some 0x0) 0x00000100 8 8 RW,
     field ''SM3_TXNFULL'' (Some 0x0) 0x00000080 7 7 RW,
     field ''SM2_TXNFULL'' (Some 0x0) 0x00000040 6 6 RW,
     field ''SM1_TXNFULL'' (Some 0x0) 0x00000020 5 5 RW,
     field ''SM0_TXNFULL'' (Some 0x0) 0x00000010 4 4 RW,
     field ''SM3_RXNEMPTY'' (Some 0x0) 0x00000008 3 3 RW,
     field ''SM2_RXNEMPTY'' (Some 0x0) 0x00000004 2 2 RW,
     field ''SM1_RXNEMPTY'' (Some 0x0) 0x00000002 1 1 RW,
     field ''SM0_RXNEMPTY'' (Some 0x0) 0x00000001 0 0 RW]"

definition PIO_IRQ1_INTF :: hw_reg where
  "PIO_IRQ1_INTF = hw_register 0x0000013c 0x00000fff (Some 0x00000000)
    [field ''SM3'' (Some 0x0) 0x00000800 11 11 RW,
     field ''SM2'' (Some 0x0) 0x00000400 10 10 RW,
     field ''SM1'' (Some 0x0) 0x00000200 9 9 RW,
     field ''SM0'' (Some 0x0) 0x00000100 8 8 RW,
     field ''SM3_TXNFULL'' (Some 0x0) 0x00000080 7 7 RW,
     field ''SM2_TXNFULL'' (Some 0x0) 0x00000040 6 6 RW,
     field ''SM1_TXNFULL'' (Some 0x0) 0x00000020 5 5 RW,
     field ''SM0_TXNFULL'' (Some 0x0) 0x00000010 4 4 RW,
     field ''SM3_RXNEMPTY'' (Some 0x0) 0x00000008 3 3 RW,
     field ''SM2_RXNEMPTY'' (Some 0x0) 0x00000004 2 2 RW,
     field ''SM1_RXNEMPTY'' (Some 0x0) 0x00000002 1 1 RW,
     field ''SM0_RXNEMPTY'' (Some 0x0) 0x00000001 0 0 RW]"

definition PIO_IRQ1_INTS :: hw_reg where
  "PIO_IRQ1_INTS = hw_register 0x00000140 0x00000fff (Some 0x00000000)
    [field ''SM3'' (Some 0x0) 0x00000800 11 11 RO,
     field ''SM2'' (Some 0x0) 0x00000400 10 10 RO,
     field ''SM1'' (Some 0x0) 0x00000200 9 9 RO,
     field ''SM0'' (Some 0x0) 0x00000100 8 8 RO,
     field ''SM3_TXNFULL'' (Some 0x0) 0x00000080 7 7 RO,
     field ''SM2_TXNFULL'' (Some 0x0) 0x00000040 6 6 RO,
     field ''SM1_TXNFULL'' (Some 0x0) 0x00000020 5 5 RO,
     field ''SM0_TXNFULL'' (Some 0x0) 0x00000010 4 4 RO,
     field ''SM3_RXNEMPTY'' (Some 0x0) 0x00000008 3 3 RO,
     field ''SM2_RXNEMPTY'' (Some 0x0) 0x00000004 2 2 RO,
     field ''SM1_RXNEMPTY'' (Some 0x0) 0x00000002 1 1 RO,
     field ''SM0_RXNEMPTY'' (Some 0x0) 0x00000001 0 0 RO]"

definition pio_registers :: "hw_reg list" where
  "pio_registers = [PIO_CTRL, PIO_FSTAT, PIO_FDEBUG, PIO_FLEVEL, PIO_TXF0, PIO_TXF1, PIO_TXF2, PIO_TXF3,
   PIO_RXF0, PIO_RXF1, PIO_RXF2, PIO_RXF3, PIO_IRQ, PIO_IRQ_FORCE, PIO_INPUT_SYNC_BYPASS,
   PIO_DBG_PADOUT, PIO_DBG_PADOE, PIO_DBG_CFGINFO, PIO_SM0_CLKDIV, PIO_SM0_EXECCTRL,
   PIO_SM0_SHIFTCTRL, PIO_SM0_ADDR, PIO_SM0_INSTR, PIO_SM0_PINCTRL, PIO_INTR,
   PIO_IRQ0_INTE, PIO_IRQ0_INTF, PIO_IRQ0_INTS, PIO_IRQ1_INTE, PIO_IRQ1_INTF, PIO_IRQ1_INTS]"

lemma pio_ok_1:
  "reg_ok PIO_CTRL"
  "reg_ok PIO_FSTAT"
  "reg_ok PIO_FDEBUG"
  "reg_ok PIO_FLEVEL"
  "reg_ok PIO_TXF0"
  "reg_ok PIO_TXF1"
  by (simp_all add: reg_ok_simps
      PIO_CTRL_def
      PIO_FSTAT_def
      PIO_FDEBUG_def
      PIO_FLEVEL_def
      PIO_TXF0_def
      PIO_TXF1_def)

lemma pio_ok_2:
  "reg_ok PIO_TXF2"
  "reg_ok PIO_TXF3"
  "reg_ok PIO_RXF0"
  "reg_ok PIO_RXF1"
  "reg_ok PIO_RXF2"
  "reg_ok PIO_RXF3"
  by (simp_all add: reg_ok_simps
      PIO_TXF2_def
      PIO_TXF3_def
      PIO_RXF0_def
      PIO_RXF1_def
      PIO_RXF2_def
      PIO_RXF3_def)

lemma pio_ok_3:
  "reg_ok PIO_IRQ"
  "reg_ok PIO_IRQ_FORCE"
  "reg_ok PIO_INPUT_SYNC_BYPASS"
  "reg_ok PIO_DBG_PADOUT"
  "reg_ok PIO_DBG_PADOE"
  "reg_ok PIO_DBG_CFGINFO"
  by (simp_all add: reg_ok_simps
      PIO_IRQ_def
      PIO_IRQ_FORCE_def
      PIO_INPUT_SYNC_BYPASS_def
      PIO_DBG_PADOUT_def
      PIO_DBG_PADOE_def
      PIO_DBG_CFGINFO_def)

lemma pio_ok_4:
  "reg_ok PIO_SM0_CLKDIV"
  "reg_ok PIO_SM0_EXECCTRL"
  "reg_ok PIO_SM0_SHIFTCTRL"
  "reg_ok PIO_SM0_ADDR"
  "reg_ok PIO_SM0_INSTR"
  "reg_ok PIO_SM0_PINCTRL"
  by (simp_all add: reg_ok_simps
      PIO_SM0_CLKDIV_def
      PIO_SM0_EXECCTRL_def
      PIO_SM0_SHIFTCTRL_def
      PIO_SM0_ADDR_def
      PIO_SM0_INSTR_def
      PIO_SM0_PINCTRL_def)

lemma pio_ok_5:
  "reg_ok PIO_INTR"
  "reg_ok PIO_IRQ0_INTE"
  "reg_ok PIO_IRQ0_INTF"
  "reg_ok PIO_IRQ0_INTS"
  "reg_ok PIO_IRQ1_INTE"
  "reg_ok PIO_IRQ1_INTF"
  by (simp_all add: reg_ok_simps
      PIO_INTR_def
      PIO_IRQ0_INTE_def
      PIO_IRQ0_INTF_def
      PIO_IRQ0_INTS_def
      PIO_IRQ1_INTE_def
      PIO_IRQ1_INTF_def)

lemma pio_ok_6:
  "reg_ok PIO_IRQ1_INTS"
  by (simp_all add: reg_ok_simps
      PIO_IRQ1_INTS_def)

lemma pio_registers_ok: "list_all reg_ok pio_registers"
  by (simp add: pio_registers_def pio_ok_1 pio_ok_2 pio_ok_3 pio_ok_4 pio_ok_5 pio_ok_6)

lemma pio_offsets: "map r_offset pio_registers =
  [0x00000000, 0x00000004, 0x00000008, 0x0000000c, 0x00000010, 0x00000014, 0x00000018,
   0x0000001c, 0x00000020, 0x00000024, 0x00000028, 0x0000002c, 0x00000030, 0x00000034,
   0x00000038, 0x0000003c, 0x00000040, 0x00000044, 0x000000c8, 0x000000cc, 0x000000d0,
   0x000000d4, 0x000000d8, 0x000000dc, 0x00000128, 0x0000012c, 0x00000130, 0x00000134,
   0x00000138, 0x0000013c, 0x00000140]"
  by (simp add: pio_registers_def hw_register_def
      PIO_CTRL_def PIO_FSTAT_def PIO_FDEBUG_def PIO_FLEVEL_def PIO_TXF0_def PIO_TXF1_def
   PIO_TXF2_def PIO_TXF3_def PIO_RXF0_def PIO_RXF1_def PIO_RXF2_def PIO_RXF3_def
   PIO_IRQ_def PIO_IRQ_FORCE_def PIO_INPUT_SYNC_BYPASS_def PIO_DBG_PADOUT_def
   PIO_DBG_PADOE_def PIO_DBG_CFGINFO_def PIO_SM0_CLKDIV_def PIO_SM0_EXECCTRL_def
   PIO_SM0_SHIFTCTRL_def PIO_SM0_ADDR_def PIO_SM0_INSTR_def PIO_SM0_PINCTRL_def
   PIO_INTR_def PIO_IRQ0_INTE_def PIO_IRQ0_INTF_def PIO_IRQ0_INTS_def PIO_IRQ1_INTE_def
   PIO_IRQ1_INTF_def PIO_IRQ1_INTS_def)

end
