(* ===== verification/Pio.thy ===== *)
theory Pio
  imports Regs_Pio Pwm
begin

text \<open>
  The programmable I/O blocks, the inline functions of hardware/pio.h: building a state machine's
  configuration, applying and changing it, the control and interrupt registers, the state of the
  FIFOs. Masks and positions are those of the register descriptions. The checks of parameters are
  off by default. Functions that wait for a FIFO or for the end of an instruction are left out.
\<close>

section \<open>Configuration of a state machine\<close>

datatype pio_fifo_join = PIO_FIFO_JOIN_NONE | PIO_FIFO_JOIN_TX | PIO_FIFO_JOIN_RX

fun join_value :: "pio_fifo_join \<Rightarrow> u32" where
  "join_value PIO_FIFO_JOIN_NONE = 0"
| "join_value PIO_FIFO_JOIN_TX = 1"
| "join_value PIO_FIFO_JOIN_RX = 2"

datatype pio_mov_status_type = STATUS_TX_LESSTHAN | STATUS_RX_LESSTHAN

fun status_value :: "pio_mov_status_type \<Rightarrow> u32" where
  "status_value STATUS_TX_LESSTHAN = 0"
| "status_value STATUS_RX_LESSTHAN = 1"

record pio_sm_config =
  clkdiv :: u32
  execctrl :: u32
  shiftctrl :: u32
  pinctrl :: u32

definition sm_config_set_out_pins :: "u32 \<Rightarrow> u32 \<Rightarrow> pio_sm_config \<Rightarrow> pio_sm_config" where
  "sm_config_set_out_pins out_base out_count c =
     c\<lparr>pinctrl := (pinctrl c AND NOT (reg_bits PIO_SM0_PINCTRL ''OUT_BASE''
          OR reg_bits PIO_SM0_PINCTRL ''OUT_COUNT''))
        OR (push_bit (reg_lsb PIO_SM0_PINCTRL ''OUT_BASE'') out_base
        OR push_bit (reg_lsb PIO_SM0_PINCTRL ''OUT_COUNT'') out_count)\<rparr>"

definition sm_config_set_set_pins :: "u32 \<Rightarrow> u32 \<Rightarrow> pio_sm_config \<Rightarrow> pio_sm_config" where
  "sm_config_set_set_pins set_base set_count c =
     c\<lparr>pinctrl := (pinctrl c AND NOT (reg_bits PIO_SM0_PINCTRL ''SET_BASE''
          OR reg_bits PIO_SM0_PINCTRL ''SET_COUNT''))
        OR (push_bit (reg_lsb PIO_SM0_PINCTRL ''SET_BASE'') set_base
        OR push_bit (reg_lsb PIO_SM0_PINCTRL ''SET_COUNT'') set_count)\<rparr>"

definition sm_config_set_in_pins :: "u32 \<Rightarrow> pio_sm_config \<Rightarrow> pio_sm_config" where
  "sm_config_set_in_pins in_base c =
     c\<lparr>pinctrl := (pinctrl c AND NOT (reg_bits PIO_SM0_PINCTRL ''IN_BASE''))
        OR push_bit (reg_lsb PIO_SM0_PINCTRL ''IN_BASE'') in_base\<rparr>"

definition sm_config_set_sideset_pins :: "u32 \<Rightarrow> pio_sm_config \<Rightarrow> pio_sm_config" where
  "sm_config_set_sideset_pins sideset_base c =
     c\<lparr>pinctrl := (pinctrl c AND NOT (reg_bits PIO_SM0_PINCTRL ''SIDESET_BASE''))
        OR push_bit (reg_lsb PIO_SM0_PINCTRL ''SIDESET_BASE'') sideset_base\<rparr>"

definition sm_config_set_sideset :: "u32 \<Rightarrow> bool \<Rightarrow> bool \<Rightarrow> pio_sm_config \<Rightarrow> pio_sm_config" where
  "sm_config_set_sideset bit_count optional pindirs c =
     (let c = c\<lparr>pinctrl := (pinctrl c AND NOT (reg_bits PIO_SM0_PINCTRL ''SIDESET_COUNT''))
        OR push_bit (reg_lsb PIO_SM0_PINCTRL ''SIDESET_COUNT'') bit_count\<rparr>
      in c\<lparr>execctrl := (execctrl c AND NOT (reg_bits PIO_SM0_EXECCTRL ''SIDE_EN''
          OR reg_bits PIO_SM0_EXECCTRL ''SIDE_PINDIR''))
        OR (push_bit (reg_lsb PIO_SM0_EXECCTRL ''SIDE_EN'') (bool_to_bit optional)
        OR push_bit (reg_lsb PIO_SM0_EXECCTRL ''SIDE_PINDIR'') (bool_to_bit pindirs))\<rparr>)"

definition sm_config_set_clkdiv_int_frac :: "u16 \<Rightarrow> u8 \<Rightarrow> pio_sm_config \<Rightarrow> pio_sm_config" where
  "sm_config_set_clkdiv_int_frac div_int div_frac c =
     c\<lparr>clkdiv := push_bit (reg_lsb PIO_SM0_CLKDIV ''FRAC'') (ucast div_frac)
        OR push_bit (reg_lsb PIO_SM0_CLKDIV ''INT'') (ucast div_int)\<rparr>"

text \<open>
  The conversion of the integer part is undefined from 65536 on and up to -1. The other operations are exact in
  binary32.
\<close>

definition pio_calculate_clkdiv_from_float :: "rat \<Rightarrow> (u16 \<times> u8) option" where
  "pio_calculate_clkdiv_from_float d =
     (if d \<le> -1 \<or> d \<ge> 65536 then None
      else
        (let div_int = word_of_int (if d < 0 then 0 else \<lfloor>d\<rfloor>)
         in if div_int = 0 then Some (div_int, 0)
            else Some (div_int, word_of_int \<lfloor>(d - of_int (uint div_int)) * 256\<rfloor>)))"

definition sm_config_set_clkdiv :: "rat \<Rightarrow> pio_sm_config \<Rightarrow> pio_sm_config option" where
  "sm_config_set_clkdiv d c =
     map_option (\<lambda>(div_int, div_frac). sm_config_set_clkdiv_int_frac div_int div_frac c)
       (pio_calculate_clkdiv_from_float d)"

definition sm_config_set_wrap :: "u32 \<Rightarrow> u32 \<Rightarrow> pio_sm_config \<Rightarrow> pio_sm_config" where
  "sm_config_set_wrap wrap_target wrap c =
     c\<lparr>execctrl := (execctrl c AND NOT (reg_bits PIO_SM0_EXECCTRL ''WRAP_BOTTOM''
          OR reg_bits PIO_SM0_EXECCTRL ''WRAP_TOP''))
        OR (push_bit (reg_lsb PIO_SM0_EXECCTRL ''WRAP_BOTTOM'') wrap_target
        OR push_bit (reg_lsb PIO_SM0_EXECCTRL ''WRAP_TOP'') wrap)\<rparr>"

definition sm_config_set_jmp_pin :: "u32 \<Rightarrow> pio_sm_config \<Rightarrow> pio_sm_config" where
  "sm_config_set_jmp_pin pin c =
     c\<lparr>execctrl := (execctrl c AND NOT (reg_bits PIO_SM0_EXECCTRL ''JMP_PIN''))
        OR push_bit (reg_lsb PIO_SM0_EXECCTRL ''JMP_PIN'') pin\<rparr>"

definition sm_config_set_in_shift :: "bool \<Rightarrow> bool \<Rightarrow> u32 \<Rightarrow> pio_sm_config \<Rightarrow> pio_sm_config" where
  "sm_config_set_in_shift shift_right autopush push_threshold c =
     c\<lparr>shiftctrl := (shiftctrl c AND NOT (reg_bits PIO_SM0_SHIFTCTRL ''IN_SHIFTDIR''
          OR reg_bits PIO_SM0_SHIFTCTRL ''AUTOPUSH''
          OR reg_bits PIO_SM0_SHIFTCTRL ''PUSH_THRESH''))
        OR (push_bit (reg_lsb PIO_SM0_SHIFTCTRL ''IN_SHIFTDIR'') (bool_to_bit shift_right)
        OR push_bit (reg_lsb PIO_SM0_SHIFTCTRL ''AUTOPUSH'') (bool_to_bit autopush)
        OR push_bit (reg_lsb PIO_SM0_SHIFTCTRL ''PUSH_THRESH'') (push_threshold AND 0x1f))\<rparr>"

definition sm_config_set_out_shift :: "bool \<Rightarrow> bool \<Rightarrow> u32 \<Rightarrow> pio_sm_config \<Rightarrow> pio_sm_config" where
  "sm_config_set_out_shift shift_right autopull pull_threshold c =
     c\<lparr>shiftctrl := (shiftctrl c AND NOT (reg_bits PIO_SM0_SHIFTCTRL ''OUT_SHIFTDIR''
          OR reg_bits PIO_SM0_SHIFTCTRL ''AUTOPULL''
          OR reg_bits PIO_SM0_SHIFTCTRL ''PULL_THRESH''))
        OR (push_bit (reg_lsb PIO_SM0_SHIFTCTRL ''OUT_SHIFTDIR'') (bool_to_bit shift_right)
        OR push_bit (reg_lsb PIO_SM0_SHIFTCTRL ''AUTOPULL'') (bool_to_bit autopull)
        OR push_bit (reg_lsb PIO_SM0_SHIFTCTRL ''PULL_THRESH'') (pull_threshold AND 0x1f))\<rparr>"

definition sm_config_set_fifo_join :: "pio_fifo_join \<Rightarrow> pio_sm_config \<Rightarrow> pio_sm_config" where
  "sm_config_set_fifo_join join c =
     c\<lparr>shiftctrl := (shiftctrl c AND NOT (reg_bits PIO_SM0_SHIFTCTRL ''FJOIN_TX'' OR reg_bits PIO_SM0_SHIFTCTRL ''FJOIN_RX''))
        OR push_bit (reg_lsb PIO_SM0_SHIFTCTRL ''FJOIN_TX'') (join_value join)\<rparr>"

definition sm_config_set_out_special :: "bool \<Rightarrow> bool \<Rightarrow> u32 \<Rightarrow> pio_sm_config \<Rightarrow> pio_sm_config" where
  "sm_config_set_out_special sticky has_enable_pin enable_pin_index c =
     c\<lparr>execctrl := (execctrl c AND NOT (reg_bits PIO_SM0_EXECCTRL ''OUT_STICKY''
          OR reg_bits PIO_SM0_EXECCTRL ''INLINE_OUT_EN''
          OR reg_bits PIO_SM0_EXECCTRL ''OUT_EN_SEL''))
        OR (push_bit (reg_lsb PIO_SM0_EXECCTRL ''OUT_STICKY'') (bool_to_bit sticky)
        OR push_bit (reg_lsb PIO_SM0_EXECCTRL ''INLINE_OUT_EN'') (bool_to_bit has_enable_pin)
        OR (push_bit (reg_lsb PIO_SM0_EXECCTRL ''OUT_EN_SEL'') enable_pin_index
            AND reg_bits PIO_SM0_EXECCTRL ''OUT_EN_SEL''))\<rparr>"

definition sm_config_set_mov_status :: "pio_mov_status_type \<Rightarrow> u32 \<Rightarrow> pio_sm_config \<Rightarrow> pio_sm_config" where
  "sm_config_set_mov_status status_sel status_n c =
     c\<lparr>execctrl := (execctrl c AND NOT (reg_bits PIO_SM0_EXECCTRL ''STATUS_SEL''
          OR reg_bits PIO_SM0_EXECCTRL ''STATUS_N''))
        OR ((push_bit (reg_lsb PIO_SM0_EXECCTRL ''STATUS_SEL'') (status_value status_sel)
            AND reg_bits PIO_SM0_EXECCTRL ''STATUS_SEL'')
        OR (push_bit (reg_lsb PIO_SM0_EXECCTRL ''STATUS_N'') status_n
            AND reg_bits PIO_SM0_EXECCTRL ''STATUS_N''))\<rparr>"

definition pio_get_default_sm_config :: pio_sm_config where
  "pio_get_default_sm_config =
     (let c = \<lparr>clkdiv = 0, execctrl = 0, shiftctrl = 0, pinctrl = 0\<rparr>;
          c = sm_config_set_clkdiv_int_frac 1 0 c;
          c = sm_config_set_wrap 0 31 c;
          c = sm_config_set_in_shift True False 32 c
      in sm_config_set_out_shift True False 32 c)"

section \<open>A block\<close>

record pio_sm_hw =
  sm_clkdiv :: u32
  sm_execctrl :: u32
  sm_shiftctrl :: u32
  sm_addr :: u32
  sm_instr :: u32
  sm_pinctrl :: u32

text \<open>
  The bits of \<open>ctrl\<close> that restart something clear themselves: reading gives the enabled state
  machines, and \<open>ctrl_writes\<close> keeps what was written. \<open>tx_writes\<close> are the words put into the FIFOs.
\<close>

record pio_hw =
  pio_ctrl :: u32
  fstat :: u32
  flevel :: u32
  pio_irq :: u32
  pio_inte0 :: u32
  pio_inte1 :: u32
  rxf :: "u32 \<Rightarrow> u32"
  sm :: "u32 \<Rightarrow> pio_sm_hw"
  ctrl_writes :: "u32 list"
  tx_writes :: "(u32 \<times> u32) list"

datatype pio_inst = Pio0 | Pio1

definition NUM_PIO_STATE_MACHINES :: u32 where "NUM_PIO_STATE_MACHINES = 4"
definition DREQ_PIO0_TX0 :: u32 where "DREQ_PIO0_TX0 = 0x0"
definition DREQ_PIO1_TX0 :: u32 where "DREQ_PIO1_TX0 = 0x8"

definition upd_sm :: "u32 \<Rightarrow> (pio_sm_hw \<Rightarrow> pio_sm_hw) \<Rightarrow> pio_hw \<Rightarrow> pio_hw" where
  "upd_sm n f p = p\<lparr>sm := (sm p)(n := f (sm p n))\<rparr>"

definition write_ctrl :: "u32 \<Rightarrow> pio_hw \<Rightarrow> pio_hw" where
  "write_ctrl v p = p\<lparr>pio_ctrl := v AND reg_bits PIO_CTRL ''SM_ENABLE'', ctrl_writes := ctrl_writes p @ [v]\<rparr>"

definition pio_sm_set_config :: "u32 \<Rightarrow> pio_sm_config \<Rightarrow> pio_hw \<Rightarrow> pio_hw" where
  "pio_sm_set_config n config p =
     (let p = upd_sm n (\<lambda>m. m\<lparr>sm_clkdiv := clkdiv config\<rparr>) p;
          p = upd_sm n (\<lambda>m. m\<lparr>sm_execctrl := execctrl config\<rparr>) p;
          p = upd_sm n (\<lambda>m. m\<lparr>sm_shiftctrl := shiftctrl config\<rparr>) p
      in upd_sm n (\<lambda>m. m\<lparr>sm_pinctrl := pinctrl config\<rparr>) p)"

definition pio_get_index :: "pio_inst \<Rightarrow> u32" where
  "pio_get_index pio = (if pio = Pio1 then 1 else 0)"

definition pio_gpio_init :: "board \<Rightarrow> pio_inst \<Rightarrow> u32 \<Rightarrow> mcu \<Rightarrow> mcu" where
  "pio_gpio_init B pio pin = gpio_set_function B pin (if pio = Pio0 then GPIO_FUNC_PIO0 else GPIO_FUNC_PIO1)"

definition pio_get_dreq :: "pio_inst \<Rightarrow> u32 \<Rightarrow> bool \<Rightarrow> u32" where
  "pio_get_dreq pio n is_tx =
     n + (if is_tx then 0 else NUM_PIO_STATE_MACHINES) + (if pio = Pio0 then DREQ_PIO0_TX0 else DREQ_PIO1_TX0)"

definition pio_sm_set_enabled :: "u32 \<Rightarrow> bool \<Rightarrow> pio_hw \<Rightarrow> pio_hw" where
  "pio_sm_set_enabled n enabled p =
     write_ctrl ((pio_ctrl p AND NOT (push_bit (unat n) 1)) OR push_bit (unat n) (bool_to_bit enabled)) p"

definition pio_set_sm_mask_enabled :: "u32 \<Rightarrow> bool \<Rightarrow> pio_hw \<Rightarrow> pio_hw" where
  "pio_set_sm_mask_enabled m enabled p =
     write_ctrl ((pio_ctrl p AND NOT m) OR (if enabled then m else 0)) p"

definition pio_sm_restart :: "u32 \<Rightarrow> pio_hw \<Rightarrow> pio_hw" where
  "pio_sm_restart n p =
     write_ctrl (pio_ctrl p OR push_bit (reg_lsb PIO_CTRL ''SM_RESTART'' + unat n) 1) p"

definition pio_restart_sm_mask :: "u32 \<Rightarrow> pio_hw \<Rightarrow> pio_hw" where
  "pio_restart_sm_mask m p =
     write_ctrl (pio_ctrl p OR (push_bit (reg_lsb PIO_CTRL ''SM_RESTART'') m AND reg_bits PIO_CTRL ''SM_RESTART'')) p"

definition pio_sm_clkdiv_restart :: "u32 \<Rightarrow> pio_hw \<Rightarrow> pio_hw" where
  "pio_sm_clkdiv_restart n p =
     write_ctrl (pio_ctrl p OR push_bit (reg_lsb PIO_CTRL ''CLKDIV_RESTART'' + unat n) 1) p"

definition pio_clkdiv_restart_sm_mask :: "u32 \<Rightarrow> pio_hw \<Rightarrow> pio_hw" where
  "pio_clkdiv_restart_sm_mask m p =
     write_ctrl (pio_ctrl p
       OR (push_bit (reg_lsb PIO_CTRL ''CLKDIV_RESTART'') m AND reg_bits PIO_CTRL ''CLKDIV_RESTART'')) p"

definition pio_enable_sm_mask_in_sync :: "u32 \<Rightarrow> pio_hw \<Rightarrow> pio_hw" where
  "pio_enable_sm_mask_in_sync m p =
     write_ctrl (pio_ctrl p
       OR ((push_bit (reg_lsb PIO_CTRL ''CLKDIV_RESTART'') m AND reg_bits PIO_CTRL ''CLKDIV_RESTART'')
         OR (push_bit (reg_lsb PIO_CTRL ''SM_ENABLE'') m AND reg_bits PIO_CTRL ''SM_ENABLE''))) p"

definition pio_sm_set_wrap :: "u32 \<Rightarrow> u32 \<Rightarrow> u32 \<Rightarrow> pio_hw \<Rightarrow> pio_hw" where
  "pio_sm_set_wrap n wrap_target wrap =
     upd_sm n (\<lambda>m. m\<lparr>sm_execctrl := (sm_execctrl m AND NOT (reg_bits PIO_SM0_EXECCTRL ''WRAP_BOTTOM''
          OR reg_bits PIO_SM0_EXECCTRL ''WRAP_TOP''))
        OR (push_bit (reg_lsb PIO_SM0_EXECCTRL ''WRAP_BOTTOM'') wrap_target
        OR push_bit (reg_lsb PIO_SM0_EXECCTRL ''WRAP_TOP'') wrap)\<rparr>)"

definition pio_sm_set_out_pins :: "u32 \<Rightarrow> u32 \<Rightarrow> u32 \<Rightarrow> pio_hw \<Rightarrow> pio_hw" where
  "pio_sm_set_out_pins n out_base out_count =
     upd_sm n (\<lambda>m. m\<lparr>sm_pinctrl := (sm_pinctrl m AND NOT (reg_bits PIO_SM0_PINCTRL ''OUT_BASE''
          OR reg_bits PIO_SM0_PINCTRL ''OUT_COUNT''))
        OR (push_bit (reg_lsb PIO_SM0_PINCTRL ''OUT_BASE'') out_base
        OR push_bit (reg_lsb PIO_SM0_PINCTRL ''OUT_COUNT'') out_count)\<rparr>)"

definition pio_sm_set_set_pins :: "u32 \<Rightarrow> u32 \<Rightarrow> u32 \<Rightarrow> pio_hw \<Rightarrow> pio_hw" where
  "pio_sm_set_set_pins n set_base set_count =
     upd_sm n (\<lambda>m. m\<lparr>sm_pinctrl := (sm_pinctrl m AND NOT (reg_bits PIO_SM0_PINCTRL ''SET_BASE''
          OR reg_bits PIO_SM0_PINCTRL ''SET_COUNT''))
        OR (push_bit (reg_lsb PIO_SM0_PINCTRL ''SET_BASE'') set_base
        OR push_bit (reg_lsb PIO_SM0_PINCTRL ''SET_COUNT'') set_count)\<rparr>)"

definition pio_sm_set_in_pins :: "u32 \<Rightarrow> u32 \<Rightarrow> pio_hw \<Rightarrow> pio_hw" where
  "pio_sm_set_in_pins n in_base =
     upd_sm n (\<lambda>m. m\<lparr>sm_pinctrl := (sm_pinctrl m AND NOT (reg_bits PIO_SM0_PINCTRL ''IN_BASE''))
        OR push_bit (reg_lsb PIO_SM0_PINCTRL ''IN_BASE'') in_base\<rparr>)"

definition pio_sm_set_sideset_pins :: "u32 \<Rightarrow> u32 \<Rightarrow> pio_hw \<Rightarrow> pio_hw" where
  "pio_sm_set_sideset_pins n sideset_base =
     upd_sm n (\<lambda>m. m\<lparr>sm_pinctrl := (sm_pinctrl m AND NOT (reg_bits PIO_SM0_PINCTRL ''SIDESET_BASE''))
        OR push_bit (reg_lsb PIO_SM0_PINCTRL ''SIDESET_BASE'') sideset_base\<rparr>)"

definition pio_sm_set_clkdiv_int_frac :: "u32 \<Rightarrow> u16 \<Rightarrow> u8 \<Rightarrow> pio_hw \<Rightarrow> pio_hw" where
  "pio_sm_set_clkdiv_int_frac n div_int div_frac =
     upd_sm n (\<lambda>m. m\<lparr>sm_clkdiv := push_bit (reg_lsb PIO_SM0_CLKDIV ''FRAC'') (ucast div_frac)
        OR push_bit (reg_lsb PIO_SM0_CLKDIV ''INT'') (ucast div_int)\<rparr>)"

definition pio_sm_set_clkdiv :: "u32 \<Rightarrow> rat \<Rightarrow> pio_hw \<Rightarrow> pio_hw option" where
  "pio_sm_set_clkdiv n d p =
     map_option (\<lambda>(div_int, div_frac). pio_sm_set_clkdiv_int_frac n div_int div_frac p)
       (pio_calculate_clkdiv_from_float d)"

definition pio_sm_clear_fifos :: "u32 \<Rightarrow> pio_hw \<Rightarrow> pio_hw" where
  "pio_sm_clear_fifos n p =
     (let p = upd_sm n (\<lambda>m. m\<lparr>sm_shiftctrl :=
            hw_xor_bits (sm_shiftctrl m) (reg_bits PIO_SM0_SHIFTCTRL ''FJOIN_RX'')\<rparr>) p
      in upd_sm n (\<lambda>m. m\<lparr>sm_shiftctrl :=
            hw_xor_bits (sm_shiftctrl m) (reg_bits PIO_SM0_SHIFTCTRL ''FJOIN_RX'')\<rparr>) p)"

definition pio_sm_get_pc :: "u32 \<Rightarrow> pio_hw \<Rightarrow> u8" where
  "pio_sm_get_pc n p = ucast (sm_addr (sm p n))"

definition pio_sm_exec :: "u32 \<Rightarrow> u32 \<Rightarrow> pio_hw \<Rightarrow> pio_hw" where
  "pio_sm_exec n instr = upd_sm n (\<lambda>m. m\<lparr>sm_instr := instr\<rparr>)"

definition pio_sm_is_exec_stalled :: "u32 \<Rightarrow> pio_hw \<Rightarrow> bool" where
  "pio_sm_is_exec_stalled n p \<longleftrightarrow> sm_execctrl (sm p n) AND reg_bits PIO_SM0_EXECCTRL ''EXEC_STALLED'' \<noteq> 0"

section \<open>FIFOs\<close>

definition pio_sm_put :: "u32 \<Rightarrow> u32 \<Rightarrow> pio_hw \<Rightarrow> pio_hw" where
  "pio_sm_put n data p = p\<lparr>tx_writes := tx_writes p @ [(n, data)]\<rparr>"

definition pio_sm_get :: "u32 \<Rightarrow> pio_hw \<Rightarrow> u32" where
  "pio_sm_get n p = rxf p n"

definition pio_sm_is_rx_fifo_full :: "u32 \<Rightarrow> pio_hw \<Rightarrow> bool" where
  "pio_sm_is_rx_fifo_full n p \<longleftrightarrow> fstat p AND push_bit (reg_lsb PIO_FSTAT ''RXFULL'' + unat n) 1 \<noteq> 0"

definition pio_sm_is_rx_fifo_empty :: "u32 \<Rightarrow> pio_hw \<Rightarrow> bool" where
  "pio_sm_is_rx_fifo_empty n p \<longleftrightarrow> fstat p AND push_bit (reg_lsb PIO_FSTAT ''RXEMPTY'' + unat n) 1 \<noteq> 0"

definition pio_sm_get_rx_fifo_level :: "u32 \<Rightarrow> pio_hw \<Rightarrow> u32" where
  "pio_sm_get_rx_fifo_level n p =
     (let bitoffs = reg_lsb PIO_FLEVEL ''RX0'' + unat n * (reg_lsb PIO_FLEVEL ''RX1'' - reg_lsb PIO_FLEVEL ''RX0'');
          m = drop_bit (reg_lsb PIO_FLEVEL ''RX0'') (reg_bits PIO_FLEVEL ''RX0'')
      in drop_bit bitoffs (flevel p) AND m)"

definition pio_sm_is_tx_fifo_full :: "u32 \<Rightarrow> pio_hw \<Rightarrow> bool" where
  "pio_sm_is_tx_fifo_full n p \<longleftrightarrow> fstat p AND push_bit (reg_lsb PIO_FSTAT ''TXFULL'' + unat n) 1 \<noteq> 0"

definition pio_sm_is_tx_fifo_empty :: "u32 \<Rightarrow> pio_hw \<Rightarrow> bool" where
  "pio_sm_is_tx_fifo_empty n p \<longleftrightarrow> fstat p AND push_bit (reg_lsb PIO_FSTAT ''TXEMPTY'' + unat n) 1 \<noteq> 0"

definition pio_sm_get_tx_fifo_level :: "u32 \<Rightarrow> pio_hw \<Rightarrow> u32" where
  "pio_sm_get_tx_fifo_level n p =
     (let bitoffs = reg_lsb PIO_FLEVEL ''TX0'' + unat n * (reg_lsb PIO_FLEVEL ''TX1'' - reg_lsb PIO_FLEVEL ''TX0'');
          m = drop_bit (reg_lsb PIO_FLEVEL ''TX0'') (reg_bits PIO_FLEVEL ''TX0'')
      in drop_bit bitoffs (flevel p) AND m)"

section \<open>Interrupts\<close>

definition pio_set_irq0_source_enabled :: "u32 \<Rightarrow> bool \<Rightarrow> pio_hw \<Rightarrow> pio_hw" where
  "pio_set_irq0_source_enabled source enabled p =
     (if enabled then p\<lparr>pio_inte0 := hw_set_bits (pio_inte0 p) (push_bit (unat source) 1)\<rparr>
      else p\<lparr>pio_inte0 := hw_clear_bits (pio_inte0 p) (push_bit (unat source) 1)\<rparr>)"

definition pio_set_irq1_source_enabled :: "u32 \<Rightarrow> bool \<Rightarrow> pio_hw \<Rightarrow> pio_hw" where
  "pio_set_irq1_source_enabled source enabled p =
     (if enabled then p\<lparr>pio_inte1 := hw_set_bits (pio_inte1 p) (push_bit (unat source) 1)\<rparr>
      else p\<lparr>pio_inte1 := hw_clear_bits (pio_inte1 p) (push_bit (unat source) 1)\<rparr>)"

definition pio_set_irq0_source_mask_enabled :: "u32 \<Rightarrow> bool \<Rightarrow> pio_hw \<Rightarrow> pio_hw" where
  "pio_set_irq0_source_mask_enabled source_mask enabled p =
     (if enabled then p\<lparr>pio_inte0 := hw_set_bits (pio_inte0 p) source_mask\<rparr>
      else p\<lparr>pio_inte0 := hw_clear_bits (pio_inte0 p) source_mask\<rparr>)"

definition pio_set_irq1_source_mask_enabled :: "u32 \<Rightarrow> bool \<Rightarrow> pio_hw \<Rightarrow> pio_hw" where
  "pio_set_irq1_source_mask_enabled source_mask enabled p =
     (if enabled then p\<lparr>pio_inte1 := hw_set_bits (pio_inte1 p) source_mask\<rparr>
      else p\<lparr>pio_inte1 := hw_clear_bits (pio_inte1 p) source_mask\<rparr>)"

definition pio_set_irqn_source_enabled :: "u32 \<Rightarrow> u32 \<Rightarrow> bool \<Rightarrow> pio_hw \<Rightarrow> pio_hw" where
  "pio_set_irqn_source_enabled irq_index source enabled p =
     (if irq_index \<noteq> 0 then pio_set_irq1_source_enabled source enabled p
      else pio_set_irq0_source_enabled source enabled p)"

definition pio_set_irqn_source_mask_enabled :: "u32 \<Rightarrow> u32 \<Rightarrow> bool \<Rightarrow> pio_hw \<Rightarrow> pio_hw" where
  "pio_set_irqn_source_mask_enabled irq_index source_mask enabled p =
     (if irq_index \<noteq> 0 then pio_set_irq0_source_mask_enabled source_mask enabled p
      else pio_set_irq1_source_mask_enabled source_mask enabled p)"

definition pio_interrupt_get :: "u32 \<Rightarrow> pio_hw \<Rightarrow> bool" where
  "pio_interrupt_get n p \<longleftrightarrow> pio_irq p AND push_bit (unat n) 1 \<noteq> 0"


section \<open>The fields of the configuration\<close>

interpretation pinctrl_reg: described_register PIO_SM0_PINCTRL
  by unfold_locales (rule pio_ok_4)

interpretation execctrl_reg: described_register PIO_SM0_EXECCTRL
  by unfold_locales (rule pio_ok_4)

interpretation shiftctrl_reg: described_register PIO_SM0_SHIFTCTRL
  by unfold_locales (rule pio_ok_4)

lemma pin_names: "set (map f_name (r_fields PIO_SM0_PINCTRL)) = {''SIDESET_COUNT'', ''SET_COUNT'',
    ''OUT_COUNT'', ''IN_BASE'', ''SIDESET_BASE'', ''SET_BASE'', ''OUT_BASE''}"
  by (simp add: PIO_SM0_PINCTRL_def hw_register_def field_def)

lemma exec_names: "set (map f_name (r_fields PIO_SM0_EXECCTRL)) = {''EXEC_STALLED'', ''SIDE_EN'',
    ''SIDE_PINDIR'', ''JMP_PIN'', ''OUT_EN_SEL'', ''INLINE_OUT_EN'', ''OUT_STICKY'', ''WRAP_TOP'',
    ''WRAP_BOTTOM'', ''STATUS_SEL'', ''STATUS_N''}"
  by (simp add: PIO_SM0_EXECCTRL_def hw_register_def field_def enum_field_def)

lemma shift_names: "set (map f_name (r_fields PIO_SM0_SHIFTCTRL)) = {''FJOIN_RX'', ''FJOIN_TX'',
    ''PULL_THRESH'', ''PUSH_THRESH'', ''OUT_SHIFTDIR'', ''IN_SHIFTDIR'', ''AUTOPULL'', ''AUTOPUSH''}"
  by (simp add: PIO_SM0_SHIFTCTRL_def hw_register_def field_def)

lemma pin_widths:
  "f_width (the_field PIO_SM0_PINCTRL ''SIDESET_COUNT'') = 3" "f_width (the_field PIO_SM0_PINCTRL ''SET_COUNT'') = 3"
  "f_width (the_field PIO_SM0_PINCTRL ''OUT_COUNT'') = 6" "f_width (the_field PIO_SM0_PINCTRL ''IN_BASE'') = 5"
  "f_width (the_field PIO_SM0_PINCTRL ''SIDESET_BASE'') = 5" "f_width (the_field PIO_SM0_PINCTRL ''SET_BASE'') = 5"
  "f_width (the_field PIO_SM0_PINCTRL ''OUT_BASE'') = 5"
  by (simp_all add: the_field_def f_width_def PIO_SM0_PINCTRL_def hw_register_def field_def)

lemma exec_widths:
  "f_width (the_field PIO_SM0_EXECCTRL ''SIDE_EN'') = 1" "f_width (the_field PIO_SM0_EXECCTRL ''SIDE_PINDIR'') = 1"
  "f_width (the_field PIO_SM0_EXECCTRL ''JMP_PIN'') = 5" "f_width (the_field PIO_SM0_EXECCTRL ''OUT_EN_SEL'') = 5"
  "f_width (the_field PIO_SM0_EXECCTRL ''INLINE_OUT_EN'') = 1" "f_width (the_field PIO_SM0_EXECCTRL ''OUT_STICKY'') = 1"
  "f_width (the_field PIO_SM0_EXECCTRL ''WRAP_TOP'') = 5" "f_width (the_field PIO_SM0_EXECCTRL ''WRAP_BOTTOM'') = 5"
  "f_width (the_field PIO_SM0_EXECCTRL ''STATUS_SEL'') = 1" "f_width (the_field PIO_SM0_EXECCTRL ''STATUS_N'') = 4"
  by (simp_all add: the_field_def f_width_def PIO_SM0_EXECCTRL_def hw_register_def field_def enum_field_def)

lemma shift_widths:
  "f_width (the_field PIO_SM0_SHIFTCTRL ''FJOIN_RX'') = 1" "f_width (the_field PIO_SM0_SHIFTCTRL ''FJOIN_TX'') = 1"
  "f_width (the_field PIO_SM0_SHIFTCTRL ''PULL_THRESH'') = 5" "f_width (the_field PIO_SM0_SHIFTCTRL ''PUSH_THRESH'') = 5"
  "f_width (the_field PIO_SM0_SHIFTCTRL ''OUT_SHIFTDIR'') = 1" "f_width (the_field PIO_SM0_SHIFTCTRL ''IN_SHIFTDIR'') = 1"
  "f_width (the_field PIO_SM0_SHIFTCTRL ''AUTOPULL'') = 1" "f_width (the_field PIO_SM0_SHIFTCTRL ''AUTOPUSH'') = 1"
  by (simp_all add: the_field_def f_width_def PIO_SM0_SHIFTCTRL_def hw_register_def field_def)

definition put_pin :: "string \<Rightarrow> u32 \<Rightarrow> pio_sm_config \<Rightarrow> pio_sm_config" where
  "put_pin n v c = c\<lparr>pinctrl := put_named PIO_SM0_PINCTRL n v (pinctrl c)\<rparr>"

definition put_exec :: "string \<Rightarrow> u32 \<Rightarrow> pio_sm_config \<Rightarrow> pio_sm_config" where
  "put_exec n v c = c\<lparr>execctrl := put_named PIO_SM0_EXECCTRL n v (execctrl c)\<rparr>"

definition put_shift :: "string \<Rightarrow> u32 \<Rightarrow> pio_sm_config \<Rightarrow> pio_sm_config" where
  "put_shift n v c = c\<lparr>shiftctrl := put_named PIO_SM0_SHIFTCTRL n v (shiftctrl c)\<rparr>"

lemma small_fits: "v < 32 \<Longrightarrow> fits 5 v" "v \<le> 32 \<Longrightarrow> fits 6 v" "v \<le> 5 \<Longrightarrow> fits 3 v"
  "fits 1 (bool_to_bit b)" "fits 5 (v AND 31)" "fits (Suc 0) (bool_to_bit b)"
proof -
  have "v AND 31 = take_bit 5 v" by (simp add: take_bit_eq_mask mask_eq_exp_minus_1)
  then show "fits 5 (v AND 31)" using take_bit_nat_less_exp [of 5 "unat v"] by (simp add: fits_def unsigned_take_bit_eq)
qed (simp_all add: fits_def word_less_nat_alt word_le_nat_alt bool_to_bit_def)

lemma pin_settings:
  assumes "base < 32" and "n \<le> 32" and "k \<le> 5"
  shows "sm_config_set_out_pins base n c = put_pin ''OUT_COUNT'' n (put_pin ''OUT_BASE'' base c)"
    and "sm_config_set_set_pins base k c = put_pin ''SET_COUNT'' k (put_pin ''SET_BASE'' base c)"
    and "sm_config_set_in_pins base c = put_pin ''IN_BASE'' base c"
    and "sm_config_set_sideset_pins base c = put_pin ''SIDESET_BASE'' base c"
proof -
  note fit = small_fits(1) [OF assms(1)] small_fits(2) [OF assms(2)] small_fits(3) [OF assms(3)]
  show "sm_config_set_out_pins base n c = put_pin ''OUT_COUNT'' n (put_pin ''OUT_BASE'' base c)"
    unfolding sm_config_set_out_pins_def
    by (subst pinctrl_reg.replace_named_two) (simp_all add: pin_names pin_widths fit put_pin_def del: set_map list.set_map)
  show "sm_config_set_set_pins base k c = put_pin ''SET_COUNT'' k (put_pin ''SET_BASE'' base c)"
    unfolding sm_config_set_set_pins_def
    by (subst pinctrl_reg.replace_named_two) (simp_all add: pin_names pin_widths fit put_pin_def del: set_map list.set_map)
  show "sm_config_set_in_pins base c = put_pin ''IN_BASE'' base c"
    unfolding sm_config_set_in_pins_def
    by (subst pinctrl_reg.replace_named) (simp_all add: pin_names pin_widths fit put_pin_def del: set_map list.set_map)
  show "sm_config_set_sideset_pins base c = put_pin ''SIDESET_BASE'' base c"
    unfolding sm_config_set_sideset_pins_def
    by (subst pinctrl_reg.replace_named) (simp_all add: pin_names pin_widths fit put_pin_def del: set_map list.set_map)
qed


lemma exec_settings:
  assumes "target < 32" and "upper < 32" and "k \<le> 5"
  shows "sm_config_set_sideset k optional pindirs c = put_exec ''SIDE_PINDIR'' (bool_to_bit pindirs)
      (put_exec ''SIDE_EN'' (bool_to_bit optional) (put_pin ''SIDESET_COUNT'' k c))"
    and "sm_config_set_wrap target upper c = put_exec ''WRAP_TOP'' upper (put_exec ''WRAP_BOTTOM'' target c)"
    and "sm_config_set_jmp_pin target c = put_exec ''JMP_PIN'' target c"
    and "sm_config_set_out_special sticky has i c = put_exec ''OUT_EN_SEL'' (take_bit 5 i)
      (put_exec ''INLINE_OUT_EN'' (bool_to_bit has) (put_exec ''OUT_STICKY'' (bool_to_bit sticky) c))"
    and "sm_config_set_mov_status sel i c = put_exec ''STATUS_N'' (take_bit 4 i)
      (put_exec ''STATUS_SEL'' (status_value sel) c)"
proof -
  note fit = small_fits(1) [OF assms(1)] small_fits(1) [OF assms(2)] small_fits(3) [OF assms(3)] small_fits(4,6)
  show "sm_config_set_sideset k optional pindirs c = put_exec ''SIDE_PINDIR'' (bool_to_bit pindirs)
      (put_exec ''SIDE_EN'' (bool_to_bit optional) (put_pin ''SIDESET_COUNT'' k c))"
    unfolding sm_config_set_sideset_def
    by (subst execctrl_reg.replace_named_two, simp_all add: exec_names exec_widths fit del: set_map list.set_map)
      (subst pinctrl_reg.replace_named, simp_all add: pin_names pin_widths fit put_pin_def put_exec_def
        del: set_map list.set_map)
  show "sm_config_set_wrap target upper c = put_exec ''WRAP_TOP'' upper (put_exec ''WRAP_BOTTOM'' target c)"
    unfolding sm_config_set_wrap_def
    by (subst execctrl_reg.replace_named_two) (simp_all add: exec_names exec_widths fit put_exec_def
        del: set_map list.set_map)
  show "sm_config_set_jmp_pin target c = put_exec ''JMP_PIN'' target c"
    unfolding sm_config_set_jmp_pin_def
    by (subst execctrl_reg.replace_named) (simp_all add: exec_names exec_widths fit put_exec_def
        del: set_map list.set_map)
  have sel: "push_bit (reg_lsb PIO_SM0_EXECCTRL ''OUT_EN_SEL'') i AND reg_bits PIO_SM0_EXECCTRL ''OUT_EN_SEL''
      = push_bit (reg_lsb PIO_SM0_EXECCTRL ''OUT_EN_SEL'') (take_bit 5 i)" "fits 5 (take_bit 5 i)"
    using execctrl_reg.masked_value [of "''OUT_EN_SEL''" i] by (simp_all add: exec_names exec_widths del: set_map list.set_map)
  show "sm_config_set_out_special sticky has i c = put_exec ''OUT_EN_SEL'' (take_bit 5 i)
      (put_exec ''INLINE_OUT_EN'' (bool_to_bit has) (put_exec ''OUT_STICKY'' (bool_to_bit sticky) c))"
    unfolding sm_config_set_out_special_def sel(1)
    by (subst execctrl_reg.replace_named_three) (simp_all add: exec_names exec_widths fit sel(2) put_exec_def
        del: set_map list.set_map)
  have "take_bit 1 (status_value sel) = status_value sel" by (cases sel) simp_all
  then have status: "push_bit (reg_lsb PIO_SM0_EXECCTRL ''STATUS_SEL'') (status_value sel) AND reg_bits PIO_SM0_EXECCTRL ''STATUS_SEL''
      = push_bit (reg_lsb PIO_SM0_EXECCTRL ''STATUS_SEL'') (status_value sel)" "fits 1 (status_value sel)"
    "push_bit (reg_lsb PIO_SM0_EXECCTRL ''STATUS_N'') i AND reg_bits PIO_SM0_EXECCTRL ''STATUS_N''
      = push_bit (reg_lsb PIO_SM0_EXECCTRL ''STATUS_N'') (take_bit 4 i)" "fits 4 (take_bit 4 i)"
    using execctrl_reg.masked_value [of "''STATUS_SEL''" "status_value sel"]
      execctrl_reg.masked_value [of "''STATUS_N''" i]
    by (simp_all add: exec_names exec_widths del: set_map list.set_map)
  show "sm_config_set_mov_status sel i c = put_exec ''STATUS_N'' (take_bit 4 i)
      (put_exec ''STATUS_SEL'' (status_value sel) c)"
    unfolding sm_config_set_mov_status_def status(1,3)
    by (subst execctrl_reg.replace_named_two) (simp_all add: exec_names exec_widths status(2) [unfolded One_nat_def] status(4) put_exec_def
        del: set_map list.set_map)
qed

lemma shift_settings:
  "sm_config_set_in_shift right auto t c = put_shift ''PUSH_THRESH'' (t AND 31)
     (put_shift ''AUTOPUSH'' (bool_to_bit auto) (put_shift ''IN_SHIFTDIR'' (bool_to_bit right) c))"
  "sm_config_set_out_shift right auto t c = put_shift ''PULL_THRESH'' (t AND 31)
     (put_shift ''AUTOPULL'' (bool_to_bit auto) (put_shift ''OUT_SHIFTDIR'' (bool_to_bit right) c))"
  "sm_config_set_fifo_join join c = put_shift ''FJOIN_RX'' (bool_to_bit (join = PIO_FIFO_JOIN_RX))
     (put_shift ''FJOIN_TX'' (bool_to_bit (join = PIO_FIFO_JOIN_TX)) c)"
proof -
  show "sm_config_set_in_shift right auto t c = put_shift ''PUSH_THRESH'' (t AND 31)
     (put_shift ''AUTOPUSH'' (bool_to_bit auto) (put_shift ''IN_SHIFTDIR'' (bool_to_bit right) c))"
    unfolding sm_config_set_in_shift_def
    by (subst shiftctrl_reg.replace_named_three) (simp_all add: shift_names shift_widths small_fits(4-6)
        put_shift_def del: set_map list.set_map)
  show "sm_config_set_out_shift right auto t c = put_shift ''PULL_THRESH'' (t AND 31)
     (put_shift ''AUTOPULL'' (bool_to_bit auto) (put_shift ''OUT_SHIFTDIR'' (bool_to_bit right) c))"
    unfolding sm_config_set_out_shift_def
    by (subst shiftctrl_reg.replace_named_three) (simp_all add: shift_names shift_widths small_fits(4-6)
        put_shift_def del: set_map list.set_map)
  have "reg_lsb PIO_SM0_SHIFTCTRL ''FJOIN_TX'' = 30" "reg_lsb PIO_SM0_SHIFTCTRL ''FJOIN_RX'' = 31"
    by (simp_all add: reg_lsb_def the_field_def PIO_SM0_SHIFTCTRL_def hw_register_def field_def)
  then have join: "push_bit (reg_lsb PIO_SM0_SHIFTCTRL ''FJOIN_TX'') (join_value join)
      = push_bit (reg_lsb PIO_SM0_SHIFTCTRL ''FJOIN_TX'') (bool_to_bit (join = PIO_FIFO_JOIN_TX))
        OR push_bit (reg_lsb PIO_SM0_SHIFTCTRL ''FJOIN_RX'') (bool_to_bit (join = PIO_FIFO_JOIN_RX))"
    by (cases join) (simp_all add: bool_to_bit_def)
  show "sm_config_set_fifo_join join c = put_shift ''FJOIN_RX'' (bool_to_bit (join = PIO_FIFO_JOIN_RX))
     (put_shift ''FJOIN_TX'' (bool_to_bit (join = PIO_FIFO_JOIN_TX)) c)"
    unfolding sm_config_set_fifo_join_def join
    by (subst shiftctrl_reg.replace_named_two) (simp_all add: shift_names shift_widths small_fits(4,6)
        put_shift_def del: set_map list.set_map)
qed


text \<open>
  Within the range of the integer part, the divider is the given one rounded down to a multiple of
  1/256. The greatest value the header allows, 65536, has no defined conversion.
\<close>

lemma clkdiv_rounds_down:
  assumes "1 \<le> d" and "d < 65536"
  shows "\<exists>i f. pio_calculate_clkdiv_from_float d = Some (i, f) \<and> 256 * uint i + uint f = \<lfloor>256 * d\<rfloor>"
proof -
  have fl: "1 \<le> \<lfloor>d\<rfloor>" "\<lfloor>d\<rfloor> < 65536" using assms by (simp_all add: le_floor_iff floor_less_iff)
  have i: "uint (word_of_int \<lfloor>d\<rfloor> :: u16) = \<lfloor>d\<rfloor>" using fl by (intro word_of_int_inverse) simp_all
  then have nz: "(word_of_int \<lfloor>d\<rfloor> :: u16) \<noteq> 0" using fl(1) by (metis not_one_le_zero unsigned_0)
  define r where "r = (d - of_int \<lfloor>d\<rfloor>) * 256"
  have "0 \<le> r" "r < 256" using floor_correct [of d] by (simp_all add: r_def)
  then have "0 \<le> \<lfloor>r\<rfloor>" "\<lfloor>r\<rfloor> < 256" by (simp_all add: le_floor_iff floor_less_iff)
  then have f: "uint (word_of_int \<lfloor>r\<rfloor> :: u8) = \<lfloor>r\<rfloor>" by (intro word_of_int_inverse) simp_all
  have "256 * d = r + of_int (256 * \<lfloor>d\<rfloor>)" by (simp add: r_def algebra_simps)
  then have "\<lfloor>256 * d\<rfloor> = \<lfloor>r\<rfloor> + 256 * \<lfloor>d\<rfloor>" by (simp only: floor_add_int [symmetric])
  with assms i nz f show ?thesis by (auto simp: pio_calculate_clkdiv_from_float_def r_def Let_def)
qed

lemma clkdiv_65536: "pio_calculate_clkdiv_from_float 65536 = None"
  by (simp add: pio_calculate_clkdiv_from_float_def)

section \<open>Properties\<close>

text \<open>
  For parameters the header allows, every function that builds the configuration of a state
  machine writes exactly the fields it is for, cut to their width where the code does so; the
  default configuration is the reset state of the registers, but for the number of pins that SET
  drives.
\<close>

theorem pio_config_writes_fields:
  assumes "a < 32" and "b < 32" and "n \<le> 32" and "k \<le> 5"
  shows "sm_config_set_out_pins a n c = put_pin ''OUT_COUNT'' n (put_pin ''OUT_BASE'' a c)
    \<and> sm_config_set_set_pins a k c = put_pin ''SET_COUNT'' k (put_pin ''SET_BASE'' a c)
    \<and> sm_config_set_in_pins a c = put_pin ''IN_BASE'' a c
    \<and> sm_config_set_sideset_pins a c = put_pin ''SIDESET_BASE'' a c
    \<and> sm_config_set_sideset k p q c = put_exec ''SIDE_PINDIR'' (bool_to_bit q)
        (put_exec ''SIDE_EN'' (bool_to_bit p) (put_pin ''SIDESET_COUNT'' k c))
    \<and> sm_config_set_wrap a b c = put_exec ''WRAP_TOP'' b (put_exec ''WRAP_BOTTOM'' a c)
    \<and> sm_config_set_jmp_pin a c = put_exec ''JMP_PIN'' a c
    \<and> sm_config_set_in_shift p q t c = put_shift ''PUSH_THRESH'' (t AND 31)
        (put_shift ''AUTOPUSH'' (bool_to_bit q) (put_shift ''IN_SHIFTDIR'' (bool_to_bit p) c))
    \<and> sm_config_set_out_shift p q t c = put_shift ''PULL_THRESH'' (t AND 31)
        (put_shift ''AUTOPULL'' (bool_to_bit q) (put_shift ''OUT_SHIFTDIR'' (bool_to_bit p) c))
    \<and> sm_config_set_fifo_join join c = put_shift ''FJOIN_RX'' (bool_to_bit (join = PIO_FIFO_JOIN_RX))
        (put_shift ''FJOIN_TX'' (bool_to_bit (join = PIO_FIFO_JOIN_TX)) c)
    \<and> sm_config_set_out_special p q t c = put_exec ''OUT_EN_SEL'' (take_bit 5 t)
        (put_exec ''INLINE_OUT_EN'' (bool_to_bit q) (put_exec ''OUT_STICKY'' (bool_to_bit p) c))
    \<and> sm_config_set_mov_status sel t c = put_exec ''STATUS_N'' (take_bit 4 t)
        (put_exec ''STATUS_SEL'' (status_value sel) c)
    \<and> map Some [clkdiv pio_get_default_sm_config, execctrl pio_get_default_sm_config,
         shiftctrl pio_get_default_sm_config, pinctrl (put_pin ''SET_COUNT'' 5 pio_get_default_sm_config)]
       = map r_reset [PIO_SM0_CLKDIV, PIO_SM0_EXECCTRL, PIO_SM0_SHIFTCTRL, PIO_SM0_PINCTRL]"
proof -
  have default: "map Some [clkdiv pio_get_default_sm_config, execctrl pio_get_default_sm_config,
         shiftctrl pio_get_default_sm_config, pinctrl (put_pin ''SET_COUNT'' 5 pio_get_default_sm_config)]
       = map r_reset [PIO_SM0_CLKDIV, PIO_SM0_EXECCTRL, PIO_SM0_SHIFTCTRL, PIO_SM0_PINCTRL]"
    by (simp add: pio_get_default_sm_config_def sm_config_set_clkdiv_int_frac_def sm_config_set_wrap_def
        sm_config_set_in_shift_def sm_config_set_out_shift_def put_pin_def put_named_def set_field_def
        hw_write_masked_def hw_xor_bits_def bool_to_bit_def reg_bits_def reg_lsb_def the_field_def
        PIO_SM0_CLKDIV_def PIO_SM0_EXECCTRL_def PIO_SM0_SHIFTCTRL_def PIO_SM0_PINCTRL_def
        hw_register_def field_def enum_field_def)
  show ?thesis
    by (intro conjI pin_settings [OF assms(1,3,4)] exec_settings [OF assms(1,2,4)] shift_settings default)
qed

theorem pio_config_writes_fields_witness:
  "sm_config_set_out_pins 3 32 pio_get_default_sm_config
    = put_pin ''OUT_COUNT'' 32 (put_pin ''OUT_BASE'' 3 pio_get_default_sm_config)"
  using pio_config_writes_fields [of 3 0 32 5] by simp

text \<open>
  The two interrupt lines of a block. Enabling one source on line 0 or 1 changes the enable
  register of that line. Enabling a mask of sources changes the register of the other line.
\<close>

theorem pio_irq_mask_goes_to_other_line:
  "pio_inte0 (pio_set_irqn_source_enabled 0 n e p) = (if e then pio_inte0 p OR push_bit (unat n) 1
      else pio_inte0 p AND NOT (push_bit (unat n) 1))
   \<and> pio_inte1 (pio_set_irqn_source_enabled 0 n e p) = pio_inte1 p
   \<and> pio_inte1 (pio_set_irqn_source_enabled 1 n e p) = (if e then pio_inte1 p OR push_bit (unat n) 1
      else pio_inte1 p AND NOT (push_bit (unat n) 1))
   \<and> pio_inte0 (pio_set_irqn_source_enabled 1 n e p) = pio_inte0 p
   \<and> pio_inte0 (pio_set_irqn_source_mask_enabled 0 m e p) = pio_inte0 p
   \<and> pio_inte1 (pio_set_irqn_source_mask_enabled 0 m e p) = (if e then pio_inte1 p OR m else pio_inte1 p AND NOT m)
   \<and> pio_inte1 (pio_set_irqn_source_mask_enabled 1 m e p) = pio_inte1 p
   \<and> pio_inte0 (pio_set_irqn_source_mask_enabled 1 m e p) = (if e then pio_inte0 p OR m else pio_inte0 p AND NOT m)"
  by (simp add: pio_set_irqn_source_enabled_def pio_set_irqn_source_mask_enabled_def
      pio_set_irq0_source_enabled_def pio_set_irq1_source_enabled_def pio_set_irq0_source_mask_enabled_def
      pio_set_irq1_source_mask_enabled_def hw_set_bits_def hw_clear_bits_def)

end
