(* ===== verification/Cyw43_Spi.thy ===== *)
theory Cyw43_Spi
  imports Pio_Instructions Pio
begin

text \<open>
  The programs of the bus to the radio chip, cyw43_bus_pio_spi.pio.h: four programs for a state
  machine of the programmable I/O that shift bits out on the data pin, turn the pin around and
  shift bits in, with the clock as side set. The state machine that runs them is written here from
  the descriptions in hardware/pio_instructions.h and hardware/pio.h, as far as the programs need
  it; it takes its instructions from the words of the programs with the decoder of
  Pio\_Instructions.
\<close>

section \<open>The programs\<close>

text \<open>
  The struct of hardware/pio.h with the field \<open>pio_version\<close> that the header of the programs also
  sets; a pointer to the words is the list of the words.
\<close>

record pio_program =
  instructions :: "u16 list"
  program_length :: u8
  origin :: "8 word"
  pio_version :: u8

definition spi_gap0_sample1_wrap_target :: u32 where "spi_gap0_sample1_wrap_target = 0"
definition spi_gap0_sample1_wrap :: u32 where "spi_gap0_sample1_wrap = 4"
definition spi_gap0_sample1_pio_version :: u8 where "spi_gap0_sample1_pio_version = 0"
definition spi_gap0_sample1_offset_lp1_end :: u32 where "spi_gap0_sample1_offset_lp1_end = 2"
definition spi_gap0_sample1_offset_end :: u32 where "spi_gap0_sample1_offset_end = 5"

definition spi_gap0_sample1_program_instructions :: "u16 list" where
  "spi_gap0_sample1_program_instructions = [0x6001, 0x1040, 0xe080, 0x5001, 0x0083]"

definition spi_gap0_sample1_program :: pio_program where
  "spi_gap0_sample1_program = \<lparr>instructions = spi_gap0_sample1_program_instructions,
     program_length = 5, origin = -1, pio_version = spi_gap0_sample1_pio_version\<rparr>"

definition spi_gap0_sample1_program_get_default_config :: "u32 \<Rightarrow> pio_sm_config" where
  "spi_gap0_sample1_program_get_default_config offset =
     (let c = pio_get_default_sm_config;
          c = sm_config_set_wrap (offset + spi_gap0_sample1_wrap_target) (offset + spi_gap0_sample1_wrap) c
      in sm_config_set_sideset 1 False False c)"

definition spi_gap01_sample0_wrap_target :: u32 where "spi_gap01_sample0_wrap_target = 0"
definition spi_gap01_sample0_wrap :: u32 where "spi_gap01_sample0_wrap = 5"
definition spi_gap01_sample0_pio_version :: u8 where "spi_gap01_sample0_pio_version = 0"
definition spi_gap01_sample0_offset_lp1_end :: u32 where "spi_gap01_sample0_offset_lp1_end = 2"
definition spi_gap01_sample0_offset_end :: u32 where "spi_gap01_sample0_offset_end = 6"

definition spi_gap01_sample0_program_instructions :: "u16 list" where
  "spi_gap01_sample0_program_instructions = [0x6001, 0x1040, 0xe080, 0xb042, 0x4001, 0x1084]"

definition spi_gap01_sample0_program :: pio_program where
  "spi_gap01_sample0_program = \<lparr>instructions = spi_gap01_sample0_program_instructions,
     program_length = 6, origin = -1, pio_version = spi_gap01_sample0_pio_version\<rparr>"

definition spi_gap01_sample0_program_get_default_config :: "u32 \<Rightarrow> pio_sm_config" where
  "spi_gap01_sample0_program_get_default_config offset =
     (let c = pio_get_default_sm_config;
          c = sm_config_set_wrap (offset + spi_gap01_sample0_wrap_target) (offset + spi_gap01_sample0_wrap) c
      in sm_config_set_sideset 1 False False c)"

definition spi_gap010_sample1_wrap_target :: u32 where "spi_gap010_sample1_wrap_target = 0"
definition spi_gap010_sample1_wrap :: u32 where "spi_gap010_sample1_wrap = 6"
definition spi_gap010_sample1_pio_version :: u8 where "spi_gap010_sample1_pio_version = 0"
definition spi_gap010_sample1_offset_lp1_end :: u32 where "spi_gap010_sample1_offset_lp1_end = 2"
definition spi_gap010_sample1_offset_end :: u32 where "spi_gap010_sample1_offset_end = 7"

definition spi_gap010_sample1_program_instructions :: "u16 list" where
  "spi_gap010_sample1_program_instructions =
     [0x6001, 0x1040, 0xe080, 0xb042, 0xa042, 0x5001, 0x0085]"

definition spi_gap010_sample1_program :: pio_program where
  "spi_gap010_sample1_program = \<lparr>instructions = spi_gap010_sample1_program_instructions,
     program_length = 7, origin = -1, pio_version = spi_gap010_sample1_pio_version\<rparr>"

definition spi_gap010_sample1_program_get_default_config :: "u32 \<Rightarrow> pio_sm_config" where
  "spi_gap010_sample1_program_get_default_config offset =
     (let c = pio_get_default_sm_config;
          c = sm_config_set_wrap (offset + spi_gap010_sample1_wrap_target) (offset + spi_gap010_sample1_wrap) c
      in sm_config_set_sideset 1 False False c)"

definition spi_gap0_sample1_regular_wrap_target :: u32 where "spi_gap0_sample1_regular_wrap_target = 0"
definition spi_gap0_sample1_regular_wrap :: u32 where "spi_gap0_sample1_regular_wrap = 4"
definition spi_gap0_sample1_regular_pio_version :: u8 where "spi_gap0_sample1_regular_pio_version = 0"
definition spi_gap0_sample1_regular_offset_lp1_end :: u32 where "spi_gap0_sample1_regular_offset_lp1_end = 2"
definition spi_gap0_sample1_regular_offset_end :: u32 where "spi_gap0_sample1_regular_offset_end = 5"

definition spi_gap0_sample1_regular_program_instructions :: "u16 list" where
  "spi_gap0_sample1_regular_program_instructions = [0x6001, 0x1040, 0xe080, 0x5001, 0x0083]"

definition spi_gap0_sample1_regular_program :: pio_program where
  "spi_gap0_sample1_regular_program = \<lparr>instructions = spi_gap0_sample1_regular_program_instructions,
     program_length = 5, origin = -1, pio_version = spi_gap0_sample1_regular_pio_version\<rparr>"

definition spi_gap0_sample1_regular_program_get_default_config :: "u32 \<Rightarrow> pio_sm_config" where
  "spi_gap0_sample1_regular_program_get_default_config offset =
     (let c = pio_get_default_sm_config;
          c = sm_config_set_wrap (offset + spi_gap0_sample1_regular_wrap_target)
                (offset + spi_gap0_sample1_regular_wrap) c
      in sm_config_set_sideset 1 False False c)"

section \<open>The state machine\<close>

text \<open>
  Registers, the two shift registers with the number of bits shifted so far, what the TX FIFO still
  holds and what has gone through the RX FIFO, and the levels of the pins. The shift registers shift
  left and are refilled and emptied at 32 bits, as the bus driver sets them up.
\<close>

record machine =
  mpc :: nat
  reg_x :: u32
  reg_y :: u32
  osr :: u32
  osr_count :: nat
  tx_fifo :: "u32 list"
  isr :: u32
  isr_count :: nat
  rx_words :: "u32 list"
  clock_pin :: bool
  data_pin :: bool
  data_output :: bool
  cycles :: nat

text \<open>A full count is an empty register: it is refilled as soon as the FIFO has a word.\<close>

definition refill :: "machine \<Rightarrow> machine" where
  "refill m = (case tx_fifo m of
      [] \<Rightarrow> m
    | w # ws \<Rightarrow> if osr_count m = 32 then m\<lparr>osr := w, osr_count := 0, tx_fifo := ws\<rparr> else m)"

definition push_isr :: "machine \<Rightarrow> machine" where
  "push_isr m =
     (if isr_count m = 32 then m\<lparr>isr := 0, isr_count := 0, rx_words := rx_words m @ [isr m]\<rparr> else m)"

text \<open>Whether the condition of a jump holds, and its effect.\<close>

fun jump_taken :: "jump_condition \<Rightarrow> machine \<Rightarrow> (bool \<times> machine) option" where
  "jump_taken Always m = Some (True, m)"
| "jump_taken Not_x m = Some (reg_x m = 0, m)"
| "jump_taken X_dec m = Some (reg_x m \<noteq> 0, m\<lparr>reg_x := reg_x m - 1\<rparr>)"
| "jump_taken Not_y m = Some (reg_y m = 0, m)"
| "jump_taken Y_dec m = Some (reg_y m \<noteq> 0, m\<lparr>reg_y := reg_y m - 1\<rparr>)"
| "jump_taken X_ne_y m = Some (reg_x m \<noteq> reg_y m, m)"
| "jump_taken Pin_high m = None"
| "jump_taken Not_osre m = Some (osr_count m < 32, m)"

datatype outcome = Next | Goto nat | Stall

text \<open>
  One instruction; \<open>pin\<close> is the level on the data pin in each cycle. Instructions the programs do not
  use are \<open>None\<close>. An empty shift register makes \<open>out\<close> wait.
\<close>

fun exec_instruction :: "(nat \<Rightarrow> bool) \<Rightarrow> instruction \<Rightarrow> machine \<Rightarrow> (outcome \<times> machine) option" where
  "exec_instruction pin (Jmp c addr) m =
     map_option (\<lambda>(taken, m). (if taken then Goto (unat addr) else Next, refill m)) (jump_taken c m)"
| "exec_instruction pin (Out pio_pins n) m =
     (if n \<noteq> 1 then None
      else if osr_count m = 32 then Some (Stall, refill m)
      else Some (Next, refill (m\<lparr>data_pin := bit (osr m) 31, osr := push_bit 1 (osr m),
             osr_count := osr_count m + 1\<rparr>)))"
| "exec_instruction pin (In pio_pins n) m =
     (if n \<noteq> 1 then None
      else Some (Next, refill (push_isr (m\<lparr>isr := push_bit 1 (isr m) OR of_bool (pin (cycles m)),
             isr_count := isr_count m + 1\<rparr>))))"
| "exec_instruction pin (Set pio_pindirs v) m = Some (Next, refill (m\<lparr>data_output := bit v 0\<rparr>))"
| "exec_instruction pin (Mov pio_y Plain pio_y) m = Some (Next, refill m)"
| "exec_instruction pin _ m = None"

text \<open>
  One cycle with the configuration of the state machine: the side set drives the clock pin, also
  when the instruction waits; the configured last instruction is followed by the configured first.
  Delays and optional side sets are not used here.
\<close>

definition config_field :: "string \<Rightarrow> pio_sm_config \<Rightarrow> u32" where
  "config_field n c = get_named PIO_SM0_EXECCTRL n (execctrl c)"

definition machine_step :: "pio_sm_config \<Rightarrow> (nat \<Rightarrow> u32) \<Rightarrow> (nat \<Rightarrow> bool) \<Rightarrow> machine \<Rightarrow> machine option" where
  "machine_step c imem pin m =
     (let w = imem (mpc m) in
      if get_named PIO_SM0_PINCTRL ''SIDESET_COUNT'' (pinctrl c) \<noteq> 1
        \<or> config_field ''SIDE_EN'' c \<noteq> 0 \<or> config_field ''SIDE_PINDIR'' c \<noteq> 0 \<or> take_bit 4 (delay_of w) \<noteq> 0
      then None
      else case decode w of None \<Rightarrow> None | Some i \<Rightarrow>
           case exec_instruction pin i m of None \<Rightarrow> None | Some (what, m') \<Rightarrow>
             Some (m'\<lparr>clock_pin := bit (delay_of w) 4, cycles := cycles m + 1,
               mpc := (case what of
                   Stall \<Rightarrow> mpc m
                 | Goto a \<Rightarrow> a
                 | Next \<Rightarrow> if mpc m = unat (config_field ''WRAP_TOP'' c)
                           then unat (config_field ''WRAP_BOTTOM'' c) else mpc m + 1)\<rparr>))"

text \<open>What a logic analyser sees in a cycle: clock, data, and whether the machine drives the data pin.\<close>

definition pins :: "machine \<Rightarrow> bool \<times> bool \<times> bool" where
  "pins m = (clock_pin m, data_pin m, data_output m)"

fun machine_run :: "pio_sm_config \<Rightarrow> (nat \<Rightarrow> u32) \<Rightarrow> (nat \<Rightarrow> bool) \<Rightarrow> nat \<Rightarrow> machine
    \<Rightarrow> (machine \<times> (bool \<times> bool \<times> bool) list) option" where
  "machine_run c imem pin 0 m = Some (m, [])"
| "machine_run c imem pin (Suc n) m =
     (case machine_step c imem pin m of
        None \<Rightarrow> None
      | Some m \<Rightarrow> map_option (\<lambda>(m', t). (m', pins m # t)) (machine_run c imem pin n m))"

text \<open>
  A program in the instruction memory: its words from the offset on, the targets of the jumps moved
  by the offset.
\<close>

definition relocate :: "nat \<Rightarrow> u32 \<Rightarrow> u32" where
  "relocate offset w = (if opcode w = 0 then w + of_nat offset else w)"

definition program_loaded :: "u16 list \<Rightarrow> nat \<Rightarrow> (nat \<Rightarrow> u32) \<Rightarrow> bool" where
  "program_loaded ws offset imem \<longleftrightarrow> offset + length ws \<le> 32
     \<and> (\<forall>i < length ws. imem (offset + i) = relocate offset (ucast (ws ! i)))"

section \<open>What the words mean\<close>

text \<open>The assembler's words are those of the encoding functions of the SDK.\<close>

lemma programs_assembled:
  "map ucast spi_gap0_sample1_program_instructions =
     [pio_encode_out False pio_pins 1, pio_encode_jmp_x_dec 0 OR pio_encode_sideset 1 1,
      pio_encode_set False pio_pindirs 0, pio_encode_in False pio_pins 1 OR pio_encode_sideset 1 1,
      pio_encode_jmp_y_dec 3]"
  "map ucast spi_gap01_sample0_program_instructions =
     [pio_encode_out False pio_pins 1, pio_encode_jmp_x_dec 0 OR pio_encode_sideset 1 1,
      pio_encode_set False pio_pindirs 0, pio_encode_nop False OR pio_encode_sideset 1 1,
      pio_encode_in False pio_pins 1, pio_encode_jmp_y_dec 4 OR pio_encode_sideset 1 1]"
  "map ucast spi_gap010_sample1_program_instructions =
     [pio_encode_out False pio_pins 1, pio_encode_jmp_x_dec 0 OR pio_encode_sideset 1 1,
      pio_encode_set False pio_pindirs 0, pio_encode_nop False OR pio_encode_sideset 1 1,
      pio_encode_nop False, pio_encode_in False pio_pins 1 OR pio_encode_sideset 1 1,
      pio_encode_jmp_y_dec 5]"
  "spi_gap0_sample1_regular_program_instructions = spi_gap0_sample1_program_instructions"
  by code_simp+

lemma decode_words:
  "decode 0x6001 = Some (Out pio_pins 1)" "delay_of 0x6001 = 0"
  "decode 0xe080 = Some (Set pio_pindirs 0)" "delay_of 0xe080 = 0"
  "decode 0xb042 = Some (Mov pio_y Plain pio_y)" "delay_of 0xb042 = 16"
  "decode 0xa042 = Some (Mov pio_y Plain pio_y)" "delay_of 0xa042 = 0"
  "decode 0x5001 = Some (In pio_pins 1)" "delay_of 0x5001 = 16"
  "decode 0x4001 = Some (In pio_pins 1)" "delay_of 0x4001 = 0"
  by code_simp+

lemma decode_jumps:
  assumes "offset \<le> 27"
  shows "decode (relocate offset 0x1040) = Some (Jmp X_dec (of_nat offset))"
    "delay_of (relocate offset 0x1040) = 16"
    "decode (relocate offset 0x0083) = Some (Jmp Y_dec (of_nat (offset + 3)))"
    "delay_of (relocate offset 0x0083) = 0"
    "decode (relocate offset 0x1084) = Some (Jmp Y_dec (of_nat (offset + 4)))"
    "delay_of (relocate offset 0x1084) = 16"
    "offset \<le> 26 \<Longrightarrow> decode (relocate offset 0x0085) = Some (Jmp Y_dec (of_nat (offset + 5)))"
    "delay_of (relocate offset 0x0085) = 0"
proof -
  have all: "list_all (\<lambda>k. decode (relocate k 0x1040) = Some (Jmp X_dec (of_nat k))
    \<and> delay_of (relocate k 0x1040) = 16 \<and> delay_of (relocate k 0x0083) = 0
    \<and> delay_of (relocate k 0x1084) = 16 \<and> delay_of (relocate k 0x0085) = 0
    \<and> decode (relocate k 0x0083) = Some (Jmp Y_dec (of_nat (k + 3)))
    \<and> decode (relocate k 0x1084) = Some (Jmp Y_dec (of_nat (k + 4)))) [0..<28]"
    by code_simp
  have last: "list_all (\<lambda>k. decode (relocate k 0x0085) = Some (Jmp Y_dec (of_nat (k + 5)))) [0..<27]"
    by code_simp
  have "offset \<in> set [0..<28]" using assms by simp
  with all show "decode (relocate offset 0x1040) = Some (Jmp X_dec (of_nat offset))"
    "delay_of (relocate offset 0x1040) = 16" "delay_of (relocate offset 0x0083) = 0"
    "delay_of (relocate offset 0x1084) = 16" "delay_of (relocate offset 0x0085) = 0"
    "decode (relocate offset 0x0083) = Some (Jmp Y_dec (of_nat (offset + 3)))"
    "decode (relocate offset 0x1084) = Some (Jmp Y_dec (of_nat (offset + 4)))"
    unfolding list_all_iff by blast+
  assume "offset \<le> 26"
  then have "offset \<in> set [0..<27]" by simp
  with last show "decode (relocate offset 0x0085) = Some (Jmp Y_dec (of_nat (offset + 5)))"
    unfolding list_all_iff by blast
qed

text \<open>A configuration for the programs: one side-set bit for a level, and where the program wraps.\<close>

definition spi_config :: "pio_sm_config \<Rightarrow> nat \<Rightarrow> nat \<Rightarrow> bool" where
  "spi_config c lo hi \<longleftrightarrow> get_named PIO_SM0_PINCTRL ''SIDESET_COUNT'' (pinctrl c) = 1
     \<and> config_field ''SIDE_EN'' c = 0 \<and> config_field ''SIDE_PINDIR'' c = 0
     \<and> unat (config_field ''WRAP_TOP'' c) = hi \<and> unat (config_field ''WRAP_BOTTOM'' c) = lo"

lemma wrap_and_sideset:
  assumes "lo < 32" and "hi < 32"
  shows "spi_config (sm_config_set_sideset 1 False False (sm_config_set_wrap (of_nat lo) (of_nat hi) c)) lo hi"
proof -
  have less: "(of_nat lo :: u32) < 32" "(of_nat hi :: u32) < 32"
    using assms by (simp_all add: word_less_nat_alt unat_of_nat take_bit_nat_eq_self)
  have "sm_config_set_sideset 1 False False (sm_config_set_wrap (of_nat lo) (of_nat hi) c)
      = put_exec ''SIDE_PINDIR'' 0 (put_exec ''SIDE_EN'' 0 (put_pin ''SIDESET_COUNT'' 1
          (put_exec ''WRAP_TOP'' (of_nat hi) (put_exec ''WRAP_BOTTOM'' (of_nat lo) c))))"
    using exec_settings(1) [of 0 0 1 False False] exec_settings(2) [OF less, of 0]
    by (simp add: bool_to_bit_def)
  then show ?thesis
    using assms by (simp add: spi_config_def config_field_def put_exec_def put_pin_def execctrl_reg.get_put
        execctrl_reg.get_put_other pinctrl_reg.get_put exec_names pin_names exec_widths pin_widths
        small_fits less fits_def unat_of_nat take_bit_nat_eq_self word_less_nat_alt del: set_map list.set_map)
qed

lemma default_configs:
  shows "offset \<le> 27 \<Longrightarrow> spi_config (spi_gap0_sample1_program_get_default_config (of_nat offset)) offset (offset + 4)"
    and "offset \<le> 26 \<Longrightarrow> spi_config (spi_gap01_sample0_program_get_default_config (of_nat offset)) offset (offset + 5)"
    and "offset \<le> 25 \<Longrightarrow> spi_config (spi_gap010_sample1_program_get_default_config (of_nat offset)) offset (offset + 6)"
    and "offset \<le> 27 \<Longrightarrow> spi_config (spi_gap0_sample1_regular_program_get_default_config (of_nat offset)) offset (offset + 4)"
  using wrap_and_sideset [of offset "offset + 4"] wrap_and_sideset [of offset "offset + 5"]
    wrap_and_sideset [of offset "offset + 6"]
  by (simp_all add: Let_def spi_gap0_sample1_program_get_default_config_def
      spi_gap01_sample0_program_get_default_config_def spi_gap010_sample1_program_get_default_config_def
      spi_gap0_sample1_regular_program_get_default_config_def spi_gap0_sample1_wrap_target_def
      spi_gap0_sample1_wrap_def spi_gap01_sample0_wrap_target_def spi_gap01_sample0_wrap_def
      spi_gap010_sample1_wrap_target_def spi_gap010_sample1_wrap_def
      spi_gap0_sample1_regular_wrap_target_def spi_gap0_sample1_regular_wrap_def)

section \<open>The streams of bits behind the shift registers\<close>

definition word_bits :: "u32 \<Rightarrow> bool list" where
  "word_bits w = map (\<lambda>i. bit w (31 - i)) [0..<32]"

text \<open>The bits still to be sent, the most significant first, and the bits received.\<close>

definition out_stream :: "machine \<Rightarrow> bool list" where
  "out_stream m = map (\<lambda>i. bit (osr m) (31 - i)) [0..<32 - osr_count m] @ concat (map word_bits (tx_fifo m))"

definition in_stream :: "machine \<Rightarrow> bool list" where
  "in_stream m = concat (map word_bits (rx_words m))
     @ map (\<lambda>i. bit (isr m) (isr_count m - 1 - i)) [0..<isr_count m]"

text \<open>The registers are refilled and emptied in time: no instruction has to wait for a word that is there.\<close>

definition settled :: "machine \<Rightarrow> bool" where
  "settled m \<longleftrightarrow> osr_count m \<le> 32 \<and> (osr_count m = 32 \<longrightarrow> tx_fifo m = []) \<and> isr_count m < 32"

lemma refill_settled [simp]: "settled m \<Longrightarrow> refill m = m"
  by (auto simp: refill_def settled_def split: list.split)

lemma refill_frame [simp]:
  "mpc (refill m) = mpc m" "reg_x (refill m) = reg_x m" "reg_y (refill m) = reg_y m"
  "isr (refill m) = isr m" "isr_count (refill m) = isr_count m" "rx_words (refill m) = rx_words m"
  "clock_pin (refill m) = clock_pin m" "data_pin (refill m) = data_pin m"
  "data_output (refill m) = data_output m" "cycles (refill m) = cycles m"
  "out_stream (refill m) = out_stream m" "in_stream (refill m) = in_stream m"
  by (auto simp: refill_def out_stream_def in_stream_def word_bits_def split: list.split)

lemma refill_settles: "osr_count m \<le> 32 \<Longrightarrow> isr_count m < 32 \<Longrightarrow> settled (refill m)"
  by (auto simp: refill_def settled_def split: list.split)

lemma shifted_bit:
  fixes w :: u32
  shows "bit (w * 2) k \<longleftrightarrow> 0 < k \<and> k < 32 \<and> bit w (k - 1)"
    and "bit (2 * w) k \<longleftrightarrow> 0 < k \<and> k < 32 \<and> bit w (k - 1)"
proof -
  have "bit (push_bit 1 w) k \<longleftrightarrow> 0 < k \<and> k < 32 \<and> bit w (k - 1)"
    by (simp only: bit_push_bit_iff) auto
  then show "bit (w * 2) k \<longleftrightarrow> 0 < k \<and> k < 32 \<and> bit w (k - 1)" by (simp add: push_bit_eq_mult)
  then show "bit (2 * w) k \<longleftrightarrow> 0 < k \<and> k < 32 \<and> bit w (k - 1)" by (simp add: mult.commute)
qed

text \<open>Sending takes the first bit of the stream, receiving appends one.\<close>

lemma out_step:
  assumes "settled m" and "out_stream m = b # bs"
  shows "\<exists>m'. exec_instruction pin (Out pio_pins 1) m = Some (Next, m') \<and> out_stream m' = bs \<and> settled m'
    \<and> data_pin m' = b \<and> reg_x m' = reg_x m \<and> reg_y m' = reg_y m \<and> in_stream m' = in_stream m
    \<and> data_output m' = data_output m \<and> cycles m' = cycles m \<and> mpc m' = mpc m"
proof -
  let ?n = "osr_count m"
  let ?m = "m\<lparr>data_pin := bit (osr m) 31, osr := push_bit 1 (osr m), osr_count := ?n + 1\<rparr>"
  have n: "?n < 32"
    using assms by (cases "?n = 32") (auto simp: settled_def out_stream_def)
  have split: "[0..<32 - ?n] = 0 # map Suc [0..<32 - (?n + 1)]"
    using n by (simp add: upt_conv_Cons map_Suc_upt del: upt_Suc flip: Suc_diff_Suc)
  have "out_stream m = bit (osr m) 31 # out_stream ?m"
    unfolding out_stream_def split using n
    by (auto simp: shifted_bit Suc_diff_Suc intro!: map_cong)
  then have "bit (osr m) 31 = b" "out_stream ?m = bs"
    using assms(2) by (metis list.inject)+
  moreover have "settled (refill ?m)" using n assms(1) by (intro refill_settles) (auto simp: settled_def)
  moreover have "in_stream ?m = in_stream m" by (simp add: in_stream_def)
  ultimately show ?thesis using n by simp
qed

lemma in_step:
  assumes "settled m"
  shows "\<exists>m'. exec_instruction pin (In pio_pins 1) m = Some (Next, m')
    \<and> in_stream m' = in_stream m @ [pin (cycles m)] \<and> settled m' \<and> out_stream m' = out_stream m
    \<and> data_pin m' = data_pin m \<and> reg_x m' = reg_x m \<and> reg_y m' = reg_y m
    \<and> data_output m' = data_output m \<and> cycles m' = cycles m \<and> mpc m' = mpc m"
proof -
  let ?n = "isr_count m" and ?b = "pin (cycles m)"
  let ?m = "m\<lparr>isr := push_bit 1 (isr m) OR of_bool ?b, isr_count := ?n + 1\<rparr>"
  have n: "?n < 32" using assms by (simp add: settled_def)
  have bits: "map (\<lambda>i. bit (isr ?m) (?n - i)) [0..<?n + 1]
      = map (\<lambda>i. bit (isr m) (?n - 1 - i)) [0..<?n] @ [?b]"
    using n by (auto simp: shifted_bit bit_or_iff bit_1_iff intro!: map_cong)
  have "in_stream (push_isr ?m) = in_stream m @ [?b]"
  proof (cases "?n + 1 = 32")
    case True
    then have "in_stream (push_isr ?m)
        = concat (map word_bits (rx_words m)) @ map (\<lambda>i. bit (isr ?m) (?n - i)) [0..<?n + 1]"
      by (simp add: push_isr_def in_stream_def word_bits_def)
    then show ?thesis unfolding bits by (simp add: in_stream_def)
  next
    case False
    then have "in_stream (push_isr ?m)
        = concat (map word_bits (rx_words m)) @ map (\<lambda>i. bit (isr ?m) (?n - i)) [0..<?n + 1]"
      by (simp add: push_isr_def in_stream_def)
    then show ?thesis unfolding bits by (simp add: in_stream_def)
  qed
  moreover have "settled (refill (push_isr ?m))"
    using n assms by (intro refill_settles) (auto simp: push_isr_def settled_def)
  moreover have "out_stream (push_isr ?m) = out_stream m" by (simp add: push_isr_def out_stream_def)
  moreover have "data_pin (push_isr ?m) = data_pin m" "reg_x (push_isr ?m) = reg_x m"
    "reg_y (push_isr ?m) = reg_y m" "data_output (push_isr ?m) = data_output m"
    "cycles (push_isr ?m) = cycles m" "mpc (push_isr ?m) = mpc m"
    by (simp_all add: push_isr_def)
  ultimately show ?thesis by simp
qed

section \<open>Single cycles\<close>

lemma run_append:
  assumes "machine_run c imem pin a m = Some (m1, t1)" and "machine_run c imem pin b m1 = Some (m2, t2)"
  shows "machine_run c imem pin (a + b) m = Some (m2, t1 @ t2)"
  using assms
proof (induction a arbitrary: m t1)
  case (Suc a)
  from Suc.prems(1) obtain m' t where "machine_step c imem pin m = Some m'"
    "machine_run c imem pin a m' = Some (m1, t)" "t1 = pins m' # t"
    by (auto split: option.splits)
  with Suc.IH [OF this(2) Suc.prems(2)] show ?case by simp
qed simp

lemma step_next:
  assumes "spi_config c lo hi" and "decode (imem (mpc m)) = Some i" and "delay_of (imem (mpc m)) = d"
    and "d = 0 \<or> d = 16" and "exec_instruction pin i m = Some (what, m')"
  shows "machine_step c imem pin m = Some (m'\<lparr>clock_pin := (d = 16), cycles := cycles m + 1,
    mpc := (case what of Stall \<Rightarrow> mpc m | Goto a \<Rightarrow> a
      | Next \<Rightarrow> if mpc m = hi then lo else mpc m + 1)\<rparr>)"
proof -
  have "take_bit 4 d = 0" "bit d 4 \<longleftrightarrow> d = 16" using assms(4) by auto
  with assms show ?thesis
    by (auto simp: machine_step_def spi_config_def Let_def split: outcome.split)
qed

text \<open>What stays the same while bits go out, and while they come in.\<close>

definition same_input :: "machine \<Rightarrow> machine \<Rightarrow> bool" where
  "same_input m m' \<longleftrightarrow> reg_y m' = reg_y m \<and> in_stream m' = in_stream m \<and> data_output m' = data_output m"

definition same_output :: "machine \<Rightarrow> machine \<Rightarrow> bool" where
  "same_output m m' \<longleftrightarrow> out_stream m' = out_stream m \<and> data_pin m' = data_pin m
     \<and> data_output m' = data_output m"

lemma pins_update [simp]:
  "pins (m\<lparr>clock_pin := k, cycles := n, mpc := p\<rparr>) = (k, data_pin m, data_output m)"
  by (simp add: pins_def)

lemma stream_update [simp]:
  "out_stream (m\<lparr>clock_pin := k, cycles := n, mpc := p\<rparr>) = out_stream m"
  "in_stream (m\<lparr>clock_pin := k, cycles := n, mpc := p\<rparr>) = in_stream m"
  "settled (m\<lparr>clock_pin := k, cycles := n, mpc := p\<rparr>) = settled m"
  "out_stream (m\<lparr>reg_x := v\<rparr>) = out_stream m" "out_stream (m\<lparr>reg_y := v\<rparr>) = out_stream m"
  "in_stream (m\<lparr>reg_x := v\<rparr>) = in_stream m" "in_stream (m\<lparr>reg_y := v\<rparr>) = in_stream m"
  "settled (m\<lparr>reg_x := v\<rparr>) = settled m" "settled (m\<lparr>reg_y := v\<rparr>) = settled m"
  "out_stream (m\<lparr>data_output := b\<rparr>) = out_stream m" "in_stream (m\<lparr>data_output := b\<rparr>) = in_stream m"
  "settled (m\<lparr>data_output := b\<rparr>) = settled m"
  by (simp_all add: out_stream_def in_stream_def settled_def)

section \<open>The loops\<close>

text \<open>Two cycles a bit: the bit with the clock low, then the clock high.\<close>

definition sent_cycles :: "bool \<Rightarrow> bool list \<Rightarrow> (bool \<times> bool \<times> bool) list" where
  "sent_cycles d bs = concat (map (\<lambda>b. [(False, b, d), (True, b, d)]) bs)"

lemma send_bit:
  assumes "spi_config c lo hi" and "decode (imem p) = Some (Out pio_pins 1)" "delay_of (imem p) = 0"
    and "decode (imem (p + 1)) = Some (Jmp X_dec (of_nat p))" "delay_of (imem (p + 1)) = 16"
    and "p + 1 < hi" and "p < 32" and "mpc m = p" and "settled m" and "out_stream m = b # bs"
  shows "\<exists>m'. machine_run c imem pin 2 m = Some (m', sent_cycles (data_output m) [b])
    \<and> mpc m' = (if reg_x m = 0 then p + 2 else p) \<and> reg_x m' = reg_x m - 1 \<and> settled m'
    \<and> out_stream m' = bs \<and> same_input m m' \<and> cycles m' = cycles m + 2 \<and> data_pin m' = b"
proof -
  from out_step [OF assms(9,10)] obtain m1 where m1:
    "exec_instruction pin (Out pio_pins 1) m = Some (Next, m1)" "out_stream m1 = bs" "settled m1"
    "data_pin m1 = b" "reg_x m1 = reg_x m" "reg_y m1 = reg_y m" "in_stream m1 = in_stream m"
    "data_output m1 = data_output m" "cycles m1 = cycles m" by blast
  let ?m1 = "m1\<lparr>clock_pin := False, cycles := cycles m + 1, mpc := p + 1\<rparr>"
  have s1: "machine_step c imem pin m = Some ?m1"
    using step_next [OF assms(1) _ _ _ m1(1), of imem 0] assms(2,3,6,8) by simp
  have a: "unat (of_nat p :: u32) = p" using assms(7) by (simp add: unat_of_nat take_bit_nat_eq_self)
  let ?m2 = "?m1\<lparr>reg_x := reg_x m - 1, clock_pin := True, cycles := cycles m + 2,
    mpc := (if reg_x m = 0 then p + 2 else p)\<rparr>"
  have "exec_instruction pin (Jmp X_dec (of_nat p)) ?m1
      = Some (if reg_x m \<noteq> 0 then Goto p else Next, ?m1\<lparr>reg_x := reg_x m - 1\<rparr>)"
    using m1(3,5) a by simp
  then have s2: "machine_step c imem pin ?m1 = Some ?m2"
    using step_next [OF assms(1), of imem ?m1 "Jmp X_dec (of_nat p)" 16] assms(4-6) by simp
  have "machine_run c imem pin 2 m = Some (?m2, sent_cycles (data_output m) [b])"
    using s1 s2 m1(4,8) by (simp add: numeral_2_eq_2 sent_cycles_def pins_def)
  with m1 show ?thesis
    by (intro exI [of _ ?m2]) (simp add: same_input_def out_stream_def in_stream_def settled_def)
qed

lemma send_loop:
  assumes "spi_config c lo hi" and "decode (imem p) = Some (Out pio_pins 1)" "delay_of (imem p) = 0"
    and "decode (imem (p + 1)) = Some (Jmp X_dec (of_nat p))" "delay_of (imem (p + 1)) = 16"
    and "p + 1 < hi" and "p < 32" and "mpc m = p" and "settled m" and "out_stream m = bs @ rest"
    and "length bs = unat (reg_x m) + 1"
  shows "\<exists>m'. machine_run c imem pin (2 * length bs) m = Some (m', sent_cycles (data_output m) bs)
    \<and> mpc m' = p + 2 \<and> settled m' \<and> out_stream m' = rest \<and> same_input m m'
    \<and> cycles m' = cycles m + 2 * length bs \<and> data_pin m' = last bs"
  using assms(8-)
proof (induction bs arbitrary: m)
  case (Cons b bs)
  note bit = send_bit [where c = c and imem = imem and p = p and pin = pin,
      OF assms(1-7) Cons.prems(1,2), of b "bs @ rest"]
  obtain m' where m': "machine_run c imem pin 2 m = Some (m', sent_cycles (data_output m) [b])"
    "mpc m' = (if reg_x m = 0 then p + 2 else p)" "reg_x m' = reg_x m - 1" "settled m'"
    "out_stream m' = bs @ rest" "same_input m m'" "cycles m' = cycles m + 2" "data_pin m' = b"
    using bit Cons.prems(3) by auto
  show ?case
  proof (cases "bs = []")
    case True
    then have "reg_x m = 0" using Cons.prems(4) by (simp add: unat_eq_0)
    with True m' show ?thesis by (intro exI [of _ m']) simp
  next
    case False
    then have x: "reg_x m \<noteq> 0" using Cons.prems(4) by (auto simp: unat_eq_0)
    then have "unat (reg_x m - 1) = unat (reg_x m) - 1" by (simp add: unat_minus_one)
    moreover have "unat (reg_x m) \<noteq> 0" using x by (simp add: unat_eq_0)
    ultimately have "length bs = unat (reg_x m') + 1" using Cons.prems(4) m'(3) by simp
    with Cons.IH [OF _ m'(4,5)] m'(2) x obtain m2 where m2:
      "machine_run c imem pin (2 * length bs) m' = Some (m2, sent_cycles (data_output m') bs)"
      "mpc m2 = p + 2" "settled m2" "out_stream m2 = rest" "same_input m' m2"
      "cycles m2 = cycles m' + 2 * length bs" "data_pin m2 = last bs" by auto
    have "machine_run c imem pin (2 + 2 * length bs) m
        = Some (m2, sent_cycles (data_output m) [b] @ sent_cycles (data_output m') bs)"
      by (rule run_append [OF m'(1) m2(1)])
    then have "machine_run c imem pin (2 * length (b # bs)) m = Some (m2, sent_cycles (data_output m) (b # bs))"
      using m'(6) by (simp add: sent_cycles_def same_input_def)
    with False m' m2 show ?thesis by (intro exI [of _ m2]) (simp add: same_input_def)
  qed
qed simp

text \<open>Two cycles a bit coming in: the sample, then the jump with the other clock level.\<close>

definition received_cycles :: "bool \<Rightarrow> bool \<Rightarrow> nat \<Rightarrow> (bool \<times> bool \<times> bool) list" where
  "received_cycles k d n = concat (replicate n [(k, d, False), (\<not> k, d, False)])"

definition samples :: "(nat \<Rightarrow> bool) \<Rightarrow> nat \<Rightarrow> nat \<Rightarrow> bool list" where
  "samples pin t n = map (\<lambda>i. pin (t + 2 * i)) [0..<n]"

lemma samples_Suc: "samples pin t (Suc n) = pin t # samples pin (t + 2) n"
  by (simp add: samples_def upt_conv_Cons flip: map_Suc_upt del: upt_Suc)

lemma receive_bit:
  assumes "spi_config c lo q1" and "q1 = q + 1" and "decode (imem q) = Some (In pio_pins 1)" "delay_of (imem q) = d"
    and "decode (imem (q + 1)) = Some (Jmp Y_dec (of_nat q))" "delay_of (imem (q + 1)) = 16 - d"
    and "d = 0 \<or> d = 16" and "q < 32" and "mpc m = q" and "settled m" and "\<not> data_output m"
  shows "\<exists>m'. machine_run c imem pin 2 m = Some (m', received_cycles (d = 16) (data_pin m) 1)
    \<and> mpc m' = (if reg_y m = 0 then lo else q) \<and> reg_y m' = reg_y m - 1 \<and> settled m'
    \<and> in_stream m' = in_stream m @ [pin (cycles m)] \<and> same_output m m' \<and> cycles m' = cycles m + 2
    \<and> reg_x m' = reg_x m"
proof -
  from in_step [OF assms(10), of pin] obtain m1 where m1:
    "exec_instruction pin (In pio_pins 1) m = Some (Next, m1)" "in_stream m1 = in_stream m @ [pin (cycles m)]"
    "settled m1" "out_stream m1 = out_stream m" "data_pin m1 = data_pin m" "reg_x m1 = reg_x m"
    "reg_y m1 = reg_y m" "data_output m1 = data_output m" "cycles m1 = cycles m" by blast
  let ?m1 = "m1\<lparr>clock_pin := (d = 16), cycles := cycles m + 1, mpc := q + 1\<rparr>"
  have s1: "machine_step c imem pin m = Some ?m1"
    using step_next [OF assms(1) _ _ assms(7) m1(1), of imem] assms(2,3,4,9) by simp
  have a: "unat (of_nat q :: u32) = q" using assms(8) by (simp add: unat_of_nat take_bit_nat_eq_self)
  have other: "16 - d = 0 \<or> 16 - d = 16" "16 - d = 16 \<longleftrightarrow> d \<noteq> 16" using assms(7) by auto
  let ?m2 = "?m1\<lparr>reg_y := reg_y m - 1, clock_pin := (d \<noteq> 16), cycles := cycles m + 2,
    mpc := (if reg_y m = 0 then lo else q)\<rparr>"
  have "exec_instruction pin (Jmp Y_dec (of_nat q)) ?m1
      = Some (if reg_y m \<noteq> 0 then Goto q else Next, ?m1\<lparr>reg_y := reg_y m - 1\<rparr>)"
    using m1(3,7) a by simp
  then have s2: "machine_step c imem pin ?m1 = Some ?m2"
    using step_next [OF assms(1), of imem ?m1 "Jmp Y_dec (of_nat q)" "16 - d"] assms(2,5,6) other by simp
  have "machine_run c imem pin 2 m = Some (?m2, received_cycles (d = 16) (data_pin m) 1)"
    using s1 s2 m1(5,8) assms(11) by (simp add: numeral_2_eq_2 received_cycles_def pins_def)
  with m1 show ?thesis
    by (intro exI [of _ ?m2]) (simp add: same_output_def out_stream_def in_stream_def settled_def)
qed

lemma receive_loop:
  assumes "spi_config c lo q1" and "q1 = q + 1" and "decode (imem q) = Some (In pio_pins 1)" "delay_of (imem q) = d"
    and "decode (imem (q + 1)) = Some (Jmp Y_dec (of_nat q))" "delay_of (imem (q + 1)) = 16 - d"
    and "d = 0 \<or> d = 16" and "q < 32" and "mpc m = q" and "settled m" and "\<not> data_output m"
    and "n = unat (reg_y m) + 1"
  shows "\<exists>m'. machine_run c imem pin (2 * n) m = Some (m', received_cycles (d = 16) (data_pin m) n)
    \<and> mpc m' = lo \<and> settled m' \<and> in_stream m' = in_stream m @ samples pin (cycles m) n
    \<and> same_output m m' \<and> cycles m' = cycles m + 2 * n"
  using assms(9-)
proof (induction n arbitrary: m)
  case (Suc n)
  obtain m' where m': "machine_run c imem pin 2 m = Some (m', received_cycles (d = 16) (data_pin m) 1)"
    "mpc m' = (if reg_y m = 0 then lo else q)" "reg_y m' = reg_y m - 1" "settled m'"
    "in_stream m' = in_stream m @ [pin (cycles m)]" "same_output m m'" "cycles m' = cycles m + 2"
    using receive_bit [where c = c and imem = imem and q = q and pin = pin, OF assms(1-8) Suc.prems(1-3)]
    by blast
  show ?case
  proof (cases "n = 0")
    case True
    then have "reg_y m = 0" using Suc.prems(4) by (simp add: unat_eq_0)
    with True m' show ?thesis by (intro exI [of _ m']) (simp add: samples_def)
  next
    case False
    then have y: "reg_y m \<noteq> 0" using Suc.prems(4) by (auto simp: unat_eq_0)
    then have "unat (reg_y m - 1) = unat (reg_y m) - 1" by (simp add: unat_minus_one)
    moreover have "unat (reg_y m) \<noteq> 0" using y by (simp add: unat_eq_0)
    ultimately have "n = unat (reg_y m') + 1" using Suc.prems(4) m'(3) by simp
    with Suc.IH [OF _ m'(4)] m'(2,6) y Suc.prems(3) obtain m2 where m2:
      "machine_run c imem pin (2 * n) m' = Some (m2, received_cycles (d = 16) (data_pin m') n)"
      "mpc m2 = lo" "settled m2" "in_stream m2 = in_stream m' @ samples pin (cycles m') n"
      "same_output m' m2" "cycles m2 = cycles m' + 2 * n" by (auto simp: same_output_def)
    have "machine_run c imem pin (2 + 2 * n) m = Some (m2,
        received_cycles (d = 16) (data_pin m) 1 @ received_cycles (d = 16) (data_pin m') n)"
      by (rule run_append [OF m'(1) m2(1)])
    then have "machine_run c imem pin (2 * Suc n) m = Some (m2, received_cycles (d = 16) (data_pin m) (Suc n))"
      using m'(6) by (simp add: received_cycles_def same_output_def)
    with m' m2 show ?thesis
      by (intro exI [of _ m2]) (simp add: same_output_def samples_Suc)
  qed
qed simp

text \<open>The pin is turned around; then come as many idle cycles as the program has, clock levels \<open>gaps\<close>.\<close>

lemma turn_step:
  assumes "spi_config c lo hi" and "decode (imem p) = Some (Set pio_pindirs 0)" "delay_of (imem p) = 0"
    and "p < hi" and "mpc m = p" and "settled m"
  shows "\<exists>m'. machine_run c imem pin 1 m = Some (m', [(False, data_pin m, False)]) \<and> mpc m' = p + 1
    \<and> settled m' \<and> in_stream m' = in_stream m \<and> out_stream m' = out_stream m \<and> data_pin m' = data_pin m
    \<and> \<not> data_output m' \<and> reg_y m' = reg_y m \<and> cycles m' = cycles m + 1"
proof -
  let ?m = "m\<lparr>data_output := False, clock_pin := False, cycles := cycles m + 1, mpc := p + 1\<rparr>"
  have "exec_instruction pin (Set pio_pindirs 0) m = Some (Next, m\<lparr>data_output := False\<rparr>)"
    using assms(6) by simp
  then have "machine_step c imem pin m = Some ?m"
    using step_next [OF assms(1), of imem m "Set pio_pindirs 0" 0] assms(2-5) by simp
  then show ?thesis
    using assms(6) by (intro exI [of _ ?m]) (simp add: pins_def out_stream_def in_stream_def settled_def)
qed

lemma idle_step:
  assumes "spi_config c lo hi" and "decode (imem p) = Some (Mov pio_y Plain pio_y)" "delay_of (imem p) = d"
    and "d = 0 \<or> d = 16" and "p < hi" and "mpc m = p" and "settled m"
  shows "\<exists>m'. machine_run c imem pin 1 m = Some (m', [(d = 16, data_pin m, data_output m)]) \<and> mpc m' = p + 1
    \<and> settled m' \<and> in_stream m' = in_stream m \<and> out_stream m' = out_stream m \<and> data_pin m' = data_pin m
    \<and> data_output m' = data_output m \<and> reg_y m' = reg_y m \<and> cycles m' = cycles m + 1"
proof -
  let ?m = "m\<lparr>clock_pin := (d = 16), cycles := cycles m + 1, mpc := p + 1\<rparr>"
  have "exec_instruction pin (Mov pio_y Plain pio_y) m = Some (Next, m)" using assms(7) by simp
  then have "machine_step c imem pin m = Some ?m"
    using step_next [OF assms(1), of imem m "Mov pio_y Plain pio_y" d] assms(2-6) by simp
  then show ?thesis
    using assms(7) by (intro exI [of _ ?m]) (simp add: pins_def)
qed

section \<open>The four programs\<close>

text \<open>Each program with its configuration, the clock levels of its gap, and the level at a sample.\<close>

definition spi_programs :: "(u16 list \<times> (u32 \<Rightarrow> pio_sm_config) \<times> bool list \<times> bool) list" where
  "spi_programs =
     [(instructions spi_gap0_sample1_program, spi_gap0_sample1_program_get_default_config, [], True),
      (instructions spi_gap01_sample0_program, spi_gap01_sample0_program_get_default_config, [True], False),
      (instructions spi_gap010_sample1_program, spi_gap010_sample1_program_get_default_config,
        [True, False], True),
      (instructions spi_gap0_sample1_regular_program,
        spi_gap0_sample1_regular_program_get_default_config, [], True)]"

lemmas program_defs = spi_gap0_sample1_program_def spi_gap01_sample0_program_def
  spi_gap010_sample1_program_def spi_gap0_sample1_regular_program_def
  spi_gap0_sample1_program_instructions_def spi_gap01_sample0_program_instructions_def
  spi_gap010_sample1_program_instructions_def spi_gap0_sample1_regular_program_instructions_def

text \<open>The common shape: send, turn around, idle, receive, at increasing addresses.\<close>

definition idle_words :: "(nat \<Rightarrow> u32) \<Rightarrow> nat \<Rightarrow> bool list \<Rightarrow> bool" where
  "idle_words imem p gaps \<longleftrightarrow> (\<forall>i < length gaps. decode (imem (p + i)) = Some (Mov pio_y Plain pio_y)
     \<and> delay_of (imem (p + i)) = (if gaps ! i then 16 else 0))"

definition spi_shape :: "(nat \<Rightarrow> u32) \<Rightarrow> nat \<Rightarrow> bool list \<Rightarrow> bool \<Rightarrow> bool" where
  "spi_shape imem p gaps k \<longleftrightarrow>
     decode (imem p) = Some (Out pio_pins 1) \<and> delay_of (imem p) = 0
     \<and> decode (imem (p + 1)) = Some (Jmp X_dec (of_nat p)) \<and> delay_of (imem (p + 1)) = 16
     \<and> decode (imem (p + 2)) = Some (Set pio_pindirs 0) \<and> delay_of (imem (p + 2)) = 0
     \<and> idle_words imem (p + 3) gaps
     \<and> (let q = p + 3 + length gaps; d = (if k then 16 else 0)
        in decode (imem q) = Some (In pio_pins 1) \<and> delay_of (imem q) = d
          \<and> decode (imem (q + 1)) = Some (Jmp Y_dec (of_nat q)) \<and> delay_of (imem (q + 1)) = 16 - d)"

lemma relocate_others [simp]:
  "relocate k 0x6001 = 0x6001" "relocate k 0xe080 = 0xe080" "relocate k 0xb042 = 0xb042"
  "relocate k 0xa042 = 0xa042" "relocate k 0x5001 = 0x5001" "relocate k 0x4001 = 0x4001"
  by (simp_all add: relocate_def opcode_def)

lemma idle_words_simps [simp]:
  "idle_words imem p []"
  "idle_words imem p (g # gs) \<longleftrightarrow> decode (imem p) = Some (Mov pio_y Plain pio_y)
     \<and> delay_of (imem p) = (if g then 16 else 0) \<and> idle_words imem (Suc p) gs"
  by (auto simp: idle_words_def All_less_Suc2)

lemma spi_shapeI:
  assumes "decode (imem p) = Some (Out pio_pins 1)" "delay_of (imem p) = 0"
    and "decode (imem (p + 1)) = Some (Jmp X_dec (of_nat p))" "delay_of (imem (p + 1)) = 16"
    and "decode (imem (p + 2)) = Some (Set pio_pindirs 0)" "delay_of (imem (p + 2)) = 0"
    and "idle_words imem (p + 3) gaps" and "q = p + 3 + length gaps" and "r = q + 1"
    and "decode (imem q) = Some (In pio_pins 1)" "delay_of (imem q) = (if k then 16 else 0)"
    and "decode (imem r) = Some (Jmp Y_dec (of_nat q))" "delay_of (imem r) = (if k then 0 else 16)"
  shows "spi_shape imem p gaps k"
  using assms by (simp add: spi_shape_def Let_def)

lemma programs_shape:
  assumes "(ws, conf, gaps, k) \<in> set spi_programs" and "program_loaded ws offset imem"
  shows "spi_shape imem offset gaps k \<and> spi_config (conf (of_nat offset)) offset (offset + 4 + length gaps)
    \<and> offset + 3 + length gaps < 32"
proof -
  have words: "imem (offset + i) = relocate offset (ucast (ws ! i))" if "i < length ws" for i
    using assms(2) that by (simp add: program_loaded_def)
  have less: "offset + length ws \<le> 32" using assms(2) by (simp add: program_loaded_def)
  consider "ws = [0x6001, 0x1040, 0xe080, 0x5001, 0x0083]" "gaps = []" "k"
      "conf = spi_gap0_sample1_program_get_default_config \<or> conf = spi_gap0_sample1_regular_program_get_default_config"
    | "ws = [0x6001, 0x1040, 0xe080, 0xb042, 0x4001, 0x1084]" "gaps = [True]" "\<not> k"
      "conf = spi_gap01_sample0_program_get_default_config"
    | "ws = [0x6001, 0x1040, 0xe080, 0xb042, 0xa042, 0x5001, 0x0085]" "gaps = [True, False]" "k"
      "conf = spi_gap010_sample1_program_get_default_config"
    using assms(1) by (auto simp: spi_programs_def program_defs)
  then show ?thesis
  proof cases
    case 1
    have w: "imem offset = 0x6001" "imem (offset + 1) = relocate offset 0x1040" "imem (offset + 2) = 0xe080"
      "imem (offset + 3) = 0x5001" "imem (offset + 4) = relocate offset 0x0083"
      using words [of 0] words [of 1] words [of 2] words [of 3] words [of 4] 1(1) by simp_all
    have o: "offset \<le> 27" using less 1(1) by simp
    have "spi_shape imem offset gaps k"
      by (rule spi_shapeI [where q = "offset + 3" and r = "offset + 4"])
        (simp_all only: w decode_words decode_jumps [OF o], simp_all add: 1)
    moreover have "spi_config (conf (of_nat offset)) offset (offset + 4 + length gaps)"
      using 1 default_configs(1,4) [OF o] by auto
    ultimately show ?thesis using o 1(2) by simp
  next
    case 2
    have w: "imem offset = 0x6001" "imem (offset + 1) = relocate offset 0x1040" "imem (offset + 2) = 0xe080"
      "imem (offset + 3) = 0xb042" "imem (offset + 4) = 0x4001" "imem (offset + 5) = relocate offset 0x1084"
      using words [of 0] words [of 1] words [of 2] words [of 3] words [of 4] words [of 5] 2(1) by simp_all
    have o: "offset \<le> 27" "offset \<le> 26" using less 2(1) by simp_all
    have "spi_shape imem offset gaps k"
      by (rule spi_shapeI [where q = "offset + 4" and r = "offset + 5"])
        (simp_all only: w decode_words decode_jumps [OF o(1)], simp_all add: 2 w decode_words)
    moreover have "spi_config (conf (of_nat offset)) offset (offset + 4 + length gaps)"
      using default_configs(2) [OF o(2)] unfolding 2 by (simp add: add.commute)
    ultimately show ?thesis using o 2(2) by simp
  next
    case 3
    have w: "imem offset = 0x6001" "imem (offset + 1) = relocate offset 0x1040" "imem (offset + 2) = 0xe080"
      "imem (offset + 3) = 0xb042" "imem (offset + 4) = 0xa042" "imem (offset + 5) = 0x5001"
      "imem (offset + 6) = relocate offset 0x0085"
      using words [of 0] words [of 1] words [of 2] words [of 3] words [of 4] words [of 5] words [of 6] 3(1)
      by simp_all
    have o: "offset \<le> 27" "offset \<le> 26" "offset \<le> 25" using less 3(1) by simp_all
    have w4: "imem (4 + offset) = 0xa042" using w(5) by (simp add: add.commute)
    have "spi_shape imem offset gaps k"
      by (rule spi_shapeI [where q = "offset + 5" and r = "offset + 6"])
        (simp_all only: w decode_words decode_jumps(1-6,8) [OF o(1)] decode_jumps(7) [OF o(1,2)],
         simp_all add: 3 w w4 decode_words)
    moreover have "spi_config (conf (of_nat offset)) offset (offset + 4 + length gaps)"
      using default_configs(3) [OF o(3)] unfolding 3 by (simp add: add.commute)
    ultimately show ?thesis using o 3(2) by simp
  qed
qed

lemma idle_run:
  assumes "spi_config c lo hi" and "idle_words imem p gaps" and "p + length gaps \<le> hi" and "mpc m = p"
    and "settled m"
  shows "\<exists>m'. machine_run c imem pin (length gaps) m = Some (m', map (\<lambda>g. (g, data_pin m, data_output m)) gaps)
    \<and> mpc m' = p + length gaps \<and> settled m' \<and> in_stream m' = in_stream m \<and> out_stream m' = out_stream m
    \<and> data_pin m' = data_pin m \<and> data_output m' = data_output m \<and> reg_y m' = reg_y m
    \<and> cycles m' = cycles m + length gaps"
  using assms(2-)
proof (induction gaps arbitrary: p m)
  case Nil
  then show ?case by simp
next
  case (Cons g gs)
  have w: "decode (imem p) = Some (Mov pio_y Plain pio_y)" "delay_of (imem p) = (if g then 16 else 0)"
    and rest: "idle_words imem (p + 1) gs" and p: "p < hi"
    using Cons.prems(1,2) by simp_all
  obtain m1 where m1: "machine_run c imem pin 1 m = Some (m1, [(g, data_pin m, data_output m)])"
    "mpc m1 = p + 1" "settled m1" "in_stream m1 = in_stream m" "out_stream m1 = out_stream m"
    "data_pin m1 = data_pin m" "data_output m1 = data_output m" "reg_y m1 = reg_y m" "cycles m1 = cycles m + 1"
    using idle_step [where c = c and imem = imem and p = p and m = m and pin = pin,
        OF assms(1) w(1) w(2) _ p Cons.prems(3,4)] by (cases g) auto
  have "p + 1 + length gs \<le> hi" using Cons.prems(2) by simp
  from Cons.IH [OF rest this m1(2,3)] obtain m2 where m2:
    "machine_run c imem pin (length gs) m1 = Some (m2, map (\<lambda>g. (g, data_pin m1, data_output m1)) gs)"
    "mpc m2 = p + 1 + length gs" "settled m2" "in_stream m2 = in_stream m1" "out_stream m2 = out_stream m1"
    "data_pin m2 = data_pin m1" "data_output m2 = data_output m1" "reg_y m2 = reg_y m1"
    "cycles m2 = cycles m1 + length gs" by blast
  from run_append [OF m1(1) m2(1)] m1 m2 show ?case by (intro exI [of _ m2]) simp
qed

section \<open>Properties\<close>


text \<open>A state with the byte 0xA5 to send and eight bits to receive.\<close>

definition byte_machine :: machine where
  "byte_machine = \<lparr>mpc = 0, reg_x = 7, reg_y = 7, osr = 0xA5000000, osr_count = 24, tx_fifo = [], isr = 0,
     isr_count = 0, rx_words = [], clock_pin = False, data_pin = False, data_output = True, cycles = 0\<rparr>"

lemma byte_stream: "out_stream byte_machine = [True, False, True, False, False, True, False, True] @ []"
  by (simp add: out_stream_def byte_machine_def upt_rec)


text \<open>
  Between transfers the bus is quiet. With nothing left to send the state machine stands at its
  first instruction for any number of cycles, with the clock low and without taking samples, until
  a word arrives in its FIFO.
\<close>

theorem spi_waits_for_data:
  assumes "(ws, conf, gaps, k) \<in> set spi_programs" and "program_loaded ws offset imem"
    and "mpc m = offset" and "settled m" and "out_stream m = []"
  shows "machine_run (conf (of_nat offset)) imem pin n m
    = Some (if n = 0 then m else m\<lparr>clock_pin := False, cycles := cycles m + n\<rparr>,
        replicate n (False, data_pin m, data_output m))"
  using assms(3-)
proof (induction n arbitrary: m)
  case (Suc n)
  let ?c = "conf (of_nat offset)"
  from programs_shape [OF assms(1,2)] have shape: "spi_shape imem offset gaps k"
    and c: "spi_config ?c offset (offset + 4 + length gaps)" by simp_all
  have "osr_count m = 32" "tx_fifo m = []"
    using Suc.prems(2,3) by (auto simp: out_stream_def settled_def word_bits_def)
  then have "exec_instruction pin (Out pio_pins 1) m = Some (Stall, m)" by (simp add: refill_def)
  then have step: "machine_step ?c imem pin m = Some (m\<lparr>clock_pin := False, cycles := cycles m + 1\<rparr>)"
    using step_next [OF c, of imem m "Out pio_pins 1" 0] shape Suc.prems(1) by (simp add: spi_shape_def)
  let ?m = "m\<lparr>clock_pin := False, cycles := cycles m + 1\<rparr>"
  have "mpc ?m = offset" "settled ?m" "out_stream ?m = []"
    using Suc.prems by (simp_all add: settled_def out_stream_def)
  from Suc.IH [OF this] step show ?case by (cases "n = 0") (simp_all add: pins_def)
qed simp

theorem spi_waits_for_data_witness:
  "machine_run (spi_gap0_sample1_program_get_default_config 3)
      (\<lambda>i. if 3 \<le> i \<and> i < 8 then relocate 3 (ucast (spi_gap0_sample1_program_instructions ! (i - 3))) else 0)
      (\<lambda>t. True) 1000 (byte_machine\<lparr>mpc := 3, osr_count := 32\<rparr>)
    = Some (byte_machine\<lparr>mpc := 3, osr_count := 32, clock_pin := False, cycles := 1000\<rparr>,
        replicate 1000 (False, False, True))"
proof -
  let ?imem = "\<lambda>i. if 3 \<le> i \<and> i < 8
    then relocate 3 (ucast (spi_gap0_sample1_program_instructions ! (i - 3))) else 0"
  have loaded: "program_loaded (instructions spi_gap0_sample1_program) 3 ?imem"
    by (simp add: program_loaded_def spi_gap0_sample1_program_def spi_gap0_sample1_program_instructions_def)
  have listed: "(instructions spi_gap0_sample1_program, spi_gap0_sample1_program_get_default_config, [], True)
      \<in> set spi_programs" by (simp add: spi_programs_def)
  show ?thesis
    using spi_waits_for_data [OF listed loaded, of "byte_machine\<lparr>mpc := 3, osr_count := 32\<rparr>" "\<lambda>t. True" 1000]
    by (simp add: byte_machine_def settled_def out_stream_def)
qed

end
