(* ===== verification/Sys_Arch.thy ===== *)
theory Sys_Arch
  imports Pico_Time
begin

text \<open>
  The port of the network stack to the board, sys\_arch.c, with the two functions of
  hardware/sync.h it is made of: the stack's clock and the protection of its critical sections by
  masking interrupts.
\<close>

section \<open>Masking interrupts\<close>

text \<open>\<open>PRIMASK\<close> has one bit; \<open>cpsid i\<close> sets it.\<close>

definition save_and_disable_interrupts :: "mcu \<Rightarrow> u32 \<times> mcu" where
  "save_and_disable_interrupts s = (let status = primask s; s = s\<lparr>primask := 1\<rparr> in (status, s))"

definition restore_interrupts :: "u32 \<Rightarrow> mcu \<Rightarrow> mcu" where
  "restore_interrupts status s = s\<lparr>primask := status AND 1\<rparr>"

section \<open>The port\<close>

text \<open>The machine state with the file's static variable.\<close>

record port =
  port_hw :: mcu
  critical_section :: u32

definition sys_now :: "board \<Rightarrow> port \<Rightarrow> u32 \<times> port" where
  "sys_now B p =
     (let (t, s) = get_absolute_time B (port_hw p) in (to_ms_since_boot t, p\<lparr>port_hw := s\<rparr>))"

definition sys_arch_protect :: "port \<Rightarrow> u32 \<times> port" where
  "sys_arch_protect p =
     (let (status, s) = save_and_disable_interrupts (port_hw p);
          p = p\<lparr>port_hw := s, critical_section := status\<rparr>
      in (critical_section p, p))"

definition sys_arch_unprotect :: "u32 \<Rightarrow> port \<Rightarrow> port" where
  "sys_arch_unprotect pval p = p\<lparr>port_hw := restore_interrupts pval (port_hw p)\<rparr>"

section \<open>Critical sections\<close>

text \<open>
  A program that protects some of its parts, each with the matching call at its end; \<open>run\<close> also
  returns the interrupt mask at each piece of work.
\<close>

datatype program = Work | Protected "program list"

fun run :: "program \<Rightarrow> port \<Rightarrow> port \<times> u32 list"
  and run_all :: "program list \<Rightarrow> port \<Rightarrow> port \<times> u32 list" where
  "run Work p = (p, [primask (port_hw p)])"
| "run (Protected body) p =
     (let (pval, p) = sys_arch_protect p; (p, masks) = run_all body p
      in (sys_arch_unprotect pval p, masks))"
| "run_all [] p = (p, [])"
| "run_all (c # cs) p =
     (let (p, masks) = run c p; (p, more) = run_all cs p in (p, masks @ more))"

definition masked :: "port \<Rightarrow> bool" where
  "masked p \<longleftrightarrow> primask (port_hw p) = 1"

lemma protect_eq: "sys_arch_protect p = (primask (port_hw p),
    p\<lparr>port_hw := (port_hw p)\<lparr>primask := 1\<rparr>, critical_section := primask (port_hw p)\<rparr>)"
  by (simp add: sys_arch_protect_def save_and_disable_interrupts_def Let_def)

lemma mask_bit: "m \<in> {0, 1} \<Longrightarrow> m AND 1 = (m :: u32)"
  by auto

lemma run_hw:
  "primask (port_hw p) \<in> {0, 1} \<Longrightarrow> port_hw (fst (run c p)) = port_hw p"
  "primask (port_hw p) \<in> {0, 1} \<Longrightarrow> port_hw (fst (run_all cs p)) = port_hw p"
proof (induction c p and cs p rule: run_run_all.induct)
  case (2 body p)
  have "port_hw (fst (run_all body (snd (sys_arch_protect p)))) = (port_hw p)\<lparr>primask := 1\<rparr>"
    using "2.IH" [OF _ refl] by (simp add: protect_eq)
  with "2.prems" show ?case
    by (auto simp: protect_eq case_prod_beta Let_def sys_arch_unprotect_def restore_interrupts_def mask_bit)
next
  case (4 c cs p)
  obtain q ms where q: "run c p = (q, ms)" by fastforce
  have "port_hw q = port_hw p" using "4.IH"(1) [OF "4.prems"] q by simp
  moreover from this "4.prems" have "port_hw (fst (run_all cs q)) = port_hw q"
    using "4.IH"(2) [OF q [symmetric] refl] by simp
  ultimately show ?case by (simp add: q case_prod_beta)
qed simp_all

lemma run_masked:
  "masked p \<Longrightarrow> list_all (\<lambda>m. m = 1) (snd (run c p))"
  "masked p \<Longrightarrow> list_all (\<lambda>m. m = 1) (snd (run_all cs p))"
proof (induction c p and cs p rule: run_run_all.induct)
  case (2 body p)
  have "masked (snd (sys_arch_protect p))" by (simp add: protect_eq masked_def)
  with "2.IH" [OF _ refl] show ?case by (simp add: protect_eq case_prod_beta Let_def)
next
  case (4 c cs p)
  obtain q ms where q: "run c p = (q, ms)" by fastforce
  have "masked q" using run_hw(1) [of p c] "4.prems" q by (simp add: masked_def)
  with "4.IH"(1) [OF "4.prems"] "4.IH"(2) [OF q [symmetric] refl] q show ?case
    by (simp add: case_prod_beta)
qed (simp_all add: masked_def)

section \<open>Properties\<close>

text \<open>
  C38: critical sections nest. Whatever is protected runs with interrupts masked, however deep the
  sections are nested, and after the outermost one the machine is as it was before, so interrupts
  come back exactly when it ends. Sections that overlap without nesting do not work: releasing
  the first ends the protection of the second.
\<close>

theorem critical_sections_nest:
  assumes "primask (port_hw p) \<in> {0, 1}"
  shows "port_hw (fst (run c p)) = port_hw p
    \<and> list_all (\<lambda>m. m = 1) (snd (run (Protected body) p))
    \<and> (let (first, p1) = sys_arch_protect p; (second, p2) = sys_arch_protect p1
       in masked p2 \<and> primask (port_hw (sys_arch_unprotect first p2)) = primask (port_hw p))"
proof (intro conjI)
  show "port_hw (fst (run c p)) = port_hw p" by (rule run_hw(1) [OF assms])
  have "masked (snd (sys_arch_protect p))" by (simp add: protect_eq masked_def)
  from run_masked(2) [OF this] show "list_all (\<lambda>m. m = 1) (snd (run (Protected body) p))"
    by (simp add: case_prod_beta Let_def)
  show "let (first, p1) = sys_arch_protect p; (second, p2) = sys_arch_protect p1
       in masked p2 \<and> primask (port_hw (sys_arch_unprotect first p2)) = primask (port_hw p)"
    using mask_bit [OF assms]
    by (simp add: protect_eq masked_def sys_arch_unprotect_def restore_interrupts_def Let_def)
qed

theorem critical_sections_nest_witness:
  "port_hw (fst (run (Protected [Work, Protected [Work], Work])
     \<lparr>port_hw = reset_mcu, critical_section = 0\<rparr>)) = reset_mcu"
proof -
  let ?p = "\<lparr>port_hw = reset_mcu, critical_section = 0\<rparr>"
  have "primask (port_hw ?p) \<in> {0, 1}" by (simp add: reset_mcu_def)
  from critical_sections_nest [OF this, of "Protected [Work, Protected [Work], Work]" "[]"]
  show ?thesis by (simp del: run.simps run_all.simps)
qed

text \<open>The stack's clock is the number of milliseconds the timer shows.\<close>

lemma sys_now_value: "fst (sys_now B p) = to_ms_since_boot (time_us_at B (reads (port_hw p)))"
  by (simp add: sys_now_def get_absolute_time_def update_us_since_boot_def)

end
