(* ===== verification/Spin_Locks.thy ===== *)
theory Spin_Locks
  imports Sys_Arch "HOL-Library.Sublist"
begin

text \<open>
  Spin locks and critical sections between the two cores: hardware/sync.h and
  pico/critical\_section.h. The functions are sequences of the actions they consist of, because an
  interrupt or the other core may act between any two of them; the sequences are run by two cores
  whose interrupt handlers use critical sections themselves. The two functions that mask
  interrupts are those of Sys\_Arch.
\<close>

section \<open>Spin locks in the SIO\<close>

definition SIO_BASE :: u32 where "SIO_BASE = 0xd0000000"
definition SIO_SPINLOCK0_OFFSET :: u32 where "SIO_SPINLOCK0_OFFSET = 0x00000100"
definition NUM_SPIN_LOCKS :: u32 where "NUM_SPIN_LOCKS = 32"

text \<open>A lock is the address of its register; the checks of the numbers are off by default.\<close>

definition spin_lock_instance :: "u32 \<Rightarrow> u32" where
  "spin_lock_instance lock_num = SIO_BASE + SIO_SPINLOCK0_OFFSET + lock_num * 4"

definition spin_lock_get_num :: "u32 \<Rightarrow> u32" where
  "spin_lock_get_num lock = signed_drop_bit 2 (lock - (SIO_BASE + SIO_SPINLOCK0_OFFSET))"

text \<open>
  The state of all locks is the register \<open>SIO_SPINLOCK_ST\<close>. Reading the register of a lock claims the
  lock and gives its bit, or gives 0 when it is taken; writing any value releases it.
\<close>

definition spinlock_read :: "u32 \<Rightarrow> u32 \<Rightarrow> u32 \<times> u32" where
  "spinlock_read lock st =
     (let b = push_bit (unat (spin_lock_get_num lock)) 1
      in if st AND b \<noteq> 0 then (0, st) else (b, st OR b))"

definition spinlock_write :: "u32 \<Rightarrow> u32 \<Rightarrow> u32" where
  "spinlock_write lock st = st AND NOT (push_bit (unat (spin_lock_get_num lock)) 1)"

definition is_spin_locked :: "u32 \<Rightarrow> u32 \<Rightarrow> bool" where
  "is_spin_locked lock st =
     (let lock_num = spin_lock_get_num lock in 0 \<noteq> st AND push_bit (unat lock_num) 1)"

section \<open>The functions as sequences of actions\<close>

text \<open>
  \<open>Keep p\<close> stores the status that was read in the critical section \<open>p\<close>; \<open>Load p\<close> fetches it as the
  argument of the unlocking call, \<open>Pass\<close> passes the caller's own variable instead. \<open>Try_lock\<close> is the
  read in the waiting loop.
\<close>

datatype action =
    Read_mask | Mask | Try_lock u32 | Fence | Keep nat | Work_step | Load nat | Pass
  | Clear_lock u32 | Restore_mask

definition disable_actions :: "action list" where
  "disable_actions = [Read_mask, Mask]"

definition restore_actions :: "action list" where
  "restore_actions = [Restore_mask]"

definition spin_lock_unsafe_blocking :: "u32 \<Rightarrow> action list" where
  "spin_lock_unsafe_blocking lock = [Try_lock lock, Fence]"

definition spin_unlock_unsafe :: "u32 \<Rightarrow> action list" where
  "spin_unlock_unsafe lock = [Fence, Clear_lock lock]"

definition spin_lock_blocking :: "u32 \<Rightarrow> action list" where
  "spin_lock_blocking lock = disable_actions @ spin_lock_unsafe_blocking lock"

definition spin_unlock :: "u32 \<Rightarrow> action list" where
  "spin_unlock lock = spin_unlock_unsafe lock @ restore_actions"

text \<open>
  A critical section is a number; \<open>lk\<close> gives the field \<open>spin_lock\<close> of each, which only their
  initialisation sets.
\<close>

definition critical_section_enter_blocking :: "(nat \<Rightarrow> u32) \<Rightarrow> nat \<Rightarrow> action list" where
  "critical_section_enter_blocking lk crit_sec = spin_lock_blocking (lk crit_sec) @ [Keep crit_sec]"

definition critical_section_exit :: "(nat \<Rightarrow> u32) \<Rightarrow> nat \<Rightarrow> action list" where
  "critical_section_exit lk crit_sec = Load crit_sec # spin_unlock (lk crit_sec)"

text \<open>
  What the SDK and its users run: work inside a critical section, or work under a spin lock with
  the status in a local variable, as \<open>queue_get_level\<close> has it.
\<close>

definition guarded :: "(nat \<Rightarrow> u32) \<Rightarrow> nat \<Rightarrow> action list" where
  "guarded lk p = critical_section_enter_blocking lk p @ [Work_step] @ critical_section_exit lk p"

definition locked :: "u32 \<Rightarrow> action list" where
  "locked lock = spin_lock_blocking lock @ [Work_step] @ [Pass] @ spin_unlock lock"

section \<open>Two cores\<close>

text \<open>
  A thread is the code a core runs outside interrupts, or an interrupt handler: what is left to
  do, and its variables \<open>save\<close> and \<open>saved_irq\<close>. The running thread of a core is the first, the others
  are suspended by interrupts.
\<close>

record thread =
  todo :: "action list"
  saved :: u32
  saved_irq :: u32

record core =
  core_hw :: mcu
  threads :: "thread list"

record shared =
  spinlock_st :: u32
  save_field :: "nat \<Rightarrow> u32"

datatype core_id = Core0 | Core1

record system =
  cores :: "core_id \<Rightarrow> core"
  memory :: shared

text \<open>One action; \<open>todo\<close> of the thread is already what comes after it.\<close>

fun exec_action :: "action \<Rightarrow> thread \<times> mcu \<times> shared \<Rightarrow> thread \<times> mcu \<times> shared" where
  "exec_action Read_mask (t, m, h) = (t\<lparr>saved := primask m\<rparr>, m, h)"
| "exec_action Mask (t, m, h) = (t, m\<lparr>primask := 1\<rparr>, h)"
| "exec_action (Try_lock lock) (t, m, h) =
     (let (v, st) = spinlock_read lock (spinlock_st h); h = h\<lparr>spinlock_st := st\<rparr>
      in if v = 0 then (t\<lparr>todo := Try_lock lock # todo t\<rparr>, m, h) else (t, m, h))"
| "exec_action Fence (t, m, h) = (t, m, h)"
| "exec_action (Keep p) (t, m, h) = (t, m, h\<lparr>save_field := (save_field h)(p := saved t)\<rparr>)"
| "exec_action Work_step (t, m, h) = (t, m, h)"
| "exec_action (Load p) (t, m, h) = (t\<lparr>saved_irq := save_field h p\<rparr>, m, h)"
| "exec_action Pass (t, m, h) = (t\<lparr>saved_irq := saved t\<rparr>, m, h)"
| "exec_action (Clear_lock lock) (t, m, h) = (t, m, h\<lparr>spinlock_st := spinlock_write lock (spinlock_st h)\<rparr>)"
| "exec_action Restore_mask (t, m, h) = (t, restore_interrupts (saved_irq t) m, h)"

text \<open>The running thread of a core makes its next action; nothing when it has none.\<close>

definition core_acts :: "core_id \<Rightarrow> system \<Rightarrow> system option" where
  "core_acts i s =
     (let k = cores s i in
      case threads k of
        [] \<Rightarrow> None
      | t # ts \<Rightarrow> (case todo t of
            [] \<Rightarrow> None
          | a # as \<Rightarrow>
              (let (t, m, h) = exec_action a (t\<lparr>todo := as\<rparr>, core_hw k, memory s)
               in Some (s\<lparr>cores := (cores s)(i := k\<lparr>core_hw := m, threads := t # ts\<rparr>), memory := h\<rparr>))))"

text \<open>What a thread that has nothing left to do may start: a valid lock or critical section.\<close>

definition lock_valid :: "u32 \<Rightarrow> bool" where
  "lock_valid lock \<longleftrightarrow> (\<exists>n < NUM_SPIN_LOCKS. lock = spin_lock_instance n)"

definition startable :: "(nat \<Rightarrow> u32) \<Rightarrow> action list \<Rightarrow> bool" where
  "startable lk prog \<longleftrightarrow> (\<exists>p. prog = guarded lk p \<and> lock_valid (lk p)) \<or> (\<exists>l. prog = locked l \<and> lock_valid l)"

text \<open>
  A step of one of the cores: an action, the start of a program, an interrupt when interrupts are
  not masked (priorities are ignored, so handlers interrupt each other freely), or the return of a
  handler that has nothing left to do.
\<close>

inductive system_step :: "(nat \<Rightarrow> u32) \<Rightarrow> system \<Rightarrow> system \<Rightarrow> bool" for lk where
  acts: "core_acts i s = Some s' \<Longrightarrow> system_step lk s s'"
| starts: "threads (cores s i) = t # ts \<Longrightarrow> todo t = [] \<Longrightarrow> startable lk prog \<Longrightarrow>
    system_step lk s (s\<lparr>cores := (cores s)(i := (cores s i)\<lparr>threads := t\<lparr>todo := prog\<rparr> # ts\<rparr>)\<rparr>)"
| interrupted: "primask (core_hw (cores s i)) = 0 \<Longrightarrow> todo h = [] \<Longrightarrow>
    system_step lk s (s\<lparr>cores := (cores s)(i := (cores s i)\<lparr>threads := h # threads (cores s i)\<rparr>)\<rparr>)"
| returns: "threads (cores s i) = t # ts \<Longrightarrow> todo t = [] \<Longrightarrow> ts \<noteq> [] \<Longrightarrow>
    system_step lk s (s\<lparr>cores := (cores s)(i := (cores s i)\<lparr>threads := ts\<rparr>)\<rparr>)"

inductive_cases system_stepE: "system_step lk s s'"

text \<open>In the beginning each core runs one thread, all locks are free, and any mask may be set.\<close>

definition initial :: "(core_id \<Rightarrow> u32) \<Rightarrow> system \<Rightarrow> bool" where
  "initial m0 s \<longleftrightarrow> spinlock_st (memory s) = 0
     \<and> (\<forall>i. m0 i \<in> {0, 1} \<and> primask (core_hw (cores s i)) = m0 i
          \<and> (\<exists>t. threads (cores s i) = [t] \<and> todo t = []))"

section \<open>Locks and their numbers\<close>

lemma lock_numbers:
  assumes "n < NUM_SPIN_LOCKS"
  shows "spin_lock_get_num (spin_lock_instance n) = n"
proof -
  have "list_all (\<lambda>n. spin_lock_get_num (spin_lock_instance n) = n) (map of_nat [0..<32])" by code_simp
  moreover have "n \<in> set (map of_nat [0..<32])"
    using assms unfolding NUM_SPIN_LOCKS_def
    by (auto simp: word_less_nat_alt image_iff intro!: bexI [of _ "unat n"])
  ultimately show ?thesis by (simp only: list_all_iff)
qed

definition lock_bit :: "u32 \<Rightarrow> nat" where
  "lock_bit lock = unat (spin_lock_get_num lock)"

lemma lock_bit_valid:
  assumes "lock_valid l"
  shows "lock_bit l < 32" and "lock_valid l' \<Longrightarrow> lock_bit l = lock_bit l' \<longleftrightarrow> l = l'"
  using assms
  by (auto simp: lock_valid_def lock_bit_def lock_numbers word_less_nat_alt NUM_SPIN_LOCKS_def
      dest: unsigned_word_eqI)

lemma lock_test: "lock_valid l \<Longrightarrow> st AND push_bit (lock_bit l) 1 = 0 \<longleftrightarrow> \<not> bit (st :: u32) (lock_bit l)"
  by (simp add: and_exp_eq_0_iff_not_bit push_bit_eq_mult)

lemma read_lock:
  assumes "lock_valid l"
  shows "spinlock_read l st = (if bit st (lock_bit l) then (0, st)
    else (push_bit (lock_bit l) 1, set_bit (lock_bit l) st))"
  using lock_test [OF assms, of st] by (simp add: spinlock_read_def lock_bit_def [symmetric] set_bit_eq_or Let_def)

lemma read_lock_claims:
  assumes "lock_valid l"
  shows "fst (spinlock_read l st) = 0 \<longleftrightarrow> bit st (lock_bit l)"
proof -
  have "push_bit (lock_bit l) (1 :: u32) \<noteq> 0"
    using lock_bit_valid(1) [OF assms] by (simp add: push_bit_eq_mult)
  then show ?thesis by (simp add: read_lock [OF assms])
qed

lemma write_lock: "spinlock_write l st = unset_bit (lock_bit l) st"
  by (simp add: spinlock_write_def lock_bit_def unset_bit_eq_and_not)

lemma locked_bit: "lock_valid l \<Longrightarrow> is_spin_locked l st \<longleftrightarrow> bit st (lock_bit l)"
  using lock_test [of l st] by (auto simp: is_spin_locked_def lock_bit_def [symmetric] Let_def)

section \<open>The invariant\<close>

text \<open>
  Where a thread stands is decided by what it has left: it holds a lock when it still has to clear
  it and no longer to try it, and its core masks interrupts between \<open>Mask\<close> and \<open>Restore_mask\<close>.
\<close>

definition holds :: "u32 \<Rightarrow> thread \<Rightarrow> bool" where
  "holds l t \<longleftrightarrow> Clear_lock l \<in> set (todo t) \<and> Try_lock l \<notin> set (todo t)"

definition masked_thread :: "thread \<Rightarrow> bool" where
  "masked_thread t \<longleftrightarrow> Restore_mask \<in> set (todo t) \<and> Mask \<notin> set (todo t)"

definition placed :: "(nat \<Rightarrow> u32) \<Rightarrow> thread \<Rightarrow> bool" where
  "placed lk t \<longleftrightarrow> todo t = [] \<or> (\<exists>prog. startable lk prog \<and> suffix (todo t) prog)"

text \<open>The status the thread will restore is the mask \<open>m0\<close> its core had before, wherever it is kept.\<close>

definition status_ok :: "u32 \<Rightarrow> shared \<Rightarrow> thread \<Rightarrow> bool" where
  "status_ok m0 h t \<longleftrightarrow>
     (todo t \<noteq> [] \<and> Read_mask \<notin> set (todo t) \<longrightarrow> saved t = m0)
     \<and> (\<forall>p. Load p \<in> set (todo t) \<and> Keep p \<notin> set (todo t) \<longrightarrow> save_field h p = m0)
     \<and> (todo t \<noteq> [] \<and> Pass \<notin> set (todo t) \<and> (\<forall>p. Load p \<notin> set (todo t)) \<longrightarrow> saved_irq t = m0)"

definition core_ok :: "(nat \<Rightarrow> u32) \<Rightarrow> u32 \<Rightarrow> shared \<Rightarrow> core \<Rightarrow> bool" where
  "core_ok lk m0 h k \<longleftrightarrow> (\<exists>t ts. threads k = t # ts \<and> placed lk t \<and> status_ok m0 h t
     \<and> primask (core_hw k) = (if masked_thread t then 1 else m0)
     \<and> (ts \<noteq> [] \<longrightarrow> m0 = 0)
     \<and> (\<forall>u \<in> set ts. placed lk u \<and> status_ok m0 h u \<and> \<not> masked_thread u))"

definition running :: "system \<Rightarrow> core_id \<Rightarrow> thread" where
  "running s i = hd (threads (cores s i))"

definition locks_ok :: "system \<Rightarrow> bool" where
  "locks_ok s \<longleftrightarrow> (\<forall>l. lock_valid l \<longrightarrow>
     (bit (spinlock_st (memory s)) (lock_bit l) \<longleftrightarrow> (\<exists>i. holds l (running s i)))
     \<and> (\<forall>i j. holds l (running s i) \<longrightarrow> holds l (running s j) \<longrightarrow> i = j))"

definition system_ok :: "(nat \<Rightarrow> u32) \<Rightarrow> (core_id \<Rightarrow> u32) \<Rightarrow> system \<Rightarrow> bool" where
  "system_ok lk m0 s \<longleftrightarrow> (\<forall>i. m0 i \<in> {0, 1} \<and> core_ok lk (m0 i) (memory s) (cores s i)) \<and> locks_ok s"

lemmas action_lists = guarded_def locked_def critical_section_enter_blocking_def
  critical_section_exit_def spin_lock_blocking_def spin_unlock_def disable_actions_def
  restore_actions_def spin_lock_unsafe_blocking_def spin_unlock_unsafe_def

text \<open>The places a program can be at.\<close>

lemma placed_cases:
  assumes "placed lk t" and "todo t = a # as"
  obtains (guarded) p where "lock_valid (lk p)" and "a # as \<in> {guarded lk p,
      Mask # Try_lock (lk p) # Fence # Keep p # Work_step # critical_section_exit lk p,
      Try_lock (lk p) # Fence # Keep p # Work_step # critical_section_exit lk p,
      Fence # Keep p # Work_step # critical_section_exit lk p,
      Keep p # Work_step # critical_section_exit lk p, Work_step # critical_section_exit lk p,
      critical_section_exit lk p, spin_unlock (lk p), Clear_lock (lk p) # restore_actions, restore_actions}"
  | (locked) l where "lock_valid l" and "a # as \<in> {locked l,
      Mask # Try_lock l # Fence # Work_step # Pass # spin_unlock l,
      Try_lock l # Fence # Work_step # Pass # spin_unlock l, Fence # Work_step # Pass # spin_unlock l,
      Work_step # Pass # spin_unlock l, Pass # spin_unlock l, spin_unlock l,
      Clear_lock l # restore_actions, restore_actions}"
proof -
  obtain prog where prog: "startable lk prog" "suffix (a # as) prog"
    using assms by (auto simp: placed_def)
  from prog(1) show thesis unfolding startable_def
  proof (elim disjE exE conjE)
    fix p assume "prog = guarded lk p" "lock_valid (lk p)"
    with prog(2) show thesis by (intro guarded) (simp_all add: suffix_Cons action_lists)
  next
    fix l assume "prog = locked l" "lock_valid l"
    with prog(2) show thesis by (intro locked) (simp_all add: suffix_Cons action_lists)
  qed
qed

lemma placed_tail: "placed lk t \<Longrightarrow> todo t = a # as \<Longrightarrow> placed lk (t\<lparr>todo := as\<rparr>)"
  by (auto simp: placed_def dest: suffix_ConsD)

lemma holds_masked:
  assumes "placed lk t" and "holds l t"
  shows "masked_thread t" and "lock_valid l" and "holds l' t \<Longrightarrow> l' = l"
proof -
  obtain a as where t: "todo t = a # as" using assms(2) by (cases "todo t") (auto simp: holds_def)
  have "masked_thread t \<and> lock_valid l \<and> (holds l' t \<longrightarrow> l' = l)"
    using assms(1) t
  proof (cases rule: placed_cases)
    case (guarded p)
    with assms(2) t show ?thesis by (auto simp: holds_def masked_thread_def action_lists)
  next
    case (locked k)
    with assms(2) t show ?thesis by (auto simp: holds_def masked_thread_def action_lists)
  qed
  then show "masked_thread t" and "lock_valid l" and "holds l' t \<Longrightarrow> l' = l" by auto
qed

lemma kept_held:
  assumes "placed lk t" and "Load p \<in> set (todo t)" and "Keep p \<notin> set (todo t)"
  shows "holds (lk p) t"
proof -
  obtain a as where t: "todo t = a # as" using assms(2) by (cases "todo t") auto
  from assms(1) t show ?thesis
  proof (cases rule: placed_cases)
    case (guarded p)
    with assms(2,3) t show ?thesis by (auto simp: holds_def action_lists)
  next
    case (locked k)
    with assms(2,3) t show ?thesis by (auto simp: holds_def action_lists)
  qed
qed

section \<open>One action keeps the invariant\<close>

text \<open>
  What an action of a thread means for one lock: nothing changes, or the thread takes the free lock,
  or it gives the lock back.
\<close>

definition lock_move :: "u32 \<Rightarrow> bool \<Rightarrow> bool \<Rightarrow> bool \<Rightarrow> bool \<Rightarrow> bool" where
  "lock_move l taken taken' held held' \<longleftrightarrow> taken' = taken \<and> held' = held
     \<or> \<not> taken \<and> taken' \<and> \<not> held \<and> held' \<or> held \<and> \<not> held' \<and> \<not> taken'"

lemma bit_moves:
  assumes "lock_valid l" and "lock_valid k"
  shows "bit (set_bit (lock_bit k) (st :: u32)) (lock_bit l) \<longleftrightarrow> l = k \<or> bit st (lock_bit l)"
    and "bit (unset_bit (lock_bit k) (st :: u32)) (lock_bit l) \<longleftrightarrow> l \<noteq> k \<and> bit st (lock_bit l)"
  using assms lock_bit_valid(1) [OF assms(1)] lock_bit_valid(2) [OF assms(1,2)]
  by (auto simp: bit_set_bit_iff bit_unset_bit_iff)

lemma mask_restored: "m \<in> {0, 1} \<Longrightarrow> primask (restore_interrupts m s) = m"
  by (auto simp: restore_interrupts_def)

lemma exec_thread:
  assumes "placed lk t" and "status_ok m0 h t" and "todo t = a # as" and "m0 \<in> {0, 1}"
    and "primask m = (if masked_thread t then 1 else m0)"
    and "exec_action a (t\<lparr>todo := as\<rparr>, m, h) = (t', m', h')"
  shows "placed lk t' \<and> status_ok m0 h' t' \<and> primask m' = (if masked_thread t' then 1 else m0)"
proof -
  have placed: "placed lk t'"
  proof (cases "\<exists>l. a = Try_lock l")
    case True
    then obtain l where "a = Try_lock l" ..
    with assms(1,3,6) placed_tail [OF assms(1,3)] show ?thesis
      by (auto simp: case_prod_beta Let_def placed_def split: if_splits)
  next
    case False
    with assms(6) have "todo t' = as" by (cases a) auto
    with placed_tail [OF assms(1,3)] show ?thesis by (simp add: placed_def)
  qed
  from assms(1,3) have "status_ok m0 h' t' \<and> primask m' = (if masked_thread t' then 1 else m0)"
  proof (cases rule: placed_cases)
    case (guarded p)
    from guarded(2) show ?thesis unfolding insert_iff empty_iff simp_thms
      by (elim disjE; insert assms(2-6), clarsimp simp: status_ok_def masked_thread_def action_lists
          mask_restored case_prod_beta Let_def split: if_splits)
  next
    case (locked l)
    from locked(2) show ?thesis unfolding insert_iff empty_iff simp_thms
      by (elim disjE; insert assms(2-6), clarsimp simp: status_ok_def masked_thread_def action_lists
          mask_restored case_prod_beta Let_def split: if_splits)
  qed
  with placed show ?thesis by blast
qed

lemma lock_places:
  assumes "placed lk t" and "todo t = a # as"
  shows "(\<exists>k. lock_valid k \<and> a = Try_lock k \<and> (\<forall>l. Clear_lock l \<in> set as \<longleftrightarrow> l = k) \<and> (\<forall>l. Try_lock l \<notin> set as))
    \<or> (\<exists>k. lock_valid k \<and> a = Clear_lock k \<and> as = restore_actions)
    \<or> (\<forall>l. a \<noteq> Try_lock l \<and> a \<noteq> Clear_lock l)"
  using assms
proof (cases rule: placed_cases)
  case (guarded p)
  from guarded(2) show ?thesis unfolding insert_iff empty_iff simp_thms
    by (elim disjE; insert guarded(1), simp add: action_lists)
next
  case (locked k)
  from locked(2) show ?thesis unfolding insert_iff empty_iff simp_thms
    by (elim disjE; insert locked(1), simp add: action_lists)
qed

lemma exec_lock:
  assumes "placed lk t" and "todo t = a # as" and "lock_valid l"
    and "exec_action a (t\<lparr>todo := as\<rparr>, m, h) = (t', m', h')"
  shows "lock_move l (bit (spinlock_st h) (lock_bit l)) (bit (spinlock_st h') (lock_bit l)) (holds l t) (holds l t')"
proof -
  have move: ?thesis if k: "lock_valid k" and a: "a = Try_lock k
      \<and> (\<forall>l. Clear_lock l \<in> set as \<longleftrightarrow> l = k) \<and> (\<forall>l. Try_lock l \<notin> set as)
      \<or> a = Clear_lock k \<and> as = restore_actions" for k
    using a
  proof (elim disjE conjE)
    assume "a = Try_lock k" "\<forall>l. Clear_lock l \<in> set as \<longleftrightarrow> l = k" "\<forall>l. Try_lock l \<notin> set as"
    note a = this
    show ?thesis
    proof (cases "bit (spinlock_st h) (lock_bit k)")
      case True
      with a(1) assms(2,4) have "todo t' = todo t" "h' = h" by (auto simp: read_lock [OF k] case_prod_beta)
      then show ?thesis by (simp add: lock_move_def holds_def)
    next
      case False
      then have "fst (spinlock_read k (spinlock_st h)) \<noteq> 0" using read_lock_claims [OF k] by blast
      with False a(1) assms(4) have "t' = t\<lparr>todo := as\<rparr>"
        "spinlock_st h' = set_bit (lock_bit k) (spinlock_st h)"
        by (auto simp: read_lock [OF k] case_prod_beta)
      moreover have "\<not> holds l t" "holds l (t\<lparr>todo := as\<rparr>) \<longleftrightarrow> l = k"
        using a assms(2) by (auto simp: holds_def)
      ultimately show ?thesis using False bit_moves(1) [OF assms(3) k] by (auto simp: lock_move_def)
    qed
  next
    assume "a = Clear_lock k" "as = restore_actions"
    with assms(2,4) have "t' = t\<lparr>todo := restore_actions\<rparr>"
      "spinlock_st h' = unset_bit (lock_bit k) (spinlock_st h)" by (auto simp: write_lock)
    moreover have "holds l t \<longleftrightarrow> l = k" "\<not> holds l (t\<lparr>todo := restore_actions\<rparr>)"
      using \<open>a = Clear_lock k\<close> \<open>as = restore_actions\<close> assms(2)
      by (auto simp: holds_def restore_actions_def)
    ultimately show ?thesis using bit_moves(2) [OF assms(3) k] by (auto simp: lock_move_def)
  qed
  have other: ?thesis if "\<forall>l. a \<noteq> Try_lock l \<and> a \<noteq> Clear_lock l"
  proof -
    have "spinlock_st h' = spinlock_st h \<and> todo t' = as"
      using that assms(4) by (cases a) auto
    moreover have "holds l t \<longleftrightarrow> Clear_lock l \<in> set as \<and> Try_lock l \<notin> set as"
      using that assms(2) by (auto simp: holds_def)
    ultimately show ?thesis by (simp add: holds_def lock_move_def)
  qed
  from lock_places [OF assms(1,2)] show ?thesis
  proof (elim disjE exE conjE)
    fix k assume "lock_valid k" "a = Try_lock k" "\<forall>l. Clear_lock l \<in> set as \<longleftrightarrow> l = k"
      "\<forall>l. Try_lock l \<notin> set as"
    then show ?thesis by (intro move [of k]) simp_all
  next
    fix k assume "lock_valid k" "a = Clear_lock k" "as = restore_actions"
    then show ?thesis by (intro move [of k]) simp_all
  qed (rule other)
qed

lemma exec_saves:
  assumes "placed lk t" and "todo t = a # as" and "exec_action a (t\<lparr>todo := as\<rparr>, m, h) = (t', m', h')"
    and "save_field h' p \<noteq> save_field h p"
  shows "holds (lk p) t"
proof -
  have "a = Keep p" using assms(3,4) by (cases a) (auto simp: case_prod_beta Let_def split: if_splits)
  from assms(1,2) this show ?thesis
    by (cases rule: placed_cases) (auto simp: holds_def action_lists assms(2))
qed

section \<open>Every step keeps the invariant\<close>

lemma status_frame:
  assumes "placed lk u" and "status_ok m0 h u"
    and "\<And>p. holds (lk p) u \<Longrightarrow> save_field h' p = save_field h p"
  shows "status_ok m0 h' u"
  using assms(2,3) kept_held [OF assms(1)] by (auto simp: status_ok_def)

lemma core_frame:
  assumes "core_ok lk m0 h k"
    and "\<And>p. holds (lk p) (hd (threads k)) \<Longrightarrow> save_field h' p = save_field h p"
  shows "core_ok lk m0 h' k"
proof -
  obtain t ts where k: "threads k = t # ts" "placed lk t" "status_ok m0 h t"
    "primask (core_hw k) = (if masked_thread t then 1 else m0)" "ts \<noteq> [] \<longrightarrow> m0 = 0"
    "\<forall>u \<in> set ts. placed lk u \<and> status_ok m0 h u \<and> \<not> masked_thread u"
    using assms(1) by (auto simp: core_ok_def)
  have "status_ok m0 h' t" using assms(2) k(1) by (intro status_frame [OF k(2,3)]) simp
  moreover have "status_ok m0 h' u" if "u \<in> set ts" for u
  proof (rule status_frame [of lk u m0 h])
    show "save_field h' p = save_field h p" if "holds (lk p) u" for p
      using that k(6) \<open>u \<in> set ts\<close> holds_masked(1) [of lk u] by blast
  qed (use k(6) that in simp_all)
  ultimately show ?thesis using k unfolding core_ok_def by blast
qed

lemma core_okD:
  assumes "core_ok lk m0 h k" and "threads k = t # ts"
  shows "placed lk t" and "status_ok m0 h t" and "primask (core_hw k) = (if masked_thread t then 1 else m0)"
    and "ts \<noteq> [] \<longrightarrow> m0 = 0" and "\<forall>u \<in> set ts. placed lk u \<and> status_ok m0 h u \<and> \<not> masked_thread u"
  using assms by (simp_all add: core_ok_def)

lemma system_okD:
  assumes "system_ok lk m0 s"
  shows "core_ok lk (m0 i) (memory s) (cores s i)" and "m0 i \<in> {0, 1}" and "threads (cores s i) \<noteq> []"
    and "placed lk (running s i)"
proof -
  show "core_ok lk (m0 i) (memory s) (cores s i)" "m0 i \<in> {0, 1}" using assms by (simp_all add: system_ok_def)
  then show "threads (cores s i) \<noteq> []" "placed lk (running s i)" by (auto simp: core_ok_def running_def)
qed

lemma system_ok_locks:
  assumes "system_ok lk m0 s" and "lock_valid l"
  shows "bit (spinlock_st (memory s)) (lock_bit l) \<longleftrightarrow> (\<exists>i. holds l (running s i))"
    and "holds l (running s i) \<Longrightarrow> holds l (running s j) \<Longrightarrow> i = j"
  using assms by (auto simp: system_ok_def locks_ok_def)

lemma acting_core:
  assumes "core_acts i s = Some s'" and "core_ok lk m0 (memory s) (cores s i)" and "m0 \<in> {0, 1}"
  shows "core_ok lk m0 (memory s') (cores s' i)"
    and "lock_valid l \<Longrightarrow> lock_move l (bit (spinlock_st (memory s)) (lock_bit l))
      (bit (spinlock_st (memory s')) (lock_bit l)) (holds l (running s i)) (holds l (running s' i))"
    and "save_field (memory s') p \<noteq> save_field (memory s) p \<Longrightarrow> holds (lk p) (running s i)"
    and "j \<noteq> i \<Longrightarrow> cores s' j = cores s j"
proof -
  let ?k = "cores s i"
  from assms(1) obtain t ts a as t' m' h' where t: "threads ?k = t # ts" "todo t = a # as"
    and x: "exec_action a (t\<lparr>todo := as\<rparr>, core_hw ?k, memory s) = (t', m', h')"
    and s': "s' = s\<lparr>cores := (cores s)(i := ?k\<lparr>core_hw := m', threads := t' # ts\<rparr>), memory := h'\<rparr>"
    by (auto simp: core_acts_def Let_def split: list.splits prod.splits)
  note k = core_okD [OF assms(2) t(1)]
  have run: "running s i = t" "running s' i = t'" by (simp_all add: running_def t(1) s')
  have "status_ok m0 h' u" if "u \<in> set ts" for u
  proof (rule status_frame [of lk u m0 "memory s"])
    show "save_field h' p = save_field (memory s) p" if "holds (lk p) u" for p
      using that k(5) \<open>u \<in> set ts\<close> holds_masked(1) [of lk u] by blast
  qed (use k(5) that in auto)
  with exec_thread [OF k(1,2) t(2) assms(3) k(3) x] k(4,5)
  show "core_ok lk m0 (memory s') (cores s' i)" by (simp add: core_ok_def s')
  show "lock_move l (bit (spinlock_st (memory s)) (lock_bit l))
      (bit (spinlock_st (memory s')) (lock_bit l)) (holds l (running s i)) (holds l (running s' i))"
    if "lock_valid l"
    using exec_lock [OF k(1) t(2) that x] unfolding run by (simp add: s')
  show "holds (lk p) (running s i)" if "save_field (memory s') p \<noteq> save_field (memory s) p"
    using exec_saves [OF k(1) t(2) x, of p] that unfolding run by (simp add: s')
  show "j \<noteq> i \<Longrightarrow> cores s' j = cores s j" by (simp add: s')
qed

lemma acts_ok:
  assumes "system_ok lk m0 s" and "core_acts i s = Some s'"
  shows "system_ok lk m0 s'"
proof -
  note ok = system_okD [OF assms(1)]
  note act = acting_core [OF assms(2) ok(1,2)]
  have run: "running s' j = running s j" if "j \<noteq> i" for j using act(4) [OF that] by (simp add: running_def)
  have excl: "j = j'" if "lock_valid l" "holds l (running s j)" "holds l (running s j')" for l j j'
    using system_ok_locks(2) [OF assms(1) that(1)] that(2,3) by blast
  have "core_ok lk (m0 j) (memory s') (cores s' j)" for j
  proof (cases "j = i")
    case False
    from ok(1) have "core_ok lk (m0 j) (memory s') (cores s j)"
    proof (rule core_frame)
      fix p assume p: "holds (lk p) (hd (threads (cores s j)))"
      then have "lock_valid (lk p)" using holds_masked(2) [OF ok(4) [of j]] by (simp add: running_def)
      then have "\<not> holds (lk p) (running s i)" using excl [of "lk p" i j] p False by (auto simp: running_def)
      then show "save_field (memory s') p = save_field (memory s) p" using act(3) by blast
    qed
    with False act(4) show ?thesis by simp
  qed (simp add: act(1))
  moreover have "locks_ok s'" unfolding locks_ok_def
  proof (intro allI impI conjI)
    fix l assume l: "lock_valid l"
    note move = act(2) [OF l] and taken = system_ok_locks(1) [OF assms(1) l]
    show "bit (spinlock_st (memory s')) (lock_bit l) \<longleftrightarrow> (\<exists>j. holds l (running s' j))"
      using move taken excl [OF l] run unfolding lock_move_def by metis
    show "j = j'" if "holds l (running s' j)" "holds l (running s' j')" for j j'
      using that move taken excl [OF l] run unfolding lock_move_def by metis
  qed
  ultimately show ?thesis using ok(2) by (simp add: system_ok_def)
qed

text \<open>A core may change its threads outside locks.\<close>

lemma replaced_ok:
  assumes "system_ok lk m0 s" and "core_ok lk (m0 i) (memory s) k"
    and "\<And>l. holds l (hd (threads k)) \<longleftrightarrow> holds l (running s i)"
  shows "system_ok lk m0 (s\<lparr>cores := (cores s)(i := k)\<rparr>)"
proof -
  let ?s = "s\<lparr>cores := (cores s)(i := k)\<rparr>"
  have "holds l (running ?s j) \<longleftrightarrow> holds l (running s j)" for l j
    using assms(3) by (simp add: running_def)
  moreover have "core_ok lk (m0 j) (memory s) ((cores ?s) j)" for j
    using assms(2) system_okD(1) [OF assms(1)] by simp
  ultimately show ?thesis using assms(1) by (simp add: system_ok_def locks_ok_def)
qed

lemma started_placed:
  assumes "startable lk prog"
  shows "placed lk (t\<lparr>todo := prog\<rparr>)" and "status_ok m0 h (t\<lparr>todo := prog\<rparr>)"
    and "\<not> masked_thread (t\<lparr>todo := prog\<rparr>)" and "\<not> holds l (t\<lparr>todo := prog\<rparr>)"
proof -
  show "placed lk (t\<lparr>todo := prog\<rparr>)" using assms by (auto simp: placed_def)
  from assms consider p where "prog = guarded lk p" | k where "prog = locked k"
    by (auto simp: startable_def)
  then show "status_ok m0 h (t\<lparr>todo := prog\<rparr>)" "\<not> masked_thread (t\<lparr>todo := prog\<rparr>)"
    "\<not> holds l (t\<lparr>todo := prog\<rparr>)"
    by (cases; simp add: status_ok_def masked_thread_def holds_def action_lists)+
qed

lemma idle_thread:
  assumes "todo t = []"
  shows "placed lk t" and "status_ok m0 h t" and "\<not> masked_thread t" and "\<not> holds l t"
  using assms by (simp_all add: placed_def status_ok_def masked_thread_def holds_def)

lemma started_core:
  assumes "core_ok lk m0 h k" and "threads k = t # ts" and "todo t = []" and "startable lk prog"
  shows "core_ok lk m0 h (k\<lparr>threads := t\<lparr>todo := prog\<rparr> # ts\<rparr>)"
    and "holds l (hd (t\<lparr>todo := prog\<rparr> # ts)) \<longleftrightarrow> holds l (hd (threads k))"
  using core_okD [OF assms(1,2)] started_placed [OF assms(4)] idle_thread(3,4) [OF assms(3)] assms(2)
  by (simp_all add: core_ok_def)

lemma interrupted_core:
  assumes "core_ok lk m0 h k" and "primask (core_hw k) = 0" and "todo v = []"
  shows "core_ok lk m0 h (k\<lparr>threads := v # threads k\<rparr>)"
    and "holds l (hd (v # threads k)) \<longleftrightarrow> holds l (hd (threads k))"
proof -
  obtain t ts where t: "threads k = t # ts" using assms(1) by (auto simp: core_ok_def)
  note k = core_okD [OF assms(1) t]
  have m: "\<not> masked_thread t" "m0 = 0" using k(3) assms(2) by (auto split: if_splits)
  then have "\<not> holds l t" for l using holds_masked(1) [OF k(1)] by blast
  with k t m assms(2) idle_thread [OF assms(3)]
  show "core_ok lk m0 h (k\<lparr>threads := v # threads k\<rparr>)"
    "holds l (hd (v # threads k)) \<longleftrightarrow> holds l (hd (threads k))" by (simp_all add: core_ok_def)
qed

lemma returned_core:
  assumes "core_ok lk m0 h k" and "threads k = t # ts" and "todo t = []" and "ts \<noteq> []"
  shows "core_ok lk m0 h (k\<lparr>threads := ts\<rparr>)" and "holds l (hd ts) \<longleftrightarrow> holds l (hd (threads k))"
proof -
  note k = core_okD [OF assms(1,2)]
  obtain u us where ts: "ts = u # us" using assms(4) by (cases ts) auto
  have "\<not> holds l u" for l using holds_masked(1) [of lk u l] k(5) ts by auto
  with k ts assms(2) idle_thread(3,4) [OF assms(3)]
  show "core_ok lk m0 h (k\<lparr>threads := ts\<rparr>)" "holds l (hd ts) \<longleftrightarrow> holds l (hd (threads k))"
    by (simp_all add: core_ok_def)
qed

lemma step_ok:
  assumes "system_ok lk m0 s" and "system_step lk s s'"
  shows "system_ok lk m0 s'"
  using assms(2)
proof (cases rule: system_step.cases)
  case (acts i)
  then show ?thesis by (rule acts_ok [OF assms(1)])
next
  case (starts i t ts prog)
  note k = started_core [OF system_okD(1) [OF assms(1)] starts(2-4)]
  show ?thesis unfolding starts(1) by (rule replaced_ok [OF assms(1)]) (use k in \<open>simp_all add: running_def\<close>)
next
  case (interrupted i h)
  note k = interrupted_core [OF system_okD(1) [OF assms(1)] interrupted(2,3)]
  show ?thesis unfolding interrupted(1)
    by (rule replaced_ok [OF assms(1)]) (use k in \<open>simp_all add: running_def\<close>)
next
  case (returns i t ts)
  note k = returned_core [OF system_okD(1) [OF assms(1)] returns(2-4)]
  show ?thesis unfolding returns(1) by (rule replaced_ok [OF assms(1)]) (use k in \<open>simp_all add: running_def\<close>)
qed

lemma initial_ok: "initial m0 s \<Longrightarrow> system_ok lk m0 s"
proof -
  assume "initial m0 s"
  then have i: "spinlock_st (memory s) = 0" "\<And>i. m0 i \<in> {0, 1}" "\<And>i. primask (core_hw (cores s i)) = m0 i"
    "\<And>i. \<exists>t. threads (cores s i) = [t] \<and> todo t = []" by (auto simp: initial_def)
  have "core_ok lk (m0 i) (memory s) (cores s i)" for i
  proof -
    obtain t where "threads (cores s i) = [t]" "todo t = []" using i(4) by blast
    with i(3) [of i] show ?thesis by (simp add: core_ok_def idle_thread)
  qed
  moreover have "\<not> holds l (running s i)" for l i
    using i(4) [of i] idle_thread(4) by (auto simp: running_def)
  ultimately show ?thesis using i(1,2) by (simp add: system_ok_def locks_ok_def)
qed

lemma reachable_ok:
  assumes "initial m0 s" and "(system_step lk)\<^sup>*\<^sup>* s s'"
  shows "system_ok lk m0 s'"
  using assms(2) by (induction rule: rtranclp_induct) (auto intro: initial_ok [OF assms(1)] step_ok)

section \<open>Nobody waits for ever\<close>

text \<open>What is left to do in all threads, with one more for the return of each handler.\<close>

definition left_on :: "core \<Rightarrow> nat" where
  "left_on k = sum_list (map (\<lambda>t. length (todo t)) (threads k)) + length (threads k)"

definition work_left :: "system \<Rightarrow> nat" where
  "work_left s = left_on (cores s Core0) + left_on (cores s Core1)"

definition all_done :: "system \<Rightarrow> bool" where
  "all_done s \<longleftrightarrow> (\<forall>i. \<exists>t. threads (cores s i) = [t] \<and> todo t = [])"

lemma core_ids: "i = Core0 \<or> i = Core1"
  by (cases i) simp_all

lemma left_on_less:
  assumes "left_on (cores s' i) < left_on (cores s i)" and "\<And>j. j \<noteq> i \<Longrightarrow> cores s' j = cores s j"
  shows "work_left s' < work_left s"
proof (cases i)
  case Core0
  then have "cores s' Core1 = cores s Core1" by (intro assms(2)) simp
  with assms(1) Core0 show ?thesis by (simp add: work_left_def)
next
  case Core1
  then have "cores s' Core0 = cores s Core0" by (intro assms(2)) simp
  with assms(1) Core1 show ?thesis by (simp add: work_left_def)
qed

text \<open>A thread gets on unless it waits for a lock that is taken.\<close>

lemma acts_or_waits:
  assumes "core_ok lk m0 (memory s) (cores s i)" and "todo (running s i) \<noteq> []"
  shows "(\<exists>s'. core_acts i s = Some s' \<and> work_left s' < work_left s)
    \<or> (\<exists>l. lock_valid l \<and> hd (todo (running s i)) = Try_lock l \<and> bit (spinlock_st (memory s)) (lock_bit l))"
proof -
  obtain t ts where t: "threads (cores s i) = t # ts" using assms(1) by (auto simp: core_ok_def)
  note k = core_okD [OF assms(1) t]
  have r: "running s i = t" by (simp add: running_def t)
  obtain a as where a: "todo t = a # as" using assms(2) r by (cases "todo t") auto
  obtain t' m' h' where x: "exec_action a (t\<lparr>todo := as\<rparr>, core_hw (cores s i), memory s) = (t', m', h')"
    by (cases "exec_action a (t\<lparr>todo := as\<rparr>, core_hw (cores s i), memory s)") auto
  let ?s = "s\<lparr>cores := (cores s)(i := (cores s i)\<lparr>core_hw := m', threads := t' # ts\<rparr>), memory := h'\<rparr>"
  have act: "core_acts i s = Some ?s" by (simp add: core_acts_def t a x)
  show ?thesis
  proof (cases "\<exists>l. a = Try_lock l \<and> bit (spinlock_st (memory s)) (lock_bit l)")
    case True
    then show ?thesis using lock_places [OF k(1) a] by (auto simp: r a)
  next
    case False
    have "todo t' = as"
    proof (cases "\<exists>l. a = Try_lock l")
      case True
      then obtain l where l: "a = Try_lock l" "\<not> bit (spinlock_st (memory s)) (lock_bit l)" using False by blast
      then have "lock_valid l" using lock_places [OF k(1) a] by auto
      then have "fst (spinlock_read l (spinlock_st (memory s))) \<noteq> 0" using l(2) read_lock_claims by blast
      then show ?thesis using x l(1) by (auto simp: case_prod_beta Let_def split: if_splits)
    next
      case False
      then show ?thesis using x by (cases a) auto
    qed
    then have "left_on (cores ?s i) < left_on (cores s i)" by (simp add: left_on_def t a)
    then have "work_left ?s < work_left s" by (rule left_on_less) simp
    with act show ?thesis by blast
  qed
qed

lemma gets_on:
  assumes "system_ok lk m0 s" and "\<not> all_done s"
  shows "\<exists>s'. system_step lk s s' \<and> work_left s' < work_left s"
proof (rule ccontr)
  assume stuck: "\<not> ?thesis"
  note ok = system_okD [OF assms(1)]
  have waits: "\<exists>l. lock_valid l \<and> hd (todo (running s i)) = Try_lock l \<and> bit (spinlock_st (memory s)) (lock_bit l)"
    if "todo (running s i) \<noteq> []" for i
    using acts_or_waits [OF ok(1) that] stuck system_step.acts by blast
  have idle: "todo (running s i) = []" for i
  proof (rule ccontr)
    assume "todo (running s i) \<noteq> []"
    then obtain l where l: "lock_valid l" "bit (spinlock_st (memory s)) (lock_bit l)" using waits by blast
    then obtain j where j: "holds l (running s j)" using system_ok_locks(1) [OF assms(1)] by blast
    then have busy: "todo (running s j) \<noteq> []" by (auto simp: holds_def)
    then obtain l' where l': "hd (todo (running s j)) = Try_lock l'" using waits by blast
    then obtain as where as: "todo (running s j) = Try_lock l' # as" using busy by (cases "todo (running s j)") auto
    from lock_places [OF ok(4) as] have "Clear_lock l \<in> set as \<longleftrightarrow> l = l'" by auto
    with j as show False by (auto simp: holds_def)
  qed
  from assms(2) obtain i where i: "\<not> (\<exists>t. threads (cores s i) = [t] \<and> todo t = [])"
    by (auto simp: all_done_def)
  obtain t ts where t: "threads (cores s i) = t # ts" using ok(3) [of i] by (cases "threads (cores s i)") auto
  with idle [of i] have "todo t = []" by (simp add: running_def)
  with i t have ts: "ts \<noteq> []" by auto
  let ?s = "s\<lparr>cores := (cores s)(i := (cores s i)\<lparr>threads := ts\<rparr>)\<rparr>"
  have "left_on (cores ?s i) < left_on (cores s i)" by (simp add: left_on_def t)
  then have "work_left ?s < work_left s" by (rule left_on_less) simp
  with system_step.returns [OF t \<open>todo t = []\<close> ts] stuck show False by blast
qed

lemma all_end:
  assumes "system_ok lk m0 s"
  shows "\<exists>n s'. n \<le> work_left s \<and> (system_step lk ^^ n) s s' \<and> all_done s' \<and> system_ok lk m0 s'"
  using assms
proof (induction "work_left s" arbitrary: s rule: less_induct)
  case less
  show ?case
  proof (cases "all_done s")
    case True
    with less.prems show ?thesis by (intro exI [of _ 0] exI [of _ s]) simp
  next
    case False
    then obtain s1 where s1: "system_step lk s s1" "work_left s1 < work_left s"
      using gets_on [OF less.prems] by blast
    from less.hyps [OF s1(2) step_ok [OF less.prems s1(1)]] obtain n s2 where
      "n \<le> work_left s1" "(system_step lk ^^ n) s1 s2" "all_done s2" "system_ok lk m0 s2" by blast
    with s1 show ?thesis
      by (intro exI [of _ "Suc n"] exI [of _ s2]) (auto intro: relpowp_Suc_I2 simp del: relpowp.simps)
  qed
qed

section \<open>Taking a lock twice\<close>

text \<open>
  Core \<open>i\<close> is about to take the lock \<open>l\<close> that no other core has and that is taken all the same; what
  follows is \<open>rest\<close>.
\<close>

definition stuck_on :: "(nat \<Rightarrow> u32) \<Rightarrow> (core_id \<Rightarrow> u32) \<Rightarrow> core_id \<Rightarrow> u32 \<Rightarrow> action list \<Rightarrow> system \<Rightarrow> bool" where
  "stuck_on lk m0 i l rest s \<longleftrightarrow> bit (spinlock_st (memory s)) (lock_bit l)
     \<and> primask (core_hw (cores s i)) = 1 \<and> threads (cores s i) \<noteq> []
     \<and> todo (running s i) \<in> {spin_lock_blocking l @ rest, Mask # Try_lock l # Fence # rest, Try_lock l # Fence # rest}
     \<and> (\<forall>j. j \<noteq> i \<longrightarrow> m0 j \<in> {0, 1} \<and> core_ok lk (m0 j) (memory s) (cores s j) \<and> \<not> holds l (running s j))"

lemma stuck_acts:
  assumes "stuck_on lk m0 i l rest s" and "lock_valid l" and "core_acts j s = Some s'"
  shows "stuck_on lk m0 i l rest s'"
proof (cases "j = i")
  case True
  from assms(1) obtain t ts where t: "threads (cores s i) = t # ts" "running s i = t"
    by (cases "threads (cores s i)") (auto simp: stuck_on_def running_def)
  have taken: "spinlock_read l (spinlock_st (memory s)) = (0, spinlock_st (memory s))"
    using assms(1) by (simp add: stuck_on_def read_lock [OF assms(2)])
  from assms(1) t(2) have "todo t \<in> {spin_lock_blocking l @ rest, Mask # Try_lock l # Fence # rest,
    Try_lock l # Fence # rest}" by (simp add: stuck_on_def)
  then have "memory s' = memory s \<and> primask (core_hw (cores s' i)) = 1 \<and> threads (cores s' i) \<noteq> []
    \<and> todo (running s' i) \<in> {Mask # Try_lock l # Fence # rest, Try_lock l # Fence # rest}
    \<and> (\<forall>j. j \<noteq> i \<longrightarrow> cores s' j = cores s j)"
    using assms(1,3) True t taken by (auto simp: core_acts_def stuck_on_def action_lists running_def Let_def)
  with assms(1) show ?thesis by (auto simp: stuck_on_def running_def)
next
  case False
  with assms(1) have j: "m0 j \<in> {0, 1}" "core_ok lk (m0 j) (memory s) (cores s j)" "\<not> holds l (running s j)"
    by (auto simp: stuck_on_def)
  note act = acting_core [OF assms(3) j(2,1)]
  have "bit (spinlock_st (memory s')) (lock_bit l) \<and> \<not> holds l (running s' j)"
    using act(2) [OF assms(2)] assms(1) j(3) by (auto simp: lock_move_def stuck_on_def)
  moreover have "cores s' i = cores s i" using act(4) [of i] False by auto
  moreover have "k = j" if "k \<noteq> i" for k using that False by (cases i; cases j; cases k) auto
  ultimately show ?thesis using assms(1) act(1) j(1) by (auto simp: stuck_on_def running_def)
qed

lemma stuck_step:
  assumes "stuck_on lk m0 i l rest s" and "lock_valid l" and "system_step lk s s'"
  shows "stuck_on lk m0 i l rest s'"
proof -
  have other: "stuck_on lk m0 i l rest (s\<lparr>cores := (cores s)(j := k)\<rparr>)"
    if "j \<noteq> i" and "core_ok lk (m0 j) (memory s) (cores s j) \<Longrightarrow> core_ok lk (m0 j) (memory s) k
      \<and> (holds l (hd (threads k)) \<longleftrightarrow> holds l (hd (threads (cores s j))))" for j k
    using assms(1) that by (auto simp: stuck_on_def running_def)
  have busy: "todo (running s i) \<noteq> []" "primask (core_hw (cores s i)) \<noteq> 0"
    using assms(1) by (auto simp: stuck_on_def action_lists)
  show ?thesis using assms(3)
  proof (cases rule: system_step.cases)
    case (acts j)
    then show ?thesis by (rule stuck_acts [OF assms(1,2)])
  next
    case (starts j t ts prog)
    then have "j \<noteq> i" using busy(1) by (auto simp: running_def)
    then show ?thesis unfolding starts(1)
      using started_core [OF _ starts(2-4)] by (intro other) auto
  next
    case (interrupted j h)
    then have "j \<noteq> i" using busy(2) by auto
    then show ?thesis unfolding interrupted(1)
      using interrupted_core [OF _ interrupted(2,3)] by (intro other) auto
  next
    case (returns j t ts)
    then have "j \<noteq> i" using busy(1) by (auto simp: running_def)
    then show ?thesis unfolding returns(1)
      using returned_core [OF _ returns(2-4)] by (intro other) auto
  qed
qed

section \<open>Runs of one core\<close>

text \<open>A core that is not disturbed makes \<open>n\<close> actions.\<close>

fun core_runs :: "core_id \<Rightarrow> nat \<Rightarrow> system \<Rightarrow> system option" where
  "core_runs i 0 s = Some s"
| "core_runs i (Suc n) s = Option.bind (core_acts i s) (core_runs i n)"

lemma core_runs_reachable: "core_runs i n s = Some s' \<Longrightarrow> (system_step lk)\<^sup>*\<^sup>* s s'"
proof (induction n arbitrary: s)
  case (Suc n)
  then obtain s1 where "core_acts i s = Some s1" "core_runs i n s1 = Some s'"
    by (auto simp: bind_eq_Some_conv)
  with Suc.IH system_step.acts show ?case by (metis converse_rtranclp_into_rtranclp)
qed simp

text \<open>Undisturbed, the first two actions are \<open>save_and_disable_interrupts\<close>, the last \<open>restore_interrupts\<close>.\<close>

lemma mask_actions:
  assumes "threads (cores s i) = t # ts" and "todo t = disable_actions @ rest"
    and "save_and_disable_interrupts (core_hw (cores s i)) = (status, m)"
  shows "core_runs i 2 s = Some (s\<lparr>cores := (cores s)(i := (cores s i)\<lparr>core_hw := m,
    threads := t\<lparr>saved := status, todo := rest\<rparr> # ts\<rparr>)\<rparr>)"
  using assms by (auto simp: numeral_2_eq_2 core_acts_def disable_actions_def save_and_disable_interrupts_def Let_def)

definition idle_system :: system where
  "idle_system = \<lparr>cores = \<lambda>_. \<lparr>core_hw = reset_mcu, threads = [\<lparr>todo = [], saved = 0, saved_irq = 0\<rparr>]\<rparr>,
     memory = \<lparr>spinlock_st = 0, save_field = \<lambda>_. 0\<rparr>\<rparr>"

lemma idle_initial: "initial (\<lambda>_. 0) idle_system"
  by (simp add: initial_def idle_system_def reset_mcu_def)

text \<open>Core 0 has entered a critical section with lock 0 and works there.\<close>

definition lock0 :: u32 where "lock0 = spin_lock_instance 0"

lemma lock0: "lock_valid lock0" "lock_bit lock0 = 0"
proof -
  have n: "(0 :: u32) < NUM_SPIN_LOCKS" by (simp add: NUM_SPIN_LOCKS_def)
  then show "lock_valid lock0" unfolding lock0_def lock_valid_def by blast
  from lock_numbers [OF n] show "lock_bit lock0 = 0" by (simp add: lock_bit_def lock0_def)
qed

lemma lock0_free: "spinlock_read lock0 0 = (1, 1)"
  using lock0 by (simp add: read_lock set_bit_eq_or)

lemma entered:
  "\<exists>s. (system_step (\<lambda>_. lock0))\<^sup>*\<^sup>* idle_system s
    \<and> threads (cores s Core0) = [\<lparr>todo = Work_step # critical_section_exit (\<lambda>_. lock0) 0, saved = 0, saved_irq = 0\<rparr>]
    \<and> threads (cores s Core1) = [\<lparr>todo = [], saved = 0, saved_irq = 0\<rparr>]"
proof -
  let ?lk = "\<lambda>_ :: nat. lock0"
  let ?s = "idle_system\<lparr>cores := (cores idle_system)(Core0 := (cores idle_system Core0)\<lparr>threads :=
    [\<lparr>todo = guarded ?lk 0, saved = 0, saved_irq = 0\<rparr>]\<rparr>)\<rparr>"
  have "startable ?lk (guarded ?lk 0)" using lock0(1) by (auto simp: startable_def)
  with system_step.starts [where i = Core0 and lk = ?lk and s = idle_system and ts = "[]" and prog = "guarded ?lk 0"]
  have "system_step ?lk idle_system ?s" by (simp add: idle_system_def)
  moreover obtain s where s: "core_runs Core0 5 ?s = Some s"
    "threads (cores s Core0) = [\<lparr>todo = Work_step # critical_section_exit ?lk 0, saved = 0, saved_irq = 0\<rparr>]"
    "threads (cores s Core1) = [\<lparr>todo = [], saved = 0, saved_irq = 0\<rparr>]"
    by (simp add: numeral_eq_Suc core_acts_def idle_system_def action_lists lock0_free reset_mcu_def)
  ultimately show ?thesis using core_runs_reachable [OF s(1)] by (metis converse_rtranclp_into_rtranclp)
qed

section \<open>Properties\<close>

text \<open>
  C8: a spin lock is held by one thread. However the two cores and the interrupt handlers on them
  interleave, a thread that has a lock and has not given it back is the one its core runs, with
  interrupts masked; the hardware shows the lock as taken; and no other thread, on the other core
  or suspended on its own, has the same lock, whether through a critical section or directly.
\<close>

theorem one_thread_per_lock:
  assumes "initial m0 s" and "(system_step lk)\<^sup>*\<^sup>* s s'" and "t \<in> set (threads (cores s' i))" and "holds l t"
  shows "threads (cores s' i) = t # tl (threads (cores s' i)) \<and> primask (core_hw (cores s' i)) = 1
    \<and> is_spin_locked l (spinlock_st (memory s')) \<and> (\<forall>u \<in> set (tl (threads (cores s' i))). \<not> holds l u)
    \<and> (\<forall>j u. j \<noteq> i \<longrightarrow> u \<in> set (threads (cores s' j)) \<longrightarrow> \<not> holds l u)"
proof -
  note inv = reachable_ok [OF assms(1,2)]
  note ok = system_okD [OF inv]
  have only_running: "\<not> holds l u" if "u \<in> set (tl (threads (cores s' j)))" for j u
  proof -
    obtain v vs where v: "threads (cores s' j) = v # vs" using ok(3) [of j] by (cases "threads (cores s' j)") auto
    from core_okD(5) [OF ok(1) v] that v holds_masked(1) [of lk u l] show ?thesis by auto
  qed
  obtain v vs where v: "threads (cores s' i) = v # vs" using ok(3) [of i] by (cases "threads (cores s' i)") auto
  with only_running [of t i] assms(3,4) have t: "threads (cores s' i) = t # vs" by auto
  note k = core_okD [OF ok(1) t]
  have l: "lock_valid l" using holds_masked(2) [OF k(1) assms(4)] .
  have r: "holds l (running s' i)" using assms(4) t by (simp add: running_def)
  have "\<not> holds l u" if "j \<noteq> i" "u \<in> set (threads (cores s' j))" for j u
  proof -
    have "\<not> holds l (running s' j)" using system_ok_locks(2) [OF inv l r, of j] that(1) by blast
    with only_running [of u j] that(2) show ?thesis
      by (cases "threads (cores s' j)") (auto simp: running_def)
  qed
  moreover have "is_spin_locked l (spinlock_st (memory s'))"
    using locked_bit [OF l] system_ok_locks(1) [OF inv l] r by blast
  ultimately show ?thesis using k(3) holds_masked(1) [OF k(1) assms(4)] t only_running [of _ i] by auto
qed

theorem one_thread_per_lock_witness:
  "\<exists>s. (system_step (\<lambda>_. lock0))\<^sup>*\<^sup>* idle_system s \<and> primask (core_hw (cores s Core0)) = 1
    \<and> is_spin_locked lock0 (spinlock_st (memory s))"
proof -
  obtain s where s: "(system_step (\<lambda>_. lock0))\<^sup>*\<^sup>* idle_system s" "threads (cores s Core0)
      = [\<lparr>todo = Work_step # critical_section_exit (\<lambda>_. lock0) 0, saved = 0, saved_irq = 0\<rparr>]"
    using entered by blast
  have "holds lock0 \<lparr>todo = Work_step # critical_section_exit (\<lambda>_. lock0) 0, saved = 0, saved_irq = 0\<rparr>"
    by (simp add: holds_def action_lists)
  with one_thread_per_lock [OF idle_initial s(1), of _ Core0 lock0] s(2) s(1) show ?thesis by auto
qed

text \<open>
  C9: critical sections give back the interrupt mask they found. At every point of every run a core
  has its interrupts masked exactly while its running thread is between the masking and the
  restoring of a section, and otherwise has the mask it had at the start; the status about to be
  restored is that mask, whatever handlers ran and whichever thread used the same section meanwhile.
\<close>

theorem masks_come_back:
  assumes "initial m0 s" and "(system_step lk)\<^sup>*\<^sup>* s s'"
  shows "primask (core_hw (cores s' i)) = (if masked_thread (running s' i) then 1 else m0 i)
    \<and> (todo (running s' i) = [Restore_mask] \<longrightarrow> saved_irq (running s' i) = m0 i)
    \<and> (length (threads (cores s' i)) > 1 \<longrightarrow> m0 i = 0)"
proof -
  note ok = system_okD [OF reachable_ok [OF assms]]
  obtain t ts where t: "threads (cores s' i) = t # ts" using ok(3) [of i] by (cases "threads (cores s' i)") auto
  from core_okD [OF ok(1) t] t show ?thesis by (simp add: running_def status_ok_def)
qed

theorem masks_come_back_witness:
  "\<exists>s. (system_step (\<lambda>_. lock0))\<^sup>*\<^sup>* idle_system s \<and> primask (core_hw (cores s Core0)) = 1
    \<and> primask (core_hw (cores s Core1)) = 0"
proof -
  obtain s where s: "(system_step (\<lambda>_. lock0))\<^sup>*\<^sup>* idle_system s"
    "threads (cores s Core0)
      = [\<lparr>todo = Work_step # critical_section_exit (\<lambda>_. lock0) 0, saved = 0, saved_irq = 0\<rparr>]"
    "threads (cores s Core1) = [\<lparr>todo = [], saved = 0, saved_irq = 0\<rparr>]"
    using entered by blast
  with masks_come_back [OF idle_initial s(1)] show ?thesis
    by (intro exI [of _ s]) (simp add: running_def masked_thread_def action_lists)
qed

text \<open>
  C10: every section ends. From every reachable state, however many threads wait for locks, the
  system can reach a state in which all sections and all handlers have ended, all locks are free and
  the masks are as at the start, in at most as many steps as there are actions and returns left.
\<close>

theorem sections_end:
  assumes "initial m0 s" and "(system_step lk)\<^sup>*\<^sup>* s s'"
  shows "\<exists>n s''. n \<le> work_left s' \<and> (system_step lk ^^ n) s' s'' \<and> all_done s''
    \<and> (\<forall>l. lock_valid l \<longrightarrow> \<not> is_spin_locked l (spinlock_st (memory s'')))
    \<and> (\<forall>i. primask (core_hw (cores s'' i)) = m0 i)"
proof -
  obtain n s'' where s: "n \<le> work_left s'" "(system_step lk ^^ n) s' s''" "all_done s''" "system_ok lk m0 s''"
    using all_end [OF reachable_ok [OF assms]] by blast
  have idle: "todo (running s'' i) = []" for i using s(3) by (metis all_done_def list.sel(1) running_def)
  have "\<not> is_spin_locked l (spinlock_st (memory s''))" if "lock_valid l" for l
    using locked_bit [OF that] system_ok_locks(1) [OF s(4) that] idle_thread(4) [OF idle] by blast
  moreover have "primask (core_hw (cores s'' i)) = m0 i" for i
  proof -
    obtain t where "threads (cores s'' i) = [t]" "todo t = []" using s(3) by (auto simp: all_done_def)
    with core_okD(3) [OF system_okD(1) [OF s(4)], of i t "[]"] show ?thesis by (simp add: masked_thread_def)
  qed
  ultimately show ?thesis using s(1-3) by blast
qed

theorem sections_end_witness:
  "\<exists>s s'. (system_step (\<lambda>_. lock0))\<^sup>*\<^sup>* idle_system s \<and> \<not> all_done s \<and> (system_step (\<lambda>_. lock0))\<^sup>*\<^sup>* s s'
    \<and> \<not> is_spin_locked lock0 (spinlock_st (memory s')) \<and> primask (core_hw (cores s' Core0)) = 0"
proof -
  obtain s where s: "(system_step (\<lambda>_. lock0))\<^sup>*\<^sup>* idle_system s" "threads (cores s Core0)
      = [\<lparr>todo = Work_step # critical_section_exit (\<lambda>_. lock0) 0, saved = 0, saved_irq = 0\<rparr>]"
    using entered by blast
  then have "\<not> all_done s" by (auto simp: all_done_def intro!: exI [of _ Core0])
  with sections_end [OF idle_initial s(1)] s(1) lock0(1) show ?thesis
    by (metis relpowp_imp_rtranclp)
qed

text \<open>
  C33: a spin lock must not be taken twice. If a thread that has a lock calls
  \<open>spin_lock_blocking\<close> on it once more, then whatever the other core does from there on, the thread
  never gets past the loop in that call, its core never takes an interrupt again, and the lock stays
  taken.
\<close>

theorem second_lock_blocks:
  assumes "initial m0 s" and "(system_step lk)\<^sup>*\<^sup>* s s1" and "threads (cores s1 i) = t # ts" and "holds l t"
    and "s2 = s1\<lparr>cores := (cores s1)(i := (cores s1 i)\<lparr>threads := t\<lparr>todo := spin_lock_blocking l @ todo t\<rparr> # ts\<rparr>)\<rparr>"
    and "(system_step lk)\<^sup>*\<^sup>* s2 s3"
  shows "suffix (Try_lock l # Fence # todo t) (todo (running s3 i)) \<and> primask (core_hw (cores s3 i)) = 1
    \<and> is_spin_locked l (spinlock_st (memory s3))"
proof -
  note inv = reachable_ok [OF assms(1,2)]
  note k = core_okD [OF system_okD(1) [OF inv] assms(3)]
  have l: "lock_valid l" by (rule holds_masked(2) [OF k(1) assms(4)])
  have r: "holds l (running s1 i)" using assms(3,4) by (simp add: running_def)
  have "stuck_on lk m0 i l (todo t) s2"
    using system_ok_locks [OF inv l] r system_okD(1,2) [OF inv] k(3) holds_masked(1) [OF k(1) assms(4)]
    unfolding assms(5) stuck_on_def by (auto simp: running_def)
  with assms(6) have "stuck_on lk m0 i l (todo t) s3"
    by (induction rule: rtranclp_induct) (auto intro: stuck_step [OF _ l])
  then show ?thesis using locked_bit [OF l] by (auto simp: stuck_on_def action_lists suffix_Cons)
qed

theorem second_lock_blocks_witness:
  "\<exists>s t s3. (system_step (\<lambda>_. lock0))\<^sup>*\<^sup>* idle_system s \<and> threads (cores s Core0) = [t]
    \<and> system_step (\<lambda>_. lock0) (s\<lparr>cores := (cores s)(Core0 := (cores s Core0)
        \<lparr>threads := [t\<lparr>todo := spin_lock_blocking lock0 @ todo t\<rparr>]\<rparr>)\<rparr>) s3
    \<and> primask (core_hw (cores s3 Core0)) = 1 \<and> is_spin_locked lock0 (spinlock_st (memory s3))"
proof -
  obtain s where s: "(system_step (\<lambda>_. lock0))\<^sup>*\<^sup>* idle_system s" "threads (cores s Core0)
      = [\<lparr>todo = Work_step # critical_section_exit (\<lambda>_. lock0) 0, saved = 0, saved_irq = 0\<rparr>]"
    using entered by blast
  let ?t = "\<lparr>todo = Work_step # critical_section_exit (\<lambda>_. lock0) 0, saved = 0, saved_irq = 0\<rparr>"
  let ?s2 = "s\<lparr>cores := (cores s)(Core0 := (cores s Core0)\<lparr>threads := [?t\<lparr>todo := spin_lock_blocking lock0 @ todo ?t\<rparr>]\<rparr>)\<rparr>"
  have "\<exists>s3. core_acts Core0 ?s2 = Some s3" by (simp add: core_acts_def action_lists)
  then obtain s3 where s3: "system_step (\<lambda>_. lock0) ?s2 s3" by (blast intro: system_step.acts)
  have "holds lock0 ?t" by (simp add: holds_def action_lists)
  from second_lock_blocks [OF idle_initial s(1,2) this refl r_into_rtranclp [of "system_step (\<lambda>_. lock0)", OF s3]] s s3
  show ?thesis by blast
qed

end
