(* ===== verification/Sync_Queue.thy ===== *)
theory Sync_Queue
  imports Spin_Locks
begin

text \<open>
  The level of a queue between cores and interrupt handlers, the inline functions of
  pico/util/queue.h. The queue is a ring with one slot more than it can hold; adding and removing
  are in queue.c, which is not under src/.
\<close>

section \<open>The queue\<close>

record queue =
  queue_lock :: u32
  queue_data :: "u8 list"
  wptr :: u16
  rptr :: u16
  element_size :: u16
  element_count :: u16

text \<open>The differences of 16-bit numbers fit the 32 signed bits of \<open>rc\<close>.\<close>

definition queue_get_level_unsafe :: "queue \<Rightarrow> u32" where
  "queue_get_level_unsafe q =
     (let rc = uint (wptr q) - uint (rptr q);
          rc = (if rc < 0 then rc + uint (element_count q) + 1 else rc)
      in word_of_int rc)"

text \<open>The actions on the lock, with the level read in between, and the result.\<close>

definition queue_get_level :: "queue \<Rightarrow> action list \<times> u32" where
  "queue_get_level q =
     (let level = queue_get_level_unsafe q
      in (spin_lock_blocking (queue_lock q) @ [Work_step] @ [Pass] @ spin_unlock (queue_lock q), level))"

definition queue_is_empty :: "queue \<Rightarrow> bool" where
  "queue_is_empty q \<longleftrightarrow> snd (queue_get_level q) = 0"

definition queue_is_full :: "queue \<Rightarrow> bool" where
  "queue_is_full q \<longleftrightarrow> snd (queue_get_level q) = ucast (element_count q)"

section \<open>The ring\<close>

text \<open>Both positions are slots of the ring.\<close>

definition queue_ok :: "queue \<Rightarrow> bool" where
  "queue_ok q \<longleftrightarrow> wptr q \<le> element_count q \<and> rptr q \<le> element_count q"

lemma small_level: "n < 2 ^ 32 \<Longrightarrow> unat (word_of_int (int n) :: u32) = n"
  by (simp add: unat_of_nat take_bit_nat_eq_self)

lemma ring_difference:
  assumes "w \<le> n" and "r \<le> n"
  shows "(if int w - int r < 0 then int w - int r + int n + 1 else int w - int r)
    = int (if r \<le> w then w - r else w + n + 1 - r)"
  using assms by auto

lemma level_value:
  assumes "queue_ok q"
  shows "unat (queue_get_level_unsafe q) = (if rptr q \<le> wptr q then unat (wptr q) - unat (rptr q)
    else unat (wptr q) + unat (element_count q) + 1 - unat (rptr q))"
proof -
  have less: "unat (wptr q) < 65536" "unat (element_count q) < 65536"
    using unsigned_less [of "wptr q", where 'a = nat] unsigned_less [of "element_count q", where 'a = nat] by simp_all
  have ok: "unat (wptr q) \<le> unat (element_count q)" "unat (rptr q) \<le> unat (element_count q)"
    using assms by (simp_all add: queue_ok_def word_le_nat_alt)
  let ?n = "if unat (rptr q) \<le> unat (wptr q) then unat (wptr q) - unat (rptr q)
    else unat (wptr q) + unat (element_count q) + 1 - unat (rptr q)"
  have u: "uint (wptr q) = int (unat (wptr q))" "uint (rptr q) = int (unat (rptr q))"
    "uint (element_count q) = int (unat (element_count q))" by simp_all
  have "queue_get_level_unsafe q = word_of_int (int ?n)"
    unfolding queue_get_level_unsafe_def Let_def u by (simp only: ring_difference [OF ok])
  moreover have "?n < 2 ^ 32" using ok less by auto
  ultimately have "unat (queue_get_level_unsafe q) = ?n" using small_level [of ?n] by presburger
  then show ?thesis by (simp only: word_le_nat_alt)
qed

section \<open>Properties\<close>

text \<open>
  The level of a queue. While both positions are slots of the ring, the level is at most the
  number of elements, is the number of slots from the reading to the writing position, is 0 exactly
  when the positions meet, and is full exactly when the next position to write is the one to read;
  reading it takes and gives back the lock of the queue once.
\<close>

theorem queue_level_bounds:
  assumes "queue_ok q"
  shows "snd (queue_get_level q) \<le> ucast (element_count q)
    \<and> (unat (rptr q) + unat (snd (queue_get_level q))) mod (unat (element_count q) + 1) = unat (wptr q)
    \<and> (queue_is_empty q \<longleftrightarrow> wptr q = rptr q)
    \<and> (queue_is_full q \<longleftrightarrow> (unat (wptr q) + 1) mod (unat (element_count q) + 1) = unat (rptr q))
    \<and> fst (queue_get_level q) = locked (queue_lock q)"
proof -
  let ?n = "unat (element_count q)" and ?w = "unat (wptr q)" and ?r = "unat (rptr q)"
  let ?l = "unat (queue_get_level_unsafe q)"
  have ok: "?w \<le> ?n" "?r \<le> ?n" using assms by (simp_all add: queue_ok_def word_le_nat_alt)
  have n: "unat (ucast (element_count q) :: u32) = ?n"
    using unsigned_less [of "element_count q", where 'a = nat] by (simp add: unsigned_ucast_eq take_bit_nat_eq_self)
  have l: "?l = (if ?r \<le> ?w then ?w - ?r else ?w + ?n + 1 - ?r)"
    using level_value [OF assms] by (simp add: word_le_nat_alt)
  have "?l \<le> ?n" using l ok by auto
  moreover have "(?r + ?l) mod (?n + 1) = ?w" using l ok by (auto simp: mod_if)
  moreover have "?l = 0 \<longleftrightarrow> ?w = ?r" using l ok by auto
  moreover have "?l = ?n \<longleftrightarrow> (?w + 1) mod (?n + 1) = ?r" using l ok by (auto simp: mod_if)
  ultimately show ?thesis
    by (simp add: queue_get_level_def queue_is_empty_def queue_is_full_def locked_def Let_def
        word_le_nat_alt n) (auto simp: word_unat_eq_iff n)
qed

theorem queue_level_bounds_witness:
  "snd (queue_get_level \<lparr>queue_lock = lock0, queue_data = [], wptr = 1, rptr = 3, element_size = 1,
     element_count = 0xffff\<rparr>) \<le> 0xffff"
  using queue_level_bounds [of "\<lparr>queue_lock = lock0, queue_data = [], wptr = 1, rptr = 3, element_size = 1,
     element_count = 0xffff\<rparr>"] by (simp add: queue_ok_def)

end
