(* ===== verification/Regs_Sio.thy ===== *)
theory Regs_Sio
  imports Regs
begin

text \<open>
  The registers of the SIO, hardware/regs/sio.h, in the order of the header. Of the
  32 spin locks the first stands for all.
\<close>

definition SIO_CPUID :: hw_reg where
  "SIO_CPUID = hw_register 0x00000000 0xffffffff None
    [field ''SIO_CPUID'' None 0xffffffff 31 0 RO]"

definition SIO_GPIO_IN :: hw_reg where
  "SIO_GPIO_IN = hw_register 0x00000004 0x3fffffff (Some 0x00000000)
    [field ''SIO_GPIO_IN'' (Some 0x00000000) 0x3fffffff 29 0 RO]"

definition SIO_GPIO_HI_IN :: hw_reg where
  "SIO_GPIO_HI_IN = hw_register 0x00000008 0x0000003f (Some 0x00000000)
    [field ''SIO_GPIO_HI_IN'' (Some 0x00000000) 0x0000003f 5 0 RO]"

definition SIO_GPIO_OUT :: hw_reg where
  "SIO_GPIO_OUT = hw_register 0x00000010 0x3fffffff (Some 0x00000000)
    [field ''SIO_GPIO_OUT'' (Some 0x00000000) 0x3fffffff 29 0 RW]"

definition SIO_GPIO_OUT_SET :: hw_reg where
  "SIO_GPIO_OUT_SET = hw_register 0x00000014 0x3fffffff (Some 0x00000000)
    [field ''SIO_GPIO_OUT_SET'' (Some 0x00000000) 0x3fffffff 29 0 WO]"

definition SIO_GPIO_OUT_CLR :: hw_reg where
  "SIO_GPIO_OUT_CLR = hw_register 0x00000018 0x3fffffff (Some 0x00000000)
    [field ''SIO_GPIO_OUT_CLR'' (Some 0x00000000) 0x3fffffff 29 0 WO]"

definition SIO_GPIO_OUT_XOR :: hw_reg where
  "SIO_GPIO_OUT_XOR = hw_register 0x0000001c 0x3fffffff (Some 0x00000000)
    [field ''SIO_GPIO_OUT_XOR'' (Some 0x00000000) 0x3fffffff 29 0 WO]"

definition SIO_GPIO_OE :: hw_reg where
  "SIO_GPIO_OE = hw_register 0x00000020 0x3fffffff (Some 0x00000000)
    [field ''SIO_GPIO_OE'' (Some 0x00000000) 0x3fffffff 29 0 RW]"

definition SIO_GPIO_OE_SET :: hw_reg where
  "SIO_GPIO_OE_SET = hw_register 0x00000024 0x3fffffff (Some 0x00000000)
    [field ''SIO_GPIO_OE_SET'' (Some 0x00000000) 0x3fffffff 29 0 WO]"

definition SIO_GPIO_OE_CLR :: hw_reg where
  "SIO_GPIO_OE_CLR = hw_register 0x00000028 0x3fffffff (Some 0x00000000)
    [field ''SIO_GPIO_OE_CLR'' (Some 0x00000000) 0x3fffffff 29 0 WO]"

definition SIO_GPIO_OE_XOR :: hw_reg where
  "SIO_GPIO_OE_XOR = hw_register 0x0000002c 0x3fffffff (Some 0x00000000)
    [field ''SIO_GPIO_OE_XOR'' (Some 0x00000000) 0x3fffffff 29 0 WO]"

definition SIO_GPIO_HI_OUT :: hw_reg where
  "SIO_GPIO_HI_OUT = hw_register 0x00000030 0x0000003f (Some 0x00000000)
    [field ''SIO_GPIO_HI_OUT'' (Some 0x00000000) 0x0000003f 5 0 RW]"

definition SIO_GPIO_HI_OUT_SET :: hw_reg where
  "SIO_GPIO_HI_OUT_SET = hw_register 0x00000034 0x0000003f (Some 0x00000000)
    [field ''SIO_GPIO_HI_OUT_SET'' (Some 0x00000000) 0x0000003f 5 0 WO]"

definition SIO_GPIO_HI_OUT_CLR :: hw_reg where
  "SIO_GPIO_HI_OUT_CLR = hw_register 0x00000038 0x0000003f (Some 0x00000000)
    [field ''SIO_GPIO_HI_OUT_CLR'' (Some 0x00000000) 0x0000003f 5 0 WO]"

definition SIO_GPIO_HI_OUT_XOR :: hw_reg where
  "SIO_GPIO_HI_OUT_XOR = hw_register 0x0000003c 0x0000003f (Some 0x00000000)
    [field ''SIO_GPIO_HI_OUT_XOR'' (Some 0x00000000) 0x0000003f 5 0 WO]"

definition SIO_GPIO_HI_OE :: hw_reg where
  "SIO_GPIO_HI_OE = hw_register 0x00000040 0x0000003f (Some 0x00000000)
    [field ''SIO_GPIO_HI_OE'' (Some 0x00000000) 0x0000003f 5 0 RW]"

definition SIO_GPIO_HI_OE_SET :: hw_reg where
  "SIO_GPIO_HI_OE_SET = hw_register 0x00000044 0x0000003f (Some 0x00000000)
    [field ''SIO_GPIO_HI_OE_SET'' (Some 0x00000000) 0x0000003f 5 0 WO]"

definition SIO_GPIO_HI_OE_CLR :: hw_reg where
  "SIO_GPIO_HI_OE_CLR = hw_register 0x00000048 0x0000003f (Some 0x00000000)
    [field ''SIO_GPIO_HI_OE_CLR'' (Some 0x00000000) 0x0000003f 5 0 WO]"

definition SIO_GPIO_HI_OE_XOR :: hw_reg where
  "SIO_GPIO_HI_OE_XOR = hw_register 0x0000004c 0x0000003f (Some 0x00000000)
    [field ''SIO_GPIO_HI_OE_XOR'' (Some 0x00000000) 0x0000003f 5 0 WO]"

definition SIO_FIFO_ST :: hw_reg where
  "SIO_FIFO_ST = hw_register 0x00000050 0x0000000f (Some 0x00000002)
    [field ''ROE'' (Some 0x0) 0x00000008 3 3 WC,
     field ''WOF'' (Some 0x0) 0x00000004 2 2 WC,
     field ''RDY'' (Some 0x1) 0x00000002 1 1 RO,
     field ''VLD'' (Some 0x0) 0x00000001 0 0 RO]"

definition SIO_FIFO_WR :: hw_reg where
  "SIO_FIFO_WR = hw_register 0x00000054 0xffffffff (Some 0x00000000)
    [field ''SIO_FIFO_WR'' (Some 0x00000000) 0xffffffff 31 0 WF]"

definition SIO_FIFO_RD :: hw_reg where
  "SIO_FIFO_RD = hw_register 0x00000058 0xffffffff None
    [field ''SIO_FIFO_RD'' None 0xffffffff 31 0 RF]"

definition SIO_SPINLOCK_ST :: hw_reg where
  "SIO_SPINLOCK_ST = hw_register 0x0000005c 0xffffffff (Some 0x00000000)
    [field ''SIO_SPINLOCK_ST'' (Some 0x00000000) 0xffffffff 31 0 RO]"

definition SIO_DIV_UDIVIDEND :: hw_reg where
  "SIO_DIV_UDIVIDEND = hw_register 0x00000060 0xffffffff (Some 0x00000000)
    [field ''SIO_DIV_UDIVIDEND'' (Some 0x00000000) 0xffffffff 31 0 RW]"

definition SIO_DIV_UDIVISOR :: hw_reg where
  "SIO_DIV_UDIVISOR = hw_register 0x00000064 0xffffffff (Some 0x00000000)
    [field ''SIO_DIV_UDIVISOR'' (Some 0x00000000) 0xffffffff 31 0 RW]"

definition SIO_DIV_SDIVIDEND :: hw_reg where
  "SIO_DIV_SDIVIDEND = hw_register 0x00000068 0xffffffff (Some 0x00000000)
    [field ''SIO_DIV_SDIVIDEND'' (Some 0x00000000) 0xffffffff 31 0 RW]"

definition SIO_DIV_SDIVISOR :: hw_reg where
  "SIO_DIV_SDIVISOR = hw_register 0x0000006c 0xffffffff (Some 0x00000000)
    [field ''SIO_DIV_SDIVISOR'' (Some 0x00000000) 0xffffffff 31 0 RW]"

definition SIO_DIV_QUOTIENT :: hw_reg where
  "SIO_DIV_QUOTIENT = hw_register 0x00000070 0xffffffff (Some 0x00000000)
    [field ''SIO_DIV_QUOTIENT'' (Some 0x00000000) 0xffffffff 31 0 RW]"

definition SIO_DIV_REMAINDER :: hw_reg where
  "SIO_DIV_REMAINDER = hw_register 0x00000074 0xffffffff (Some 0x00000000)
    [field ''SIO_DIV_REMAINDER'' (Some 0x00000000) 0xffffffff 31 0 RW]"

definition SIO_DIV_CSR :: hw_reg where
  "SIO_DIV_CSR = hw_register 0x00000078 0x00000003 (Some 0x00000001)
    [field ''DIRTY'' (Some 0x0) 0x00000002 1 1 RO,
     field ''READY'' (Some 0x1) 0x00000001 0 0 RO]"

definition SIO_INTERP0_ACCUM0 :: hw_reg where
  "SIO_INTERP0_ACCUM0 = hw_register 0x00000080 0xffffffff (Some 0x00000000)
    [field ''SIO_INTERP0_ACCUM0'' (Some 0x00000000) 0xffffffff 31 0 RW]"

definition SIO_INTERP0_ACCUM1 :: hw_reg where
  "SIO_INTERP0_ACCUM1 = hw_register 0x00000084 0xffffffff (Some 0x00000000)
    [field ''SIO_INTERP0_ACCUM1'' (Some 0x00000000) 0xffffffff 31 0 RW]"

definition SIO_INTERP0_BASE0 :: hw_reg where
  "SIO_INTERP0_BASE0 = hw_register 0x00000088 0xffffffff (Some 0x00000000)
    [field ''SIO_INTERP0_BASE0'' (Some 0x00000000) 0xffffffff 31 0 RW]"

definition SIO_INTERP0_BASE1 :: hw_reg where
  "SIO_INTERP0_BASE1 = hw_register 0x0000008c 0xffffffff (Some 0x00000000)
    [field ''SIO_INTERP0_BASE1'' (Some 0x00000000) 0xffffffff 31 0 RW]"

definition SIO_INTERP0_BASE2 :: hw_reg where
  "SIO_INTERP0_BASE2 = hw_register 0x00000090 0xffffffff (Some 0x00000000)
    [field ''SIO_INTERP0_BASE2'' (Some 0x00000000) 0xffffffff 31 0 RW]"

definition SIO_INTERP0_POP_LANE0 :: hw_reg where
  "SIO_INTERP0_POP_LANE0 = hw_register 0x00000094 0xffffffff (Some 0x00000000)
    [field ''SIO_INTERP0_POP_LANE0'' (Some 0x00000000) 0xffffffff 31 0 RO]"

definition SIO_INTERP0_POP_LANE1 :: hw_reg where
  "SIO_INTERP0_POP_LANE1 = hw_register 0x00000098 0xffffffff (Some 0x00000000)
    [field ''SIO_INTERP0_POP_LANE1'' (Some 0x00000000) 0xffffffff 31 0 RO]"

definition SIO_INTERP0_POP_FULL :: hw_reg where
  "SIO_INTERP0_POP_FULL = hw_register 0x0000009c 0xffffffff (Some 0x00000000)
    [field ''SIO_INTERP0_POP_FULL'' (Some 0x00000000) 0xffffffff 31 0 RO]"

definition SIO_INTERP0_PEEK_LANE0 :: hw_reg where
  "SIO_INTERP0_PEEK_LANE0 = hw_register 0x000000a0 0xffffffff (Some 0x00000000)
    [field ''SIO_INTERP0_PEEK_LANE0'' (Some 0x00000000) 0xffffffff 31 0 RO]"

definition SIO_INTERP0_PEEK_LANE1 :: hw_reg where
  "SIO_INTERP0_PEEK_LANE1 = hw_register 0x000000a4 0xffffffff (Some 0x00000000)
    [field ''SIO_INTERP0_PEEK_LANE1'' (Some 0x00000000) 0xffffffff 31 0 RO]"

definition SIO_INTERP0_PEEK_FULL :: hw_reg where
  "SIO_INTERP0_PEEK_FULL = hw_register 0x000000a8 0xffffffff (Some 0x00000000)
    [field ''SIO_INTERP0_PEEK_FULL'' (Some 0x00000000) 0xffffffff 31 0 RO]"

definition SIO_INTERP0_CTRL_LANE0 :: hw_reg where
  "SIO_INTERP0_CTRL_LANE0 = hw_register 0x000000ac 0x03bfffff (Some 0x00000000)
    [field ''OVERF'' (Some 0x0) 0x02000000 25 25 RO,
     field ''OVERF1'' (Some 0x0) 0x01000000 24 24 RO,
     field ''OVERF0'' (Some 0x0) 0x00800000 23 23 RO,
     field ''BLEND'' (Some 0x0) 0x00200000 21 21 RW,
     field ''FORCE_MSB'' (Some 0x0) 0x00180000 20 19 RW,
     field ''ADD_RAW'' (Some 0x0) 0x00040000 18 18 RW,
     field ''CROSS_RESULT'' (Some 0x0) 0x00020000 17 17 RW,
     field ''CROSS_INPUT'' (Some 0x0) 0x00010000 16 16 RW,
     field ''SIGNED'' (Some 0x0) 0x00008000 15 15 RW,
     field ''MASK_MSB'' (Some 0x00) 0x00007c00 14 10 RW,
     field ''MASK_LSB'' (Some 0x00) 0x000003e0 9 5 RW,
     field ''SHIFT'' (Some 0x00) 0x0000001f 4 0 RW]"

definition SIO_INTERP0_CTRL_LANE1 :: hw_reg where
  "SIO_INTERP0_CTRL_LANE1 = hw_register 0x000000b0 0x001fffff (Some 0x00000000)
    [field ''FORCE_MSB'' (Some 0x0) 0x00180000 20 19 RW,
     field ''ADD_RAW'' (Some 0x0) 0x00040000 18 18 RW,
     field ''CROSS_RESULT'' (Some 0x0) 0x00020000 17 17 RW,
     field ''CROSS_INPUT'' (Some 0x0) 0x00010000 16 16 RW,
     field ''SIGNED'' (Some 0x0) 0x00008000 15 15 RW,
     field ''MASK_MSB'' (Some 0x00) 0x00007c00 14 10 RW,
     field ''MASK_LSB'' (Some 0x00) 0x000003e0 9 5 RW,
     field ''SHIFT'' (Some 0x00) 0x0000001f 4 0 RW]"

definition SIO_INTERP0_ACCUM0_ADD :: hw_reg where
  "SIO_INTERP0_ACCUM0_ADD = hw_register 0x000000b4 0x00ffffff (Some 0x00000000)
    [field ''SIO_INTERP0_ACCUM0_ADD'' (Some 0x00000000) 0x00ffffff 23 0 RW]"

definition SIO_INTERP0_ACCUM1_ADD :: hw_reg where
  "SIO_INTERP0_ACCUM1_ADD = hw_register 0x000000b8 0x00ffffff (Some 0x00000000)
    [field ''SIO_INTERP0_ACCUM1_ADD'' (Some 0x00000000) 0x00ffffff 23 0 RW]"

definition SIO_INTERP0_BASE_1AND0 :: hw_reg where
  "SIO_INTERP0_BASE_1AND0 = hw_register 0x000000bc 0xffffffff (Some 0x00000000)
    [field ''SIO_INTERP0_BASE_1AND0'' (Some 0x00000000) 0xffffffff 31 0 WO]"

definition SIO_INTERP1_ACCUM0 :: hw_reg where
  "SIO_INTERP1_ACCUM0 = hw_register 0x000000c0 0xffffffff (Some 0x00000000)
    [field ''SIO_INTERP1_ACCUM0'' (Some 0x00000000) 0xffffffff 31 0 RW]"

definition SIO_INTERP1_ACCUM1 :: hw_reg where
  "SIO_INTERP1_ACCUM1 = hw_register 0x000000c4 0xffffffff (Some 0x00000000)
    [field ''SIO_INTERP1_ACCUM1'' (Some 0x00000000) 0xffffffff 31 0 RW]"

definition SIO_INTERP1_BASE0 :: hw_reg where
  "SIO_INTERP1_BASE0 = hw_register 0x000000c8 0xffffffff (Some 0x00000000)
    [field ''SIO_INTERP1_BASE0'' (Some 0x00000000) 0xffffffff 31 0 RW]"

definition SIO_INTERP1_BASE1 :: hw_reg where
  "SIO_INTERP1_BASE1 = hw_register 0x000000cc 0xffffffff (Some 0x00000000)
    [field ''SIO_INTERP1_BASE1'' (Some 0x00000000) 0xffffffff 31 0 RW]"

definition SIO_INTERP1_BASE2 :: hw_reg where
  "SIO_INTERP1_BASE2 = hw_register 0x000000d0 0xffffffff (Some 0x00000000)
    [field ''SIO_INTERP1_BASE2'' (Some 0x00000000) 0xffffffff 31 0 RW]"

definition SIO_INTERP1_POP_LANE0 :: hw_reg where
  "SIO_INTERP1_POP_LANE0 = hw_register 0x000000d4 0xffffffff (Some 0x00000000)
    [field ''SIO_INTERP1_POP_LANE0'' (Some 0x00000000) 0xffffffff 31 0 RO]"

definition SIO_INTERP1_POP_LANE1 :: hw_reg where
  "SIO_INTERP1_POP_LANE1 = hw_register 0x000000d8 0xffffffff (Some 0x00000000)
    [field ''SIO_INTERP1_POP_LANE1'' (Some 0x00000000) 0xffffffff 31 0 RO]"

definition SIO_INTERP1_POP_FULL :: hw_reg where
  "SIO_INTERP1_POP_FULL = hw_register 0x000000dc 0xffffffff (Some 0x00000000)
    [field ''SIO_INTERP1_POP_FULL'' (Some 0x00000000) 0xffffffff 31 0 RO]"

definition SIO_INTERP1_PEEK_LANE0 :: hw_reg where
  "SIO_INTERP1_PEEK_LANE0 = hw_register 0x000000e0 0xffffffff (Some 0x00000000)
    [field ''SIO_INTERP1_PEEK_LANE0'' (Some 0x00000000) 0xffffffff 31 0 RO]"

definition SIO_INTERP1_PEEK_LANE1 :: hw_reg where
  "SIO_INTERP1_PEEK_LANE1 = hw_register 0x000000e4 0xffffffff (Some 0x00000000)
    [field ''SIO_INTERP1_PEEK_LANE1'' (Some 0x00000000) 0xffffffff 31 0 RO]"

definition SIO_INTERP1_PEEK_FULL :: hw_reg where
  "SIO_INTERP1_PEEK_FULL = hw_register 0x000000e8 0xffffffff (Some 0x00000000)
    [field ''SIO_INTERP1_PEEK_FULL'' (Some 0x00000000) 0xffffffff 31 0 RO]"

definition SIO_INTERP1_CTRL_LANE0 :: hw_reg where
  "SIO_INTERP1_CTRL_LANE0 = hw_register 0x000000ec 0x03dfffff (Some 0x00000000)
    [field ''OVERF'' (Some 0x0) 0x02000000 25 25 RO,
     field ''OVERF1'' (Some 0x0) 0x01000000 24 24 RO,
     field ''OVERF0'' (Some 0x0) 0x00800000 23 23 RO,
     field ''CLAMP'' (Some 0x0) 0x00400000 22 22 RW,
     field ''FORCE_MSB'' (Some 0x0) 0x00180000 20 19 RW,
     field ''ADD_RAW'' (Some 0x0) 0x00040000 18 18 RW,
     field ''CROSS_RESULT'' (Some 0x0) 0x00020000 17 17 RW,
     field ''CROSS_INPUT'' (Some 0x0) 0x00010000 16 16 RW,
     field ''SIGNED'' (Some 0x0) 0x00008000 15 15 RW,
     field ''MASK_MSB'' (Some 0x00) 0x00007c00 14 10 RW,
     field ''MASK_LSB'' (Some 0x00) 0x000003e0 9 5 RW,
     field ''SHIFT'' (Some 0x00) 0x0000001f 4 0 RW]"

definition SIO_INTERP1_CTRL_LANE1 :: hw_reg where
  "SIO_INTERP1_CTRL_LANE1 = hw_register 0x000000f0 0x001fffff (Some 0x00000000)
    [field ''FORCE_MSB'' (Some 0x0) 0x00180000 20 19 RW,
     field ''ADD_RAW'' (Some 0x0) 0x00040000 18 18 RW,
     field ''CROSS_RESULT'' (Some 0x0) 0x00020000 17 17 RW,
     field ''CROSS_INPUT'' (Some 0x0) 0x00010000 16 16 RW,
     field ''SIGNED'' (Some 0x0) 0x00008000 15 15 RW,
     field ''MASK_MSB'' (Some 0x00) 0x00007c00 14 10 RW,
     field ''MASK_LSB'' (Some 0x00) 0x000003e0 9 5 RW,
     field ''SHIFT'' (Some 0x00) 0x0000001f 4 0 RW]"

definition SIO_INTERP1_ACCUM0_ADD :: hw_reg where
  "SIO_INTERP1_ACCUM0_ADD = hw_register 0x000000f4 0x00ffffff (Some 0x00000000)
    [field ''SIO_INTERP1_ACCUM0_ADD'' (Some 0x00000000) 0x00ffffff 23 0 RW]"

definition SIO_INTERP1_ACCUM1_ADD :: hw_reg where
  "SIO_INTERP1_ACCUM1_ADD = hw_register 0x000000f8 0x00ffffff (Some 0x00000000)
    [field ''SIO_INTERP1_ACCUM1_ADD'' (Some 0x00000000) 0x00ffffff 23 0 RW]"

definition SIO_INTERP1_BASE_1AND0 :: hw_reg where
  "SIO_INTERP1_BASE_1AND0 = hw_register 0x000000fc 0xffffffff (Some 0x00000000)
    [field ''SIO_INTERP1_BASE_1AND0'' (Some 0x00000000) 0xffffffff 31 0 WO]"

definition SIO_SPINLOCK0 :: hw_reg where
  "SIO_SPINLOCK0 = hw_register 0x00000100 0xffffffff (Some 0x00000000)
    [field ''SIO_SPINLOCK0'' (Some 0x00000000) 0xffffffff 31 0 RW]"

definition sio_registers :: "hw_reg list" where
  "sio_registers = [SIO_CPUID, SIO_GPIO_IN, SIO_GPIO_HI_IN, SIO_GPIO_OUT, SIO_GPIO_OUT_SET, SIO_GPIO_OUT_CLR,
   SIO_GPIO_OUT_XOR, SIO_GPIO_OE, SIO_GPIO_OE_SET, SIO_GPIO_OE_CLR, SIO_GPIO_OE_XOR,
   SIO_GPIO_HI_OUT, SIO_GPIO_HI_OUT_SET, SIO_GPIO_HI_OUT_CLR, SIO_GPIO_HI_OUT_XOR,
   SIO_GPIO_HI_OE, SIO_GPIO_HI_OE_SET, SIO_GPIO_HI_OE_CLR, SIO_GPIO_HI_OE_XOR, SIO_FIFO_ST,
   SIO_FIFO_WR, SIO_FIFO_RD, SIO_SPINLOCK_ST, SIO_DIV_UDIVIDEND, SIO_DIV_UDIVISOR,
   SIO_DIV_SDIVIDEND, SIO_DIV_SDIVISOR, SIO_DIV_QUOTIENT, SIO_DIV_REMAINDER, SIO_DIV_CSR,
   SIO_INTERP0_ACCUM0, SIO_INTERP0_ACCUM1, SIO_INTERP0_BASE0, SIO_INTERP0_BASE1,
   SIO_INTERP0_BASE2, SIO_INTERP0_POP_LANE0, SIO_INTERP0_POP_LANE1, SIO_INTERP0_POP_FULL,
   SIO_INTERP0_PEEK_LANE0, SIO_INTERP0_PEEK_LANE1, SIO_INTERP0_PEEK_FULL,
   SIO_INTERP0_CTRL_LANE0, SIO_INTERP0_CTRL_LANE1, SIO_INTERP0_ACCUM0_ADD,
   SIO_INTERP0_ACCUM1_ADD, SIO_INTERP0_BASE_1AND0, SIO_INTERP1_ACCUM0, SIO_INTERP1_ACCUM1,
   SIO_INTERP1_BASE0, SIO_INTERP1_BASE1, SIO_INTERP1_BASE2, SIO_INTERP1_POP_LANE0,
   SIO_INTERP1_POP_LANE1, SIO_INTERP1_POP_FULL, SIO_INTERP1_PEEK_LANE0,
   SIO_INTERP1_PEEK_LANE1, SIO_INTERP1_PEEK_FULL, SIO_INTERP1_CTRL_LANE0,
   SIO_INTERP1_CTRL_LANE1, SIO_INTERP1_ACCUM0_ADD, SIO_INTERP1_ACCUM1_ADD,
   SIO_INTERP1_BASE_1AND0, SIO_SPINLOCK0]"

lemma sio_ok_1:
  "reg_ok SIO_CPUID"
  "reg_ok SIO_GPIO_IN"
  "reg_ok SIO_GPIO_HI_IN"
  "reg_ok SIO_GPIO_OUT"
  "reg_ok SIO_GPIO_OUT_SET"
  "reg_ok SIO_GPIO_OUT_CLR"
  by (simp_all add: reg_ok_simps
      SIO_CPUID_def
      SIO_GPIO_IN_def
      SIO_GPIO_HI_IN_def
      SIO_GPIO_OUT_def
      SIO_GPIO_OUT_SET_def
      SIO_GPIO_OUT_CLR_def)

lemma sio_ok_2:
  "reg_ok SIO_GPIO_OUT_XOR"
  "reg_ok SIO_GPIO_OE"
  "reg_ok SIO_GPIO_OE_SET"
  "reg_ok SIO_GPIO_OE_CLR"
  "reg_ok SIO_GPIO_OE_XOR"
  "reg_ok SIO_GPIO_HI_OUT"
  by (simp_all add: reg_ok_simps
      SIO_GPIO_OUT_XOR_def
      SIO_GPIO_OE_def
      SIO_GPIO_OE_SET_def
      SIO_GPIO_OE_CLR_def
      SIO_GPIO_OE_XOR_def
      SIO_GPIO_HI_OUT_def)

lemma sio_ok_3:
  "reg_ok SIO_GPIO_HI_OUT_SET"
  "reg_ok SIO_GPIO_HI_OUT_CLR"
  "reg_ok SIO_GPIO_HI_OUT_XOR"
  "reg_ok SIO_GPIO_HI_OE"
  "reg_ok SIO_GPIO_HI_OE_SET"
  "reg_ok SIO_GPIO_HI_OE_CLR"
  by (simp_all add: reg_ok_simps
      SIO_GPIO_HI_OUT_SET_def
      SIO_GPIO_HI_OUT_CLR_def
      SIO_GPIO_HI_OUT_XOR_def
      SIO_GPIO_HI_OE_def
      SIO_GPIO_HI_OE_SET_def
      SIO_GPIO_HI_OE_CLR_def)

lemma sio_ok_4:
  "reg_ok SIO_GPIO_HI_OE_XOR"
  "reg_ok SIO_FIFO_ST"
  "reg_ok SIO_FIFO_WR"
  "reg_ok SIO_FIFO_RD"
  "reg_ok SIO_SPINLOCK_ST"
  "reg_ok SIO_DIV_UDIVIDEND"
  by (simp_all add: reg_ok_simps
      SIO_GPIO_HI_OE_XOR_def
      SIO_FIFO_ST_def
      SIO_FIFO_WR_def
      SIO_FIFO_RD_def
      SIO_SPINLOCK_ST_def
      SIO_DIV_UDIVIDEND_def)

lemma sio_ok_5:
  "reg_ok SIO_DIV_UDIVISOR"
  "reg_ok SIO_DIV_SDIVIDEND"
  "reg_ok SIO_DIV_SDIVISOR"
  "reg_ok SIO_DIV_QUOTIENT"
  "reg_ok SIO_DIV_REMAINDER"
  "reg_ok SIO_DIV_CSR"
  by (simp_all add: reg_ok_simps
      SIO_DIV_UDIVISOR_def
      SIO_DIV_SDIVIDEND_def
      SIO_DIV_SDIVISOR_def
      SIO_DIV_QUOTIENT_def
      SIO_DIV_REMAINDER_def
      SIO_DIV_CSR_def)

lemma sio_ok_6:
  "reg_ok SIO_INTERP0_ACCUM0"
  "reg_ok SIO_INTERP0_ACCUM1"
  "reg_ok SIO_INTERP0_BASE0"
  "reg_ok SIO_INTERP0_BASE1"
  "reg_ok SIO_INTERP0_BASE2"
  "reg_ok SIO_INTERP0_POP_LANE0"
  by (simp_all add: reg_ok_simps
      SIO_INTERP0_ACCUM0_def
      SIO_INTERP0_ACCUM1_def
      SIO_INTERP0_BASE0_def
      SIO_INTERP0_BASE1_def
      SIO_INTERP0_BASE2_def
      SIO_INTERP0_POP_LANE0_def)

lemma sio_ok_7:
  "reg_ok SIO_INTERP0_POP_LANE1"
  "reg_ok SIO_INTERP0_POP_FULL"
  "reg_ok SIO_INTERP0_PEEK_LANE0"
  "reg_ok SIO_INTERP0_PEEK_LANE1"
  "reg_ok SIO_INTERP0_PEEK_FULL"
  "reg_ok SIO_INTERP0_CTRL_LANE0"
  by (simp_all add: reg_ok_simps
      SIO_INTERP0_POP_LANE1_def
      SIO_INTERP0_POP_FULL_def
      SIO_INTERP0_PEEK_LANE0_def
      SIO_INTERP0_PEEK_LANE1_def
      SIO_INTERP0_PEEK_FULL_def
      SIO_INTERP0_CTRL_LANE0_def)

lemma sio_ok_8:
  "reg_ok SIO_INTERP0_CTRL_LANE1"
  "reg_ok SIO_INTERP0_ACCUM0_ADD"
  "reg_ok SIO_INTERP0_ACCUM1_ADD"
  "reg_ok SIO_INTERP0_BASE_1AND0"
  "reg_ok SIO_INTERP1_ACCUM0"
  "reg_ok SIO_INTERP1_ACCUM1"
  by (simp_all add: reg_ok_simps
      SIO_INTERP0_CTRL_LANE1_def
      SIO_INTERP0_ACCUM0_ADD_def
      SIO_INTERP0_ACCUM1_ADD_def
      SIO_INTERP0_BASE_1AND0_def
      SIO_INTERP1_ACCUM0_def
      SIO_INTERP1_ACCUM1_def)

lemma sio_ok_9:
  "reg_ok SIO_INTERP1_BASE0"
  "reg_ok SIO_INTERP1_BASE1"
  "reg_ok SIO_INTERP1_BASE2"
  "reg_ok SIO_INTERP1_POP_LANE0"
  "reg_ok SIO_INTERP1_POP_LANE1"
  "reg_ok SIO_INTERP1_POP_FULL"
  by (simp_all add: reg_ok_simps
      SIO_INTERP1_BASE0_def
      SIO_INTERP1_BASE1_def
      SIO_INTERP1_BASE2_def
      SIO_INTERP1_POP_LANE0_def
      SIO_INTERP1_POP_LANE1_def
      SIO_INTERP1_POP_FULL_def)

lemma sio_ok_10:
  "reg_ok SIO_INTERP1_PEEK_LANE0"
  "reg_ok SIO_INTERP1_PEEK_LANE1"
  "reg_ok SIO_INTERP1_PEEK_FULL"
  "reg_ok SIO_INTERP1_CTRL_LANE0"
  "reg_ok SIO_INTERP1_CTRL_LANE1"
  "reg_ok SIO_INTERP1_ACCUM0_ADD"
  by (simp_all add: reg_ok_simps
      SIO_INTERP1_PEEK_LANE0_def
      SIO_INTERP1_PEEK_LANE1_def
      SIO_INTERP1_PEEK_FULL_def
      SIO_INTERP1_CTRL_LANE0_def
      SIO_INTERP1_CTRL_LANE1_def
      SIO_INTERP1_ACCUM0_ADD_def)

lemma sio_ok_11:
  "reg_ok SIO_INTERP1_ACCUM1_ADD"
  "reg_ok SIO_INTERP1_BASE_1AND0"
  "reg_ok SIO_SPINLOCK0"
  by (simp_all add: reg_ok_simps
      SIO_INTERP1_ACCUM1_ADD_def
      SIO_INTERP1_BASE_1AND0_def
      SIO_SPINLOCK0_def)

lemma sio_registers_ok: "list_all reg_ok sio_registers"
  by (simp add: sio_registers_def sio_ok_1 sio_ok_2 sio_ok_3 sio_ok_4 sio_ok_5 sio_ok_6 sio_ok_7 sio_ok_8 sio_ok_9 sio_ok_10 sio_ok_11)

lemma sio_offsets: "map r_offset sio_registers =
  [0x00000000, 0x00000004, 0x00000008, 0x00000010, 0x00000014, 0x00000018, 0x0000001c,
   0x00000020, 0x00000024, 0x00000028, 0x0000002c, 0x00000030, 0x00000034, 0x00000038,
   0x0000003c, 0x00000040, 0x00000044, 0x00000048, 0x0000004c, 0x00000050, 0x00000054,
   0x00000058, 0x0000005c, 0x00000060, 0x00000064, 0x00000068, 0x0000006c, 0x00000070,
   0x00000074, 0x00000078, 0x00000080, 0x00000084, 0x00000088, 0x0000008c, 0x00000090,
   0x00000094, 0x00000098, 0x0000009c, 0x000000a0, 0x000000a4, 0x000000a8, 0x000000ac,
   0x000000b0, 0x000000b4, 0x000000b8, 0x000000bc, 0x000000c0, 0x000000c4, 0x000000c8,
   0x000000cc, 0x000000d0, 0x000000d4, 0x000000d8, 0x000000dc, 0x000000e0, 0x000000e4,
   0x000000e8, 0x000000ec, 0x000000f0, 0x000000f4, 0x000000f8, 0x000000fc, 0x00000100]"
  by (simp add: sio_registers_def hw_register_def
      SIO_CPUID_def SIO_GPIO_IN_def SIO_GPIO_HI_IN_def SIO_GPIO_OUT_def SIO_GPIO_OUT_SET_def
   SIO_GPIO_OUT_CLR_def SIO_GPIO_OUT_XOR_def SIO_GPIO_OE_def SIO_GPIO_OE_SET_def
   SIO_GPIO_OE_CLR_def SIO_GPIO_OE_XOR_def SIO_GPIO_HI_OUT_def SIO_GPIO_HI_OUT_SET_def
   SIO_GPIO_HI_OUT_CLR_def SIO_GPIO_HI_OUT_XOR_def SIO_GPIO_HI_OE_def
   SIO_GPIO_HI_OE_SET_def SIO_GPIO_HI_OE_CLR_def SIO_GPIO_HI_OE_XOR_def SIO_FIFO_ST_def
   SIO_FIFO_WR_def SIO_FIFO_RD_def SIO_SPINLOCK_ST_def SIO_DIV_UDIVIDEND_def
   SIO_DIV_UDIVISOR_def SIO_DIV_SDIVIDEND_def SIO_DIV_SDIVISOR_def SIO_DIV_QUOTIENT_def
   SIO_DIV_REMAINDER_def SIO_DIV_CSR_def SIO_INTERP0_ACCUM0_def SIO_INTERP0_ACCUM1_def
   SIO_INTERP0_BASE0_def SIO_INTERP0_BASE1_def SIO_INTERP0_BASE2_def
   SIO_INTERP0_POP_LANE0_def SIO_INTERP0_POP_LANE1_def SIO_INTERP0_POP_FULL_def
   SIO_INTERP0_PEEK_LANE0_def SIO_INTERP0_PEEK_LANE1_def SIO_INTERP0_PEEK_FULL_def
   SIO_INTERP0_CTRL_LANE0_def SIO_INTERP0_CTRL_LANE1_def SIO_INTERP0_ACCUM0_ADD_def
   SIO_INTERP0_ACCUM1_ADD_def SIO_INTERP0_BASE_1AND0_def SIO_INTERP1_ACCUM0_def
   SIO_INTERP1_ACCUM1_def SIO_INTERP1_BASE0_def SIO_INTERP1_BASE1_def SIO_INTERP1_BASE2_def
   SIO_INTERP1_POP_LANE0_def SIO_INTERP1_POP_LANE1_def SIO_INTERP1_POP_FULL_def
   SIO_INTERP1_PEEK_LANE0_def SIO_INTERP1_PEEK_LANE1_def SIO_INTERP1_PEEK_FULL_def
   SIO_INTERP1_CTRL_LANE0_def SIO_INTERP1_CTRL_LANE1_def SIO_INTERP1_ACCUM0_ADD_def
   SIO_INTERP1_ACCUM1_ADD_def SIO_INTERP1_BASE_1AND0_def SIO_SPINLOCK0_def)

end
