(* ===== verification/Sio_Fifo.thy ===== *)
theory Sio_Fifo
  imports Spin_Locks Regs_Sio
begin

text \<open>
  The two FIFOs between the cores, the inline functions of pico/multicore.h over the registers
  \<open>FIFO_ST\<close>, \<open>FIFO_WR\<close> and \<open>FIFO_RD\<close> as the comments of hardware/regs/sio.h describe them. Each access is
  one step, the other core may act between any two. The functions that push and pop are in
  multicore.c, which is not under src/.
\<close>

section \<open>The registers\<close>

text \<open>
  \<open>inbox c\<close> are the words that wait for core \<open>c\<close>. The histories are not hardware: the words a core
  has written, those of them the FIFO ignored, and the words it has read.
\<close>

record sio_fifo =
  inbox :: "core_id \<Rightarrow> u32 list"
  roe :: "core_id \<Rightarrow> bool"
  wof :: "core_id \<Rightarrow> bool"
  written :: "core_id \<Rightarrow> u32 list"
  ignored :: "core_id \<Rightarrow> u32 list"
  received :: "core_id \<Rightarrow> u32 list"

fun other :: "core_id \<Rightarrow> core_id" where
  "other Core0 = Core1"
| "other Core1 = Core0"

definition FIFO_DEPTH :: nat where "FIFO_DEPTH = 8"

abbreviation st_bits :: "string \<Rightarrow> u32" where
  "st_bits n \<equiv> reg_bits SIO_FIFO_ST n"

definition fifo_st :: "core_id \<Rightarrow> sio_fifo \<Rightarrow> u32" where
  "fifo_st c s =
     (if inbox s c \<noteq> [] then st_bits ''VLD'' else 0)
     OR (if length (inbox s (other c)) < FIFO_DEPTH then st_bits ''RDY'' else 0)
     OR (if wof s c then st_bits ''WOF'' else 0) OR (if roe s c then st_bits ''ROE'' else 0)"

text \<open>A write when the FIFO is full and a read when it is empty are ignored and noted.\<close>

definition fifo_wr :: "core_id \<Rightarrow> u32 \<Rightarrow> sio_fifo \<Rightarrow> sio_fifo" where
  "fifo_wr c w s =
     (let s = s\<lparr>written := (written s)(c := written s c @ [w])\<rparr>
      in if length (inbox s (other c)) < FIFO_DEPTH
         then s\<lparr>inbox := (inbox s)(other c := inbox s (other c) @ [w])\<rparr>
         else s\<lparr>wof := (wof s)(c := True), ignored := (ignored s)(c := ignored s c @ [w])\<rparr>)"

text \<open>What an ignored read shows is the parameter \<open>junk\<close>.\<close>

definition fifo_rd :: "u32 \<Rightarrow> core_id \<Rightarrow> sio_fifo \<Rightarrow> u32 \<times> sio_fifo" where
  "fifo_rd junk c s =
     (case inbox s c of
        [] \<Rightarrow> (junk, s\<lparr>roe := (roe s)(c := True)\<rparr>)
      | w # ws \<Rightarrow> (w, s\<lparr>inbox := (inbox s)(c := ws), received := (received s)(c := received s c @ [w])\<rparr>))"

text \<open>Writing any value to the status clears the two flags.\<close>

definition fifo_st_wr :: "core_id \<Rightarrow> u32 \<Rightarrow> sio_fifo \<Rightarrow> sio_fifo" where
  "fifo_st_wr c v s = s\<lparr>roe := (roe s)(c := False), wof := (wof s)(c := False)\<rparr>"

section \<open>The functions\<close>

definition multicore_fifo_rvalid :: "core_id \<Rightarrow> sio_fifo \<Rightarrow> bool" where
  "multicore_fifo_rvalid c s \<longleftrightarrow> fifo_st c s AND st_bits ''VLD'' \<noteq> 0"

definition multicore_fifo_wready :: "core_id \<Rightarrow> sio_fifo \<Rightarrow> bool" where
  "multicore_fifo_wready c s \<longleftrightarrow> fifo_st c s AND st_bits ''RDY'' \<noteq> 0"

definition multicore_fifo_clear_irq :: "core_id \<Rightarrow> sio_fifo \<Rightarrow> sio_fifo" where
  "multicore_fifo_clear_irq c s = fifo_st_wr c 0xff s"

definition multicore_fifo_get_status :: "core_id \<Rightarrow> sio_fifo \<Rightarrow> u32" where
  "multicore_fifo_get_status c s = fifo_st c s"

text \<open>
  The drain reads words until the status shows none. \<open>env\<close> is what the other core does to the FIFOs before
  each access of the loop.
\<close>

partial_function (option) multicore_fifo_drain ::
  "(nat \<Rightarrow> sio_fifo \<Rightarrow> sio_fifo) \<Rightarrow> core_id \<Rightarrow> nat \<Rightarrow> sio_fifo \<Rightarrow> sio_fifo option" where
  "multicore_fifo_drain env c k s =
     (let s = env k s
      in if multicore_fifo_rvalid c s
         then multicore_fifo_drain env c (k + 2) (snd (fifo_rd 0 c (env (k + 1) s)))
         else Some s)"

section \<open>What the status shows\<close>

lemma st_bits_values:
  "st_bits ''VLD'' = 1" "st_bits ''RDY'' = 2" "st_bits ''WOF'' = 4" "st_bits ''ROE'' = 8"
  by code_simp+

lemma rvalid_iff: "multicore_fifo_rvalid c s \<longleftrightarrow> inbox s c \<noteq> []"
  by (auto simp: multicore_fifo_rvalid_def fifo_st_def st_bits_values)

lemma wready_iff: "multicore_fifo_wready c s \<longleftrightarrow> length (inbox s (other c)) < FIFO_DEPTH"
  by (auto simp: multicore_fifo_wready_def fifo_st_def st_bits_values)

section \<open>Two cores that exchange words\<close>

text \<open>
  A careful core writes only after \<open>wready\<close> and reads only after \<open>rvalid\<close>, as the header asks of code
  that does not want to block; between the test and the access the other core may do anything. The
  other cores may also access the FIFOs without a test.
\<close>

datatype fifo_point = Idle | Saw_space | Saw_word

inductive fifo_step ::
  "(core_id \<Rightarrow> bool) \<Rightarrow> sio_fifo \<times> (core_id \<Rightarrow> fifo_point) \<Rightarrow> sio_fifo \<times> (core_id \<Rightarrow> fifo_point) \<Rightarrow> bool"
  for careful where
  sees_space: "multicore_fifo_wready c s \<Longrightarrow> fifo_step careful (s, pt) (s, pt(c := Saw_space))"
| sees_word: "multicore_fifo_rvalid c s \<Longrightarrow> fifo_step careful (s, pt) (s, pt(c := Saw_word))"
| pushes: "careful c \<longrightarrow> pt c = Saw_space \<Longrightarrow> fifo_step careful (s, pt) (fifo_wr c w s, pt(c := Idle))"
| pops: "careful c \<longrightarrow> pt c = Saw_word \<Longrightarrow> fifo_step careful (s, pt) (snd (fifo_rd junk c s), pt(c := Idle))"
| clears: "fifo_step careful (s, pt) (multicore_fifo_clear_irq c s, pt)"

inductive_cases fifo_stepE: "fifo_step careful x y"

definition empty_fifos :: sio_fifo where
  "empty_fifos = \<lparr>inbox = \<lambda>_. [], roe = \<lambda>_. False, wof = \<lambda>_. False, written = \<lambda>_. [], ignored = \<lambda>_. [],
     received = \<lambda>_. []\<rparr>"

definition fifo_ok :: "(core_id \<Rightarrow> bool) \<Rightarrow> sio_fifo \<Rightarrow> (core_id \<Rightarrow> fifo_point) \<Rightarrow> core_id \<Rightarrow> bool" where
  "fifo_ok careful s pt c \<longleftrightarrow>
     length (inbox s (other c)) \<le> FIFO_DEPTH
     \<and> subseq (received s (other c) @ inbox s (other c)) (written s c)
     \<and> length (written s c) = length (received s (other c) @ inbox s (other c)) + length (ignored s c)
     \<and> (pt c = Saw_space \<longrightarrow> length (inbox s (other c)) < FIFO_DEPTH)
     \<and> (pt c = Saw_word \<longrightarrow> inbox s c \<noteq> [])
     \<and> (careful c \<longrightarrow> ignored s c = [] \<and> \<not> wof s c \<and> \<not> roe s c)"

lemma other_simps [simp]: "other (other c) = c" "other c \<noteq> c" "c \<noteq> other c" "other c = other d \<longleftrightarrow> c = d"
proof -
  show "other (other c) = c" "other c \<noteq> c" "c \<noteq> other c" by (cases c; simp)+
  show "other c = other d \<longleftrightarrow> c = d" by (cases c; cases d; simp)
qed

lemma other_cases: "d = c \<or> d = other c"
  by (cases c; cases d) auto

lemma subseq_snoc: "subseq xs ys \<Longrightarrow> subseq xs (ys @ [y])"
  by (rule list_emb_prefix)

lemma subseq_snoc_both: "subseq xs ys \<Longrightarrow> subseq (xs @ [y]) (ys @ [y])"
  by (rule list_emb_append_mono) simp_all

lemma push_keeps:
  assumes "careful c \<longrightarrow> pt c = Saw_space" and "\<forall>d. fifo_ok careful s pt d"
  shows "fifo_ok careful (fifo_wr c w s) (pt(c := Idle)) d"
proof -
  have *: "fifo_ok careful s pt c" "fifo_ok careful s pt (other c)" using assms(2) by simp_all
  show ?thesis using other_cases [of d c] * assms(1)
    by (auto simp: fifo_ok_def fifo_wr_def Let_def subseq_snoc simp flip: append_assoc intro: subseq_snoc_both)
qed

lemma pop_keeps:
  assumes "careful c \<longrightarrow> pt c = Saw_word" and "\<forall>d. fifo_ok careful s pt d"
  shows "fifo_ok careful (snd (fifo_rd junk c s)) (pt(c := Idle)) d"
proof -
  have *: "fifo_ok careful s pt c" "fifo_ok careful s pt (other c)" using assms(2) by simp_all
  show ?thesis
  proof (cases "inbox s c")
    case Nil
    with * assms(1) show ?thesis using other_cases [of d c]
      by (elim disjE) (auto simp: fifo_ok_def fifo_rd_def)
  next
    case (Cons w ws)
    with * assms(1) show ?thesis using other_cases [of d c]
      by (elim disjE) (auto simp: fifo_ok_def fifo_rd_def)
  qed
qed

lemma fifo_step_keeps:
  assumes "fifo_step careful (s, pt) (s', pt')" and "\<forall>d. fifo_ok careful s pt d"
  shows "fifo_ok careful s' pt' d"
  using assms(1)
proof (cases rule: fifo_step.cases)
  case (sees_space c)
  with assms(2) show ?thesis by (cases "d = c") (auto simp: fifo_ok_def wready_iff)
next
  case (sees_word c)
  with assms(2) show ?thesis by (cases "d = c") (auto simp: fifo_ok_def rvalid_iff)
next
  case (pushes c w)
  with push_keeps [of careful c pt s w d] assms(2) show ?thesis by simp
next
  case (pops c junk)
  with pop_keeps [of careful c pt s junk d] assms(2) show ?thesis by simp
next
  case (clears c)
  with assms(2) show ?thesis by (cases "d = c") (auto simp: fifo_ok_def multicore_fifo_clear_irq_def fifo_st_wr_def)
qed

lemma fifo_run_ok:
  assumes "(fifo_step careful)\<^sup>*\<^sup>* (empty_fifos, \<lambda>_. Idle) (s, pt)"
  shows "fifo_ok careful s pt d"
proof -
  have "\<forall>d. fifo_ok careful (fst (s, pt)) (snd (s, pt)) d"
    using assms
  proof (induction rule: rtranclp_induct)
    case (step y z)
    then show ?case using fifo_step_keeps [of careful "fst y" "snd y" "fst z" "snd z"] by simp
  qed (simp add: fifo_ok_def empty_fifos_def)
  then show ?thesis by simp
qed

section \<open>Draining\<close>

lemma drain_empties:
  assumes "multicore_fifo_drain env c k s = Some t"
  shows "inbox t c = []"
proof (rule multicore_fifo_drain.raw_induct [where P = "\<lambda>env c k s t. inbox t c = []", OF _ assms])
  fix drain and env :: "nat \<Rightarrow> sio_fifo \<Rightarrow> sio_fifo" and c k s t
  assume IH: "\<And>env c k s t. drain env c k s = Some t \<Longrightarrow> inbox t c = []"
    and body: "(let s = env k s in if multicore_fifo_rvalid c s
        then drain env c (k + 2) (snd (fifo_rd 0 c (env (k + 1) s))) else Some s) = Some t"
  then show "inbox t c = []"
    by (cases "multicore_fifo_rvalid c (env k s)") (auto simp: Let_def rvalid_iff dest: IH)
qed

text \<open>From the access \<open>m\<close> on the other core sends nothing.\<close>

definition silent_from :: "nat \<Rightarrow> core_id \<Rightarrow> (nat \<Rightarrow> sio_fifo \<Rightarrow> sio_fifo) \<Rightarrow> bool" where
  "silent_from m c env \<longleftrightarrow> (\<forall>k \<ge> m. \<forall>s. inbox (env k s) c = inbox s c)"

lemma inbox_rd: "inbox (snd (fifo_rd junk c s)) c = tl (inbox s c)"
  by (cases "inbox s c") (simp_all add: fifo_rd_def)

lemma drain_silent:
  assumes "silent_from m c env" and "m \<le> k"
  shows "\<exists>t. multicore_fifo_drain env c k s = Some t"
  using assms(2)
proof (induction "length (inbox s c)" arbitrary: k s)
  case 0
  then have "inbox (env k s) c = []" using assms(1) by (simp add: silent_from_def)
  then show ?case by (subst multicore_fifo_drain.simps) (simp add: rvalid_iff)
next
  case (Suc n)
  let ?t = "snd (fifo_rd 0 c (env (k + 1) (env k s)))"
  have i: "inbox (env k s) c = inbox s c" "inbox (env (k + 1) (env k s)) c = inbox s c"
    using assms(1) Suc.prems by (simp_all add: silent_from_def)
  then have "n = length (inbox ?t c)" using Suc.hyps(2) by (simp add: inbox_rd)
  from Suc.hyps(1) [OF this, of "k + 2"] Suc.prems obtain u where
    "multicore_fifo_drain env c (k + 2) ?t = Some u" by auto
  then show ?case by (subst multicore_fifo_drain.simps) (simp add: Let_def)
qed

lemma drain_returns:
  assumes "silent_from m c env"
  shows "\<exists>t. multicore_fifo_drain env c k s = Some t"
proof (induction "m - k" arbitrary: k s rule: less_induct)
  case less
  show ?case
  proof (cases "m \<le> k")
    case False
    then have "m - (k + 2) < m - k" by simp
    from less [OF this] show ?thesis by (subst multicore_fifo_drain.simps) (simp add: Let_def)
  qed (rule drain_silent [OF assms])
qed

text \<open>The other core alone can keep the loop going for ever.\<close>

lemma drain_sees_none:
  assumes "multicore_fifo_drain env c k s = Some t"
  shows "\<exists>k s. inbox (env k s) c = []"
proof (rule multicore_fifo_drain.raw_induct [where P = "\<lambda>env c k s t. \<exists>k s. inbox (env k s) c = []", OF _ assms])
  fix drain and env :: "nat \<Rightarrow> sio_fifo \<Rightarrow> sio_fifo" and c k s t
  assume IH: "\<And>env c k s t. drain env c k s = Some t \<Longrightarrow> \<exists>k s. inbox (env k s) c = []"
    and body: "(let s = env k s in if multicore_fifo_rvalid c s
        then drain env c (k + 2) (snd (fifo_rd 0 c (env (k + 1) s))) else Some s) = Some t"
  then show "\<exists>k s. inbox (env k s) c = []"
    by (cases "multicore_fifo_rvalid c (env k s)") (auto simp: Let_def rvalid_iff dest: IH)
qed

lemma drain_starves:
  assumes "\<forall>k s. inbox (env k s) c \<noteq> []"
  shows "multicore_fifo_drain env c k s = None"
  using drain_sees_none [of env c k s] assms by (cases "multicore_fifo_drain env c k s") auto

section \<open>Properties\<close>

text \<open>
  C35: words between the cores. Whatever the cores do, what a core has received and what waits for
  it is a subsequence of what the other has written, in its order, and never more than eight words
  wait. The words of a core that writes only after \<open>wready\<close> and reads only after \<open>rvalid\<close> all
  arrive, and its status shows neither error, even if the other core is careless.
\<close>

theorem fifo_keeps_words:
  assumes "(fifo_step careful)\<^sup>*\<^sup>* (empty_fifos, \<lambda>_. Idle) (s, pt)"
  shows "length (inbox s c) \<le> FIFO_DEPTH
    \<and> subseq (received s (other c) @ inbox s (other c)) (written s c)
    \<and> (careful c \<longrightarrow> written s c = received s (other c) @ inbox s (other c)
        \<and> multicore_fifo_get_status c s AND (st_bits ''WOF'' OR st_bits ''ROE'') = 0)"
proof -
  have ok: "fifo_ok careful s pt c" "fifo_ok careful s pt (other c)" by (rule fifo_run_ok [OF assms])+
  have "written s c = received s (other c) @ inbox s (other c)" if "careful c"
    using ok(1) that subseq_same_length [of "received s (other c) @ inbox s (other c)" "written s c"]
    by (simp add: fifo_ok_def)
  moreover have "multicore_fifo_get_status c s AND (st_bits ''WOF'' OR st_bits ''ROE'') = 0" if "careful c"
    using ok(1) that by (simp add: fifo_ok_def multicore_fifo_get_status_def fifo_st_def st_bits_values)
  ultimately show ?thesis using ok by (simp add: fifo_ok_def)
qed

text \<open>A careful core sends two words to a careless one, which reads once more than there are.\<close>

theorem fifo_keeps_words_witness:
  "\<exists>s pt. (fifo_step (\<lambda>c. c = Core0))\<^sup>*\<^sup>* (empty_fifos, \<lambda>_. Idle) (s, pt) \<and> roe s Core1
     \<and> written s Core0 = [7, 8] \<and> received s Core1 @ inbox s Core1 = [7, 8]"
proof -
  let ?careful = "\<lambda>c. c = Core0"
  let ?s1 = "snd (fifo_rd 0 Core1 empty_fifos)"
  let ?s2 = "fifo_wr Core0 7 ?s1"
  let ?s3 = "fifo_wr Core0 8 ?s2"
  let ?s4 = "snd (fifo_rd 0 Core1 ?s3)"
  let ?i = "\<lambda>_. Idle"
  note sim = wready_iff fifo_wr_def fifo_rd_def empty_fifos_def FIFO_DEPTH_def
  have idle: "?i(c := Idle) = ?i" "?i(c := Saw_space, c := Idle) = ?i" for c :: core_id by auto
  have "fifo_step ?careful (empty_fifos, ?i) (?s1, ?i)"
    using fifo_step.pops [of ?careful Core1 ?i empty_fifos 0] by (simp add: idle)
  moreover have "fifo_step ?careful (?s1, ?i) (?s1, ?i(Core0 := Saw_space))"
    by (rule fifo_step.sees_space) (simp add: sim)
  moreover have "fifo_step ?careful (?s1, ?i(Core0 := Saw_space)) (?s2, ?i)"
    using fifo_step.pushes [of ?careful Core0 "?i(Core0 := Saw_space)" ?s1 7] by (simp add: idle)
  moreover have "fifo_step ?careful (?s2, ?i) (?s2, ?i(Core0 := Saw_space))"
    by (rule fifo_step.sees_space) (simp add: sim)
  moreover have "fifo_step ?careful (?s2, ?i(Core0 := Saw_space)) (?s3, ?i)"
    using fifo_step.pushes [of ?careful Core0 "?i(Core0 := Saw_space)" ?s2 8] by (simp add: idle)
  moreover have "fifo_step ?careful (?s3, ?i) (?s4, ?i)"
    using fifo_step.pops [of ?careful Core1 ?i ?s3 0] by (simp add: idle)
  ultimately have run: "(fifo_step ?careful)\<^sup>*\<^sup>* (empty_fifos, ?i) (?s4, ?i)"
    by (meson converse_rtranclp_into_rtranclp rtranclp.rtrancl_refl)
  have "roe ?s4 Core1" "written ?s4 Core0 = [7, 8]" by (simp_all add: sim)
  with run fifo_keeps_words [OF run, of Core0] show ?thesis by fastforce
qed

text \<open>
  draining the FIFO. Once the other core stops sending, the drain returns, whatever was sent
  before and between its accesses; when it returns nothing waits any more.
\<close>

theorem drain_ends:
  assumes "silent_from m c env"
  shows "\<exists>t. multicore_fifo_drain env c k s = Some t \<and> \<not> multicore_fifo_rvalid c t"
  using drain_returns [OF assms, of k s] drain_empties [of env c k s] by (auto simp: rvalid_iff)

theorem drain_ends_witness:
  "\<exists>t. multicore_fifo_drain (\<lambda>k. if k < 5 then fifo_wr Core0 (of_nat k) else id) Core1 0 empty_fifos = Some t
     \<and> \<not> multicore_fifo_rvalid Core1 t"
proof -
  have "silent_from 5 Core1 (\<lambda>k. if k < 5 then fifo_wr Core0 (of_nat k) else id)"
    by (simp add: silent_from_def)
  then show ?thesis by (rule drain_ends)
qed

end
