(* ===== verification/Makefsdata.thy ===== *)
theory Makefsdata
  imports Web_Page
begin

text \<open>
  The generator of the page, makefsdata.py, which turns the files of html\_files into the arrays of
  htmldata.c. A Python string is the list of its code points. The layout of the generated C text is
  left out: an array is the bytes between its braces, an entry its five initialisers.
\<close>

section \<open>Python strings\<close>

type_synonym pystr = "nat list"

definition codes :: "string \<Rightarrow> pystr" where
  "codes s = map of_char s"

text \<open>\<open>pat in s\<close>\<close>

fun contains :: "'a list \<Rightarrow> 'a list \<Rightarrow> bool" where
  "contains pat [] \<longleftrightarrow> pat = []"
| "contains pat (c # cs) \<longleftrightarrow> take (length pat) (c # cs) = pat \<or> contains pat cs"

text \<open>Encoding raises an exception for a surrogate, which file names that are not text contain.\<close>

definition utf8_char :: "nat \<Rightarrow> u8 list option" where
  "utf8_char c =
     (if c < 0x80 then Some [of_nat c]
      else if c < 0x800 then Some [of_nat (0xC0 + c div 64), of_nat (0x80 + c mod 64)]
      else if 0xD800 \<le> c \<and> c < 0xE000 then None
      else if c < 0x10000
      then Some [of_nat (0xE0 + c div 4096), of_nat (0x80 + c div 64 mod 64), of_nat (0x80 + c mod 64)]
      else if c < 0x110000
      then Some [of_nat (0xF0 + c div 262144), of_nat (0x80 + c div 4096 mod 64),
             of_nat (0x80 + c div 64 mod 64), of_nat (0x80 + c mod 64)]
      else None)"

fun utf8 :: "pystr \<Rightarrow> u8 list option" where
  "utf8 [] = Some []"
| "utf8 (c # cs) =
     (case utf8_char c of None \<Rightarrow> None | Some b \<Rightarrow> map_option (\<lambda>bs. b @ bs) (utf8 cs))"

section \<open>The generator\<close>

definition http_eol :: string where "http_eol = [CHR 0x0D, CHR 0x0A]"

definition content_type :: "pystr \<Rightarrow> string" where
  "content_type file =
     (if contains (codes ''.html'') file then ''text/html''
      else if contains (codes ''.shtml'') file then ''text/html''
      else if contains (codes ''.jpg'') file then ''image/jpeg''
      else if contains (codes ''.gif'') file then ''image/gif''
      else if contains (codes ''.png'') file then ''image/png''
      else if contains (codes ''.class'') file then ''application/octet-stream''
      else if contains (codes ''.js'') file then ''text/javascript''
      else if contains (codes ''.css'') file then ''text/css''
      else if contains (codes ''.svg'') file then ''image/svg+xml''
      else ''text/plain'')"

definition http_header :: "pystr \<Rightarrow> string" where
  "http_header file =
     (let header = (if contains (codes ''404'') file then ''HTTP/1.0 404 File not found'' @ http_eol
                    else ''HTTP/1.0 200 OK'' @ http_eol);
          header = header @ ''Server: lwIP/pre-0.6 (http://www.sics.se/~adam/lwip/)'' @ http_eol;
          header = header @ ''Content-type: '' @ content_type file @ http_eol
      in header @ http_eol)"

definition slash :: nat where "slash = 0x2F"
definition backslash :: nat where "backslash = 0x5C"

text \<open>\<open>s.replace(a, b)\<close> for single characters\<close>

definition replace_char :: "nat \<Rightarrow> nat \<Rightarrow> pystr \<Rightarrow> pystr" where
  "replace_char a b s = map (\<lambda>c. if c = a then b else c) s"

definition make_fvar :: "pystr \<Rightarrow> pystr" where
  "make_fvar file =
     (let fvar = drop 1 file;
          fvar = replace_char slash 0x5F fvar;
          fvar = replace_char backslash 0x5F fvar
      in replace_char 0x2E 0x5F fvar)"

definition array_bytes :: "pystr \<Rightarrow> u8 list \<Rightarrow> u8 list option" where
  "array_bytes file content =
     map_option (\<lambda>b. b @ [0] @ bytes_of (http_header file) @ content)
       (utf8 (replace_char backslash slash (drop 1 file)))"

text \<open>
  An entry: the variable of the entry before it or \<open>NULL\<close>, the array it points into, and the offset
  of the contents, which is subtracted from the size of the array.
\<close>

record file_entry =
  prevfile :: "pystr option"
  entry_array :: pystr
  data_offset :: nat

record image =
  arrays :: "(pystr \<times> u8 list) list"
  entries :: "(pystr \<times> file_entry) list"
  FS_ROOT :: pystr
  FS_NUMFILES :: nat

fun write_arrays :: "(pystr \<times> u8 list) list \<Rightarrow> (pystr \<times> u8 list) list option" where
  "write_arrays [] = Some []"
| "write_arrays ((file, content) # files) =
     (case array_bytes file content of None \<Rightarrow> None
      | Some b \<Rightarrow> map_option (\<lambda>as. (make_fvar file, b) # as) (write_arrays files))"

definition write_entry :: "pystr list \<Rightarrow> pystr list \<Rightarrow> nat \<Rightarrow> pystr \<times> file_entry" where
  "write_entry filenames varnames i =
     (varnames ! i, \<lparr>prevfile = (if i > 0 then Some (varnames ! (i - 1)) else None),
        entry_array = varnames ! i, data_offset = length (filenames ! i) + 1\<rparr>)"

text \<open>The names with their contents in the order of the directory walk; without any file, \<open>varnames[-1]\<close> raises.\<close>

definition makefsdata :: "(pystr \<times> u8 list) list \<Rightarrow> image option" where
  "makefsdata files =
     (case write_arrays files of None \<Rightarrow> None
      | Some as \<Rightarrow>
          (let filenames = map (\<lambda>f. drop 1 (fst f)) files;
               varnames = map (\<lambda>f. make_fvar (fst f)) files;
               es = map (write_entry filenames varnames) [0..<length filenames]
           in if varnames = [] then None
              else Some \<lparr>arrays = as, entries = es, FS_ROOT = last varnames, FS_NUMFILES = length filenames\<rparr>))"

section \<open>What the server makes of it\<close>

text \<open>
  The name of an entry is the C string at the start of its array, its data what follows the offset,
  and the entries form a list from the root.
\<close>

definition stored_name :: "image \<Rightarrow> file_entry \<Rightarrow> u8 list" where
  "stored_name img e = takeWhile (\<lambda>b. b \<noteq> 0) (the (map_of (arrays img) (entry_array e)))"

definition stored_data :: "image \<Rightarrow> file_entry \<Rightarrow> u8 list" where
  "stored_data img e = drop (data_offset e) (the (map_of (arrays img) (entry_array e)))"

fun walk :: "image \<Rightarrow> nat \<Rightarrow> pystr option \<Rightarrow> pystr list" where
  "walk img (Suc n) (Some v) =
     (case map_of (entries img) v of None \<Rightarrow> [] | Some e \<Rightarrow> v # walk img n (prevfile e))"
| "walk img n _ = []"

section \<open>The page\<close>

text \<open>html\_files/index.shtml, line by line, and its bytes with the line ends of the generating machine.\<close>

definition index_shtml_1 :: "string list" where
  \<open>index_shtml_1 =
  [''<!DOCTYPE html>'',
   ''<html>'',
   ''<head> '',
   ''    <title>Smart Car Control Panel</title>'',
   ''    <meta name="viewport" content="width=device-width, initial-scale=1.0">'',
   ''    <style>'',
   ''        * {'',
   ''            margin: 0;'',
   ''            padding: 0;'',
   ''            box-sizing: border-box;'',
   ''            font-family: 'Segoe UI', Tahoma, Geneva, Verdana, sans-serif;'',
   ''        }'',
   [],
   ''        body {'',
   ''            background: linear-gradient(135deg, #f5f7fa 0%, #c3cfe2 100%);'',
   ''            min-height: 100vh;'',
   ''            padding: 20px;'',
   ''        }'',
   [],
   ''        .container {'',
   ''            max-width: 800px;'',
   ''            margin: 0 auto;'',
   ''            background: rgba(255, 255, 255, 0.95);'',
   ''            border-radius: 20px;'',
   ''            padding: 30px;'',
   ''            box-shadow: 0 10px 30px rgba(0,0,0,0.1);'',
   ''        }'',
   [],
   ''        h1 {'',
   ''            text-align: center;'',
   ''            color: #2c3e50;'',
   ''            margin-bottom: 30px;'',
   ''            font-size: 2.5em;'',
   ''            text-shadow: 2px 2px 4px rgba(0,0,0,0.1);'',
   ''        }'',
   [],
   ''        h2 {'',
   ''            color: #34495e;'',
   ''            margin: 25px 0 15px;'',
   ''            font-size: 1.8em;'',
   ''            text-align: center;'',
   ''        }'',
   [],
   ''        .status-panel {'',
   ''            background: #fff;'',
   ''            padding: 20px;'',
   ''            border-radius: 15px;'',
   ''            box-shadow: 0 5px 15px rgba(0,0,0,0.05);'',
   ''            margin: 20px 0;'',
   ''        }'']\<close>

definition index_shtml_2 :: "string list" where
  \<open>index_shtml_2 =
  [[],
   ''        .status-panel p {'',
   ''            font-size: 1.2em;'',
   ''            margin: 15px 0;'',
   ''            color: #2c3e50;'',
   ''            display: flex;'',
   ''            justify-content: space-between;'',
   ''            padding: 10px;'',
   ''            background: #f8f9fa;'',
   ''            border-radius: 8px;'',
   ''        }'',
   [],
   ''        .control-panel {'',
   ''            display: grid;'',
   ''            grid-template-columns: repeat(3, 1fr);'',
   ''            gap: 15px;'',
   ''            max-width: 350px;'',
   ''            margin: 20px auto;'',
   ''        }'',
   [],
   ''        .button-group {'',
   ''            display: flex;'',
   ''            gap: 15px;'',
   ''            justify-content: center;'',
   ''            flex-wrap: wrap;'',
   ''            margin: 20px 0;'',
   ''        }'',
   [],
   ''        button {'',
   ''            border: none;'',
   ''            border-radius: 12px;'',
   ''            padding: 15px 25px;'',
   ''            font-size: 1.1em;'',
   ''            cursor: pointer;'',
   ''            transition: all 0.3s ease;'',
   ''            background: #3498db;'',
   ''            color: white;'',
   ''            box-shadow: 0 4px 15px rgba(0,0,0,0.1);'',
   ''        }'',
   [],
   ''        button:hover {'',
   ''            transform: translateY(-2px);'',
   ''            box-shadow: 0 6px 20px rgba(0,0,0,0.15);'',
   ''        }'',
   [],
   ''        .rgb-button {'',
   ''            width: 100px;'',
   ''            height: 50px;'',
   ''            font-weight: bold;'',
   ''            text-shadow: 1px 1px 2px rgba(0,0,0,0.3);'']\<close>

definition index_shtml_3 :: "string list" where
  \<open>index_shtml_3 =
  [''        }'',
   [],
   ''        .rgb-red { background: #ff4757}'',
   ''        .rgb-green { background:  #2ed573 }'',
   ''        .rgb-blue { background:  #1e90ff }'',
   [],
   ''        .motor-btn {'',
   ''            width: 60px;'',
   ''            height: 60px;'',
   ''            border-radius: 50%;'',
   ''            font-size: 24px;'',
   ''            padding: 0;'',
   ''            display: flex;'',
   ''            align-items: center;'',
   ''            justify-content: center;'',
   ''            background: linear-gradient(145deg, #3498db, #2980b9);'',
   ''        }'',
   [],
   ''        .stop-btn {'',
   ''            background: linear-gradient(145deg, #e74c3c, #c0392b);'',
   ''        }'',
   [],
   ''        .refresh-link {'',
   ''            display: block;'',
   ''            text-align: center;'',
   ''            margin: 20px 0;'',
   ''            color: #3498db;'',
   ''            text-decoration: none;'',
   ''            font-size: 1.1em;'',
   ''            transition: all 0.3s ease;'',
   ''        }'',
   [],
   ''        .refresh-link:hover {'',
   ''            color: #2980b9;'',
   ''            transform: scale(1.05);'',
   ''        }'',
   [],
   ''        @media (max-width: 480px) {'',
   ''            .container {'',
   ''                padding: 15px;'',
   ''            }'',
   ''            button {'',
   ''                padding: 12px 20px;'',
   ''            }'',
   ''            .motor-btn {'',
   ''                width: 50px;'',
   ''                height: 50px;'',
   ''            }'',
   ''        }'',
   ''    </style>'']\<close>

definition index_shtml_4 :: "string list" where
  \<open>index_shtml_4 =
  [''</head>'',
   ''<body>'',
   ''    <div class="container">'',
   ''        <h1>Smart Car Control Panel</h1>'',
   ''        '',
   ''        <div class="status-panel">'',
   ''            <h2>System Status</h2>'',
   ''            <p>Voltage: <span><!--#volt--> V</span></p>'',
   ''            <p>Temperature: <span><!--#temp--> C</span></p>'',
   ''            <p>LED Status: <span><!--#led--> V</span></p>'',
   ''        </div>'',
   [],
   ''        <h2>LED Control</h2>'',
   ''        <div class="button-group">'',
   ''            <a href="/led.cgi?led=1"><button>LED ON</button></a>'',
   ''            <a href="/led.cgi?led=0"><button>LED OFF</button></a>'',
   ''        </div>'',
   [],
   ''        <h2>Buzzer Control</h2>'',
   ''        <div class="button-group">'',
   ''            <a href="/led.cgi?buzzer=on"><button>Buzzer ON</button></a>'',
   ''            <a href="/led.cgi?buzzer=off"><button>Buzzer OFF</button></a>'',
   ''        </div>'',
   [],
   ''        <h2>RGB LED Control</h2>'',
   ''        <div class="button-group">'',
   ''            <a href="/led.cgi?rgbled=red"><button class="rgb-button rgb-red">Red</button></a>'',
   ''            <a href="/led.cgi?rgbled=green"><button class="rgb-button rgb-green">Green</button></a>'',
   ''            <a href="/led.cgi?rgbled=blue"><button class="rgb-button rgb-blue">Blue</button></a>'',
   ''            <a href="/led.cgi?rgbled=off"><button>Off</button></a>'',
   ''        </div>'',
   [],
   ''        <h2>Motor Control</h2>'',
   ''        <div class="control-panel">'',
   ''            <div></div>'',
   ''            <a href="/led.cgi?motor=forward" class="center-btn"><button class="motor-btn">^</button></a>'',
   ''            <div></div>'',
   ''            <a href="/led.cgi?motor=left"><button class="motor-btn"><<</button></a>'',
   ''            <a href="/led.cgi?motor=stop"><button class="motor-btn stop-btn">_</button></a>'',
   ''            <a href="/led.cgi?motor=right"><button class="motor-btn">>></button></a>'',
   ''            <div></div>'',
   ''            <a href="/led.cgi?motor=backward" class="center-btn"><button class="motor-btn">V</button></a>'',
   ''            <div></div>'',
   ''        </div>'',
   [],
   ''        <a href="/index.shtml" class="refresh-link">'' @ [CHR 0xE2] @ [CHR 0x86] @ [CHR 0xBB] @ '' Refresh Status</a>'',
   ''    </div>'',
   ''</body>'',
   ''</html>'']\<close>

definition index_shtml_lines :: "string list" where
  "index_shtml_lines = index_shtml_1 @ index_shtml_2 @ index_shtml_3 @ index_shtml_4"

fun join_lines :: "string list \<Rightarrow> u8 list" where
  "join_lines [] = []"
| "join_lines [l] = bytes_of l"
| "join_lines (l # ls) = bytes_of (l @ http_eol) @ join_lines ls"

definition page_file :: pystr where
  "page_file = codes ''.'' @ [backslash] @ codes ''index.shtml''"

text \<open>
  The array of htmldata.c is what the generator makes of the lines, part by part.
\<close>

definition ended_lines :: "string list \<Rightarrow> u8 list" where
  "ended_lines ls = concat (map (\<lambda>l. bytes_of (l @ http_eol)) ls)"

lemma join_append: "ys \<noteq> [] \<Longrightarrow> join_lines (xs @ ys) = ended_lines xs @ join_lines ys"
  by (induction xs rule: join_lines.induct) (auto simp: ended_lines_def neq_Nil_conv bytes_of_def)

lemma char_bytes:
  "of_char (CHR 0x0A) = (0x0a :: u8)" "of_char (CHR 0x0D) = (0x0d :: u8)"
  "of_char (CHR 0x20) = (0x20 :: u8)" "of_char (CHR 0x21) = (0x21 :: u8)"
  "of_char (CHR 0x22) = (0x22 :: u8)" "of_char (CHR 0x23) = (0x23 :: u8)"
  "of_char (CHR 0x25) = (0x25 :: u8)" "of_char (CHR 0x27) = (0x27 :: u8)"
  "of_char (CHR 0x28) = (0x28 :: u8)" "of_char (CHR 0x29) = (0x29 :: u8)"
  "of_char (CHR 0x2A) = (0x2a :: u8)" "of_char (CHR 0x2C) = (0x2c :: u8)"
  "of_char (CHR 0x2D) = (0x2d :: u8)" "of_char (CHR 0x2E) = (0x2e :: u8)"
  "of_char (CHR 0x2F) = (0x2f :: u8)" "of_char (CHR 0x30) = (0x30 :: u8)"
  "of_char (CHR 0x31) = (0x31 :: u8)" "of_char (CHR 0x32) = (0x32 :: u8)"
  "of_char (CHR 0x33) = (0x33 :: u8)" "of_char (CHR 0x34) = (0x34 :: u8)"
  "of_char (CHR 0x35) = (0x35 :: u8)" "of_char (CHR 0x36) = (0x36 :: u8)"
  "of_char (CHR 0x37) = (0x37 :: u8)" "of_char (CHR 0x38) = (0x38 :: u8)"
  "of_char (CHR 0x39) = (0x39 :: u8)" "of_char (CHR 0x3A) = (0x3a :: u8)"
  "of_char (CHR 0x3B) = (0x3b :: u8)" "of_char (CHR 0x3C) = (0x3c :: u8)"
  "of_char (CHR 0x3D) = (0x3d :: u8)" "of_char (CHR 0x3E) = (0x3e :: u8)"
  "of_char (CHR 0x3F) = (0x3f :: u8)" "of_char (CHR 0x40) = (0x40 :: u8)"
  "of_char (CHR 0x42) = (0x42 :: u8)" "of_char (CHR 0x43) = (0x43 :: u8)"
  "of_char (CHR 0x44) = (0x44 :: u8)" "of_char (CHR 0x45) = (0x45 :: u8)"
  "of_char (CHR 0x46) = (0x46 :: u8)" "of_char (CHR 0x47) = (0x47 :: u8)"
  "of_char (CHR 0x48) = (0x48 :: u8)" "of_char (CHR 0x49) = (0x49 :: u8)"
  "of_char (CHR 0x4B) = (0x4b :: u8)" "of_char (CHR 0x4C) = (0x4c :: u8)"
  "of_char (CHR 0x4D) = (0x4d :: u8)" "of_char (CHR 0x4E) = (0x4e :: u8)"
  "of_char (CHR 0x4F) = (0x4f :: u8)" "of_char (CHR 0x50) = (0x50 :: u8)"
  "of_char (CHR 0x52) = (0x52 :: u8)" "of_char (CHR 0x53) = (0x53 :: u8)"
  "of_char (CHR 0x54) = (0x54 :: u8)" "of_char (CHR 0x55) = (0x55 :: u8)"
  "of_char (CHR 0x56) = (0x56 :: u8)" "of_char (CHR 0x59) = (0x59 :: u8)"
  "of_char (CHR 0x5E) = (0x5e :: u8)" "of_char (CHR 0x5F) = (0x5f :: u8)"
  "of_char (CHR 0x61) = (0x61 :: u8)" "of_char (CHR 0x62) = (0x62 :: u8)"
  "of_char (CHR 0x63) = (0x63 :: u8)" "of_char (CHR 0x64) = (0x64 :: u8)"
  "of_char (CHR 0x65) = (0x65 :: u8)" "of_char (CHR 0x66) = (0x66 :: u8)"
  "of_char (CHR 0x67) = (0x67 :: u8)" "of_char (CHR 0x68) = (0x68 :: u8)"
  "of_char (CHR 0x69) = (0x69 :: u8)" "of_char (CHR 0x6A) = (0x6a :: u8)"
  "of_char (CHR 0x6B) = (0x6b :: u8)" "of_char (CHR 0x6C) = (0x6c :: u8)"
  "of_char (CHR 0x6D) = (0x6d :: u8)" "of_char (CHR 0x6E) = (0x6e :: u8)"
  "of_char (CHR 0x6F) = (0x6f :: u8)" "of_char (CHR 0x70) = (0x70 :: u8)"
  "of_char (CHR 0x72) = (0x72 :: u8)" "of_char (CHR 0x73) = (0x73 :: u8)"
  "of_char (CHR 0x74) = (0x74 :: u8)" "of_char (CHR 0x75) = (0x75 :: u8)"
  "of_char (CHR 0x76) = (0x76 :: u8)" "of_char (CHR 0x77) = (0x77 :: u8)"
  "of_char (CHR 0x78) = (0x78 :: u8)" "of_char (CHR 0x79) = (0x79 :: u8)"
  "of_char (CHR 0x7A) = (0x7a :: u8)" "of_char (CHR 0x7B) = (0x7b :: u8)"
  "of_char (CHR 0x7D) = (0x7d :: u8)" "of_char (CHR 0x7E) = (0x7e :: u8)"
  "of_char (CHR 0x86) = (0x86 :: u8)" "of_char (CHR 0xBB) = (0xbb :: u8)"
  "of_char (CHR 0xE2) = (0xe2 :: u8)"
  by simp_all

lemma page_front:
  "utf8 (replace_char backslash slash (drop 1 page_file)) = Some (bytes_of ''/index.shtml'')"
  "content_type page_file = ''text/html''" "contains (codes ''404'') page_file \<longleftrightarrow> False"
  "make_fvar page_file = codes ''_index_shtml''" "length (drop 1 page_file) + 1 = 13"
  by code_simp+

lemma page_array:
  "bytes_of ''/index.shtml'' @ [0] @ bytes_of (http_header page_file)
    @ ended_lines index_shtml_1 @ ended_lines index_shtml_2 @ ended_lines index_shtml_3 @ join_lines index_shtml_4
   = data_index_shtml"
  by (simp only: http_header_def Let_def page_front if_False ended_lines_def http_eol_def bytes_of_def append.simps
      list.map concat.simps char_bytes join_lines.simps append_assoc list.distinct list.simps
      index_shtml_1_def index_shtml_2_def index_shtml_3_def index_shtml_4_def
      data_index_shtml_def data_index_shtml_1_def data_index_shtml_2_def data_index_shtml_3_def
      data_index_shtml_4_def data_index_shtml_5_def)

lemma page_generated: "array_bytes page_file (join_lines index_shtml_lines) = Some data_index_shtml"
proof -
  have "join_lines index_shtml_lines = ended_lines index_shtml_1 @ ended_lines index_shtml_2
      @ ended_lines index_shtml_3 @ join_lines index_shtml_4"
    by (simp only: index_shtml_lines_def, subst join_append, simp add: index_shtml_2_def,
        subst join_append, simp add: index_shtml_3_def, subst join_append, simp add: index_shtml_4_def, rule refl)
  then show ?thesis by (simp only: array_bytes_def page_front option.map page_array [symmetric])
qed


section \<open>What is stored\<close>

lemma utf8_char_length:
  assumes "utf8_char c = Some b"
  shows "length b \<ge> 1" and "0x80 \<le> c \<Longrightarrow> length b > 1"
  using assms by (auto simp: utf8_char_def split: if_splits)

lemma utf8_length:
  assumes "utf8 s = Some b"
  shows "length s \<le> length b" and "c \<in> set s \<Longrightarrow> 0x80 \<le> c \<Longrightarrow> length s < length b"
proof -
  have "length s \<le> length b \<and> (c \<in> set s \<longrightarrow> 0x80 \<le> c \<longrightarrow> length s < length b)"
    using assms
  proof (induction s arbitrary: b)
    case (Cons d ds)
    then obtain x y where x: "utf8_char d = Some x" "utf8 ds = Some y" "b = x @ y"
      by (auto split: option.splits)
    from Cons.IH [OF x(2)] utf8_char_length [OF x(1)] show ?case by (auto simp: x(3))
  qed simp
  then show "length s \<le> length b" and "c \<in> set s \<Longrightarrow> 0x80 \<le> c \<Longrightarrow> length s < length b" by simp_all
qed

lemma utf8_ascii:
  assumes "list_all (\<lambda>c. 0 < c \<and> c < 0x80) s"
  shows "utf8 s = Some (map of_nat s)" and "0 \<notin> set (map of_nat s :: u8 list)"
proof -
  show "utf8 s = Some (map of_nat s)" using assms by (induction s) (simp_all add: utf8_char_def)
  have "(of_nat c :: u8) \<noteq> 0" if "0 < c" "c < 0x80" for c
    using that by (auto simp: word_unat_eq_iff unat_of_nat take_bit_nat_eq_self)
  then show "0 \<notin> set (map of_nat s :: u8 list)" using assms by (force simp: list_all_iff)
qed

lemma replaced_length [simp]: "length (replace_char a b s) = length s"
  by (simp add: replace_char_def)

definition plain_name :: "pystr \<Rightarrow> bool" where
  "plain_name file \<longleftrightarrow> list_all (\<lambda>c. 0 < c \<and> c < 0x80) file"

lemma written_arrays:
  assumes "write_arrays files = Some as"
  shows "as = map (\<lambda>f. (make_fvar (fst f), the (array_bytes (fst f) (snd f)))) files"
    and "f \<in> set files \<Longrightarrow> array_bytes (fst f) (snd f) \<noteq> None"
proof -
  have "as = map (\<lambda>f. (make_fvar (fst f), the (array_bytes (fst f) (snd f)))) files
      \<and> (\<forall>f \<in> set files. array_bytes (fst f) (snd f) \<noteq> None)"
    using assms by (induction files arbitrary: as rule: write_arrays.induct) (auto split: option.splits)
  then show "as = map (\<lambda>f. (make_fvar (fst f), the (array_bytes (fst f) (snd f)))) files"
    and "f \<in> set files \<Longrightarrow> array_bytes (fst f) (snd f) \<noteq> None" by auto
qed

text \<open>The variables of the files in their order; what the generator writes is read off by their positions.\<close>

definition var_names :: "(pystr \<times> u8 list) list \<Rightarrow> pystr list" where
  "var_names files = map (\<lambda>f. make_fvar (fst f)) files"

lemma generated:
  assumes "makefsdata files = Some img" and "distinct (var_names files)"
  shows "FS_NUMFILES img = length files" and "files \<noteq> []" and "FS_ROOT img = last (var_names files)"
    and "i < length files \<Longrightarrow> map_of (entries img) (var_names files ! i)
      = Some \<lparr>prevfile = (if i > 0 then Some (var_names files ! (i - 1)) else None),
          entry_array = var_names files ! i, data_offset = length (drop 1 (fst (files ! i))) + 1\<rparr>"
    and "i < length files \<Longrightarrow> map_of (arrays img) (var_names files ! i)
      = array_bytes (fst (files ! i)) (snd (files ! i))"
    and "i < length files \<Longrightarrow> array_bytes (fst (files ! i)) (snd (files ! i)) \<noteq> None"
proof -
  obtain as where as: "write_arrays files = Some as"
    using assms(1) by (auto simp: makefsdata_def split: option.splits)
  let ?fs = "map (\<lambda>f. drop 1 (fst f)) files"
  let ?es = "map (write_entry ?fs (var_names files)) [0..<length files]"
  from assms(1) have img: "img = \<lparr>arrays = as, entries = ?es, FS_ROOT = last (var_names files),
      FS_NUMFILES = length files\<rparr>" "files \<noteq> []"
    by (auto simp: makefsdata_def as var_names_def Let_def split: if_splits)
  then show "FS_NUMFILES img = length files" "files \<noteq> []" "FS_ROOT img = last (var_names files)" by simp_all
  have len: "length (var_names files) = length files" by (simp add: var_names_def)
  have "map fst ?es = var_names files"
    by (simp add: write_entry_def comp_def map_nth flip: len)
  then have "distinct (map fst ?es)" using assms(2) by simp
  moreover have "write_entry ?fs (var_names files) i \<in> set ?es" if "i < length files" using that by simp
  ultimately show "map_of (entries img) (var_names files ! i)
      = Some \<lparr>prevfile = (if i > 0 then Some (var_names files ! (i - 1)) else None),
          entry_array = var_names files ! i, data_offset = length (drop 1 (fst (files ! i))) + 1\<rparr>"
    if "i < length files"
    using that by (simp add: img(1) map_of_eq_Some_iff write_entry_def)
  have "map fst as = var_names files" using written_arrays(1) [OF as] by (simp add: var_names_def comp_def)
  then have "distinct (map fst as)" using assms(2) by simp
  moreover have "(var_names files ! i, the (array_bytes (fst (files ! i)) (snd (files ! i)))) \<in> set as"
    if "i < length files" using that written_arrays(1) [OF as] by (auto simp: var_names_def)
  moreover show some: "array_bytes (fst (files ! i)) (snd (files ! i)) \<noteq> None" if "i < length files"
    using written_arrays(2) [OF as] that by simp
  ultimately show "map_of (arrays img) (var_names files ! i) = array_bytes (fst (files ! i)) (snd (files ! i))"
    if "i < length files"
    using that by (simp add: img(1) map_of_eq_Some_iff)
qed

lemma walk_back:
  assumes "makefsdata files = Some img" and "distinct (var_names files)" and "i < length files" and "i < n"
  shows "walk img n (Some (var_names files ! i)) = rev (take (Suc i) (var_names files))"
  using assms(3,4)
proof (induction i arbitrary: n)
  case 0
  then obtain m where "n = Suc m" by (cases n) auto
  with generated(4) [OF assms(1,2) 0(1)] 0 show ?case
    by (cases m) (simp_all add: take_Suc_conv_app_nth var_names_def)
next
  case (Suc i)
  then obtain m where "n = Suc m" "i < m" by (cases n) auto
  with generated(4) [OF assms(1,2) Suc.prems(1)] Suc.IH [of m] Suc.prems(1) show ?case
    by (simp add: take_Suc_conv_app_nth var_names_def)
qed

text \<open>Different files can get the same variable, and the types are guessed by any part of the path.\<close>

lemma variables_collide:
  "make_fvar (codes ''./a.b'') = make_fvar (codes ''./a_b'')" "codes ''./a.b'' \<noteq> codes ''./a_b''"
  "content_type (codes ''./data.json'') = ''text/javascript''"
  by code_simp+

section \<open>Properties\<close>

text \<open>
  C11: every file can be found and read. When no two files get the same variable, following the
  entries from the root visits all files, the last one first, and ends. A file whose name is plain
  ASCII is stored under its path with forward slashes, and its data is the HTTP header and its
  content. For other names the offset counts characters where the array has bytes, so the data
  starts inside the name and is never what should be served.
\<close>

theorem makefsdata_stores:
  assumes "makefsdata files = Some img" and "distinct (var_names files)" and "FS_NUMFILES img \<le> n"
  shows "walk img n (Some (FS_ROOT img)) = rev (var_names files)
    \<and> (\<forall>(file, content) \<in> set files. \<exists>e path.
        map_of (entries img) (make_fvar file) = Some e
        \<and> utf8 (replace_char backslash slash (drop 1 file)) = Some path
        \<and> stored_data img e = drop (length (drop 1 file) + 1) (path @ [0]) @ bytes_of (http_header file) @ content
        \<and> (plain_name file \<longrightarrow> stored_name img e = path
            \<and> stored_data img e = bytes_of (http_header file) @ content)
        \<and> ((\<exists>c \<in> set (drop 1 file). 0x80 \<le> c) \<longrightarrow> stored_data img e \<noteq> bytes_of (http_header file) @ content))"
proof (intro conjI ballI)
  note g = generated [OF assms(1,2)]
  have len: "length (var_names files) = length files" by (simp add: var_names_def)
  then have "last (var_names files) = var_names files ! (length files - 1)"
    using g(2) by (metis last_conv_nth length_0_conv)
  with walk_back [OF assms(1,2), of "length files - 1" n] g(1-3) assms(3)
  show "walk img n (Some (FS_ROOT img)) = rev (var_names files)"
    by (cases "length files") (simp_all add: len)
  fix f assume "f \<in> set files"
  then obtain i where i: "i < length files" "f = files ! i" by (metis in_set_conv_nth)
  obtain nm content where f: "f = (nm, content)" by (cases f)
  have v: "var_names files ! i = make_fvar nm" using i f by (simp add: var_names_def flip: i(2))
  let ?s = "replace_char backslash slash (drop 1 nm)"
  have fi: "fst (files ! i) = nm" "snd (files ! i) = content" using i(2) f by (metis fst_conv, metis snd_conv)
  from g(6) [OF i(1)] obtain path where path: "utf8 ?s = Some path"
    by (cases "utf8 ?s") (simp_all add: array_bytes_def fi)
  let ?h = "bytes_of (http_header nm) @ content"
  have a: "array_bytes nm content = Some (path @ [0] @ ?h)" by (simp only: array_bytes_def path option.map)
  obtain e where e: "map_of (entries img) (make_fvar nm) = Some e" "entry_array e = make_fvar nm"
    "data_offset e = length (drop 1 nm) + 1"
    using g(4) [OF i(1)] by (auto simp: v fi)
  have arr: "map_of (arrays img) (make_fvar nm) = Some (path @ [0] @ ?h)"
    using g(5) [OF i(1)] by (simp add: v fi a)
  have le: "length (drop 1 nm) \<le> length path" using utf8_length(1) [OF path] by simp
  have data: "stored_data img e = drop (length (drop 1 nm) + 1) (path @ [0]) @ ?h"
  proof -
    have "length (drop 1 nm) + 1 - length (path @ [0]) = 0" using le by simp
    then have "drop (length (drop 1 nm) + 1) ((path @ [0]) @ ?h) = drop (length (drop 1 nm) + 1) (path @ [0]) @ ?h"
      by (metis drop_append drop_0)
    then show ?thesis by (simp add: stored_data_def e arr)
  qed
  have plain: "stored_name img e = path \<and> stored_data img e = ?h" if "plain_name nm"
  proof -
    have "list_all (\<lambda>c. 0 < c \<and> c < 0x80) ?s"
      using that by (auto simp: plain_name_def replace_char_def list_all_iff slash_def dest: in_set_dropD)
    from utf8_ascii [OF this] path have "length path = length (drop 1 nm)" "\<forall>b \<in> set path. b \<noteq> 0" by auto
    then show ?thesis unfolding data by (simp add: stored_name_def e arr takeWhile_tail)
  qed
  have other: "stored_data img e \<noteq> ?h" if "c \<in> set (drop 1 nm)" "0x80 \<le> c" for c
  proof -
    have "c \<in> set ?s" using that by (force simp: replace_char_def backslash_def)
    from utf8_length(2) [OF path this that(2)] have "length (drop 1 nm) < length path" by simp
    then have "length (stored_data img e) > length ?h" unfolding data by simp
    then show ?thesis by auto
  qed
  show "case f of (file, content) \<Rightarrow> \<exists>e path. map_of (entries img) (make_fvar file) = Some e
      \<and> utf8 (replace_char backslash slash (drop 1 file)) = Some path
      \<and> stored_data img e = drop (length (drop 1 file) + 1) (path @ [0]) @ bytes_of (http_header file) @ content
      \<and> (plain_name file \<longrightarrow> stored_name img e = path
          \<and> stored_data img e = bytes_of (http_header file) @ content)
      \<and> ((\<exists>c \<in> set (drop 1 file). 0x80 \<le> c) \<longrightarrow> stored_data img e \<noteq> bytes_of (http_header file) @ content)"
    unfolding f prod.case using e(1) path data plain other by blast
qed

definition two_files :: "(pystr \<times> u8 list) list" where
  "two_files = [(codes ''./index.html'', bytes_of ''<p>''), (codes ''./404.html'', bytes_of ''gone'')]"

theorem makefsdata_stores_witness:
  "\<exists>img e. makefsdata two_files = Some img
    \<and> walk img 2 (Some (FS_ROOT img)) = [codes ''_404_html'', codes ''_index_html'']
    \<and> map_of (entries img) (codes ''_index_html'') = Some e
    \<and> stored_data img e = bytes_of (http_header (codes ''./index.html'') @ ''<p>'')"
proof -
  have "makefsdata two_files \<noteq> None" by code_simp
  then obtain img where img: "makefsdata two_files = Some img" by blast
  have names: "var_names two_files = [codes ''_index_html'', codes ''_404_html'']" by code_simp
  have d: "distinct (var_names two_files)" by code_simp
  have "FS_NUMFILES img \<le> 2" using generated(1) [OF img d] by (simp add: two_files_def)
  note stores = makefsdata_stores [OF img d this]
  have listed: "(codes ''./index.html'', bytes_of ''<p>'') \<in> set two_files" by (simp add: two_files_def)
  have v: "make_fvar (codes ''./index.html'') = codes ''_index_html''" by code_simp
  have p: "plain_name (codes ''./index.html'')" by code_simp
  from stores [THEN conjunct2, THEN bspec, OF listed, unfolded prod.case] v p
  obtain e where "map_of (entries img) (codes ''_index_html'') = Some e"
    "stored_data img e = bytes_of (http_header (codes ''./index.html'')) @ bytes_of ''<p>''" by auto
  with stores [THEN conjunct1] img names show ?thesis by (auto simp: bytes_of_def)
qed

text \<open>
  C12: the page in the program is the page in html\_files. The generator, given index.shtml under
  the name it has on the generating machine and with that machine's line ends, produces the array
  of htmldata.c byte for byte, an entry with the offset, the size and the predecessor of the one
  there, and the same root and number of files.
\<close>

theorem page_is_generated:
  "\<exists>img e. makefsdata [(page_file, join_lines index_shtml_lines)] = Some img
    \<and> arrays img = [(codes ''_index_shtml'', data_index_shtml)]
    \<and> entries img = [(codes ''_index_shtml'', e)] \<and> FS_ROOT img = codes ''_index_shtml'' \<and> FS_NUMFILES img = 1
    \<and> prevfile e = None \<and> fs_next file_index_shtml = None
    \<and> stored_name img e = fs_name_of file_index_shtml \<and> stored_data img e = fs_content file_index_shtml
    \<and> data_offset e = fs_data file_index_shtml
    \<and> length data_index_shtml - data_offset e = fs_len file_index_shtml"
proof -
  have w: "write_arrays [(page_file, join_lines index_shtml_lines)] = Some [(codes ''_index_shtml'', data_index_shtml)]"
    by (simp only: write_arrays.simps page_generated page_front option.case option.map)
  let ?e = "\<lparr>prevfile = None, entry_array = codes ''_index_shtml'', data_offset = 13\<rparr>"
  let ?img = "\<lparr>arrays = [(codes ''_index_shtml'', data_index_shtml)], entries = [(codes ''_index_shtml'', ?e)],
    FS_ROOT = codes ''_index_shtml'', FS_NUMFILES = 1\<rparr>"
  have "length (drop 1 page_file) + 1 = 13" "make_fvar page_file = codes ''_index_shtml''" by (rule page_front)+
  then have "makefsdata [(page_file, join_lines index_shtml_lines)] = Some ?img"
    by (simp add: makefsdata_def w write_entry_def del: write_arrays.simps)
  moreover have "stored_name ?img ?e = fs_name_of file_index_shtml" "stored_data ?img ?e = fs_content file_index_shtml"
    by (simp_all add: stored_name_def stored_data_def fs_name_of_def fs_content_def file_index_shtml_def)
  ultimately show ?thesis by (intro exI [of _ ?img] exI [of _ ?e]) (simp add: file_index_shtml_def)
qed

end
