(* ===== verification/Lwip_Options.thy ===== *)
theory Lwip_Options
  imports Web_Page Glasses_Main
begin

text \<open>
  The configuration of the network stack, lwipopts.h, with the defaults of the options it leaves open
  as the headers of lwIP under src/ have them (lwip/opt.h, lwip/arch.h, lwip/apps/httpd\_opts.h). The
  stack itself is not under src/.
\<close>

section \<open>Options\<close>

definition MEM_ALIGNMENT :: nat where "MEM_ALIGNMENT = 4"
definition MEM_SIZE :: nat where "MEM_SIZE = 4000"
definition MEMP_NUM_TCP_SEG :: nat where "MEMP_NUM_TCP_SEG = 32"
definition PBUF_POOL_SIZE :: nat where "PBUF_POOL_SIZE = 24"
definition TCP_MSS :: nat where "TCP_MSS = 1460"
definition TCP_WND :: nat where "TCP_WND = 8 * TCP_MSS"
definition TCP_SND_BUF :: nat where "TCP_SND_BUF = 8 * TCP_MSS"
definition TCP_SND_QUEUELEN :: nat where
  "TCP_SND_QUEUELEN = (4 * TCP_SND_BUF + (TCP_MSS - 1)) div TCP_MSS"
definition HTTPD_FSDATA_FILE :: string where "HTTPD_FSDATA_FILE = ''htmldata.c''"

definition LWIP_DBG_OFF :: nat where "LWIP_DBG_OFF = 0"

text \<open>
  All options of the file in its order. \<open>poll\<close> is the polling variant of the radio driver, which the
  program does not choose, \<open>debug\<close> a build without \<open>NDEBUG\<close>.
\<close>

definition lwip_options :: "bool \<Rightarrow> bool \<Rightarrow> (string \<times> nat) list" where
  "lwip_options poll debug =
   [(''NO_SYS'', 1), (''LWIP_SOCKET'', 0), (''MEM_LIBC_MALLOC'', if poll then 1 else 0),
     (''MEM_ALIGNMENT'', 4), (''MEM_SIZE'', 4000), (''MEMP_NUM_TCP_SEG'', 32),
     (''MEMP_NUM_ARP_QUEUE'', 10), (''PBUF_POOL_SIZE'', 24), (''LWIP_ARP'', 1),
     (''LWIP_ETHERNET'', 1), (''LWIP_ICMP'', 1), (''LWIP_RAW'', 1), (''TCP_WND'', TCP_WND),
     (''TCP_MSS'', 1460), (''TCP_SND_BUF'', TCP_SND_BUF),
     (''TCP_SND_QUEUELEN'', TCP_SND_QUEUELEN), (''LWIP_NETIF_STATUS_CALLBACK'', 1),
     (''LWIP_NETIF_LINK_CALLBACK'', 1), (''LWIP_NETIF_HOSTNAME'', 1), (''LWIP_NETCONN'', 0),
     (''MEM_STATS'', 0), (''SYS_STATS'', 0), (''MEMP_STATS'', 0), (''LINK_STATS'', 0),
     (''LWIP_CHKSUM_ALGORITHM'', 3), (''LWIP_DHCP'', 1), (''LWIP_IPV4'', 1), (''LWIP_TCP'', 1),
     (''LWIP_UDP'', 1), (''LWIP_DNS'', 1), (''LWIP_TCP_KEEPALIVE'', 1),
     (''LWIP_NETIF_TX_SINGLE_PBUF'', 1), (''DHCP_DOES_ARP_CHECK'', 0),
     (''LWIP_DHCP_DOES_ACD_CHECK'', 0)]
   @ (if debug then [(''LWIP_DEBUG'', 1), (''LWIP_STATS'', 1), (''LWIP_STATS_DISPLAY'', 1)] else [])
   @ [(''ETHARP_DEBUG'', LWIP_DBG_OFF), (''NETIF_DEBUG'', LWIP_DBG_OFF),
     (''PBUF_DEBUG'', LWIP_DBG_OFF), (''API_LIB_DEBUG'', LWIP_DBG_OFF),
     (''API_MSG_DEBUG'', LWIP_DBG_OFF), (''SOCKETS_DEBUG'', LWIP_DBG_OFF),
     (''ICMP_DEBUG'', LWIP_DBG_OFF), (''INET_DEBUG'', LWIP_DBG_OFF),
     (''IP_DEBUG'', LWIP_DBG_OFF), (''IP_REASS_DEBUG'', LWIP_DBG_OFF),
     (''RAW_DEBUG'', LWIP_DBG_OFF), (''MEM_DEBUG'', LWIP_DBG_OFF),
     (''MEMP_DEBUG'', LWIP_DBG_OFF), (''SYS_DEBUG'', LWIP_DBG_OFF),
     (''TCP_DEBUG'', LWIP_DBG_OFF), (''TCP_INPUT_DEBUG'', LWIP_DBG_OFF),
     (''TCP_OUTPUT_DEBUG'', LWIP_DBG_OFF), (''TCP_RTO_DEBUG'', LWIP_DBG_OFF),
     (''TCP_CWND_DEBUG'', LWIP_DBG_OFF), (''TCP_WND_DEBUG'', LWIP_DBG_OFF),
     (''TCP_FR_DEBUG'', LWIP_DBG_OFF), (''TCP_QLEN_DEBUG'', LWIP_DBG_OFF),
     (''TCP_RST_DEBUG'', LWIP_DBG_OFF), (''UDP_DEBUG'', LWIP_DBG_OFF),
     (''TCPIP_DEBUG'', LWIP_DBG_OFF), (''PPP_DEBUG'', LWIP_DBG_OFF),
     (''SLIP_DEBUG'', LWIP_DBG_OFF), (''DHCP_DEBUG'', LWIP_DBG_OFF), (''LWIP_HTTPD'', 1),
     (''LWIP_HTTPD_SSI'', 1), (''LWIP_HTTPD_CGI'', 1), (''LWIP_HTTPD_SSI_INCLUDE_TAG'', 0)]"

section \<open>Defaults of lwIP\<close>

definition ETH_PAD_SIZE :: nat where "ETH_PAD_SIZE = 0"
definition PBUF_LINK_HLEN :: nat where "PBUF_LINK_HLEN = 14 + ETH_PAD_SIZE"
definition PBUF_LINK_ENCAPSULATION_HLEN :: nat where "PBUF_LINK_ENCAPSULATION_HLEN = 0"

definition LWIP_MEM_ALIGN_SIZE :: "u32 \<Rightarrow> u32" where
  "LWIP_MEM_ALIGN_SIZE sz = (sz + of_nat MEM_ALIGNMENT - 1) AND NOT (of_nat MEM_ALIGNMENT - 1)"

definition PBUF_POOL_BUFSIZE :: nat where
  "PBUF_POOL_BUFSIZE = unat (LWIP_MEM_ALIGN_SIZE
     (of_nat (TCP_MSS + 40 + PBUF_LINK_ENCAPSULATION_HLEN + PBUF_LINK_HLEN)))"

definition TCP_SNDLOWAT :: nat where
  "TCP_SNDLOWAT = min (max (TCP_SND_BUF div 2) (2 * TCP_MSS + 1)) (TCP_SND_BUF - 1)"

definition TCP_SNDQUEUELOWAT :: nat where
  "TCP_SNDQUEUELOWAT = max (TCP_SND_QUEUELEN div 2) 5"

definition TCP_WND_UPDATE_THRESHOLD :: nat where
  "TCP_WND_UPDATE_THRESHOLD = min (TCP_WND div 4) (TCP_MSS * 4)"

definition LWIP_HTTPD_MAX_TAG_NAME_LEN :: nat where "LWIP_HTTPD_MAX_TAG_NAME_LEN = 8"
definition LWIP_HTTPD_MAX_TAG_INSERT_LEN :: nat where "LWIP_HTTPD_MAX_TAG_INSERT_LEN = 192"
definition LWIP_HTTPD_REQ_QUEUELEN :: nat where "LWIP_HTTPD_REQ_QUEUELEN = 5"
definition LWIP_HTTPD_MAX_REQ_LENGTH :: nat where
  "LWIP_HTTPD_MAX_REQ_LENGTH = min 1023 (LWIP_HTTPD_REQ_QUEUELEN * PBUF_POOL_BUFSIZE)"

section \<open>Their values\<close>

lemma tcp_values:
  "TCP_MSS = 1460" "TCP_WND = 11680" "TCP_SND_BUF = 11680" "TCP_SND_QUEUELEN = 32"
  "PBUF_POOL_BUFSIZE = 1516" "TCP_SNDLOWAT = 5840" "TCP_SNDQUEUELOWAT = 16"
  by (simp_all add: TCP_MSS_def TCP_WND_def TCP_SND_BUF_def TCP_SND_QUEUELEN_def PBUF_POOL_BUFSIZE_def
      LWIP_MEM_ALIGN_SIZE_def MEM_ALIGNMENT_def PBUF_LINK_ENCAPSULATION_HLEN_def PBUF_LINK_HLEN_def
      ETH_PAD_SIZE_def TCP_SNDLOWAT_def TCP_SNDQUEUELOWAT_def)

text \<open>The options above are those of the table.\<close>

lemma options_table:
  "map (map_of (lwip_options poll debug)) [''TCP_MSS'', ''TCP_WND'', ''TCP_SND_BUF'', ''TCP_SND_QUEUELEN'',
      ''MEMP_NUM_TCP_SEG'', ''MEM_ALIGNMENT'', ''MEM_SIZE'', ''PBUF_POOL_SIZE'']
   = map Some [TCP_MSS, TCP_WND, TCP_SND_BUF, TCP_SND_QUEUELEN, MEMP_NUM_TCP_SEG, MEM_ALIGNMENT, MEM_SIZE,
      PBUF_POOL_SIZE]"
  by (simp add: lwip_options_def MEMP_NUM_TCP_SEG_def MEM_ALIGNMENT_def MEM_SIZE_def PBUF_POOL_SIZE_def
      TCP_MSS_def)

lemma req_length: "LWIP_HTTPD_MAX_REQ_LENGTH = 1023"
  by (simp add: LWIP_HTTPD_MAX_REQ_LENGTH_def LWIP_HTTPD_REQ_QUEUELEN_def tcp_values)

text \<open>What a browser asks for when a link of the page is followed, with any headers before the end.\<close>

definition link_request :: "string \<times> string \<Rightarrow> string" where
  "link_request = (\<lambda>(p, v). ''GET '' @ hd cgi_handlers @ ''?'' @ p @ ''='' @ v @ '' HTTP/1.1'' @ CRLF)"

lemma request_lengths:
  "list_all (\<lambda>l. length (link_request l) \<le> 40) page_controls"
  "length (request_text (command_path cmd)) \<le> 255"
  by (simp add: page_controls_def link_request_def cgi_handlers_def CRLF_def)
     (cases cmd; simp add: request_text_def command_path_eq CRLF_def HOST_def)

lemma tag_text:
  assumes "first_ready (adc_ready_at B) (reads s) n"
    and "unat (adc_result_at B (Suc n) (adc_get_selected_input s)) < 4096" and "i < length ssi_tags"
    and "13 \<le> cap"
  shows "\<exists>txt s'. ssi_handler B (int i) pcInsert cap s = Some (of_nat (length txt), txt, s') \<and> length txt \<le> 12"
proof -
  note len = sensor_text_lengths [OF assms(2)]
  from assms(3) consider "i = 0" | "i = 1" | "i = 2" by (auto simp: ssi_tags_def less_Suc_eq)
  then show ?thesis
    by cases (use assms(4) len in \<open>auto simp: ssi_handler_def adc_read_first [OF assms(1)] snprintf_fits
        cyw43_arch_gpio_get_def Let_def\<close>)
qed

section \<open>Properties\<close>

text \<open>
  C34: the program stays within the limits of the server and the stack as it configures them. Every tag
  name is short enough not to be ignored; what a tag inserts for a 12-bit sample is complete and
  shorter than the server's buffer; the page with its three inserts at their longest fits in the send
  buffer of one connection; the request of every command of the glasses and the request line of every
  link of the page are not longer than the server accepts. The buffers meet what lwIP documents: at
  least two segments of window, pbufs for twice the send buffer and segments for all of them, low-water
  marks below the buffers, a pool buffer that holds a full aligned frame, and a window that fits 16 bits.
\<close>

theorem server_limits:
  assumes "first_ready (adc_ready_at B) (reads s) n"
    and "unat (adc_result_at B (Suc n) (adc_get_selected_input s)) < 4096" and "i < length ssi_tags"
  shows "length (ssi_tags ! i) \<le> LWIP_HTTPD_MAX_TAG_NAME_LEN
    \<and> (\<exists>len txt s'. ssi_handler B (int i) pcInsert LWIP_HTTPD_MAX_TAG_INSERT_LEN s = Some (len, txt, s')
         \<and> unat len = length txt \<and> length txt < LWIP_HTTPD_MAX_TAG_INSERT_LEN)
    \<and> nat (fs_len file_index_shtml) + length ssi_tags * LWIP_HTTPD_MAX_TAG_INSERT_LEN \<le> TCP_SND_BUF
    \<and> length (request_text (command_path cmd)) \<le> LWIP_HTTPD_MAX_REQ_LENGTH
    \<and> list_all (\<lambda>l. length (link_request l) \<le> LWIP_HTTPD_MAX_REQ_LENGTH) page_controls
    \<and> 2 * TCP_MSS \<le> TCP_WND \<and> TCP_WND < 2 ^ 16 \<and> 2 * TCP_SND_BUF div TCP_MSS \<le> TCP_SND_QUEUELEN
    \<and> TCP_SND_QUEUELEN \<le> MEMP_NUM_TCP_SEG \<and> TCP_SNDLOWAT < TCP_SND_BUF \<and> TCP_SNDQUEUELOWAT < TCP_SND_QUEUELEN
    \<and> TCP_MSS + 40 + PBUF_LINK_HLEN \<le> PBUF_POOL_BUFSIZE \<and> PBUF_POOL_BUFSIZE mod MEM_ALIGNMENT = 0"
proof (intro conjI)
  show "length (ssi_tags ! i) \<le> LWIP_HTTPD_MAX_TAG_NAME_LEN"
    using assms(3) by (auto simp: ssi_tags_def LWIP_HTTPD_MAX_TAG_NAME_LEN_def less_Suc_eq)
  obtain inserted s' where t: "ssi_handler B (int i) pcInsert LWIP_HTTPD_MAX_TAG_INSERT_LEN s
      = Some (of_nat (length inserted), inserted, s')" "length inserted \<le> 12"
    using tag_text [OF assms, of LWIP_HTTPD_MAX_TAG_INSERT_LEN pcInsert]
    by (auto simp: LWIP_HTTPD_MAX_TAG_INSERT_LEN_def)
  then have "unat (of_nat (length inserted) :: u16) = length inserted" by (simp add: unat_of_nat take_bit_nat_eq_self)
  with t show "\<exists>len txt s'. ssi_handler B (int i) pcInsert LWIP_HTTPD_MAX_TAG_INSERT_LEN s = Some (len, txt, s')
         \<and> unat len = length txt \<and> length txt < LWIP_HTTPD_MAX_TAG_INSERT_LEN"
    by (auto simp: LWIP_HTTPD_MAX_TAG_INSERT_LEN_def)
  show "nat (fs_len file_index_shtml) + length ssi_tags * LWIP_HTTPD_MAX_TAG_INSERT_LEN \<le> TCP_SND_BUF"
    by (simp add: file_index_shtml_def data_index_shtml_def data_index_shtml_lengths ssi_tags_def
        LWIP_HTTPD_MAX_TAG_INSERT_LEN_def tcp_values)
  show "length (request_text (command_path cmd)) \<le> LWIP_HTTPD_MAX_REQ_LENGTH"
    using request_lengths(2) [of cmd] by (simp add: req_length)
  show "list_all (\<lambda>l. length (link_request l) \<le> LWIP_HTTPD_MAX_REQ_LENGTH) page_controls"
    using request_lengths(1) by (auto simp: req_length list_all_iff)
qed (simp_all add: tcp_values MEMP_NUM_TCP_SEG_def PBUF_LINK_HLEN_def ETH_PAD_SIZE_def MEM_ALIGNMENT_def)

theorem server_limits_witness:
  "(\<exists>len txt s'. ssi_handler ref_board 1 [] LWIP_HTTPD_MAX_TAG_INSERT_LEN reset_mcu = Some (len, txt, s')
     \<and> unat len = length txt \<and> length txt < LWIP_HTTPD_MAX_TAG_INSERT_LEN)
   \<and> length (request_text (command_path Cmd_backward)) \<le> LWIP_HTTPD_MAX_REQ_LENGTH"
proof -
  have "first_ready (adc_ready_at ref_board) (reads reset_mcu) 0"
    by (simp add: first_ready_def ref_board_def reset_mcu_def)
  moreover have "unat (adc_result_at ref_board (Suc 0) (adc_get_selected_input reset_mcu)) < 4096"
    by (simp add: ref_board_def)
  moreover have "1 < length ssi_tags" by (simp add: ssi_tags_def)
  ultimately show ?thesis
    using server_limits [of ref_board reset_mcu 0 1 "[]" Cmd_backward] by (simp only: of_nat_1)
qed

end
