(* ===== verification/Regs_Dma.thy ===== *)
theory Regs_Dma
  imports Regs
begin

text \<open>
  The registers of the DMA, hardware/regs/dma.h, in the order of the header. Of the
  twelve channels, which are alike, the first stands for all.
\<close>

definition DMA_CH0_READ_ADDR :: hw_reg where
  "DMA_CH0_READ_ADDR = hw_register 0x00000000 0xffffffff (Some 0x00000000)
    [field ''DMA_CH0_READ_ADDR'' (Some 0x00000000) 0xffffffff 31 0 RW]"

definition DMA_CH0_WRITE_ADDR :: hw_reg where
  "DMA_CH0_WRITE_ADDR = hw_register 0x00000004 0xffffffff (Some 0x00000000)
    [field ''DMA_CH0_WRITE_ADDR'' (Some 0x00000000) 0xffffffff 31 0 RW]"

definition DMA_CH0_TRANS_COUNT :: hw_reg where
  "DMA_CH0_TRANS_COUNT = hw_register 0x00000008 0xffffffff (Some 0x00000000)
    [field ''DMA_CH0_TRANS_COUNT'' (Some 0x00000000) 0xffffffff 31 0 RW]"

definition DMA_CH0_CTRL_TRIG :: hw_reg where
  "DMA_CH0_CTRL_TRIG = hw_register 0x0000000c 0xe1ffffff (Some 0x00000000)
    [field ''AHB_ERROR'' (Some 0x0) 0x80000000 31 31 RO,
     field ''READ_ERROR'' (Some 0x0) 0x40000000 30 30 WC,
     field ''WRITE_ERROR'' (Some 0x0) 0x20000000 29 29 WC,
     field ''BUSY'' (Some 0x0) 0x01000000 24 24 RO,
     field ''SNIFF_EN'' (Some 0x0) 0x00800000 23 23 RW,
     field ''BSWAP'' (Some 0x0) 0x00400000 22 22 RW,
     field ''IRQ_QUIET'' (Some 0x0) 0x00200000 21 21 RW,
     enum_field ''TREQ_SEL'' (Some 0x00) 0x001f8000 20 15 RW
        [(''TIMER0'', 0x3b), (''TIMER1'', 0x3c), (''TIMER2'', 0x3d), (''TIMER3'', 0x3e), (''PERMANENT'', 0x3f)],
     field ''CHAIN_TO'' (Some 0x0) 0x00007800 14 11 RW,
     field ''RING_SEL'' (Some 0x0) 0x00000400 10 10 RW,
     enum_field ''RING_SIZE'' (Some 0x0) 0x000003c0 9 6 RW
        [(''RING_NONE'', 0x0)],
     field ''INCR_WRITE'' (Some 0x0) 0x00000020 5 5 RW,
     field ''INCR_READ'' (Some 0x0) 0x00000010 4 4 RW,
     enum_field ''DATA_SIZE'' (Some 0x0) 0x0000000c 3 2 RW
        [(''SIZE_BYTE'', 0x0), (''SIZE_HALFWORD'', 0x1), (''SIZE_WORD'', 0x2)],
     field ''HIGH_PRIORITY'' (Some 0x0) 0x00000002 1 1 RW,
     field ''EN'' (Some 0x0) 0x00000001 0 0 RW]"

definition DMA_CH0_AL1_CTRL :: hw_reg where
  "DMA_CH0_AL1_CTRL = hw_register 0x00000010 0xffffffff None
    [field ''DMA_CH0_AL1_CTRL'' None 0xffffffff 31 0 RW]"

definition DMA_CH0_AL1_READ_ADDR :: hw_reg where
  "DMA_CH0_AL1_READ_ADDR = hw_register 0x00000014 0xffffffff None
    [field ''DMA_CH0_AL1_READ_ADDR'' None 0xffffffff 31 0 RW]"

definition DMA_CH0_AL1_WRITE_ADDR :: hw_reg where
  "DMA_CH0_AL1_WRITE_ADDR = hw_register 0x00000018 0xffffffff None
    [field ''DMA_CH0_AL1_WRITE_ADDR'' None 0xffffffff 31 0 RW]"

definition DMA_CH0_AL1_TRANS_COUNT_TRIG :: hw_reg where
  "DMA_CH0_AL1_TRANS_COUNT_TRIG = hw_register 0x0000001c 0xffffffff None
    [field ''DMA_CH0_AL1_TRANS_COUNT_TRIG'' None 0xffffffff 31 0 RW]"

definition DMA_CH0_AL2_CTRL :: hw_reg where
  "DMA_CH0_AL2_CTRL = hw_register 0x00000020 0xffffffff None
    [field ''DMA_CH0_AL2_CTRL'' None 0xffffffff 31 0 RW]"

definition DMA_CH0_AL2_TRANS_COUNT :: hw_reg where
  "DMA_CH0_AL2_TRANS_COUNT = hw_register 0x00000024 0xffffffff None
    [field ''DMA_CH0_AL2_TRANS_COUNT'' None 0xffffffff 31 0 RW]"

definition DMA_CH0_AL2_READ_ADDR :: hw_reg where
  "DMA_CH0_AL2_READ_ADDR = hw_register 0x00000028 0xffffffff None
    [field ''DMA_CH0_AL2_READ_ADDR'' None 0xffffffff 31 0 RW]"

definition DMA_CH0_AL2_WRITE_ADDR_TRIG :: hw_reg where
  "DMA_CH0_AL2_WRITE_ADDR_TRIG = hw_register 0x0000002c 0xffffffff None
    [field ''DMA_CH0_AL2_WRITE_ADDR_TRIG'' None 0xffffffff 31 0 RW]"

definition DMA_CH0_AL3_CTRL :: hw_reg where
  "DMA_CH0_AL3_CTRL = hw_register 0x00000030 0xffffffff None
    [field ''DMA_CH0_AL3_CTRL'' None 0xffffffff 31 0 RW]"

definition DMA_CH0_AL3_WRITE_ADDR :: hw_reg where
  "DMA_CH0_AL3_WRITE_ADDR = hw_register 0x00000034 0xffffffff None
    [field ''DMA_CH0_AL3_WRITE_ADDR'' None 0xffffffff 31 0 RW]"

definition DMA_CH0_AL3_TRANS_COUNT :: hw_reg where
  "DMA_CH0_AL3_TRANS_COUNT = hw_register 0x00000038 0xffffffff None
    [field ''DMA_CH0_AL3_TRANS_COUNT'' None 0xffffffff 31 0 RW]"

definition DMA_CH0_AL3_READ_ADDR_TRIG :: hw_reg where
  "DMA_CH0_AL3_READ_ADDR_TRIG = hw_register 0x0000003c 0xffffffff None
    [field ''DMA_CH0_AL3_READ_ADDR_TRIG'' None 0xffffffff 31 0 RW]"

definition DMA_INTR :: hw_reg where
  "DMA_INTR = hw_register 0x00000400 0x0000ffff (Some 0x00000000)
    [field ''DMA_INTR'' (Some 0x00000000) 0x0000ffff 15 0 RO]"

definition DMA_INTE0 :: hw_reg where
  "DMA_INTE0 = hw_register 0x00000404 0x0000ffff (Some 0x00000000)
    [field ''DMA_INTE0'' (Some 0x00000000) 0x0000ffff 15 0 RW]"

definition DMA_INTF0 :: hw_reg where
  "DMA_INTF0 = hw_register 0x00000408 0x0000ffff (Some 0x00000000)
    [field ''DMA_INTF0'' (Some 0x00000000) 0x0000ffff 15 0 RW]"

definition DMA_INTS0 :: hw_reg where
  "DMA_INTS0 = hw_register 0x0000040c 0x0000ffff (Some 0x00000000)
    [field ''DMA_INTS0'' (Some 0x00000000) 0x0000ffff 15 0 WC]"

definition DMA_INTE1 :: hw_reg where
  "DMA_INTE1 = hw_register 0x00000414 0x0000ffff (Some 0x00000000)
    [field ''DMA_INTE1'' (Some 0x00000000) 0x0000ffff 15 0 RW]"

definition DMA_INTF1 :: hw_reg where
  "DMA_INTF1 = hw_register 0x00000418 0x0000ffff (Some 0x00000000)
    [field ''DMA_INTF1'' (Some 0x00000000) 0x0000ffff 15 0 RW]"

definition DMA_INTS1 :: hw_reg where
  "DMA_INTS1 = hw_register 0x0000041c 0x0000ffff (Some 0x00000000)
    [field ''DMA_INTS1'' (Some 0x00000000) 0x0000ffff 15 0 WC]"

definition DMA_TIMER0 :: hw_reg where
  "DMA_TIMER0 = hw_register 0x00000420 0xffffffff (Some 0x00000000)
    [field ''X'' (Some 0x0000) 0xffff0000 31 16 RW,
     field ''Y'' (Some 0x0000) 0x0000ffff 15 0 RW]"

definition DMA_TIMER1 :: hw_reg where
  "DMA_TIMER1 = hw_register 0x00000424 0xffffffff (Some 0x00000000)
    [field ''X'' (Some 0x0000) 0xffff0000 31 16 RW,
     field ''Y'' (Some 0x0000) 0x0000ffff 15 0 RW]"

definition DMA_TIMER2 :: hw_reg where
  "DMA_TIMER2 = hw_register 0x00000428 0xffffffff (Some 0x00000000)
    [field ''X'' (Some 0x0000) 0xffff0000 31 16 RW,
     field ''Y'' (Some 0x0000) 0x0000ffff 15 0 RW]"

definition DMA_TIMER3 :: hw_reg where
  "DMA_TIMER3 = hw_register 0x0000042c 0xffffffff (Some 0x00000000)
    [field ''X'' (Some 0x0000) 0xffff0000 31 16 RW,
     field ''Y'' (Some 0x0000) 0x0000ffff 15 0 RW]"

definition DMA_MULTI_CHAN_TRIGGER :: hw_reg where
  "DMA_MULTI_CHAN_TRIGGER = hw_register 0x00000430 0x0000ffff (Some 0x00000000)
    [field ''DMA_MULTI_CHAN_TRIGGER'' (Some 0x00000000) 0x0000ffff 15 0 SC]"

definition DMA_SNIFF_CTRL :: hw_reg where
  "DMA_SNIFF_CTRL = hw_register 0x00000434 0x00000fff (Some 0x00000000)
    [field ''OUT_INV'' (Some 0x0) 0x00000800 11 11 RW,
     field ''OUT_REV'' (Some 0x0) 0x00000400 10 10 RW,
     field ''BSWAP'' (Some 0x0) 0x00000200 9 9 RW,
     enum_field ''CALC'' (Some 0x0) 0x000001e0 8 5 RW
        [(''CRC32'', 0x0), (''CRC32R'', 0x1), (''CRC16'', 0x2), (''CRC16R'', 0x3), (''EVEN'', 0xe), (''SUM'', 0xf)],
     field ''DMACH'' (Some 0x0) 0x0000001e 4 1 RW,
     field ''EN'' (Some 0x0) 0x00000001 0 0 RW]"

definition DMA_SNIFF_DATA :: hw_reg where
  "DMA_SNIFF_DATA = hw_register 0x00000438 0xffffffff (Some 0x00000000)
    [field ''DMA_SNIFF_DATA'' (Some 0x00000000) 0xffffffff 31 0 RW]"

definition DMA_FIFO_LEVELS :: hw_reg where
  "DMA_FIFO_LEVELS = hw_register 0x00000440 0x00ffffff (Some 0x00000000)
    [field ''RAF_LVL'' (Some 0x00) 0x00ff0000 23 16 RO,
     field ''WAF_LVL'' (Some 0x00) 0x0000ff00 15 8 RO,
     field ''TDF_LVL'' (Some 0x00) 0x000000ff 7 0 RO]"

definition DMA_CHAN_ABORT :: hw_reg where
  "DMA_CHAN_ABORT = hw_register 0x00000444 0x0000ffff (Some 0x00000000)
    [field ''DMA_CHAN_ABORT'' (Some 0x00000000) 0x0000ffff 15 0 SC]"

definition DMA_N_CHANNELS :: hw_reg where
  "DMA_N_CHANNELS = hw_register 0x00000448 0x0000001f None
    [field ''DMA_N_CHANNELS'' None 0x0000001f 4 0 RO]"

definition DMA_CH0_DBG_CTDREQ :: hw_reg where
  "DMA_CH0_DBG_CTDREQ = hw_register 0x00000800 0x0000003f (Some 0x00000000)
    [field ''DMA_CH0_DBG_CTDREQ'' (Some 0x00000000) 0x0000003f 5 0 WC]"

definition DMA_CH0_DBG_TCR :: hw_reg where
  "DMA_CH0_DBG_TCR = hw_register 0x00000804 0xffffffff (Some 0x00000000)
    [field ''DMA_CH0_DBG_TCR'' (Some 0x00000000) 0xffffffff 31 0 RO]"

definition dma_registers :: "hw_reg list" where
  "dma_registers = [DMA_CH0_READ_ADDR, DMA_CH0_WRITE_ADDR, DMA_CH0_TRANS_COUNT, DMA_CH0_CTRL_TRIG,
   DMA_CH0_AL1_CTRL, DMA_CH0_AL1_READ_ADDR, DMA_CH0_AL1_WRITE_ADDR,
   DMA_CH0_AL1_TRANS_COUNT_TRIG, DMA_CH0_AL2_CTRL, DMA_CH0_AL2_TRANS_COUNT,
   DMA_CH0_AL2_READ_ADDR, DMA_CH0_AL2_WRITE_ADDR_TRIG, DMA_CH0_AL3_CTRL,
   DMA_CH0_AL3_WRITE_ADDR, DMA_CH0_AL3_TRANS_COUNT, DMA_CH0_AL3_READ_ADDR_TRIG, DMA_INTR,
   DMA_INTE0, DMA_INTF0, DMA_INTS0, DMA_INTE1, DMA_INTF1, DMA_INTS1, DMA_TIMER0,
   DMA_TIMER1, DMA_TIMER2, DMA_TIMER3, DMA_MULTI_CHAN_TRIGGER, DMA_SNIFF_CTRL,
   DMA_SNIFF_DATA, DMA_FIFO_LEVELS, DMA_CHAN_ABORT, DMA_N_CHANNELS, DMA_CH0_DBG_CTDREQ,
   DMA_CH0_DBG_TCR]"

lemma dma_ok_1:
  "reg_ok DMA_CH0_READ_ADDR"
  "reg_ok DMA_CH0_WRITE_ADDR"
  "reg_ok DMA_CH0_TRANS_COUNT"
  "reg_ok DMA_CH0_CTRL_TRIG"
  "reg_ok DMA_CH0_AL1_CTRL"
  "reg_ok DMA_CH0_AL1_READ_ADDR"
  by (simp_all add: reg_ok_simps
      DMA_CH0_READ_ADDR_def
      DMA_CH0_WRITE_ADDR_def
      DMA_CH0_TRANS_COUNT_def
      DMA_CH0_CTRL_TRIG_def
      DMA_CH0_AL1_CTRL_def
      DMA_CH0_AL1_READ_ADDR_def)

lemma dma_ok_2:
  "reg_ok DMA_CH0_AL1_WRITE_ADDR"
  "reg_ok DMA_CH0_AL1_TRANS_COUNT_TRIG"
  "reg_ok DMA_CH0_AL2_CTRL"
  "reg_ok DMA_CH0_AL2_TRANS_COUNT"
  "reg_ok DMA_CH0_AL2_READ_ADDR"
  "reg_ok DMA_CH0_AL2_WRITE_ADDR_TRIG"
  by (simp_all add: reg_ok_simps
      DMA_CH0_AL1_WRITE_ADDR_def
      DMA_CH0_AL1_TRANS_COUNT_TRIG_def
      DMA_CH0_AL2_CTRL_def
      DMA_CH0_AL2_TRANS_COUNT_def
      DMA_CH0_AL2_READ_ADDR_def
      DMA_CH0_AL2_WRITE_ADDR_TRIG_def)

lemma dma_ok_3:
  "reg_ok DMA_CH0_AL3_CTRL"
  "reg_ok DMA_CH0_AL3_WRITE_ADDR"
  "reg_ok DMA_CH0_AL3_TRANS_COUNT"
  "reg_ok DMA_CH0_AL3_READ_ADDR_TRIG"
  "reg_ok DMA_INTR"
  "reg_ok DMA_INTE0"
  by (simp_all add: reg_ok_simps
      DMA_CH0_AL3_CTRL_def
      DMA_CH0_AL3_WRITE_ADDR_def
      DMA_CH0_AL3_TRANS_COUNT_def
      DMA_CH0_AL3_READ_ADDR_TRIG_def
      DMA_INTR_def
      DMA_INTE0_def)

lemma dma_ok_4:
  "reg_ok DMA_INTF0"
  "reg_ok DMA_INTS0"
  "reg_ok DMA_INTE1"
  "reg_ok DMA_INTF1"
  "reg_ok DMA_INTS1"
  "reg_ok DMA_TIMER0"
  by (simp_all add: reg_ok_simps
      DMA_INTF0_def
      DMA_INTS0_def
      DMA_INTE1_def
      DMA_INTF1_def
      DMA_INTS1_def
      DMA_TIMER0_def)

lemma dma_ok_5:
  "reg_ok DMA_TIMER1"
  "reg_ok DMA_TIMER2"
  "reg_ok DMA_TIMER3"
  "reg_ok DMA_MULTI_CHAN_TRIGGER"
  "reg_ok DMA_SNIFF_CTRL"
  "reg_ok DMA_SNIFF_DATA"
  by (simp_all add: reg_ok_simps
      DMA_TIMER1_def
      DMA_TIMER2_def
      DMA_TIMER3_def
      DMA_MULTI_CHAN_TRIGGER_def
      DMA_SNIFF_CTRL_def
      DMA_SNIFF_DATA_def)

lemma dma_ok_6:
  "reg_ok DMA_FIFO_LEVELS"
  "reg_ok DMA_CHAN_ABORT"
  "reg_ok DMA_N_CHANNELS"
  "reg_ok DMA_CH0_DBG_CTDREQ"
  "reg_ok DMA_CH0_DBG_TCR"
  by (simp_all add: reg_ok_simps
      DMA_FIFO_LEVELS_def
      DMA_CHAN_ABORT_def
      DMA_N_CHANNELS_def
      DMA_CH0_DBG_CTDREQ_def
      DMA_CH0_DBG_TCR_def)

lemma dma_registers_ok: "list_all reg_ok dma_registers"
  by (simp add: dma_registers_def dma_ok_1 dma_ok_2 dma_ok_3 dma_ok_4 dma_ok_5 dma_ok_6)

lemma dma_offsets: "map r_offset dma_registers =
  [0x00000000, 0x00000004, 0x00000008, 0x0000000c, 0x00000010, 0x00000014, 0x00000018,
   0x0000001c, 0x00000020, 0x00000024, 0x00000028, 0x0000002c, 0x00000030, 0x00000034,
   0x00000038, 0x0000003c, 0x00000400, 0x00000404, 0x00000408, 0x0000040c, 0x00000414,
   0x00000418, 0x0000041c, 0x00000420, 0x00000424, 0x00000428, 0x0000042c, 0x00000430,
   0x00000434, 0x00000438, 0x00000440, 0x00000444, 0x00000448, 0x00000800, 0x00000804]"
  by (simp add: dma_registers_def hw_register_def
      DMA_CH0_READ_ADDR_def DMA_CH0_WRITE_ADDR_def DMA_CH0_TRANS_COUNT_def DMA_CH0_CTRL_TRIG_def
   DMA_CH0_AL1_CTRL_def DMA_CH0_AL1_READ_ADDR_def DMA_CH0_AL1_WRITE_ADDR_def
   DMA_CH0_AL1_TRANS_COUNT_TRIG_def DMA_CH0_AL2_CTRL_def DMA_CH0_AL2_TRANS_COUNT_def
   DMA_CH0_AL2_READ_ADDR_def DMA_CH0_AL2_WRITE_ADDR_TRIG_def DMA_CH0_AL3_CTRL_def
   DMA_CH0_AL3_WRITE_ADDR_def DMA_CH0_AL3_TRANS_COUNT_def DMA_CH0_AL3_READ_ADDR_TRIG_def
   DMA_INTR_def DMA_INTE0_def DMA_INTF0_def DMA_INTS0_def DMA_INTE1_def DMA_INTF1_def
   DMA_INTS1_def DMA_TIMER0_def DMA_TIMER1_def DMA_TIMER2_def DMA_TIMER3_def
   DMA_MULTI_CHAN_TRIGGER_def DMA_SNIFF_CTRL_def DMA_SNIFF_DATA_def DMA_FIFO_LEVELS_def
   DMA_CHAN_ABORT_def DMA_N_CHANNELS_def DMA_CH0_DBG_CTDREQ_def DMA_CH0_DBG_TCR_def)

end
