(* ===== verification/Dma.thy ===== *)
theory Dma
  imports Regs_Dma "HOL-Library.Monad_Syntax"
begin

text \<open>
  The DMA controller, the inline functions of hardware/dma.h: building a channel's configuration,
  setting a channel up, starting it, and the interrupt, sniffer and timer registers. The masks and
  positions are those of the register descriptions. A failed assertion is \<open>None\<close>. The four
  registers of a channel have further addresses; writing one at its trigger address also starts the
  channel, unless the value is 0, and is recorded with what the channel then does.
\<close>

section \<open>Configuration\<close>

datatype dma_channel_transfer_size = DMA_SIZE_8 | DMA_SIZE_16 | DMA_SIZE_32

fun size_value :: "dma_channel_transfer_size \<Rightarrow> u32" where
  "size_value DMA_SIZE_8 = 0"
| "size_value DMA_SIZE_16 = 1"
| "size_value DMA_SIZE_32 = 2"

record dma_channel_config =
  ctrl :: u32

abbreviation ctrl_bits :: "string \<Rightarrow> u32" where
  "ctrl_bits n \<equiv> reg_bits DMA_CH0_CTRL_TRIG n"

abbreviation ctrl_lsb :: "string \<Rightarrow> nat" where
  "ctrl_lsb n \<equiv> reg_lsb DMA_CH0_CTRL_TRIG n"

definition NUM_DMA_CHANNELS :: u32 where "NUM_DMA_CHANNELS = 12"
definition DREQ_DMA_TIMER0 :: u32 where "DREQ_DMA_TIMER0 = 0x3b"
definition DREQ_FORCE :: u32 where "DREQ_FORCE = 0x3f"

definition channel_config_set_read_increment :: "bool \<Rightarrow> dma_channel_config \<Rightarrow> dma_channel_config" where
  "channel_config_set_read_increment incr c =
     c\<lparr>ctrl := (if incr then ctrl c OR ctrl_bits ''INCR_READ'' else ctrl c AND NOT (ctrl_bits ''INCR_READ''))\<rparr>"

definition channel_config_set_write_increment :: "bool \<Rightarrow> dma_channel_config \<Rightarrow> dma_channel_config" where
  "channel_config_set_write_increment incr c =
     c\<lparr>ctrl := (if incr then ctrl c OR ctrl_bits ''INCR_WRITE'' else ctrl c AND NOT (ctrl_bits ''INCR_WRITE''))\<rparr>"

definition channel_config_set_dreq :: "u32 \<Rightarrow> dma_channel_config \<Rightarrow> dma_channel_config option" where
  "channel_config_set_dreq dreq c =
     (if dreq \<le> DREQ_FORCE
      then Some (c\<lparr>ctrl := (ctrl c AND NOT (ctrl_bits ''TREQ_SEL'')) OR push_bit (ctrl_lsb ''TREQ_SEL'') dreq\<rparr>)
      else None)"

definition channel_config_set_chain_to :: "u32 \<Rightarrow> dma_channel_config \<Rightarrow> dma_channel_config option" where
  "channel_config_set_chain_to chain_to c =
     (if chain_to \<le> NUM_DMA_CHANNELS
      then Some (c\<lparr>ctrl := (ctrl c AND NOT (ctrl_bits ''CHAIN_TO'')) OR push_bit (ctrl_lsb ''CHAIN_TO'') chain_to\<rparr>)
      else None)"

definition channel_config_set_transfer_data_size ::
  "dma_channel_transfer_size \<Rightarrow> dma_channel_config \<Rightarrow> dma_channel_config option" where
  "channel_config_set_transfer_data_size sz c =
     (if sz = DMA_SIZE_8 \<or> sz = DMA_SIZE_16 \<or> sz = DMA_SIZE_32
      then Some (c\<lparr>ctrl := (ctrl c AND NOT (ctrl_bits ''DATA_SIZE''))
        OR push_bit (ctrl_lsb ''DATA_SIZE'') (size_value sz)\<rparr>)
      else None)"

definition channel_config_set_ring :: "bool \<Rightarrow> u32 \<Rightarrow> dma_channel_config \<Rightarrow> dma_channel_config option" where
  "channel_config_set_ring write size_bits c =
     (if size_bits < 32
      then Some (c\<lparr>ctrl := (ctrl c AND NOT (ctrl_bits ''RING_SIZE'' OR ctrl_bits ''RING_SEL''))
        OR (push_bit (ctrl_lsb ''RING_SIZE'') size_bits OR (if write then ctrl_bits ''RING_SEL'' else 0))\<rparr>)
      else None)"

definition channel_config_set_bswap :: "bool \<Rightarrow> dma_channel_config \<Rightarrow> dma_channel_config" where
  "channel_config_set_bswap bswap c =
     c\<lparr>ctrl := (if bswap then ctrl c OR ctrl_bits ''BSWAP'' else ctrl c AND NOT (ctrl_bits ''BSWAP''))\<rparr>"

definition channel_config_set_irq_quiet :: "bool \<Rightarrow> dma_channel_config \<Rightarrow> dma_channel_config" where
  "channel_config_set_irq_quiet irq_quiet c =
     c\<lparr>ctrl := (if irq_quiet then ctrl c OR ctrl_bits ''IRQ_QUIET'' else ctrl c AND NOT (ctrl_bits ''IRQ_QUIET''))\<rparr>"

definition channel_config_set_enable :: "bool \<Rightarrow> dma_channel_config \<Rightarrow> dma_channel_config" where
  "channel_config_set_enable enable c =
     c\<lparr>ctrl := (if enable then ctrl c OR ctrl_bits ''EN'' else ctrl c AND NOT (ctrl_bits ''EN''))\<rparr>"

definition channel_config_set_sniff_enable :: "bool \<Rightarrow> dma_channel_config \<Rightarrow> dma_channel_config" where
  "channel_config_set_sniff_enable sniff_enable c =
     c\<lparr>ctrl := (if sniff_enable then ctrl c OR ctrl_bits ''SNIFF_EN'' else ctrl c AND NOT (ctrl_bits ''SNIFF_EN''))\<rparr>"

definition dma_channel_get_default_config :: "u32 \<Rightarrow> dma_channel_config option" where
  "dma_channel_get_default_config channel =
     do {
       let c = \<lparr>ctrl = 0\<rparr>;
       let c = channel_config_set_read_increment True c;
       let c = channel_config_set_write_increment False c;
       c \<leftarrow> channel_config_set_dreq DREQ_FORCE c;
       c \<leftarrow> channel_config_set_chain_to channel c;
       c \<leftarrow> channel_config_set_transfer_data_size DMA_SIZE_32 c;
       c \<leftarrow> channel_config_set_ring False 0 c;
       let c = channel_config_set_bswap False c;
       let c = channel_config_set_irq_quiet False c;
       let c = channel_config_set_enable True c;
       Some (channel_config_set_sniff_enable False c)
     }"

section \<open>Channels\<close>

record dma_channel_hw =
  read_addr :: u32
  write_addr :: u32
  transfer_count :: u32
  ctrl_trig :: u32

text \<open>
  A start of one channel, with its registers, or of the channels of a mask, which is what writing
  \<open>multi_channel_trigger\<close> does.
\<close>

datatype dma_start = Started u32 dma_channel_hw | Mask_started u32

record dma_hw =
  ch :: "u32 \<Rightarrow> dma_channel_hw"
  intr :: u32
  inte0 :: u32
  intf0 :: u32
  ints0 :: u32
  inte1 :: u32
  intf1 :: u32
  ints1 :: u32
  timer :: "u32 \<Rightarrow> u32"
  sniff_ctrl :: u32
  sniff_data :: u32
  fifo_levels :: u32
  chan_abort :: u32
  starts :: "dma_start list"

definition upd_channel :: "u32 \<Rightarrow> (dma_channel_hw \<Rightarrow> dma_channel_hw) \<Rightarrow> dma_hw \<Rightarrow> dma_hw" where
  "upd_channel n f d = d\<lparr>ch := (ch d)(n := f (ch d n))\<rparr>"

text \<open>What the write of \<open>v\<close> at a trigger address adds.\<close>

definition started :: "u32 \<Rightarrow> u32 \<Rightarrow> dma_hw \<Rightarrow> dma_hw" where
  "started n v d = (if v = 0 then d else d\<lparr>starts := starts d @ [Started n (ch d n)]\<rparr>)"

definition dma_get_channel_config :: "u32 \<Rightarrow> dma_hw \<Rightarrow> dma_channel_config" where
  "dma_get_channel_config channel d = \<lparr>ctrl = ctrl_trig (ch d channel)\<rparr>"

definition channel_config_get_ctrl_value :: "dma_channel_config \<Rightarrow> u32" where
  "channel_config_get_ctrl_value config = ctrl config"

definition dma_channel_set_config :: "u32 \<Rightarrow> dma_channel_config \<Rightarrow> bool \<Rightarrow> dma_hw \<Rightarrow> dma_hw" where
  "dma_channel_set_config channel config trigger d =
     (let v = channel_config_get_ctrl_value config; d' = upd_channel channel (\<lambda>c. c\<lparr>ctrl_trig := v\<rparr>) d
      in if \<not> trigger then d' else started channel v d')"

definition dma_channel_set_read_addr :: "u32 \<Rightarrow> u32 \<Rightarrow> bool \<Rightarrow> dma_hw \<Rightarrow> dma_hw" where
  "dma_channel_set_read_addr channel addr trigger d =
     (let d' = upd_channel channel (\<lambda>c. c\<lparr>read_addr := addr\<rparr>) d
      in if \<not> trigger then d' else started channel addr d')"

definition dma_channel_set_write_addr :: "u32 \<Rightarrow> u32 \<Rightarrow> bool \<Rightarrow> dma_hw \<Rightarrow> dma_hw" where
  "dma_channel_set_write_addr channel addr trigger d =
     (let d' = upd_channel channel (\<lambda>c. c\<lparr>write_addr := addr\<rparr>) d
      in if \<not> trigger then d' else started channel addr d')"

definition dma_channel_set_trans_count :: "u32 \<Rightarrow> u32 \<Rightarrow> bool \<Rightarrow> dma_hw \<Rightarrow> dma_hw" where
  "dma_channel_set_trans_count channel trans_count trigger d =
     (let d' = upd_channel channel (\<lambda>c. c\<lparr>transfer_count := trans_count\<rparr>) d
      in if \<not> trigger then d' else started channel trans_count d')"

definition dma_channel_configure ::
  "u32 \<Rightarrow> dma_channel_config \<Rightarrow> u32 \<Rightarrow> u32 \<Rightarrow> u32 \<Rightarrow> bool \<Rightarrow> dma_hw \<Rightarrow> dma_hw" where
  "dma_channel_configure channel config w_addr r_addr count trigger d =
     (let d = dma_channel_set_read_addr channel r_addr False d;
          d = dma_channel_set_write_addr channel w_addr False d;
          d = dma_channel_set_trans_count channel count False d
      in dma_channel_set_config channel config trigger d)"

definition dma_channel_transfer_from_buffer_now :: "u32 \<Rightarrow> u32 \<Rightarrow> u32 \<Rightarrow> dma_hw \<Rightarrow> dma_hw" where
  "dma_channel_transfer_from_buffer_now channel r_addr count d =
     (let d = upd_channel channel (\<lambda>c. c\<lparr>read_addr := r_addr\<rparr>) d
      in started channel count (upd_channel channel (\<lambda>c. c\<lparr>transfer_count := count\<rparr>) d))"

definition dma_channel_transfer_to_buffer_now :: "u32 \<Rightarrow> u32 \<Rightarrow> u32 \<Rightarrow> dma_hw \<Rightarrow> dma_hw" where
  "dma_channel_transfer_to_buffer_now channel w_addr count d =
     (let d = upd_channel channel (\<lambda>c. c\<lparr>write_addr := w_addr\<rparr>) d
      in started channel count (upd_channel channel (\<lambda>c. c\<lparr>transfer_count := count\<rparr>) d))"

definition dma_start_channel_mask :: "u32 \<Rightarrow> dma_hw \<Rightarrow> dma_hw" where
  "dma_start_channel_mask chan_mask d = d\<lparr>starts := starts d @ [Mask_started chan_mask]\<rparr>"

definition dma_channel_start :: "u32 \<Rightarrow> dma_hw \<Rightarrow> dma_hw" where
  "dma_channel_start channel d = dma_start_channel_mask (push_bit (unat channel) 1) d"

definition dma_channel_is_busy :: "u32 \<Rightarrow> dma_hw \<Rightarrow> bool" where
  "dma_channel_is_busy channel d \<longleftrightarrow> ctrl_trig (ch d channel) AND ctrl_bits ''BUSY'' \<noteq> 0"

section \<open>Interrupts\<close>

definition dma_channel_set_irq0_enabled :: "u32 \<Rightarrow> bool \<Rightarrow> dma_hw \<Rightarrow> dma_hw" where
  "dma_channel_set_irq0_enabled channel enabled d =
     (if enabled then d\<lparr>inte0 := hw_set_bits (inte0 d) (push_bit (unat channel) 1)\<rparr>
      else d\<lparr>inte0 := hw_clear_bits (inte0 d) (push_bit (unat channel) 1)\<rparr>)"

definition dma_set_irq0_channel_mask_enabled :: "u32 \<Rightarrow> bool \<Rightarrow> dma_hw \<Rightarrow> dma_hw" where
  "dma_set_irq0_channel_mask_enabled channel_mask enabled d =
     (if enabled then d\<lparr>inte0 := hw_set_bits (inte0 d) channel_mask\<rparr>
      else d\<lparr>inte0 := hw_clear_bits (inte0 d) channel_mask\<rparr>)"

definition dma_channel_set_irq1_enabled :: "u32 \<Rightarrow> bool \<Rightarrow> dma_hw \<Rightarrow> dma_hw" where
  "dma_channel_set_irq1_enabled channel enabled d =
     (if enabled then d\<lparr>inte1 := hw_set_bits (inte1 d) (push_bit (unat channel) 1)\<rparr>
      else d\<lparr>inte1 := hw_clear_bits (inte1 d) (push_bit (unat channel) 1)\<rparr>)"

definition dma_set_irq1_channel_mask_enabled :: "u32 \<Rightarrow> bool \<Rightarrow> dma_hw \<Rightarrow> dma_hw" where
  "dma_set_irq1_channel_mask_enabled channel_mask enabled d =
     (if enabled then d\<lparr>inte1 := hw_set_bits (inte1 d) channel_mask\<rparr>
      else d\<lparr>inte1 := hw_clear_bits (inte1 d) channel_mask\<rparr>)"

definition dma_irqn_set_channel_enabled :: "u32 \<Rightarrow> u32 \<Rightarrow> bool \<Rightarrow> dma_hw \<Rightarrow> dma_hw" where
  "dma_irqn_set_channel_enabled irq_index channel enabled d =
     (if irq_index \<noteq> 0 then dma_channel_set_irq1_enabled channel enabled d
      else dma_channel_set_irq0_enabled channel enabled d)"

definition dma_irqn_set_channel_mask_enabled :: "u32 \<Rightarrow> u32 \<Rightarrow> bool \<Rightarrow> dma_hw \<Rightarrow> dma_hw" where
  "dma_irqn_set_channel_mask_enabled irq_index channel_mask enabled d =
     (if irq_index \<noteq> 0 then dma_set_irq1_channel_mask_enabled channel_mask enabled d
      else dma_set_irq0_channel_mask_enabled channel_mask enabled d)"

definition dma_channel_get_irq0_status :: "u32 \<Rightarrow> dma_hw \<Rightarrow> bool" where
  "dma_channel_get_irq0_status channel d \<longleftrightarrow> ints0 d AND push_bit (unat channel) 1 \<noteq> 0"

definition dma_channel_get_irq1_status :: "u32 \<Rightarrow> dma_hw \<Rightarrow> bool" where
  "dma_channel_get_irq1_status channel d \<longleftrightarrow> ints1 d AND push_bit (unat channel) 1 \<noteq> 0"

definition dma_irqn_get_channel_status :: "u32 \<Rightarrow> u32 \<Rightarrow> dma_hw \<Rightarrow> bool" where
  "dma_irqn_get_channel_status irq_index channel d \<longleftrightarrow>
     (if irq_index \<noteq> 0 then ints1 d else ints0 d) AND push_bit (unat channel) 1 \<noteq> 0"

section \<open>Sniffer and timers\<close>

definition dma_sniffer_enable :: "u32 \<Rightarrow> u32 \<Rightarrow> bool \<Rightarrow> dma_hw \<Rightarrow> dma_hw" where
  "dma_sniffer_enable channel mode force_channel_enable d =
     (let d = (if force_channel_enable
               then upd_channel channel (\<lambda>c. c\<lparr>ctrl_trig := hw_set_bits (ctrl_trig c) (ctrl_bits ''SNIFF_EN'')\<rparr>) d
               else d)
      in d\<lparr>sniff_ctrl := (push_bit (reg_lsb DMA_SNIFF_CTRL ''DMACH'') channel AND reg_bits DMA_SNIFF_CTRL ''DMACH'')
           OR (push_bit (reg_lsb DMA_SNIFF_CTRL ''CALC'') mode AND reg_bits DMA_SNIFF_CTRL ''CALC'')
           OR reg_bits DMA_SNIFF_CTRL ''EN''\<rparr>)"

definition dma_sniffer_set_byte_swap_enabled :: "bool \<Rightarrow> dma_hw \<Rightarrow> dma_hw" where
  "dma_sniffer_set_byte_swap_enabled swap d =
     (if swap then d\<lparr>sniff_ctrl := hw_set_bits (sniff_ctrl d) (reg_bits DMA_SNIFF_CTRL ''BSWAP'')\<rparr>
      else d\<lparr>sniff_ctrl := hw_clear_bits (sniff_ctrl d) (reg_bits DMA_SNIFF_CTRL ''BSWAP'')\<rparr>)"

definition dma_sniffer_disable :: "dma_hw \<Rightarrow> dma_hw" where
  "dma_sniffer_disable d = d\<lparr>sniff_ctrl := 0\<rparr>"

definition dma_timer_set_fraction :: "u32 \<Rightarrow> u16 \<Rightarrow> u16 \<Rightarrow> dma_hw \<Rightarrow> dma_hw" where
  "dma_timer_set_fraction n numerator denominator d =
     d\<lparr>timer := (timer d)(n := push_bit (reg_lsb DMA_TIMER0 ''X'') (ucast numerator)
        OR push_bit (reg_lsb DMA_TIMER0 ''Y'') (ucast denominator))\<rparr>"

definition dma_get_timer_dreq :: "u32 \<Rightarrow> u32" where
  "dma_get_timer_dreq timer_num = DREQ_DMA_TIMER0 + timer_num"


section \<open>The fields of the control register\<close>

interpretation channel_ctrl: described_register DMA_CH0_CTRL_TRIG
  by unfold_locales (rule dma_ok_1)

lemma ctrl_names: "set (map f_name (r_fields DMA_CH0_CTRL_TRIG)) = {''AHB_ERROR'', ''READ_ERROR'',
    ''WRITE_ERROR'', ''BUSY'', ''SNIFF_EN'', ''BSWAP'', ''IRQ_QUIET'', ''TREQ_SEL'', ''CHAIN_TO'', ''RING_SEL'',
    ''RING_SIZE'', ''INCR_WRITE'', ''INCR_READ'', ''DATA_SIZE'', ''HIGH_PRIORITY'', ''EN''}"
  by (simp add: DMA_CH0_CTRL_TRIG_def hw_register_def field_def enum_field_def)

lemma ctrl_field: "f_width (the_field DMA_CH0_CTRL_TRIG n) = Suc (f_msb f) - f_lsb f"
  if "filter (\<lambda>f. f_name f = n) (r_fields DMA_CH0_CTRL_TRIG) = [f]"
  using that by (simp add: the_field_def f_width_def)

lemma ctrl_widths:
  "f_width (the_field DMA_CH0_CTRL_TRIG ''SNIFF_EN'') = 1" "f_width (the_field DMA_CH0_CTRL_TRIG ''BSWAP'') = 1"
  "f_width (the_field DMA_CH0_CTRL_TRIG ''IRQ_QUIET'') = 1" "f_width (the_field DMA_CH0_CTRL_TRIG ''TREQ_SEL'') = 6"
  "f_width (the_field DMA_CH0_CTRL_TRIG ''CHAIN_TO'') = 4" "f_width (the_field DMA_CH0_CTRL_TRIG ''RING_SEL'') = 1"
  "f_width (the_field DMA_CH0_CTRL_TRIG ''RING_SIZE'') = 4" "f_width (the_field DMA_CH0_CTRL_TRIG ''INCR_WRITE'') = 1"
  "f_width (the_field DMA_CH0_CTRL_TRIG ''INCR_READ'') = 1" "f_width (the_field DMA_CH0_CTRL_TRIG ''DATA_SIZE'') = 2"
  "f_width (the_field DMA_CH0_CTRL_TRIG ''EN'') = 1"
  by (simp_all add: the_field_def f_width_def DMA_CH0_CTRL_TRIG_def hw_register_def field_def enum_field_def)

lemma ring_macros: "ctrl_bits ''RING_SEL'' = push_bit 10 1" "ctrl_lsb ''RING_SEL'' = 10"
  "ctrl_bits ''RING_SIZE'' = push_bit 6 15" "ctrl_lsb ''RING_SIZE'' = 6"
  by (simp_all add: reg_bits_def reg_lsb_def the_field_def DMA_CH0_CTRL_TRIG_def hw_register_def field_def
      enum_field_def)

definition put_ctrl :: "string \<Rightarrow> u32 \<Rightarrow> dma_channel_config \<Rightarrow> dma_channel_config" where
  "put_ctrl n v c = c\<lparr>ctrl := put_named DMA_CH0_CTRL_TRIG n v (ctrl c)\<rparr>"

lemma flag:
  assumes "n \<in> {''INCR_READ'', ''INCR_WRITE'', ''BSWAP'', ''IRQ_QUIET'', ''EN'', ''SNIFF_EN''}"
  shows "(if b then w OR ctrl_bits n else w AND NOT (ctrl_bits n)) = put_named DMA_CH0_CTRL_TRIG n (of_bool b) w"
proof (rule channel_ctrl.put_flag)
  show "n \<in> set (map f_name (r_fields DMA_CH0_CTRL_TRIG))" using assms unfolding ctrl_names
    by (elim insertE emptyE) (simp_all only: insert_iff simp_thms)
  show "f_width (the_field DMA_CH0_CTRL_TRIG n) = 1" using assms
    by (elim insertE emptyE) (simp_all only: ctrl_widths)
qed

lemma flag_settings:
  "channel_config_set_read_increment b c = put_ctrl ''INCR_READ'' (of_bool b) c"
  "channel_config_set_write_increment b c = put_ctrl ''INCR_WRITE'' (of_bool b) c"
  "channel_config_set_bswap b c = put_ctrl ''BSWAP'' (of_bool b) c"
  "channel_config_set_irq_quiet b c = put_ctrl ''IRQ_QUIET'' (of_bool b) c"
  "channel_config_set_enable b c = put_ctrl ''EN'' (of_bool b) c"
  "channel_config_set_sniff_enable b c = put_ctrl ''SNIFF_EN'' (of_bool b) c"
  by (simp_all only: channel_config_set_read_increment_def channel_config_set_write_increment_def
      channel_config_set_bswap_def channel_config_set_irq_quiet_def channel_config_set_enable_def
      channel_config_set_sniff_enable_def put_ctrl_def flag insert_iff simp_thms)


lemma fits_less: "fits w v \<longleftrightarrow> unat v < 2 ^ w"
  by (simp add: fits_def)

lemma name_in: "n \<in> {''TREQ_SEL'', ''CHAIN_TO'', ''DATA_SIZE'', ''RING_SIZE'', ''RING_SEL''} \<Longrightarrow>
    n \<in> set (map f_name (r_fields DMA_CH0_CTRL_TRIG))"
  unfolding ctrl_names by (elim insertE emptyE) (simp_all only: insert_iff simp_thms)

lemma value_settings:
  "channel_config_set_dreq dreq c = (if dreq \<le> DREQ_FORCE then Some (put_ctrl ''TREQ_SEL'' dreq c) else None)"
  "channel_config_set_chain_to n c = (if n \<le> NUM_DMA_CHANNELS then Some (put_ctrl ''CHAIN_TO'' n c) else None)"
  "channel_config_set_transfer_data_size sz c = Some (put_ctrl ''DATA_SIZE'' (size_value sz) c)"
proof -
  have "fits 6 dreq" if "dreq \<le> DREQ_FORCE"
    using that by (simp add: fits_def DREQ_FORCE_def word_le_nat_alt)
  then show "channel_config_set_dreq dreq c = (if dreq \<le> DREQ_FORCE then Some (put_ctrl ''TREQ_SEL'' dreq c) else None)"
    using channel_ctrl.replace_named [of "''TREQ_SEL''" dreq "ctrl c", OF name_in]
    by (simp add: channel_config_set_dreq_def put_ctrl_def ctrl_widths)
  have "fits 4 n" if "n \<le> NUM_DMA_CHANNELS"
    using that by (simp add: fits_def NUM_DMA_CHANNELS_def word_le_nat_alt)
  then show "channel_config_set_chain_to n c = (if n \<le> NUM_DMA_CHANNELS then Some (put_ctrl ''CHAIN_TO'' n c) else None)"
    using channel_ctrl.replace_named [of "''CHAIN_TO''" n "ctrl c", OF name_in]
    by (simp add: channel_config_set_chain_to_def put_ctrl_def ctrl_widths)
  have "fits 2 (size_value sz)" by (cases sz) (simp_all add: fits_def)
  then show "channel_config_set_transfer_data_size sz c = Some (put_ctrl ''DATA_SIZE'' (size_value sz) c)"
    using channel_ctrl.replace_named [of "''DATA_SIZE''" "size_value sz" "ctrl c", OF name_in]
    by (cases sz) (simp_all add: channel_config_set_transfer_data_size_def put_ctrl_def ctrl_widths)
qed

text \<open>The size has four bits, the assertion allows five: the fifth lands in \<open>RING_SEL\<close>.\<close>

lemma ring_setting:
  "channel_config_set_ring write n c =
     (if n < 16 then Some (put_ctrl ''RING_SEL'' (of_bool write) (put_ctrl ''RING_SIZE'' n c))
      else if n < 32 then Some (put_ctrl ''RING_SEL'' 1 (put_ctrl ''RING_SIZE'' (n - 16) c))
      else None)"
proof -
  have two: "(w AND NOT (ctrl_bits ''RING_SIZE'' OR ctrl_bits ''RING_SEL''))
      OR (push_bit (ctrl_lsb ''RING_SIZE'') v OR push_bit (ctrl_lsb ''RING_SEL'') (of_bool b))
    = put_named DMA_CH0_CTRL_TRIG ''RING_SEL'' (of_bool b) (put_named DMA_CH0_CTRL_TRIG ''RING_SIZE'' v w)"
    if "fits 4 v" for v w b
    by (rule channel_ctrl.replace_named_two [OF name_in _ name_in])
      (use that in \<open>simp_all add: ctrl_widths fits_def\<close>)
  have sel: "(if b then ctrl_bits ''RING_SEL'' else 0) = push_bit (ctrl_lsb ''RING_SEL'') (of_bool b)" for b
    by (simp add: ring_macros)
  consider "n < 16" | "16 \<le> n" "n < 32" | "32 \<le> n" by fastforce
  then show ?thesis
  proof cases
    case 1
    then have "fits 4 n" "n < 32" by (simp_all add: fits_def word_less_nat_alt)
    then show ?thesis using 1 unfolding channel_config_set_ring_def sel two [OF \<open>fits 4 n\<close>] put_ctrl_def
      by simp
  next
    case 2
    define m where "m = n - 16"
    have n: "n = m + 16" by (simp add: m_def)
    have u: "unat m < 2 ^ 4" using 2 by (simp add: m_def unat_sub word_le_nat_alt word_less_nat_alt)
    then have "fits 4 m" by (simp add: fits_def)
    have "n = m OR push_bit 4 1"
    proof -
      have "\<not> (bit m k \<and> bit (push_bit 4 1 :: u32) k)" for k
        unfolding bit_push_bit_iff bit_1_iff using fits_bit [OF \<open>fits 4 m\<close>, of k] by auto
      then have "m AND push_bit 4 1 = 0" by (intro word_bits_eqI) (simp add: bit_and_iff del: push_bit_of_1)
      then have "m + push_bit 4 1 = m OR push_bit 4 1" by (rule disjunctive_add_eq_or)
      then show ?thesis by (simp add: n)
    qed
    then have "push_bit (ctrl_lsb ''RING_SIZE'') n OR (if write then ctrl_bits ''RING_SEL'' else 0)
        = push_bit (ctrl_lsb ''RING_SIZE'') m OR push_bit (ctrl_lsb ''RING_SEL'') (of_bool True)"
      by (auto simp: ring_macros push_bit_or)
    then show ?thesis using 2 unfolding channel_config_set_ring_def
      by (simp only: two [OF \<open>fits 4 m\<close>] put_ctrl_def m_def [symmetric]) (simp add: not_less)
  next
    case 3
    then show ?thesis by (auto simp: channel_config_set_ring_def word_le_nat_alt word_less_nat_alt)
  qed
qed


text \<open>The default: 32-bit unpaced transfers from increasing addresses, enabled, chained to itself.\<close>

lemma default_config:
  assumes "channel \<le> NUM_DMA_CHANNELS"
  shows "dma_channel_get_default_config channel = Some \<lparr>ctrl = 0x1f8019 OR push_bit 11 channel\<rparr>"
proof -
  have "word_of_nat k \<in> {0, 1, 2, 3, 4, 5, 6, 7, 8, 9, 10, 11, 12 :: u32}" if "k \<le> 12" for k :: nat
  proof -
    have "k \<in> {0, 1, 2, 3, 4, 5, 6, 7, 8, 9, 10, 11, 12}"
      using that unfolding insert_iff empty_iff by presburger
    then show ?thesis by (elim insertE emptyE) simp_all
  qed
  from this [of "unat channel"] assms
  have "channel \<in> {0, 1, 2, 3, 4, 5, 6, 7, 8, 9, 10, 11, 12}"
    by (simp add: NUM_DMA_CHANNELS_def word_le_nat_alt)
  then show ?thesis
    by (elim insertE emptyE) (simp_all add: dma_channel_get_default_config_def channel_config_set_dreq_def
        channel_config_set_read_increment_def channel_config_set_write_increment_def
        channel_config_set_chain_to_def channel_config_set_transfer_data_size_def
        channel_config_set_ring_def channel_config_set_bswap_def channel_config_set_irq_quiet_def
        channel_config_set_enable_def channel_config_set_sniff_enable_def NUM_DMA_CHANNELS_def
        DREQ_FORCE_def reg_bits_def reg_lsb_def the_field_def DMA_CH0_CTRL_TRIG_def hw_register_def
        field_def enum_field_def)
qed

lemma default_config_invalid:
  "\<not> channel \<le> NUM_DMA_CHANNELS \<Longrightarrow> dma_channel_get_default_config channel = None"
  by (simp add: dma_channel_get_default_config_def value_settings Let_def DREQ_FORCE_def)

section \<open>Properties\<close>

text \<open>
  Every function that builds a channel's configuration writes exactly the field of the control
  register it is named after, or fails its assertion, with one exception: the assertion on the
  ring size lets values of 16 and more through, and for them the ring is laid around the write
  address whatever the caller asked for, with a size that is 16 less. The default is an enabled
  channel that moves words from increasing addresses, unpaced, chained to the channel it is for.
\<close>

theorem dma_config_writes_fields:
  "channel_config_set_read_increment b c = put_ctrl ''INCR_READ'' (of_bool b) c
   \<and> channel_config_set_write_increment b c = put_ctrl ''INCR_WRITE'' (of_bool b) c
   \<and> channel_config_set_dreq dreq c = (if dreq \<le> DREQ_FORCE then Some (put_ctrl ''TREQ_SEL'' dreq c) else None)
   \<and> channel_config_set_chain_to n c =
       (if n \<le> NUM_DMA_CHANNELS then Some (put_ctrl ''CHAIN_TO'' n c) else None)
   \<and> channel_config_set_transfer_data_size sz c = Some (put_ctrl ''DATA_SIZE'' (size_value sz) c)
   \<and> channel_config_set_ring b m c =
       (if m < 16 then Some (put_ctrl ''RING_SEL'' (of_bool b) (put_ctrl ''RING_SIZE'' m c))
        else if m < 32 then Some (put_ctrl ''RING_SEL'' 1 (put_ctrl ''RING_SIZE'' (m - 16) c))
        else None)
   \<and> channel_config_set_bswap b c = put_ctrl ''BSWAP'' (of_bool b) c
   \<and> channel_config_set_irq_quiet b c = put_ctrl ''IRQ_QUIET'' (of_bool b) c
   \<and> channel_config_set_enable b c = put_ctrl ''EN'' (of_bool b) c
   \<and> channel_config_set_sniff_enable b c = put_ctrl ''SNIFF_EN'' (of_bool b) c
   \<and> dma_channel_get_default_config n =
       (if n \<le> NUM_DMA_CHANNELS then Some \<lparr>ctrl = 0x1f8019 OR push_bit 11 n\<rparr> else None)"
  by (intro conjI flag_settings value_settings ring_setting) (simp add: default_config default_config_invalid)

text \<open>
  Setting up a channel leaves it with the given addresses, count and configuration and the other
  channels alone. It starts the channel exactly once, with all of the new settings in place, if it
  is asked to and the configuration is not 0, and never otherwise.
\<close>

theorem dma_configure_starts_complete:
  "dma_channel_configure channel config w r count trigger d =
     (let new = \<lparr>read_addr = r, write_addr = w, transfer_count = count, ctrl_trig = ctrl config\<rparr>
      in d\<lparr>ch := (ch d)(channel := new),
           starts := starts d @ (if trigger \<and> ctrl config \<noteq> 0 then [Started channel new] else [])\<rparr>)"
  by (cases "ch d channel") (simp add: dma_channel_configure_def dma_channel_set_read_addr_def dma_channel_set_write_addr_def
      dma_channel_set_trans_count_def dma_channel_set_config_def channel_config_get_ctrl_value_def
      upd_channel_def started_def Let_def)

end
