(* ===== verification/Regs_Pwm.thy ===== *)
theory Regs_Pwm
  imports Regs
begin

text \<open>
  The registers of the PWM, hardware/regs/pwm.h, in the order of the header.
\<close>

definition PWM_CH0_CSR :: hw_reg where
  "PWM_CH0_CSR = hw_register 0x00000000 0x000000ff (Some 0x00000000)
    [field ''PH_ADV'' (Some 0x0) 0x00000080 7 7 SC,
     field ''PH_RET'' (Some 0x0) 0x00000040 6 6 SC,
     enum_field ''DIVMODE'' (Some 0x0) 0x00000030 5 4 RW
        [(''DIV'', 0x0), (''LEVEL'', 0x1), (''RISE'', 0x2), (''FALL'', 0x3)],
     field ''B_INV'' (Some 0x0) 0x00000008 3 3 RW,
     field ''A_INV'' (Some 0x0) 0x00000004 2 2 RW,
     field ''PH_CORRECT'' (Some 0x0) 0x00000002 1 1 RW,
     field ''EN'' (Some 0x0) 0x00000001 0 0 RW]"

definition PWM_CH0_DIV :: hw_reg where
  "PWM_CH0_DIV = hw_register 0x00000004 0x00000fff (Some 0x00000010)
    [field ''INT'' (Some 0x01) 0x00000ff0 11 4 RW,
     field ''FRAC'' (Some 0x0) 0x0000000f 3 0 RW]"

definition PWM_CH0_CTR :: hw_reg where
  "PWM_CH0_CTR = hw_register 0x00000008 0x0000ffff (Some 0x00000000)
    [field ''PWM_CH0_CTR'' (Some 0x00000000) 0x0000ffff 15 0 RW]"

definition PWM_CH0_CC :: hw_reg where
  "PWM_CH0_CC = hw_register 0x0000000c 0xffffffff (Some 0x00000000)
    [field ''B'' (Some 0x0000) 0xffff0000 31 16 RW,
     field ''A'' (Some 0x0000) 0x0000ffff 15 0 RW]"

definition PWM_CH0_TOP :: hw_reg where
  "PWM_CH0_TOP = hw_register 0x00000010 0x0000ffff (Some 0x0000ffff)
    [field ''PWM_CH0_TOP'' (Some 0x0000ffff) 0x0000ffff 15 0 RW]"

definition PWM_CH1_CSR :: hw_reg where
  "PWM_CH1_CSR = hw_register 0x00000014 0x000000ff (Some 0x00000000)
    [field ''PH_ADV'' (Some 0x0) 0x00000080 7 7 SC,
     field ''PH_RET'' (Some 0x0) 0x00000040 6 6 SC,
     enum_field ''DIVMODE'' (Some 0x0) 0x00000030 5 4 RW
        [(''DIV'', 0x0), (''LEVEL'', 0x1), (''RISE'', 0x2), (''FALL'', 0x3)],
     field ''B_INV'' (Some 0x0) 0x00000008 3 3 RW,
     field ''A_INV'' (Some 0x0) 0x00000004 2 2 RW,
     field ''PH_CORRECT'' (Some 0x0) 0x00000002 1 1 RW,
     field ''EN'' (Some 0x0) 0x00000001 0 0 RW]"

definition PWM_CH1_DIV :: hw_reg where
  "PWM_CH1_DIV = hw_register 0x00000018 0x00000fff (Some 0x00000010)
    [field ''INT'' (Some 0x01) 0x00000ff0 11 4 RW,
     field ''FRAC'' (Some 0x0) 0x0000000f 3 0 RW]"

definition PWM_CH1_CTR :: hw_reg where
  "PWM_CH1_CTR = hw_register 0x0000001c 0x0000ffff (Some 0x00000000)
    [field ''PWM_CH1_CTR'' (Some 0x00000000) 0x0000ffff 15 0 RW]"

definition PWM_CH1_CC :: hw_reg where
  "PWM_CH1_CC = hw_register 0x00000020 0xffffffff (Some 0x00000000)
    [field ''B'' (Some 0x0000) 0xffff0000 31 16 RW,
     field ''A'' (Some 0x0000) 0x0000ffff 15 0 RW]"

definition PWM_CH1_TOP :: hw_reg where
  "PWM_CH1_TOP = hw_register 0x00000024 0x0000ffff (Some 0x0000ffff)
    [field ''PWM_CH1_TOP'' (Some 0x0000ffff) 0x0000ffff 15 0 RW]"

definition PWM_CH2_CSR :: hw_reg where
  "PWM_CH2_CSR = hw_register 0x00000028 0x000000ff (Some 0x00000000)
    [field ''PH_ADV'' (Some 0x0) 0x00000080 7 7 SC,
     field ''PH_RET'' (Some 0x0) 0x00000040 6 6 SC,
     enum_field ''DIVMODE'' (Some 0x0) 0x00000030 5 4 RW
        [(''DIV'', 0x0), (''LEVEL'', 0x1), (''RISE'', 0x2), (''FALL'', 0x3)],
     field ''B_INV'' (Some 0x0) 0x00000008 3 3 RW,
     field ''A_INV'' (Some 0x0) 0x00000004 2 2 RW,
     field ''PH_CORRECT'' (Some 0x0) 0x00000002 1 1 RW,
     field ''EN'' (Some 0x0) 0x00000001 0 0 RW]"

definition PWM_CH2_DIV :: hw_reg where
  "PWM_CH2_DIV = hw_register 0x0000002c 0x00000fff (Some 0x00000010)
    [field ''INT'' (Some 0x01) 0x00000ff0 11 4 RW,
     field ''FRAC'' (Some 0x0) 0x0000000f 3 0 RW]"

definition PWM_CH2_CTR :: hw_reg where
  "PWM_CH2_CTR = hw_register 0x00000030 0x0000ffff (Some 0x00000000)
    [field ''PWM_CH2_CTR'' (Some 0x00000000) 0x0000ffff 15 0 RW]"

definition PWM_CH2_CC :: hw_reg where
  "PWM_CH2_CC = hw_register 0x00000034 0xffffffff (Some 0x00000000)
    [field ''B'' (Some 0x0000) 0xffff0000 31 16 RW,
     field ''A'' (Some 0x0000) 0x0000ffff 15 0 RW]"

definition PWM_CH2_TOP :: hw_reg where
  "PWM_CH2_TOP = hw_register 0x00000038 0x0000ffff (Some 0x0000ffff)
    [field ''PWM_CH2_TOP'' (Some 0x0000ffff) 0x0000ffff 15 0 RW]"

definition PWM_CH3_CSR :: hw_reg where
  "PWM_CH3_CSR = hw_register 0x0000003c 0x000000ff (Some 0x00000000)
    [field ''PH_ADV'' (Some 0x0) 0x00000080 7 7 SC,
     field ''PH_RET'' (Some 0x0) 0x00000040 6 6 SC,
     enum_field ''DIVMODE'' (Some 0x0) 0x00000030 5 4 RW
        [(''DIV'', 0x0), (''LEVEL'', 0x1), (''RISE'', 0x2), (''FALL'', 0x3)],
     field ''B_INV'' (Some 0x0) 0x00000008 3 3 RW,
     field ''A_INV'' (Some 0x0) 0x00000004 2 2 RW,
     field ''PH_CORRECT'' (Some 0x0) 0x00000002 1 1 RW,
     field ''EN'' (Some 0x0) 0x00000001 0 0 RW]"

definition PWM_CH3_DIV :: hw_reg where
  "PWM_CH3_DIV = hw_register 0x00000040 0x00000fff (Some 0x00000010)
    [field ''INT'' (Some 0x01) 0x00000ff0 11 4 RW,
     field ''FRAC'' (Some 0x0) 0x0000000f 3 0 RW]"

definition PWM_CH3_CTR :: hw_reg where
  "PWM_CH3_CTR = hw_register 0x00000044 0x0000ffff (Some 0x00000000)
    [field ''PWM_CH3_CTR'' (Some 0x00000000) 0x0000ffff 15 0 RW]"

definition PWM_CH3_CC :: hw_reg where
  "PWM_CH3_CC = hw_register 0x00000048 0xffffffff (Some 0x00000000)
    [field ''B'' (Some 0x0000) 0xffff0000 31 16 RW,
     field ''A'' (Some 0x0000) 0x0000ffff 15 0 RW]"

definition PWM_CH3_TOP :: hw_reg where
  "PWM_CH3_TOP = hw_register 0x0000004c 0x0000ffff (Some 0x0000ffff)
    [field ''PWM_CH3_TOP'' (Some 0x0000ffff) 0x0000ffff 15 0 RW]"

definition PWM_CH4_CSR :: hw_reg where
  "PWM_CH4_CSR = hw_register 0x00000050 0x000000ff (Some 0x00000000)
    [field ''PH_ADV'' (Some 0x0) 0x00000080 7 7 SC,
     field ''PH_RET'' (Some 0x0) 0x00000040 6 6 SC,
     enum_field ''DIVMODE'' (Some 0x0) 0x00000030 5 4 RW
        [(''DIV'', 0x0), (''LEVEL'', 0x1), (''RISE'', 0x2), (''FALL'', 0x3)],
     field ''B_INV'' (Some 0x0) 0x00000008 3 3 RW,
     field ''A_INV'' (Some 0x0) 0x00000004 2 2 RW,
     field ''PH_CORRECT'' (Some 0x0) 0x00000002 1 1 RW,
     field ''EN'' (Some 0x0) 0x00000001 0 0 RW]"

definition PWM_CH4_DIV :: hw_reg where
  "PWM_CH4_DIV = hw_register 0x00000054 0x00000fff (Some 0x00000010)
    [field ''INT'' (Some 0x01) 0x00000ff0 11 4 RW,
     field ''FRAC'' (Some 0x0) 0x0000000f 3 0 RW]"

definition PWM_CH4_CTR :: hw_reg where
  "PWM_CH4_CTR = hw_register 0x00000058 0x0000ffff (Some 0x00000000)
    [field ''PWM_CH4_CTR'' (Some 0x00000000) 0x0000ffff 15 0 RW]"

definition PWM_CH4_CC :: hw_reg where
  "PWM_CH4_CC = hw_register 0x0000005c 0xffffffff (Some 0x00000000)
    [field ''B'' (Some 0x0000) 0xffff0000 31 16 RW,
     field ''A'' (Some 0x0000) 0x0000ffff 15 0 RW]"

definition PWM_CH4_TOP :: hw_reg where
  "PWM_CH4_TOP = hw_register 0x00000060 0x0000ffff (Some 0x0000ffff)
    [field ''PWM_CH4_TOP'' (Some 0x0000ffff) 0x0000ffff 15 0 RW]"

definition PWM_CH5_CSR :: hw_reg where
  "PWM_CH5_CSR = hw_register 0x00000064 0x000000ff (Some 0x00000000)
    [field ''PH_ADV'' (Some 0x0) 0x00000080 7 7 SC,
     field ''PH_RET'' (Some 0x0) 0x00000040 6 6 SC,
     enum_field ''DIVMODE'' (Some 0x0) 0x00000030 5 4 RW
        [(''DIV'', 0x0), (''LEVEL'', 0x1), (''RISE'', 0x2), (''FALL'', 0x3)],
     field ''B_INV'' (Some 0x0) 0x00000008 3 3 RW,
     field ''A_INV'' (Some 0x0) 0x00000004 2 2 RW,
     field ''PH_CORRECT'' (Some 0x0) 0x00000002 1 1 RW,
     field ''EN'' (Some 0x0) 0x00000001 0 0 RW]"

definition PWM_CH5_DIV :: hw_reg where
  "PWM_CH5_DIV = hw_register 0x00000068 0x00000fff (Some 0x00000010)
    [field ''INT'' (Some 0x01) 0x00000ff0 11 4 RW,
     field ''FRAC'' (Some 0x0) 0x0000000f 3 0 RW]"

definition PWM_CH5_CTR :: hw_reg where
  "PWM_CH5_CTR = hw_register 0x0000006c 0x0000ffff (Some 0x00000000)
    [field ''PWM_CH5_CTR'' (Some 0x00000000) 0x0000ffff 15 0 RW]"

definition PWM_CH5_CC :: hw_reg where
  "PWM_CH5_CC = hw_register 0x00000070 0xffffffff (Some 0x00000000)
    [field ''B'' (Some 0x0000) 0xffff0000 31 16 RW,
     field ''A'' (Some 0x0000) 0x0000ffff 15 0 RW]"

definition PWM_CH5_TOP :: hw_reg where
  "PWM_CH5_TOP = hw_register 0x00000074 0x0000ffff (Some 0x0000ffff)
    [field ''PWM_CH5_TOP'' (Some 0x0000ffff) 0x0000ffff 15 0 RW]"

definition PWM_CH6_CSR :: hw_reg where
  "PWM_CH6_CSR = hw_register 0x00000078 0x000000ff (Some 0x00000000)
    [field ''PH_ADV'' (Some 0x0) 0x00000080 7 7 SC,
     field ''PH_RET'' (Some 0x0) 0x00000040 6 6 SC,
     enum_field ''DIVMODE'' (Some 0x0) 0x00000030 5 4 RW
        [(''DIV'', 0x0), (''LEVEL'', 0x1), (''RISE'', 0x2), (''FALL'', 0x3)],
     field ''B_INV'' (Some 0x0) 0x00000008 3 3 RW,
     field ''A_INV'' (Some 0x0) 0x00000004 2 2 RW,
     field ''PH_CORRECT'' (Some 0x0) 0x00000002 1 1 RW,
     field ''EN'' (Some 0x0) 0x00000001 0 0 RW]"

definition PWM_CH6_DIV :: hw_reg where
  "PWM_CH6_DIV = hw_register 0x0000007c 0x00000fff (Some 0x00000010)
    [field ''INT'' (Some 0x01) 0x00000ff0 11 4 RW,
     field ''FRAC'' (Some 0x0) 0x0000000f 3 0 RW]"

definition PWM_CH6_CTR :: hw_reg where
  "PWM_CH6_CTR = hw_register 0x00000080 0x0000ffff (Some 0x00000000)
    [field ''PWM_CH6_CTR'' (Some 0x00000000) 0x0000ffff 15 0 RW]"

definition PWM_CH6_CC :: hw_reg where
  "PWM_CH6_CC = hw_register 0x00000084 0xffffffff (Some 0x00000000)
    [field ''B'' (Some 0x0000) 0xffff0000 31 16 RW,
     field ''A'' (Some 0x0000) 0x0000ffff 15 0 RW]"

definition PWM_CH6_TOP :: hw_reg where
  "PWM_CH6_TOP = hw_register 0x00000088 0x0000ffff (Some 0x0000ffff)
    [field ''PWM_CH6_TOP'' (Some 0x0000ffff) 0x0000ffff 15 0 RW]"

definition PWM_CH7_CSR :: hw_reg where
  "PWM_CH7_CSR = hw_register 0x0000008c 0x000000ff (Some 0x00000000)
    [field ''PH_ADV'' (Some 0x0) 0x00000080 7 7 SC,
     field ''PH_RET'' (Some 0x0) 0x00000040 6 6 SC,
     enum_field ''DIVMODE'' (Some 0x0) 0x00000030 5 4 RW
        [(''DIV'', 0x0), (''LEVEL'', 0x1), (''RISE'', 0x2), (''FALL'', 0x3)],
     field ''B_INV'' (Some 0x0) 0x00000008 3 3 RW,
     field ''A_INV'' (Some 0x0) 0x00000004 2 2 RW,
     field ''PH_CORRECT'' (Some 0x0) 0x00000002 1 1 RW,
     field ''EN'' (Some 0x0) 0x00000001 0 0 RW]"

definition PWM_CH7_DIV :: hw_reg where
  "PWM_CH7_DIV = hw_register 0x00000090 0x00000fff (Some 0x00000010)
    [field ''INT'' (Some 0x01) 0x00000ff0 11 4 RW,
     field ''FRAC'' (Some 0x0) 0x0000000f 3 0 RW]"

definition PWM_CH7_CTR :: hw_reg where
  "PWM_CH7_CTR = hw_register 0x00000094 0x0000ffff (Some 0x00000000)
    [field ''PWM_CH7_CTR'' (Some 0x00000000) 0x0000ffff 15 0 RW]"

definition PWM_CH7_CC :: hw_reg where
  "PWM_CH7_CC = hw_register 0x00000098 0xffffffff (Some 0x00000000)
    [field ''B'' (Some 0x0000) 0xffff0000 31 16 RW,
     field ''A'' (Some 0x0000) 0x0000ffff 15 0 RW]"

definition PWM_CH7_TOP :: hw_reg where
  "PWM_CH7_TOP = hw_register 0x0000009c 0x0000ffff (Some 0x0000ffff)
    [field ''PWM_CH7_TOP'' (Some 0x0000ffff) 0x0000ffff 15 0 RW]"

definition PWM_EN :: hw_reg where
  "PWM_EN = hw_register 0x000000a0 0x000000ff (Some 0x00000000)
    [field ''CH7'' (Some 0x0) 0x00000080 7 7 RW,
     field ''CH6'' (Some 0x0) 0x00000040 6 6 RW,
     field ''CH5'' (Some 0x0) 0x00000020 5 5 RW,
     field ''CH4'' (Some 0x0) 0x00000010 4 4 RW,
     field ''CH3'' (Some 0x0) 0x00000008 3 3 RW,
     field ''CH2'' (Some 0x0) 0x00000004 2 2 RW,
     field ''CH1'' (Some 0x0) 0x00000002 1 1 RW,
     field ''CH0'' (Some 0x0) 0x00000001 0 0 RW]"

definition PWM_INTR :: hw_reg where
  "PWM_INTR = hw_register 0x000000a4 0x000000ff (Some 0x00000000)
    [field ''CH7'' (Some 0x0) 0x00000080 7 7 WC,
     field ''CH6'' (Some 0x0) 0x00000040 6 6 WC,
     field ''CH5'' (Some 0x0) 0x00000020 5 5 WC,
     field ''CH4'' (Some 0x0) 0x00000010 4 4 WC,
     field ''CH3'' (Some 0x0) 0x00000008 3 3 WC,
     field ''CH2'' (Some 0x0) 0x00000004 2 2 WC,
     field ''CH1'' (Some 0x0) 0x00000002 1 1 WC,
     field ''CH0'' (Some 0x0) 0x00000001 0 0 WC]"

definition PWM_INTE :: hw_reg where
  "PWM_INTE = hw_register 0x000000a8 0x000000ff (Some 0x00000000)
    [field ''CH7'' (Some 0x0) 0x00000080 7 7 RW,
     field ''CH6'' (Some 0x0) 0x00000040 6 6 RW,
     field ''CH5'' (Some 0x0) 0x00000020 5 5 RW,
     field ''CH4'' (Some 0x0) 0x00000010 4 4 RW,
     field ''CH3'' (Some 0x0) 0x00000008 3 3 RW,
     field ''CH2'' (Some 0x0) 0x00000004 2 2 RW,
     field ''CH1'' (Some 0x0) 0x00000002 1 1 RW,
     field ''CH0'' (Some 0x0) 0x00000001 0 0 RW]"

definition PWM_INTF :: hw_reg where
  "PWM_INTF = hw_register 0x000000ac 0x000000ff (Some 0x00000000)
    [field ''CH7'' (Some 0x0) 0x00000080 7 7 RW,
     field ''CH6'' (Some 0x0) 0x00000040 6 6 RW,
     field ''CH5'' (Some 0x0) 0x00000020 5 5 RW,
     field ''CH4'' (Some 0x0) 0x00000010 4 4 RW,
     field ''CH3'' (Some 0x0) 0x00000008 3 3 RW,
     field ''CH2'' (Some 0x0) 0x00000004 2 2 RW,
     field ''CH1'' (Some 0x0) 0x00000002 1 1 RW,
     field ''CH0'' (Some 0x0) 0x00000001 0 0 RW]"

definition PWM_INTS :: hw_reg where
  "PWM_INTS = hw_register 0x000000b0 0x000000ff (Some 0x00000000)
    [field ''CH7'' (Some 0x0) 0x00000080 7 7 RO,
     field ''CH6'' (Some 0x0) 0x00000040 6 6 RO,
     field ''CH5'' (Some 0x0) 0x00000020 5 5 RO,
     field ''CH4'' (Some 0x0) 0x00000010 4 4 RO,
     field ''CH3'' (Some 0x0) 0x00000008 3 3 RO,
     field ''CH2'' (Some 0x0) 0x00000004 2 2 RO,
     field ''CH1'' (Some 0x0) 0x00000002 1 1 RO,
     field ''CH0'' (Some 0x0) 0x00000001 0 0 RO]"

definition pwm_registers :: "hw_reg list" where
  "pwm_registers = [PWM_CH0_CSR, PWM_CH0_DIV, PWM_CH0_CTR, PWM_CH0_CC, PWM_CH0_TOP, PWM_CH1_CSR, PWM_CH1_DIV,
   PWM_CH1_CTR, PWM_CH1_CC, PWM_CH1_TOP, PWM_CH2_CSR, PWM_CH2_DIV, PWM_CH2_CTR, PWM_CH2_CC,
   PWM_CH2_TOP, PWM_CH3_CSR, PWM_CH3_DIV, PWM_CH3_CTR, PWM_CH3_CC, PWM_CH3_TOP,
   PWM_CH4_CSR, PWM_CH4_DIV, PWM_CH4_CTR, PWM_CH4_CC, PWM_CH4_TOP, PWM_CH5_CSR,
   PWM_CH5_DIV, PWM_CH5_CTR, PWM_CH5_CC, PWM_CH5_TOP, PWM_CH6_CSR, PWM_CH6_DIV,
   PWM_CH6_CTR, PWM_CH6_CC, PWM_CH6_TOP, PWM_CH7_CSR, PWM_CH7_DIV, PWM_CH7_CTR, PWM_CH7_CC,
   PWM_CH7_TOP, PWM_EN, PWM_INTR, PWM_INTE, PWM_INTF, PWM_INTS]"

lemma pwm_ok_1:
  "reg_ok PWM_CH0_CSR"
  "reg_ok PWM_CH0_DIV"
  "reg_ok PWM_CH0_CTR"
  "reg_ok PWM_CH0_CC"
  "reg_ok PWM_CH0_TOP"
  "reg_ok PWM_CH1_CSR"
  by (simp_all add: reg_ok_simps
      PWM_CH0_CSR_def
      PWM_CH0_DIV_def
      PWM_CH0_CTR_def
      PWM_CH0_CC_def
      PWM_CH0_TOP_def
      PWM_CH1_CSR_def)

lemma pwm_ok_2:
  "reg_ok PWM_CH1_DIV"
  "reg_ok PWM_CH1_CTR"
  "reg_ok PWM_CH1_CC"
  "reg_ok PWM_CH1_TOP"
  "reg_ok PWM_CH2_CSR"
  "reg_ok PWM_CH2_DIV"
  by (simp_all add: reg_ok_simps
      PWM_CH1_DIV_def
      PWM_CH1_CTR_def
      PWM_CH1_CC_def
      PWM_CH1_TOP_def
      PWM_CH2_CSR_def
      PWM_CH2_DIV_def)

lemma pwm_ok_3:
  "reg_ok PWM_CH2_CTR"
  "reg_ok PWM_CH2_CC"
  "reg_ok PWM_CH2_TOP"
  "reg_ok PWM_CH3_CSR"
  "reg_ok PWM_CH3_DIV"
  "reg_ok PWM_CH3_CTR"
  by (simp_all add: reg_ok_simps
      PWM_CH2_CTR_def
      PWM_CH2_CC_def
      PWM_CH2_TOP_def
      PWM_CH3_CSR_def
      PWM_CH3_DIV_def
      PWM_CH3_CTR_def)

lemma pwm_ok_4:
  "reg_ok PWM_CH3_CC"
  "reg_ok PWM_CH3_TOP"
  "reg_ok PWM_CH4_CSR"
  "reg_ok PWM_CH4_DIV"
  "reg_ok PWM_CH4_CTR"
  "reg_ok PWM_CH4_CC"
  by (simp_all add: reg_ok_simps
      PWM_CH3_CC_def
      PWM_CH3_TOP_def
      PWM_CH4_CSR_def
      PWM_CH4_DIV_def
      PWM_CH4_CTR_def
      PWM_CH4_CC_def)

lemma pwm_ok_5:
  "reg_ok PWM_CH4_TOP"
  "reg_ok PWM_CH5_CSR"
  "reg_ok PWM_CH5_DIV"
  "reg_ok PWM_CH5_CTR"
  "reg_ok PWM_CH5_CC"
  "reg_ok PWM_CH5_TOP"
  by (simp_all add: reg_ok_simps
      PWM_CH4_TOP_def
      PWM_CH5_CSR_def
      PWM_CH5_DIV_def
      PWM_CH5_CTR_def
      PWM_CH5_CC_def
      PWM_CH5_TOP_def)

lemma pwm_ok_6:
  "reg_ok PWM_CH6_CSR"
  "reg_ok PWM_CH6_DIV"
  "reg_ok PWM_CH6_CTR"
  "reg_ok PWM_CH6_CC"
  "reg_ok PWM_CH6_TOP"
  "reg_ok PWM_CH7_CSR"
  by (simp_all add: reg_ok_simps
      PWM_CH6_CSR_def
      PWM_CH6_DIV_def
      PWM_CH6_CTR_def
      PWM_CH6_CC_def
      PWM_CH6_TOP_def
      PWM_CH7_CSR_def)

lemma pwm_ok_7:
  "reg_ok PWM_CH7_DIV"
  "reg_ok PWM_CH7_CTR"
  "reg_ok PWM_CH7_CC"
  "reg_ok PWM_CH7_TOP"
  "reg_ok PWM_EN"
  "reg_ok PWM_INTR"
  by (simp_all add: reg_ok_simps
      PWM_CH7_DIV_def
      PWM_CH7_CTR_def
      PWM_CH7_CC_def
      PWM_CH7_TOP_def
      PWM_EN_def
      PWM_INTR_def)

lemma pwm_ok_8:
  "reg_ok PWM_INTE"
  "reg_ok PWM_INTF"
  "reg_ok PWM_INTS"
  by (simp_all add: reg_ok_simps
      PWM_INTE_def
      PWM_INTF_def
      PWM_INTS_def)

lemma pwm_registers_ok: "list_all reg_ok pwm_registers"
  by (simp add: pwm_registers_def pwm_ok_1 pwm_ok_2 pwm_ok_3 pwm_ok_4 pwm_ok_5 pwm_ok_6 pwm_ok_7 pwm_ok_8)

lemma pwm_offsets: "map r_offset pwm_registers =
  [0x00000000, 0x00000004, 0x00000008, 0x0000000c, 0x00000010, 0x00000014, 0x00000018,
   0x0000001c, 0x00000020, 0x00000024, 0x00000028, 0x0000002c, 0x00000030, 0x00000034,
   0x00000038, 0x0000003c, 0x00000040, 0x00000044, 0x00000048, 0x0000004c, 0x00000050,
   0x00000054, 0x00000058, 0x0000005c, 0x00000060, 0x00000064, 0x00000068, 0x0000006c,
   0x00000070, 0x00000074, 0x00000078, 0x0000007c, 0x00000080, 0x00000084, 0x00000088,
   0x0000008c, 0x00000090, 0x00000094, 0x00000098, 0x0000009c, 0x000000a0, 0x000000a4,
   0x000000a8, 0x000000ac, 0x000000b0]"
  by (simp add: pwm_registers_def hw_register_def
      PWM_CH0_CSR_def PWM_CH0_DIV_def PWM_CH0_CTR_def PWM_CH0_CC_def PWM_CH0_TOP_def
   PWM_CH1_CSR_def PWM_CH1_DIV_def PWM_CH1_CTR_def PWM_CH1_CC_def PWM_CH1_TOP_def
   PWM_CH2_CSR_def PWM_CH2_DIV_def PWM_CH2_CTR_def PWM_CH2_CC_def PWM_CH2_TOP_def
   PWM_CH3_CSR_def PWM_CH3_DIV_def PWM_CH3_CTR_def PWM_CH3_CC_def PWM_CH3_TOP_def
   PWM_CH4_CSR_def PWM_CH4_DIV_def PWM_CH4_CTR_def PWM_CH4_CC_def PWM_CH4_TOP_def
   PWM_CH5_CSR_def PWM_CH5_DIV_def PWM_CH5_CTR_def PWM_CH5_CC_def PWM_CH5_TOP_def
   PWM_CH6_CSR_def PWM_CH6_DIV_def PWM_CH6_CTR_def PWM_CH6_CC_def PWM_CH6_TOP_def
   PWM_CH7_CSR_def PWM_CH7_DIV_def PWM_CH7_CTR_def PWM_CH7_CC_def PWM_CH7_TOP_def
   PWM_EN_def PWM_INTR_def PWM_INTE_def PWM_INTF_def PWM_INTS_def)

end
