(* ===== verification/Regs_Adc.thy ===== *)
theory Regs_Adc
  imports Regs
begin

text \<open>
  The registers of the ADC, hardware/regs/adc.h, in the order of the header.
\<close>

definition ADC_CS :: hw_reg where
  "ADC_CS = hw_register 0x00000000 0x001f770f (Some 0x00000000)
    [field ''RROBIN'' (Some 0x00) 0x001f0000 20 16 RW,
     field ''AINSEL'' (Some 0x0) 0x00007000 14 12 RW,
     field ''ERR_STICKY'' (Some 0x0) 0x00000400 10 10 WC,
     field ''ERR'' (Some 0x0) 0x00000200 9 9 RO,
     field ''READY'' (Some 0x0) 0x00000100 8 8 RO,
     field ''START_MANY'' (Some 0x0) 0x00000008 3 3 RW,
     field ''START_ONCE'' (Some 0x0) 0x00000004 2 2 SC,
     field ''TS_EN'' (Some 0x0) 0x00000002 1 1 RW,
     field ''EN'' (Some 0x0) 0x00000001 0 0 RW]"

definition ADC_RESULT :: hw_reg where
  "ADC_RESULT = hw_register 0x00000004 0x00000fff (Some 0x00000000)
    [field ''ADC_RESULT'' (Some 0x00000000) 0x00000fff 11 0 RO]"

definition ADC_FCS :: hw_reg where
  "ADC_FCS = hw_register 0x00000008 0x0f0f0f0f (Some 0x00000000)
    [field ''THRESH'' (Some 0x0) 0x0f000000 27 24 RW,
     field ''LEVEL'' (Some 0x0) 0x000f0000 19 16 RO,
     field ''OVER'' (Some 0x0) 0x00000800 11 11 WC,
     field ''UNDER'' (Some 0x0) 0x00000400 10 10 WC,
     field ''FULL'' (Some 0x0) 0x00000200 9 9 RO,
     field ''EMPTY'' (Some 0x0) 0x00000100 8 8 RO,
     field ''DREQ_EN'' (Some 0x0) 0x00000008 3 3 RW,
     field ''ERR'' (Some 0x0) 0x00000004 2 2 RW,
     field ''SHIFT'' (Some 0x0) 0x00000002 1 1 RW,
     field ''EN'' (Some 0x0) 0x00000001 0 0 RW]"

definition ADC_FIFO :: hw_reg where
  "ADC_FIFO = hw_register 0x0000000c 0x00008fff (Some 0x00000000)
    [field ''ERR'' None 0x00008000 15 15 RF,
     field ''VAL'' None 0x00000fff 11 0 RF]"

definition ADC_DIV :: hw_reg where
  "ADC_DIV = hw_register 0x00000010 0x00ffffff (Some 0x00000000)
    [field ''INT'' (Some 0x0000) 0x00ffff00 23 8 RW,
     field ''FRAC'' (Some 0x00) 0x000000ff 7 0 RW]"

definition ADC_INTR :: hw_reg where
  "ADC_INTR = hw_register 0x00000014 0x00000001 (Some 0x00000000)
    [field ''FIFO'' (Some 0x0) 0x00000001 0 0 RO]"

definition ADC_INTE :: hw_reg where
  "ADC_INTE = hw_register 0x00000018 0x00000001 (Some 0x00000000)
    [field ''FIFO'' (Some 0x0) 0x00000001 0 0 RW]"

definition ADC_INTF :: hw_reg where
  "ADC_INTF = hw_register 0x0000001c 0x00000001 (Some 0x00000000)
    [field ''FIFO'' (Some 0x0) 0x00000001 0 0 RW]"

definition ADC_INTS :: hw_reg where
  "ADC_INTS = hw_register 0x00000020 0x00000001 (Some 0x00000000)
    [field ''FIFO'' (Some 0x0) 0x00000001 0 0 RO]"

definition adc_registers :: "hw_reg list" where
  "adc_registers = [ADC_CS, ADC_RESULT, ADC_FCS, ADC_FIFO, ADC_DIV, ADC_INTR, ADC_INTE, ADC_INTF, ADC_INTS]"

lemma adc_ok_1:
  "reg_ok ADC_CS"
  "reg_ok ADC_RESULT"
  "reg_ok ADC_FCS"
  "reg_ok ADC_FIFO"
  "reg_ok ADC_DIV"
  "reg_ok ADC_INTR"
  by (simp_all add: reg_ok_simps
      ADC_CS_def
      ADC_RESULT_def
      ADC_FCS_def
      ADC_FIFO_def
      ADC_DIV_def
      ADC_INTR_def)

lemma adc_ok_2:
  "reg_ok ADC_INTE"
  "reg_ok ADC_INTF"
  "reg_ok ADC_INTS"
  by (simp_all add: reg_ok_simps
      ADC_INTE_def
      ADC_INTF_def
      ADC_INTS_def)

lemma adc_registers_ok: "list_all reg_ok adc_registers"
  by (simp add: adc_registers_def adc_ok_1 adc_ok_2)

lemma adc_offsets: "map r_offset adc_registers =
  [0x00000000, 0x00000004, 0x00000008, 0x0000000c, 0x00000010, 0x00000014, 0x00000018,
   0x0000001c, 0x00000020]"
  by (simp add: adc_registers_def hw_register_def
      ADC_CS_def ADC_RESULT_def ADC_FCS_def ADC_FIFO_def ADC_DIV_def ADC_INTR_def ADC_INTE_def
   ADC_INTF_def ADC_INTS_def)

end
