(* ===== verification/Regs_Uart.thy ===== *)
theory Regs_Uart
  imports Regs
begin

text \<open>
  The registers of the UART, hardware/regs/uart.h, in the order of the header.
\<close>

definition UART_UARTDR :: hw_reg where
  "UART_UARTDR = hw_register 0x00000000 0x00000fff (Some 0x00000000)
    [field ''OE'' None 0x00000800 11 11 RO,
     field ''BE'' None 0x00000400 10 10 RO,
     field ''PE'' None 0x00000200 9 9 RO,
     field ''FE'' None 0x00000100 8 8 RO,
     field ''DATA'' None 0x000000ff 7 0 RWF]"

definition UART_UARTRSR :: hw_reg where
  "UART_UARTRSR = hw_register 0x00000004 0x0000000f (Some 0x00000000)
    [field ''OE'' (Some 0x0) 0x00000008 3 3 WC,
     field ''BE'' (Some 0x0) 0x00000004 2 2 WC,
     field ''PE'' (Some 0x0) 0x00000002 1 1 WC,
     field ''FE'' (Some 0x0) 0x00000001 0 0 WC]"

definition UART_UARTFR :: hw_reg where
  "UART_UARTFR = hw_register 0x00000018 0x000001ff (Some 0x00000090)
    [field ''RI'' None 0x00000100 8 8 RO,
     field ''TXFE'' (Some 0x1) 0x00000080 7 7 RO,
     field ''RXFF'' (Some 0x0) 0x00000040 6 6 RO,
     field ''TXFF'' (Some 0x0) 0x00000020 5 5 RO,
     field ''RXFE'' (Some 0x1) 0x00000010 4 4 RO,
     field ''BUSY'' (Some 0x0) 0x00000008 3 3 RO,
     field ''DCD'' None 0x00000004 2 2 RO,
     field ''DSR'' None 0x00000002 1 1 RO,
     field ''CTS'' None 0x00000001 0 0 RO]"

definition UART_UARTILPR :: hw_reg where
  "UART_UARTILPR = hw_register 0x00000020 0x000000ff (Some 0x00000000)
    [field ''ILPDVSR'' (Some 0x00) 0x000000ff 7 0 RW]"

definition UART_UARTIBRD :: hw_reg where
  "UART_UARTIBRD = hw_register 0x00000024 0x0000ffff (Some 0x00000000)
    [field ''BAUD_DIVINT'' (Some 0x0000) 0x0000ffff 15 0 RW]"

definition UART_UARTFBRD :: hw_reg where
  "UART_UARTFBRD = hw_register 0x00000028 0x0000003f (Some 0x00000000)
    [field ''BAUD_DIVFRAC'' (Some 0x00) 0x0000003f 5 0 RW]"

definition UART_UARTLCR_H :: hw_reg where
  "UART_UARTLCR_H = hw_register 0x0000002c 0x000000ff (Some 0x00000000)
    [field ''SPS'' (Some 0x0) 0x00000080 7 7 RW,
     field ''WLEN'' (Some 0x0) 0x00000060 6 5 RW,
     field ''FEN'' (Some 0x0) 0x00000010 4 4 RW,
     field ''STP2'' (Some 0x0) 0x00000008 3 3 RW,
     field ''EPS'' (Some 0x0) 0x00000004 2 2 RW,
     field ''PEN'' (Some 0x0) 0x00000002 1 1 RW,
     field ''BRK'' (Some 0x0) 0x00000001 0 0 RW]"

definition UART_UARTCR :: hw_reg where
  "UART_UARTCR = hw_register 0x00000030 0x0000ff87 (Some 0x00000300)
    [field ''CTSEN'' (Some 0x0) 0x00008000 15 15 RW,
     field ''RTSEN'' (Some 0x0) 0x00004000 14 14 RW,
     field ''OUT2'' (Some 0x0) 0x00002000 13 13 RW,
     field ''OUT1'' (Some 0x0) 0x00001000 12 12 RW,
     field ''RTS'' (Some 0x0) 0x00000800 11 11 RW,
     field ''DTR'' (Some 0x0) 0x00000400 10 10 RW,
     field ''RXE'' (Some 0x1) 0x00000200 9 9 RW,
     field ''TXE'' (Some 0x1) 0x00000100 8 8 RW,
     field ''LBE'' (Some 0x0) 0x00000080 7 7 RW,
     field ''SIRLP'' (Some 0x0) 0x00000004 2 2 RW,
     field ''SIREN'' (Some 0x0) 0x00000002 1 1 RW,
     field ''UARTEN'' (Some 0x0) 0x00000001 0 0 RW]"

definition UART_UARTIFLS :: hw_reg where
  "UART_UARTIFLS = hw_register 0x00000034 0x0000003f (Some 0x00000012)
    [field ''RXIFLSEL'' (Some 0x2) 0x00000038 5 3 RW,
     field ''TXIFLSEL'' (Some 0x2) 0x00000007 2 0 RW]"

definition UART_UARTIMSC :: hw_reg where
  "UART_UARTIMSC = hw_register 0x00000038 0x000007ff (Some 0x00000000)
    [field ''OEIM'' (Some 0x0) 0x00000400 10 10 RW,
     field ''BEIM'' (Some 0x0) 0x00000200 9 9 RW,
     field ''PEIM'' (Some 0x0) 0x00000100 8 8 RW,
     field ''FEIM'' (Some 0x0) 0x00000080 7 7 RW,
     field ''RTIM'' (Some 0x0) 0x00000040 6 6 RW,
     field ''TXIM'' (Some 0x0) 0x00000020 5 5 RW,
     field ''RXIM'' (Some 0x0) 0x00000010 4 4 RW,
     field ''DSRMIM'' (Some 0x0) 0x00000008 3 3 RW,
     field ''DCDMIM'' (Some 0x0) 0x00000004 2 2 RW,
     field ''CTSMIM'' (Some 0x0) 0x00000002 1 1 RW,
     field ''RIMIM'' (Some 0x0) 0x00000001 0 0 RW]"

definition UART_UARTRIS :: hw_reg where
  "UART_UARTRIS = hw_register 0x0000003c 0x000007ff (Some 0x00000000)
    [field ''OERIS'' (Some 0x0) 0x00000400 10 10 RO,
     field ''BERIS'' (Some 0x0) 0x00000200 9 9 RO,
     field ''PERIS'' (Some 0x0) 0x00000100 8 8 RO,
     field ''FERIS'' (Some 0x0) 0x00000080 7 7 RO,
     field ''RTRIS'' (Some 0x0) 0x00000040 6 6 RO,
     field ''TXRIS'' (Some 0x0) 0x00000020 5 5 RO,
     field ''RXRIS'' (Some 0x0) 0x00000010 4 4 RO,
     field ''DSRRMIS'' None 0x00000008 3 3 RO,
     field ''DCDRMIS'' None 0x00000004 2 2 RO,
     field ''CTSRMIS'' None 0x00000002 1 1 RO,
     field ''RIRMIS'' None 0x00000001 0 0 RO]"

definition UART_UARTMIS :: hw_reg where
  "UART_UARTMIS = hw_register 0x00000040 0x000007ff (Some 0x00000000)
    [field ''OEMIS'' (Some 0x0) 0x00000400 10 10 RO,
     field ''BEMIS'' (Some 0x0) 0x00000200 9 9 RO,
     field ''PEMIS'' (Some 0x0) 0x00000100 8 8 RO,
     field ''FEMIS'' (Some 0x0) 0x00000080 7 7 RO,
     field ''RTMIS'' (Some 0x0) 0x00000040 6 6 RO,
     field ''TXMIS'' (Some 0x0) 0x00000020 5 5 RO,
     field ''RXMIS'' (Some 0x0) 0x00000010 4 4 RO,
     field ''DSRMMIS'' None 0x00000008 3 3 RO,
     field ''DCDMMIS'' None 0x00000004 2 2 RO,
     field ''CTSMMIS'' None 0x00000002 1 1 RO,
     field ''RIMMIS'' None 0x00000001 0 0 RO]"

definition UART_UARTICR :: hw_reg where
  "UART_UARTICR = hw_register 0x00000044 0x000007ff (Some 0x00000000)
    [field ''OEIC'' None 0x00000400 10 10 WC,
     field ''BEIC'' None 0x00000200 9 9 WC,
     field ''PEIC'' None 0x00000100 8 8 WC,
     field ''FEIC'' None 0x00000080 7 7 WC,
     field ''RTIC'' None 0x00000040 6 6 WC,
     field ''TXIC'' None 0x00000020 5 5 WC,
     field ''RXIC'' None 0x00000010 4 4 WC,
     field ''DSRMIC'' None 0x00000008 3 3 WC,
     field ''DCDMIC'' None 0x00000004 2 2 WC,
     field ''CTSMIC'' None 0x00000002 1 1 WC,
     field ''RIMIC'' None 0x00000001 0 0 WC]"

definition UART_UARTDMACR :: hw_reg where
  "UART_UARTDMACR = hw_register 0x00000048 0x00000007 (Some 0x00000000)
    [field ''DMAONERR'' (Some 0x0) 0x00000004 2 2 RW,
     field ''TXDMAE'' (Some 0x0) 0x00000002 1 1 RW,
     field ''RXDMAE'' (Some 0x0) 0x00000001 0 0 RW]"

definition UART_UARTPERIPHID0 :: hw_reg where
  "UART_UARTPERIPHID0 = hw_register 0x00000fe0 0x000000ff (Some 0x00000011)
    [field ''PARTNUMBER0'' (Some 0x11) 0x000000ff 7 0 RO]"

definition UART_UARTPERIPHID1 :: hw_reg where
  "UART_UARTPERIPHID1 = hw_register 0x00000fe4 0x000000ff (Some 0x00000010)
    [field ''DESIGNER0'' (Some 0x1) 0x000000f0 7 4 RO,
     field ''PARTNUMBER1'' (Some 0x0) 0x0000000f 3 0 RO]"

definition UART_UARTPERIPHID2 :: hw_reg where
  "UART_UARTPERIPHID2 = hw_register 0x00000fe8 0x000000ff (Some 0x00000034)
    [field ''REVISION'' (Some 0x3) 0x000000f0 7 4 RO,
     field ''DESIGNER1'' (Some 0x4) 0x0000000f 3 0 RO]"

definition UART_UARTPERIPHID3 :: hw_reg where
  "UART_UARTPERIPHID3 = hw_register 0x00000fec 0x000000ff (Some 0x00000000)
    [field ''CONFIGURATION'' (Some 0x00) 0x000000ff 7 0 RO]"

definition UART_UARTPCELLID0 :: hw_reg where
  "UART_UARTPCELLID0 = hw_register 0x00000ff0 0x000000ff (Some 0x0000000d)
    [field ''UARTPCELLID0'' (Some 0x0d) 0x000000ff 7 0 RO]"

definition UART_UARTPCELLID1 :: hw_reg where
  "UART_UARTPCELLID1 = hw_register 0x00000ff4 0x000000ff (Some 0x000000f0)
    [field ''UARTPCELLID1'' (Some 0xf0) 0x000000ff 7 0 RO]"

definition UART_UARTPCELLID2 :: hw_reg where
  "UART_UARTPCELLID2 = hw_register 0x00000ff8 0x000000ff (Some 0x00000005)
    [field ''UARTPCELLID2'' (Some 0x05) 0x000000ff 7 0 RO]"

definition UART_UARTPCELLID3 :: hw_reg where
  "UART_UARTPCELLID3 = hw_register 0x00000ffc 0x000000ff (Some 0x000000b1)
    [field ''UARTPCELLID3'' (Some 0xb1) 0x000000ff 7 0 RO]"

definition uart_registers :: "hw_reg list" where
  "uart_registers = [UART_UARTDR, UART_UARTRSR, UART_UARTFR, UART_UARTILPR, UART_UARTIBRD, UART_UARTFBRD,
   UART_UARTLCR_H, UART_UARTCR, UART_UARTIFLS, UART_UARTIMSC, UART_UARTRIS, UART_UARTMIS,
   UART_UARTICR, UART_UARTDMACR, UART_UARTPERIPHID0, UART_UARTPERIPHID1,
   UART_UARTPERIPHID2, UART_UARTPERIPHID3, UART_UARTPCELLID0, UART_UARTPCELLID1,
   UART_UARTPCELLID2, UART_UARTPCELLID3]"

lemma uart_ok_1:
  "reg_ok UART_UARTDR"
  "reg_ok UART_UARTRSR"
  "reg_ok UART_UARTFR"
  "reg_ok UART_UARTILPR"
  "reg_ok UART_UARTIBRD"
  "reg_ok UART_UARTFBRD"
  by (simp_all add: reg_ok_simps
      UART_UARTDR_def
      UART_UARTRSR_def
      UART_UARTFR_def
      UART_UARTILPR_def
      UART_UARTIBRD_def
      UART_UARTFBRD_def)

lemma uart_ok_2:
  "reg_ok UART_UARTLCR_H"
  "reg_ok UART_UARTCR"
  "reg_ok UART_UARTIFLS"
  "reg_ok UART_UARTIMSC"
  "reg_ok UART_UARTRIS"
  "reg_ok UART_UARTMIS"
  by (simp_all add: reg_ok_simps
      UART_UARTLCR_H_def
      UART_UARTCR_def
      UART_UARTIFLS_def
      UART_UARTIMSC_def
      UART_UARTRIS_def
      UART_UARTMIS_def)

lemma uart_ok_3:
  "reg_ok UART_UARTICR"
  "reg_ok UART_UARTDMACR"
  "reg_ok UART_UARTPERIPHID0"
  "reg_ok UART_UARTPERIPHID1"
  "reg_ok UART_UARTPERIPHID2"
  "reg_ok UART_UARTPERIPHID3"
  by (simp_all add: reg_ok_simps
      UART_UARTICR_def
      UART_UARTDMACR_def
      UART_UARTPERIPHID0_def
      UART_UARTPERIPHID1_def
      UART_UARTPERIPHID2_def
      UART_UARTPERIPHID3_def)

lemma uart_ok_4:
  "reg_ok UART_UARTPCELLID0"
  "reg_ok UART_UARTPCELLID1"
  "reg_ok UART_UARTPCELLID2"
  "reg_ok UART_UARTPCELLID3"
  by (simp_all add: reg_ok_simps
      UART_UARTPCELLID0_def
      UART_UARTPCELLID1_def
      UART_UARTPCELLID2_def
      UART_UARTPCELLID3_def)

lemma uart_registers_ok: "list_all reg_ok uart_registers"
  by (simp add: uart_registers_def uart_ok_1 uart_ok_2 uart_ok_3 uart_ok_4)

lemma uart_offsets: "map r_offset uart_registers =
  [0x00000000, 0x00000004, 0x00000018, 0x00000020, 0x00000024, 0x00000028, 0x0000002c,
   0x00000030, 0x00000034, 0x00000038, 0x0000003c, 0x00000040, 0x00000044, 0x00000048,
   0x00000fe0, 0x00000fe4, 0x00000fe8, 0x00000fec, 0x00000ff0, 0x00000ff4, 0x00000ff8,
   0x00000ffc]"
  by (simp add: uart_registers_def hw_register_def
      UART_UARTDR_def UART_UARTRSR_def UART_UARTFR_def UART_UARTILPR_def UART_UARTIBRD_def
   UART_UARTFBRD_def UART_UARTLCR_H_def UART_UARTCR_def UART_UARTIFLS_def UART_UARTIMSC_def
   UART_UARTRIS_def UART_UARTMIS_def UART_UARTICR_def UART_UARTDMACR_def
   UART_UARTPERIPHID0_def UART_UARTPERIPHID1_def UART_UARTPERIPHID2_def
   UART_UARTPERIPHID3_def UART_UARTPCELLID0_def UART_UARTPCELLID1_def UART_UARTPCELLID2_def
   UART_UARTPCELLID3_def)

end
