(* ===== verification/Hw_Waits.thy ===== *)
theory Hw_Waits
  imports Pio Dma Adc Uart Pico_Time Regs_Pwm Regs_Adc Regs_Uart
begin

text \<open>
  The inline functions of the SDK that wait for a peripheral in a loop, from hardware/adc.h, pwm.h,
  uart.h, pio.h, dma.h and i2c.h. What a register shows is an argument, one value for each volatile
  read; waiting for ever is \<open>None\<close>.
\<close>

type_synonym reg_reads = "nat \<Rightarrow> u32"

text \<open>The value that ended a wait, the one of the last read.\<close>

definition last_value :: "reg_reads \<Rightarrow> mcu \<Rightarrow> u32" where
  "last_value reg s = reg (reads s - 1)"

section \<open>ADC\<close>

definition adc_fifo_is_empty :: "reg_reads \<Rightarrow> mcu \<Rightarrow> bool \<times> mcu" where
  "adc_fifo_is_empty fcs s = (fcs (reads s) AND ADC_FCS_EMPTY_BITS \<noteq> 0, tick s)"

definition adc_fifo_get_level :: "reg_reads \<Rightarrow> mcu \<Rightarrow> u8 \<times> mcu" where
  "adc_fifo_get_level fcs s = (ucast (drop_bit 16 (fcs (reads s) AND ADC_FCS_LEVEL_BITS)), tick s)"

definition adc_fifo_get :: "reg_reads \<Rightarrow> mcu \<Rightarrow> u16 \<times> mcu" where
  "adc_fifo_get fifo s = (ucast (fifo (reads s)), tick s)"

definition adc_fifo_get_blocking :: "reg_reads \<Rightarrow> reg_reads \<Rightarrow> mcu \<Rightarrow> (u16 \<times> mcu) option" where
  "adc_fifo_get_blocking fcs fifo s =
     map_option (adc_fifo_get fifo) (poll_until (\<lambda>n. \<not> fcs n AND ADC_FCS_EMPTY_BITS \<noteq> 0) s)"

partial_function (option) drain_loop :: "reg_reads \<Rightarrow> reg_reads \<Rightarrow> mcu \<Rightarrow> mcu option" where
  "drain_loop fcs fifo s =
     (let (empty, s) = adc_fifo_is_empty fcs s
      in if empty then Some s else drain_loop fcs fifo (snd (adc_fifo_get fifo s)))"

definition adc_fifo_drain :: "reg_reads \<Rightarrow> reg_reads \<Rightarrow> reg_reads \<Rightarrow> mcu \<Rightarrow> mcu option" where
  "adc_fifo_drain cs fcs fifo s =
     Option.bind (poll_until (\<lambda>n. cs n AND reg_bits ADC_CS ''READY'' \<noteq> 0) s) (drain_loop fcs fifo)"

section \<open>PWM and UART\<close>

text \<open>The phase bits of a slice clear themselves when the counter has moved.\<close>

definition pwm_advance_count :: "reg_reads \<Rightarrow> u32 \<Rightarrow> mcu \<Rightarrow> mcu option" where
  "pwm_advance_count csr_reads slice_num s =
     (let s = upd_slice slice_num (\<lambda>r. r\<lparr>csr := hw_set_bits (csr r) (reg_bits PWM_CH0_CSR ''PH_ADV'')\<rparr>) s
      in map_option (\<lambda>s. upd_slice slice_num (\<lambda>r. r\<lparr>csr := last_value csr_reads s\<rparr>) s)
           (poll_until (\<lambda>n. csr_reads n AND reg_bits PWM_CH0_CSR ''PH_ADV'' = 0) s))"

definition pwm_retard_count :: "reg_reads \<Rightarrow> u32 \<Rightarrow> mcu \<Rightarrow> mcu option" where
  "pwm_retard_count csr_reads slice_num s =
     (let s = upd_slice slice_num (\<lambda>r. r\<lparr>csr := hw_set_bits (csr r) (reg_bits PWM_CH0_CSR ''PH_RET'')\<rparr>) s
      in map_option (\<lambda>s. upd_slice slice_num (\<lambda>r. r\<lparr>csr := last_value csr_reads s\<rparr>) s)
           (poll_until (\<lambda>n. csr_reads n AND reg_bits PWM_CH0_CSR ''PH_RET'' = 0) s))"

definition uart_tx_wait_blocking :: "(uart_inst \<Rightarrow> reg_reads) \<Rightarrow> uart_inst \<Rightarrow> mcu \<Rightarrow> mcu option" where
  "uart_tx_wait_blocking fr uart = poll_until (\<lambda>n. fr uart n AND reg_bits UART_UARTFR ''BUSY'' = 0)"

section \<open>PIO and DMA\<close>

definition pio_sm_exec_wait_blocking :: "reg_reads \<Rightarrow> u32 \<Rightarrow> u32 \<Rightarrow> pio_hw \<Rightarrow> mcu \<Rightarrow> (pio_hw \<times> mcu) option" where
  "pio_sm_exec_wait_blocking execctrl_reads n instr p s =
     (let p = pio_sm_exec n instr p; seen = (\<lambda>v. upd_sm n (\<lambda>m. m\<lparr>sm_execctrl := v\<rparr>) p)
      in map_option (\<lambda>s. (seen (last_value execctrl_reads s), s))
           (poll_until (\<lambda>k. \<not> pio_sm_is_exec_stalled n (seen (execctrl_reads k))) s))"

definition pio_sm_put_blocking :: "reg_reads \<Rightarrow> u32 \<Rightarrow> u32 \<Rightarrow> pio_hw \<Rightarrow> mcu \<Rightarrow> (pio_hw \<times> mcu) option" where
  "pio_sm_put_blocking fstat_reads n data p s =
     (let seen = (\<lambda>v. p\<lparr>fstat := v\<rparr>)
      in map_option (\<lambda>s. (pio_sm_put n data (seen (last_value fstat_reads s)), s))
           (poll_until (\<lambda>k. \<not> pio_sm_is_tx_fifo_full n (seen (fstat_reads k))) s))"

definition pio_sm_get_blocking ::
  "reg_reads \<Rightarrow> (u32 \<Rightarrow> reg_reads) \<Rightarrow> u32 \<Rightarrow> pio_hw \<Rightarrow> mcu \<Rightarrow> (u32 \<times> mcu) option" where
  "pio_sm_get_blocking fstat_reads rxf_reads n p s =
     map_option (\<lambda>s. (pio_sm_get n (p\<lparr>rxf := \<lambda>n. rxf_reads n (reads s)\<rparr>), tick s))
       (poll_until (\<lambda>k. \<not> pio_sm_is_rx_fifo_empty n (p\<lparr>fstat := fstat_reads k\<rparr>)) s)"

text \<open>The abort bit of a channel goes to 0 once the transfers in flight have retired.\<close>

definition dma_channel_abort :: "reg_reads \<Rightarrow> u32 \<Rightarrow> dma_hw \<Rightarrow> mcu \<Rightarrow> (dma_hw \<times> mcu) option" where
  "dma_channel_abort abort_reads channel d s =
     (let d = d\<lparr>chan_abort := push_bit (unat channel) 1\<rparr>
      in map_option (\<lambda>s. (d\<lparr>chan_abort := last_value abort_reads s\<rparr>, s))
           (poll_until (\<lambda>k. abort_reads k AND push_bit (unat channel) 1 = 0) s))"

definition dma_channel_wait_for_finish_blocking :: "reg_reads \<Rightarrow> u32 \<Rightarrow> dma_hw \<Rightarrow> mcu \<Rightarrow> (dma_hw \<times> mcu) option" where
  "dma_channel_wait_for_finish_blocking ctrl_reads channel d s =
     (let seen = (\<lambda>v. upd_channel channel (\<lambda>c. c\<lparr>ctrl_trig := v\<rparr>) d)
      in map_option (\<lambda>s. (seen (last_value ctrl_reads s), s))
           (poll_until (\<lambda>k. \<not> dma_channel_is_busy channel (seen (ctrl_reads k))) s))"

section \<open>I2C\<close>

text \<open>
  The raw transfers through the FIFOs. Writing gives the words written to \<open>data_cmd\<close>; reading stops
  at a stop condition once the FIFO is empty, and gives the bytes.
\<close>

definition IC_TX_BUFFER_DEPTH :: u32 where "IC_TX_BUFFER_DEPTH = 16"

definition i2c_get_write_available :: "reg_reads \<Rightarrow> mcu \<Rightarrow> u32 \<times> mcu" where
  "i2c_get_write_available txflr s = (IC_TX_BUFFER_DEPTH - txflr (reads s), tick s)"

definition i2c_get_read_available :: "reg_reads \<Rightarrow> mcu \<Rightarrow> u32 \<times> mcu" where
  "i2c_get_read_available rxflr s = (rxflr (reads s), tick s)"

fun i2c_write_raw_blocking :: "reg_reads \<Rightarrow> u8 list \<Rightarrow> mcu \<Rightarrow> (u32 list \<times> mcu) option" where
  "i2c_write_raw_blocking txflr [] s = Some ([], s)"
| "i2c_write_raw_blocking txflr (b # bs) s =
     Option.bind (poll_until (\<lambda>n. \<not> IC_TX_BUFFER_DEPTH - txflr n = 0) s)
       (\<lambda>s. map_option (\<lambda>(ws, s). (ucast b # ws, s)) (i2c_write_raw_blocking txflr bs s))"

record i2c_reads =
  rxflr :: reg_reads
  data_cmd :: reg_reads
  raw_intr_stat :: reg_reads
  clr_stop_det :: reg_reads

fun i2c_read_raw_blocking :: "i2c_reads \<Rightarrow> nat \<Rightarrow> mcu \<Rightarrow> (u8 list \<times> mcu) option" where
  "i2c_read_raw_blocking i2c 0 s = Some ([], s)"
| "i2c_read_raw_blocking i2c (Suc len) s =
     Option.bind (poll_until (\<lambda>n. \<not> rxflr i2c n = 0) s)
       (\<lambda>s. let dst = ucast (data_cmd i2c (reads s)); s = tick s;
                stop = drop_bit 9 (raw_intr_stat i2c (reads s) AND 0x00000200); s = tick s;
                (available, s) = (if stop \<noteq> 0 then i2c_get_read_available (rxflr i2c) s else (1, s))
            in if stop \<noteq> 0 \<and> available = 0
               then let clear_stop = clr_stop_det i2c (reads s); s = tick s
                    in Some ([dst], printf (''clear_stop reg: %d'' @ NL) [Int_arg (sint clear_stop)] s)
               else map_option (\<lambda>(ds, s). (dst # ds, s)) (i2c_read_raw_blocking i2c len s))"

text \<open>
  The transfers with a timeout hand their deadline to functions of i2c.c, which is not under src/;
  they are parameters. The instances differ in their number and their request lines.
\<close>

datatype i2c_inst = I2c0 | I2c1

definition DREQ_I2C0_TX :: u32 where "DREQ_I2C0_TX = 0x20"

definition i2c_hw_index :: "i2c_inst \<Rightarrow> u32" where
  "i2c_hw_index i2c = (if i2c = I2c1 then 1 else 0)"

definition i2c_get_dreq :: "i2c_inst \<Rightarrow> bool \<Rightarrow> u32" where
  "i2c_get_dreq i2c is_tx = DREQ_I2C0_TX + i2c_hw_index i2c * 2 + bool_to_bit (\<not> is_tx)"

definition i2c_write_timeout_us ::
  "board \<Rightarrow> (i2c_inst \<Rightarrow> u8 \<Rightarrow> u8 list \<Rightarrow> bool \<Rightarrow> absolute_time_t \<Rightarrow> mcu \<Rightarrow> int \<times> mcu)
    \<Rightarrow> i2c_inst \<Rightarrow> u8 \<Rightarrow> u8 list \<Rightarrow> bool \<Rightarrow> u32 \<Rightarrow> mcu \<Rightarrow> int \<times> mcu" where
  "i2c_write_timeout_us B i2c_write_blocking_until i2c addr src nostop timeout_us s =
     (let (t, s) = make_timeout_time_us B (ucast timeout_us) s
      in i2c_write_blocking_until i2c addr src nostop t s)"

definition i2c_read_timeout_us ::
  "board \<Rightarrow> (i2c_inst \<Rightarrow> u8 \<Rightarrow> nat \<Rightarrow> bool \<Rightarrow> absolute_time_t \<Rightarrow> mcu \<Rightarrow> (int \<times> u8 list) \<times> mcu)
    \<Rightarrow> i2c_inst \<Rightarrow> u8 \<Rightarrow> nat \<Rightarrow> bool \<Rightarrow> u32 \<Rightarrow> mcu \<Rightarrow> (int \<times> u8 list) \<times> mcu" where
  "i2c_read_timeout_us B i2c_read_blocking_until i2c addr len nostop timeout_us s =
     (let (t, s) = make_timeout_time_us B (ucast timeout_us) s
      in i2c_read_blocking_until i2c addr len nostop t s)"

text \<open>The request lines of the four directions are four in a row.\<close>

lemma i2c_request_lines:
  "map (\<lambda>(i, tx). i2c_get_dreq i tx) [(I2c0, True), (I2c0, False), (I2c1, True), (I2c1, False)] = [0x20, 0x21, 0x22, 0x23]"
  by (simp add: i2c_get_dreq_def i2c_hw_index_def DREQ_I2C0_TX_def bool_to_bit_def)

section \<open>Waiting\<close>

text \<open>The first read at which a register is ready, if there is one.\<close>

definition ready_at :: "(nat \<Rightarrow> bool) \<Rightarrow> nat \<Rightarrow> nat" where
  "ready_at ready i = (LEAST n. i \<le> n \<and> ready n)"

definition ever_ready :: "(nat \<Rightarrow> bool) \<Rightarrow> nat \<Rightarrow> bool" where
  "ever_ready ready i \<longleftrightarrow> (\<exists>n \<ge> i. ready n)"

lemma ready_at_first: "ever_ready ready i \<Longrightarrow> first_ready ready i (ready_at ready i)"
proof -
  assume "ever_ready ready i"
  then obtain k where k: "i \<le> k" "ready k" by (auto simp: ever_ready_def)
  have "i \<le> ready_at ready i \<and> ready (ready_at ready i)"
    unfolding ready_at_def using k by (intro LeastI [of "\<lambda>n. i \<le> n \<and> ready n" k]) simp
  moreover have "\<not> ready m" if "i \<le> m" "m < ready_at ready i" for m
    using not_less_Least [of m "\<lambda>n. i \<le> n \<and> ready n"] that by (auto simp: ready_at_def)
  ultimately show ?thesis by (simp add: first_ready_def)
qed

lemma poll_returns_ready:
  assumes "poll_until ready s = Some t"
  shows "ever_ready ready (reads s)"
proof (rule poll_until.raw_induct [where P = "\<lambda>ready s t. ever_ready ready (reads s)", OF _ assms])
  fix poll and ready s t
  assume IH: "\<And>ready s t. poll ready s = Some t \<Longrightarrow> ever_ready ready (reads s)"
    and body: "(if ready (reads s) then Some (tick s) else poll ready (tick s)) = Some t"
  show "ever_ready ready (reads s)"
  proof (cases "ready (reads s)")
    case False
    with body have "poll ready (tick s) = Some t" by simp
    from IH [OF this] show ?thesis by (auto simp: ever_ready_def tick_def dest: Suc_leD)
  qed (auto simp: ever_ready_def)
qed

text \<open>A wait ends exactly when the register is ready at some read, with the first such read.\<close>

lemma poll_until_eq:
  "poll_until ready s
    = (if ever_ready ready (reads s) then Some (s\<lparr>reads := Suc (ready_at ready (reads s))\<rparr>) else None)"
  using poll_until_first [OF ready_at_first] poll_returns_ready [of ready s]
  by (cases "poll_until ready s") auto

section \<open>Waiting for a bit to go to 0\<close>

text \<open>The specification: the first read from now on that shows the bit as 0, or never.\<close>

definition wait_clear :: "reg_reads \<Rightarrow> nat \<Rightarrow> mcu \<Rightarrow> mcu option" where
  "wait_clear reg k s =
     (let clear = (\<lambda>n. \<not> bit (reg n) k)
      in if ever_ready clear (reads s) then Some (s\<lparr>reads := Suc (ready_at clear (reads s))\<rparr>) else None)"

lemma poll_clear: "poll_until (\<lambda>n. \<not> bit (reg n) k) s = wait_clear reg k s"
  by (simp add: poll_until_eq wait_clear_def Let_def)

lemma single_bit:
  fixes v :: u32
  assumes "k < 32"
  shows "v AND push_bit k 1 = 0 \<longleftrightarrow> \<not> bit v k"
  by (simp add: and_exp_eq_0_iff_not_bit push_bit_eq_mult)

lemma flag_bits:
  "reg_bits PWM_CH0_CSR ''PH_ADV'' = push_bit 7 1" "reg_bits PWM_CH0_CSR ''PH_RET'' = push_bit 6 1"
  "reg_bits UART_UARTFR ''BUSY'' = push_bit 3 1" "reg_bits PIO_SM0_EXECCTRL ''EXEC_STALLED'' = push_bit 31 1"
  "reg_bits DMA_CH0_CTRL_TRIG ''BUSY'' = push_bit 24 1" "ADC_FCS_EMPTY_BITS = push_bit 8 1"
  "reg_bits ADC_CS ''READY'' = push_bit 8 1"
  by code_simp+

lemma fifo_positions:
  "reg_lsb PIO_FSTAT ''TXFULL'' = 16" "reg_lsb PIO_FSTAT ''RXEMPTY'' = 8"
  by code_simp+

lemma last_clear: "wait_clear reg k s = Some t \<Longrightarrow> \<not> bit (last_value reg t) k"
  using ready_at_first [of "\<lambda>n. \<not> bit (reg n) k" "reads s"]
  by (auto simp: wait_clear_def last_value_def first_ready_def Let_def split: if_splits)

text \<open>A drain of \<open>k\<close> results: the FIFO shows them before the reads of its status, and then nothing.\<close>

lemma drain_results:
  assumes "\<And>j. j < k \<Longrightarrow> \<not> bit (fcs (reads s + 2 * j)) 8" and "bit (fcs (reads s + 2 * k)) 8"
  shows "drain_loop fcs fifo s = Some (s\<lparr>reads := reads s + 2 * k + 1\<rparr>)"
  using assms
proof (induction k arbitrary: s)
  case 0
  then show ?case
    by (subst drain_loop.simps)
      (simp add: adc_fifo_is_empty_def flag_bits single_bit tick_def del: push_bit_of_1)
next
  case (Suc k)
  let ?s = "tick (tick s)"
  have "\<not> bit (fcs (reads ?s + 2 * j)) 8" if "j < k" for j
    using Suc.prems(1) [of "Suc j"] that by (simp add: tick_def)
  moreover have "bit (fcs (reads ?s + 2 * k)) 8" using Suc.prems(2) by (simp add: tick_def)
  ultimately have "drain_loop fcs fifo ?s = Some (?s\<lparr>reads := reads ?s + 2 * k + 1\<rparr>)" by (rule Suc.IH)
  moreover have "\<not> bit (fcs (reads s)) 8" using Suc.prems(1) [of 0] by simp
  then have "drain_loop fcs fifo s = drain_loop fcs fifo ?s"
    by (subst drain_loop.simps)
      (simp add: adc_fifo_is_empty_def adc_fifo_get_def flag_bits single_bit del: push_bit_of_1)
  ultimately show ?case by (simp add: tick_def)
qed

text \<open>The end of a transfer: a stop condition at the read \<open>k\<close> of the interrupt status and an empty FIFO after it.\<close>

definition stopped_at :: "i2c_reads \<Rightarrow> nat \<Rightarrow> bool" where
  "stopped_at i2c k \<longleftrightarrow> bit (raw_intr_stat i2c k) 9 \<and> rxflr i2c (Suc k) = 0"

lemma stop_bit: "drop_bit 9 v AND 1 = (0 :: u32) \<longleftrightarrow> \<not> bit v 9"
  by (simp add: and_one_eq even_iff_mod_2_eq_zero bit_iff_odd_drop_bit)

lemma poll_later: "poll_until ready s = Some t \<Longrightarrow> reads s < reads t"
  using ready_at_first [of ready "reads s"]
  by (auto simp: poll_until_eq first_ready_def split: if_splits)

lemma i2c_read_Suc:
  assumes "poll_until (\<lambda>n. \<not> rxflr i2c n = 0) s = Some u"
  shows "i2c_read_raw_blocking i2c (Suc len) s =
    (let dst = ucast (data_cmd i2c (reads u)); k = Suc (reads u) in
     if stopped_at i2c k
     then Some ([dst], printf (''clear_stop reg: %d'' @ NL) [Int_arg (sint (clr_stop_det i2c (k + 2)))]
       (u\<lparr>reads := Suc (Suc (Suc k))\<rparr>))
     else map_option (\<lambda>(ds, s). (dst # ds, s)) (i2c_read_raw_blocking i2c len
       (u\<lparr>reads := (if bit (raw_intr_stat i2c k) 9 then k + 2 else k + 1)\<rparr>)))"
  using assms
  by (simp add: stop_bit stopped_at_def i2c_get_read_available_def tick_def Let_def)

lemma i2c_read_facts:
  assumes "i2c_read_raw_blocking i2c len s = Some (ds, t)"
  shows "length ds \<le> len \<and> (0 < len \<longrightarrow> ds \<noteq> [])
    \<and> (length ds < len \<longrightarrow> (\<exists>k. reads s < k \<and> stopped_at i2c k \<and> reads t = k + 3 \<and> ds \<noteq> []
         \<and> last ds = ucast (data_cmd i2c (k - 1))))"
  using assms
proof (induction len arbitrary: s ds)
  case (Suc len)
  then obtain u where u: "poll_until (\<lambda>n. \<not> rxflr i2c n = 0) s = Some u" by (auto simp: bind_eq_Some_conv)
  have later: "reads s < reads u"
    by (rule poll_later [OF u])
  let ?k = "Suc (reads u)" and ?d = "ucast (data_cmd i2c (reads u)) :: u8"
  show ?case
  proof (cases "stopped_at i2c ?k")
    case True
    with Suc.prems i2c_read_Suc [OF u, of len] later show ?thesis
      by (auto simp: Let_def emit_def simp del: i2c_read_raw_blocking.simps intro!: exI [of _ ?k])
  next
    case False
    let ?u = "u\<lparr>reads := (if bit (raw_intr_stat i2c ?k) 9 then ?k + 2 else ?k + 1)\<rparr>"
    from Suc.prems i2c_read_Suc [OF u, of len] False obtain es where
      es: "i2c_read_raw_blocking i2c len ?u = Some (es, t)" "ds = ?d # es"
      by (auto simp: Let_def simp del: i2c_read_raw_blocking.simps)
    have "reads s < reads ?u" using later by simp
    with Suc.IH [OF es(1)] es(2) show ?thesis by (auto dest: less_trans)
  qed
qed simp

lemma i2c_read_returns:
  assumes "\<forall>i. \<exists>n \<ge> i. rxflr i2c n \<noteq> 0"
  shows "\<exists>ds t. i2c_read_raw_blocking i2c len s = Some (ds, t)"
proof (induction len arbitrary: s)
  case (Suc len)
  have "ever_ready (\<lambda>n. \<not> rxflr i2c n = 0) (reads s)" using assms by (auto simp: ever_ready_def)
  then obtain u where u: "poll_until (\<lambda>n. \<not> rxflr i2c n = 0) s = Some u" by (simp add: poll_until_eq)
  let ?k = "Suc (reads u)"
  obtain es t where "i2c_read_raw_blocking i2c len
      (u\<lparr>reads := (if bit (raw_intr_stat i2c ?k) 9 then ?k + 2 else ?k + 1)\<rparr>) = Some (es, t)" using Suc by blast
  then show ?case unfolding i2c_read_Suc [OF u] Let_def by (cases "stopped_at i2c ?k") auto
qed simp

lemma i2c_write_facts:
  assumes "i2c_write_raw_blocking txflr src s = Some (ws, t)"
  shows "ws = map ucast src \<and> reads s + length src \<le> reads t"
  using assms
proof (induction src arbitrary: s ws)
  case (Cons b bs)
  then obtain u vs where u: "poll_until (\<lambda>n. \<not> IC_TX_BUFFER_DEPTH - txflr n = 0) s = Some u"
    "i2c_write_raw_blocking txflr bs u = Some (vs, t)" "ws = ucast b # vs" by (auto simp: bind_eq_Some_conv)
  with Cons.IH [OF u(2)] poll_later [OF u(1)] show ?case by simp
qed simp

section \<open>Properties\<close>

text \<open>
  C22: the waiting functions wait for the right bit. Each of them is the wait for the first read
  that shows one bit of one register as 0, and returns exactly if there is such a read: the busy bit
  of the UART and of a DMA channel, the phase bits of a PWM slice, the stall bit and the FIFO flags
  of the state machine it was called for, the abort bit of the channel and the empty flag of the
  ADC's FIFO. Only then are words written to and taken from the FIFOs.
\<close>

theorem waits_for_the_bit:
  assumes "n < NUM_PIO_STATE_MACHINES" and "channel < NUM_DMA_CHANNELS"
  shows "uart_tx_wait_blocking fr uart s = wait_clear (fr uart) 3 s
    \<and> map_option reads (pwm_advance_count csrs slice_num s) = map_option reads (wait_clear csrs 7 s)
    \<and> map_option reads (pwm_retard_count csrs slice_num s) = map_option reads (wait_clear csrs 6 s)
    \<and> adc_fifo_get_blocking fcs fifo s = map_option (\<lambda>t. (ucast (fifo (reads t)), tick t)) (wait_clear fcs 8 s)
    \<and> map_option snd (pio_sm_exec_wait_blocking execs n instr p s) = wait_clear execs 31 s
    \<and> pio_sm_put_blocking fstats n data p s = map_option (\<lambda>t.
        (p\<lparr>fstat := last_value fstats t, tx_writes := tx_writes p @ [(n, data)]\<rparr>, t)) (wait_clear fstats (16 + unat n) s)
    \<and> pio_sm_get_blocking fstats rxfs n p s = map_option (\<lambda>t. (rxfs n (reads t), tick t))
        (wait_clear fstats (8 + unat n) s)
    \<and> map_option snd (dma_channel_abort aborts channel d s) = wait_clear aborts (unat channel) s
    \<and> map_option snd (dma_channel_wait_for_finish_blocking ctrls channel d s) = wait_clear ctrls 24 s"
proof -
  have n: "unat n < 4" "unat channel < 12"
    using assms by (simp_all add: NUM_PIO_STATE_MACHINES_def NUM_DMA_CHANNELS_def word_less_nat_alt)
  note simps = poll_clear [symmetric] flag_bits fifo_positions single_bit option.map_comp comp_def
    NUM_PIO_STATE_MACHINES_def
  have "uart_tx_wait_blocking fr uart s = wait_clear (fr uart) 3 s"
    by (simp add: uart_tx_wait_blocking_def simps del: push_bit_of_1)
  moreover have "map_option reads (pwm_advance_count csrs slice_num s) = map_option reads (wait_clear csrs 7 s)"
    "map_option reads (pwm_retard_count csrs slice_num s) = map_option reads (wait_clear csrs 6 s)"
    by (simp_all add: pwm_advance_count_def pwm_retard_count_def simps upd_slice_def Let_def poll_until_eq
        del: push_bit_of_1)
  moreover have "adc_fifo_get_blocking fcs fifo s
      = map_option (\<lambda>t. (ucast (fifo (reads t)), tick t)) (wait_clear fcs 8 s)"
    by (simp add: adc_fifo_get_blocking_def simps del: push_bit_of_1)
       (simp add: adc_fifo_get_def [abs_def])
  moreover have "map_option snd (pio_sm_exec_wait_blocking execs n instr p s) = wait_clear execs 31 s"
    by (simp add: pio_sm_exec_wait_blocking_def pio_sm_is_exec_stalled_def simps upd_sm_def Let_def
        option.map_ident del: push_bit_of_1)
  moreover have "pio_sm_put_blocking fstats n data p s = map_option (\<lambda>t.
      (p\<lparr>fstat := last_value fstats t, tx_writes := tx_writes p @ [(n, data)]\<rparr>, t)) (wait_clear fstats (16 + unat n) s)"
    using n(1) by (simp add: pio_sm_put_blocking_def pio_sm_is_tx_fifo_full_def pio_sm_put_def simps Let_def
        del: push_bit_of_1)
  moreover have "pio_sm_get_blocking fstats rxfs n p s
      = map_option (\<lambda>t. (rxfs n (reads t), tick t)) (wait_clear fstats (8 + unat n) s)"
    using n(1) by (simp add: pio_sm_get_blocking_def pio_sm_is_rx_fifo_empty_def pio_sm_get_def simps
        del: push_bit_of_1)
  moreover have "map_option snd (dma_channel_abort aborts channel d s) = wait_clear aborts (unat channel) s"
    using n(2) by (simp add: dma_channel_abort_def simps Let_def option.map_ident del: push_bit_of_1)
  moreover have "map_option snd (dma_channel_wait_for_finish_blocking ctrls channel d s) = wait_clear ctrls 24 s"
    by (simp add: dma_channel_wait_for_finish_blocking_def dma_channel_is_busy_def upd_channel_def simps Let_def
        option.map_ident del: push_bit_of_1)
  ultimately show ?thesis by blast
qed

definition idle_pio :: pio_hw where
  "idle_pio = \<lparr>pio_ctrl = 0, fstat = 0, flevel = 0, pio_irq = 0, pio_inte0 = 0, pio_inte1 = 0, rxf = \<lambda>_. 0,
     sm = \<lambda>_. \<lparr>sm_clkdiv = 0, sm_execctrl = 0, sm_shiftctrl = 0, sm_addr = 0, sm_instr = 0, sm_pinctrl = 0\<rparr>,
     ctrl_writes = [], tx_writes = []\<rparr>"

theorem waits_for_the_bit_witness:
  "pio_sm_get_blocking (\<lambda>k. 0) (\<lambda>_ k. of_nat k + 7) 1 idle_pio reset_mcu = Some (8, tick (tick reset_mcu))"
proof -
  have "wait_clear (\<lambda>k. 0) 9 reset_mcu = Some (tick reset_mcu)"
    by (simp add: poll_clear [symmetric] poll_until_cong)
  with waits_for_the_bit [of 1 0, where rxfs = "\<lambda>_ k. of_nat k + 7" and fstats = "\<lambda>k. 0" and p = idle_pio
      and s = reset_mcu]
  show ?thesis by (simp add: NUM_PIO_STATE_MACHINES_def NUM_DMA_CHANNELS_def tick_def reset_mcu_def)
qed

text \<open>
  C23: a raw read on the I2C bus. If the FIFO is never empty for good, the read returns; it takes at
  least one byte and at most the number asked for, and fewer only when a stop condition was seen
  and the FIFO was empty right after, whose last byte is then the last one taken before.
\<close>

theorem i2c_raw_read:
  assumes "\<forall>i. \<exists>n \<ge> i. rxflr i2c n \<noteq> 0" and "0 < len"
  shows "\<exists>ds t. i2c_read_raw_blocking i2c len s = Some (ds, t) \<and> 0 < length ds \<and> length ds \<le> len
    \<and> (length ds < len \<longrightarrow> (\<exists>k. reads s < k \<and> bit (raw_intr_stat i2c k) 9 \<and> rxflr i2c (Suc k) = 0
         \<and> reads t = k + 3 \<and> last ds = ucast (data_cmd i2c (k - 1))))"
proof -
  obtain ds t where r: "i2c_read_raw_blocking i2c len s = Some (ds, t)"
    using i2c_read_returns [OF assms(1)] by blast
  from i2c_read_facts [OF r] assms(2) r show ?thesis by (auto simp: stopped_at_def)
qed

theorem i2c_raw_read_witness:
  "\<exists>ds t. i2c_read_raw_blocking \<lparr>rxflr = \<lambda>_. 1, data_cmd = of_nat, raw_intr_stat = \<lambda>_. 0, clr_stop_det = \<lambda>_. 0\<rparr>
      3 reset_mcu = Some (ds, t) \<and> length ds = 3"
proof -
  let ?i = "\<lparr>rxflr = \<lambda>_. 1, data_cmd = of_nat, raw_intr_stat = \<lambda>_. 0, clr_stop_det = \<lambda>_. 0\<rparr> :: i2c_reads"
  have "\<forall>i. \<exists>n \<ge> i. rxflr ?i n \<noteq> 0" by auto
  from i2c_raw_read [OF this, of 3 reset_mcu] show ?thesis
    by (auto simp del: i2c_read_raw_blocking.simps)
qed

end
