(* ===== verification/Regs_Resets.thy ===== *)
theory Regs_Resets
  imports Regs
begin

text \<open>
  The registers of the reset controller, hardware/regs/resets.h, in the order of the header.
\<close>

definition RESETS_RESET :: hw_reg where
  "RESETS_RESET = hw_register 0x00000000 0x01ffffff (Some 0x01ffffff)
    [field ''USBCTRL'' (Some 0x1) 0x01000000 24 24 RW,
     field ''UART1'' (Some 0x1) 0x00800000 23 23 RW,
     field ''UART0'' (Some 0x1) 0x00400000 22 22 RW,
     field ''TIMER'' (Some 0x1) 0x00200000 21 21 RW,
     field ''TBMAN'' (Some 0x1) 0x00100000 20 20 RW,
     field ''SYSINFO'' (Some 0x1) 0x00080000 19 19 RW,
     field ''SYSCFG'' (Some 0x1) 0x00040000 18 18 RW,
     field ''SPI1'' (Some 0x1) 0x00020000 17 17 RW,
     field ''SPI0'' (Some 0x1) 0x00010000 16 16 RW,
     field ''RTC'' (Some 0x1) 0x00008000 15 15 RW,
     field ''PWM'' (Some 0x1) 0x00004000 14 14 RW,
     field ''PLL_USB'' (Some 0x1) 0x00002000 13 13 RW,
     field ''PLL_SYS'' (Some 0x1) 0x00001000 12 12 RW,
     field ''PIO1'' (Some 0x1) 0x00000800 11 11 RW,
     field ''PIO0'' (Some 0x1) 0x00000400 10 10 RW,
     field ''PADS_QSPI'' (Some 0x1) 0x00000200 9 9 RW,
     field ''PADS_BANK0'' (Some 0x1) 0x00000100 8 8 RW,
     field ''JTAG'' (Some 0x1) 0x00000080 7 7 RW,
     field ''IO_QSPI'' (Some 0x1) 0x00000040 6 6 RW,
     field ''IO_BANK0'' (Some 0x1) 0x00000020 5 5 RW,
     field ''I2C1'' (Some 0x1) 0x00000010 4 4 RW,
     field ''I2C0'' (Some 0x1) 0x00000008 3 3 RW,
     field ''DMA'' (Some 0x1) 0x00000004 2 2 RW,
     field ''BUSCTRL'' (Some 0x1) 0x00000002 1 1 RW,
     field ''ADC'' (Some 0x1) 0x00000001 0 0 RW]"

definition RESETS_WDSEL :: hw_reg where
  "RESETS_WDSEL = hw_register 0x00000004 0x01ffffff (Some 0x00000000)
    [field ''USBCTRL'' (Some 0x0) 0x01000000 24 24 RW,
     field ''UART1'' (Some 0x0) 0x00800000 23 23 RW,
     field ''UART0'' (Some 0x0) 0x00400000 22 22 RW,
     field ''TIMER'' (Some 0x0) 0x00200000 21 21 RW,
     field ''TBMAN'' (Some 0x0) 0x00100000 20 20 RW,
     field ''SYSINFO'' (Some 0x0) 0x00080000 19 19 RW,
     field ''SYSCFG'' (Some 0x0) 0x00040000 18 18 RW,
     field ''SPI1'' (Some 0x0) 0x00020000 17 17 RW,
     field ''SPI0'' (Some 0x0) 0x00010000 16 16 RW,
     field ''RTC'' (Some 0x0) 0x00008000 15 15 RW,
     field ''PWM'' (Some 0x0) 0x00004000 14 14 RW,
     field ''PLL_USB'' (Some 0x0) 0x00002000 13 13 RW,
     field ''PLL_SYS'' (Some 0x0) 0x00001000 12 12 RW,
     field ''PIO1'' (Some 0x0) 0x00000800 11 11 RW,
     field ''PIO0'' (Some 0x0) 0x00000400 10 10 RW,
     field ''PADS_QSPI'' (Some 0x0) 0x00000200 9 9 RW,
     field ''PADS_BANK0'' (Some 0x0) 0x00000100 8 8 RW,
     field ''JTAG'' (Some 0x0) 0x00000080 7 7 RW,
     field ''IO_QSPI'' (Some 0x0) 0x00000040 6 6 RW,
     field ''IO_BANK0'' (Some 0x0) 0x00000020 5 5 RW,
     field ''I2C1'' (Some 0x0) 0x00000010 4 4 RW,
     field ''I2C0'' (Some 0x0) 0x00000008 3 3 RW,
     field ''DMA'' (Some 0x0) 0x00000004 2 2 RW,
     field ''BUSCTRL'' (Some 0x0) 0x00000002 1 1 RW,
     field ''ADC'' (Some 0x0) 0x00000001 0 0 RW]"

definition RESETS_RESET_DONE :: hw_reg where
  "RESETS_RESET_DONE = hw_register 0x00000008 0x01ffffff (Some 0x00000000)
    [field ''USBCTRL'' (Some 0x0) 0x01000000 24 24 RO,
     field ''UART1'' (Some 0x0) 0x00800000 23 23 RO,
     field ''UART0'' (Some 0x0) 0x00400000 22 22 RO,
     field ''TIMER'' (Some 0x0) 0x00200000 21 21 RO,
     field ''TBMAN'' (Some 0x0) 0x00100000 20 20 RO,
     field ''SYSINFO'' (Some 0x0) 0x00080000 19 19 RO,
     field ''SYSCFG'' (Some 0x0) 0x00040000 18 18 RO,
     field ''SPI1'' (Some 0x0) 0x00020000 17 17 RO,
     field ''SPI0'' (Some 0x0) 0x00010000 16 16 RO,
     field ''RTC'' (Some 0x0) 0x00008000 15 15 RO,
     field ''PWM'' (Some 0x0) 0x00004000 14 14 RO,
     field ''PLL_USB'' (Some 0x0) 0x00002000 13 13 RO,
     field ''PLL_SYS'' (Some 0x0) 0x00001000 12 12 RO,
     field ''PIO1'' (Some 0x0) 0x00000800 11 11 RO,
     field ''PIO0'' (Some 0x0) 0x00000400 10 10 RO,
     field ''PADS_QSPI'' (Some 0x0) 0x00000200 9 9 RO,
     field ''PADS_BANK0'' (Some 0x0) 0x00000100 8 8 RO,
     field ''JTAG'' (Some 0x0) 0x00000080 7 7 RO,
     field ''IO_QSPI'' (Some 0x0) 0x00000040 6 6 RO,
     field ''IO_BANK0'' (Some 0x0) 0x00000020 5 5 RO,
     field ''I2C1'' (Some 0x0) 0x00000010 4 4 RO,
     field ''I2C0'' (Some 0x0) 0x00000008 3 3 RO,
     field ''DMA'' (Some 0x0) 0x00000004 2 2 RO,
     field ''BUSCTRL'' (Some 0x0) 0x00000002 1 1 RO,
     field ''ADC'' (Some 0x0) 0x00000001 0 0 RO]"

definition resets_registers :: "hw_reg list" where
  "resets_registers = [RESETS_RESET, RESETS_WDSEL, RESETS_RESET_DONE]"

lemma resets_ok_1:
  "reg_ok RESETS_RESET"
  "reg_ok RESETS_WDSEL"
  "reg_ok RESETS_RESET_DONE"
  by (simp_all add: reg_ok_simps
      RESETS_RESET_def
      RESETS_WDSEL_def
      RESETS_RESET_DONE_def)

lemma resets_registers_ok: "list_all reg_ok resets_registers"
  by (simp add: resets_registers_def resets_ok_1)

lemma resets_offsets: "map r_offset resets_registers =
  [0x00000000, 0x00000004, 0x00000008]"
  by (simp add: resets_registers_def hw_register_def
      RESETS_RESET_def RESETS_WDSEL_def RESETS_RESET_DONE_def)

end
