(* ===== verification/Resets.thy ===== *)
theory Resets
  imports Regs_Resets Hw_Waits
begin

text \<open>
  The reset controller, the inline functions of hardware/resets.h. The register \<open>reset\<close> is the state;
  a read of \<open>reset_done\<close> shows the value it has for that read.
\<close>

section \<open>The functions\<close>

definition reset_block :: "u32 \<Rightarrow> u32 \<Rightarrow> u32" where
  "reset_block bits reset = hw_set_bits reset bits"

definition unreset_block :: "u32 \<Rightarrow> u32 \<Rightarrow> u32" where
  "unreset_block bits reset = hw_clear_bits reset bits"

definition unreset_block_wait :: "reg_reads \<Rightarrow> u32 \<Rightarrow> u32 \<times> mcu \<Rightarrow> (u32 \<times> mcu) option" where
  "unreset_block_wait reset_done bits = (\<lambda>(reset, s).
     let reset = hw_clear_bits reset bits
     in map_option (\<lambda>s. (reset, s)) (poll_until (\<lambda>n. NOT (reset_done n) AND bits = 0) s))"

section \<open>The wait\<close>

lemma all_done: "NOT (v :: u32) AND b = 0 \<longleftrightarrow> v AND b = b"
proof -
  have "NOT v AND b = 0 \<longleftrightarrow> (\<forall>k < 32. bit b k \<longrightarrow> bit v k)" for v b :: u32
    by (auto simp: bit_eq_iff bit_and_iff bit_not_iff)
  moreover have "v AND b = b \<longleftrightarrow> (\<forall>k < 32. bit b k \<longrightarrow> bit v k)" for v b :: u32
    by (auto simp: bit_eq_iff bit_and_iff dest: bit_imp_le_length)
  ultimately show ?thesis by simp
qed

text \<open>Only the described bits of \<open>reset_done\<close> ever show 1.\<close>

definition described_done :: "reg_reads \<Rightarrow> bool" where
  "described_done reset_done \<longleftrightarrow> (\<forall>n. reset_done n AND NOT (r_bits RESETS_RESET_DONE) = 0)"

text \<open>
  A block is taken out of reset: the function returns exactly if all the blocks asked for are done
  at one read, the first such read, and leaves the other blocks as they were. A bit of the mask that
  stands for no block makes it wait for ever.
\<close>

theorem unreset_waits_for_all:
  "unreset_block_wait reset_done bits (reset, s) =
     (let ready = (\<lambda>n. reset_done n AND bits = bits)
      in if ever_ready ready (reads s)
         then Some (unreset_block bits reset, s\<lparr>reads := Suc (ready_at ready (reads s))\<rparr>) else None)"
  by (simp add: unreset_block_wait_def unreset_block_def all_done poll_until_eq Let_def)

theorem unreset_unknown_block:
  assumes "described_done reset_done" and "bits AND NOT (r_bits RESETS_RESET_DONE) \<noteq> 0"
  shows "unreset_block_wait reset_done bits (reset, s) = None"
proof -
  have "reset_done n AND bits \<noteq> bits" for n
  proof
    assume "reset_done n AND bits = bits"
    then have "bits AND NOT (r_bits RESETS_RESET_DONE) = (reset_done n AND NOT (r_bits RESETS_RESET_DONE)) AND bits"
      by (metis and.assoc and.commute)
    with assms show False by (simp add: described_done_def)
  qed
  then show ?thesis by (simp add: unreset_waits_for_all ever_ready_def)
qed

theorem unreset_unknown_block_witness:
  "unreset_block_wait (\<lambda>_. 0x01ffffff) 0xffffffff (0, s) = None"
proof (rule unreset_unknown_block)
  show "described_done (\<lambda>_. 0x01ffffff)"
    by (simp add: described_done_def RESETS_RESET_DONE_def hw_register_def)
qed (simp add: RESETS_RESET_DONE_def hw_register_def)

end
