(* ===== verification/Regs_Spi.thy ===== *)
theory Regs_Spi
  imports Regs
begin

text \<open>
  The registers of the SPI, hardware/regs/spi.h, in the order of the header.
\<close>

definition SPI_SSPCR0 :: hw_reg where
  "SPI_SSPCR0 = hw_register 0x00000000 0x0000ffff (Some 0x00000000)
    [field ''SCR'' (Some 0x00) 0x0000ff00 15 8 RW,
     field ''SPH'' (Some 0x0) 0x00000080 7 7 RW,
     field ''SPO'' (Some 0x0) 0x00000040 6 6 RW,
     field ''FRF'' (Some 0x0) 0x00000030 5 4 RW,
     field ''DSS'' (Some 0x0) 0x0000000f 3 0 RW]"

definition SPI_SSPCR1 :: hw_reg where
  "SPI_SSPCR1 = hw_register 0x00000004 0x0000000f (Some 0x00000000)
    [field ''SOD'' (Some 0x0) 0x00000008 3 3 RW,
     field ''MS'' (Some 0x0) 0x00000004 2 2 RW,
     field ''SSE'' (Some 0x0) 0x00000002 1 1 RW,
     field ''LBM'' (Some 0x0) 0x00000001 0 0 RW]"

definition SPI_SSPDR :: hw_reg where
  "SPI_SSPDR = hw_register 0x00000008 0x0000ffff None
    [field ''DATA'' None 0x0000ffff 15 0 RWF]"

definition SPI_SSPSR :: hw_reg where
  "SPI_SSPSR = hw_register 0x0000000c 0x0000001f (Some 0x00000003)
    [field ''BSY'' (Some 0x0) 0x00000010 4 4 RO,
     field ''RFF'' (Some 0x0) 0x00000008 3 3 RO,
     field ''RNE'' (Some 0x0) 0x00000004 2 2 RO,
     field ''TNF'' (Some 0x1) 0x00000002 1 1 RO,
     field ''TFE'' (Some 0x1) 0x00000001 0 0 RO]"

definition SPI_SSPCPSR :: hw_reg where
  "SPI_SSPCPSR = hw_register 0x00000010 0x000000ff (Some 0x00000000)
    [field ''CPSDVSR'' (Some 0x00) 0x000000ff 7 0 RW]"

definition SPI_SSPIMSC :: hw_reg where
  "SPI_SSPIMSC = hw_register 0x00000014 0x0000000f (Some 0x00000000)
    [field ''TXIM'' (Some 0x0) 0x00000008 3 3 RW,
     field ''RXIM'' (Some 0x0) 0x00000004 2 2 RW,
     field ''RTIM'' (Some 0x0) 0x00000002 1 1 RW,
     field ''RORIM'' (Some 0x0) 0x00000001 0 0 RW]"

definition SPI_SSPRIS :: hw_reg where
  "SPI_SSPRIS = hw_register 0x00000018 0x0000000f (Some 0x00000008)
    [field ''TXRIS'' (Some 0x1) 0x00000008 3 3 RO,
     field ''RXRIS'' (Some 0x0) 0x00000004 2 2 RO,
     field ''RTRIS'' (Some 0x0) 0x00000002 1 1 RO,
     field ''RORRIS'' (Some 0x0) 0x00000001 0 0 RO]"

definition SPI_SSPMIS :: hw_reg where
  "SPI_SSPMIS = hw_register 0x0000001c 0x0000000f (Some 0x00000000)
    [field ''TXMIS'' (Some 0x0) 0x00000008 3 3 RO,
     field ''RXMIS'' (Some 0x0) 0x00000004 2 2 RO,
     field ''RTMIS'' (Some 0x0) 0x00000002 1 1 RO,
     field ''RORMIS'' (Some 0x0) 0x00000001 0 0 RO]"

definition SPI_SSPICR :: hw_reg where
  "SPI_SSPICR = hw_register 0x00000020 0x00000003 (Some 0x00000000)
    [field ''RTIC'' (Some 0x0) 0x00000002 1 1 WC,
     field ''RORIC'' (Some 0x0) 0x00000001 0 0 WC]"

definition SPI_SSPDMACR :: hw_reg where
  "SPI_SSPDMACR = hw_register 0x00000024 0x00000003 (Some 0x00000000)
    [field ''TXDMAE'' (Some 0x0) 0x00000002 1 1 RW,
     field ''RXDMAE'' (Some 0x0) 0x00000001 0 0 RW]"

definition SPI_SSPPERIPHID0 :: hw_reg where
  "SPI_SSPPERIPHID0 = hw_register 0x00000fe0 0x000000ff (Some 0x00000022)
    [field ''PARTNUMBER0'' (Some 0x22) 0x000000ff 7 0 RO]"

definition SPI_SSPPERIPHID1 :: hw_reg where
  "SPI_SSPPERIPHID1 = hw_register 0x00000fe4 0x000000ff (Some 0x00000010)
    [field ''DESIGNER0'' (Some 0x1) 0x000000f0 7 4 RO,
     field ''PARTNUMBER1'' (Some 0x0) 0x0000000f 3 0 RO]"

definition SPI_SSPPERIPHID2 :: hw_reg where
  "SPI_SSPPERIPHID2 = hw_register 0x00000fe8 0x000000ff (Some 0x00000034)
    [field ''REVISION'' (Some 0x3) 0x000000f0 7 4 RO,
     field ''DESIGNER1'' (Some 0x4) 0x0000000f 3 0 RO]"

definition SPI_SSPPERIPHID3 :: hw_reg where
  "SPI_SSPPERIPHID3 = hw_register 0x00000fec 0x000000ff (Some 0x00000000)
    [field ''CONFIGURATION'' (Some 0x00) 0x000000ff 7 0 RO]"

definition SPI_SSPPCELLID0 :: hw_reg where
  "SPI_SSPPCELLID0 = hw_register 0x00000ff0 0x000000ff (Some 0x0000000d)
    [field ''SSPPCELLID0'' (Some 0x0d) 0x000000ff 7 0 RO]"

definition SPI_SSPPCELLID1 :: hw_reg where
  "SPI_SSPPCELLID1 = hw_register 0x00000ff4 0x000000ff (Some 0x000000f0)
    [field ''SSPPCELLID1'' (Some 0xf0) 0x000000ff 7 0 RO]"

definition SPI_SSPPCELLID2 :: hw_reg where
  "SPI_SSPPCELLID2 = hw_register 0x00000ff8 0x000000ff (Some 0x00000005)
    [field ''SSPPCELLID2'' (Some 0x05) 0x000000ff 7 0 RO]"

definition SPI_SSPPCELLID3 :: hw_reg where
  "SPI_SSPPCELLID3 = hw_register 0x00000ffc 0x000000ff (Some 0x000000b1)
    [field ''SSPPCELLID3'' (Some 0xb1) 0x000000ff 7 0 RO]"

definition spi_registers :: "hw_reg list" where
  "spi_registers = [SPI_SSPCR0, SPI_SSPCR1, SPI_SSPDR, SPI_SSPSR, SPI_SSPCPSR, SPI_SSPIMSC, SPI_SSPRIS,
   SPI_SSPMIS, SPI_SSPICR, SPI_SSPDMACR, SPI_SSPPERIPHID0, SPI_SSPPERIPHID1,
   SPI_SSPPERIPHID2, SPI_SSPPERIPHID3, SPI_SSPPCELLID0, SPI_SSPPCELLID1, SPI_SSPPCELLID2,
   SPI_SSPPCELLID3]"

lemma spi_ok_1:
  "reg_ok SPI_SSPCR0"
  "reg_ok SPI_SSPCR1"
  "reg_ok SPI_SSPDR"
  "reg_ok SPI_SSPSR"
  "reg_ok SPI_SSPCPSR"
  "reg_ok SPI_SSPIMSC"
  by (simp_all add: reg_ok_simps
      SPI_SSPCR0_def
      SPI_SSPCR1_def
      SPI_SSPDR_def
      SPI_SSPSR_def
      SPI_SSPCPSR_def
      SPI_SSPIMSC_def)

lemma spi_ok_2:
  "reg_ok SPI_SSPRIS"
  "reg_ok SPI_SSPMIS"
  "reg_ok SPI_SSPICR"
  "reg_ok SPI_SSPDMACR"
  "reg_ok SPI_SSPPERIPHID0"
  "reg_ok SPI_SSPPERIPHID1"
  by (simp_all add: reg_ok_simps
      SPI_SSPRIS_def
      SPI_SSPMIS_def
      SPI_SSPICR_def
      SPI_SSPDMACR_def
      SPI_SSPPERIPHID0_def
      SPI_SSPPERIPHID1_def)

lemma spi_ok_3:
  "reg_ok SPI_SSPPERIPHID2"
  "reg_ok SPI_SSPPERIPHID3"
  "reg_ok SPI_SSPPCELLID0"
  "reg_ok SPI_SSPPCELLID1"
  "reg_ok SPI_SSPPCELLID2"
  "reg_ok SPI_SSPPCELLID3"
  by (simp_all add: reg_ok_simps
      SPI_SSPPERIPHID2_def
      SPI_SSPPERIPHID3_def
      SPI_SSPPCELLID0_def
      SPI_SSPPCELLID1_def
      SPI_SSPPCELLID2_def
      SPI_SSPPCELLID3_def)

lemma spi_registers_ok: "list_all reg_ok spi_registers"
  by (simp add: spi_registers_def spi_ok_1 spi_ok_2 spi_ok_3)

lemma spi_offsets: "map r_offset spi_registers =
  [0x00000000, 0x00000004, 0x00000008, 0x0000000c, 0x00000010, 0x00000014, 0x00000018,
   0x0000001c, 0x00000020, 0x00000024, 0x00000fe0, 0x00000fe4, 0x00000fe8, 0x00000fec,
   0x00000ff0, 0x00000ff4, 0x00000ff8, 0x00000ffc]"
  by (simp add: spi_registers_def hw_register_def
      SPI_SSPCR0_def SPI_SSPCR1_def SPI_SSPDR_def SPI_SSPSR_def SPI_SSPCPSR_def SPI_SSPIMSC_def
   SPI_SSPRIS_def SPI_SSPMIS_def SPI_SSPICR_def SPI_SSPDMACR_def SPI_SSPPERIPHID0_def
   SPI_SSPPERIPHID1_def SPI_SSPPERIPHID2_def SPI_SSPPERIPHID3_def SPI_SSPPCELLID0_def
   SPI_SSPPCELLID1_def SPI_SSPPCELLID2_def SPI_SSPPCELLID3_def)

end
