(* ===== verification/Spi.thy ===== *)
theory Spi
  imports Regs_Spi
begin

text \<open>
  The SPI controllers, the inline functions of hardware/spi.h. A read of the status register shows
  the value \<open>sr\<close> has for it. The checks of the parameters are off by default.
\<close>

section \<open>Types and registers\<close>

datatype spi_inst = Spi0 | Spi1

datatype spi_cpha = SPI_CPHA_0 | SPI_CPHA_1
datatype spi_cpol = SPI_CPOL_0 | SPI_CPOL_1
datatype spi_order = SPI_LSB_FIRST | SPI_MSB_FIRST

fun cpha_value :: "spi_cpha \<Rightarrow> u32" where
  "cpha_value SPI_CPHA_0 = 0"
| "cpha_value SPI_CPHA_1 = 1"

fun cpol_value :: "spi_cpol \<Rightarrow> u32" where
  "cpol_value SPI_CPOL_0 = 0"
| "cpol_value SPI_CPOL_1 = 1"

record spi_hw =
  cr0 :: u32
  cr1 :: u32

type_synonym spis = "spi_inst \<Rightarrow> spi_hw"

definition upd_spi :: "spi_inst \<Rightarrow> (spi_hw \<Rightarrow> spi_hw) \<Rightarrow> spis \<Rightarrow> spis" where
  "upd_spi spi f h = h(spi := f (h spi))"

definition DREQ_SPI0_TX :: u32 where "DREQ_SPI0_TX = 0x10"

section \<open>The functions\<close>

definition spi_get_index :: "spi_inst \<Rightarrow> u32" where
  "spi_get_index spi = (if spi = Spi1 then 1 else 0)"

definition spi_set_format :: "spi_inst \<Rightarrow> u32 \<Rightarrow> spi_cpol \<Rightarrow> spi_cpha \<Rightarrow> spi_order \<Rightarrow> spis \<Rightarrow> spis" where
  "spi_set_format spi data_bits cpol cpha order = upd_spi spi (\<lambda>r. r\<lparr>cr0 := hw_write_masked (cr0 r)
     (push_bit (reg_lsb SPI_SSPCR0 ''DSS'') (data_bits - 1)
        OR push_bit (reg_lsb SPI_SSPCR0 ''SPO'') (cpol_value cpol)
        OR push_bit (reg_lsb SPI_SSPCR0 ''SPH'') (cpha_value cpha))
     (reg_bits SPI_SSPCR0 ''DSS'' OR reg_bits SPI_SSPCR0 ''SPO'' OR reg_bits SPI_SSPCR0 ''SPH'')\<rparr>)"

definition spi_set_slave :: "spi_inst \<Rightarrow> bool \<Rightarrow> spis \<Rightarrow> spis" where
  "spi_set_slave spi slave = upd_spi spi (\<lambda>r. r\<lparr>cr1 :=
     (if slave then hw_set_bits (cr1 r) (reg_bits SPI_SSPCR1 ''MS'')
      else hw_clear_bits (cr1 r) (reg_bits SPI_SSPCR1 ''MS''))\<rparr>)"

definition spi_is_writable :: "(spi_inst \<Rightarrow> nat \<Rightarrow> u32) \<Rightarrow> spi_inst \<Rightarrow> mcu \<Rightarrow> bool \<times> mcu" where
  "spi_is_writable sr spi s = (sr spi (reads s) AND reg_bits SPI_SSPSR ''TNF'' \<noteq> 0, tick s)"

definition spi_is_readable :: "(spi_inst \<Rightarrow> nat \<Rightarrow> u32) \<Rightarrow> spi_inst \<Rightarrow> mcu \<Rightarrow> bool \<times> mcu" where
  "spi_is_readable sr spi s = (sr spi (reads s) AND reg_bits SPI_SSPSR ''RNE'' \<noteq> 0, tick s)"

definition spi_is_busy :: "(spi_inst \<Rightarrow> nat \<Rightarrow> u32) \<Rightarrow> spi_inst \<Rightarrow> mcu \<Rightarrow> bool \<times> mcu" where
  "spi_is_busy sr spi s = (sr spi (reads s) AND reg_bits SPI_SSPSR ''BSY'' \<noteq> 0, tick s)"

definition spi_get_dreq :: "spi_inst \<Rightarrow> bool \<Rightarrow> u32" where
  "spi_get_dreq spi is_tx = DREQ_SPI0_TX + spi_get_index spi * 2 + of_bool (\<not> is_tx)"

section \<open>What they write\<close>

interpretation cr0: described_register SPI_SSPCR0
  by unfold_locales (rule spi_ok_1)

interpretation cr1: described_register SPI_SSPCR1
  by unfold_locales (rule spi_ok_1)

lemma cr_names:
  "set (map f_name (r_fields SPI_SSPCR0)) = {''SCR'', ''SPH'', ''SPO'', ''FRF'', ''DSS''}"
  "set (map f_name (r_fields SPI_SSPCR1)) = {''SOD'', ''MS'', ''SSE'', ''LBM''}"
  by (simp_all add: SPI_SSPCR0_def SPI_SSPCR1_def hw_register_def field_def)

lemma cr_widths:
  "f_width (the_field SPI_SSPCR0 ''DSS'') = 4" "f_width (the_field SPI_SSPCR0 ''SPO'') = 1"
  "f_width (the_field SPI_SSPCR0 ''SPH'') = 1" "f_width (the_field SPI_SSPCR1 ''MS'') = 1"
  by code_simp+

lemma format_fits:
  assumes "4 \<le> data_bits" and "data_bits \<le> (16 :: u32)"
  shows "fits 4 (data_bits - 1)"
proof -
  have "unat (data_bits - 1) = unat data_bits - 1"
    using assms(1) by (simp add: unat_sub word_le_nat_alt)
  moreover have "unat data_bits \<le> 16" using assms(2) by (simp add: word_le_nat_alt)
  ultimately show ?thesis by (simp add: fits_def)
qed

lemma mode_fits: "fits (Suc 0) (cpol_value cpol)" "fits (Suc 0) (cpha_value cpha)"
  by (cases cpol; simp add: fits_def) (cases cpha; simp add: fits_def)

text \<open>
  For the frame lengths the controller supports, the format is written into the three fields of
  the controller and the clock rate and frame format keep their values; the mode is one bit.
\<close>

theorem spi_writes_fields:
  assumes "4 \<le> data_bits" and "data_bits \<le> 16"
  shows "spi_set_format spi data_bits cpol cpha order = upd_spi spi (\<lambda>r. r\<lparr>cr0 :=
      put_named SPI_SSPCR0 ''SPH'' (cpha_value cpha) (put_named SPI_SSPCR0 ''SPO'' (cpol_value cpol)
        (put_named SPI_SSPCR0 ''DSS'' (data_bits - 1) (cr0 r)))\<rparr>)"
    and "get_named SPI_SSPCR0 ''DSS'' (cr0 (spi_set_format spi data_bits cpol cpha order h spi)) = data_bits - 1"
    and "get_named SPI_SSPCR0 ''SCR'' (cr0 (spi_set_format spi data_bits cpol cpha order h spi))
      = get_named SPI_SSPCR0 ''SCR'' (cr0 (h spi))"
    and "spi_set_slave spi slave = upd_spi spi (\<lambda>r. r\<lparr>cr1 := put_named SPI_SSPCR1 ''MS'' (of_bool slave) (cr1 r)\<rparr>)"
proof -
  note fits = format_fits [OF assms] mode_fits
  have "hw_write_masked w
      (push_bit (reg_lsb SPI_SSPCR0 ''DSS'') (data_bits - 1) OR push_bit (reg_lsb SPI_SSPCR0 ''SPO'') (cpol_value cpol)
        OR push_bit (reg_lsb SPI_SSPCR0 ''SPH'') (cpha_value cpha))
      (reg_bits SPI_SSPCR0 ''DSS'' OR reg_bits SPI_SSPCR0 ''SPO'' OR reg_bits SPI_SSPCR0 ''SPH'')
    = put_named SPI_SSPCR0 ''SPH'' (cpha_value cpha) (put_named SPI_SSPCR0 ''SPO'' (cpol_value cpol)
        (put_named SPI_SSPCR0 ''DSS'' (data_bits - 1) w))" for w
  proof -
    let ?v = "push_bit (reg_lsb SPI_SSPCR0 ''DSS'') (data_bits - 1)" and ?m = "reg_bits SPI_SSPCR0 ''DSS''"
    let ?v' = "push_bit (reg_lsb SPI_SSPCR0 ''SPO'') (cpol_value cpol)" and ?m' = "reg_bits SPI_SSPCR0 ''SPO''"
    let ?v'' = "push_bit (reg_lsb SPI_SSPCR0 ''SPH'') (cpha_value cpha)" and ?m'' = "reg_bits SPI_SSPCR0 ''SPH''"
    have "hw_write_masked w (?v OR ?v' OR ?v'') (?m OR ?m' OR ?m'')
        = (w AND NOT (?m OR ?m' OR ?m'')) OR (?v OR ?v' OR ?v'')"
      by (rule word_bits_eqI) (use cr0.value_bit [of "''DSS''" "data_bits - 1"]
        cr0.value_bit [of "''SPO''" "cpol_value cpol"] cr0.value_bit [of "''SPH''" "cpha_value cpha"] fits
        in \<open>auto simp: bit_hw_write_masked bit_or_iff bit_and_iff bit_not_iff cr_names cr_widths simp del: set_map\<close>)
    also have "\<dots> = put_named SPI_SSPCR0 ''SPH'' (cpha_value cpha) (put_named SPI_SSPCR0 ''SPO'' (cpol_value cpol)
        (put_named SPI_SSPCR0 ''DSS'' (data_bits - 1) w))"
      by (rule cr0.replace_named_three) (simp_all add: cr_names cr_widths fits del: set_map)
    finally show ?thesis .
  qed
  then show format: "spi_set_format spi data_bits cpol cpha order = upd_spi spi (\<lambda>r. r\<lparr>cr0 :=
      put_named SPI_SSPCR0 ''SPH'' (cpha_value cpha) (put_named SPI_SSPCR0 ''SPO'' (cpol_value cpol)
        (put_named SPI_SSPCR0 ''DSS'' (data_bits - 1) (cr0 r)))\<rparr>)"
    by (simp only: spi_set_format_def)
  show "get_named SPI_SSPCR0 ''DSS'' (cr0 (spi_set_format spi data_bits cpol cpha order h spi)) = data_bits - 1"
    "get_named SPI_SSPCR0 ''SCR'' (cr0 (spi_set_format spi data_bits cpol cpha order h spi))
      = get_named SPI_SSPCR0 ''SCR'' (cr0 (h spi))"
    by (simp_all add: format upd_spi_def cr0.get_put cr0.get_put_other cr_names cr_widths fits del: set_map)
  show "spi_set_slave spi slave = upd_spi spi (\<lambda>r. r\<lparr>cr1 := put_named SPI_SSPCR1 ''MS'' (of_bool slave) (cr1 r)\<rparr>)"
    using cr1.put_flag [of "''MS''" slave] unfolding spi_set_slave_def hw_set_bits_def hw_clear_bits_def
    by (simp add: cr_names cr_widths del: set_map)
qed

text \<open>A length of 0 is not caught: it changes polarity and phase as well.\<close>

lemma format_of_no_bits:
  "cr0 (spi_set_format Spi0 0 SPI_CPOL_0 SPI_CPHA_0 SPI_MSB_FIRST (\<lambda>_. \<lparr>cr0 = 0, cr1 = 0\<rparr>) Spi0) = 0xcf"
proof -
  have "reg_bits SPI_SSPCR0 ''DSS'' = 15" "reg_bits SPI_SSPCR0 ''SPO'' = 64" "reg_bits SPI_SSPCR0 ''SPH'' = 128"
    "reg_lsb SPI_SSPCR0 ''DSS'' = 0" by code_simp+
  then show ?thesis by (simp add: spi_set_format_def upd_spi_def hw_write_masked_rmw)
qed

lemma spi_request_lines:
  "map (\<lambda>(i, tx). spi_get_dreq i tx) [(Spi0, True), (Spi0, False), (Spi1, True), (Spi1, False)] = [0x10, 0x11, 0x12, 0x13]"
  by (simp add: spi_get_dreq_def spi_get_index_def DREQ_SPI0_TX_def)

end
