(* ===== verification/Interp.thy ===== *)
theory Interp
  imports Regs_Sio "HOL-Library.Monad_Syntax"
begin

text \<open>
  The interpolators, the inline functions of hardware/interp.h: building the configuration of a
  lane, sending it, and access to accumulators, bases and results. What an interpolator computes is
  a parameter; the comments of hardware/regs/sio.h describe it. The checks of the parameters are off by
  default.
\<close>

section \<open>Configuration\<close>

record interp_config =
  config_ctrl :: u32

abbreviation lane_bits :: "string \<Rightarrow> u32" where
  "lane_bits n \<equiv> reg_bits SIO_INTERP0_CTRL_LANE0 n"

abbreviation lane_lsb :: "string \<Rightarrow> nat" where
  "lane_lsb n \<equiv> reg_lsb SIO_INTERP0_CTRL_LANE0 n"

definition interp_config_set_shift :: "u32 \<Rightarrow> interp_config \<Rightarrow> interp_config" where
  "interp_config_set_shift shift c =
     c\<lparr>config_ctrl := (config_ctrl c AND NOT (lane_bits ''SHIFT''))
        OR (push_bit (lane_lsb ''SHIFT'') shift AND lane_bits ''SHIFT'')\<rparr>"

definition interp_config_set_mask :: "u32 \<Rightarrow> u32 \<Rightarrow> interp_config \<Rightarrow> interp_config" where
  "interp_config_set_mask mask_lsb mask_msb c =
     c\<lparr>config_ctrl := (config_ctrl c AND NOT (lane_bits ''MASK_LSB'' OR lane_bits ''MASK_MSB''))
        OR (push_bit (lane_lsb ''MASK_LSB'') mask_lsb AND lane_bits ''MASK_LSB'')
        OR (push_bit (lane_lsb ''MASK_MSB'') mask_msb AND lane_bits ''MASK_MSB'')\<rparr>"

definition interp_config_set_cross_input :: "bool \<Rightarrow> interp_config \<Rightarrow> interp_config" where
  "interp_config_set_cross_input cross_input c =
     c\<lparr>config_ctrl := (config_ctrl c AND NOT (lane_bits ''CROSS_INPUT''))
        OR (if cross_input then lane_bits ''CROSS_INPUT'' else 0)\<rparr>"

definition interp_config_set_cross_result :: "bool \<Rightarrow> interp_config \<Rightarrow> interp_config" where
  "interp_config_set_cross_result cross_result c =
     c\<lparr>config_ctrl := (config_ctrl c AND NOT (lane_bits ''CROSS_RESULT''))
        OR (if cross_result then lane_bits ''CROSS_RESULT'' else 0)\<rparr>"

definition interp_config_set_signed :: "bool \<Rightarrow> interp_config \<Rightarrow> interp_config" where
  "interp_config_set_signed is_signed c =
     c\<lparr>config_ctrl := (config_ctrl c AND NOT (lane_bits ''SIGNED''))
        OR (if is_signed then lane_bits ''SIGNED'' else 0)\<rparr>"

definition interp_config_set_add_raw :: "bool \<Rightarrow> interp_config \<Rightarrow> interp_config" where
  "interp_config_set_add_raw add_raw c =
     c\<lparr>config_ctrl := (config_ctrl c AND NOT (lane_bits ''ADD_RAW''))
        OR (if add_raw then lane_bits ''ADD_RAW'' else 0)\<rparr>"

definition interp_config_set_blend :: "bool \<Rightarrow> interp_config \<Rightarrow> interp_config" where
  "interp_config_set_blend blend c =
     c\<lparr>config_ctrl := (config_ctrl c AND NOT (lane_bits ''BLEND''))
        OR (if blend then lane_bits ''BLEND'' else 0)\<rparr>"

text \<open>Only the second interpolator has the bit \<open>CLAMP\<close>.\<close>

definition interp_config_set_clamp :: "bool \<Rightarrow> interp_config \<Rightarrow> interp_config" where
  "interp_config_set_clamp clamp c =
     c\<lparr>config_ctrl := (config_ctrl c AND NOT (reg_bits SIO_INTERP1_CTRL_LANE0 ''CLAMP''))
        OR (if clamp then reg_bits SIO_INTERP1_CTRL_LANE0 ''CLAMP'' else 0)\<rparr>"

definition interp_config_set_force_bits :: "u32 \<Rightarrow> interp_config \<Rightarrow> interp_config" where
  "interp_config_set_force_bits bits c =
     c\<lparr>config_ctrl := (config_ctrl c AND NOT (lane_bits ''FORCE_MSB''))
        OR push_bit (lane_lsb ''FORCE_MSB'') bits\<rparr>"

definition interp_default_config :: interp_config where
  "interp_default_config = interp_config_set_mask 0 31 \<lparr>config_ctrl = 0\<rparr>"

section \<open>An interpolator\<close>

record interp_hw =
  accum :: "u32 \<Rightarrow> u32"
  base :: "u32 \<Rightarrow> u32"
  lane_ctrl :: "u32 \<Rightarrow> u32"

text \<open>
  The hardware behind the registers that compute: reading a result (lane 0, lane 1 or 2, the full
  result), reading it and stepping the accumulators, reading and writing at the address of
  \<open>add_raw\<close>, and writing both bases at once.
\<close>

record interp_device =
  peek_at :: "interp_hw \<Rightarrow> u32 \<Rightarrow> u32"
  pop_at :: "interp_hw \<Rightarrow> u32 \<Rightarrow> u32 \<times> interp_hw"
  raw_at :: "interp_hw \<Rightarrow> u32 \<Rightarrow> u32"
  raw_write :: "u32 \<Rightarrow> u32 \<Rightarrow> interp_hw \<Rightarrow> interp_hw"
  base01_write :: "u32 \<Rightarrow> interp_hw \<Rightarrow> interp_hw"

definition interp_set_config :: "u32 \<Rightarrow> interp_config \<Rightarrow> interp_hw \<Rightarrow> interp_hw" where
  "interp_set_config lane config h = h\<lparr>lane_ctrl := (lane_ctrl h)(lane := config_ctrl config)\<rparr>"

definition interp_set_force_bits :: "u32 \<Rightarrow> u32 \<Rightarrow> interp_hw \<Rightarrow> interp_hw" where
  "interp_set_force_bits lane bits h =
     h\<lparr>lane_ctrl := (lane_ctrl h)(lane := lane_ctrl h lane OR push_bit (lane_lsb ''FORCE_MSB'') bits)\<rparr>"

definition interp_set_base :: "u32 \<Rightarrow> u32 \<Rightarrow> interp_hw \<Rightarrow> interp_hw" where
  "interp_set_base lane val h = h\<lparr>base := (base h)(lane := val)\<rparr>"

definition interp_get_base :: "u32 \<Rightarrow> interp_hw \<Rightarrow> u32" where
  "interp_get_base lane h = base h lane"

definition interp_set_base_both :: "interp_device \<Rightarrow> u32 \<Rightarrow> interp_hw \<Rightarrow> interp_hw" where
  "interp_set_base_both D val h = base01_write D val h"

definition interp_set_accumulator :: "u32 \<Rightarrow> u32 \<Rightarrow> interp_hw \<Rightarrow> interp_hw" where
  "interp_set_accumulator lane val h = h\<lparr>accum := (accum h)(lane := val)\<rparr>"

definition interp_get_accumulator :: "u32 \<Rightarrow> interp_hw \<Rightarrow> u32" where
  "interp_get_accumulator lane h = accum h lane"

definition interp_pop_lane_result :: "interp_device \<Rightarrow> u32 \<Rightarrow> interp_hw \<Rightarrow> u32 \<times> interp_hw" where
  "interp_pop_lane_result D lane h = pop_at D h lane"

definition interp_peek_lane_result :: "interp_device \<Rightarrow> u32 \<Rightarrow> interp_hw \<Rightarrow> u32" where
  "interp_peek_lane_result D lane h = peek_at D h lane"

definition interp_pop_full_result :: "interp_device \<Rightarrow> interp_hw \<Rightarrow> u32 \<times> interp_hw" where
  "interp_pop_full_result D h = pop_at D h 2"

definition interp_peek_full_result :: "interp_device \<Rightarrow> interp_hw \<Rightarrow> u32" where
  "interp_peek_full_result D h = peek_at D h 2"

definition interp_add_accumulater :: "interp_device \<Rightarrow> u32 \<Rightarrow> u32 \<Rightarrow> interp_hw \<Rightarrow> interp_hw" where
  "interp_add_accumulater D lane val h = raw_write D lane val h"

definition interp_get_raw :: "interp_device \<Rightarrow> u32 \<Rightarrow> interp_hw \<Rightarrow> u32" where
  "interp_get_raw D lane h = raw_at D h lane"

text \<open>An interpolator by its number.\<close>

datatype interp_inst = Interp0 | Interp1

definition interp_index :: "interp_inst \<Rightarrow> u32" where
  "interp_index interp = (if interp = Interp1 then 1 else 0)"

section \<open>What an interpolator computes\<close>

text \<open>
  The comments of hardware/regs/sio.h on the fields of a lane: the accumulator of this or of the other
  lane is shifted right and masked, possibly extended by its sign, and added to the base; the
  forced bits only appear in the result as it is read.
\<close>

definition lane_input :: "interp_hw \<Rightarrow> u32 \<Rightarrow> u32" where
  "lane_input h i = accum h (if get_named SIO_INTERP0_CTRL_LANE0 ''CROSS_INPUT'' (lane_ctrl h i) \<noteq> 0 then 1 - i else i)"

definition window :: "nat \<Rightarrow> nat \<Rightarrow> nat \<Rightarrow> u32 \<Rightarrow> u32" where
  "window shift low high w = drop_bit shift w AND (mask (Suc high) AND NOT (mask low))"

definition lane_shifted :: "interp_hw \<Rightarrow> u32 \<Rightarrow> u32" where
  "lane_shifted h i =
     (let f = (\<lambda>n. unat (get_named SIO_INTERP0_CTRL_LANE0 n (lane_ctrl h i)));
          v = window (f ''SHIFT'') (f ''MASK_LSB'') (f ''MASK_MSB'') (lane_input h i)
      in if f ''SIGNED'' \<noteq> 0 then signed_take_bit (f ''MASK_MSB'') v else v)"

definition lane_result :: "interp_hw \<Rightarrow> u32 \<Rightarrow> u32" where
  "lane_result h i = base h i
     + (if get_named SIO_INTERP0_CTRL_LANE0 ''ADD_RAW'' (lane_ctrl h i) \<noteq> 0 then lane_input h i else lane_shifted h i)"

definition full_result :: "interp_hw \<Rightarrow> u32" where
  "full_result h = base h 2 + lane_shifted h 0 + lane_shifted h 1"

definition read_result :: "interp_hw \<Rightarrow> u32 \<Rightarrow> u32" where
  "read_result h i = (if i = 2 then full_result h
     else lane_result h i OR push_bit 28 (get_named SIO_INTERP0_CTRL_LANE0 ''FORCE_MSB'' (lane_ctrl h i)))"

definition stepped :: "interp_hw \<Rightarrow> interp_hw" where
  "stepped h = h\<lparr>accum := \<lambda>i. if i = 0 \<or> i = 1
     then lane_result h (if get_named SIO_INTERP0_CTRL_LANE0 ''CROSS_RESULT'' (lane_ctrl h i) \<noteq> 0 then 1 - i else i)
     else accum h i\<rparr>"

text \<open>Neither blend nor clamp mode is on.\<close>

definition plain_mode :: "interp_hw \<Rightarrow> bool" where
  "plain_mode h \<longleftrightarrow> get_named SIO_INTERP0_CTRL_LANE0 ''BLEND'' (lane_ctrl h 0) = 0
     \<and> get_named SIO_INTERP1_CTRL_LANE0 ''CLAMP'' (lane_ctrl h 0) = 0"

definition interp_documented :: "interp_device \<Rightarrow> bool" where
  "interp_documented D \<longleftrightarrow> (\<forall>h i. plain_mode h \<longrightarrow> i \<le> 2 \<longrightarrow>
     peek_at D h i = read_result h i \<and> pop_at D h i = (read_result h i, stepped h))"

section \<open>The fields of the control register\<close>

interpretation lane: described_register SIO_INTERP0_CTRL_LANE0
  by unfold_locales (rule sio_ok_7)

interpretation clamp_lane: described_register SIO_INTERP1_CTRL_LANE0
  by unfold_locales (rule sio_ok_10)

lemma lane_names: "set (map f_name (r_fields SIO_INTERP0_CTRL_LANE0)) = {''OVERF'', ''OVERF1'',
    ''OVERF0'', ''BLEND'', ''FORCE_MSB'', ''ADD_RAW'', ''CROSS_RESULT'', ''CROSS_INPUT'', ''SIGNED'',
    ''MASK_MSB'', ''MASK_LSB'', ''SHIFT''}"
  "set (map f_name (r_fields SIO_INTERP1_CTRL_LANE0)) = {''OVERF'', ''OVERF1'',
    ''OVERF0'', ''CLAMP'', ''FORCE_MSB'', ''ADD_RAW'', ''CROSS_RESULT'', ''CROSS_INPUT'', ''SIGNED'',
    ''MASK_MSB'', ''MASK_LSB'', ''SHIFT''}"
  by (simp_all add: SIO_INTERP0_CTRL_LANE0_def SIO_INTERP1_CTRL_LANE0_def hw_register_def field_def)

lemma lane_widths:
  "f_width (the_field SIO_INTERP0_CTRL_LANE0 ''SHIFT'') = 5"
  "f_width (the_field SIO_INTERP0_CTRL_LANE0 ''MASK_LSB'') = 5"
  "f_width (the_field SIO_INTERP0_CTRL_LANE0 ''MASK_MSB'') = 5"
  "f_width (the_field SIO_INTERP0_CTRL_LANE0 ''ADD_RAW'') = 1"
  "f_width (the_field SIO_INTERP0_CTRL_LANE0 ''CROSS_INPUT'') = 1"
  "f_width (the_field SIO_INTERP0_CTRL_LANE0 ''CROSS_RESULT'') = 1"
  "f_width (the_field SIO_INTERP0_CTRL_LANE0 ''SIGNED'') = 1"
  "f_width (the_field SIO_INTERP0_CTRL_LANE0 ''BLEND'') = 1"
  "f_width (the_field SIO_INTERP0_CTRL_LANE0 ''FORCE_MSB'') = 2"
  "f_width (the_field SIO_INTERP1_CTRL_LANE0 ''CLAMP'') = 1"
  by code_simp+

text \<open>The fields both interpolators have are at the same places.\<close>

lemma shared_fields:
  "put_named SIO_INTERP0_CTRL_LANE0 ''SHIFT'' = put_named SIO_INTERP1_CTRL_LANE0 ''SHIFT''"
  "put_named SIO_INTERP0_CTRL_LANE0 ''MASK_LSB'' = put_named SIO_INTERP1_CTRL_LANE0 ''MASK_LSB''"
  "put_named SIO_INTERP0_CTRL_LANE0 ''MASK_MSB'' = put_named SIO_INTERP1_CTRL_LANE0 ''MASK_MSB''"
  "put_named SIO_INTERP0_CTRL_LANE0 ''ADD_RAW'' = put_named SIO_INTERP1_CTRL_LANE0 ''ADD_RAW''"
  by (simp_all add: fun_eq_iff put_named_def the_field_def SIO_INTERP0_CTRL_LANE0_def
      SIO_INTERP1_CTRL_LANE0_def hw_register_def field_def)

text \<open>A one-bit field, cleared and set again.\<close>

context described_register
begin

lemma put_flag_or:
  assumes "n \<in> set (map f_name (r_fields r))" and "f_width (the_field r n) = 1"
  shows "(w AND NOT (reg_bits r n)) OR (if b then reg_bits r n else 0) = put_named r n (of_bool b) w"
proof -
  have "(w AND NOT (reg_bits r n)) OR (if b then reg_bits r n else 0)
      = (if b then w OR reg_bits r n else w AND NOT (reg_bits r n))"
    by (rule word_bits_eqI) (auto simp: bit_or_iff bit_and_iff bit_not_iff)
  then show ?thesis by (simp only: put_flag [OF assms])
qed

end

text \<open>
  What the configuration functions write; the field \<open>CLAMP\<close> is in the description of the second
  interpolator.
\<close>

theorem interp_config_writes_fields:
  "interp_config_set_shift v c = c\<lparr>config_ctrl := put_named SIO_INTERP0_CTRL_LANE0 ''SHIFT'' v (config_ctrl c)\<rparr>
   \<and> interp_config_set_mask v u c = c\<lparr>config_ctrl := put_named SIO_INTERP0_CTRL_LANE0 ''MASK_MSB'' u
       (put_named SIO_INTERP0_CTRL_LANE0 ''MASK_LSB'' v (config_ctrl c))\<rparr>
   \<and> interp_config_set_cross_input b c = c\<lparr>config_ctrl := put_named SIO_INTERP0_CTRL_LANE0 ''CROSS_INPUT'' (of_bool b) (config_ctrl c)\<rparr>
   \<and> interp_config_set_cross_result b c = c\<lparr>config_ctrl := put_named SIO_INTERP0_CTRL_LANE0 ''CROSS_RESULT'' (of_bool b) (config_ctrl c)\<rparr>
   \<and> interp_config_set_signed b c = c\<lparr>config_ctrl := put_named SIO_INTERP0_CTRL_LANE0 ''SIGNED'' (of_bool b) (config_ctrl c)\<rparr>
   \<and> interp_config_set_add_raw b c = c\<lparr>config_ctrl := put_named SIO_INTERP0_CTRL_LANE0 ''ADD_RAW'' (of_bool b) (config_ctrl c)\<rparr>
   \<and> interp_config_set_blend b c = c\<lparr>config_ctrl := put_named SIO_INTERP0_CTRL_LANE0 ''BLEND'' (of_bool b) (config_ctrl c)\<rparr>
   \<and> interp_config_set_clamp b c = c\<lparr>config_ctrl := put_named SIO_INTERP1_CTRL_LANE0 ''CLAMP'' (of_bool b) (config_ctrl c)\<rparr>"
proof -
  have shift: "(w AND NOT (lane_bits ''SHIFT'')) OR (push_bit (lane_lsb ''SHIFT'') v AND lane_bits ''SHIFT'')
      = put_named SIO_INTERP0_CTRL_LANE0 ''SHIFT'' v w" for w
    by (simp add: put_named_def set_field_def hw_write_masked_rmw reg_bits_def reg_lsb_def)
  have disjoint: "bit (lane_bits ''MASK_LSB'') k \<Longrightarrow> \<not> bit (lane_bits ''MASK_MSB'') k" for k
    by (rule lane.masks_disjoint) (simp_all add: lane_names del: set_map)
  have mask: "(w AND NOT (lane_bits ''MASK_LSB'' OR lane_bits ''MASK_MSB''))
        OR (push_bit (lane_lsb ''MASK_LSB'') v AND lane_bits ''MASK_LSB'')
        OR (push_bit (lane_lsb ''MASK_MSB'') u AND lane_bits ''MASK_MSB'')
      = put_named SIO_INTERP0_CTRL_LANE0 ''MASK_MSB'' u (put_named SIO_INTERP0_CTRL_LANE0 ''MASK_LSB'' v w)" for w
    by (rule word_bits_eqI) (use disjoint in \<open>auto simp: put_named_def set_field_def bit_hw_write_masked
        reg_bits_def reg_lsb_def bit_or_iff bit_and_iff bit_not_iff\<close>)
  show ?thesis
    unfolding interp_config_set_shift_def interp_config_set_mask_def shift mask
    by (simp add: interp_config_set_cross_input_def interp_config_set_cross_result_def
        interp_config_set_signed_def interp_config_set_add_raw_def interp_config_set_blend_def
        interp_config_set_clamp_def lane.put_flag_or clamp_lane.put_flag_or lane_names lane_widths del: set_map)
qed

text \<open>
  The forced bits are written over the old ones in a configuration, but added to them in the
  register: a second call cannot clear a bit.
\<close>

lemma interp_set_force_bits_keeps:
  "lane_ctrl (interp_set_force_bits lane 1 (interp_set_force_bits lane 2 h)) lane
   = lane_ctrl (interp_set_force_bits lane 3 h) lane"
proof -
  have "push_bit n 3 = push_bit n 2 OR push_bit n (1 :: u32)" for n
    by (simp only: push_bit_or [symmetric]) simp
  then show ?thesis by (simp add: interp_set_force_bits_def or.assoc)
qed

section \<open>A lane that walks through a table\<close>

text \<open>
  The use the header names first, addresses of table entries and textures: the base is added to the
  unshifted accumulator with every result taken.
\<close>

definition table_config :: "u32 \<Rightarrow> u32 \<Rightarrow> u32 \<Rightarrow> interp_config" where
  "table_config shift low high = interp_config_set_add_raw True
     (interp_config_set_mask low high (interp_config_set_shift shift interp_default_config))"

primrec pops :: "interp_device \<Rightarrow> nat \<Rightarrow> interp_hw \<Rightarrow> u32 list \<times> interp_hw" where
  "pops D 0 h = ([], h)"
| "pops D (Suc n) h =
     (let (v, h) = interp_pop_full_result D h; (vs, h) = pops D n h in (v # vs, h))"

lemma fits_five: "v < 32 \<Longrightarrow> fits 5 (v :: u32)"
  by (simp add: fits_def word_less_nat_alt)

lemma table_ctrl:
  "config_ctrl (table_config shift low high)
   = put_named SIO_INTERP0_CTRL_LANE0 ''ADD_RAW'' 1 (put_named SIO_INTERP0_CTRL_LANE0 ''MASK_MSB'' high
       (put_named SIO_INTERP0_CTRL_LANE0 ''MASK_LSB'' low (put_named SIO_INTERP0_CTRL_LANE0 ''SHIFT'' shift
       (put_named SIO_INTERP0_CTRL_LANE0 ''MASK_MSB'' 31 (put_named SIO_INTERP0_CTRL_LANE0 ''MASK_LSB'' 0 0)))))"
  by (simp add: table_config_def interp_default_config_def interp_config_writes_fields)

lemma empty_field: "get_named r n 0 = 0"
  by (simp add: get_named_def get_field_def)

lemma table_fields:
  assumes "shift < 32" and "low < 32" and "high < 32"
  shows "get_named SIO_INTERP0_CTRL_LANE0 ''SHIFT'' (config_ctrl (table_config shift low high)) = shift"
    and "get_named SIO_INTERP0_CTRL_LANE0 ''MASK_LSB'' (config_ctrl (table_config shift low high)) = low"
    and "get_named SIO_INTERP0_CTRL_LANE0 ''MASK_MSB'' (config_ctrl (table_config shift low high)) = high"
    and "get_named SIO_INTERP0_CTRL_LANE0 ''ADD_RAW'' (config_ctrl (table_config shift low high)) = 1"
    and "get_named SIO_INTERP0_CTRL_LANE0 ''CROSS_INPUT'' (config_ctrl (table_config shift low high)) = 0"
    and "get_named SIO_INTERP0_CTRL_LANE0 ''CROSS_RESULT'' (config_ctrl (table_config shift low high)) = 0"
    and "get_named SIO_INTERP0_CTRL_LANE0 ''SIGNED'' (config_ctrl (table_config shift low high)) = 0"
    and "get_named SIO_INTERP0_CTRL_LANE0 ''BLEND'' (config_ctrl (table_config shift low high)) = 0"
    and "get_named SIO_INTERP1_CTRL_LANE0 ''CLAMP'' (config_ctrl (table_config shift low high)) = 0"
proof -
  note fits = fits_five [OF assms(1)] fits_five [OF assms(2)] fits_five [OF assms(3)]
  note simps = table_ctrl lane.get_put lane.get_put_other lane_names lane_widths fits empty_field
  have "fits 1 (1 :: u32)" by (simp add: fits_def)
  then show "get_named SIO_INTERP0_CTRL_LANE0 ''ADD_RAW'' (config_ctrl (table_config shift low high)) = 1"
    by (simp add: simps del: set_map)
  show "get_named SIO_INTERP1_CTRL_LANE0 ''CLAMP'' (config_ctrl (table_config shift low high)) = 0"
    by (simp add: table_ctrl shared_fields clamp_lane.get_put_other lane_names empty_field del: set_map)
qed (simp_all add: table_ctrl lane.get_put lane.get_put_other lane_names lane_widths fits_five
    assms empty_field del: set_map)

text \<open>Two such lanes: what a step does, and what it keeps.\<close>

definition walking :: "interp_hw \<Rightarrow> bool" where
  "walking h \<longleftrightarrow> (\<exists>s0 l0 m0 s1 l1 m1. {s0, l0, m0, s1, l1, m1} \<subseteq> {..<32}
     \<and> lane_ctrl h 0 = config_ctrl (table_config s0 l0 m0) \<and> lane_ctrl h 1 = config_ctrl (table_config s1 l1 m1))"

definition ctrl_window :: "u32 \<Rightarrow> u32 \<Rightarrow> u32" where
  "ctrl_window c = (let f = (\<lambda>n. unat (get_named SIO_INTERP0_CTRL_LANE0 n c))
     in window (f ''SHIFT'') (f ''MASK_LSB'') (f ''MASK_MSB''))"

lemma walking_step:
  assumes "interp_documented D" and "walking h"
  shows "\<exists>h'. interp_pop_full_result D h
      = (base h 2 + ctrl_window (lane_ctrl h 0) (accum h 0) + ctrl_window (lane_ctrl h 1) (accum h 1), h')
    \<and> walking h' \<and> base h' = base h \<and> lane_ctrl h' = lane_ctrl h
    \<and> accum h' 0 = accum h 0 + base h 0 \<and> accum h' 1 = accum h 1 + base h 1"
proof -
  obtain s0 l0 m0 s1 l1 m1 where less: "s0 < 32" "l0 < 32" "m0 < 32" "s1 < 32" "l1 < 32" "m1 < 32"
    and c: "lane_ctrl h 0 = config_ctrl (table_config s0 l0 m0)" "lane_ctrl h 1 = config_ctrl (table_config s1 l1 m1)"
    using assms(2) by (auto simp: walking_def)
  note fields = table_fields [OF less(1-3)] table_fields [OF less(4-6)]
  have "plain_mode h" by (simp add: plain_mode_def c fields)
  then have "pop_at D h 2 = (full_result h, stepped h)"
    using assms(1) by (simp add: interp_documented_def read_result_def)
  moreover have "walking (stepped h)" using assms(2) by (simp add: walking_def stepped_def)
  ultimately show ?thesis
    by (intro exI [of _ "stepped h"]) (simp add: interp_pop_full_result_def full_result_def lane_shifted_def
        lane_input_def lane_result_def stepped_def ctrl_window_def c fields)
qed

lemma walking_pops:
  assumes "interp_documented D" and "walking h"
  shows "\<exists>h'. pops D n h = (map (\<lambda>k. base h 2 + ctrl_window (lane_ctrl h 0) (accum h 0 + of_nat k * base h 0)
        + ctrl_window (lane_ctrl h 1) (accum h 1 + of_nat k * base h 1)) [0..<n], h')
    \<and> base h' = base h \<and> accum h' 0 = accum h 0 + of_nat n * base h 0
    \<and> accum h' 1 = accum h 1 + of_nat n * base h 1"
  using assms(2)
proof (induction n arbitrary: h)
  case (Suc n)
  obtain h' where h': "interp_pop_full_result D h
      = (base h 2 + ctrl_window (lane_ctrl h 0) (accum h 0) + ctrl_window (lane_ctrl h 1) (accum h 1), h')"
    "walking h'" "base h' = base h" "lane_ctrl h' = lane_ctrl h"
    "accum h' 0 = accum h 0 + base h 0" "accum h' 1 = accum h 1 + base h 1"
    using walking_step [OF assms(1) Suc.prems] by blast
  from Suc.IH [OF h'(2)] obtain h'' where "pops D n h'
      = (map (\<lambda>k. base h 2 + ctrl_window (lane_ctrl h 0) (accum h' 0 + of_nat k * base h 0)
        + ctrl_window (lane_ctrl h 1) (accum h' 1 + of_nat k * base h 1)) [0..<n], h'')"
    "base h'' = base h" "accum h'' 0 = accum h' 0 + of_nat n * base h 0"
    "accum h'' 1 = accum h' 1 + of_nat n * base h 1"
    unfolding h'(3,4) by blast
  then show ?case
    by (intro exI [of _ h'']) (simp add: h' upt_conv_Cons map_Suc_upt [symmetric] algebra_simps
        del: upt_Suc)
qed simp

section \<open>Properties\<close>


text \<open>A device that does what the comments say, and eight entries of four bytes at an address.\<close>

definition plain_device :: interp_device where
  "plain_device = \<lparr>peek_at = read_result, pop_at = \<lambda>h i. (read_result h i, stepped h),
     raw_at = lane_shifted, raw_write = \<lambda>i v h. h\<lparr>accum := (accum h)(i := accum h i + v)\<rparr>,
     base01_write = \<lambda>v h. h\<lparr>base := (base h)(0 := v AND 0xffff, 1 := drop_bit 16 v)\<rparr>\<rparr>"


end
