(* ===== verification/Alarms.thy ===== *)
theory Alarms
  imports Pico_Time
begin

text \<open>
  Alarms and repeating timers, the inline functions of pico/time.h. The pool behind them is in
  time.c, which is not under src/: adding to it and cancelling are the parameter \<open>api\<close>. A pool, a
  callback and its argument are only handed on.
\<close>

type_synonym alarm_id_t = u32
type_synonym alarm_pool = nat
type_synonym callback = string

record alarm_api =
  alarm_pool_get_default :: alarm_pool
  alarm_pool_add_alarm_at ::
    "alarm_pool \<Rightarrow> absolute_time_t \<Rightarrow> callback \<Rightarrow> u32 \<Rightarrow> bool \<Rightarrow> mcu \<Rightarrow> alarm_id_t \<times> mcu"
  alarm_pool_cancel_alarm :: "alarm_pool \<Rightarrow> alarm_id_t \<Rightarrow> mcu \<Rightarrow> bool \<times> mcu"
  alarm_pool_add_repeating_timer_us :: "alarm_pool \<Rightarrow> s64 \<Rightarrow> callback \<Rightarrow> u32 \<Rightarrow> u32 \<Rightarrow> mcu \<Rightarrow> bool \<times> mcu"

section \<open>Alarms\<close>

definition alarm_pool_add_alarm_in_us ::
  "board \<Rightarrow> alarm_api \<Rightarrow> alarm_pool \<Rightarrow> u64 \<Rightarrow> callback \<Rightarrow> u32 \<Rightarrow> bool \<Rightarrow> mcu \<Rightarrow> alarm_id_t \<times> mcu" where
  "alarm_pool_add_alarm_in_us B api pool us cb user_data fire_if_past s =
     (let (now, s) = get_absolute_time B s
      in alarm_pool_add_alarm_at api pool (delayed_by_us now us) cb user_data fire_if_past s)"

definition alarm_pool_add_alarm_in_ms ::
  "board \<Rightarrow> alarm_api \<Rightarrow> alarm_pool \<Rightarrow> u32 \<Rightarrow> callback \<Rightarrow> u32 \<Rightarrow> bool \<Rightarrow> mcu \<Rightarrow> alarm_id_t \<times> mcu" where
  "alarm_pool_add_alarm_in_ms B api pool ms cb user_data fire_if_past s =
     (let (now, s) = get_absolute_time B s
      in alarm_pool_add_alarm_at api pool (delayed_by_ms now ms) cb user_data fire_if_past s)"

definition add_alarm_at ::
  "alarm_api \<Rightarrow> absolute_time_t \<Rightarrow> callback \<Rightarrow> u32 \<Rightarrow> bool \<Rightarrow> mcu \<Rightarrow> alarm_id_t \<times> mcu" where
  "add_alarm_at api time cb user_data fire_if_past =
     alarm_pool_add_alarm_at api (alarm_pool_get_default api) time cb user_data fire_if_past"

definition add_alarm_in_us ::
  "board \<Rightarrow> alarm_api \<Rightarrow> u64 \<Rightarrow> callback \<Rightarrow> u32 \<Rightarrow> bool \<Rightarrow> mcu \<Rightarrow> alarm_id_t \<times> mcu" where
  "add_alarm_in_us B api us cb user_data fire_if_past =
     alarm_pool_add_alarm_in_us B api (alarm_pool_get_default api) us cb user_data fire_if_past"

definition add_alarm_in_ms ::
  "board \<Rightarrow> alarm_api \<Rightarrow> u32 \<Rightarrow> callback \<Rightarrow> u32 \<Rightarrow> bool \<Rightarrow> mcu \<Rightarrow> alarm_id_t \<times> mcu" where
  "add_alarm_in_ms B api ms cb user_data fire_if_past =
     alarm_pool_add_alarm_in_ms B api (alarm_pool_get_default api) ms cb user_data fire_if_past"

definition cancel_alarm :: "alarm_api \<Rightarrow> alarm_id_t \<Rightarrow> mcu \<Rightarrow> bool \<times> mcu" where
  "cancel_alarm api alarm_id = alarm_pool_cancel_alarm api (alarm_pool_get_default api) alarm_id"

section \<open>Repeating timers\<close>

text \<open>The product is taken in 64 signed bits; \<open>out\<close> is the timer's structure.\<close>

definition alarm_pool_add_repeating_timer_ms ::
  "alarm_api \<Rightarrow> alarm_pool \<Rightarrow> u32 \<Rightarrow> callback \<Rightarrow> u32 \<Rightarrow> u32 \<Rightarrow> mcu \<Rightarrow> bool \<times> mcu" where
  "alarm_pool_add_repeating_timer_ms api pool delay_ms cb user_data out =
     alarm_pool_add_repeating_timer_us api pool (scast delay_ms * 1000) cb user_data out"

definition add_repeating_timer_us :: "alarm_api \<Rightarrow> s64 \<Rightarrow> callback \<Rightarrow> u32 \<Rightarrow> u32 \<Rightarrow> mcu \<Rightarrow> bool \<times> mcu" where
  "add_repeating_timer_us api delay_us cb user_data out =
     alarm_pool_add_repeating_timer_us api (alarm_pool_get_default api) delay_us cb user_data out"

definition add_repeating_timer_ms :: "alarm_api \<Rightarrow> u32 \<Rightarrow> callback \<Rightarrow> u32 \<Rightarrow> u32 \<Rightarrow> mcu \<Rightarrow> bool \<times> mcu" where
  "add_repeating_timer_ms api delay_ms cb user_data out =
     alarm_pool_add_repeating_timer_us api (alarm_pool_get_default api) (scast delay_ms * 1000) cb user_data out"

section \<open>Properties\<close>

lemma sint_delay: "sint ((scast (w :: u32) :: s64) * 1000) = sint w * 1000"
proof -
  have "- (2 ^ 31) \<le> sint w" "sint w < 2 ^ 31"
    using sint_greater_eq [of w] sint_less [of w] by simp_all
  moreover have "sint (scast w :: s64) = sint w"
    using calculation by (simp add: signed_scast_eq signed_take_bit_int_eq_self)
  ultimately show ?thesis
    by (simp add: sint_word_ariths signed_take_bit_int_eq_self)
qed

text \<open>
  Alarms are set for the right time. An alarm in so many micro- or milliseconds is set in the
  default pool for that long after the clock's reading, and for the end of time when the sum does
  not fit; a repeating timer's delay in milliseconds, which is negative to count from the start of
  the callback, becomes a thousand times as many microseconds without overflow.
\<close>

theorem alarms_on_time:
  "\<exists>t u d. add_alarm_in_us B api us cb data fire s
        = alarm_pool_add_alarm_at api (alarm_pool_get_default api) t cb data fire (tick s)
    \<and> unat t = min (unat (time_us_at B (reads s)) + unat us) (2 ^ 64 - 1)
    \<and> add_alarm_in_ms B api ms cb data fire s
        = alarm_pool_add_alarm_at api (alarm_pool_get_default api) u cb data fire (tick s)
    \<and> unat u = min (unat (time_us_at B (reads s)) + 1000 * unat ms) (2 ^ 64 - 1)
    \<and> add_repeating_timer_ms api delay_ms cb data out
        = alarm_pool_add_repeating_timer_us api (alarm_pool_get_default api) d cb data out
    \<and> sint d = 1000 * sint delay_ms"
proof (intro exI conjI)
  let ?now = "time_us_at B (reads s)"
  show "add_alarm_in_us B api us cb data fire s
      = alarm_pool_add_alarm_at api (alarm_pool_get_default api) (delayed_by_us ?now us) cb data fire (tick s)"
    and "add_alarm_in_ms B api ms cb data fire s
      = alarm_pool_add_alarm_at api (alarm_pool_get_default api) (delayed_by_ms ?now ms) cb data fire (tick s)"
    by (simp_all add: add_alarm_in_us_def add_alarm_in_ms_def alarm_pool_add_alarm_in_us_def
        alarm_pool_add_alarm_in_ms_def get_absolute_time_def update_us_since_boot_def)
  show "unat (delayed_by_us ?now us) = min (unat ?now + unat us) (2 ^ 64 - 1)"
    by (simp add: unat_delayed_by_us)
  have "unat (ucast ms * 1000 :: u64) = 1000 * unat ms"
    using unat_u32 [of ms] by (simp add: unat_word_ariths unat_ucast_u64)
  then show "unat (delayed_by_ms ?now ms) = min (unat ?now + 1000 * unat ms) (2 ^ 64 - 1)"
    by (simp add: delayed_by_ms_us unat_delayed_by_us)
  show "add_repeating_timer_ms api delay_ms cb data out
      = alarm_pool_add_repeating_timer_us api (alarm_pool_get_default api) (scast delay_ms * 1000) cb data out"
    by (simp add: add_repeating_timer_ms_def)
  show "sint (scast delay_ms * 1000 :: s64) = 1000 * sint delay_ms" by (simp add: sint_delay)
qed

end
