(* ===== verification/Regs_Timer.thy ===== *)
theory Regs_Timer
  imports Regs
begin

text \<open>
  The registers of the timer, hardware/regs/timer.h, in the order of the header.
\<close>

definition TIMER_TIMEHW :: hw_reg where
  "TIMER_TIMEHW = hw_register 0x00000000 0xffffffff (Some 0x00000000)
    [field ''TIMER_TIMEHW'' (Some 0x00000000) 0xffffffff 31 0 WF]"

definition TIMER_TIMELW :: hw_reg where
  "TIMER_TIMELW = hw_register 0x00000004 0xffffffff (Some 0x00000000)
    [field ''TIMER_TIMELW'' (Some 0x00000000) 0xffffffff 31 0 WF]"

definition TIMER_TIMEHR :: hw_reg where
  "TIMER_TIMEHR = hw_register 0x00000008 0xffffffff (Some 0x00000000)
    [field ''TIMER_TIMEHR'' (Some 0x00000000) 0xffffffff 31 0 RO]"

definition TIMER_TIMELR :: hw_reg where
  "TIMER_TIMELR = hw_register 0x0000000c 0xffffffff (Some 0x00000000)
    [field ''TIMER_TIMELR'' (Some 0x00000000) 0xffffffff 31 0 RO]"

definition TIMER_ALARM0 :: hw_reg where
  "TIMER_ALARM0 = hw_register 0x00000010 0xffffffff (Some 0x00000000)
    [field ''TIMER_ALARM0'' (Some 0x00000000) 0xffffffff 31 0 RW]"

definition TIMER_ALARM1 :: hw_reg where
  "TIMER_ALARM1 = hw_register 0x00000014 0xffffffff (Some 0x00000000)
    [field ''TIMER_ALARM1'' (Some 0x00000000) 0xffffffff 31 0 RW]"

definition TIMER_ALARM2 :: hw_reg where
  "TIMER_ALARM2 = hw_register 0x00000018 0xffffffff (Some 0x00000000)
    [field ''TIMER_ALARM2'' (Some 0x00000000) 0xffffffff 31 0 RW]"

definition TIMER_ALARM3 :: hw_reg where
  "TIMER_ALARM3 = hw_register 0x0000001c 0xffffffff (Some 0x00000000)
    [field ''TIMER_ALARM3'' (Some 0x00000000) 0xffffffff 31 0 RW]"

definition TIMER_ARMED :: hw_reg where
  "TIMER_ARMED = hw_register 0x00000020 0x0000000f (Some 0x00000000)
    [field ''TIMER_ARMED'' (Some 0x00000000) 0x0000000f 3 0 WC]"

definition TIMER_TIMERAWH :: hw_reg where
  "TIMER_TIMERAWH = hw_register 0x00000024 0xffffffff (Some 0x00000000)
    [field ''TIMER_TIMERAWH'' (Some 0x00000000) 0xffffffff 31 0 RO]"

definition TIMER_TIMERAWL :: hw_reg where
  "TIMER_TIMERAWL = hw_register 0x00000028 0xffffffff (Some 0x00000000)
    [field ''TIMER_TIMERAWL'' (Some 0x00000000) 0xffffffff 31 0 RO]"

definition TIMER_DBGPAUSE :: hw_reg where
  "TIMER_DBGPAUSE = hw_register 0x0000002c 0x00000006 (Some 0x00000007)
    [field ''DBG1'' (Some 0x1) 0x00000004 2 2 RW,
     field ''DBG0'' (Some 0x1) 0x00000002 1 1 RW]"

definition TIMER_PAUSE :: hw_reg where
  "TIMER_PAUSE = hw_register 0x00000030 0x00000001 (Some 0x00000000)
    [field ''TIMER_PAUSE'' (Some 0x00000000) 0x00000001 0 0 RW]"

definition TIMER_INTR :: hw_reg where
  "TIMER_INTR = hw_register 0x00000034 0x0000000f (Some 0x00000000)
    [field ''ALARM_3'' (Some 0x0) 0x00000008 3 3 WC,
     field ''ALARM_2'' (Some 0x0) 0x00000004 2 2 WC,
     field ''ALARM_1'' (Some 0x0) 0x00000002 1 1 WC,
     field ''ALARM_0'' (Some 0x0) 0x00000001 0 0 WC]"

definition TIMER_INTE :: hw_reg where
  "TIMER_INTE = hw_register 0x00000038 0x0000000f (Some 0x00000000)
    [field ''ALARM_3'' (Some 0x0) 0x00000008 3 3 RW,
     field ''ALARM_2'' (Some 0x0) 0x00000004 2 2 RW,
     field ''ALARM_1'' (Some 0x0) 0x00000002 1 1 RW,
     field ''ALARM_0'' (Some 0x0) 0x00000001 0 0 RW]"

definition TIMER_INTF :: hw_reg where
  "TIMER_INTF = hw_register 0x0000003c 0x0000000f (Some 0x00000000)
    [field ''ALARM_3'' (Some 0x0) 0x00000008 3 3 RW,
     field ''ALARM_2'' (Some 0x0) 0x00000004 2 2 RW,
     field ''ALARM_1'' (Some 0x0) 0x00000002 1 1 RW,
     field ''ALARM_0'' (Some 0x0) 0x00000001 0 0 RW]"

definition TIMER_INTS :: hw_reg where
  "TIMER_INTS = hw_register 0x00000040 0x0000000f (Some 0x00000000)
    [field ''ALARM_3'' (Some 0x0) 0x00000008 3 3 RO,
     field ''ALARM_2'' (Some 0x0) 0x00000004 2 2 RO,
     field ''ALARM_1'' (Some 0x0) 0x00000002 1 1 RO,
     field ''ALARM_0'' (Some 0x0) 0x00000001 0 0 RO]"

definition timer_registers :: "hw_reg list" where
  "timer_registers = [TIMER_TIMEHW, TIMER_TIMELW, TIMER_TIMEHR, TIMER_TIMELR, TIMER_ALARM0, TIMER_ALARM1,
   TIMER_ALARM2, TIMER_ALARM3, TIMER_ARMED, TIMER_TIMERAWH, TIMER_TIMERAWL, TIMER_DBGPAUSE,
   TIMER_PAUSE, TIMER_INTR, TIMER_INTE, TIMER_INTF, TIMER_INTS]"

lemma timer_ok_1:
  "reg_ok TIMER_TIMEHW"
  "reg_ok TIMER_TIMELW"
  "reg_ok TIMER_TIMEHR"
  "reg_ok TIMER_TIMELR"
  "reg_ok TIMER_ALARM0"
  "reg_ok TIMER_ALARM1"
  by (simp_all add: reg_ok_simps
      TIMER_TIMEHW_def
      TIMER_TIMELW_def
      TIMER_TIMEHR_def
      TIMER_TIMELR_def
      TIMER_ALARM0_def
      TIMER_ALARM1_def)

lemma timer_ok_2:
  "reg_ok TIMER_ALARM2"
  "reg_ok TIMER_ALARM3"
  "reg_ok TIMER_ARMED"
  "reg_ok TIMER_TIMERAWH"
  "reg_ok TIMER_TIMERAWL"
  "reg_ok TIMER_DBGPAUSE"
  by (simp_all add: reg_ok_simps
      TIMER_ALARM2_def
      TIMER_ALARM3_def
      TIMER_ARMED_def
      TIMER_TIMERAWH_def
      TIMER_TIMERAWL_def
      TIMER_DBGPAUSE_def)

lemma timer_ok_3:
  "reg_ok TIMER_PAUSE"
  "reg_ok TIMER_INTR"
  "reg_ok TIMER_INTE"
  "reg_ok TIMER_INTF"
  "reg_ok TIMER_INTS"
  by (simp_all add: reg_ok_simps
      TIMER_PAUSE_def
      TIMER_INTR_def
      TIMER_INTE_def
      TIMER_INTF_def
      TIMER_INTS_def)

lemma timer_registers_ok: "list_all reg_ok timer_registers"
  by (simp add: timer_registers_def timer_ok_1 timer_ok_2 timer_ok_3)

lemma timer_offsets: "map r_offset timer_registers =
  [0x00000000, 0x00000004, 0x00000008, 0x0000000c, 0x00000010, 0x00000014, 0x00000018,
   0x0000001c, 0x00000020, 0x00000024, 0x00000028, 0x0000002c, 0x00000030, 0x00000034,
   0x00000038, 0x0000003c, 0x00000040]"
  by (simp add: timer_registers_def hw_register_def
      TIMER_TIMEHW_def TIMER_TIMELW_def TIMER_TIMEHR_def TIMER_TIMELR_def TIMER_ALARM0_def
   TIMER_ALARM1_def TIMER_ALARM2_def TIMER_ALARM3_def TIMER_ARMED_def TIMER_TIMERAWH_def
   TIMER_TIMERAWL_def TIMER_DBGPAUSE_def TIMER_PAUSE_def TIMER_INTR_def TIMER_INTE_def
   TIMER_INTF_def TIMER_INTS_def)

end
