(* ===== verification/Regs_I2c.thy ===== *)
theory Regs_I2c
  imports Regs
begin

text \<open>
  The registers of the I2C, hardware/regs/i2c.h, in the order of the header.
\<close>

definition I2C_IC_CON :: hw_reg where
  "I2C_IC_CON = hw_register 0x00000000 0x000007ff (Some 0x00000065)
    [field ''STOP_DET_IF_MASTER_ACTIVE'' (Some 0x0) 0x00000400 10 10 RO,
     enum_field ''RX_FIFO_FULL_HLD_CTRL'' (Some 0x0) 0x00000200 9 9 RW
        [(''DISABLED'', 0x0), (''ENABLED'', 0x1)],
     enum_field ''TX_EMPTY_CTRL'' (Some 0x0) 0x00000100 8 8 RW
        [(''DISABLED'', 0x0), (''ENABLED'', 0x1)],
     enum_field ''STOP_DET_IFADDRESSED'' (Some 0x0) 0x00000080 7 7 RW
        [(''DISABLED'', 0x0), (''ENABLED'', 0x1)],
     enum_field ''IC_SLAVE_DISABLE'' (Some 0x1) 0x00000040 6 6 RW
        [(''SLAVE_ENABLED'', 0x0), (''SLAVE_DISABLED'', 0x1)],
     enum_field ''IC_RESTART_EN'' (Some 0x1) 0x00000020 5 5 RW
        [(''DISABLED'', 0x0), (''ENABLED'', 0x1)],
     enum_field ''IC_10BITADDR_MASTER'' (Some 0x0) 0x00000010 4 4 RW
        [(''ADDR_7BITS'', 0x0), (''ADDR_10BITS'', 0x1)],
     enum_field ''IC_10BITADDR_SLAVE'' (Some 0x0) 0x00000008 3 3 RW
        [(''ADDR_7BITS'', 0x0), (''ADDR_10BITS'', 0x1)],
     enum_field ''SPEED'' (Some 0x2) 0x00000006 2 1 RW
        [(''STANDARD'', 0x1), (''FAST'', 0x2), (''HIGH'', 0x3)],
     enum_field ''MASTER_MODE'' (Some 0x1) 0x00000001 0 0 RW
        [(''DISABLED'', 0x0), (''ENABLED'', 0x1)]]"

definition I2C_IC_TAR :: hw_reg where
  "I2C_IC_TAR = hw_register 0x00000004 0x00000fff (Some 0x00000055)
    [enum_field ''SPECIAL'' (Some 0x0) 0x00000800 11 11 RW
        [(''DISABLED'', 0x0), (''ENABLED'', 0x1)],
     enum_field ''GC_OR_START'' (Some 0x0) 0x00000400 10 10 RW
        [(''GENERAL_CALL'', 0x0), (''START_BYTE'', 0x1)],
     field ''IC_TAR'' (Some 0x055) 0x000003ff 9 0 RW]"

definition I2C_IC_SAR :: hw_reg where
  "I2C_IC_SAR = hw_register 0x00000008 0x000003ff (Some 0x00000055)
    [field ''IC_SAR'' (Some 0x055) 0x000003ff 9 0 RW]"

definition I2C_IC_DATA_CMD :: hw_reg where
  "I2C_IC_DATA_CMD = hw_register 0x00000010 0x00000fff (Some 0x00000000)
    [enum_field ''FIRST_DATA_BYTE'' (Some 0x0) 0x00000800 11 11 RO
        [(''INACTIVE'', 0x0), (''ACTIVE'', 0x1)],
     enum_field ''RESTART'' (Some 0x0) 0x00000400 10 10 SC
        [(''DISABLE'', 0x0), (''ENABLE'', 0x1)],
     enum_field ''STOP'' (Some 0x0) 0x00000200 9 9 SC
        [(''DISABLE'', 0x0), (''ENABLE'', 0x1)],
     enum_field ''CMD'' (Some 0x0) 0x00000100 8 8 SC
        [(''WRITE'', 0x0), (''READ'', 0x1)],
     field ''DAT'' (Some 0x00) 0x000000ff 7 0 RW]"

definition I2C_IC_SS_SCL_HCNT :: hw_reg where
  "I2C_IC_SS_SCL_HCNT = hw_register 0x00000014 0x0000ffff (Some 0x00000028)
    [field ''IC_SS_SCL_HCNT'' (Some 0x0028) 0x0000ffff 15 0 RW]"

definition I2C_IC_SS_SCL_LCNT :: hw_reg where
  "I2C_IC_SS_SCL_LCNT = hw_register 0x00000018 0x0000ffff (Some 0x0000002f)
    [field ''IC_SS_SCL_LCNT'' (Some 0x002f) 0x0000ffff 15 0 RW]"

definition I2C_IC_FS_SCL_HCNT :: hw_reg where
  "I2C_IC_FS_SCL_HCNT = hw_register 0x0000001c 0x0000ffff (Some 0x00000006)
    [field ''IC_FS_SCL_HCNT'' (Some 0x0006) 0x0000ffff 15 0 RW]"

definition I2C_IC_FS_SCL_LCNT :: hw_reg where
  "I2C_IC_FS_SCL_LCNT = hw_register 0x00000020 0x0000ffff (Some 0x0000000d)
    [field ''IC_FS_SCL_LCNT'' (Some 0x000d) 0x0000ffff 15 0 RW]"

definition I2C_IC_INTR_STAT :: hw_reg where
  "I2C_IC_INTR_STAT = hw_register 0x0000002c 0x00001fff (Some 0x00000000)
    [enum_field ''R_RESTART_DET'' (Some 0x0) 0x00001000 12 12 RO
        [(''INACTIVE'', 0x0), (''ACTIVE'', 0x1)],
     enum_field ''R_GEN_CALL'' (Some 0x0) 0x00000800 11 11 RO
        [(''INACTIVE'', 0x0), (''ACTIVE'', 0x1)],
     enum_field ''R_START_DET'' (Some 0x0) 0x00000400 10 10 RO
        [(''INACTIVE'', 0x0), (''ACTIVE'', 0x1)],
     enum_field ''R_STOP_DET'' (Some 0x0) 0x00000200 9 9 RO
        [(''INACTIVE'', 0x0), (''ACTIVE'', 0x1)],
     enum_field ''R_ACTIVITY'' (Some 0x0) 0x00000100 8 8 RO
        [(''INACTIVE'', 0x0), (''ACTIVE'', 0x1)],
     enum_field ''R_RX_DONE'' (Some 0x0) 0x00000080 7 7 RO
        [(''INACTIVE'', 0x0), (''ACTIVE'', 0x1)],
     enum_field ''R_TX_ABRT'' (Some 0x0) 0x00000040 6 6 RO
        [(''INACTIVE'', 0x0), (''ACTIVE'', 0x1)],
     enum_field ''R_RD_REQ'' (Some 0x0) 0x00000020 5 5 RO
        [(''INACTIVE'', 0x0), (''ACTIVE'', 0x1)],
     enum_field ''R_TX_EMPTY'' (Some 0x0) 0x00000010 4 4 RO
        [(''INACTIVE'', 0x0), (''ACTIVE'', 0x1)],
     enum_field ''R_TX_OVER'' (Some 0x0) 0x00000008 3 3 RO
        [(''INACTIVE'', 0x0), (''ACTIVE'', 0x1)],
     enum_field ''R_RX_FULL'' (Some 0x0) 0x00000004 2 2 RO
        [(''INACTIVE'', 0x0), (''ACTIVE'', 0x1)],
     enum_field ''R_RX_OVER'' (Some 0x0) 0x00000002 1 1 RO
        [(''INACTIVE'', 0x0), (''ACTIVE'', 0x1)],
     enum_field ''R_RX_UNDER'' (Some 0x0) 0x00000001 0 0 RO
        [(''INACTIVE'', 0x0), (''ACTIVE'', 0x1)]]"

definition I2C_IC_INTR_MASK :: hw_reg where
  "I2C_IC_INTR_MASK = hw_register 0x00000030 0x00001fff (Some 0x000008ff)
    [enum_field ''M_RESTART_DET'' (Some 0x0) 0x00001000 12 12 RW
        [(''ENABLED'', 0x0), (''DISABLED'', 0x1)],
     enum_field ''M_GEN_CALL'' (Some 0x1) 0x00000800 11 11 RW
        [(''ENABLED'', 0x0), (''DISABLED'', 0x1)],
     enum_field ''M_START_DET'' (Some 0x0) 0x00000400 10 10 RW
        [(''ENABLED'', 0x0), (''DISABLED'', 0x1)],
     enum_field ''M_STOP_DET'' (Some 0x0) 0x00000200 9 9 RW
        [(''ENABLED'', 0x0), (''DISABLED'', 0x1)],
     enum_field ''M_ACTIVITY'' (Some 0x0) 0x00000100 8 8 RW
        [(''ENABLED'', 0x0), (''DISABLED'', 0x1)],
     enum_field ''M_RX_DONE'' (Some 0x1) 0x00000080 7 7 RW
        [(''ENABLED'', 0x0), (''DISABLED'', 0x1)],
     enum_field ''M_TX_ABRT'' (Some 0x1) 0x00000040 6 6 RW
        [(''ENABLED'', 0x0), (''DISABLED'', 0x1)],
     enum_field ''M_RD_REQ'' (Some 0x1) 0x00000020 5 5 RW
        [(''ENABLED'', 0x0), (''DISABLED'', 0x1)],
     enum_field ''M_TX_EMPTY'' (Some 0x1) 0x00000010 4 4 RW
        [(''ENABLED'', 0x0), (''DISABLED'', 0x1)],
     enum_field ''M_TX_OVER'' (Some 0x1) 0x00000008 3 3 RW
        [(''ENABLED'', 0x0), (''DISABLED'', 0x1)],
     enum_field ''M_RX_FULL'' (Some 0x1) 0x00000004 2 2 RW
        [(''ENABLED'', 0x0), (''DISABLED'', 0x1)],
     enum_field ''M_RX_OVER'' (Some 0x1) 0x00000002 1 1 RW
        [(''ENABLED'', 0x0), (''DISABLED'', 0x1)],
     enum_field ''M_RX_UNDER'' (Some 0x1) 0x00000001 0 0 RW
        [(''ENABLED'', 0x0), (''DISABLED'', 0x1)]]"

definition I2C_IC_RAW_INTR_STAT :: hw_reg where
  "I2C_IC_RAW_INTR_STAT = hw_register 0x00000034 0x00001fff (Some 0x00000000)
    [enum_field ''RESTART_DET'' (Some 0x0) 0x00001000 12 12 RO
        [(''INACTIVE'', 0x0), (''ACTIVE'', 0x1)],
     enum_field ''GEN_CALL'' (Some 0x0) 0x00000800 11 11 RO
        [(''INACTIVE'', 0x0), (''ACTIVE'', 0x1)],
     enum_field ''START_DET'' (Some 0x0) 0x00000400 10 10 RO
        [(''INACTIVE'', 0x0), (''ACTIVE'', 0x1)],
     enum_field ''STOP_DET'' (Some 0x0) 0x00000200 9 9 RO
        [(''INACTIVE'', 0x0), (''ACTIVE'', 0x1)],
     enum_field ''ACTIVITY'' (Some 0x0) 0x00000100 8 8 RO
        [(''INACTIVE'', 0x0), (''ACTIVE'', 0x1)],
     enum_field ''RX_DONE'' (Some 0x0) 0x00000080 7 7 RO
        [(''INACTIVE'', 0x0), (''ACTIVE'', 0x1)],
     enum_field ''TX_ABRT'' (Some 0x0) 0x00000040 6 6 RO
        [(''INACTIVE'', 0x0), (''ACTIVE'', 0x1)],
     enum_field ''RD_REQ'' (Some 0x0) 0x00000020 5 5 RO
        [(''INACTIVE'', 0x0), (''ACTIVE'', 0x1)],
     enum_field ''TX_EMPTY'' (Some 0x0) 0x00000010 4 4 RO
        [(''INACTIVE'', 0x0), (''ACTIVE'', 0x1)],
     enum_field ''TX_OVER'' (Some 0x0) 0x00000008 3 3 RO
        [(''INACTIVE'', 0x0), (''ACTIVE'', 0x1)],
     enum_field ''RX_FULL'' (Some 0x0) 0x00000004 2 2 RO
        [(''INACTIVE'', 0x0), (''ACTIVE'', 0x1)],
     enum_field ''RX_OVER'' (Some 0x0) 0x00000002 1 1 RO
        [(''INACTIVE'', 0x0), (''ACTIVE'', 0x1)],
     enum_field ''RX_UNDER'' (Some 0x0) 0x00000001 0 0 RO
        [(''INACTIVE'', 0x0), (''ACTIVE'', 0x1)]]"

definition I2C_IC_RX_TL :: hw_reg where
  "I2C_IC_RX_TL = hw_register 0x00000038 0x000000ff (Some 0x00000000)
    [field ''RX_TL'' (Some 0x00) 0x000000ff 7 0 RW]"

definition I2C_IC_TX_TL :: hw_reg where
  "I2C_IC_TX_TL = hw_register 0x0000003c 0x000000ff (Some 0x00000000)
    [field ''TX_TL'' (Some 0x00) 0x000000ff 7 0 RW]"

definition I2C_IC_CLR_INTR :: hw_reg where
  "I2C_IC_CLR_INTR = hw_register 0x00000040 0x00000001 (Some 0x00000000)
    [field ''CLR_INTR'' (Some 0x0) 0x00000001 0 0 RO]"

definition I2C_IC_CLR_RX_UNDER :: hw_reg where
  "I2C_IC_CLR_RX_UNDER = hw_register 0x00000044 0x00000001 (Some 0x00000000)
    [field ''CLR_RX_UNDER'' (Some 0x0) 0x00000001 0 0 RO]"

definition I2C_IC_CLR_RX_OVER :: hw_reg where
  "I2C_IC_CLR_RX_OVER = hw_register 0x00000048 0x00000001 (Some 0x00000000)
    [field ''CLR_RX_OVER'' (Some 0x0) 0x00000001 0 0 RO]"

definition I2C_IC_CLR_TX_OVER :: hw_reg where
  "I2C_IC_CLR_TX_OVER = hw_register 0x0000004c 0x00000001 (Some 0x00000000)
    [field ''CLR_TX_OVER'' (Some 0x0) 0x00000001 0 0 RO]"

definition I2C_IC_CLR_RD_REQ :: hw_reg where
  "I2C_IC_CLR_RD_REQ = hw_register 0x00000050 0x00000001 (Some 0x00000000)
    [field ''CLR_RD_REQ'' (Some 0x0) 0x00000001 0 0 RO]"

definition I2C_IC_CLR_TX_ABRT :: hw_reg where
  "I2C_IC_CLR_TX_ABRT = hw_register 0x00000054 0x00000001 (Some 0x00000000)
    [field ''CLR_TX_ABRT'' (Some 0x0) 0x00000001 0 0 RO]"

definition I2C_IC_CLR_RX_DONE :: hw_reg where
  "I2C_IC_CLR_RX_DONE = hw_register 0x00000058 0x00000001 (Some 0x00000000)
    [field ''CLR_RX_DONE'' (Some 0x0) 0x00000001 0 0 RO]"

definition I2C_IC_CLR_ACTIVITY :: hw_reg where
  "I2C_IC_CLR_ACTIVITY = hw_register 0x0000005c 0x00000001 (Some 0x00000000)
    [field ''CLR_ACTIVITY'' (Some 0x0) 0x00000001 0 0 RO]"

definition I2C_IC_CLR_STOP_DET :: hw_reg where
  "I2C_IC_CLR_STOP_DET = hw_register 0x00000060 0x00000001 (Some 0x00000000)
    [field ''CLR_STOP_DET'' (Some 0x0) 0x00000001 0 0 RO]"

definition I2C_IC_CLR_START_DET :: hw_reg where
  "I2C_IC_CLR_START_DET = hw_register 0x00000064 0x00000001 (Some 0x00000000)
    [field ''CLR_START_DET'' (Some 0x0) 0x00000001 0 0 RO]"

definition I2C_IC_CLR_GEN_CALL :: hw_reg where
  "I2C_IC_CLR_GEN_CALL = hw_register 0x00000068 0x00000001 (Some 0x00000000)
    [field ''CLR_GEN_CALL'' (Some 0x0) 0x00000001 0 0 RO]"

definition I2C_IC_ENABLE :: hw_reg where
  "I2C_IC_ENABLE = hw_register 0x0000006c 0x00000007 (Some 0x00000000)
    [enum_field ''TX_CMD_BLOCK'' (Some 0x0) 0x00000004 2 2 RW
        [(''NOT_BLOCKED'', 0x0), (''BLOCKED'', 0x1)],
     enum_field ''ABORT'' (Some 0x0) 0x00000002 1 1 RW
        [(''DISABLE'', 0x0), (''ENABLED'', 0x1)],
     enum_field ''ENABLE'' (Some 0x0) 0x00000001 0 0 RW
        [(''DISABLED'', 0x0), (''ENABLED'', 0x1)]]"

definition I2C_IC_STATUS :: hw_reg where
  "I2C_IC_STATUS = hw_register 0x00000070 0x0000007f (Some 0x00000006)
    [enum_field ''SLV_ACTIVITY'' (Some 0x0) 0x00000040 6 6 RO
        [(''IDLE'', 0x0), (''ACTIVE'', 0x1)],
     enum_field ''MST_ACTIVITY'' (Some 0x0) 0x00000020 5 5 RO
        [(''IDLE'', 0x0), (''ACTIVE'', 0x1)],
     enum_field ''RFF'' (Some 0x0) 0x00000010 4 4 RO
        [(''NOT_FULL'', 0x0), (''FULL'', 0x1)],
     enum_field ''RFNE'' (Some 0x0) 0x00000008 3 3 RO
        [(''EMPTY'', 0x0), (''NOT_EMPTY'', 0x1)],
     enum_field ''TFE'' (Some 0x1) 0x00000004 2 2 RO
        [(''NON_EMPTY'', 0x0), (''EMPTY'', 0x1)],
     enum_field ''TFNF'' (Some 0x1) 0x00000002 1 1 RO
        [(''FULL'', 0x0), (''NOT_FULL'', 0x1)],
     enum_field ''ACTIVITY'' (Some 0x0) 0x00000001 0 0 RO
        [(''INACTIVE'', 0x0), (''ACTIVE'', 0x1)]]"

definition I2C_IC_TXFLR :: hw_reg where
  "I2C_IC_TXFLR = hw_register 0x00000074 0x0000001f (Some 0x00000000)
    [field ''TXFLR'' (Some 0x00) 0x0000001f 4 0 RO]"

definition I2C_IC_RXFLR :: hw_reg where
  "I2C_IC_RXFLR = hw_register 0x00000078 0x0000001f (Some 0x00000000)
    [field ''RXFLR'' (Some 0x00) 0x0000001f 4 0 RO]"

definition I2C_IC_SDA_HOLD :: hw_reg where
  "I2C_IC_SDA_HOLD = hw_register 0x0000007c 0x00ffffff (Some 0x00000001)
    [field ''IC_SDA_RX_HOLD'' (Some 0x00) 0x00ff0000 23 16 RW,
     field ''IC_SDA_TX_HOLD'' (Some 0x0001) 0x0000ffff 15 0 RW]"

definition I2C_IC_TX_ABRT_SOURCE :: hw_reg where
  "I2C_IC_TX_ABRT_SOURCE = hw_register 0x00000080 0xff81ffff (Some 0x00000000)
    [field ''TX_FLUSH_CNT'' (Some 0x000) 0xff800000 31 23 RO,
     enum_field ''ABRT_USER_ABRT'' (Some 0x0) 0x00010000 16 16 RO
        [(''ABRT_USER_ABRT_VOID'', 0x0), (''ABRT_USER_ABRT_GENERATED'', 0x1)],
     enum_field ''ABRT_SLVRD_INTX'' (Some 0x0) 0x00008000 15 15 RO
        [(''ABRT_SLVRD_INTX_VOID'', 0x0), (''ABRT_SLVRD_INTX_GENERATED'', 0x1)],
     enum_field ''ABRT_SLV_ARBLOST'' (Some 0x0) 0x00004000 14 14 RO
        [(''ABRT_SLV_ARBLOST_VOID'', 0x0), (''ABRT_SLV_ARBLOST_GENERATED'', 0x1)],
     enum_field ''ABRT_SLVFLUSH_TXFIFO'' (Some 0x0) 0x00002000 13 13 RO
        [(''ABRT_SLVFLUSH_TXFIFO_VOID'', 0x0), (''ABRT_SLVFLUSH_TXFIFO_GENERATED'', 0x1)],
     enum_field ''ARB_LOST'' (Some 0x0) 0x00001000 12 12 RO
        [(''ABRT_LOST_VOID'', 0x0), (''ABRT_LOST_GENERATED'', 0x1)],
     enum_field ''ABRT_MASTER_DIS'' (Some 0x0) 0x00000800 11 11 RO
        [(''ABRT_MASTER_DIS_VOID'', 0x0), (''ABRT_MASTER_DIS_GENERATED'', 0x1)],
     enum_field ''ABRT_10B_RD_NORSTRT'' (Some 0x0) 0x00000400 10 10 RO
        [(''ABRT_10B_RD_VOID'', 0x0), (''ABRT_10B_RD_GENERATED'', 0x1)],
     enum_field ''ABRT_SBYTE_NORSTRT'' (Some 0x0) 0x00000200 9 9 RO
        [(''ABRT_SBYTE_NORSTRT_VOID'', 0x0), (''ABRT_SBYTE_NORSTRT_GENERATED'', 0x1)],
     enum_field ''ABRT_HS_NORSTRT'' (Some 0x0) 0x00000100 8 8 RO
        [(''ABRT_HS_NORSTRT_VOID'', 0x0), (''ABRT_HS_NORSTRT_GENERATED'', 0x1)],
     enum_field ''ABRT_SBYTE_ACKDET'' (Some 0x0) 0x00000080 7 7 RO
        [(''ABRT_SBYTE_ACKDET_VOID'', 0x0), (''ABRT_SBYTE_ACKDET_GENERATED'', 0x1)],
     enum_field ''ABRT_HS_ACKDET'' (Some 0x0) 0x00000040 6 6 RO
        [(''ABRT_HS_ACK_VOID'', 0x0), (''ABRT_HS_ACK_GENERATED'', 0x1)],
     enum_field ''ABRT_GCALL_READ'' (Some 0x0) 0x00000020 5 5 RO
        [(''ABRT_GCALL_READ_VOID'', 0x0), (''ABRT_GCALL_READ_GENERATED'', 0x1)],
     enum_field ''ABRT_GCALL_NOACK'' (Some 0x0) 0x00000010 4 4 RO
        [(''ABRT_GCALL_NOACK_VOID'', 0x0), (''ABRT_GCALL_NOACK_GENERATED'', 0x1)],
     enum_field ''ABRT_TXDATA_NOACK'' (Some 0x0) 0x00000008 3 3 RO
        [(''ABRT_TXDATA_NOACK_VOID'', 0x0), (''ABRT_TXDATA_NOACK_GENERATED'', 0x1)],
     enum_field ''ABRT_10ADDR2_NOACK'' (Some 0x0) 0x00000004 2 2 RO
        [(''INACTIVE'', 0x0), (''ACTIVE'', 0x1)],
     enum_field ''ABRT_10ADDR1_NOACK'' (Some 0x0) 0x00000002 1 1 RO
        [(''INACTIVE'', 0x0), (''ACTIVE'', 0x1)],
     enum_field ''ABRT_7B_ADDR_NOACK'' (Some 0x0) 0x00000001 0 0 RO
        [(''INACTIVE'', 0x0), (''ACTIVE'', 0x1)]]"

definition I2C_IC_SLV_DATA_NACK_ONLY :: hw_reg where
  "I2C_IC_SLV_DATA_NACK_ONLY = hw_register 0x00000084 0x00000001 (Some 0x00000000)
    [enum_field ''NACK'' (Some 0x0) 0x00000001 0 0 RW
        [(''DISABLED'', 0x0), (''ENABLED'', 0x1)]]"

definition I2C_IC_DMA_CR :: hw_reg where
  "I2C_IC_DMA_CR = hw_register 0x00000088 0x00000003 (Some 0x00000000)
    [enum_field ''TDMAE'' (Some 0x0) 0x00000002 1 1 RW
        [(''DISABLED'', 0x0), (''ENABLED'', 0x1)],
     enum_field ''RDMAE'' (Some 0x0) 0x00000001 0 0 RW
        [(''DISABLED'', 0x0), (''ENABLED'', 0x1)]]"

definition I2C_IC_DMA_TDLR :: hw_reg where
  "I2C_IC_DMA_TDLR = hw_register 0x0000008c 0x0000000f (Some 0x00000000)
    [field ''DMATDL'' (Some 0x0) 0x0000000f 3 0 RW]"

definition I2C_IC_DMA_RDLR :: hw_reg where
  "I2C_IC_DMA_RDLR = hw_register 0x00000090 0x0000000f (Some 0x00000000)
    [field ''DMARDL'' (Some 0x0) 0x0000000f 3 0 RW]"

definition I2C_IC_SDA_SETUP :: hw_reg where
  "I2C_IC_SDA_SETUP = hw_register 0x00000094 0x000000ff (Some 0x00000064)
    [field ''SDA_SETUP'' (Some 0x64) 0x000000ff 7 0 RW]"

definition I2C_IC_ACK_GENERAL_CALL :: hw_reg where
  "I2C_IC_ACK_GENERAL_CALL = hw_register 0x00000098 0x00000001 (Some 0x00000001)
    [enum_field ''ACK_GEN_CALL'' (Some 0x1) 0x00000001 0 0 RW
        [(''DISABLED'', 0x0), (''ENABLED'', 0x1)]]"

definition I2C_IC_ENABLE_STATUS :: hw_reg where
  "I2C_IC_ENABLE_STATUS = hw_register 0x0000009c 0x00000007 (Some 0x00000000)
    [enum_field ''SLV_RX_DATA_LOST'' (Some 0x0) 0x00000004 2 2 RO
        [(''INACTIVE'', 0x0), (''ACTIVE'', 0x1)],
     enum_field ''SLV_DISABLED_WHILE_BUSY'' (Some 0x0) 0x00000002 1 1 RO
        [(''INACTIVE'', 0x0), (''ACTIVE'', 0x1)],
     enum_field ''IC_EN'' (Some 0x0) 0x00000001 0 0 RO
        [(''DISABLED'', 0x0), (''ENABLED'', 0x1)]]"

definition I2C_IC_FS_SPKLEN :: hw_reg where
  "I2C_IC_FS_SPKLEN = hw_register 0x000000a0 0x000000ff (Some 0x00000007)
    [field ''IC_FS_SPKLEN'' (Some 0x07) 0x000000ff 7 0 RW]"

definition I2C_IC_CLR_RESTART_DET :: hw_reg where
  "I2C_IC_CLR_RESTART_DET = hw_register 0x000000a8 0x00000001 (Some 0x00000000)
    [field ''CLR_RESTART_DET'' (Some 0x0) 0x00000001 0 0 RO]"

definition I2C_IC_COMP_PARAM_1 :: hw_reg where
  "I2C_IC_COMP_PARAM_1 = hw_register 0x000000f4 0x00ffffff (Some 0x00000000)
    [field ''TX_BUFFER_DEPTH'' (Some 0x00) 0x00ff0000 23 16 RO,
     field ''RX_BUFFER_DEPTH'' (Some 0x00) 0x0000ff00 15 8 RO,
     field ''ADD_ENCODED_PARAMS'' (Some 0x0) 0x00000080 7 7 RO,
     field ''HAS_DMA'' (Some 0x0) 0x00000040 6 6 RO,
     field ''INTR_IO'' (Some 0x0) 0x00000020 5 5 RO,
     field ''HC_COUNT_VALUES'' (Some 0x0) 0x00000010 4 4 RO,
     field ''MAX_SPEED_MODE'' (Some 0x0) 0x0000000c 3 2 RO,
     field ''APB_DATA_WIDTH'' (Some 0x0) 0x00000003 1 0 RO]"

definition I2C_IC_COMP_VERSION :: hw_reg where
  "I2C_IC_COMP_VERSION = hw_register 0x000000f8 0xffffffff (Some 0x3230312a)
    [field ''IC_COMP_VERSION'' (Some 0x3230312a) 0xffffffff 31 0 RO]"

definition I2C_IC_COMP_TYPE :: hw_reg where
  "I2C_IC_COMP_TYPE = hw_register 0x000000fc 0xffffffff (Some 0x44570140)
    [field ''IC_COMP_TYPE'' (Some 0x44570140) 0xffffffff 31 0 RO]"

definition i2c_registers :: "hw_reg list" where
  "i2c_registers = [I2C_IC_CON, I2C_IC_TAR, I2C_IC_SAR, I2C_IC_DATA_CMD, I2C_IC_SS_SCL_HCNT,
   I2C_IC_SS_SCL_LCNT, I2C_IC_FS_SCL_HCNT, I2C_IC_FS_SCL_LCNT, I2C_IC_INTR_STAT,
   I2C_IC_INTR_MASK, I2C_IC_RAW_INTR_STAT, I2C_IC_RX_TL, I2C_IC_TX_TL, I2C_IC_CLR_INTR,
   I2C_IC_CLR_RX_UNDER, I2C_IC_CLR_RX_OVER, I2C_IC_CLR_TX_OVER, I2C_IC_CLR_RD_REQ,
   I2C_IC_CLR_TX_ABRT, I2C_IC_CLR_RX_DONE, I2C_IC_CLR_ACTIVITY, I2C_IC_CLR_STOP_DET,
   I2C_IC_CLR_START_DET, I2C_IC_CLR_GEN_CALL, I2C_IC_ENABLE, I2C_IC_STATUS, I2C_IC_TXFLR,
   I2C_IC_RXFLR, I2C_IC_SDA_HOLD, I2C_IC_TX_ABRT_SOURCE, I2C_IC_SLV_DATA_NACK_ONLY,
   I2C_IC_DMA_CR, I2C_IC_DMA_TDLR, I2C_IC_DMA_RDLR, I2C_IC_SDA_SETUP,
   I2C_IC_ACK_GENERAL_CALL, I2C_IC_ENABLE_STATUS, I2C_IC_FS_SPKLEN, I2C_IC_CLR_RESTART_DET,
   I2C_IC_COMP_PARAM_1, I2C_IC_COMP_VERSION, I2C_IC_COMP_TYPE]"

lemma i2c_ok_1:
  "reg_ok I2C_IC_CON"
  "reg_ok I2C_IC_TAR"
  "reg_ok I2C_IC_SAR"
  "reg_ok I2C_IC_DATA_CMD"
  "reg_ok I2C_IC_SS_SCL_HCNT"
  "reg_ok I2C_IC_SS_SCL_LCNT"
  by (simp_all add: reg_ok_simps
      I2C_IC_CON_def
      I2C_IC_TAR_def
      I2C_IC_SAR_def
      I2C_IC_DATA_CMD_def
      I2C_IC_SS_SCL_HCNT_def
      I2C_IC_SS_SCL_LCNT_def)

lemma i2c_ok_2:
  "reg_ok I2C_IC_FS_SCL_HCNT"
  "reg_ok I2C_IC_FS_SCL_LCNT"
  "reg_ok I2C_IC_INTR_STAT"
  "reg_ok I2C_IC_INTR_MASK"
  "reg_ok I2C_IC_RAW_INTR_STAT"
  "reg_ok I2C_IC_RX_TL"
  by (simp_all add: reg_ok_simps
      I2C_IC_FS_SCL_HCNT_def
      I2C_IC_FS_SCL_LCNT_def
      I2C_IC_INTR_STAT_def
      I2C_IC_INTR_MASK_def
      I2C_IC_RAW_INTR_STAT_def
      I2C_IC_RX_TL_def)

lemma i2c_ok_3:
  "reg_ok I2C_IC_TX_TL"
  "reg_ok I2C_IC_CLR_INTR"
  "reg_ok I2C_IC_CLR_RX_UNDER"
  "reg_ok I2C_IC_CLR_RX_OVER"
  "reg_ok I2C_IC_CLR_TX_OVER"
  "reg_ok I2C_IC_CLR_RD_REQ"
  by (simp_all add: reg_ok_simps
      I2C_IC_TX_TL_def
      I2C_IC_CLR_INTR_def
      I2C_IC_CLR_RX_UNDER_def
      I2C_IC_CLR_RX_OVER_def
      I2C_IC_CLR_TX_OVER_def
      I2C_IC_CLR_RD_REQ_def)

lemma i2c_ok_4:
  "reg_ok I2C_IC_CLR_TX_ABRT"
  "reg_ok I2C_IC_CLR_RX_DONE"
  "reg_ok I2C_IC_CLR_ACTIVITY"
  "reg_ok I2C_IC_CLR_STOP_DET"
  "reg_ok I2C_IC_CLR_START_DET"
  "reg_ok I2C_IC_CLR_GEN_CALL"
  by (simp_all add: reg_ok_simps
      I2C_IC_CLR_TX_ABRT_def
      I2C_IC_CLR_RX_DONE_def
      I2C_IC_CLR_ACTIVITY_def
      I2C_IC_CLR_STOP_DET_def
      I2C_IC_CLR_START_DET_def
      I2C_IC_CLR_GEN_CALL_def)

lemma i2c_ok_5:
  "reg_ok I2C_IC_ENABLE"
  "reg_ok I2C_IC_STATUS"
  "reg_ok I2C_IC_TXFLR"
  "reg_ok I2C_IC_RXFLR"
  "reg_ok I2C_IC_SDA_HOLD"
  "reg_ok I2C_IC_TX_ABRT_SOURCE"
  by (simp_all add: reg_ok_simps
      I2C_IC_ENABLE_def
      I2C_IC_STATUS_def
      I2C_IC_TXFLR_def
      I2C_IC_RXFLR_def
      I2C_IC_SDA_HOLD_def
      I2C_IC_TX_ABRT_SOURCE_def)

lemma i2c_ok_6:
  "reg_ok I2C_IC_SLV_DATA_NACK_ONLY"
  "reg_ok I2C_IC_DMA_CR"
  "reg_ok I2C_IC_DMA_TDLR"
  "reg_ok I2C_IC_DMA_RDLR"
  "reg_ok I2C_IC_SDA_SETUP"
  "reg_ok I2C_IC_ACK_GENERAL_CALL"
  by (simp_all add: reg_ok_simps
      I2C_IC_SLV_DATA_NACK_ONLY_def
      I2C_IC_DMA_CR_def
      I2C_IC_DMA_TDLR_def
      I2C_IC_DMA_RDLR_def
      I2C_IC_SDA_SETUP_def
      I2C_IC_ACK_GENERAL_CALL_def)

lemma i2c_ok_7:
  "reg_ok I2C_IC_ENABLE_STATUS"
  "reg_ok I2C_IC_FS_SPKLEN"
  "reg_ok I2C_IC_CLR_RESTART_DET"
  "reg_ok I2C_IC_COMP_PARAM_1"
  "reg_ok I2C_IC_COMP_VERSION"
  "reg_ok I2C_IC_COMP_TYPE"
  by (simp_all add: reg_ok_simps
      I2C_IC_ENABLE_STATUS_def
      I2C_IC_FS_SPKLEN_def
      I2C_IC_CLR_RESTART_DET_def
      I2C_IC_COMP_PARAM_1_def
      I2C_IC_COMP_VERSION_def
      I2C_IC_COMP_TYPE_def)

lemma i2c_registers_ok: "list_all reg_ok i2c_registers"
  by (simp add: i2c_registers_def i2c_ok_1 i2c_ok_2 i2c_ok_3 i2c_ok_4 i2c_ok_5 i2c_ok_6 i2c_ok_7)

lemma i2c_offsets: "map r_offset i2c_registers =
  [0x00000000, 0x00000004, 0x00000008, 0x00000010, 0x00000014, 0x00000018, 0x0000001c,
   0x00000020, 0x0000002c, 0x00000030, 0x00000034, 0x00000038, 0x0000003c, 0x00000040,
   0x00000044, 0x00000048, 0x0000004c, 0x00000050, 0x00000054, 0x00000058, 0x0000005c,
   0x00000060, 0x00000064, 0x00000068, 0x0000006c, 0x00000070, 0x00000074, 0x00000078,
   0x0000007c, 0x00000080, 0x00000084, 0x00000088, 0x0000008c, 0x00000090, 0x00000094,
   0x00000098, 0x0000009c, 0x000000a0, 0x000000a8, 0x000000f4, 0x000000f8, 0x000000fc]"
  by (simp add: i2c_registers_def hw_register_def
      I2C_IC_CON_def I2C_IC_TAR_def I2C_IC_SAR_def I2C_IC_DATA_CMD_def I2C_IC_SS_SCL_HCNT_def
   I2C_IC_SS_SCL_LCNT_def I2C_IC_FS_SCL_HCNT_def I2C_IC_FS_SCL_LCNT_def
   I2C_IC_INTR_STAT_def I2C_IC_INTR_MASK_def I2C_IC_RAW_INTR_STAT_def I2C_IC_RX_TL_def
   I2C_IC_TX_TL_def I2C_IC_CLR_INTR_def I2C_IC_CLR_RX_UNDER_def I2C_IC_CLR_RX_OVER_def
   I2C_IC_CLR_TX_OVER_def I2C_IC_CLR_RD_REQ_def I2C_IC_CLR_TX_ABRT_def
   I2C_IC_CLR_RX_DONE_def I2C_IC_CLR_ACTIVITY_def I2C_IC_CLR_STOP_DET_def
   I2C_IC_CLR_START_DET_def I2C_IC_CLR_GEN_CALL_def I2C_IC_ENABLE_def I2C_IC_STATUS_def
   I2C_IC_TXFLR_def I2C_IC_RXFLR_def I2C_IC_SDA_HOLD_def I2C_IC_TX_ABRT_SOURCE_def
   I2C_IC_SLV_DATA_NACK_ONLY_def I2C_IC_DMA_CR_def I2C_IC_DMA_TDLR_def I2C_IC_DMA_RDLR_def
   I2C_IC_SDA_SETUP_def I2C_IC_ACK_GENERAL_CALL_def I2C_IC_ENABLE_STATUS_def
   I2C_IC_FS_SPKLEN_def I2C_IC_CLR_RESTART_DET_def I2C_IC_COMP_PARAM_1_def
   I2C_IC_COMP_VERSION_def I2C_IC_COMP_TYPE_def)

end
