(* ===== verification/Regs_Pads.thy ===== *)
theory Regs_Pads
  imports Regs
begin

text \<open>
  The registers of the pads of bank 0, hardware/regs/pads\_bank0.h, in the order of the header. Of the
  30 pins, which are alike, the first stands for all.
\<close>

definition PADS_BANK0_VOLTAGE_SELECT :: hw_reg where
  "PADS_BANK0_VOLTAGE_SELECT = hw_register 0x00000000 0x00000001 (Some 0x00000000)
    [enum_field ''PADS_BANK0_VOLTAGE_SELECT'' (Some 0x00000000) 0x00000001 0 0 RW
        [(''3V3'', 0x0), (''1V8'', 0x1)]]"

definition PADS_BANK0_GPIO0 :: hw_reg where
  "PADS_BANK0_GPIO0 = hw_register 0x00000004 0x000000ff (Some 0x00000056)
    [field ''OD'' (Some 0x0) 0x00000080 7 7 RW,
     field ''IE'' (Some 0x1) 0x00000040 6 6 RW,
     enum_field ''DRIVE'' (Some 0x1) 0x00000030 5 4 RW
        [(''2MA'', 0x0), (''4MA'', 0x1), (''8MA'', 0x2), (''12MA'', 0x3)],
     field ''PUE'' (Some 0x0) 0x00000008 3 3 RW,
     field ''PDE'' (Some 0x1) 0x00000004 2 2 RW,
     field ''SCHMITT'' (Some 0x1) 0x00000002 1 1 RW,
     field ''SLEWFAST'' (Some 0x0) 0x00000001 0 0 RW]"

definition PADS_BANK0_SWCLK :: hw_reg where
  "PADS_BANK0_SWCLK = hw_register 0x0000007c 0x000000ff (Some 0x000000da)
    [field ''OD'' (Some 0x1) 0x00000080 7 7 RW,
     field ''IE'' (Some 0x1) 0x00000040 6 6 RW,
     enum_field ''DRIVE'' (Some 0x1) 0x00000030 5 4 RW
        [(''2MA'', 0x0), (''4MA'', 0x1), (''8MA'', 0x2), (''12MA'', 0x3)],
     field ''PUE'' (Some 0x1) 0x00000008 3 3 RW,
     field ''PDE'' (Some 0x0) 0x00000004 2 2 RW,
     field ''SCHMITT'' (Some 0x1) 0x00000002 1 1 RW,
     field ''SLEWFAST'' (Some 0x0) 0x00000001 0 0 RW]"

definition PADS_BANK0_SWD :: hw_reg where
  "PADS_BANK0_SWD = hw_register 0x00000080 0x000000ff (Some 0x0000005a)
    [field ''OD'' (Some 0x0) 0x00000080 7 7 RW,
     field ''IE'' (Some 0x1) 0x00000040 6 6 RW,
     enum_field ''DRIVE'' (Some 0x1) 0x00000030 5 4 RW
        [(''2MA'', 0x0), (''4MA'', 0x1), (''8MA'', 0x2), (''12MA'', 0x3)],
     field ''PUE'' (Some 0x1) 0x00000008 3 3 RW,
     field ''PDE'' (Some 0x0) 0x00000004 2 2 RW,
     field ''SCHMITT'' (Some 0x1) 0x00000002 1 1 RW,
     field ''SLEWFAST'' (Some 0x0) 0x00000001 0 0 RW]"

definition pads_bank0_registers :: "hw_reg list" where
  "pads_bank0_registers = [PADS_BANK0_VOLTAGE_SELECT, PADS_BANK0_GPIO0, PADS_BANK0_SWCLK, PADS_BANK0_SWD]"

lemma pads_bank0_ok_1:
  "reg_ok PADS_BANK0_VOLTAGE_SELECT"
  "reg_ok PADS_BANK0_GPIO0"
  "reg_ok PADS_BANK0_SWCLK"
  "reg_ok PADS_BANK0_SWD"
  by (simp_all add: reg_ok_simps
      PADS_BANK0_VOLTAGE_SELECT_def
      PADS_BANK0_GPIO0_def
      PADS_BANK0_SWCLK_def
      PADS_BANK0_SWD_def)

lemma pads_bank0_registers_ok: "list_all reg_ok pads_bank0_registers"
  by (simp add: pads_bank0_registers_def pads_bank0_ok_1)

lemma pads_bank0_offsets: "map r_offset pads_bank0_registers =
  [0x00000000, 0x00000004, 0x0000007c, 0x00000080]"
  by (simp add: pads_bank0_registers_def hw_register_def
      PADS_BANK0_VOLTAGE_SELECT_def PADS_BANK0_GPIO0_def PADS_BANK0_SWCLK_def PADS_BANK0_SWD_def)

end
