(* ===== verification/Peripherals.thy ===== *)
theory Peripherals
  imports Regs_Pwm Regs_Adc Regs_Uart Regs_Timer Regs_Dma Regs_Pio Regs_I2c Regs_Spi Regs_Resets Regs_Sio
    Regs_Pads Uart Adc Spin_Locks
begin

text \<open>
  The register descriptions of the peripherals against the rest of the development: their
  layout is that of the structs the code accesses them by, the reset state of the model is theirs,
  and the functions of the SDK write exactly the fields their names say.
\<close>

section \<open>The registers the code writes\<close>

interpretation csr: described_register PWM_CH0_CSR
  by unfold_locales (rule pwm_ok_1)

interpretation div: described_register PWM_CH0_DIV
  by unfold_locales (rule pwm_ok_1)

interpretation cc: described_register PWM_CH0_CC
  by unfold_locales (rule pwm_ok_1)

interpretation adc_cs: described_register ADC_CS
  by unfold_locales (rule adc_ok_1)

interpretation lcr_h: described_register UART_UARTLCR_H
  by unfold_locales (rule uart_ok_2)

lemmas field_eval = the_field_def hw_register_def field_def enum_field_def PWM_CH0_CSR_def
  PWM_CH0_DIV_def PWM_CH0_CC_def PWM_CH0_TOP_def ADC_CS_def UART_UARTLCR_H_def UART_UARTCR_def

section \<open>Two fields at once\<close>

text \<open>A masked write of two values is two masked writes, if neither value reaches the other's mask.\<close>

lemma hw_write_masked_two:
  assumes "v1 AND m2 = 0" and "v2 AND m1 = 0" and "m1 AND m2 = 0"
  shows "hw_write_masked w (v1 OR v2) (m1 OR m2) = hw_write_masked (hw_write_masked w v1 m1) v2 m2"
proof (rule word_bits_eqI)
  fix k assume "k < LENGTH(32)"
  have "\<not> (bit v1 k \<and> bit m2 k)" "\<not> (bit v2 k \<and> bit m1 k)" "\<not> (bit m1 k \<and> bit m2 k)"
    using assms by (simp_all flip: bit_and_iff)
  then show "bit (hw_write_masked w (v1 OR v2) (m1 OR m2)) k
      = bit (hw_write_masked (hw_write_masked w v1 m1) v2 m2) k"
    by (auto simp: bit_hw_write_masked bit_or_iff)
qed

lemma hw_set_bits_masked: "hw_set_bits w m = hw_write_masked w m m"
  by (rule word_bits_eqI) (auto simp: bit_hw_set_bits bit_hw_write_masked)

lemma hw_clear_bits_masked: "hw_clear_bits w m = hw_write_masked w 0 m"
  by (rule word_bits_eqI) (auto simp: bit_hw_clear_bits bit_hw_write_masked)

lemma polarity_fields:
  "pwm_set_output_polarity n a b = upd_slice n (\<lambda>r. r\<lparr>csr :=
     set_field (the_field PWM_CH0_CSR ''B_INV'') (bool_to_bit b)
       (set_field (the_field PWM_CH0_CSR ''A_INV'') (bool_to_bit a) (csr r))\<rparr>)"
proof -
  have "hw_write_masked w (push_bit 2 (bool_to_bit a) OR push_bit 3 (bool_to_bit b)) (4 OR 8)
      = hw_write_masked (hw_write_masked w (push_bit 2 (bool_to_bit a)) 4) (push_bit 3 (bool_to_bit b)) 8"
    for w
    by (rule hw_write_masked_two) (simp_all add: bool_to_bit_def)
  then show ?thesis
    by (simp add: pwm_set_output_polarity_def set_field_def field_eval PWM_CH0_CSR_A_INV_BITS_def
        PWM_CH0_CSR_B_INV_BITS_def)
qed

section \<open>Properties\<close>

text \<open>
  The register descriptions of PWM, ADC, UART, timer, DMA and PIO are consistent: every
  field's mask is the one of its bounds, its reset and named values fit, the fields of a register do
  not overlap and make up its bits and its reset value. The registers of PWM, ADC, timer, a DMA
  channel and the PIO before its instruction memory follow each other word by word, as in the
  structs, no two registers of UART, DMA or PIO share an offset, and the reset state of the model's
  slices and of its ADC and UART registers is the described one.
\<close>

theorem peripheral_registers_consistent:
  "list_all (list_all reg_ok) [pwm_registers, adc_registers, uart_registers, timer_registers,
      dma_registers, pio_registers]
   \<and> map r_offset pwm_registers = map (\<lambda>i. 4 * of_nat i) [0..<8 * 5 + 5]
   \<and> map r_offset adc_registers = map (\<lambda>i. 4 * of_nat i) [0..<9]
   \<and> map r_offset timer_registers = map (\<lambda>i. 4 * of_nat i) [0..<17]
   \<and> map r_offset (take 16 dma_registers) = map (\<lambda>i. 4 * of_nat i) [0..<16]
   \<and> map r_offset (take 18 pio_registers) = map (\<lambda>i. 4 * of_nat i) [0..<18]
   \<and> list_all (\<lambda>rs. distinct (map r_offset rs)) [uart_registers, dma_registers, pio_registers]
   \<and> [Some (csr reset_slice), Some (div_reg reset_slice), Some (ctr reset_slice),
      Some (cc reset_slice), Some (top_reg reset_slice)] = map r_reset (take 5 pwm_registers)
   \<and> Some (adc_cs reset_mcu) = r_reset ADC_CS
   \<and> Some (uart_cr (uarts reset_mcu u)) = r_reset UART_UARTCR
   \<and> Some (uart_ifls (uarts reset_mcu u)) = r_reset UART_UARTIFLS"
proof (intro conjI)
  show "list_all (list_all reg_ok) [pwm_registers, adc_registers, uart_registers, timer_registers,
      dma_registers, pio_registers]"
    by (simp add: pwm_registers_ok adc_registers_ok uart_registers_ok timer_registers_ok
        dma_registers_ok pio_registers_ok)
  show "map r_offset pwm_registers = map (\<lambda>i. 4 * of_nat i) [0..<8 * 5 + 5]"
    unfolding pwm_offsets by (simp add: upt_rec)
  show "map r_offset adc_registers = map (\<lambda>i. 4 * of_nat i) [0..<9]"
    unfolding adc_offsets by (simp add: upt_rec)
  show "map r_offset timer_registers = map (\<lambda>i. 4 * of_nat i) [0..<17]"
    unfolding timer_offsets by (simp add: upt_rec)
  show "map r_offset (take 16 dma_registers) = map (\<lambda>i. 4 * of_nat i) [0..<16]"
    unfolding take_map [symmetric] dma_offsets by (simp add: upt_rec)
  show "map r_offset (take 18 pio_registers) = map (\<lambda>i. 4 * of_nat i) [0..<18]"
    unfolding take_map [symmetric] pio_offsets by (simp add: upt_rec)
  show "list_all (\<lambda>rs. distinct (map r_offset rs)) [uart_registers, dma_registers, pio_registers]"
    by (simp add: uart_offsets dma_offsets pio_offsets)
qed (simp_all add: reset_slice_def reset_mcu_def pwm_registers_def field_eval PWM_CH0_CTR_def
    UART_UARTIFLS_def)

text \<open>
  The same for I2C, SPI, the reset controller, the SIO and the pads, and the constants other theories
  have for them: the pins that exist, the pull bits of a pad, the place of the first spin lock, the
  stop condition of the I2C bus and the state after reset.
\<close>

theorem further_registers_consistent:
  "list_all (list_all reg_ok) [i2c_registers, spi_registers, resets_registers, sio_registers, pads_bank0_registers]
   \<and> list_all (\<lambda>rs. distinct (map r_offset rs)) [i2c_registers, spi_registers, sio_registers, pads_bank0_registers]
   \<and> map r_offset resets_registers = [0, 4, 8]
   \<and> SIO_PIN_BITS = r_bits SIO_GPIO_OUT \<and> SIO_PIN_BITS = r_bits SIO_GPIO_OE
   \<and> Some (gpio_out reset_mcu) = r_reset SIO_GPIO_OUT \<and> Some (gpio_oe reset_mcu) = r_reset SIO_GPIO_OE
   \<and> SIO_SPINLOCK0_OFFSET = r_offset SIO_SPINLOCK0
   \<and> PUE_BITS = reg_bits PADS_BANK0_GPIO0 ''PUE'' \<and> PDE_BITS = reg_bits PADS_BANK0_GPIO0 ''PDE''
   \<and> reg_bits I2C_IC_RAW_INTR_STAT ''STOP_DET'' = 0x200 \<and> reg_lsb I2C_IC_RAW_INTR_STAT ''STOP_DET'' = 9"
proof (intro conjI)
  show "list_all (list_all reg_ok) [i2c_registers, spi_registers, resets_registers, sio_registers, pads_bank0_registers]"
    by (simp add: i2c_registers_ok spi_registers_ok resets_registers_ok sio_registers_ok pads_bank0_registers_ok)
  show "list_all (\<lambda>rs. distinct (map r_offset rs)) [i2c_registers, spi_registers, sio_registers, pads_bank0_registers]"
    by (simp add: i2c_offsets spi_offsets sio_offsets pads_bank0_offsets)
qed (simp_all add: resets_offsets reset_mcu_def SIO_PIN_BITS_def SIO_GPIO_OUT_def SIO_GPIO_OE_def
    SIO_SPINLOCK0_def SIO_SPINLOCK0_OFFSET_def PUE_BITS_def PDE_BITS_def PADS_BANK0_GPIO0_def
    I2C_IC_RAW_INTR_STAT_def reg_bits_def reg_lsb_def the_field_def hw_register_def field_def enum_field_def)

text \<open>
  A field write of a consistent register is read back, leaves every other field of the
  register alone, and no bit outside the described ones changes, although the hardware does it
  with an exclusive-or of the old value.
\<close>

theorem field_write_read:
  assumes "reg_ok r" and "f \<in> set (r_fields r)" and "fits (f_width f) v"
  shows "get_field f (set_field f v w) = v
    \<and> list_all (\<lambda>g. g = f \<or> get_field g (set_field f v w) = get_field g w) (r_fields r)
    \<and> set_field f v w AND NOT (r_bits r) = w AND NOT (r_bits r)"
proof -
  have r: "described_register r" using assms(1) by unfold_locales
  show ?thesis
    using described_register.write_read [OF r assms(2,3)]
      described_register.write_frame [OF r assms(2)]
      described_register.write_outside [OF r assms(2)]
    by (auto simp: list_all_iff)
qed

theorem field_write_read_witness:
  "get_field (the_field PWM_CH0_CSR ''DIVMODE'') (set_field (the_field PWM_CH0_CSR ''DIVMODE'') 2 0xff) = 2"
proof -
  have "the_field PWM_CH0_CSR ''DIVMODE'' \<in> set (r_fields PWM_CH0_CSR)"
    and "fits (f_width (the_field PWM_CH0_CSR ''DIVMODE'')) 2"
    by (simp_all add: field_eval fits_def f_width_def)
  from field_write_read [OF csr.described this] show ?thesis by blast
qed


end
