(* ===== verification/Itoa.thy ===== *)
theory Itoa
  imports Prelude
begin

text \<open>
  Number conversion of the Arduino core, arduino/itoa.c: a number is written into a buffer in a
  base from 2 to 36. The digits are first collected, lowest first, in an array of 33 characters;
  a write past its end, and the negation of the smallest \<open>long\<close>, are undefined and the result
  \<open>None\<close>. The inner option is the returned pointer, \<open>None\<close> for 0, else the buffer's text. Both
  \<open>int\<close> and \<open>long\<close> have 32 bits on this target.
\<close>

section \<open>Conversion\<close>

definition digit_char :: "u32 \<Rightarrow> char" where
  "digit_char i = (if i < 10 then char_of (unat i + 48) else char_of (unat i + 97 - 10))"

partial_function (option) digit_loop :: "u32 \<Rightarrow> u32 \<Rightarrow> string \<Rightarrow> string option" where
  "digit_loop v radix tmp =
     (if v \<noteq> 0 \<or> tmp = []
      then if length tmp < 33
           then digit_loop (v div radix) radix (tmp @ [digit_char (v mod radix)])
           else None
      else Some tmp)"

definition LONG_MIN :: u32 where "LONG_MIN = 0x80000000"

definition ltoa :: "u32 \<Rightarrow> bool \<Rightarrow> int \<Rightarrow> string option option" where
  "ltoa value string_null radix =
     (if string_null then Some None
      else if radix > 36 \<or> radix \<le> 1 then Some None
      else
        (let sign = (radix = 10 \<and> sint value < 0)
         in case (if sign then if value = LONG_MIN then None else Some (- value) else Some value) of
              None \<Rightarrow> None
            | Some v \<Rightarrow>
                (case digit_loop v (word_of_int radix) [] of
                   None \<Rightarrow> None
                 | Some tmp \<Rightarrow> Some (Some ((if sign then ''-'' else []) @ rev tmp)))))"

definition itoa :: "u32 \<Rightarrow> bool \<Rightarrow> int \<Rightarrow> string option option" where
  "itoa value string_null radix = ltoa value string_null radix"

definition ultoa :: "u32 \<Rightarrow> bool \<Rightarrow> int \<Rightarrow> string option option" where
  "ultoa value string_null radix =
     (if string_null then Some None
      else if radix > 36 \<or> radix \<le> 1 then Some None
      else (case digit_loop value (word_of_int radix) [] of
              None \<Rightarrow> None
            | Some tmp \<Rightarrow> Some (Some (rev tmp))))"

definition utoa :: "u32 \<Rightarrow> bool \<Rightarrow> int \<Rightarrow> string option option" where
  "utoa value string_null radix = ultoa value string_null radix"

section \<open>Reading a number back\<close>

definition radix_value :: "char \<Rightarrow> nat" where
  "radix_value c = (if of_char c < (97 :: nat) then of_char c - 48 else of_char c - 87)"

definition read_radix :: "nat \<Rightarrow> string \<Rightarrow> nat" where
  "read_radix r cs = foldl (\<lambda>n c. r * n + radix_value c) 0 cs"

lemma radix_value_digit: "unat i < 36 \<Longrightarrow> radix_value (digit_char i) = unat i"
proof -
  assume "unat i < 36"
  then have "unat i + 87 < 256" "unat i + 48 < 256" by simp_all
  then have "of_char (char_of (unat i + 48)) = unat i + 48" "of_char (char_of (unat i + 87)) = unat i + 87"
    by (simp_all only: of_char_of mod_less)
  then show "radix_value (digit_char i) = unat i"
    by (simp add: radix_value_def digit_char_def word_less_nat_alt)
qed

lemma read_radix_snoc [simp]: "read_radix r (cs @ [c]) = r * read_radix r cs + radix_value c"
  by (simp add: read_radix_def)

lemma unat_radix: "1 < radix \<Longrightarrow> radix \<le> 36 \<Longrightarrow> unat (word_of_int radix :: u32) = nat radix"
proof -
  assume "1 < radix" "radix \<le> 36"
  then have "uint (word_of_int radix :: u32) = radix" by (intro word_of_int_inverse [OF refl]) simp_all
  then show "unat (word_of_int radix :: u32) = nat radix" by (simp only: unat_eq_nat_uint)
qed

text \<open>
  From a collected digit on, a value below \<open>2\<^sup>k\<close> adds at most \<open>k\<close> digits, which read
  backwards give the value; so the array does not overflow.
\<close>

lemma digit_loop_more:
  assumes "1 < unat radix" and "unat radix \<le> 36"
    and "unat v < 2 ^ k" and "length tmp + k \<le> 33" and "tmp \<noteq> []"
  shows "\<exists>ds. digit_loop v radix tmp = Some (tmp @ ds) \<and> length ds \<le> k
    \<and> read_radix (unat radix) (rev ds) = unat v"
  using assms(3-5)
proof (induction k arbitrary: v tmp)
  case 0
  then have "v = 0" by (simp add: unat_eq_zero)
  with 0 show ?case by (subst digit_loop.simps) (simp add: read_radix_def)
next
  case (Suc k)
  show ?case
  proof (cases "v = 0")
    case True
    with Suc.prems show ?thesis by (subst digit_loop.simps) (simp add: read_radix_def)
  next
    case False
    let ?d = "digit_char (v mod radix)"
    have "unat v div unat radix \<le> unat v div 2" using assms(1) by (intro div_le_mono2) simp_all
    also have "\<dots> < 2 ^ k" using Suc.prems(1) by simp
    finally have "unat (v div radix) < 2 ^ k" by (simp add: unat_div_distrib)
    then obtain ds where ds: "digit_loop (v div radix) radix (tmp @ [?d]) = Some ((tmp @ [?d]) @ ds)"
      "length ds \<le> k" "read_radix (unat radix) (rev ds) = unat (v div radix)"
      using Suc.IH [of "v div radix" "tmp @ [?d]"] Suc.prems by auto
    have "unat v mod unat radix < unat radix" using assms(1) by simp
    then have "radix_value ?d = unat v mod unat radix"
      using assms(2) by (subst radix_value_digit) (simp_all add: unat_mod_distrib)
    moreover have "unat radix * (unat v div unat radix) + unat v mod unat radix = unat v" by simp
    ultimately have "read_radix (unat radix) (rev (?d # ds)) = unat v"
      using ds(3) by (simp add: unat_div_distrib)
    moreover have "digit_loop v radix tmp = Some (tmp @ ?d # ds)"
      using ds(1) False Suc.prems by (subst digit_loop.simps) simp
    ultimately show ?thesis using ds(2) by (intro exI [of _ "?d # ds"]) simp
  qed
qed

lemma digit_loop_value:
  assumes "1 < unat radix" and "unat radix \<le> 36"
  shows "\<exists>ds. digit_loop v radix [] = Some ds \<and> ds \<noteq> [] \<and> length ds \<le> 32
    \<and> read_radix (unat radix) (rev ds) = unat v"
proof -
  let ?d = "digit_char (v mod radix)"
  have "unat v div unat radix \<le> unat v div 2" using assms(1) by (intro div_le_mono2) simp_all
  also have "unat v < 2 ^ 32" using unsigned_less [of v, where 'a = nat] by simp
  then have "unat v div 2 < 2 ^ 31" by simp
  finally have "unat (v div radix) < 2 ^ 31" by (simp add: unat_div_distrib)
  then obtain ds where ds: "digit_loop (v div radix) radix [?d] = Some ([?d] @ ds)"
    "length ds \<le> 31" "read_radix (unat radix) (rev ds) = unat (v div radix)"
    using digit_loop_more [OF assms, of "v div radix" 31 "[?d]"] by auto
  have "unat v mod unat radix < unat radix" using assms(1) by simp
  then have "radix_value ?d = unat v mod unat radix"
    using assms(2) by (subst radix_value_digit) (simp_all add: unat_mod_distrib)
  moreover have "unat radix * (unat v div unat radix) + unat v mod unat radix = unat v" by simp
  ultimately have "read_radix (unat radix) (rev (?d # ds)) = unat v"
    using ds(3) by (simp add: unat_div_distrib)
  moreover have "digit_loop v radix [] = Some (?d # ds)"
    using ds(1) by (subst digit_loop.simps) simp
  ultimately show ?thesis using ds(2) by (intro exI [of _ "?d # ds"]) simp
qed

section \<open>Properties\<close>



end
