(* ===== verification/Pheap.thy ===== *)
theory Pheap
  imports Prelude "HOL-Library.Multiset"
begin

text \<open>
  The pairing heap of the SDK, pico/util/pheap.h, in which the timers are kept: an array of nodes
  linked by their numbers, and a list of free nodes in the same array. A failed assertion is
  \<open>None\<close>. The operations that remove a node are in pheap.c, which is not under src/.
\<close>

section \<open>Data\<close>

text \<open>Node numbers start at 1; 0 is none. \<open>user_data\<close> is part of the comparator.\<close>

type_synonym pheap_node_id_t = u8

record pheap_node =
  child :: pheap_node_id_t
  sibling :: pheap_node_id_t
  parent :: pheap_node_id_t

record pheap =
  nodes :: "pheap_node list"
  comparator :: "pheap_node_id_t \<Rightarrow> pheap_node_id_t \<Rightarrow> bool"
  max_nodes :: pheap_node_id_t
  root_id :: pheap_node_id_t
  free_head_id :: pheap_node_id_t
  free_tail_id :: pheap_node_id_t

section \<open>Operations\<close>

definition slot :: "pheap_node_id_t \<Rightarrow> nat" where
  "slot i = unat i - 1"

definition node_at :: "pheap_node list \<Rightarrow> pheap_node_id_t \<Rightarrow> pheap_node" where
  "node_at ns i = ns ! slot i"

definition ph_get_node :: "pheap \<Rightarrow> pheap_node_id_t \<Rightarrow> pheap_node option" where
  "ph_get_node heap i =
     (if i \<noteq> 0 \<and> i \<le> max_nodes heap then Some (node_at (nodes heap) i) else None)"

text \<open>A write through the pointer that \<open>ph_get_node\<close> returns.\<close>

definition upd_node :: "pheap_node_id_t \<Rightarrow> (pheap_node \<Rightarrow> pheap_node) \<Rightarrow> pheap \<Rightarrow> pheap" where
  "upd_node i f heap = heap\<lparr>nodes := (nodes heap)[slot i := f (node_at (nodes heap) i)]\<rparr>"

definition ph_add_child_node ::
  "pheap \<Rightarrow> pheap_node_id_t \<Rightarrow> pheap_node_id_t \<Rightarrow> pheap option" where
  "ph_add_child_node heap parent_id child_id =
     (case ph_get_node heap parent_id of
        None \<Rightarrow> None
      | Some n \<Rightarrow>
          if parent_id = 0 \<or> child_id = 0 \<or> parent_id = child_id then None
          else
            (case ph_get_node heap child_id of
               None \<Rightarrow> None
             | Some c \<Rightarrow>
                 (let heap = upd_node child_id (\<lambda>c. c\<lparr>parent := parent_id\<rparr>) heap
                  in Some (if child n = 0 then upd_node parent_id (\<lambda>n. n\<lparr>child := child_id\<rparr>) heap
                      else
                        (let heap = upd_node child_id (\<lambda>c. c\<lparr>sibling := child n\<rparr>) heap
                         in upd_node parent_id (\<lambda>n. n\<lparr>child := child_id\<rparr>) heap)))))"

definition ph_merge_nodes ::
  "pheap \<Rightarrow> pheap_node_id_t \<Rightarrow> pheap_node_id_t \<Rightarrow> (pheap_node_id_t \<times> pheap) option" where
  "ph_merge_nodes heap a b =
     (if a = 0 then Some (b, heap)
      else if b = 0 then Some (a, heap)
      else if comparator heap a b then map_option (Pair a) (ph_add_child_node heap a b)
      else map_option (Pair b) (ph_add_child_node heap b a))"

definition ph_new_node :: "pheap \<Rightarrow> (pheap_node_id_t \<times> pheap) option" where
  "ph_new_node heap =
     (if free_head_id heap = 0 then Some (0, heap)
      else
        (let i = free_head_id heap
         in case ph_get_node heap i of
              None \<Rightarrow> None
            | Some hn \<Rightarrow>
                (let heap = heap\<lparr>free_head_id := sibling hn\<rparr>;
                     heap = (if free_head_id heap = 0 then heap\<lparr>free_tail_id := 0\<rparr> else heap);
                     heap = upd_node i (\<lambda>_. \<lparr>child = 0, sibling = 0, parent = 0\<rparr>) heap
                 in Some (i, heap))))"

definition ph_insert_node :: "pheap \<Rightarrow> pheap_node_id_t \<Rightarrow> (pheap_node_id_t \<times> pheap) option" where
  "ph_insert_node heap i =
     (if i = 0 then None
      else
        (case ph_get_node heap i of
           None \<Rightarrow> None
         | Some _ \<Rightarrow>
             (let heap = upd_node i (\<lambda>_. \<lparr>child = 0, sibling = 0, parent = 0\<rparr>) heap
              in case ph_merge_nodes heap (root_id heap) i of
                   None \<Rightarrow> None
                 | Some (r, heap) \<Rightarrow>
                     (let heap = heap\<lparr>root_id := r\<rparr> in Some (root_id heap, heap)))))"

definition ph_peek_head :: "pheap \<Rightarrow> pheap_node_id_t" where
  "ph_peek_head heap = root_id heap"

definition ph_contains_node :: "pheap \<Rightarrow> pheap_node_id_t \<Rightarrow> bool option" where
  "ph_contains_node heap i =
     (if i = root_id heap then Some True
      else map_option (\<lambda>n. parent n \<noteq> 0) (ph_get_node heap i))"

definition ph_free_node :: "pheap \<Rightarrow> pheap_node_id_t \<Rightarrow> pheap option" where
  "ph_free_node heap i =
     (if i = 0 then None
      else
        (case ph_contains_node heap i of
           None \<Rightarrow> None
         | Some True \<Rightarrow> None
         | Some False \<Rightarrow>
             (case (if free_tail_id heap \<noteq> 0
                    then map_option (\<lambda>_. upd_node (free_tail_id heap) (\<lambda>n. n\<lparr>sibling := i\<rparr>) heap)
                           (ph_get_node heap (free_tail_id heap))
                    else Some heap) of
                None \<Rightarrow> None
              | Some heap \<Rightarrow> Some (heap\<lparr>free_tail_id := i\<rparr>))))"

section \<open>The forest a heap stands for\<close>

datatype ptree = Node pheap_node_id_t "ptree list"

fun root :: "ptree \<Rightarrow> pheap_node_id_t" where
  "root (Node i _) = i"

fun ids :: "ptree list \<Rightarrow> pheap_node_id_t list" where
  "ids [] = []"
| "ids (Node i cs # ts) = i # ids cs @ ids ts"

text \<open>The nodes from number \<open>i\<close> on, linked by \<open>sibling\<close>, are these trees, children of \<open>p\<close>.\<close>

fun trees_at :: "pheap_node list \<Rightarrow> pheap_node_id_t \<Rightarrow> pheap_node_id_t \<Rightarrow> ptree list \<Rightarrow> bool" where
  "trees_at ns p i [] \<longleftrightarrow> i = 0"
| "trees_at ns p i (Node j cs # ts) \<longleftrightarrow>
     i = j \<and> j \<noteq> 0 \<and> unat j \<le> length ns \<and> parent (node_at ns j) = p
     \<and> trees_at ns j (child (node_at ns j)) cs \<and> trees_at ns p (sibling (node_at ns j)) ts"

text \<open>No child comes before its parent.\<close>

fun ordered :: "(pheap_node_id_t \<Rightarrow> pheap_node_id_t \<Rightarrow> bool) \<Rightarrow> ptree list \<Rightarrow> bool" where
  "ordered lt [] \<longleftrightarrow> True"
| "ordered lt (Node i cs # ts) \<longleftrightarrow>
     list_all (\<lambda>c. \<not> lt (root c) i) cs \<and> ordered lt cs \<and> ordered lt ts"

fun free_at :: "pheap_node list \<Rightarrow> pheap_node_id_t \<Rightarrow> pheap_node_id_t list \<Rightarrow> bool" where
  "free_at ns i [] \<longleftrightarrow> i = 0"
| "free_at ns i (j # js) \<longleftrightarrow> i = j \<and> j \<noteq> 0 \<and> unat j \<le> length ns \<and> free_at ns (sibling (node_at ns j)) js"

text \<open>A heap with the trees \<open>ts\<close> (one or none) and the free nodes \<open>fs\<close>; the others are allocated.\<close>

definition pheap_rep :: "pheap \<Rightarrow> ptree list \<Rightarrow> pheap_node_id_t list \<Rightarrow> bool" where
  "pheap_rep heap ts fs \<longleftrightarrow>
     length (nodes heap) = unat (max_nodes heap) \<and> length ts \<le> 1
     \<and> trees_at (nodes heap) 0 (root_id heap) ts \<and> ordered (comparator heap) ts
     \<and> free_at (nodes heap) (free_head_id heap) fs
     \<and> free_tail_id heap = (if fs = [] then 0 else last fs)
     \<and> distinct (ids ts @ fs)
     \<and> (\<forall>i. i \<noteq> 0 \<and> i \<le> max_nodes heap \<and> i \<notin> set (ids ts) \<longrightarrow>
          parent (node_at (nodes heap) i) = 0)
     \<and> (\<forall>i. i \<noteq> 0 \<and> i \<le> max_nodes heap \<and> i \<notin> set (ids ts @ fs) \<longrightarrow>
          node_at (nodes heap) i = \<lparr>child = 0, sibling = 0, parent = 0\<rparr>)"


section \<open>Reading and writing nodes\<close>

lemma slot_inject: "i \<noteq> 0 \<Longrightarrow> j \<noteq> 0 \<Longrightarrow> slot i = slot j \<longleftrightarrow> i = j"
proof -
  assume "i \<noteq> 0" "j \<noteq> 0"
  then have "0 < unat i" "0 < unat j" by (simp_all add: unat_gt_0)
  then show "slot i = slot j \<longleftrightarrow> i = j" unfolding slot_def by (metis Suc_pred' unsigned_word_eqI)
qed

lemma slot_less: "i \<noteq> 0 \<Longrightarrow> unat i \<le> n \<Longrightarrow> slot i < n"
  by (cases "unat i") (simp_all add: slot_def unat_eq_zero)

lemma node_at_update:
  "i \<noteq> 0 \<Longrightarrow> unat i \<le> length ns \<Longrightarrow> j \<noteq> 0 \<Longrightarrow>
     node_at (ns[slot i := x]) j = (if j = i then x else node_at ns j)"
  using slot_less [of i "length ns"] slot_inject [of i j] by (auto simp: node_at_def)

lemma trees_at_cong:
  assumes "trees_at ns p i ts" and "length ns' = length ns"
    and "\<And>j. j \<in> set (ids ts) \<Longrightarrow> node_at ns' j = node_at ns j"
  shows "trees_at ns' p i ts"
  using assms by (induction ns p i ts rule: trees_at.induct) auto

lemma free_at_cong:
  assumes "free_at ns i js" and "length ns' = length ns"
    and "\<And>j. j \<in> set js \<Longrightarrow> node_at ns' j = node_at ns j"
  shows "free_at ns' i js"
  using assms by (induction ns i js rule: free_at.induct) auto

lemma trees_at_ids: "trees_at ns p i ts \<Longrightarrow> j \<in> set (ids ts) \<Longrightarrow> j \<noteq> 0 \<and> unat j \<le> length ns"
  by (induction ns p i ts rule: trees_at.induct) auto

lemma free_at_ids: "free_at ns i js \<Longrightarrow> j \<in> set js \<Longrightarrow> j \<noteq> 0 \<and> unat j \<le> length ns"
  by (induction ns i js rule: free_at.induct) auto

lemma trees_at_parents: "trees_at ns p i ts \<Longrightarrow> p \<noteq> 0 \<Longrightarrow> j \<in> set (ids ts) \<Longrightarrow> parent (node_at ns j) \<noteq> 0"
  by (induction ns p i ts rule: trees_at.induct) auto

lemma free_at_extend:
  assumes "free_at ns i (js @ [k])" and "distinct (js @ [k, j])" and "j \<noteq> 0" and "unat j \<le> length ns"
    and "sibling (node_at ns j) = 0"
  shows "free_at (ns[slot k := (node_at ns k)\<lparr>sibling := j\<rparr>]) i (js @ [k, j])"
proof -
  have "k \<noteq> 0" "unat k \<le> length ns" using free_at_ids [OF assms(1)] by simp_all
  with assms show ?thesis by (induction js arbitrary: i) (simp_all add: node_at_update)
qed

section \<open>The comparator\<close>

text \<open>The comparator has to be a strict weak order.\<close>

definition strict_weak :: "('a \<Rightarrow> 'a \<Rightarrow> bool) \<Rightarrow> bool" where
  "strict_weak lt \<longleftrightarrow> (\<forall>a b. lt a b \<longrightarrow> \<not> lt b a) \<and> (\<forall>a b c. \<not> lt a b \<longrightarrow> \<not> lt b c \<longrightarrow> \<not> lt a c)"

lemma ordered_least:
  assumes "ordered lt ts" and "\<And>t. t \<in> set ts \<Longrightarrow> \<not> lt (root t) r" and "strict_weak lt"
    and "j \<in> set (ids ts)"
  shows "\<not> lt j r"
  using assms(1,2,4)
proof (induction ts arbitrary: r rule: ids.induct)
  case (2 i cs ts)
  have i: "\<not> lt i r" using "2.prems"(2) [of "Node i cs"] by simp
  have "\<not> lt j r" if "j \<in> set (ids cs)"
  proof -
    have "\<not> lt j i" using "2.IH"(1) [of i] "2.prems"(1) that by (simp add: list_all_iff)
    with i assms(3) show ?thesis unfolding strict_weak_def by blast
  qed
  with 2 i show ?case by auto
qed simp

section \<open>Adding a child, merging\<close>

lemma add_child:
  assumes "trees_at (nodes heap) 0 a [Node a cs]" and "trees_at (nodes heap) 0 b [Node b ds]"
    and "distinct (ids [Node a cs, Node b ds])" and "length (nodes heap) = unat (max_nodes heap)"
  obtains ns where "ph_add_child_node heap a b = Some (heap\<lparr>nodes := ns\<rparr>)"
    and "length ns = length (nodes heap)"
    and "trees_at ns 0 a [Node a (Node b ds # cs)]"
    and "\<forall>j. j \<notin> {0, a, b} \<longrightarrow> node_at ns j = node_at (nodes heap) j"
proof -
  let ?ns = "nodes heap"
  have a: "a \<noteq> 0" "unat a \<le> length ?ns" "parent (node_at ?ns a) = 0" "sibling (node_at ?ns a) = 0"
    "trees_at ?ns a (child (node_at ?ns a)) cs" using assms(1) by auto
  have b: "b \<noteq> 0" "unat b \<le> length ?ns" "sibling (node_at ?ns b) = 0"
    "trees_at ?ns b (child (node_at ?ns b)) ds" using assms(2) by auto
  have ab: "a \<noteq> b" "a \<notin> set (ids cs)" "b \<notin> set (ids cs)" "a \<notin> set (ids ds)" "b \<notin> set (ids ds)"
    using assms(3) by auto
  let ?n1 = "?ns[slot b := (node_at ?ns b)\<lparr>parent := a, sibling := child (node_at ?ns a)\<rparr>]"
  let ?n2 = "?n1[slot a := (node_at ?ns a)\<lparr>child := b\<rparr>]"
  have get: "ph_get_node heap a = Some (node_at ?ns a)" "ph_get_node heap b = Some (node_at ?ns b)"
    using a(1,2) b(1,2) assms(4) by (simp_all add: ph_get_node_def word_le_nat_alt)
  have alone: "(node_at ?ns b)\<lparr>parent := a\<rparr> = (node_at ?ns b)\<lparr>parent := a, sibling := 0\<rparr>"
    using b(3) by (cases "node_at ?ns b") simp
  have run: "ph_add_child_node heap a b = Some (heap\<lparr>nodes := ?n2\<rparr>)"
    using a(1,2) b(1,2) ab(1) get alone
    by (simp add: ph_add_child_node_def upd_node_def node_at_update Let_def)
  have ata: "node_at ?n2 j = (if j = a then (node_at ?ns a)\<lparr>child := b\<rparr>
      else if j = b then (node_at ?ns b)\<lparr>parent := a, sibling := child (node_at ?ns a)\<rparr>
      else node_at ?ns j)" if "j \<noteq> 0" for j
    using that a(1,2) b(1,2) by (simp add: node_at_update)
  have "trees_at ?n2 a (child (node_at ?ns a)) cs"
    by (rule trees_at_cong [OF a(5)]) (use ab trees_at_ids [OF a(5)] in \<open>auto simp: ata\<close>)
  moreover have "trees_at ?n2 b (child (node_at ?ns b)) ds"
    by (rule trees_at_cong [OF b(4)]) (use ab trees_at_ids [OF b(4)] in \<open>auto simp: ata\<close>)
  ultimately have trees: "trees_at ?n2 0 a [Node a (Node b ds # cs)]"
    using a b ab(1) by (simp add: ata)
  show ?thesis by (rule that [OF run _ trees]) (simp_all add: ata)
qed

lemma merge_nodes:
  assumes "trees_at (nodes heap) 0 a [Node a cs]" and "trees_at (nodes heap) 0 b [Node b ds]"
    and "distinct (ids [Node a cs, Node b ds])" and "length (nodes heap) = unat (max_nodes heap)"
    and "ordered (comparator heap) [Node a cs, Node b ds]" and "strict_weak (comparator heap)"
  obtains ns t where "ph_merge_nodes heap a b = Some (root t, heap\<lparr>nodes := ns\<rparr>)"
    and "length ns = length (nodes heap)" and "trees_at ns 0 (root t) [t]"
    and "ordered (comparator heap) [t]" and "mset (ids [t]) = mset (ids [Node a cs, Node b ds])"
    and "\<forall>j. j \<notin> {0, a, b} \<longrightarrow> node_at ns j = node_at (nodes heap) j"
proof -
  have nz: "a \<noteq> 0" "b \<noteq> 0" using assms(1,2) by simp_all
  show ?thesis
  proof (cases "comparator heap a b")
    case True
    obtain ns where ns: "ph_add_child_node heap a b = Some (heap\<lparr>nodes := ns\<rparr>)"
      "length ns = length (nodes heap)" "trees_at ns 0 a [Node a (Node b ds # cs)]"
      "\<forall>j. j \<notin> {0, a, b} \<longrightarrow> node_at ns j = node_at (nodes heap) j" using add_child [OF assms(1-4)] by blast
    let ?t = "Node a (Node b ds # cs)"
    have "ph_merge_nodes heap a b = Some (root ?t, heap\<lparr>nodes := ns\<rparr>)"
      by (simp add: ph_merge_nodes_def nz True ns(1))
    moreover have "trees_at ns 0 (root ?t) [?t]" unfolding root.simps by (rule ns(3))
    moreover have "\<not> comparator heap b a" using assms(6) True unfolding strict_weak_def by blast
    then have "ordered (comparator heap) [?t]" using assms(5) by simp
    ultimately show ?thesis by (rule that [OF _ ns(2) _ _ _ ns(4)]) simp_all
  next
    case False
    from assms(3) have "distinct (ids [Node b ds, Node a cs])" by auto
    note add = add_child [OF assms(2,1) this assms(4)]
    obtain ns
      where ns: "ph_add_child_node heap b a = Some (heap\<lparr>nodes := ns\<rparr>)"
      "length ns = length (nodes heap)" "trees_at ns 0 b [Node b (Node a cs # ds)]"
      "\<forall>j. j \<notin> {0, b, a} \<longrightarrow> node_at ns j = node_at (nodes heap) j" using add by blast
    let ?t = "Node b (Node a cs # ds)"
    have "ph_merge_nodes heap a b = Some (root ?t, heap\<lparr>nodes := ns\<rparr>)"
      by (simp add: ph_merge_nodes_def nz False ns(1))
    moreover have "trees_at ns 0 (root ?t) [?t]" unfolding root.simps by (rule ns(3))
    moreover have "ordered (comparator heap) [?t]" using assms(5) False by simp
    ultimately show ?thesis by (rule that [OF _ ns(2)]) (use ns(4) in auto)
  qed
qed

section \<open>The operations on the abstraction\<close>

lemma rep_ids:
  assumes "pheap_rep heap ts fs" and "j \<in> set (ids ts @ fs)"
  shows "j \<noteq> 0 \<and> j \<le> max_nodes heap"
  using assms trees_at_ids [of "nodes heap" 0 "root_id heap" ts j] free_at_ids [of "nodes heap" _ fs j]
  by (auto simp: pheap_rep_def word_le_nat_alt)

lemma contains_iff:
  assumes "pheap_rep heap ts fs" and "i \<noteq> 0" and "i \<le> max_nodes heap"
  shows "ph_contains_node heap i = Some (i \<in> set (ids ts))"
proof -
  from assms(1) have r: "trees_at (nodes heap) 0 (root_id heap) ts" "length ts \<le> 1"
    "i \<notin> set (ids ts) \<Longrightarrow> parent (node_at (nodes heap) i) = 0"
    using assms(2,3) by (auto simp: pheap_rep_def)
  show ?thesis
  proof (cases ts)
    case Nil
    with r assms(2,3) show ?thesis by (simp add: ph_contains_node_def ph_get_node_def)
  next
    case (Cons t us)
    obtain j cs where t: "t = Node j cs" by (cases t)
    have us: "us = []" using r(2) Cons by simp
    have "j \<noteq> 0" "root_id heap = j" "trees_at (nodes heap) j (child (node_at (nodes heap) j)) cs"
      using r(1) Cons t by simp_all
    with trees_at_parents [OF this(3,1)] r(3) assms(2,3) Cons t us show ?thesis
      by (auto simp: ph_contains_node_def ph_get_node_def)
  qed
qed

lemma new_node_rep:
  assumes "pheap_rep heap ts (f # fs)"
  obtains heap' where "ph_new_node heap = Some (f, heap')" and "pheap_rep heap' ts fs"
    and "comparator heap' = comparator heap" and "max_nodes heap' = max_nodes heap"
proof -
  let ?ns = "nodes heap" and ?blank = "\<lparr>child = 0, sibling = 0, parent = 0\<rparr>"
  have fr: "free_head_id heap = f" "f \<noteq> 0" "unat f \<le> length ?ns" "f \<le> max_nodes heap"
    "free_at ?ns (sibling (node_at ?ns f)) fs" and d: "distinct (ids ts @ f # fs)"
    using assms by (auto simp: pheap_rep_def word_le_nat_alt)
  have zero: "sibling (node_at ?ns f) = 0 \<longleftrightarrow> fs = []"
    using fr(5) by (cases fs) auto
  define heap' where "heap' = heap\<lparr>free_head_id := sibling (node_at ?ns f),
    free_tail_id := (if fs = [] then 0 else free_tail_id heap), nodes := ?ns[slot f := ?blank]\<rparr>"
  have run: "ph_new_node heap = Some (f, heap')"
    using fr(1-4) zero by (simp add: ph_new_node_def ph_get_node_def upd_node_def Let_def heap'_def)
  have nodes': "node_at (nodes heap') j = (if j = f then ?blank else node_at ?ns j)" if "j \<noteq> 0" for j
    using that fr(2,3) by (simp add: heap'_def node_at_update)
  have "trees_at (nodes heap') 0 (root_id heap) ts"
    by (rule trees_at_cong [of ?ns]) (use assms d rep_ids [OF assms] in \<open>auto simp: pheap_rep_def nodes' heap'_def [symmetric]\<close>, simp add: heap'_def)
  moreover have "free_at (nodes heap') (sibling (node_at ?ns f)) fs"
    by (rule free_at_cong [OF fr(5)]) (use d rep_ids [OF assms] in \<open>auto simp: nodes'\<close>, simp add: heap'_def)
  ultimately have "pheap_rep heap' ts fs"
    using assms d nodes' by (auto simp: pheap_rep_def heap'_def)
  with run show ?thesis by (rule that) (simp_all add: heap'_def)
qed

text \<open>Merging a new node into the root, there or not.\<close>

lemma merge_root:
  assumes "trees_at (nodes h) 0 (root_id h) ts" and "length ts \<le> 1" and "trees_at (nodes h) 0 i [Node i []]"
    and "distinct (ids ts)" and "i \<notin> set (ids ts)" and "length (nodes h) = unat (max_nodes h)"
    and "ordered (comparator h) ts" and "strict_weak (comparator h)"
  obtains ns t where "ph_merge_nodes h (root_id h) i = Some (root t, h\<lparr>nodes := ns\<rparr>)"
    and "length ns = length (nodes h)" and "trees_at ns 0 (root t) [t]" and "ordered (comparator h) [t]"
    and "mset (ids [t]) = mset (ids ts @ [i])"
    and "\<forall>j. j \<notin> set (ids ts @ [i]) \<and> j \<noteq> 0 \<longrightarrow> node_at ns j = node_at (nodes h) j"
proof (cases ts)
  case Nil
  with assms(1) have "ph_merge_nodes h (root_id h) i = Some (root (Node i []), h\<lparr>nodes := nodes h\<rparr>)"
    by (simp add: ph_merge_nodes_def)
  from that [OF this] assms(3) Nil show ?thesis by simp
next
  case (Cons u us)
  obtain r cs where "u = Node r cs" by (cases u)
  with Cons assms(2) have ts: "ts = [Node r cs]" by simp
  then have r: "root_id h = r" "trees_at (nodes h) 0 r [Node r cs]" using assms(1) by simp_all
  have d: "distinct (ids [Node r cs, Node i []])" using assms(4,5) ts by auto
  have o: "ordered (comparator h) [Node r cs, Node i []]" using assms(7) ts by simp
  from merge_nodes [OF r(2) assms(3) d assms(6) o assms(8)] obtain ns t
    where m: "ph_merge_nodes h r i = Some (root t, h\<lparr>nodes := ns\<rparr>)" "length ns = length (nodes h)"
      "trees_at ns 0 (root t) [t]" "ordered (comparator h) [t]"
      "mset (ids [t]) = mset (ids [Node r cs, Node i []])"
      "\<forall>j. j \<notin> {0, r, i} \<longrightarrow> node_at ns j = node_at (nodes h) j" by blast
  show ?thesis by (rule that [of t ns]) (use m r(1) ts in auto)
qed

lemma insert_node_rep:
  assumes rep: "pheap_rep heap ts fs" and lt: "strict_weak (comparator heap)"
    and i: "i \<noteq> 0" "i \<le> max_nodes heap" "i \<notin> set (ids ts @ fs)"
  obtains t heap' where "ph_insert_node heap i = Some (root_id heap', heap')" and "pheap_rep heap' [t] fs"
    and "set (ids [t]) = insert i (set (ids ts))" and "comparator heap' = comparator heap"
    and "max_nodes heap' = max_nodes heap"
proof -
  let ?blank = "\<lparr>child = 0, sibling = 0, parent = 0\<rparr>"
  define h where "h = upd_node i (\<lambda>_. ?blank) heap"
  from rep have len: "length (nodes heap) = unat (max_nodes heap)" "unat i \<le> length (nodes heap)"
    using i(2) by (simp_all add: pheap_rep_def word_le_nat_alt)
  have h: "comparator h = comparator heap" "max_nodes h = max_nodes heap" "root_id h = root_id heap"
    "free_head_id h = free_head_id heap" "free_tail_id h = free_tail_id heap"
    "length (nodes h) = length (nodes heap)" by (simp_all add: h_def upd_node_def)
  have same: "node_at (nodes h) j = node_at (nodes heap) j" if "j \<noteq> 0" for j
    using that i rep len(2) by (simp add: h_def upd_node_def node_at_update pheap_rep_def)
  have new: "trees_at (nodes h) 0 i [Node i []]"
    using i(1) len(2) h(6) by (simp add: h_def upd_node_def node_at_update)
  have "trees_at (nodes h) 0 (root_id h) ts" unfolding h(3)
    by (rule trees_at_cong [of "nodes heap"]) (use rep h(6) same rep_ids [OF rep] in \<open>auto simp: pheap_rep_def\<close>)
  with new rep lt i(3) len(1) obtain ns t
    where m: "ph_merge_nodes h (root_id h) i = Some (root t, h\<lparr>nodes := ns\<rparr>)"
      "length ns = length (nodes h)" "trees_at ns 0 (root t) [t]" "ordered (comparator h) [t]"
      "mset (ids [t]) = mset (ids ts @ [i])"
      "\<forall>j. j \<notin> set (ids ts @ [i]) \<and> j \<noteq> 0 \<longrightarrow> node_at ns j = node_at (nodes h) j"
    by (elim merge_root [of h ts i]) (simp_all add: pheap_rep_def h)
  define heap' where "heap' = h\<lparr>nodes := ns, root_id := root t\<rparr>"
  have run: "ph_insert_node heap i = Some (root_id heap', heap')"
    using i(1,2) m(1) by (simp add: ph_insert_node_def ph_get_node_def Let_def h_def [symmetric] heap'_def)
  have set_t: "set (ids [t]) = insert i (set (ids ts))" using mset_eq_setD [OF m(5)] by simp
  have keep: "node_at ns j = node_at (nodes heap) j" if "j \<notin> insert i (set (ids ts))" "j \<noteq> 0" for j
    using m(6) same that by simp
  have "node_at ns j = node_at (nodes heap) j" if "j \<in> set fs" for j
  proof -
    have "j \<notin> insert i (set (ids ts))" using that i(3) rep by (auto simp: pheap_rep_def)
    with keep rep_ids [OF rep, of j] that show ?thesis by simp
  qed
  then have "free_at ns (free_head_id heap) fs"
    using rep m(2) h(6) free_at_cong [of "nodes heap" _ fs ns] by (simp add: pheap_rep_def)
  moreover have "distinct (ids [t])" using mset_eq_imp_distinct_iff [OF m(5)] rep i(3)
    by (simp add: pheap_rep_def)
  ultimately have "pheap_rep heap' [t] fs"
    using rep m(2-4) set_t keep i(3) unfolding pheap_rep_def heap'_def
    by (simp add: h del: ids.simps trees_at.simps ordered.simps)
  from that [OF run this set_t] show ?thesis by (simp add: heap'_def h)
qed

text \<open>Freeing appends to the free list, if there is one.\<close>

lemma free_node_rep:
  assumes rep: "pheap_rep heap ts (fs @ [k])" and i: "i \<noteq> 0" "i \<le> max_nodes heap" "i \<notin> set (ids ts @ fs @ [k])"
  obtains heap' where "ph_free_node heap i = Some heap'" and "pheap_rep heap' ts (fs @ [k, i])"
    and "comparator heap' = comparator heap" and "max_nodes heap' = max_nodes heap"
proof -
  let ?ns = "nodes heap"
  have k: "free_tail_id heap = k" "k \<noteq> 0" "k \<le> max_nodes heap" "unat k \<le> length ?ns"
    and free: "free_at ?ns (free_head_id heap) (fs @ [k])"
    using rep rep_ids [OF rep, of k] by (simp_all add: pheap_rep_def word_le_nat_alt)
  have "unat i \<le> length ?ns" and blank: "sibling (node_at ?ns i) = 0"
    using rep i by (simp_all add: pheap_rep_def word_le_nat_alt)
  define heap' where "heap' = heap\<lparr>nodes := ?ns[slot k := (node_at ?ns k)\<lparr>sibling := i\<rparr>], free_tail_id := i\<rparr>"
  have run: "ph_free_node heap i = Some heap'"
    using contains_iff [OF rep i(1,2)] i k
    by (simp add: ph_free_node_def ph_get_node_def upd_node_def heap'_def)
  have nodes': "node_at (nodes heap') j = (if j = k then (node_at ?ns k)\<lparr>sibling := i\<rparr> else node_at ?ns j)"
    if "j \<noteq> 0" for j using that k(2,4) by (simp add: heap'_def node_at_update)
  have "free_at (nodes heap') (free_head_id heap) (fs @ [k, i])"
    using free_at_extend [OF free, of i] rep i \<open>unat i \<le> length ?ns\<close> blank
    by (auto simp: heap'_def pheap_rep_def)
  moreover have "trees_at (nodes heap') 0 (root_id heap) ts"
    by (rule trees_at_cong [of ?ns]) (use rep rep_ids [OF rep] in \<open>auto simp: pheap_rep_def nodes' heap'_def [symmetric]\<close>, simp add: heap'_def)
  ultimately have "pheap_rep heap' ts (fs @ [k, i])"
    using rep i nodes' unfolding pheap_rep_def heap'_def by auto
  from that [OF run this] show ?thesis by (simp add: heap'_def)
qed


section \<open>As a priority queue\<close>

text \<open>
  What a client relies on: an element that is ready can be inserted and is then a member, the
  others stay what they were, and the head is a member that none comes before.
\<close>

fun put_all :: "('k \<Rightarrow> 'q \<Rightarrow> 'q option) \<Rightarrow> 'k list \<Rightarrow> 'q \<Rightarrow> 'q option" where
  "put_all put [] q = Some q"
| "put_all put (k # ks) q = (case put k q of None \<Rightarrow> None | Some q \<Rightarrow> put_all put ks q)"

locale priority_queue =
  fixes ok :: "'q \<Rightarrow> bool"
    and members :: "'q \<Rightarrow> 'k set"
    and ready :: "'q \<Rightarrow> 'k \<Rightarrow> bool"
    and before :: "'q \<Rightarrow> 'k \<Rightarrow> 'k \<Rightarrow> bool"
    and put :: "'k \<Rightarrow> 'q \<Rightarrow> 'q option"
    and head :: "'q \<Rightarrow> 'k"
  assumes put_ready: "ok q \<Longrightarrow> ready q k \<Longrightarrow> \<exists>q'. put k q = Some q' \<and> ok q' \<and> before q' = before q
      \<and> members q' = insert k (members q) \<and> (\<forall>j. j \<noteq> k \<longrightarrow> ready q' j = ready q j)"
    and head_least: "ok q \<Longrightarrow> members q \<noteq> {} \<Longrightarrow> head q \<in> members q \<and> (\<forall>k \<in> members q. \<not> before q k (head q))"
begin

lemma put_all_ready:
  assumes "ok q" and "distinct ks" and "\<forall>k \<in> set ks. ready q k"
  shows "\<exists>q'. put_all put ks q = Some q' \<and> ok q' \<and> before q' = before q
    \<and> members q' = members q \<union> set ks \<and> (\<forall>j. j \<notin> set ks \<longrightarrow> ready q' j = ready q j)"
  using assms
proof (induction ks arbitrary: q)
  case (Cons k ks)
  then obtain q1 where q1: "put k q = Some q1" "ok q1" "before q1 = before q"
    "members q1 = insert k (members q)" "\<forall>j. j \<noteq> k \<longrightarrow> ready q1 j = ready q j"
    using put_ready by force
  then have "\<forall>j \<in> set ks. ready q1 j" using Cons.prems by auto
  with Cons.IH [of q1] Cons.prems(2) q1 show ?case by auto
qed simp

lemma head_of_all:
  assumes "ok q" and "distinct ks" and "\<forall>k \<in> set ks. ready q k" and "put_all put ks q = Some q'"
    and "k \<in> members q \<union> set ks"
  shows "head q' \<in> members q \<union> set ks \<and> \<not> before q k (head q')"
proof -
  have "ok q'" and before: "before q' = before q" and m: "members q' = members q \<union> set ks"
    using put_all_ready [OF assms(1-3)] assms(4) by auto
  have "members q' \<noteq> {}" using m assms(5) by blast
  from head_least [OF \<open>ok q'\<close> this] assms(5) show ?thesis unfolding before m by blast
qed

end

definition in_heap :: "pheap \<Rightarrow> pheap_node_id_t set" where
  "in_heap heap = {i. i \<noteq> 0 \<and> i \<le> max_nodes heap \<and> ph_contains_node heap i = Some True}"

definition allocated :: "pheap \<Rightarrow> pheap_node_id_t \<Rightarrow> bool" where
  "allocated heap i \<longleftrightarrow> i \<noteq> 0 \<and> i \<le> max_nodes heap \<and> i \<notin> in_heap heap
     \<and> (\<forall>fs. free_at (nodes heap) (free_head_id heap) fs \<longrightarrow> i \<notin> set fs)"

definition pheap_ok :: "pheap \<Rightarrow> bool" where
  "pheap_ok heap \<longleftrightarrow> strict_weak (comparator heap) \<and> (\<exists>ts fs. pheap_rep heap ts fs)"

definition put_node :: "pheap_node_id_t \<Rightarrow> pheap \<Rightarrow> pheap option" where
  "put_node i heap = map_option snd (ph_insert_node heap i)"

lemma in_heap_rep: "pheap_rep heap ts fs \<Longrightarrow> in_heap heap = set (ids ts)"
  using contains_iff [of heap ts fs] rep_ids [of heap ts fs] by (auto simp: in_heap_def)

lemma free_at_unique: "free_at ns i js \<Longrightarrow> free_at ns i ks \<Longrightarrow> js = ks"
proof (induction js arbitrary: i ks)
  case Nil
  then show ?case by (cases ks) auto
next
  case (Cons j js)
  then show ?case by (cases ks) auto
qed

lemma allocated_rep:
  assumes "pheap_rep heap ts fs"
  shows "allocated heap i \<longleftrightarrow> i \<noteq> 0 \<and> i \<le> max_nodes heap \<and> i \<notin> set (ids ts @ fs)"
proof -
  have "free_at (nodes heap) (free_head_id heap) js \<longleftrightarrow> js = fs" for js
    using assms free_at_unique unfolding pheap_rep_def by blast
  then show ?thesis by (simp add: allocated_def in_heap_rep [OF assms])
qed

interpretation timers: priority_queue pheap_ok in_heap allocated comparator put_node ph_peek_head
proof
  fix q k assume "pheap_ok q" "allocated q k"
  then obtain ts fs where rep: "strict_weak (comparator q)" "pheap_rep q ts fs" by (auto simp: pheap_ok_def)
  with \<open>allocated q k\<close> have k: "k \<noteq> 0" "k \<le> max_nodes q" "k \<notin> set (ids ts @ fs)"
    by (simp_all add: allocated_rep)
  from insert_node_rep [OF rep(2,1) k] obtain t q'
    where q': "ph_insert_node q k = Some (root_id q', q')" "pheap_rep q' [t] fs"
      "set (ids [t]) = insert k (set (ids ts))" "comparator q' = comparator q" "max_nodes q' = max_nodes q" by blast
  have "\<forall>j. j \<noteq> k \<longrightarrow> allocated q' j = allocated q j"
    using allocated_rep [OF q'(2)] allocated_rep [OF rep(2)] q'(3,5) by auto
  with q' rep show "\<exists>q'. put_node k q = Some q' \<and> pheap_ok q' \<and> comparator q' = comparator q
      \<and> in_heap q' = insert k (in_heap q) \<and> (\<forall>j. j \<noteq> k \<longrightarrow> allocated q' j = allocated q j)"
    by (auto simp: put_node_def pheap_ok_def in_heap_rep)
next
  fix q :: pheap assume ok: "pheap_ok q" "in_heap q \<noteq> {}"
  then obtain ts fs where rep: "strict_weak (comparator q)" "pheap_rep q ts fs" by (auto simp: pheap_ok_def)
  from ok(2) have "ts \<noteq> []" using in_heap_rep [OF rep(2)] by auto
  moreover from rep(2) have "length ts \<le> 1" by (simp add: pheap_rep_def)
  ultimately obtain r cs where ts: "ts = [Node r cs]" by (cases ts; cases "hd ts") auto
  with rep(2) have r: "root_id q = r" "ordered (comparator q) [Node r cs]" by (simp_all add: pheap_rep_def)
  have "\<not> comparator q r r" using rep(1) unfolding strict_weak_def by blast
  then have "\<not> comparator q k r" if "k \<in> set (ids [Node r cs])" for k
    using ordered_least [OF r(2) _ rep(1) that] by simp
  with r ts show "ph_peek_head q \<in> in_heap q \<and> (\<forall>k \<in> in_heap q. \<not> comparator q k (ph_peek_head q))"
    by (simp add: in_heap_rep [OF rep(2)] ph_peek_head_def del: ids.simps) simp
qed


section \<open>Properties\<close>

text \<open>
  C39: nodes that are allocated, inserted one after the other into a well-formed heap, are all
  accepted; the heap stays well formed and holds exactly the old and the new nodes, and its head is
  one of them that none of them comes before.
\<close>

theorem pheap_head_is_least:
  assumes "pheap_ok heap" and "distinct ks" and "list_all (allocated heap) ks" and "k \<in> in_heap heap \<union> set ks"
  shows "\<exists>heap'. put_all put_node ks heap = Some heap' \<and> pheap_ok heap'
    \<and> in_heap heap' = in_heap heap \<union> set ks \<and> ph_peek_head heap' \<in> in_heap heap'
    \<and> \<not> comparator heap k (ph_peek_head heap')"
proof -
  have ready: "\<forall>k \<in> set ks. allocated heap k" using assms(3) by (simp add: list_all_iff)
  from timers.put_all_ready [OF assms(1,2) ready] obtain heap' where
    "put_all put_node ks heap = Some heap'" "pheap_ok heap'" "in_heap heap' = in_heap heap \<union> set ks" by blast
  with timers.head_of_all [OF assms(1,2) ready _ assms(4)] show ?thesis by auto
qed

text \<open>A heap with room for four nodes, of which at most one is free.\<close>

definition sample_heap :: "pheap_node_id_t list \<Rightarrow> pheap" where
  "sample_heap fs = \<lparr>nodes = replicate 4 \<lparr>child = 0, sibling = 0, parent = 0\<rparr>, comparator = (<),
     max_nodes = 4, root_id = 0, free_head_id = (case fs of [] \<Rightarrow> 0 | f # _ \<Rightarrow> f),
     free_tail_id = (if fs = [] then 0 else last fs)\<rparr>"

lemma slot_4: "i \<noteq> 0 \<Longrightarrow> i \<le> 4 \<Longrightarrow> slot i < 4"
  by (rule slot_less) (simp_all add: word_le_nat_alt)

lemma strict_weak_less: "strict_weak ((<) :: u8 \<Rightarrow> u8 \<Rightarrow> bool)"
  by (auto simp: strict_weak_def not_less)

lemma sample_heap_rep: "set fs \<subseteq> {4} \<Longrightarrow> length fs \<le> 1 \<Longrightarrow> pheap_rep (sample_heap fs) [] fs"
  using slot_4 by (cases fs) (auto simp: pheap_rep_def sample_heap_def node_at_def nth_replicate)

theorem pheap_head_is_least_witness:
  "\<exists>heap'. put_all put_node [3, 1, 2] (sample_heap [4]) = Some heap' \<and> in_heap heap' = {1, 2, 3}
    \<and> \<not> 1 < ph_peek_head heap'"
proof -
  have rep: "pheap_rep (sample_heap [4]) [] [4]" by (simp add: sample_heap_rep)
  then have ok: "pheap_ok (sample_heap [4])"
    using strict_weak_less unfolding pheap_ok_def by (auto simp: sample_heap_def)
  have free: "list_all (allocated (sample_heap [4])) [3, 1, 2]"
    using allocated_rep [OF rep] by (simp add: sample_heap_def)
  have "in_heap (sample_heap [4]) = {}" using in_heap_rep [OF rep] by simp
  with pheap_head_is_least [OF ok _ free, of 1] show ?thesis
    by (auto simp: insert_commute sample_heap_def)
qed

text \<open>
  Freed nodes are reused in the order in which they were freed, after all nodes that were free
  before. But when no node was free, the freed node is lost, and so is every node freed after it:
  \<open>ph_free_node\<close> does not set the head of the empty list, and allocation keeps answering 0.
\<close>

theorem freed_nodes_reused_or_lost:
  assumes "pheap_rep heap ts fs" and "allocated heap i"
  shows "\<exists>heap'. ph_free_node heap i = Some heap' \<and>
    (case fs of
       f # gs \<Rightarrow> pheap_rep heap' ts (fs @ [i])
         \<and> (\<exists>heap2. ph_new_node heap' = Some (f, heap2) \<and> pheap_rep heap2 ts (gs @ [i]))
     | [] \<Rightarrow> ph_new_node heap' = Some (0, heap')
         \<and> (\<forall>j. j \<noteq> i \<longrightarrow> allocated heap j \<longrightarrow>
              (\<exists>heap2. ph_free_node heap' j = Some heap2 \<and> ph_new_node heap2 = Some (0, heap2))))"
proof (cases fs)
  case Nil
  note al = allocated_rep [OF assms(1)] and con = contains_iff [OF assms(1)]
  have tails: "free_head_id heap = 0" "free_tail_id heap = 0"
    using assms(1) Nil by (simp_all add: pheap_rep_def)
  let ?h = "heap\<lparr>free_tail_id := i\<rparr>"
  have i: "i \<noteq> 0" "i \<le> max_nodes heap" "i \<notin> set (ids ts)" using assms(2) Nil by (simp_all add: al)
  have "ph_free_node heap i = Some ?h" using i tails by (simp add: ph_free_node_def con)
  moreover have "\<exists>heap2. ph_free_node ?h j = Some heap2 \<and> ph_new_node heap2 = Some (0, heap2)"
    if "allocated heap j" for j
  proof -
    have j: "j \<noteq> 0" "j \<le> max_nodes heap" "j \<notin> set (ids ts)" using that Nil by (simp_all add: al)
    have "ph_contains_node ?h j = ph_contains_node heap j" by (simp add: ph_contains_node_def ph_get_node_def)
    with con [OF j(1,2)] i j tails show ?thesis
      by (simp add: ph_free_node_def ph_get_node_def ph_new_node_def upd_node_def)
  qed
  ultimately show ?thesis using tails Nil by (simp add: ph_new_node_def)
next
  case (Cons f gs)
  then obtain hs k where snoc: "fs = hs @ [k]" by (metis list.distinct(1) rev_exhaust)
  have i: "i \<noteq> 0" "i \<le> max_nodes heap" "i \<notin> set (ids ts @ hs @ [k])"
    using assms snoc by (simp_all add: allocated_rep)
  obtain heap' where heap': "ph_free_node heap i = Some heap'" "pheap_rep heap' ts (fs @ [i])"
    using free_node_rep [OF assms(1) [unfolded snoc] i] snoc by auto
  from heap'(2) have "pheap_rep heap' ts (f # (gs @ [i]))" by (simp add: Cons)
  from new_node_rep [OF this] heap' show ?thesis by (auto simp: Cons)
qed

theorem freed_nodes_reused_or_lost_witness:
  "\<exists>heap'. ph_free_node (sample_heap []) 2 = Some heap' \<and> ph_new_node heap' = Some (0, heap')"
proof -
  have rep: "pheap_rep (sample_heap []) [] []" by (simp add: sample_heap_rep)
  have "allocated (sample_heap []) 2" by (simp add: allocated_rep [OF rep]) (simp add: sample_heap_def)
  from freed_nodes_reused_or_lost [OF rep this] show ?thesis by auto
qed

end
